(* ===== verification/Prelude.thy ===== *)
theory Prelude
  imports Main "HOL-Library.Char_ord" "HOL-Library.List_Lexorder" "HOL-Library.Sublist"
begin

text \<open>
  The shared layer of the development: exceptions as values of a sum type, the chains of
  early raises that the validators of the repository are written as, Python's strings
  (whitespace, stripping, control characters) and dictionaries, and the sorted and
  duplicate-free identifier lists that the ChangeGate models are built from.

  A Python \<open>str\<close> is the HOL \<open>string\<close> of its UTF-8 bytes.  Equality, concatenation, prefix
  tests, tests for ASCII characters and the lexicographic order by code points are the same
  on both sides; the two operations that are not (stripping whitespace and counting
  characters) are written out below for multi-byte characters.
\<close>

named_theorems result_simps \<open>rewriting of the exception plumbing\<close>
named_theorems frame_simps \<open>which fields an operation leaves alone\<close>

section \<open>Exceptions as values\<close>

fun seqE :: "'e + 'a \<Rightarrow> ('a \<Rightarrow> 'e + 'b) \<Rightarrow> 'e + 'b" where
  "seqE (Inl e) f = Inl e"
| "seqE (Inr a) f = f a"

fun raise_first :: "(bool \<times> 'e) list \<Rightarrow> 'e + unit" where
  "raise_first [] = Inr ()"
| "raise_first ((c, e) # rest) = (if c then Inl e else raise_first rest)"

fun mapE :: "('a \<Rightarrow> 'e + 'b) \<Rightarrow> 'a list \<Rightarrow> 'e + 'b list" where
  "mapE f [] = Inr []"
| "mapE f (x # xs) = seqE (f x) (\<lambda>y. seqE (mapE f xs) (\<lambda>ys. Inr (y # ys)))"

fun is_ok :: "'e + 'a \<Rightarrow> bool" where
  "is_ok (Inl e) = False"
| "is_ok (Inr a) = True"

lemma seqE_Inr_iff [result_simps]: "seqE r f = Inr b \<longleftrightarrow> (\<exists>a. r = Inr a \<and> f a = Inr b)"
  by (cases r) auto

lemma seqE_Inl_iff [result_simps]:
  "seqE r f = Inl e \<longleftrightarrow> r = Inl e \<or> (\<exists>a. r = Inr a \<and> f a = Inl e)"
  by (cases r) auto

lemma raise_first_ok [simp]: "raise_first cs = Inr u \<longleftrightarrow> list_all (\<lambda>ce. \<not> fst ce) cs"
  by (induction cs rule: raise_first.induct) auto

lemma if_raise_ok [simp]: "(if c then Inl e else r) = Inr u \<longleftrightarrow> \<not> c \<and> r = Inr u"
  by simp

lemma raise_first_InlD: "raise_first cs = Inl e \<Longrightarrow> (True, e) \<in> set cs"
  by (induction cs rule: raise_first.induct) (auto split: if_splits)

lemma is_ok_iff: "is_ok r \<longleftrightarrow> (\<exists>a. r = Inr a)"
  by (cases r) auto

lemma mapE_Inr_iff: "mapE f xs = Inr ys \<longleftrightarrow> list_all2 (\<lambda>x y. f x = Inr y) xs ys"
  by (induction xs arbitrary: ys) (auto simp: result_simps list_all2_Cons1)

lemma mapE_total: "(\<And>x. x \<in> set xs \<Longrightarrow> f x = Inr (g x)) \<Longrightarrow> mapE f xs = Inr (map g xs)"
  by (induction xs) auto

lemma mapE_Inl_mem: "mapE f xs = Inl e \<Longrightarrow> \<exists>x \<in> set xs. f x = Inl e"
  by (induction xs) (auto simp: result_simps)

lemma sort_Nil_iff [simp]: "sort xs = [] \<longleftrightarrow> xs = []"
  by (metis set_empty set_sort)

lemma mapE_Inr_length: "mapE f xs = Inr ys \<Longrightarrow> length ys = length xs"
  by (simp add: mapE_Inr_iff list_all2_lengthD)

section \<open>Python strings\<close>

abbreviation code_point :: "char \<Rightarrow> nat" where
  "code_point c \<equiv> of_char c"

definition ascii_space :: "char \<Rightarrow> bool" where
  "ascii_space c =
     ((9 \<le> code_point c \<and> code_point c \<le> 13) \<or> (28 \<le> code_point c \<and> code_point c \<le> 32))"

text \<open>The whitespace characters beyond ASCII that \<open>str.strip\<close> removes, in UTF-8.\<close>

definition wide_spaces :: "string list" where
  "wide_spaces =
     [[CHR 0xC2, CHR 0x85], [CHR 0xC2, CHR 0xA0], [CHR 0xE1, CHR 0x9A, CHR 0x80]]
     @ map (\<lambda>b. [CHR 0xE2, CHR 0x80, b])
         [CHR 0x80, CHR 0x81, CHR 0x82, CHR 0x83, CHR 0x84, CHR 0x85, CHR 0x86, CHR 0x87,
          CHR 0x88, CHR 0x89, CHR 0x8A, CHR 0xA8, CHR 0xA9, CHR 0xAF]
     @ [[CHR 0xE2, CHR 0x81, CHR 0x9F], [CHR 0xE3, CHR 0x80, CHR 0x80]]"

fun starts_with :: "string \<Rightarrow> string \<Rightarrow> bool" where
  "starts_with [] s = True"
| "starts_with (x # xs) [] = False"
| "starts_with (x # xs) (y # ys) = (x = y \<and> starts_with xs ys)"

text \<open>
  Dropping leading whitespace, with the multi-byte whitespace characters given as a list (so
  that the same function read backwards strips the end).
\<close>

fun strip_front :: "string list \<Rightarrow> string \<Rightarrow> string" where
  "strip_front ws [] = []"
| "strip_front ws (c # cs) =
     (if ascii_space c then strip_front ws cs
      else case filter (\<lambda>w. starts_with w (c # cs)) ws of
        [] \<Rightarrow> c # cs
      | w # _ \<Rightarrow> strip_front ws (drop (length w - 1) cs))"

definition lstrip :: "string \<Rightarrow> string" where
  "lstrip s = strip_front wide_spaces s"

definition rstrip :: "string \<Rightarrow> string" where
  "rstrip s = rev (strip_front (map rev wide_spaces) (rev s))"

definition strip :: "string \<Rightarrow> string" where
  "strip s = rstrip (lstrip s)"

abbreviation blank :: "string \<Rightarrow> bool" where
  "blank s \<equiv> strip s = []"

definition control_char :: "char \<Rightarrow> bool" where
  "control_char c = (code_point c < 32 \<or> c = CHR 0x7F)"

definition between :: "char \<Rightarrow> char \<Rightarrow> char \<Rightarrow> bool" where
  "between lo hi c = (code_point lo \<le> code_point c \<and> code_point c \<le> code_point hi)"

text \<open>Stripping is idempotent, and what it leaves is a contiguous part of the input.\<close>

lemma starts_with_prefix: "starts_with w s \<longleftrightarrow> prefix w s"
  by (induction w s rule: starts_with.induct) auto

lemma strip_front_suffix: "suffix (strip_front ws s) s"
proof (induction ws s rule: strip_front.induct)
  case (2 ws c cs)
  have "suffix (drop n cs) (c # cs)" for n
    by (metis suffix_ConsI suffix_drop)
  with 2 show ?case
    by (auto split: list.splits intro: suffix_ConsI) (meson suffix_order.trans)
qed simp

lemma strip_front_shorter:
  assumes "strip_front ws s \<noteq> s"
  shows "length (strip_front ws s) < length s"
proof -
  obtain zs where zs: "s = zs @ strip_front ws s"
    using strip_front_suffix by (auto simp: suffix_def)
  with assms have "zs \<noteq> []" by auto
  then have "length (strip_front ws s) < length (zs @ strip_front ws s)" by simp
  with zs show ?thesis by simp
qed

text \<open>A string that stripping leaves alone: nothing to strip at its front.\<close>

definition front_clean :: "string list \<Rightarrow> string \<Rightarrow> bool" where
  "front_clean ws s = (case s of [] \<Rightarrow> True
     | c # _ \<Rightarrow> \<not> ascii_space c \<and> (\<forall>w \<in> set ws. \<not> prefix w s))"

lemma strip_front_clean: "front_clean ws (strip_front ws s)"
  by (induction ws s rule: strip_front.induct)
     (auto simp: front_clean_def starts_with_prefix filter_empty_conv split: list.splits)

lemma strip_front_id: "front_clean ws s \<Longrightarrow> strip_front ws s = s"
  by (cases s) (auto simp: front_clean_def starts_with_prefix filter_empty_conv split: list.splits)

lemma front_clean_prefix: "front_clean ws s \<Longrightarrow> prefix t s \<Longrightarrow> front_clean ws t"
  by (cases t; cases s) (auto simp: front_clean_def, meson prefix_order.trans Cons_prefix_Cons)

lemma lstrip_rstrip_lstrip: "lstrip (rstrip (lstrip s)) = rstrip (lstrip s)"
proof -
  have "prefix (rstrip (lstrip s)) (lstrip s)"
    using strip_front_suffix [of "map rev wide_spaces" "rev (lstrip s)"]
    by (simp add: rstrip_def suffix_to_prefix)
  then show ?thesis
    unfolding lstrip_def using strip_front_clean strip_front_id front_clean_prefix by metis
qed

lemma rstrip_idem: "rstrip (rstrip s) = rstrip s"
  by (simp add: rstrip_def strip_front_id strip_front_clean)

lemma strip_idem [simp]: "strip (strip s) = strip s"
  by (simp add: strip_def lstrip_rstrip_lstrip rstrip_idem)

lemma strip_Nil [simp]: "strip [] = []"
  by (simp add: strip_def lstrip_def rstrip_def)

text \<open>A string of visible ASCII characters has nothing to strip.\<close>

definition visible :: "char \<Rightarrow> bool" where
  "visible c = (33 \<le> code_point c \<and> code_point c \<le> 126)"

lemma wide_spaces_not_visible: "w \<in> set wide_spaces \<Longrightarrow> w \<noteq> [] \<and> list_all (\<lambda>c. \<not> visible c) w"
  by (auto simp: wide_spaces_def visible_def)

lemma front_clean_visible:
  assumes "list_all visible s" and "\<And>w. w \<in> set ws \<Longrightarrow> w \<noteq> [] \<and> list_all (\<lambda>c. \<not> visible c) w"
  shows "front_clean ws s"
proof (cases s)
  case (Cons c cs)
  have "\<not> prefix w s" if "w \<in> set ws" for w
    using assms(1) assms(2) [OF that] Cons by (cases w) auto
  with Cons assms(1) show ?thesis by (auto simp: front_clean_def ascii_space_def visible_def)
qed (simp add: front_clean_def)

lemma strip_visible: "list_all visible s \<Longrightarrow> strip s = s"
proof -
  assume v: "list_all visible s"
  have "front_clean wide_spaces s"
    using v wide_spaces_not_visible by (rule front_clean_visible)
  moreover have "front_clean (map rev wide_spaces) (rev s)"
    using v wide_spaces_not_visible by (intro front_clean_visible) auto
  ultimately show ?thesis
    by (simp add: strip_def lstrip_def rstrip_def strip_front_id)
qed

lemma strip_front_keeps_visible:
  assumes "\<And>w. w \<in> set ws \<Longrightarrow> w \<noteq> [] \<and> list_all (\<lambda>c. \<not> visible c) w"
    and "c \<in> set s" and "visible c"
  shows "c \<in> set (strip_front ws s)"
  using assms
proof (induction ws s rule: strip_front.induct)
  case (2 ws d cs)
  show ?case
  proof (cases "ascii_space d")
    case True
    then have "c \<noteq> d" using 2(5) by (auto simp: ascii_space_def visible_def)
    with 2 True show ?thesis by auto
  next
    case False
    show ?thesis
    proof (cases "filter (\<lambda>w. starts_with w (d # cs)) ws")
      case (Cons w rest)
      then have "w \<in> set (filter (\<lambda>w. starts_with w (d # cs)) ws)" by simp
      then have w: "w \<in> set ws" "prefix w (d # cs)" by (auto simp: starts_with_prefix)
      then obtain zs where zs: "d # cs = w @ zs" by (auto simp: prefix_def)
      with 2(3) [OF w(1)] have "c \<in> set zs" using 2(4,5) by (auto simp: list_all_iff)
      moreover have "drop (length w - 1) cs = zs"
        using zs 2(3) [OF w(1)] by (cases w) auto
      ultimately show ?thesis using 2(2) [OF False Cons 2(3)] 2(5) False Cons by simp
    qed (use False 2(4) in auto)
  qed
qed simp

lemma visible_not_blank:
  assumes "c \<in> set s" and "visible c"
  shows "\<not> blank s"
proof -
  have "c \<in> set (lstrip s)"
    unfolding lstrip_def using wide_spaces_not_visible assms by (rule strip_front_keeps_visible)
  then have "c \<in> set (strip_front (map rev wide_spaces) (rev (lstrip s)))"
    using wide_spaces_not_visible assms(2) by (intro strip_front_keeps_visible) auto
  then show ?thesis by (auto simp: strip_def rstrip_def)
qed

lemma not_blank_strip: "\<not> blank s \<Longrightarrow> \<not> blank (strip s)"
  by simp

end
