(* ===== verification/Py_Value.thy ===== *)
theory Py_Value
  imports Prelude
begin

text \<open>
  The universe of dynamically typed Python values that the agent passes around: JSON-like
  data, members of a string enum and instances of dataclasses.  Dictionaries are association
  lists in insertion order with distinct keys.  What the model takes from the host language
  without describing it is the record \<open>host\<close>: how \<open>str\<close> prints a container or an object,
  attribute lookup beyond dataclass fields, and the Unicode tables behind \<open>str.lower\<close>.
\<close>

section \<open>Values\<close>

text \<open>A finite float is represented by the text that \<open>repr\<close> prints for it.\<close>

datatype pyfloat = PyNaN | PyInf | PyNegInf | PyFinite string

datatype pyval =
    VNone
  | VBool bool
  | VInt int
  | VFloat pyfloat
  | VStr string
  | VList "pyval list"
  | VTuple "pyval list"
  | VDict "(pyval \<times> pyval) list"
  | VEnum string string
  | VObj string "(string \<times> pyval) list"

type_synonym kwargs = "(string \<times> pyval) list"

datatype exn = Exn (exn_type: string) (exn_msg: string)

record host =
  py_str :: "pyval \<Rightarrow> string"
  py_attr :: "pyval \<Rightarrow> string \<Rightarrow> pyval option"
  py_lower :: "string \<Rightarrow> string"
  py_isdigit :: "string \<Rightarrow> bool"
  py_int :: "string \<Rightarrow> nat option"

abbreviation ValueError :: "string \<Rightarrow> exn" where
  "ValueError m \<equiv> Exn ''ValueError'' m"

definition dict_of :: "kwargs \<Rightarrow> pyval" where
  "dict_of kvs = VDict (map (\<lambda>(k, v). (VStr k, v)) kvs)"

text \<open>
  Members of a string enum are strings to \<open>isinstance\<close>, to equality and to hashing, and so to a
  dictionary lookup; \<open>dict.get(k, default)\<close>.
\<close>

definition text_of :: "pyval \<Rightarrow> string option" where
  "text_of v = (case v of VStr s \<Rightarrow> Some s | VEnum c s \<Rightarrow> Some s | _ \<Rightarrow> None)"

definition dict_get_or :: "pyval \<Rightarrow> (pyval \<times> pyval) list \<Rightarrow> string \<Rightarrow> pyval" where
  "dict_get_or d kvs k =
     (case find (\<lambda>kv. text_of (fst kv) = Some k) kvs of None \<Rightarrow> d | Some kv \<Rightarrow> snd kv)"

abbreviation dict_get :: "(pyval \<times> pyval) list \<Rightarrow> string \<Rightarrow> pyval" where
  "dict_get \<equiv> dict_get_or VNone"

text \<open>\<open>None\<close> or a string.\<close>

definition opt_str :: "string option \<Rightarrow> pyval" where
  "opt_str s = (case s of None \<Rightarrow> VNone | Some t \<Rightarrow> VStr t)"

lemma text_of_simps [simp]: "text_of (VStr s) = Some s" "text_of (VEnum c s) = Some s"
  by (simp_all add: text_of_def)

lemma dict_get_str [simp]:
  "dict_get_or d (map (\<lambda>(k, v). (VStr k, v)) kvs) k = (case map_of kvs k of None \<Rightarrow> d | Some v \<Rightarrow> v)"
  by (induction kvs) (auto simp: dict_get_or_def)

section \<open>Printing\<close>

fun show_nat :: "nat \<Rightarrow> string" where
  "show_nat n =
     (if n < 10 then [char_of (48 + n)] else show_nat (n div 10) @ [char_of (48 + n mod 10)])"

declare show_nat.simps [simp del]

definition show_int :: "int \<Rightarrow> string" where
  "show_int i = (if i < 0 then ''-'' @ show_nat (nat (- i)) else show_nat (nat i))"

fun show_float :: "pyfloat \<Rightarrow> string" where
  "show_float PyNaN = ''nan''"
| "show_float PyInf = ''inf''"
| "show_float PyNegInf = ''-inf''"
| "show_float (PyFinite t) = t"

fun join :: "string \<Rightarrow> string list \<Rightarrow> string" where
  "join sep [] = []"
| "join sep [x] = x"
| "join sep (x # y # ys) = x @ sep @ join sep (y # ys)"

text \<open>Python's \<open>str(x)\<close>; a member of a \<open>StrEnum\<close> prints as its value.\<close>

fun to_str :: "host \<Rightarrow> pyval \<Rightarrow> string" where
  "to_str h VNone = ''None''"
| "to_str h (VBool b) = (if b then ''True'' else ''False'')"
| "to_str h (VInt i) = show_int i"
| "to_str h (VFloat f) = show_float f"
| "to_str h (VStr s) = s"
| "to_str h (VEnum c s) = s"
| "to_str h v = py_str h v"

text \<open>\<open>dataclasses.asdict\<close>: dataclass instances become dictionaries, at every depth.\<close>

fun asdict :: "pyval \<Rightarrow> pyval" where
  "asdict (VObj c fs) = VDict (map (\<lambda>(k, v). (VStr k, asdict v)) fs)"
| "asdict (VList vs) = VList (map asdict vs)"
| "asdict (VTuple vs) = VTuple (map asdict vs)"
| "asdict (VDict kvs) = VDict (map (\<lambda>(k, v). (asdict k, asdict v)) kvs)"
| "asdict v = v"

section \<open>Splitting\<close>

text \<open>\<open>s.split(sep)\<close> for a separator of one character.\<close>

fun split_on :: "char \<Rightarrow> string \<Rightarrow> string list" where
  "split_on d [] = [[]]"
| "split_on d (c # cs) =
     (if c = d then [] # split_on d cs
      else case split_on d cs of [] \<Rightarrow> [[c]] | w # ws \<Rightarrow> (c # w) # ws)"

text \<open>\<open>w in s\<close> on strings.\<close>

fun contains :: "string \<Rightarrow> string \<Rightarrow> bool" where
  "contains w [] = (w = [])"
| "contains w (c # cs) = (starts_with w (c # cs) \<or> contains w cs)"

text \<open>The number of characters of a string given by its UTF-8 bytes.\<close>

definition py_len :: "string \<Rightarrow> nat" where
  "py_len s = length (filter (\<lambda>c. \<not> (128 \<le> code_point c \<and> code_point c < 192)) s)"

text \<open>The characters of a string given by its UTF-8 bytes; their order is that of code points.\<close>

definition continuation :: "char \<Rightarrow> bool" where
  "continuation c \<longleftrightarrow> 128 \<le> code_point c \<and> code_point c < 192"

function py_chars :: "string \<Rightarrow> string list" where
  "py_chars [] = []"
| "py_chars (c # cs) = (c # takeWhile continuation cs) # py_chars (dropWhile continuation cs)"
  by pat_completeness auto
termination
  by (relation "measure length") (auto simp: length_dropWhile_le less_Suc_eq_le)

text \<open>\<open>s.split()\<close>: the maximal runs of characters that are not whitespace.\<close>

function (sequential) split_words_from :: "string \<Rightarrow> string \<Rightarrow> string list" where
  "split_words_from acc [] = (if acc = [] then [] else [rev acc])"
| "split_words_from acc (c # cs) =
     (if strip_front wide_spaces (c # cs) = c # cs then split_words_from (c # acc) cs
      else (if acc = [] then [] else [rev acc])
           @ split_words_from [] (strip_front wide_spaces (c # cs)))"
  by pat_completeness auto
termination
  by (relation "measure (\<lambda>(acc, s). length s)") (auto simp del: strip_front.simps dest: strip_front_shorter)

definition split_words :: "string \<Rightarrow> string list" where
  "split_words s = split_words_from [] s"

text \<open>Facts about splitting and printing.\<close>

lemma split_on_not_Nil [simp]: "split_on d s \<noteq> []"
  by (induction s) (auto split: list.splits)

lemma split_on_no_sep: "w \<in> set (split_on d s) \<Longrightarrow> d \<notin> set w"
proof (induction s arbitrary: w)
  case (Cons c cs)
  show ?case
  proof (cases "split_on d cs")
    case Nil
    then show ?thesis by simp
  next
    case (Cons v vs)
    with Cons.prems Cons.IH show ?thesis by (auto split: if_splits)
  qed
qed simp

lemma show_nat_not_Nil [simp]: "show_nat n \<noteq> []"
  by (subst show_nat.simps) simp

end
