(* ===== verification/Agent_State.thy ===== *)
theory Agent_State
  imports Py_Value Complex_Main
begin

text \<open>
  The state of one task run (\<open>agent_core/state\<close>): the enums, tool results and observations,
  \<open>Step\<close> and \<open>AgentState\<close> with their operations, the memory contracts that the state holds
  (\<open>ContextPack\<close>, the confirmed-save operation) and the session state that collects one
  record per finished turn.  Time stamps and generated identifiers are plain values: the
  code reads them from the clock and from \<open>uuid4\<close> when an object is created.
\<close>

section \<open>Enums\<close>

datatype source_type = WEB | MEMORY | TOOL | USER | AGENT | SYSTEM | SESSION | WORKSPACE | SKILL

datatype trust_level = TRUSTED_INSTRUCTION | TRUSTED_CONFIGURATION | UNTRUSTED_EVIDENCE

datatype memory_type =
    NOTE | FACT | PREFERENCE | DECISION | RULE | TASK_SUMMARY | SOURCE | LESSON | PROJECT_CONTEXT

datatype step_status = PENDING | RUNNING | COMPLETED | FAILED | SKIPPED

datatype risk_level = LOW | MEDIUM | HIGH | CRITICAL

datatype tool_result_kind = TEXT | NUMBER | JSON | SEARCH | ACTION | FILE | EMPTY

datatype tool_name =
    CALCULATE | WRITE_NOTE | READ_NOTE | LIST_NOTES | SAVE_FACT | SAVE_PREFERENCE
  | SAVE_DECISION | SEARCH_MEMORY | SUMMARIZE_MEMORY | SUMMARIZE | WEB_SEARCH | FINISH
  | ANSWER_FROM_CONTEXT

datatype agent_status =
    is_created: CREATED
  | PLANNING
  | RUNNING
  | COMPLETED
  | FAILED

fun tool_name_value :: "tool_name \<Rightarrow> string" where
  "tool_name_value CALCULATE = ''calculate''"
| "tool_name_value WRITE_NOTE = ''write_note''"
| "tool_name_value READ_NOTE = ''read_note''"
| "tool_name_value LIST_NOTES = ''list_notes''"
| "tool_name_value SAVE_FACT = ''save_fact''"
| "tool_name_value SAVE_PREFERENCE = ''save_preference''"
| "tool_name_value SAVE_DECISION = ''save_decision''"
| "tool_name_value SEARCH_MEMORY = ''search_memory''"
| "tool_name_value SUMMARIZE_MEMORY = ''summarize_memory''"
| "tool_name_value SUMMARIZE = ''summarize''"
| "tool_name_value WEB_SEARCH = ''web_search''"
| "tool_name_value FINISH = ''finish''"
| "tool_name_value ANSWER_FROM_CONTEXT = ''answer_from_context''"

fun agent_status_value :: "agent_status \<Rightarrow> string" where
  "agent_status_value CREATED = ''created''"
| "agent_status_value PLANNING = ''planning''"
| "agent_status_value agent_status.RUNNING = ''running''"
| "agent_status_value agent_status.COMPLETED = ''completed''"
| "agent_status_value agent_status.FAILED = ''failed''"

fun step_status_value :: "step_status \<Rightarrow> string" where
  "step_status_value PENDING = ''pending''"
| "step_status_value step_status.RUNNING = ''running''"
| "step_status_value step_status.COMPLETED = ''completed''"
| "step_status_value step_status.FAILED = ''failed''"
| "step_status_value SKIPPED = ''skipped''"

fun risk_level_value :: "risk_level \<Rightarrow> string" where
  "risk_level_value LOW = ''low''"
| "risk_level_value MEDIUM = ''medium''"
| "risk_level_value HIGH = ''high''"
| "risk_level_value CRITICAL = ''critical''"

fun kind_value :: "tool_result_kind \<Rightarrow> string" where
  "kind_value TEXT = ''text''"
| "kind_value NUMBER = ''number''"
| "kind_value JSON = ''json''"
| "kind_value SEARCH = ''search''"
| "kind_value ACTION = ''action''"
| "kind_value FILE = ''file''"
| "kind_value EMPTY = ''empty''"

section \<open>Tool results and observations\<close>

record source =
  src_title :: string
  src_url :: "string option"
  src_snippet :: "string option"
  src_type :: string
  src_metadata :: kwargs

record tool_result =
  success :: bool
  res_output :: pyval
  error :: "string option"
  res_tool_name :: "string option"
  kind :: tool_result_kind
  res_sources :: "source list"
  metadata :: kwargs

definition source_val :: "source \<Rightarrow> pyval" where
  "source_val s = VObj ''Source''
     [(''title'', VStr (src_title s)), (''url'', opt_str (src_url s)),
      (''snippet'', opt_str (src_snippet s)), (''source_type'', VStr (src_type s)),
      (''metadata'', dict_of (src_metadata s))]"

text \<open>A tool result seen as a Python object, for the placeholders that reach into it.\<close>

definition result_val :: "tool_result \<Rightarrow> pyval" where
  "result_val r = VObj ''ToolResult''
     [(''success'', VBool (success r)), (''output'', res_output r), (''error'', opt_str (error r)),
      (''tool_name'', opt_str (res_tool_name r)),
      (''kind'', VEnum ''ToolResultKind'' (kind_value (kind r))),
      (''sources'', VList (map source_val (res_sources r))),
      (''metadata'', dict_of (metadata r))]"

record observation =
  step_index :: nat
  obs_action :: string
  obs_args :: kwargs
  obs_success :: bool
  obs_trust :: trust_level
  obs_source_type :: source_type
  obs_source_ref :: string
  obs_output :: pyval
  obs_error :: "string option"
  obs_sources :: "source list"

section \<open>Memory contracts held by the state\<close>

text \<open>Scores and importances are finite floats, given by the value of their decimal form.\<close>

record context_item =
  ci_content :: string
  ci_type :: memory_type
  ci_score :: rat
  ci_tokens :: nat
  ci_source :: string
  ci_provenance :: string
  ci_confidence :: string
  ci_freshness :: string
  ci_metadata :: kwargs
  ci_source_type :: source_type
  ci_trust :: trust_level
  ci_source_ref :: "string option"

record context_pack =
  items :: "context_item list"
  total_items :: nat
  tokens_used :: nat
  token_budget :: int
  truncated :: bool
  degraded :: bool
  memory_source :: string

text \<open>\<open>EvidenceEnvelope\<close>, with its metadata of scalars and tuples as a value.\<close>

record evidence_envelope =
  ev_content :: string
  ev_source_type :: source_type
  ev_trust_level :: trust_level
  ev_source_ref :: "string option"
  ev_metadata :: kwargs

record confirmed_decision =
  confirmation_id :: string
  cd_content :: string
  confirmation_evidence :: evidence_envelope

record confirmed_save_op =
  request_id :: string
  op_task_id :: string
  op_session_id :: "string option"
  decision :: confirmed_decision

section \<open>Steps and the agent state\<close>

text \<open>
  A step's action is declared a \<open>ToolName\<close>, but the executor also defends against a bare
  string; both are kept.  \<open>ToolName\<close> is a \<open>StrEnum\<close>, so a bare string with the value of a
  member is equal to it (\<open>action_text\<close>).
\<close>

datatype action = Tool tool_name | RawAction string

fun action_text :: "action \<Rightarrow> string" where
  "action_text (Tool t) = tool_name_value t"
| "action_text (RawAction s) = s"

record step =
  thought :: string
  action :: action
  args :: kwargs
  step_id :: string
  step_status :: step_status
  step_risk :: risk_level
  depends_on :: "string list"
  step_metadata :: kwargs

definition mark_running :: "step \<Rightarrow> step" where
  "mark_running st = st\<lparr>step_status := step_status.RUNNING\<rparr>"

definition mark_completed :: "step \<Rightarrow> step" where
  "mark_completed st = st\<lparr>step_status := step_status.COMPLETED\<rparr>"

definition mark_failed :: "step \<Rightarrow> step" where
  "mark_failed st = st\<lparr>step_status := step_status.FAILED\<rparr>"

record 'm agent_state =
  goal :: string
  task_id :: string
  user_id :: "string option"
  session_id :: "string option"
  status :: agent_status
  plan :: "step list"
  current_step :: nat
  done_flag :: bool
  final_answer :: "string option"
  last_result :: "tool_result option"
  slots :: kwargs
  memory :: 'm
  history :: "string list"
  observations :: "observation list"
  sources :: "source list"
  errors :: "string list"
  context_pack_of :: "context_pack option"
  memory_degraded :: bool
  memory_write_failed :: bool
  disclosure_reasons :: "string list"
  context_consumed :: bool
  max_steps :: nat
  approved_tools :: "tool_name set"
  read_only :: bool
  confirmed_save_operation :: "confirmed_save_op option"

text \<open>\<open>str(url or title or source)\<close>: an empty url or title is falsy.\<close>

definition source_key :: "host \<Rightarrow> source \<Rightarrow> string" where
  "source_key h s =
     (case src_url s of
        Some (c # cs) \<Rightarrow> c # cs
      | _ \<Rightarrow> (if src_title s \<noteq> [] then src_title s else to_str h (source_val s)))"

fun add_new_sources :: "host \<Rightarrow> source list \<Rightarrow> source list \<Rightarrow> source list" where
  "add_new_sources h old [] = old"
| "add_new_sources h old (s # ss) =
     (if source_key h s \<in> source_key h ` set old then add_new_sources h old ss
      else add_new_sources h (old @ [s]) ss)"

definition add_sources :: "host \<Rightarrow> source list \<Rightarrow> 'm agent_state \<Rightarrow> 'm agent_state" where
  "add_sources h ss s = s\<lparr>sources := add_new_sources h (sources s) ss\<rparr>"

definition add_observation :: "host \<Rightarrow> observation \<Rightarrow> 'm agent_state \<Rightarrow> 'm agent_state" where
  "add_observation h obs s =
     (let s' = s\<lparr>observations := observations s @ [obs]\<rparr>
      in if obs_sources obs = [] then s' else add_sources h (obs_sources obs) s')"

fun dict_put :: "'k \<Rightarrow> 'v \<Rightarrow> ('k \<times> 'v) list \<Rightarrow> ('k \<times> 'v) list" where
  "dict_put k v [] = [(k, v)]"
| "dict_put k v ((k', v') # kvs) = (if k' = k then (k, v) # kvs else (k', v') # dict_put k v kvs)"

definition set_slot :: "string \<Rightarrow> pyval \<Rightarrow> 'm agent_state \<Rightarrow> 'm agent_state" where
  "set_slot k v s = s\<lparr>slots := dict_put k v (slots s)\<rparr>"

definition get_slot :: "string \<Rightarrow> pyval \<Rightarrow> 'm agent_state \<Rightarrow> pyval" where
  "get_slot k dflt s = (case map_of (slots s) k of None \<Rightarrow> dflt | Some v \<Rightarrow> v)"

definition approve_tool :: "tool_name \<Rightarrow> 'm agent_state \<Rightarrow> 'm agent_state" where
  "approve_tool t s = s\<lparr>approved_tools := insert t (approved_tools s)\<rparr>"

definition revoke_tool_approval :: "tool_name \<Rightarrow> 'm agent_state \<Rightarrow> 'm agent_state" where
  "revoke_tool_approval t s = s\<lparr>approved_tools := approved_tools s - {t}\<rparr>"

definition fail :: "string \<Rightarrow> 'm agent_state \<Rightarrow> 'm agent_state" where
  "fail e s = s\<lparr>status := agent_status.FAILED, done_flag := True,
               final_answer := Some e, errors := errors s @ [e]\<rparr>"

definition complete :: "string \<Rightarrow> 'm agent_state \<Rightarrow> 'm agent_state" where
  "complete a s = s\<lparr>status := agent_status.COMPLETED, done_flag := True,
                   final_answer := Some a\<rparr>"

definition is_terminal :: "'m agent_state \<Rightarrow> bool" where
  "is_terminal s =
     (done_flag s \<or> status s = agent_status.COMPLETED \<or> status s = agent_status.FAILED)"

definition can_continue :: "'m agent_state \<Rightarrow> bool" where
  "can_continue s = (\<not> is_terminal s \<and> current_step s < max_steps s)"

text \<open>\<open>RuntimeLifecycle.emit_event\<close>: an event leaves one line in the history.\<close>

definition emit_event :: "string \<Rightarrow> nat option \<Rightarrow> 'm agent_state \<Rightarrow> 'm agent_state" where
  "emit_event name idx s =
     s\<lparr>history := history s @
        [''[event] '' @ name @ '' status='' @ agent_status_value (status s) @ '' step='' @
         (case idx of None \<Rightarrow> ''None'' | Some i \<Rightarrow> show_nat i)]\<rparr>"

text \<open>
  \<open>debug_dump\<close>: the time stamps of the steps and the order in which a set is listed are arguments.  An
  action that is a bare string has no \<open>value\<close>.
\<close>

definition step_dump :: "(step \<Rightarrow> string) \<Rightarrow> step \<Rightarrow> exn + pyval" where
  "step_dump stamp st =
     (case action st of
        RawAction a \<Rightarrow> Inl (Exn ''AttributeError'' ''str object has no attribute value'')
      | Tool t \<Rightarrow> Inr (dict_of
          [(''id'', VStr (step_id st)), (''thought'', VStr (thought st)), (''action'', VStr (tool_name_value t)),
           (''args'', dict_of (args st)), (''status'', VStr (step_status_value (step_status st))),
           (''risk_level'', VStr (risk_level_value (step_risk st))),
           (''depends_on'', VList (map VStr (depends_on st))), (''created_at'', VStr (stamp st)),
           (''metadata'', dict_of (step_metadata st))]))"

definition debug_dump ::
  "(step \<Rightarrow> string) \<Rightarrow> (tool_name set \<Rightarrow> tool_name list) \<Rightarrow> 'm agent_state \<Rightarrow> exn + pyval" where
  "debug_dump stamp order s =
     seqE (mapE (step_dump stamp) (plan s)) (\<lambda>steps. Inr (dict_of
       [(''goal'', VStr (goal s)), (''task_id'', VStr (task_id s)), (''user_id'', opt_str (user_id s)),
        (''session_id'', opt_str (session_id s)), (''status'', VStr (agent_status_value (status s))),
        (''current_step'', VInt (int (current_step s))), (''done'', VBool (done_flag s)),
        (''final_answer'', opt_str (final_answer s)), (''slots'', dict_of (slots s)),
        (''errors'', VList (map VStr (errors s))), (''max_steps'', VInt (int (max_steps s))),
        (''read_only'', VBool (read_only s)),
        (''approved_tools'', VList (map (VStr \<circ> tool_name_value) (order (approved_tools s)))),
        (''plan'', VList steps), (''observations_count'', VInt (int (length (observations s)))),
        (''sources_count'', VInt (int (length (sources s)))),
        (''last_result_success'', case last_result s of None \<Rightarrow> VNone | Some r \<Rightarrow> VBool (success r)),
        (''last_result_error'', case last_result s of None \<Rightarrow> VNone | Some r \<Rightarrow> opt_str (error r))]))"

section \<open>Session state\<close>

record turn_record =
  tr_task_id :: string
  tr_goal :: string
  tr_final_answer :: "string option"
  tr_status :: agent_status
  tr_planned_actions :: "string list"
  tr_memory_degraded :: bool
  tr_memory_write_failed :: bool
  tr_disclosure_reasons :: "string list"
  tr_completed_at :: int

record session_status_view =
  sv_session_id :: string
  sv_turn_count :: nat
  sv_last_status :: "agent_status option"
  sv_last_goal :: "string option"

record session_state =
  ss_session_id :: string
  ss_created_at :: int
  ss_updated_at :: int
  turns :: "turn_record list"

definition append_turn :: "turn_record \<Rightarrow> session_state \<Rightarrow> session_state" where
  "append_turn r ss = ss\<lparr>turns := turns ss @ [r], ss_updated_at := tr_completed_at r\<rparr>"

definition status_view :: "session_state \<Rightarrow> session_status_view" where
  "status_view ss =
     \<lparr>sv_session_id = ss_session_id ss, sv_turn_count = length (turns ss),
      sv_last_status = (if turns ss = [] then None else Some (tr_status (last (turns ss)))),
      sv_last_goal = (if turns ss = [] then None else Some (tr_goal (last (turns ss))))\<rparr>"

text \<open>\<open>self.turns[-limit:]\<close> with the guard \<open>limit \<ge> 1\<close>.\<close>

definition history_view :: "int \<Rightarrow> session_state \<Rightarrow> exn + turn_record list" where
  "history_view n ss =
     (if n < 1 then Inl (ValueError (''limit must be >= 1, got '' @ show_int n))
      else Inr (drop (length (turns ss) - nat n) (turns ss)))"

section \<open>Lemmas\<close>

named_theorems state_defs \<open>definitions of the state operations\<close>

declare add_sources_def [state_defs] add_observation_def [state_defs] set_slot_def [state_defs]
  fail_def [state_defs] complete_def [state_defs] emit_event_def [state_defs]
  approve_tool_def [state_defs] revoke_tool_approval_def [state_defs]

lemma tool_name_value_inj: "tool_name_value a = tool_name_value b \<longleftrightarrow> a = b"
  by (cases a; cases b) simp_all

lemma map_of_dict_put [simp]: "map_of (dict_put k v kvs) = (map_of kvs)(k \<mapsto> v)"
  by (induction kvs) auto

lemma keys_dict_put: "fst ` set (dict_put k v kvs) = insert k (fst ` set kvs)"
  by (induction k v kvs rule: dict_put.induct) (simp_all add: insert_commute)

lemma distinct_dict_put: "distinct (map fst kvs) \<Longrightarrow> distinct (map fst (dict_put k v kvs))"
  by (induction k v kvs rule: dict_put.induct) (clarsimp simp: keys_dict_put)+

lemma terminal_fail [simp]: "is_terminal (fail e s)"
  by (simp add: is_terminal_def fail_def)

lemma terminal_complete [simp]: "is_terminal (complete a s)"
  by (simp add: is_terminal_def complete_def)

text \<open>Recording sources never leaves two sources with the same key.\<close>

definition sources_unique :: "host \<Rightarrow> source list \<Rightarrow> bool" where
  "sources_unique h ss = distinct (map (source_key h) ss)"

lemma add_new_sources_unique:
  "sources_unique h old \<Longrightarrow> sources_unique h (add_new_sources h old ss)"
  by (induction h old ss rule: add_new_sources.induct) (auto simp: sources_unique_def)

lemma add_new_sources_keys:
  "source_key h ` set (add_new_sources h old ss) = source_key h ` set old \<union> source_key h ` set ss"
  by (induction h old ss rule: add_new_sources.induct) auto

lemma add_new_sources_prefix: "prefix old (add_new_sources h old ss)"
proof (induction h old ss rule: add_new_sources.induct)
  case (2 h old s ss)
  then show ?case by (auto dest: append_prefixD)
qed simp

end
