(* ===== verification/Tool_Safety.thy ===== *)
theory Tool_Safety
  imports Agent_State
begin

text \<open>
  The tool contract and the gates in front of it: \<open>ToolSpec\<close> with its construction checks
  (\<open>tools/base.py\<close>), the immutable registry (\<open>tools/registry.py\<close>), the policy engine and the
  approval gate of the executor (\<open>safety/policy.py\<close>, \<open>safety/approval.py\<close>), and the
  capability-level gate with its scaffold runtime (\<open>safety/capability_gate.py\<close>,
  \<open>tools/runtime.py\<close>).  A pydantic argument model is a parameter: the record \<open>args_schema\<close>
  holds what the code asks of it.
\<close>

section \<open>Tool specifications\<close>

record args_schema =
  schema_fields :: "string list"
  schema_required :: "string list"
  schema_extra :: "string option"
  schema_strict :: bool
  model_validate :: "kwargs \<Rightarrow> (string \<times> pyval) + kwargs"

record retry_policy =
  max_attempts :: int
  backoff_zero :: bool
  backoff_negative :: bool

definition retry_policy_init :: "retry_policy \<Rightarrow> exn + retry_policy" where
  "retry_policy_init rp =
     seqE (raise_first
       [(max_attempts rp < 1, ValueError ''RetryPolicy.max_attempts must be >= 1.''),
        (backoff_negative rp, ValueError ''RetryPolicy.backoff_seconds must be >= 0.'')])
     (\<lambda>_. Inr rp)"

text \<open>What calling a tool function does: return a result, return something else, or raise.\<close>

datatype 'm fn_outcome =
    Returned tool_result "'m agent_state"
  | ReturnedOther string "'m agent_state"
  | Raised exn "'m agent_state"

record 'm tool_spec =
  name :: tool_name
  fn :: "'m agent_state \<Rightarrow> kwargs \<Rightarrow> 'm fn_outcome"
  description :: string
  required_args :: "string set"
  allowed_args :: "string set"
  mutates_state :: bool
  risk :: risk_level
  side_effects :: "string list"
  requires_approval :: bool
  timeout_set :: bool
  retry :: retry_policy
  idempotent :: bool
  schema :: "args_schema option"

text \<open>
  \<open>ToolSpec.__post_init__\<close>, in the order of its checks.  That the name is a \<open>ToolName\<close> and
  \<open>fn\<close> a function is the typing of the record.
\<close>

abbreviation InvalidToolSpecError :: "string \<Rightarrow> exn" where
  "InvalidToolSpecError m \<equiv> Exn ''InvalidToolSpecError'' m"

abbreviation UnsupportedToolExecutionPolicyError :: "string \<Rightarrow> exn" where
  "UnsupportedToolExecutionPolicyError m \<equiv> Exn ''UnsupportedToolExecutionPolicyError'' m"

definition tool_spec_init :: "'m tool_spec \<Rightarrow> exn + 'm tool_spec" where
  "tool_spec_init t =
     seqE (raise_first
       [(blank (description t), InvalidToolSpecError ''description must not be blank''),
        (\<not> required_args t \<subseteq> allowed_args t,
           InvalidToolSpecError ''required_args not present in allowed_args''),
        (\<exists>a \<in> allowed_args t. blank a,
           InvalidToolSpecError ''argument names must not be empty or whitespace-only''),
        (\<exists>s \<in> set (side_effects t). blank s,
           InvalidToolSpecError ''side_effect names must not be empty or whitespace-only''),
        (\<not> distinct (side_effects t),
           InvalidToolSpecError ''side_effects must not contain duplicates''),
        (mutates_state t \<and> side_effects t = [],
           InvalidToolSpecError ''mutates_state=True requires at least one side effect'')])
     (\<lambda>_. case schema t of
        None \<Rightarrow> Inl (InvalidToolSpecError ''args_schema must be a Pydantic BaseModel subclass'')
      | Some sc \<Rightarrow>
          seqE (raise_first
            [(set (schema_fields sc) \<noteq> allowed_args t,
                InvalidToolSpecError ''schema fields != allowed_args''),
             (set (schema_required sc) \<noteq> required_args t,
                InvalidToolSpecError ''schema required fields != required_args''),
             (schema_extra sc \<noteq> Some ''forbid'',
                InvalidToolSpecError ''args_schema must have extra=forbid''),
             (\<not> schema_strict sc, InvalidToolSpecError ''args_schema must have strict=True''),
             (timeout_set t,
                UnsupportedToolExecutionPolicyError ''timeout_seconds must be None''),
             (max_attempts (retry t) \<noteq> 1 \<or> \<not> backoff_zero (retry t),
                UnsupportedToolExecutionPolicyError ''retry_policy must be default'')])
          (\<lambda>_. Inr t))"

section \<open>The registry\<close>

type_synonym 'm registry = "(tool_name \<times> 'm tool_spec) list"

fun from_specs_acc :: "'m registry \<Rightarrow> 'm tool_spec list \<Rightarrow> exn + 'm registry" where
  "from_specs_acc data [] = Inr data"
| "from_specs_acc data (sp # sps) =
     (if name sp \<in> fst ` set data
      then Inl (Exn ''DuplicateToolError'' (''Duplicate tool name: '' @ tool_name_value (name sp)))
      else from_specs_acc (data @ [(name sp, sp)]) sps)"

definition from_specs :: "'m tool_spec list \<Rightarrow> exn + 'm registry" where
  "from_specs sps = from_specs_acc [] sps"

definition registry_get :: "'m registry \<Rightarrow> tool_name \<Rightarrow> 'm tool_spec option" where
  "registry_get reg t = map_of reg t"

definition registry_require :: "'m registry \<Rightarrow> tool_name \<Rightarrow> exn + 'm tool_spec" where
  "registry_require reg t =
     (case registry_get reg t of
        None \<Rightarrow> Inl (Exn ''UnknownToolError'' (''Unknown tool: '' @ tool_name_value t))
      | Some sp \<Rightarrow> Inr sp)"

definition all_tool_names :: "tool_name list" where
  "all_tool_names =
     [CALCULATE, WRITE_NOTE, READ_NOTE, LIST_NOTES, SAVE_FACT, SAVE_PREFERENCE, SAVE_DECISION,
      SEARCH_MEMORY, SUMMARIZE_MEMORY, SUMMARIZE, WEB_SEARCH, FINISH, ANSWER_FROM_CONTEXT]"

text \<open>
  \<open>build_tool_registry\<close> over the list of built-in specifications: disabled tools are left
  out and what remains must be exactly the declared tool names.
\<close>

definition build_tool_registry :: "'m tool_spec list \<Rightarrow> tool_name set \<Rightarrow> exn + 'm registry" where
  "build_tool_registry builtin disabled =
     (let specs = filter (\<lambda>sp. name sp \<notin> disabled) builtin
      in if name ` set specs \<noteq> set all_tool_names - disabled
         then Inl (Exn ''RuntimeError'' ''Built-in registry mismatch'')
         else from_specs specs)"

section \<open>Policy and approval\<close>

record gate_decision =
  allowed :: bool
  gate_reason :: string
  gate_metadata :: kwargs

definition policy_check :: "'m tool_spec \<Rightarrow> kwargs \<Rightarrow> 'm agent_state \<Rightarrow> gate_decision" where
  "policy_check tool kw s =
     (if risk tool = HIGH \<or> risk tool = CRITICAL
      then \<lparr>allowed = False,
            gate_reason = ''Tool '' @ [CHR 0x27] @ tool_name_value (name tool) @ [CHR 0x27]
              @ '' is high risk and blocked by MVP policy.'',
            gate_metadata = [(''tool'', VStr (tool_name_value (name tool))),
                             (''risk_level'', VStr (risk_level_value (risk tool)))]\<rparr>
      else if mutates_state tool \<and> read_only s
      then \<lparr>allowed = False,
            gate_reason = ''Tool '' @ [CHR 0x27] @ tool_name_value (name tool) @ [CHR 0x27]
              @ '' mutates state but current run is read-only.'',
            gate_metadata = [(''tool'', VStr (tool_name_value (name tool))),
                             (''mutates_state'', VBool (mutates_state tool))]\<rparr>
      else \<lparr>allowed = True, gate_reason = [], gate_metadata = []\<rparr>)"

definition approval_check :: "'m tool_spec \<Rightarrow> kwargs \<Rightarrow> 'm agent_state \<Rightarrow> gate_decision" where
  "approval_check tool kw s =
     (if \<not> requires_approval tool then \<lparr>allowed = True, gate_reason = [], gate_metadata = []\<rparr>
      else if tool_name_value (name tool) \<in> tool_name_value ` approved_tools s
      then \<lparr>allowed = True, gate_reason = [], gate_metadata = []\<rparr>
      else \<lparr>allowed = False,
            gate_reason = ''Tool '' @ [CHR 0x27] @ tool_name_value (name tool) @ [CHR 0x27]
              @ '' requires user approval before execution.'',
            gate_metadata = [(''tool'', VStr (tool_name_value (name tool))),
                             (''args'', dict_of kw)]\<rparr>)"

section \<open>The capability gate and its scaffold runtime\<close>

datatype action_risk =
    READ_ONLY | MEMORY_WRITE | MEMORY_DELETE | EXTERNAL_ACTION | IRREVERSIBLE_ACTION | HIGH_RISK

record safety_decision =
  sd_allowed :: bool
  sd_requires_confirmation :: bool
  sd_risk :: action_risk
  sd_reason :: string

fun capability_evaluate :: "action_risk \<Rightarrow> safety_decision" where
  "capability_evaluate READ_ONLY =
     \<lparr>sd_allowed = True, sd_requires_confirmation = False, sd_risk = READ_ONLY,
      sd_reason = ''read-only action; no side effects''\<rparr>"
| "capability_evaluate MEMORY_WRITE =
     \<lparr>sd_allowed = True, sd_requires_confirmation = False, sd_risk = MEMORY_WRITE,
      sd_reason = ''memory write via existing deterministic write lanes''\<rparr>"
| "capability_evaluate MEMORY_DELETE =
     \<lparr>sd_allowed = True, sd_requires_confirmation = True, sd_risk = MEMORY_DELETE,
      sd_reason = ''memory delete allowed only through the pending-confirmation flow''\<rparr>"
| "capability_evaluate EXTERNAL_ACTION =
     \<lparr>sd_allowed = False, sd_requires_confirmation = True, sd_risk = EXTERNAL_ACTION,
      sd_reason =
        ''external actions are not executed in MVP; confirmation + tool support required''\<rparr>"
| "capability_evaluate IRREVERSIBLE_ACTION =
     \<lparr>sd_allowed = False, sd_requires_confirmation = True, sd_risk = IRREVERSIBLE_ACTION,
      sd_reason = ''irreversible actions are never executed in MVP''\<rparr>"
| "capability_evaluate HIGH_RISK =
     \<lparr>sd_allowed = False, sd_requires_confirmation = False, sd_risk = HIGH_RISK,
      sd_reason = ''high-risk request refused''\<rparr>"

record runtime_spec =
  rt_name :: string
  rt_description :: string
  rt_risk :: action_risk
  rt_fn :: "(kwargs \<Rightarrow> exn + string) option"

record runtime_result =
  rr_ok :: bool
  rr_content :: string
  rr_error :: "string option"
  rr_executed :: bool
  rr_decision :: "safety_decision option"

definition tool_runtime_run ::
  "(string \<times> runtime_spec) list \<Rightarrow> (action_risk \<Rightarrow> safety_decision) \<Rightarrow> string \<Rightarrow> kwargs
     \<Rightarrow> runtime_result" where
  "tool_runtime_run specs gate tool kw =
     (case map_of specs tool of
        None \<Rightarrow> \<lparr>rr_ok = False, rr_content = [], rr_error = Some (''unknown tool: '' @ tool),
                 rr_executed = False, rr_decision = None\<rparr>
      | Some sp \<Rightarrow>
         (let d = gate (rt_risk sp)
          in if \<not> sd_allowed d \<or> sd_requires_confirmation d
             then \<lparr>rr_ok = False, rr_content = [],
                   rr_error = Some (''blocked_by_safety: '' @ sd_reason d),
                   rr_executed = False, rr_decision = Some d\<rparr>
             else case rt_fn sp of
               None \<Rightarrow> \<lparr>rr_ok = False, rr_content = [],
                        rr_error = Some (''tool not implemented: '' @ rt_name sp),
                        rr_executed = False, rr_decision = Some d\<rparr>
             | Some f \<Rightarrow>
                (case f kw of
                   Inl e \<Rightarrow> \<lparr>rr_ok = False, rr_content = [], rr_error = Some (exn_msg e),
                             rr_executed = False, rr_decision = Some d\<rparr>
                 | Inr content \<Rightarrow> \<lparr>rr_ok = True, rr_content = content, rr_error = None,
                                   rr_executed = True, rr_decision = Some d\<rparr>)))"

section \<open>Lemmas\<close>

text \<open>When both gates let a call through.\<close>

definition gates_pass :: "'m tool_spec \<Rightarrow> 'm agent_state \<Rightarrow> bool" where
  "gates_pass tool s \<longleftrightarrow>
     risk tool \<in> {LOW, MEDIUM} \<and> (mutates_state tool \<longrightarrow> \<not> read_only s) \<and>
     (requires_approval tool \<longrightarrow> name tool \<in> approved_tools s)"

lemma gates_pass_iff:
  "gates_pass tool s \<longleftrightarrow> allowed (policy_check tool kw s) \<and> allowed (approval_check tool kw' s)"
  unfolding gates_pass_def policy_check_def approval_check_def
  by (cases "risk tool") (auto simp: tool_name_value_inj)

lemma from_specs_acc_eq:
  "from_specs_acc data sps = Inr reg \<Longrightarrow> reg = data @ map (\<lambda>sp. (name sp, sp)) sps"
  by (induction data sps rule: from_specs_acc.induct) (auto split: if_splits)

lemma from_specs_acc_distinct:
  "from_specs_acc data sps = Inr reg \<Longrightarrow> distinct (map fst data) \<Longrightarrow> distinct (map fst reg)"
  by (induction data sps rule: from_specs_acc.induct) (auto split: if_splits)

lemma from_specs_acc_total:
  "distinct (map name sps) \<Longrightarrow> set (map name sps) \<inter> fst ` set data = {} \<Longrightarrow>
     from_specs_acc data sps = Inr (data @ map (\<lambda>sp. (name sp, sp)) sps)"
  by (induction data sps rule: from_specs_acc.induct) auto

lemma from_specs_iff:
  "from_specs sps = Inr reg \<longleftrightarrow>
     distinct (map name sps) \<and> reg = map (\<lambda>sp. (name sp, sp)) sps"
proof
  assume "from_specs sps = Inr reg"
  then have r: "reg = map (\<lambda>sp. (name sp, sp)) sps" and d: "distinct (map fst reg)"
    using from_specs_acc_eq [of "[]" sps reg] from_specs_acc_distinct [of "[]" sps reg]
    by (auto simp: from_specs_def)
  then show "distinct (map name sps) \<and> reg = map (\<lambda>sp. (name sp, sp)) sps"
    by (simp add: comp_def)
qed (simp add: from_specs_def from_specs_acc_total)

text \<open>What a registry promises its clients: every entry is filed under its own name.\<close>

definition registry_ok :: "'m registry \<Rightarrow> bool" where
  "registry_ok reg \<longleftrightarrow> distinct (map fst reg) \<and> (\<forall>(t, sp) \<in> set reg. name sp = t)"

lemma from_specs_registry_ok: "from_specs sps = Inr reg \<Longrightarrow> registry_ok reg"
  by (auto simp: from_specs_iff registry_ok_def comp_def)

lemma registry_get_name: "registry_ok reg \<Longrightarrow> registry_get reg t = Some sp \<Longrightarrow> name sp = t"
  by (auto simp: registry_ok_def registry_get_def dest!: map_of_SomeD)

lemma tool_runtime_executed:
  assumes "rr_executed (tool_runtime_run specs capability_evaluate tool kw)"
  shows "\<exists>sp. map_of specs tool = Some sp \<and> rt_risk sp \<in> {READ_ONLY, MEMORY_WRITE}"
proof (cases "map_of specs tool")
  case None
  with assms show ?thesis by (simp add: tool_runtime_run_def)
next
  case (Some sp)
  with assms show ?thesis
    by (cases "rt_risk sp") (simp_all add: tool_runtime_run_def Let_def)
qed

end
