(* ===== verification/Arg_Resolver.thy ===== *)
theory Arg_Resolver
  imports Tool_Safety
begin

text \<open>
  Placeholder resolution (\<open>tools/arg_resolver.py\<close>): how a step's argument values are read
  from the last tool result and from the slots.  \<open>$last\<close>, \<open>$last_text\<close>, \<open>$last.path\<close> and
  \<open>$slot.path\<close> stand for values, and text of the form \<open>${...}\<close> inside a string is replaced by
  the printed value.
\<close>

section \<open>Printing a tool output\<close>

definition obj_text :: "host \<Rightarrow> kwargs \<Rightarrow> string \<Rightarrow> string" where
  "obj_text h fs k = (case map_of fs k of None \<Rightarrow> [] | Some v \<Rightarrow> to_str h v)"

fun list_elems :: "pyval \<Rightarrow> pyval list" where
  "list_elems (VList vs) = vs"
| "list_elems v = []"

definition obj_lines :: "host \<Rightarrow> kwargs \<Rightarrow> string \<Rightarrow> string" where
  "obj_lines h fs k =
     join [CHR 0x0A] (case map_of fs k of None \<Rightarrow> [] | Some v \<Rightarrow> map (to_str h) (list_elems v))"

text \<open>The dataclass outputs other than a nested \<open>ToolResult\<close>.\<close>

definition stringify_object :: "host \<Rightarrow> string \<Rightarrow> kwargs \<Rightarrow> string" where
  "stringify_object h c fs =
     (if c = ''CalculateOutput'' then obj_text h fs ''value''
      else if c = ''ReadNoteOutput'' then obj_text h fs ''content''
      else if c = ''SummarizeOutput'' then obj_text h fs ''summary''
      else if c = ''WebSearchOutput'' then obj_text h fs ''answer''
      else if c = ''FinishOutput'' then obj_text h fs ''answer''
      else if c = ''ListNotesOutput'' then obj_lines h fs ''names''
      else if c = ''MemoryWriteOutput'' then obj_text h fs ''content''
      else if c = ''SearchMemoryOutput'' then obj_lines h fs ''records''
      else to_str h (asdict (VObj c fs)))"

lemma map_of_size [termination_simp]:
  "map_of fs k = Some v \<Longrightarrow> size v < Suc (size_list (\<lambda>x. Suc (size (snd x))) fs)"
  by (induction fs) (auto split: if_splits)

fun stringify_output :: "host \<Rightarrow> pyval \<Rightarrow> string" where
  "stringify_output h VNone = []"
| "stringify_output h (VObj c fs) =
     (if c = ''ToolResult''
      then (case map_of fs ''output'' of None \<Rightarrow> [] | Some v \<Rightarrow> stringify_output h v)
      else stringify_object h c fs)"
| "stringify_output h v = to_str h v"

section \<open>Paths\<close>

definition is_digit :: "char \<Rightarrow> bool" where
  "is_digit c = between (CHR ''0'') (CHR ''9'') c"

definition nat_of_digits :: "string \<Rightarrow> nat" where
  "nat_of_digits s = foldl (\<lambda>n c. 10 * n + (code_point c - 48)) 0 s"

text \<open>
  \<open>text.isdigit()\<close> and \<open>int(text)\<close> of such a text: of ASCII digits the decimal value, up to the limit of 4300
  digits; of other digits what the host's tables say (\<open>int\<close> refuses some of them).
\<close>

definition text_isdigit :: "host \<Rightarrow> string \<Rightarrow> bool" where
  "text_isdigit h f =
     (f \<noteq> [] \<and> (if list_all (\<lambda>c. code_point c < 128) f then list_all is_digit f else py_isdigit h f))"

definition text_int :: "host \<Rightarrow> string \<Rightarrow> nat option" where
  "text_int h f =
     (if list_all is_digit f then if 4300 < length f then None else Some (nat_of_digits f) else py_int h f)"

fun get_field :: "host \<Rightarrow> pyval \<Rightarrow> string \<Rightarrow> exn + pyval" where
  "get_field h VNone f = Inl (ValueError ''on None'')"
| "get_field h (VDict kvs) f =
     (case map_of kvs (VStr f) of
        None \<Rightarrow> Inl (ValueError ''key not found'') | Some v \<Rightarrow> Inr v)"
| "get_field h (VList vs) f =
     (if \<not> text_isdigit h f then Inl (ValueError ''list index must be numeric'')
      else case text_int h f of
             None \<Rightarrow> Inl (ValueError ''invalid literal for int()'')
           | Some n \<Rightarrow> if n < length vs then Inr (vs ! n) else Inl (ValueError ''list index out of range''))"
| "get_field h (VObj c fs) f =
     (case map_of fs f of
        Some v \<Rightarrow> Inr v
      | None \<Rightarrow> (case py_attr h (VObj c fs) f of
                  Some v \<Rightarrow> Inr v | None \<Rightarrow> Inl (ValueError ''field not found'')))"
| "get_field h v f =
     (case py_attr h v f of Some w \<Rightarrow> Inr w | None \<Rightarrow> Inl (ValueError ''field not found''))"

fun walk_path :: "host \<Rightarrow> pyval \<Rightarrow> string list \<Rightarrow> exn + pyval" where
  "walk_path h v [] = Inr v"
| "walk_path h v (p # ps) =
     (if p = [] then Inl (ValueError ''Invalid placeholder path'')
      else seqE (get_field h v p) (\<lambda>w. walk_path h w ps))"

definition resolve_path :: "host \<Rightarrow> pyval \<Rightarrow> string \<Rightarrow> exn + pyval" where
  "resolve_path h start path =
     (if start = VNone then Inl (ValueError ''root is None'')
      else walk_path h start (split_on (CHR ''.'') path))"

definition last_val :: "'m agent_state \<Rightarrow> pyval" where
  "last_val s = (case last_result s of None \<Rightarrow> VNone | Some r \<Rightarrow> result_val r)"

definition slots_val :: "'m agent_state \<Rightarrow> pyval" where
  "slots_val s = dict_of (slots s)"

section \<open>Templates\<close>

definition template_expr :: "host \<Rightarrow> 'm agent_state \<Rightarrow> string \<Rightarrow> exn + string" where
  "template_expr h s g =
     (let expr = strip g
      in if expr = ''last'' \<or> expr = ''last_text'' then Inr (stringify_output h (last_val s))
         else if starts_with ''last.'' expr
         then seqE (resolve_path h (last_val s) (drop 5 expr)) (\<lambda>v. Inr (stringify_output h v))
         else if starts_with ''slot.'' expr
         then seqE (resolve_path h (slots_val s) (drop 5 expr)) (\<lambda>v. Inr (stringify_output h v))
         else Inl (ValueError (''Unknown template expression: '' @ expr)))"

text \<open>
  \<open>re.sub\<close> with the pattern of a dollar sign, an opening brace, one or more characters other
  than a closing brace, and a closing brace: matches are taken from left to right and the
  text between them is copied.
\<close>

function (sequential) resolve_template :: "host \<Rightarrow> 'm agent_state \<Rightarrow> string \<Rightarrow> exn + string" where
  "resolve_template h s [] = Inr []"
| "resolve_template h s (c # cs) =
     (let body = tl cs; g = takeWhile (\<lambda>x. x \<noteq> CHR ''}'') body;
          rest = dropWhile (\<lambda>x. x \<noteq> CHR ''}'') body
      in if c = CHR ''$'' \<and> cs \<noteq> [] \<and> hd cs = CHR ''{'' \<and> g \<noteq> [] \<and> rest \<noteq> []
         then seqE (template_expr h s g)
                (\<lambda>t. seqE (resolve_template h s (tl rest)) (\<lambda>u. Inr (t @ u)))
         else seqE (resolve_template h s cs) (\<lambda>u. Inr (c # u)))"
  by pat_completeness auto
termination
proof (relation "measure (\<lambda>(h, s, t). length t)", goal_cases)
  case (2 h s c cs body g rest t)
  have "length (tl (dropWhile (\<lambda>x. x \<noteq> CHR ''}'') (tl cs))) \<le> length cs"
    using length_dropWhile_le [of "\<lambda>x. x \<noteq> CHR ''}''" "tl cs"] by simp
  with 2 show ?case by simp
qed auto

definition resolve_text :: "host \<Rightarrow> 'm agent_state \<Rightarrow> pyval \<Rightarrow> string \<Rightarrow> exn + pyval" where
  "resolve_text h s orig t =
     (if t = ''$last'' then Inr (last_val s)
      else if t = ''$last_text'' then Inr (VStr (stringify_output h (last_val s)))
      else if starts_with ''$last.'' t then resolve_path h (last_val s) (drop 6 t)
      else if starts_with ''$slot.'' t then resolve_path h (slots_val s) (drop 6 t)
      else if contains ''${'' t then seqE (resolve_template h s t) (\<lambda>u. Inr (VStr u))
      else Inr orig)"

text \<open>\<open>resolve_value\<close>: containers are resolved element by element, keys are left alone.\<close>

fun resolve_value :: "host \<Rightarrow> 'm agent_state \<Rightarrow> pyval \<Rightarrow> exn + pyval"
  and resolve_items :: "host \<Rightarrow> 'm agent_state \<Rightarrow> (pyval \<times> pyval) list
    \<Rightarrow> exn + (pyval \<times> pyval) list"
  and resolve_values :: "host \<Rightarrow> 'm agent_state \<Rightarrow> pyval list \<Rightarrow> exn + pyval list" where
  "resolve_value h s (VDict kvs) = seqE (resolve_items h s kvs) (\<lambda>kvs'. Inr (VDict kvs'))"
| "resolve_value h s (VList vs) = seqE (resolve_values h s vs) (\<lambda>vs'. Inr (VList vs'))"
| "resolve_value h s (VStr t) = resolve_text h s (VStr t) t"
| "resolve_value h s (VEnum c t) = resolve_text h s (VEnum c t) t"
| "resolve_value h s v = Inr v"
| "resolve_items h s [] = Inr []"
| "resolve_items h s ((k, v) # kvs) =
     seqE (resolve_value h s v) (\<lambda>v'. seqE (resolve_items h s kvs) (\<lambda>kvs'. Inr ((k, v') # kvs')))"
| "resolve_values h s [] = Inr []"
| "resolve_values h s (v # vs) =
     seqE (resolve_value h s v) (\<lambda>v'. seqE (resolve_values h s vs) (\<lambda>vs'. Inr (v' # vs')))"

definition resolve_args :: "host \<Rightarrow> 'm agent_state \<Rightarrow> kwargs \<Rightarrow> exn + kwargs" where
  "resolve_args h s kw =
     mapE (\<lambda>(k, v). seqE (resolve_value h s v) (\<lambda>v'. Inr (k, v'))) kw"

section \<open>Lemmas\<close>

lemma resolve_args_keys: "resolve_args h s kw = Inr kw' \<Longrightarrow> map fst kw' = map fst kw"
  unfolding resolve_args_def mapE_Inr_iff
  by (induction rule: list_all2_induct) (auto simp: result_simps split: prod.splits)

text \<open>Plain data: no string in it asks for a placeholder.\<close>

definition plain_text :: "string \<Rightarrow> bool" where
  "plain_text t \<longleftrightarrow> t \<noteq> ''$last'' \<and> t \<noteq> ''$last_text'' \<and> \<not> starts_with ''$last.'' t
     \<and> \<not> starts_with ''$slot.'' t \<and> \<not> contains ''${'' t"

fun plain_value :: "pyval \<Rightarrow> bool" where
  "plain_value (VDict kvs) = (\<forall>kv \<in> set kvs. plain_value (snd kv))"
| "plain_value (VList vs) = (\<forall>v \<in> set vs. plain_value v)"
| "plain_value (VStr t) = plain_text t"
| "plain_value (VEnum c t) = plain_text t"
| "plain_value v = True"

lemma resolve_plain:
  fixes s :: "'m agent_state"
  shows "plain_value v \<Longrightarrow> resolve_value h s v = Inr v"
    and "list_all (\<lambda>kv. plain_value (snd kv)) kvs \<Longrightarrow> resolve_items h s kvs = Inr kvs"
    and "list_all plain_value vs \<Longrightarrow> resolve_values h s vs = Inr vs"
  by (induction h s v and h s kvs and h s vs
      rule: resolve_value_resolve_items_resolve_values.induct)
     (auto simp: resolve_text_def plain_text_def list_all_iff)

lemma resolve_args_plain:
  "list_all (\<lambda>kv. plain_value (snd kv)) kw \<Longrightarrow> resolve_args h s kw = Inr kw"
  unfolding resolve_args_def
  by (induction kw) (auto simp: resolve_plain(1) split: prod.splits)

end
