(* ===== verification/Tool_Executor.thy ===== *)
theory Tool_Executor
  imports Arg_Resolver
begin

text \<open>
  The single execution gateway for tools (\<open>tools/executor.py\<close>): resolve the arguments,
  validate them, ask the policy engine and the approval gate, call the tool function, and
  record exactly one observation.  A step object is shared with the plan in the code; here
  the executor returns the updated step and the runtime writes it back.
\<close>

section \<open>Recording\<close>

text \<open>\<open>tool_observation_ref\<close> of \<open>safety/evidence.py\<close>.\<close>

definition tool_observation_ref :: "string \<Rightarrow> string \<Rightarrow> string \<Rightarrow> exn + string" where
  "tool_observation_ref task stp tool =
     seqE (raise_first
       [(blank task, ValueError ''task_id must be a non-blank string''),
        (blank stp, ValueError ''step_id must be a non-blank string''),
        (blank tool, ValueError ''tool_name must be a non-blank string'')])
     (\<lambda>_. Inr (''task:'' @ strip task @ ''/step:'' @ strip stp @ ''/tool:'' @ strip tool))"

fun canonical_tool_name :: "action \<Rightarrow> exn + string" where
  "canonical_tool_name (Tool t) = Inr (tool_name_value t)"
| "canonical_tool_name (RawAction a) =
     (if blank a then Inl (ValueError ''tool_name must be a non-blank string'') else Inr (strip a))"

definition record_result ::
  "host \<Rightarrow> step \<Rightarrow> kwargs \<Rightarrow> tool_result \<Rightarrow> 'm agent_state
     \<Rightarrow> (exn \<times> 'm agent_state) + 'm agent_state" where
  "record_result h st kw r s =
     (case canonical_tool_name (action st) of
        Inl e \<Rightarrow> Inl (e, s)
      | Inr canonical \<Rightarrow>
         (let s1 = s\<lparr>last_result := Some r\<rparr>
          in case tool_observation_ref (task_id s) (step_id st) canonical of
               Inl e \<Rightarrow> Inl (e, s1)
             | Inr ref \<Rightarrow>
                 Inr (add_observation h
                   \<lparr>step_index = current_step s, obs_action = canonical, obs_args = kw,
                    obs_success = success r, obs_trust = UNTRUSTED_EVIDENCE,
                    obs_source_type = TOOL, obs_source_ref = ref,
                    obs_output = res_output r, obs_error = error r,
                    obs_sources = res_sources r\<rparr> s1)))"

definition error_result :: "action \<Rightarrow> string \<Rightarrow> string \<Rightarrow> kwargs \<Rightarrow> tool_result" where
  "error_result act msg etype md =
     \<lparr>success = False, res_output = VNone, error = Some msg,
      res_tool_name = Some (action_text act), kind = JSON, res_sources = [],
      metadata = (''error_type'', VStr etype) # md\<rparr>"

type_synonym 'm exec_outcome =
  "(exn \<times> step \<times> 'm agent_state) + (tool_result \<times> step \<times> 'm agent_state)"

definition finish_step ::
  "host \<Rightarrow> step \<Rightarrow> kwargs \<Rightarrow> tool_result \<Rightarrow> 'm agent_state \<Rightarrow> 'm exec_outcome" where
  "finish_step h st kw r s =
     (case record_result h st kw r s of
        Inl (e, s') \<Rightarrow> Inl (e, st, s')
      | Inr s' \<Rightarrow> Inr (r, st, s'))"

text \<open>\<open>_fail\<close>; the arguments an observation shows are the resolved ones, where there are any.\<close>

definition exec_fail ::
  "host \<Rightarrow> step \<Rightarrow> 'm agent_state \<Rightarrow> string \<Rightarrow> string \<Rightarrow> kwargs \<Rightarrow> kwargs \<Rightarrow> 'm exec_outcome" where
  "exec_fail h st s msg etype md resolved =
     finish_step h (mark_failed st) resolved (error_result (action st) msg etype md) s"

section \<open>Arguments\<close>

datatype args_failure = ArgsInvalid string "pyval option" | ArgsOther exn

definition validate_args :: "'m tool_spec \<Rightarrow> kwargs \<Rightarrow> args_failure + kwargs" where
  "validate_args tool kw =
     (if \<not> set (map fst kw) \<subseteq> allowed_args tool
      then Inl (ArgsInvalid (''Unknown args for tool '' @ tool_name_value (name tool)) None)
      else if \<not> required_args tool \<subseteq> set (map fst kw)
      then Inl (ArgsInvalid (''Missing required args for tool ''
                  @ tool_name_value (name tool)) None)
      else case schema tool of
        None \<Rightarrow> Inr kw
      | Some sc \<Rightarrow> (case model_validate sc kw of
          Inl (m, errs) \<Rightarrow> Inl (ArgsInvalid m (Some errs)) | Inr kw' \<Rightarrow> Inr kw'))"

definition prepare_args ::
  "host \<Rightarrow> 'm tool_spec \<Rightarrow> step \<Rightarrow> 'm agent_state \<Rightarrow> args_failure + kwargs" where
  "prepare_args h tool st s =
     (case resolve_args h s (args st) of
        Inl e \<Rightarrow> Inl (ArgsOther e)
      | Inr kw \<Rightarrow> validate_args tool kw)"

section \<open>Execution\<close>

fun calc_value :: "pyval \<Rightarrow> pyval option" where
  "calc_value (VObj c fs) = (if c = ''CalculateOutput'' then map_of fs ''value'' else None)"
| "calc_value v = None"

definition quoted :: "tool_name \<Rightarrow> string" where
  "quoted t = [CHR 0x27] @ tool_name_value t @ [CHR 0x27]"

text \<open>The call of the tool function and what follows it.\<close>

definition invoke_tool ::
  "host \<Rightarrow> tool_name \<Rightarrow> 'm tool_spec \<Rightarrow> step \<Rightarrow> 'm agent_state \<Rightarrow> kwargs \<Rightarrow> 'm exec_outcome" where
  "invoke_tool h t tool st s kw =
     (case fn tool s kw of
        Raised e s' \<Rightarrow>
          exec_fail h st s' (''Tool '' @ quoted t @ '' crashed: '' @ exn_msg e) (exn_type e)
            [(''raw_args'', dict_of (args st)), (''resolved_args'', dict_of kw),
             (''unexpected'', VBool True)] kw
      | ReturnedOther ty s' \<Rightarrow>
          exec_fail h st s' (''Tool '' @ quoted t @ '' returned invalid result type.'')
            ''InvalidToolResult''
            [(''actual_type'', VStr ty), (''raw_args'', dict_of (args st)),
             (''resolved_args'', dict_of kw)] kw
      | Returned r s' \<Rightarrow>
          (let r1 = (if res_tool_name r = None \<or> res_tool_name r = Some []
                     then r\<lparr>res_tool_name := Some (tool_name_value t)\<rparr> else r);
               s2 = (case calc_value (res_output r1) of
                       Some v \<Rightarrow> if t = CALCULATE then set_slot ''calc_result'' v s' else s'
                     | None \<Rightarrow> s');
               st2 = (if success r1 then mark_completed st else mark_failed st)
           in finish_step h st2 kw r1 s2))"

definition execute :: "host \<Rightarrow> 'm registry \<Rightarrow> step \<Rightarrow> 'm agent_state \<Rightarrow> 'm exec_outcome" where
  "execute h tools st s =
     (case action st of
        RawAction a \<Rightarrow>
          exec_fail h st s (''Invalid tool action: '' @ a) ''InvalidToolAction''
            [(''raw_action'', VStr a)] []
      | Tool t \<Rightarrow>
         (case registry_get tools t of
            None \<Rightarrow> exec_fail h st s (''Unknown tool: '' @ tool_name_value t) ''UnknownTool'' [] []
          | Some tool \<Rightarrow>
             (let st1 = mark_running st
              in case prepare_args h tool st1 s of
                   Inl (ArgsInvalid m errs) \<Rightarrow>
                     exec_fail h st1 s (''Invalid args for tool '' @ quoted t @ '': '' @ m)
                       ''InvalidToolArgs''
                       ((''raw_args'', dict_of (args st)) #
                        (case errs of None \<Rightarrow> [] | Some v \<Rightarrow> [(''validation_errors'', v)])) []
                 | Inl (ArgsOther e) \<Rightarrow>
                     exec_fail h st1 s
                       (''Failed to resolve or validate args for tool '' @ quoted t @ '': ''
                        @ exn_msg e) (exn_type e) [(''raw_args'', dict_of (args st))] []
                 | Inr kw \<Rightarrow>
                    (let d = policy_check tool kw s; a = approval_check tool kw s
                     in if \<not> allowed d
                        then exec_fail h st1 s (gate_reason d) ''PolicyDenied''
                               (gate_metadata d @ [(''resolved_args'', dict_of kw)]) kw
                        else if \<not> allowed a
                        then exec_fail h st1 s (gate_reason a) ''ApprovalRequired''
                               (gate_metadata a @ [(''resolved_args'', dict_of kw)]) kw
                        else invoke_tool h t tool st1 s kw))))"

section \<open>Lemmas\<close>

lemma quoted_not_Nil [simp]: "tool_name_value t \<noteq> []"
  by (cases t) simp_all

lemma tool_name_value_strip [simp]: "strip (tool_name_value t) = tool_name_value t"
  by (rule strip_visible) (cases t; simp add: visible_def)

lemma record_result_Inr:
  assumes "record_result h st kw r s = Inr s'"
  shows "last_result s' = Some r"
    and "\<exists>obs. observations s' = observations s @ [obs] \<and> obs_success obs = success r
          \<and> obs_trust obs = UNTRUSTED_EVIDENCE \<and> obs_source_type obs = TOOL
          \<and> step_index obs = current_step s \<and> obs_args obs = kw \<and> obs_error obs = error r
          \<and> obs_output obs = res_output r"
  using assms
  by (auto simp: record_result_def add_observation_def add_sources_def Let_def
      split: sum.splits if_splits)

lemma record_result_total:
  assumes "\<not> blank (task_id s)" and "\<not> blank (step_id st)" and "action st = Tool t"
  shows "\<exists>s'. record_result h st kw r s = Inr s'"
  using assms by (auto simp: record_result_def tool_observation_ref_def Let_def)

text \<open>What recording leaves alone.\<close>

lemma record_result_frame [frame_simps]:
  assumes "record_result h st kw r s = Inr s'"
  shows "status s' = status s" "done_flag s' = done_flag s" "plan s' = plan s"
    "task_id s' = task_id s" "max_steps s' = max_steps s" "current_step s' = current_step s"
    "final_answer s' = final_answer s" "memory_degraded s' = memory_degraded s"
    "memory_write_failed s' = memory_write_failed s" "slots s' = slots s"
    "disclosure_reasons s' = disclosure_reasons s" "read_only s' = read_only s"
    "approved_tools s' = approved_tools s" "memory s' = memory s" "errors s' = errors s"
    "history s' = history s" "context_pack_of s' = context_pack_of s"
    "confirmed_save_operation s' = confirmed_save_operation s"
  using assms
  by (auto simp: record_result_def add_observation_def add_sources_def Let_def
      split: sum.splits if_splits)

lemma finish_step_Inr:
  "finish_step h st kw r s = Inr (r', st', s') \<longleftrightarrow>
     r' = r \<and> st' = st \<and> record_result h st kw r s = Inr s'"
  by (auto simp: finish_step_def split: sum.splits)

lemma exec_fail_Inr:
  "exec_fail h st s m et md kw = Inr (r, st', s') \<Longrightarrow>
     \<not> success r \<and> st' = mark_failed st \<and> record_result h st' kw r s = Inr s'
     \<and> map_of (metadata r) ''error_type'' = Some (VStr et)"
  by (auto simp: exec_fail_def finish_step_Inr error_result_def)

text \<open>
  A tool that the gates refuse is not called: the outcome does not depend on its function.
  \<open>replace_fns\<close> gives every specification of a class another function.
\<close>

definition replace_fns ::
  "('m tool_spec \<Rightarrow> bool) \<Rightarrow> (tool_name \<Rightarrow> 'm agent_state \<Rightarrow> kwargs \<Rightarrow> 'm fn_outcome)
     \<Rightarrow> 'm registry \<Rightarrow> 'm registry" where
  "replace_fns P f reg = map (\<lambda>(k, sp). (k, if P sp then sp\<lparr>fn := f k\<rparr> else sp)) reg"

lemma registry_get_replace_fns:
  "registry_get (replace_fns P f reg) t =
     map_option (\<lambda>sp. if P sp then sp\<lparr>fn := f t\<rparr> else sp) (registry_get reg t)"
  by (induction reg) (auto simp: registry_get_def replace_fns_def)

lemma validate_args_fn [simp]: "validate_args (sp\<lparr>fn := f\<rparr>) = validate_args sp"
  by (rule ext) (simp add: validate_args_def)

lemma gate_checks_fn [simp]:
  "policy_check (sp\<lparr>fn := f\<rparr>) kw s = policy_check sp kw s"
  "approval_check (sp\<lparr>fn := f\<rparr>) kw s = approval_check sp kw s"
  "prepare_args h (sp\<lparr>fn := f\<rparr>) st s = prepare_args h sp st s"
  by (simp_all add: policy_check_def approval_check_def prepare_args_def split: sum.split)

lemma execute_refused:
  assumes "\<And>t tool. action st = Tool t \<Longrightarrow> registry_get tools t = Some tool \<Longrightarrow> P tool
      \<Longrightarrow> \<not> gates_pass tool s"
  shows "execute h (replace_fns P f tools) st s = execute h tools st s"
proof (cases "action st")
  case (Tool t)
  show ?thesis
  proof (cases "registry_get tools t")
    case (Some tool)
    show ?thesis
    proof (cases "P tool")
      case True
      have "\<not> allowed (policy_check tool kw s) \<or> \<not> allowed (approval_check tool kw s)" for kw
        using assms [OF Tool Some True] gates_pass_iff by blast
      with Tool Some True show ?thesis
        by (auto simp: execute_def registry_get_replace_fns Let_def
            split: sum.splits args_failure.splits)
    qed (simp add: execute_def registry_get_replace_fns Tool Some)
  qed (simp add: execute_def registry_get_replace_fns Tool)
qed (simp add: execute_def)

text \<open>Every completed execution is recorded, whatever its outcome.\<close>

lemma execute_recorded:
  assumes "execute h tools st s = Inr (r, st', s')"
  shows "\<exists>kw s0. record_result h st' kw r s0 = Inr s'"
  using assms
  by (auto simp: execute_def invoke_tool_def exec_fail_def finish_step_Inr Let_def
      split: action.splits option.splits sum.splits args_failure.splits if_splits fn_outcome.splits)

lemma execute_success:
  assumes "execute h tools st s = Inr (r, st', s')" and "success r"
  shows "\<exists>t tool kw r0 s0. action st = Tool t \<and> registry_get tools t = Some tool \<and>
     gates_pass tool s \<and> prepare_args h tool (mark_running st) s = Inr kw \<and>
     fn tool s kw = Returned r0 s0 \<and> success r0"
proof -
  from assms(1,2) obtain t tool kw where t: "action st = Tool t" "registry_get tools t = Some tool"
    "prepare_args h tool (mark_running st) s = Inr kw"
    "allowed (policy_check tool kw s)" "allowed (approval_check tool kw s)"
    "invoke_tool h t tool (mark_running st) s kw = Inr (r, st', s')"
    by (auto simp: execute_def Let_def dest!: exec_fail_Inr
        split: action.splits option.splits sum.splits args_failure.splits if_splits)
  moreover from t(6) assms(2) obtain r0 s0 where "fn tool s kw = Returned r0 s0" "success r0"
    by (auto simp: invoke_tool_def finish_step_Inr Let_def dest!: exec_fail_Inr
        split: fn_outcome.splits if_splits option.splits)
  ultimately show ?thesis using gates_pass_iff by blast
qed

end
