(* ===== verification/Planning.thy ===== *)
theory Planning
  imports Tool_Executor
begin

text \<open>
  From a parsed intent to a validated plan (\<open>planning/intents.py\<close>, \<open>slot_validator.py\<close>,
  \<open>clarification.py\<close>, \<open>intent_planner.py\<close>, \<open>plan_validator.py\<close>).  A \<open>Step\<close> draws its
  identifier from \<open>uuid4\<close> when it is created; the planners take the identifiers as a
  sequence \<open>ids\<close>, the step at position \<open>i\<close> of a plan using \<open>ids i\<close>.  User-facing text is
  Vietnamese and is kept as its UTF-8 bytes.
\<close>

section \<open>Intents\<close>

datatype intent_name =
    Calculate | CalculateThenSaveNote | ReadNote | ReadNoteThenSummarize | WriteNote
  | WebSearch | WebSearchThenSaveNote | ProjectContextQuery | Greeting | IdentityQuery
  | CapabilityQuery | MemoryRead | MemoryWriteRequest | PlanningRequest | WritingRequest
  | SummarizationRequest | TranslationRequest | TechnicalExplanationRequest
  | CodeReviewRequest | ClarificationRequest | Unknown

record parsed_intent =
  intent :: intent_name
  confidence :: rat
  pi_source :: string
  raw_text :: string
  expression :: "string option"
  note_name :: "string option"
  content :: pyval
  query :: "string option"
  missing_slots :: "string list"
  pi_metadata :: kwargs

definition with_missing_slots :: "string list \<Rightarrow> parsed_intent \<Rightarrow> parsed_intent" where
  "with_missing_slots ss p = p\<lparr>missing_slots := ss\<rparr>"

section \<open>Slots\<close>

fun required_slots :: "intent_name \<Rightarrow> string list" where
  "required_slots Calculate = [''expression'']"
| "required_slots CalculateThenSaveNote = [''expression'', ''note_name'']"
| "required_slots ReadNote = [''note_name'']"
| "required_slots ReadNoteThenSummarize = [''note_name'']"
| "required_slots WriteNote = [''note_name'', ''content'']"
| "required_slots WebSearch = [''query'']"
| "required_slots WebSearchThenSaveNote = [''query'', ''note_name'']"
| "required_slots ProjectContextQuery = [''query'']"
| "required_slots _ = []"

text \<open>\<open>getattr(parsed, slot)\<close> for the slots of the table.\<close>

definition slot_value :: "parsed_intent \<Rightarrow> string \<Rightarrow> pyval" where
  "slot_value p slot =
     (if slot = ''expression'' then opt_str (expression p)
      else if slot = ''note_name'' then opt_str (note_name p)
      else if slot = ''content'' then content p
      else if slot = ''query'' then opt_str (query p)
      else VNone)"

fun is_missing :: "pyval \<Rightarrow> bool" where
  "is_missing VNone = True"
| "is_missing (VStr s) = blank s"
| "is_missing (VEnum c s) = blank s"
| "is_missing v = False"

definition validate_slots :: "parsed_intent \<Rightarrow> parsed_intent" where
  "validate_slots p =
     with_missing_slots
       (sort (remdups (missing_slots p @
          filter (\<lambda>s. is_missing (slot_value p s)) (required_slots (intent p))))) p"

definition compose_clarification :: "parsed_intent \<Rightarrow> string" where
  "compose_clarification p =
     (let missing = set (missing_slots p)
      in if ''intent'' \<in> missing
         then (''B'' @ [CHR 0xE1, CHR 0xBA, CHR 0xA1] @ ''n mu'' @ [CHR 0xE1, CHR 0xBB, CHR 0x91]
           @ ''n t'' @ [CHR 0xC3, CHR 0xB4] @ ''i l'' @ [CHR 0xC3, CHR 0xA0] @ ''m vi''
           @ [CHR 0xE1, CHR 0xBB, CHR 0x87] @ ''c g'' @ [CHR 0xC3, CHR 0xAC] @ ''?'')
         else if ''expression'' \<in> missing
         then (''B'' @ [CHR 0xE1, CHR 0xBA, CHR 0xA1] @ ''n mu'' @ [CHR 0xE1, CHR 0xBB, CHR 0x91]
           @ ''n t'' @ [CHR 0xC3, CHR 0xB4] @ ''i t'' @ [CHR 0xC3, CHR 0xAD] @ ''nh bi''
           @ [CHR 0xE1, CHR 0xBB, CHR 0x83] @ ''u th'' @ [CHR 0xE1, CHR 0xBB, CHR 0xA9]
           @ ''c n'' @ [CHR 0xC3, CHR 0xA0] @ ''o?'')
         else if ''note_name'' \<in> missing
         then (''B'' @ [CHR 0xE1, CHR 0xBA, CHR 0xA1] @ ''n mu'' @ [CHR 0xE1, CHR 0xBB, CHR 0x91]
           @ ''n d'' @ [CHR 0xC3, CHR 0xB9] @ ''ng t'' @ [CHR 0xC3, CHR 0xAA] @ ''n ghi ch''
           @ [CHR 0xC3, CHR 0xBA] @ '' l'' @ [CHR 0xC3, CHR 0xA0] @ '' g''
           @ [CHR 0xC3, CHR 0xAC] @ ''?'')
         else if ''content'' \<in> missing
         then (''B'' @ [CHR 0xE1, CHR 0xBA, CHR 0xA1] @ ''n mu'' @ [CHR 0xE1, CHR 0xBB, CHR 0x91]
           @ ''n l'' @ [CHR 0xC6, CHR 0xB0] @ ''u n'' @ [CHR 0xE1, CHR 0xBB, CHR 0x99]
           @ ''i dung g'' @ [CHR 0xC3, CHR 0xAC] @ ''?'')
         else if ''query'' \<in> missing
         then (''B'' @ [CHR 0xE1, CHR 0xBA, CHR 0xA1] @ ''n mu'' @ [CHR 0xE1, CHR 0xBB, CHR 0x91]
           @ ''n t'' @ [CHR 0xC3, CHR 0xB4] @ ''i t'' @ [CHR 0xC3, CHR 0xAC] @ ''m th''
           @ [CHR 0xC3, CHR 0xB4] @ ''ng tin g'' @ [CHR 0xC3, CHR 0xAC] @ ''?'')
         else (''B'' @ [CHR 0xE1, CHR 0xBA, CHR 0xA1] @ ''n h'' @ [CHR 0xC3, CHR 0xA3] @ ''y m''
           @ [CHR 0xC3, CHR 0xB4] @ '' t'' @ [CHR 0xE1, CHR 0xBA, CHR 0xA3] @ '' r''
           @ [CHR 0xC3, CHR 0xB5] @ '' h'' @ [CHR 0xC6, CHR 0xA1] @ ''n vi''
           @ [CHR 0xE1, CHR 0xBB, CHR 0x87] @ ''c b'' @ [CHR 0xE1, CHR 0xBA, CHR 0xA1]
           @ ''n mu'' @ [CHR 0xE1, CHR 0xBB, CHR 0x91] @ ''n t'' @ [CHR 0xC3, CHR 0xB4]
           @ ''i l'' @ [CHR 0xC3, CHR 0xA0] @ ''m.''))"

section \<open>The intent planner\<close>

definition new_step :: "string \<Rightarrow> string \<Rightarrow> tool_name \<Rightarrow> kwargs \<Rightarrow> step" where
  "new_step i th t kw =
     \<lparr>thought = th, action = Tool t, args = kw, step_id = i,
      step_status = step_status.PENDING, step_risk = LOW, depends_on = [], step_metadata = []\<rparr>"

definition clarification_plan :: "(nat \<Rightarrow> string) \<Rightarrow> parsed_intent \<Rightarrow> step list" where
  "clarification_plan ids p =
     [new_step (ids 0)
        (''Intent r'' @ [CHR 0xC3, CHR 0xB5] @ '' nh'' @ [CHR 0xC6, CHR 0xB0] @ ''ng thi''
           @ [CHR 0xE1, CHR 0xBA, CHR 0xBF] @ ''u slot; h'' @ [CHR 0xE1, CHR 0xBB, CHR 0x8F]
           @ ''i l'' @ [CHR 0xE1, CHR 0xBA, CHR 0xA1] @ ''i user'')
        FINISH [(''answer'', VStr (compose_clarification p))]]"

definition calculate_plan :: "(nat \<Rightarrow> string) \<Rightarrow> parsed_intent \<Rightarrow> step list" where
  "calculate_plan ids p =
     [new_step (ids 0)
        (''C'' @ [CHR 0xE1, CHR 0xBA, CHR 0xA7] @ ''n t'' @ [CHR 0xC3, CHR 0xAD] @ ''nh to''
           @ [CHR 0xC3, CHR 0xA1] @ ''n bi'' @ [CHR 0xE1, CHR 0xBB, CHR 0x83] @ ''u th''
           @ [CHR 0xE1, CHR 0xBB, CHR 0xA9] @ ''c'')
        CALCULATE [(''expression'', opt_str (expression p))],
      new_step (ids 1)
        (''Tr'' @ [CHR 0xE1, CHR 0xBA, CHR 0xA3] @ '' k'' @ [CHR 0xE1, CHR 0xBA, CHR 0xBF]
           @ ''t qu'' @ [CHR 0xE1, CHR 0xBA, CHR 0xA3] @ '' t'' @ [CHR 0xC3, CHR 0xAD]
           @ ''nh to'' @ [CHR 0xC3, CHR 0xA1] @ ''n cho user'')
        FINISH [(''answer'', VStr
          (''K'' @ [CHR 0xE1, CHR 0xBA, CHR 0xBF] @ ''t qu'' @ [CHR 0xE1, CHR 0xBA, CHR 0xA3]
           @ '': ${last.output.value}''))]]"

definition read_note_plan :: "(nat \<Rightarrow> string) \<Rightarrow> parsed_intent \<Rightarrow> step list" where
  "read_note_plan ids p =
     [new_step (ids 0)
        ([CHR 0xC4, CHR 0x90, CHR 0xE1, CHR 0xBB, CHR 0x8D] @ ''c n''
           @ [CHR 0xE1, CHR 0xBB, CHR 0x99] @ ''i dung ghi ch'' @ [CHR 0xC3, CHR 0xBA])
        READ_NOTE [(''name'', opt_str (note_name p))],
      new_step (ids 1)
        (''Tr'' @ [CHR 0xE1, CHR 0xBA, CHR 0xA3] @ '' n'' @ [CHR 0xE1, CHR 0xBB, CHR 0x99]
           @ ''i dung ghi ch'' @ [CHR 0xC3, CHR 0xBA] @ '' cho user'')
        FINISH [(''answer'', VStr ''$last_text'')]]"

definition opt_text :: "string option \<Rightarrow> string" where
  "opt_text s = (case s of None \<Rightarrow> ''None'' | Some t \<Rightarrow> t)"

definition write_note_plan :: "(nat \<Rightarrow> string) \<Rightarrow> parsed_intent \<Rightarrow> step list" where
  "write_note_plan ids p =
     [new_step (ids 0)
        (''L'' @ [CHR 0xC6, CHR 0xB0] @ ''u n'' @ [CHR 0xE1, CHR 0xBB, CHR 0x99]
           @ ''i dung v'' @ [CHR 0xC3, CHR 0xA0] @ ''o ghi ch'' @ [CHR 0xC3, CHR 0xBA])
        WRITE_NOTE [(''name'', opt_str (note_name p)), (''content'', content p)],
      new_step (ids 1)
        (''Th'' @ [CHR 0xC3, CHR 0xB4] @ ''ng b'' @ [CHR 0xC3, CHR 0xA1] @ ''o ''
           @ [CHR 0xC4, CHR 0x91, CHR 0xC3, CHR 0xA3] @ '' l'' @ [CHR 0xC6, CHR 0xB0]
           @ ''u ghi ch'' @ [CHR 0xC3, CHR 0xBA])
        FINISH [(''answer'', VStr
          (([CHR 0xC4, CHR 0x90, CHR 0xC3, CHR 0xA3] @ '' l'' @ [CHR 0xC6, CHR 0xB0] @ ''u v''
           @ [CHR 0xC3, CHR 0xA0] @ ''o ghi ch'' @ [CHR 0xC3, CHR 0xBA] @ '' '' @ [CHR 0x27])
           @ opt_text (note_name p) @ [CHR 0x27] @ ''.''))]]"

definition project_context_query_plan :: "(nat \<Rightarrow> string) \<Rightarrow> parsed_intent \<Rightarrow> step list" where
  "project_context_query_plan ids p =
     [new_step (ids 0)
        ([CHR 0xC4, CHR 0x90, CHR 0xE1, CHR 0xBB, CHR 0x8D] @ ''c project context t''
           @ [CHR 0xE1, CHR 0xBB, CHR 0xAB] @ '' ContextPack ''
           @ [CHR 0xC4, CHR 0x91, CHR 0xE1, CHR 0xBB, CHR 0x83] @ '' tr''
           @ [CHR 0xE1, CHR 0xBA, CHR 0xA3] @ '' l'' @ [CHR 0xE1, CHR 0xBB, CHR 0x9D] @ ''i'')
        ANSWER_FROM_CONTEXT [(''query'', opt_str (query p))],
      new_step (ids 1)
        (''Tr'' @ [CHR 0xE1, CHR 0xBA, CHR 0xA3] @ '' c'' @ [CHR 0xC3, CHR 0xA2] @ ''u tr''
           @ [CHR 0xE1, CHR 0xBA, CHR 0xA3] @ '' l'' @ [CHR 0xE1, CHR 0xBB, CHR 0x9D] @ ''i d''
           @ [CHR 0xE1, CHR 0xBB, CHR 0xB1] @ ''a tr'' @ [CHR 0xC3, CHR 0xAA]
           @ ''n project context'')
        FINISH [(''answer'', VStr ''$last.output.answer'')]]"

definition greeting_plan :: "(nat \<Rightarrow> string) \<Rightarrow> step list" where
  "greeting_plan ids =
     [new_step (ids 0)
        (''Ch'' @ [CHR 0xC3, CHR 0xA0] @ ''o h'' @ [CHR 0xE1, CHR 0xBB, CHR 0x8F] @ ''i ng''
           @ [CHR 0xC6, CHR 0xB0, CHR 0xE1, CHR 0xBB, CHR 0x9D] @ ''i d''
           @ [CHR 0xC3, CHR 0xB9] @ ''ng v'' @ [CHR 0xC3, CHR 0xA0] @ '' gi''
           @ [CHR 0xE1, CHR 0xBB, CHR 0x9B] @ ''i thi'' @ [CHR 0xE1, CHR 0xBB, CHR 0x87]
           @ ''u kh'' @ [CHR 0xE1, CHR 0xBA, CHR 0xA3] @ '' n'' @ [CHR 0xC4, CHR 0x83]
           @ ''ng hi'' @ [CHR 0xE1, CHR 0xBB, CHR 0x87] @ ''n c'' @ [CHR 0xC3, CHR 0xB3])
        FINISH [(''answer'', VStr
          (''Ch'' @ [CHR 0xC3, CHR 0xA0] @ ''o b'' @ [CHR 0xE1, CHR 0xBA, CHR 0xA1] @ ''n! T''
           @ [CHR 0xC3, CHR 0xB4] @ ''i l'' @ [CHR 0xC3, CHR 0xA0] @ '' TomTit Agent. B''
           @ [CHR 0xE1, CHR 0xBA, CHR 0xA1] @ ''n c'' @ [CHR 0xC3, CHR 0xB3] @ '' th''
           @ [CHR 0xE1, CHR 0xBB, CHR 0x83] @ '' th'' @ [CHR 0xE1, CHR 0xBB, CHR 0xAD] @ '': ''
           @ [CHR 0x22] @ ''T'' @ [CHR 0xC3, CHR 0xAD] @ ''nh 1 + 1'' @ [CHR 0x22] @ '', ''
           @ [CHR 0x22] @ ''calculate 2 + 2'' @ [CHR 0x22] @ '', '' @ [CHR 0x22] @ ''T''
           @ [CHR 0xC3, CHR 0xAC] @ ''m Python tutorials'' @ [CHR 0x22] @ '', '' @ [CHR 0x22]
           @ ''L'' @ [CHR 0xC6, CHR 0xB0] @ ''u ghi ch'' @ [CHR 0xC3, CHR 0xBA] @ '' [t''
           @ [CHR 0xC3, CHR 0xAA] @ ''n] [n'' @ [CHR 0xE1, CHR 0xBB, CHR 0x99] @ ''i dung]''
           @ [CHR 0x22] @ '', ho'' @ [CHR 0xE1, CHR 0xBA, CHR 0xB7] @ ''c ''
           @ [CHR 0x22, CHR 0xC4, CHR 0x90, CHR 0xE1, CHR 0xBB, CHR 0x8D] @ ''c ghi ch''
           @ [CHR 0xC3, CHR 0xBA] @ '' [t'' @ [CHR 0xC3, CHR 0xAA] @ ''n]'' @ [CHR 0x22]
           @ ''.''))]]"

definition unknown_plan :: "(nat \<Rightarrow> string) \<Rightarrow> step list" where
  "unknown_plan ids =
     [new_step (ids 0)
        (''Kh'' @ [CHR 0xC3, CHR 0xB4] @ ''ng hi'' @ [CHR 0xE1, CHR 0xBB, CHR 0x83]
           @ ''u r'' @ [CHR 0xC3, CHR 0xB5] @ '' task n'' @ [CHR 0xC3, CHR 0xAA] @ ''n k''
           @ [CHR 0xE1, CHR 0xBA, CHR 0xBF] @ ''t th'' @ [CHR 0xC3, CHR 0xBA] @ ''c an to''
           @ [CHR 0xC3, CHR 0xA0] @ ''n v'' @ [CHR 0xE1, CHR 0xBB, CHR 0x9B] @ ''i g''
           @ [CHR 0xE1, CHR 0xBB, CHR 0xA3] @ ''i '' @ [CHR 0xC3, CHR 0xBD])
        FINISH [(''answer'', VStr
          (''T'' @ [CHR 0xC3, CHR 0xB4] @ ''i ch'' @ [CHR 0xC6, CHR 0xB0] @ ''a x''
           @ [CHR 0xE1, CHR 0xBB, CHR 0xAD] @ '' l'' @ [CHR 0xC3, CHR 0xBD] @ '' ''
           @ [CHR 0xC4, CHR 0x91, CHR 0xC6, CHR 0xB0, CHR 0xE1, CHR 0xBB, CHR 0xA3] @ ''c y''
           @ [CHR 0xC3, CHR 0xAA] @ ''u c'' @ [CHR 0xE1, CHR 0xBA, CHR 0xA7] @ ''u n''
           @ [CHR 0xC3, CHR 0xA0] @ ''y trong b'' @ [CHR 0xE1, CHR 0xBA, CHR 0xA3]
           @ ''n rule-based MVP hi'' @ [CHR 0xE1, CHR 0xBB, CHR 0x87] @ ''n t''
           @ [CHR 0xE1, CHR 0xBA, CHR 0xA1] @ ''i. B'' @ [CHR 0xE1, CHR 0xBA, CHR 0xA1]
           @ ''n c'' @ [CHR 0xC3, CHR 0xB3] @ '' th'' @ [CHR 0xE1, CHR 0xBB, CHR 0x83]
           @ '' th'' @ [CHR 0xE1, CHR 0xBB, CHR 0xAD] @ '': '' @ [CHR 0x22] @ ''T''
           @ [CHR 0xC3, CHR 0xAD] @ ''nh 1 + 1'' @ [CHR 0x22] @ '', '' @ [CHR 0x22]
           @ ''calculate 2 + 2'' @ [CHR 0x22] @ '', '' @ [CHR 0x22] @ ''T''
           @ [CHR 0xC3, CHR 0xAC] @ ''m Python tutorials'' @ [CHR 0x22] @ '', '' @ [CHR 0x22]
           @ ''L'' @ [CHR 0xC6, CHR 0xB0] @ ''u ghi ch'' @ [CHR 0xC3, CHR 0xBA] @ '' ...''
           @ [CHR 0x22] @ '', ho'' @ [CHR 0xE1, CHR 0xBA, CHR 0xB7] @ ''c ''
           @ [CHR 0x22, CHR 0xC4, CHR 0x90, CHR 0xE1, CHR 0xBB, CHR 0x8D] @ ''c ghi ch''
           @ [CHR 0xC3, CHR 0xBA] @ '' ...'' @ [CHR 0x22] @ ''.''))]]"

definition intent_plan :: "(nat \<Rightarrow> string) \<Rightarrow> parsed_intent \<Rightarrow> step list" where
  "intent_plan ids p =
     (if missing_slots p \<noteq> [] then clarification_plan ids p
      else if intent p = Calculate then calculate_plan ids p
      else if intent p = ReadNote then read_note_plan ids p
      else if intent p = WriteNote then write_note_plan ids p
      else if intent p = ProjectContextQuery then project_context_query_plan ids p
      else if intent p = Greeting then greeting_plan ids
      else unknown_plan ids)"

text \<open>\<open>HybridPlanner.make_plan\<close>; the rule parser is an argument.\<close>

definition hybrid_make_plan ::
  "(string \<Rightarrow> parsed_intent) \<Rightarrow> rat \<Rightarrow> (nat \<Rightarrow> string) \<Rightarrow> 'm agent_state \<Rightarrow> step list" where
  "hybrid_make_plan parse threshold ids s =
     (let p = parse (goal s);
          p' = (if confidence p < threshold
                then \<lparr>intent = Unknown, confidence = confidence p, pi_source = pi_source p,
                      raw_text = goal s, expression = None, note_name = None, content = VNone,
                      query = None, missing_slots = [''intent''],
                      pi_metadata = [(''reason'', VStr ''low_rule_confidence'')]\<rparr>
                else p)
      in intent_plan ids (validate_slots p'))"

section \<open>The plan validator\<close>

text \<open>
  \<open>step.action in available\<close> and \<open>tools[step.action]\<close>: a bare string with the value of a
  tool name is equal to it and hashes alike.
\<close>

definition find_tool :: "'m registry \<Rightarrow> action \<Rightarrow> 'm tool_spec option" where
  "find_tool tools act =
     map_of (map (\<lambda>(t, sp). (tool_name_value t, sp)) tools) (action_text act)"

fun validate_steps ::
  "'m registry \<Rightarrow> string set \<Rightarrow> nat \<Rightarrow> step list \<Rightarrow> exn + unit" where
  "validate_steps tools seen i [] = Inr ()"
| "validate_steps tools seen i (st # sts) =
     (if step_id st \<in> seen
      then Inl (ValueError (''Duplicate step id at step '' @ show_nat i @ '': '' @ step_id st))
      else
       (let seen' = insert (step_id st) seen
        in case find_tool tools (action st) of
             None \<Rightarrow> Inl (ValueError
               (''Invalid action at step '' @ show_nat i @ '': '' @ action_text (action st)))
           | Some sp \<Rightarrow>
               (if \<not> set (depends_on st) \<subseteq> seen'
                then Inl (ValueError (''Invalid depends_on at step '' @ show_nat i))
                else if \<not> required_args sp \<subseteq> set (map fst (args st))
                then Inl (ValueError (''Missing required args at step '' @ show_nat i
                       @ '' for action '' @ action_text (action st)))
                else if \<not> set (map fst (args st)) \<subseteq> allowed_args sp
                then Inl (ValueError (''Unknown args at step '' @ show_nat i
                       @ '' for action '' @ action_text (action st)))
                else validate_steps tools seen' (Suc i) sts)))"

definition validate_plan :: "step list \<Rightarrow> 'm registry \<Rightarrow> exn + unit" where
  "validate_plan sts tools =
     (if sts = [] then Inl (ValueError ''Plan cannot be empty.'')
      else validate_steps tools {} 1 sts)"

section \<open>Lemmas\<close>

text \<open>What a valid plan is, without the scan.\<close>

definition step_ok :: "'m registry \<Rightarrow> step \<Rightarrow> bool" where
  "step_ok tools st \<longleftrightarrow>
     (\<exists>sp. find_tool tools (action st) = Some sp
        \<and> required_args sp \<subseteq> set (map fst (args st)) \<and> set (map fst (args st)) \<subseteq> allowed_args sp)"

definition deps_ok :: "string set \<Rightarrow> step list \<Rightarrow> bool" where
  "deps_ok seen sts \<longleftrightarrow>
     (\<forall>i < length sts.
        set (depends_on (sts ! i)) \<subseteq> seen \<union> set (map step_id (take (Suc i) sts)))"

lemma deps_ok_Nil [simp]: "deps_ok seen []"
  by (simp add: deps_ok_def)

lemma deps_ok_Cons [simp]:
  "deps_ok seen (st # sts) \<longleftrightarrow>
     set (depends_on st) \<subseteq> insert (step_id st) seen \<and> deps_ok (insert (step_id st) seen) sts"
  by (simp add: deps_ok_def All_less_Suc2)

lemma validate_steps_iff:
  "validate_steps tools seen i sts = Inr u \<longleftrightarrow>
     distinct (map step_id sts) \<and> set (map step_id sts) \<inter> seen = {}
     \<and> (\<forall>st \<in> set sts. step_ok tools st) \<and> deps_ok seen sts"
proof (induction sts arbitrary: seen i)
  case (Cons st sts)
  show ?case
  proof (cases "find_tool tools (action st)")
    case None
    then show ?thesis by (simp add: step_ok_def Let_def)
  next
    case (Some sp)
    have "validate_steps tools seen i (st # sts) = Inr u \<longleftrightarrow>
        step_id st \<notin> seen \<and> set (depends_on st) \<subseteq> insert (step_id st) seen \<and> step_ok tools st
        \<and> validate_steps tools (insert (step_id st) seen) (Suc i) sts = Inr u"
      using Some by (simp add: Let_def step_ok_def)
    then show ?thesis unfolding Cons.IH by auto
  qed
qed simp

lemma validate_plan_iff:
  "validate_plan sts tools = Inr u \<longleftrightarrow>
     sts \<noteq> [] \<and> distinct (map step_id sts)
     \<and> (\<forall>st \<in> set sts. step_ok tools st) \<and> deps_ok {} sts"
  by (simp add: validate_plan_def validate_steps_iff)

lemma find_tool_get [simp]: "find_tool tools (Tool t) = registry_get tools t"
  by (induction tools) (auto simp: find_tool_def registry_get_def tool_name_value_inj)

text \<open>Slot validation leaves a missing slot exactly when there is something to ask for.\<close>

lemma validate_slots_missing:
  "missing_slots (validate_slots p) = [] \<longleftrightarrow>
     missing_slots p = [] \<and>
     (\<forall>s \<in> set (required_slots (intent p)). \<not> is_missing (slot_value p s))"
  by (auto simp: validate_slots_def with_missing_slots_def filter_empty_conv simp del: sort_key_simps)

lemma validate_slots_idem: "validate_slots (validate_slots p) = validate_slots p"
proof -
  have "sort (remdups (sort (remdups xs) @ filter Q ys)) = sort (remdups xs)"
    if "set (filter Q ys) \<subseteq> set xs" for xs ys :: "string list" and Q
    by (rule sorted_distinct_set_unique) (use that in auto)
  then show ?thesis
    by (simp add: validate_slots_def with_missing_slots_def slot_value_def cong: filter_cong)
qed

text \<open>The plans of the intent planner use each identifier once and end with \<open>FINISH\<close>.\<close>

lemmas intent_plan_defs =
  clarification_plan_def calculate_plan_def read_note_plan_def write_note_plan_def
  project_context_query_plan_def greeting_plan_def unknown_plan_def new_step_def

lemma intent_plan_shape:
  "\<exists>n. map step_id (intent_plan ids p) = map ids [0..<Suc n]
     \<and> action (last (intent_plan ids p)) = Tool FINISH"
proof -
  have one: "[ids 0] = map ids [0..<Suc 0]" and two: "[ids 0, ids 1] = map ids [0..<Suc 1]"
    by (simp_all add: upt_rec)
  show ?thesis
    unfolding intent_plan_def
    by (auto simp: intent_plan_defs one two simp del: upt.simps One_nat_def
        intro: exI [of _ 0] exI [of _ 1])
qed

end
