(* ===== verification/Skills.thy ===== *)
theory Skills
  imports Planning
begin

text \<open>
  Skills are the multi-step plans of the agent (\<open>skills/\<close>): a skill declares the intents it
  serves, the inputs it reads and the tools its plan uses.  The catalog splits the built-in
  skills against the resolved tool registry, and the skill-aware planner routes a parsed
  intent to an active skill, to a notice that the skill is unavailable, or to the intent
  planner (\<open>planning/skill_aware_intent_planner.py\<close>, \<open>planning/rule_based_planner.py\<close>).
  Frozen sets of intents and tools are HOL sets over these finite types.
\<close>

section \<open>Skill specifications\<close>

datatype skill_name = CalculateAndSave | ReadAndSummarize | WebSearchSkill

fun skill_name_value :: "skill_name \<Rightarrow> string" where
  "skill_name_value CalculateAndSave = ''calculate_and_save''"
| "skill_name_value ReadAndSummarize = ''read_and_summarize''"
| "skill_name_value WebSearchSkill = ''web_search''"

record skill_spec =
  sk_name :: skill_name
  sk_description :: string
  applicable_intents :: "intent_name set"
  required_inputs :: "string set"
  required_tools :: "tool_name set"
  plan_factory :: "(nat \<Rightarrow> string) \<Rightarrow> kwargs \<Rightarrow> exn + step list"

abbreviation InvalidSkillSpecError :: "string \<Rightarrow> exn" where
  "InvalidSkillSpecError m \<equiv> Exn ''InvalidSkillSpecError'' m"

definition skill_spec_init :: "skill_spec \<Rightarrow> exn + skill_spec" where
  "skill_spec_init sk =
     seqE (raise_first
       [(blank (sk_description sk), InvalidSkillSpecError ''description must not be blank''),
        (applicable_intents sk = {},
           InvalidSkillSpecError ''applicable_intents must not be empty''),
        (required_inputs sk = {}, InvalidSkillSpecError ''required_inputs must not be empty''),
        (required_tools sk = {}, InvalidSkillSpecError ''required_tools must not be empty'')])
     (\<lambda>_. Inr sk)"

record disabled_skill =
  ds_name :: skill_name
  ds_description :: string
  ds_intents :: "intent_name set"
  ds_required_tools :: "tool_name list"
  missing_tools :: "tool_name list"

section \<open>The registry of active skills\<close>

record skill_registry =
  sr_data :: "(skill_name \<times> skill_spec) list"
  intent_index :: "intent_name \<Rightarrow> skill_name option"

fun skill_registry_acc ::
  "skill_registry \<Rightarrow> tool_name set \<Rightarrow> skill_spec list \<Rightarrow> exn + skill_registry" where
  "skill_registry_acc reg avail [] = Inr reg"
| "skill_registry_acc reg avail (sk # sks) =
     (if sk_name sk \<in> fst ` set (sr_data reg)
      then Inl (Exn ''DuplicateSkillError'' (skill_name_value (sk_name sk)))
      else if \<not> required_tools sk \<subseteq> avail
      then Inl (Exn ''MissingSkillToolError'' (skill_name_value (sk_name sk)))
      else if \<exists>i \<in> applicable_intents sk. intent_index reg i \<noteq> None
      then Inl (Exn ''DuplicateSkillIntentError'' (skill_name_value (sk_name sk)))
      else skill_registry_acc
             \<lparr>sr_data = sr_data reg @ [(sk_name sk, sk)],
              intent_index = (\<lambda>i. if i \<in> applicable_intents sk then Some (sk_name sk)
                                  else intent_index reg i)\<rparr> avail sks)"

definition skill_registry_from_specs ::
  "skill_spec list \<Rightarrow> 'm registry \<Rightarrow> exn + skill_registry" where
  "skill_registry_from_specs sks tools =
     skill_registry_acc \<lparr>sr_data = [], intent_index = (\<lambda>_. None)\<rparr> (fst ` set tools) sks"

definition skill_require :: "skill_registry \<Rightarrow> skill_name \<Rightarrow> exn + skill_spec" where
  "skill_require reg n =
     (case map_of (sr_data reg) n of
        None \<Rightarrow> Inl (Exn ''UnknownSkillError'' (skill_name_value n)) | Some sk \<Rightarrow> Inr sk)"

text \<open>\<open>for_intent\<close>; the inner lookup is a subscript of the dictionary, so a name that the
  index holds and the data does not would be a \<open>KeyError\<close>.\<close>

definition for_intent :: "skill_registry \<Rightarrow> intent_name \<Rightarrow> exn + skill_spec option" where
  "for_intent reg i =
     (case intent_index reg i of
        None \<Rightarrow> Inr None
      | Some n \<Rightarrow> (case map_of (sr_data reg) n of
          None \<Rightarrow> Inl (Exn ''KeyError'' (skill_name_value n)) | Some sk \<Rightarrow> Inr (Some sk)))"

section \<open>The catalog\<close>

record skill_catalog =
  active :: skill_registry
  disabled :: "disabled_skill list"

definition tools_by_value :: "tool_name set \<Rightarrow> tool_name list" where
  "tools_by_value ts = filter (\<lambda>t. t \<in> ts) (sort_key tool_name_value all_tool_names)"

fun check_duplicates ::
  "skill_name set \<Rightarrow> intent_name set \<Rightarrow> skill_spec list \<Rightarrow> exn + unit" where
  "check_duplicates names intents [] = Inr ()"
| "check_duplicates names intents (sk # sks) =
     (if sk_name sk \<in> names
      then Inl (Exn ''DuplicateSkillError'' (skill_name_value (sk_name sk)))
      else if applicable_intents sk \<inter> intents \<noteq> {}
      then Inl (Exn ''DuplicateSkillIntentError'' (skill_name_value (sk_name sk)))
      else check_duplicates (insert (sk_name sk) names) (applicable_intents sk \<union> intents) sks)"

definition disabled_record :: "tool_name set \<Rightarrow> skill_spec \<Rightarrow> disabled_skill" where
  "disabled_record avail sk =
     \<lparr>ds_name = sk_name sk, ds_description = sk_description sk,
      ds_intents = applicable_intents sk,
      ds_required_tools = tools_by_value (required_tools sk),
      missing_tools = tools_by_value (required_tools sk - avail)\<rparr>"

definition catalog_from_specs :: "skill_spec list \<Rightarrow> 'm registry \<Rightarrow> exn + skill_catalog" where
  "catalog_from_specs sks tools =
     seqE (check_duplicates {} {} sks) (\<lambda>_.
       let avail = fst ` set tools
       in seqE (skill_registry_from_specs (filter (\<lambda>sk. required_tools sk \<subseteq> avail) sks) tools)
            (\<lambda>reg. Inr \<lparr>active = reg,
                        disabled = map (disabled_record avail)
                          (filter (\<lambda>sk. \<not> required_tools sk \<subseteq> avail) sks)\<rparr>))"

text \<open>The index of disabled skills is a dictionary built in order, so a later skill wins.\<close>

definition unavailable_for_intent :: "skill_catalog \<Rightarrow> intent_name \<Rightarrow> disabled_skill option" where
  "unavailable_for_intent c i =
     (case filter (\<lambda>d. i \<in> ds_intents d) (disabled c) of [] \<Rightarrow> None | ds \<Rightarrow> Some (last ds))"

section \<open>The built-in skills\<close>

definition calculate_and_save_steps :: "(nat \<Rightarrow> string) \<Rightarrow> host \<Rightarrow> pyval \<Rightarrow> pyval \<Rightarrow> step list" where
  "calculate_and_save_steps ids h expr note =
     [new_step (ids 0)
        (''C'' @ [CHR 0xE1, CHR 0xBA, CHR 0xA7] @ ''n t'' @ [CHR 0xC3, CHR 0xAD] @ ''nh to''
           @ [CHR 0xC3, CHR 0xA1] @ ''n bi'' @ [CHR 0xE1, CHR 0xBB, CHR 0x83] @ ''u th''
           @ [CHR 0xE1, CHR 0xBB, CHR 0xA9] @ ''c tr''
           @ [CHR 0xC6, CHR 0xB0, CHR 0xE1, CHR 0xBB, CHR 0x9B] @ ''c'')
        CALCULATE [(''expression'', expr)],
      new_step (ids 1)
        (''L'' @ [CHR 0xC6, CHR 0xB0] @ ''u k'' @ [CHR 0xE1, CHR 0xBA, CHR 0xBF] @ ''t qu''
           @ [CHR 0xE1, CHR 0xBA, CHR 0xA3] @ '' v'' @ [CHR 0xC3, CHR 0xA0] @ ''o ghi ch''
           @ [CHR 0xC3, CHR 0xBA])
        WRITE_NOTE [(''name'', note), (''content'', VStr ''$last_text'')],
      new_step (ids 2)
        (''Th'' @ [CHR 0xC3, CHR 0xB4] @ ''ng b'' @ [CHR 0xC3, CHR 0xA1] @ ''o ho''
           @ [CHR 0xC3, CHR 0xA0] @ ''n t'' @ [CHR 0xE1, CHR 0xBA, CHR 0xA5] @ ''t cho user'')
        FINISH [(''answer'', VStr
          (([CHR 0xC4, CHR 0x90, CHR 0xC3, CHR 0xA3] @ '' t'' @ [CHR 0xC3, CHR 0xAD]
           @ ''nh xong v'' @ [CHR 0xC3, CHR 0xA0] @ '' l'' @ [CHR 0xC6, CHR 0xB0] @ ''u v''
           @ [CHR 0xC3, CHR 0xA0] @ ''o ghi ch'' @ [CHR 0xC3, CHR 0xBA] @ '' '' @ [CHR 0x27])
           @ to_str h note @
           ([CHR 0x27] @ ''. K'' @ [CHR 0xE1, CHR 0xBA, CHR 0xBF] @ ''t qu''
           @ [CHR 0xE1, CHR 0xBA, CHR 0xA3] @ '': ${slot.calc_result}'')))]]"

definition read_and_summarize_steps :: "(nat \<Rightarrow> string) \<Rightarrow> pyval \<Rightarrow> step list" where
  "read_and_summarize_steps ids note =
     [new_step (ids 0)
        ([CHR 0xC4, CHR 0x90, CHR 0xE1, CHR 0xBB, CHR 0x8D] @ ''c n''
           @ [CHR 0xE1, CHR 0xBB, CHR 0x99] @ ''i dung ghi ch'' @ [CHR 0xC3, CHR 0xBA])
        READ_NOTE [(''name'', note)],
      new_step (ids 1)
        (''T'' @ [CHR 0xC3, CHR 0xB3] @ ''m t'' @ [CHR 0xE1, CHR 0xBA, CHR 0xAF] @ ''t n''
           @ [CHR 0xE1, CHR 0xBB, CHR 0x99] @ ''i dung ghi ch'' @ [CHR 0xC3, CHR 0xBA])
        SUMMARIZE [(''text'', VStr ''$last.output.content'')],
      new_step (ids 2)
        (''Tr'' @ [CHR 0xE1, CHR 0xBA, CHR 0xA3] @ '' summary cho user'')
        FINISH [(''answer'', VStr
          (''T'' @ [CHR 0xC3, CHR 0xB3] @ ''m t'' @ [CHR 0xE1, CHR 0xBA, CHR 0xAF]
           @ ''t: ${last.output.summary}''))]]"

definition web_search_steps :: "(nat \<Rightarrow> string) \<Rightarrow> pyval \<Rightarrow> int \<Rightarrow> step list" where
  "web_search_steps ids q max_results =
     [new_step (ids 0)
        (''T'' @ [CHR 0xC3, CHR 0xAC] @ ''m th'' @ [CHR 0xC3, CHR 0xB4] @ ''ng tin tr''
           @ [CHR 0xC3, CHR 0xAA] @ ''n web'')
        WEB_SEARCH [(''query'', q), (''max_results'', VInt max_results)],
      new_step (ids 1)
        (''Tr'' @ [CHR 0xE1, CHR 0xBA, CHR 0xA3] @ '' k'' @ [CHR 0xE1, CHR 0xBA, CHR 0xBF]
           @ ''t qu'' @ [CHR 0xE1, CHR 0xBA, CHR 0xA3] @ '' search cho user'')
        FINISH [(''answer'', VStr ''$last_text'')]]"

definition need_input :: "kwargs \<Rightarrow> string \<Rightarrow> exn + pyval" where
  "need_input inputs k =
     (case map_of inputs k of None \<Rightarrow> Inl (Exn ''KeyError'' k) | Some v \<Rightarrow> Inr v)"

definition calculate_and_save_factory ::
  "host \<Rightarrow> (nat \<Rightarrow> string) \<Rightarrow> kwargs \<Rightarrow> exn + step list" where
  "calculate_and_save_factory h ids inputs =
     seqE (need_input inputs ''expression'') (\<lambda>e.
     seqE (need_input inputs ''note_name'') (\<lambda>n. Inr (calculate_and_save_steps ids h e n)))"

definition read_and_summarize_factory ::
  "(nat \<Rightarrow> string) \<Rightarrow> kwargs \<Rightarrow> exn + step list" where
  "read_and_summarize_factory ids inputs =
     seqE (need_input inputs ''note_name'') (\<lambda>n. Inr (read_and_summarize_steps ids n))"

definition web_search_factory :: "(nat \<Rightarrow> string) \<Rightarrow> kwargs \<Rightarrow> exn + step list" where
  "web_search_factory ids inputs =
     seqE (need_input inputs ''query'') (\<lambda>q. Inr (web_search_steps ids q 3))"

definition builtin_skill_specs :: "host \<Rightarrow> skill_spec list" where
  "builtin_skill_specs h =
     [\<lparr>sk_name = CalculateAndSave,
       sk_description = ''Calculate a numeric expression then save the result as a note.'',
       applicable_intents = {CalculateThenSaveNote},
       required_inputs = {''expression'', ''note_name''},
       required_tools = {CALCULATE, WRITE_NOTE, FINISH},
       plan_factory = calculate_and_save_factory h\<rparr>,
      \<lparr>sk_name = ReadAndSummarize,
       sk_description = ''Read a note from memory then summarize its content.'',
       applicable_intents = {ReadNoteThenSummarize},
       required_inputs = {''note_name''},
       required_tools = {READ_NOTE, SUMMARIZE, FINISH},
       plan_factory = read_and_summarize_factory\<rparr>,
      \<lparr>sk_name = WebSearchSkill,
       sk_description = ''Search the web and return the top results.'',
       applicable_intents = {WebSearch},
       required_inputs = {''query''},
       required_tools = {WEB_SEARCH, FINISH},
       plan_factory = web_search_factory\<rparr>]"

definition build_skill_catalog :: "host \<Rightarrow> 'm registry \<Rightarrow> exn + skill_catalog" where
  "build_skill_catalog h tools = catalog_from_specs (builtin_skill_specs h) tools"

definition build_skill_registry :: "host \<Rightarrow> 'm registry \<Rightarrow> exn + skill_registry" where
  "build_skill_registry h tools =
     skill_registry_from_specs
       (filter (\<lambda>sk. required_tools sk \<subseteq> fst ` set tools) (builtin_skill_specs h)) tools"

section \<open>The skill-aware planner\<close>

text \<open>
  The declared inputs of a skill, read from the parsed intent.  A skill may only declare
  attributes that \<open>ParsedIntent\<close> has; the four slots are the ones the built-in skills use.
\<close>

definition extract_inputs :: "skill_spec \<Rightarrow> parsed_intent \<Rightarrow> kwargs" where
  "extract_inputs sk p =
     map (\<lambda>k. (k, slot_value p k))
       (filter (\<lambda>k. k \<in> required_inputs sk) [''expression'', ''note_name'', ''content'', ''query''])"

definition capability_unavailable_plan :: "(nat \<Rightarrow> string) \<Rightarrow> disabled_skill \<Rightarrow> step list" where
  "capability_unavailable_plan ids d =
     [new_step (ids 0)
        (''Th'' @ [CHR 0xC3, CHR 0xB4] @ ''ng b'' @ [CHR 0xC3, CHR 0xA1] @ ''o skill kh''
           @ [CHR 0xC3, CHR 0xB4] @ ''ng kh'' @ [CHR 0xE1, CHR 0xBA, CHR 0xA3] @ '' d''
           @ [CHR 0xE1, CHR 0xBB, CHR 0xA5] @ ''ng v'' @ [CHR 0xE1, CHR 0xBB, CHR 0x9B]
           @ ''i backend hi'' @ [CHR 0xE1, CHR 0xBB, CHR 0x87] @ ''n t''
           @ [CHR 0xE1, CHR 0xBA, CHR 0xA1] @ ''i'')
        FINISH [(''answer'', VStr
          (''Skill '' @ [CHR 0x27] @ skill_name_value (ds_name d) @
           ([CHR 0x27] @ '' kh'' @ [CHR 0xC3, CHR 0xB4] @ ''ng kh''
           @ [CHR 0xE1, CHR 0xBA, CHR 0xA3] @ '' d'' @ [CHR 0xE1, CHR 0xBB, CHR 0xA5]
           @ ''ng v'' @ [CHR 0xE1, CHR 0xBB, CHR 0x9B] @ ''i backend hi''
           @ [CHR 0xE1, CHR 0xBB, CHR 0x87] @ ''n t'' @ [CHR 0xE1, CHR 0xBA, CHR 0xA1]
           @ ''i. Thi'' @ [CHR 0xE1, CHR 0xBA, CHR 0xBF] @ ''u capability: '')
           @ join '', '' (map tool_name_value (missing_tools d)) @ ''.''))]]"

definition validate_skill_plan :: "skill_spec \<Rightarrow> step list \<Rightarrow> exn + unit" where
  "validate_skill_plan sk sts =
     raise_first
       [(sts = [], Exn ''InvalidSkillPlanError'' ''plan_factory returned an empty plan''),
        (\<exists>st \<in> set sts. action_text (action st) \<notin> tool_name_value ` required_tools sk,
           Exn ''InvalidSkillPlanError'' ''action not declared in required_tools'')]"

definition skill_aware_plan ::
  "skill_catalog \<Rightarrow> (nat \<Rightarrow> string) \<Rightarrow> parsed_intent \<Rightarrow> exn + step list" where
  "skill_aware_plan c ids p =
     (if missing_slots p \<noteq> [] then Inr (intent_plan ids p)
      else seqE (for_intent (active c) (intent p)) (\<lambda>r. case r of
        Some sk \<Rightarrow>
          seqE (plan_factory sk ids (extract_inputs sk p)) (\<lambda>sts.
          seqE (validate_skill_plan sk sts) (\<lambda>_. Inr sts))
      | None \<Rightarrow>
         (case unavailable_for_intent c (intent p) of
            Some d \<Rightarrow> Inr (capability_unavailable_plan ids d)
          | None \<Rightarrow> Inr (intent_plan ids p))))"

definition rule_based_make_plan ::
  "(string \<Rightarrow> parsed_intent) \<Rightarrow> skill_catalog \<Rightarrow> (nat \<Rightarrow> string) \<Rightarrow> 'm agent_state
     \<Rightarrow> exn + step list" where
  "rule_based_make_plan parse c ids s = skill_aware_plan c ids (validate_slots (parse (goal s)))"

section \<open>Lemmas\<close>

text \<open>
  The registry invariant: the index points at registered skills, an indexed skill serves the
  intent, and every registered skill has all its tools.
\<close>

definition skill_registry_ok :: "tool_name set \<Rightarrow> skill_registry \<Rightarrow> bool" where
  "skill_registry_ok avail reg \<longleftrightarrow>
     distinct (map fst (sr_data reg)) \<and>
     (\<forall>(n, sk) \<in> set (sr_data reg). sk_name sk = n \<and> required_tools sk \<subseteq> avail
        \<and> (\<forall>i \<in> applicable_intents sk. intent_index reg i = Some n)) \<and>
     (\<forall>i n. intent_index reg i = Some n \<longrightarrow>
        (\<exists>sk. (n, sk) \<in> set (sr_data reg) \<and> i \<in> applicable_intents sk))"

lemma skill_registry_ok_empty: "skill_registry_ok avail \<lparr>sr_data = [], intent_index = (\<lambda>_. None)\<rparr>"
  by (simp add: skill_registry_ok_def)

lemma skill_registry_ok_add:
  assumes "skill_registry_ok avail reg" and "sk_name sk \<notin> fst ` set (sr_data reg)"
    and "required_tools sk \<subseteq> avail" and "\<forall>i \<in> applicable_intents sk. intent_index reg i = None"
  shows "skill_registry_ok avail
     \<lparr>sr_data = sr_data reg @ [(sk_name sk, sk)],
      intent_index = (\<lambda>i. if i \<in> applicable_intents sk then Some (sk_name sk)
                          else intent_index reg i)\<rparr>"
  using assms unfolding skill_registry_ok_def by (fastforce split: if_splits)

lemma skill_registry_acc_ok:
  "skill_registry_acc reg avail sks = Inr reg' \<Longrightarrow> skill_registry_ok avail reg \<Longrightarrow>
     skill_registry_ok avail reg' \<and> sr_data reg' = sr_data reg @ map (\<lambda>sk. (sk_name sk, sk)) sks"
proof (induction reg avail sks rule: skill_registry_acc.induct)
  case (2 reg avail sk sks)
  have *: "sk_name sk \<notin> fst ` set (sr_data reg)" "required_tools sk \<subseteq> avail"
    "\<forall>i \<in> applicable_intents sk. intent_index reg i = None"
    using 2(2) by (auto split: if_splits)
  with 2 skill_registry_ok_add [OF 2(3) *] show ?case by (auto split: if_splits)
qed simp

lemma skill_registry_from_specs_ok:
  assumes "skill_registry_from_specs sks tools = Inr reg"
  shows "skill_registry_ok (fst ` set tools) reg"
    and "sr_data reg = map (\<lambda>sk. (sk_name sk, sk)) sks"
  using assms skill_registry_acc_ok [OF _ skill_registry_ok_empty]
  by (fastforce simp: skill_registry_from_specs_def)+

lemma for_intent_ok:
  assumes "skill_registry_ok avail reg"
  shows "\<exists>r. for_intent reg i = Inr r \<and>
     (case r of None \<Rightarrow> \<forall>(n, sk) \<in> set (sr_data reg). i \<notin> applicable_intents sk
      | Some sk \<Rightarrow> (sk_name sk, sk) \<in> set (sr_data reg) \<and> i \<in> applicable_intents sk
                    \<and> required_tools sk \<subseteq> avail)"
proof (cases "intent_index reg i")
  case None
  with assms show ?thesis by (fastforce simp: for_intent_def skill_registry_ok_def)
next
  case (Some n)
  with assms obtain sk where sk: "(n, sk) \<in> set (sr_data reg)" "i \<in> applicable_intents sk"
    unfolding skill_registry_ok_def by blast
  moreover have "map_of (sr_data reg) n = Some sk" "sk_name sk = n" "required_tools sk \<subseteq> avail"
    using assms sk(1) by (auto simp: skill_registry_ok_def)
  ultimately show ?thesis using Some by (simp add: for_intent_def)
qed

lemma catalog_active:
  assumes "catalog_from_specs sks tools = Inr c"
  shows "skill_registry_ok (fst ` set tools) (active c)"
    and "set (sr_data (active c)) =
           (\<lambda>sk. (sk_name sk, sk)) ` {sk \<in> set sks. required_tools sk \<subseteq> fst ` set tools}"
    and "disabled c = map (disabled_record (fst ` set tools))
           (filter (\<lambda>sk. \<not> required_tools sk \<subseteq> fst ` set tools) sks)"
  using assms skill_registry_from_specs_ok
  by (fastforce simp: catalog_from_specs_def result_simps Let_def)+

text \<open>A skill plan that passed its check runs only tools that the registry has.\<close>

lemma skill_aware_plan_tools:
  assumes c: "catalog_from_specs sks tools = Inr c"
    and plan: "skill_aware_plan c ids p = Inr sts"
    and served: "missing_slots p = []" "intent p \<in> applicable_intents sk" "sk \<in> set sks"
    and avail: "required_tools sk \<subseteq> fst ` set tools"
  shows "sts \<noteq> [] \<and>
    (\<forall>st \<in> set sts. action_text (action st) \<in> tool_name_value ` fst ` set tools)"
proof -
  from for_intent_ok [OF catalog_active(1) [OF c], of "intent p"] obtain r
    where r: "for_intent (active c) (intent p) = Inr r" and spec:
      "case r of None \<Rightarrow> \<forall>(n, sk) \<in> set (sr_data (active c)). intent p \<notin> applicable_intents sk
       | Some sk' \<Rightarrow> (sk_name sk', sk') \<in> set (sr_data (active c))
           \<and> intent p \<in> applicable_intents sk' \<and> required_tools sk' \<subseteq> fst ` set tools"
    by blast
  have "(sk_name sk, sk) \<in> set (sr_data (active c))"
    using catalog_active(2) [OF c] served avail by auto
  with spec served obtain sk' where sk': "r = Some sk'" "required_tools sk' \<subseteq> fst ` set tools"
    by (cases r) auto
  with plan r served have "validate_skill_plan sk' sts = Inr ()"
    by (auto simp: skill_aware_plan_def result_simps)
  then have "sts \<noteq> []" "\<forall>st \<in> set sts. action_text (action st) \<in> tool_name_value ` required_tools sk'"
    by (auto simp: validate_skill_plan_def)
  with sk'(2) show ?thesis by (meson image_mono subsetD)
qed

end
