(* ===== verification/Memory_Store.thy ===== *)
theory Memory_Store
  imports Agent_State "HOL-Library.Product_Lexorder"
begin

text \<open>
  The in-memory store (\<open>memory/memory_records.py\<close>, \<open>memory/in_memory_store.py\<close>): records
  with soft deletion, an index from note names to records, ranked search and the note
  operations of the tools.  The clock and the identifier of a new record are arguments.
  Records are mutable objects shared with the caller in the code; an operation here returns
  the store with the record replaced.
\<close>

section \<open>Records\<close>

record memory_record =
  mr_content :: string
  mr_type :: memory_type
  mr_id :: string
  mr_user_id :: "string option"
  mr_session_id :: "string option"
  mr_task_id :: "string option"
  mr_run_id :: "string option"
  mr_source_event_id :: "string option"
  mr_tags :: "string list"
  importance :: rat
  mr_confidence :: rat
  mr_source :: source_type
  created_at :: int
  updated_at :: int
  deleted_at :: "int option"
  mr_metadata :: kwargs

fun memory_type_value :: "memory_type \<Rightarrow> string" where
  "memory_type_value NOTE = ''note''"
| "memory_type_value FACT = ''fact''"
| "memory_type_value PREFERENCE = ''preference''"
| "memory_type_value DECISION = ''decision''"
| "memory_type_value RULE = ''rule''"
| "memory_type_value TASK_SUMMARY = ''task_summary''"
| "memory_type_value SOURCE = ''source''"
| "memory_type_value LESSON = ''lesson''"
| "memory_type_value PROJECT_CONTEXT = ''project_context''"

definition mark_updated :: "int \<Rightarrow> memory_record \<Rightarrow> memory_record" where
  "mark_updated now r = r\<lparr>updated_at := now\<rparr>"

definition mark_deleted :: "int \<Rightarrow> memory_record \<Rightarrow> memory_record" where
  "mark_deleted now r = r\<lparr>deleted_at := Some now, updated_at := now\<rparr>"

definition is_deleted :: "memory_record \<Rightarrow> bool" where
  "is_deleted r = (deleted_at r \<noteq> None)"

record memory_query =
  q_text :: string
  q_user_id :: "string option"
  q_session_id :: "string option"
  q_types :: "memory_type list"
  q_tags :: "string list"
  include_deleted :: bool
  q_limit :: int

section \<open>The store\<close>

record store =
  records :: "(string \<times> memory_record) list"
  note_index :: "(string \<times> string) list"

definition empty_store :: store where
  "empty_store = \<lparr>records = [], note_index = []\<rparr>"

definition note_name_of :: "host \<Rightarrow> memory_record \<Rightarrow> string option" where
  "note_name_of h r =
     (case map_of (mr_metadata r) ''name'' of
        None \<Rightarrow> None
      | Some VNone \<Rightarrow> None
      | Some v \<Rightarrow> (let n = strip (to_str h v) in if n = [] then None else Some n))"

definition live_record :: "store \<Rightarrow> string \<Rightarrow> memory_record option" where
  "live_record st i =
     (case map_of (records st) i of
        None \<Rightarrow> None | Some r \<Rightarrow> if is_deleted r then None else Some r)"

definition notes_view :: "store \<Rightarrow> (string \<times> string) list" where
  "notes_view st =
     concat (map (\<lambda>(n, i). case live_record st i of
                    None \<Rightarrow> [] | Some r \<Rightarrow> [(n, mr_content r)]) (note_index st))"

definition sync_note_index :: "host \<Rightarrow> memory_record \<Rightarrow> store \<Rightarrow> store" where
  "sync_note_index h r st =
     (if mr_type r \<noteq> NOTE \<or> is_deleted r then st
      else case note_name_of h r of
        None \<Rightarrow> st
      | Some n \<Rightarrow> st\<lparr>note_index := dict_put n (mr_id r) (note_index st)\<rparr>)"

definition put_record :: "memory_record \<Rightarrow> store \<Rightarrow> store" where
  "put_record r st = st\<lparr>records := dict_put (mr_id r) r (records st)\<rparr>"

definition store_write :: "host \<Rightarrow> int \<Rightarrow> memory_record \<Rightarrow> store \<Rightarrow> memory_record \<times> store" where
  "store_write h now r st =
     (let r' = mark_updated now r in (r', sync_note_index h r' (put_record r' st)))"

definition store_get :: "store \<Rightarrow> string \<Rightarrow> memory_record option" where
  "store_get st i = live_record st i"

text \<open>\<open>del d[k]\<close>, after a test that \<open>d[k]\<close> is the record at hand.\<close>

definition drop_index :: "string option \<Rightarrow> string \<Rightarrow> store \<Rightarrow> store" where
  "drop_index n i st =
     (case n of
        None \<Rightarrow> st
      | Some nm \<Rightarrow> if map_of (note_index st) nm = Some i
                   then st\<lparr>note_index := filter (\<lambda>(k, _). k \<noteq> nm) (note_index st)\<rparr>
                   else st)"

text \<open>
  One entry of a patch, with the attribute it sets.  \<open>id\<close> and \<open>created_at\<close> are skipped, as is
  a key that the record does not have (\<open>PIgnored\<close>); \<open>metadata\<close> is merged.
\<close>

datatype patch_item =
    PContent string | PType memory_type | PUserId "string option" | PSessionId "string option"
  | PTaskId "string option" | PRunId "string option" | PSourceEventId "string option" | PTags "string list" | PImportance rat | PConfidence rat
  | PSource source_type | PUpdatedAt int | PDeletedAt "int option" | PMetadata kwargs
  | PIgnored

fun dict_update :: "('k \<times> 'v) list \<Rightarrow> ('k \<times> 'v) list \<Rightarrow> ('k \<times> 'v) list" where
  "dict_update kvs [] = kvs"
| "dict_update kvs ((k, v) # new) = dict_update (dict_put k v kvs) new"

fun apply_patch :: "patch_item \<Rightarrow> memory_record \<Rightarrow> memory_record" where
  "apply_patch (PContent c) r = r\<lparr>mr_content := c\<rparr>"
| "apply_patch (PType t) r = r\<lparr>mr_type := t\<rparr>"
| "apply_patch (PUserId u) r = r\<lparr>mr_user_id := u\<rparr>"
| "apply_patch (PSessionId u) r = r\<lparr>mr_session_id := u\<rparr>"
| "apply_patch (PTaskId u) r = r\<lparr>mr_task_id := u\<rparr>"
| "apply_patch (PRunId u) r = r\<lparr>mr_run_id := u\<rparr>"
| "apply_patch (PSourceEventId u) r = r\<lparr>mr_source_event_id := u\<rparr>"
| "apply_patch (PTags ts) r = r\<lparr>mr_tags := ts\<rparr>"
| "apply_patch (PImportance i) r = r\<lparr>importance := i\<rparr>"
| "apply_patch (PConfidence i) r = r\<lparr>mr_confidence := i\<rparr>"
| "apply_patch (PSource s) r = r\<lparr>mr_source := s\<rparr>"
| "apply_patch (PUpdatedAt t) r = r\<lparr>updated_at := t\<rparr>"
| "apply_patch (PDeletedAt t) r = r\<lparr>deleted_at := t\<rparr>"
| "apply_patch (PMetadata kvs) r = r\<lparr>mr_metadata := dict_update (mr_metadata r) kvs\<rparr>"
| "apply_patch PIgnored r = r"

definition store_update ::
  "host \<Rightarrow> int \<Rightarrow> string \<Rightarrow> patch_item list \<Rightarrow> store \<Rightarrow> memory_record option \<times> store" where
  "store_update h now i ps st =
     (case live_record st i of
        None \<Rightarrow> (None, st)
      | Some r \<Rightarrow>
         (let r' = mark_updated now (fold apply_patch ps r)
          in (Some r', sync_note_index h r'
                (drop_index (note_name_of h r) (mr_id r') (put_record r' st)))))"

definition store_delete :: "host \<Rightarrow> int \<Rightarrow> string \<Rightarrow> string option \<Rightarrow> store \<Rightarrow> bool \<times> store" where
  "store_delete h now i reason st =
     (case live_record st i of
        None \<Rightarrow> (False, st)
      | Some r \<Rightarrow>
         (let r1 = (case reason of
                      Some (c # cs) \<Rightarrow>
                        r\<lparr>mr_metadata := dict_put ''delete_reason'' (VStr (c # cs)) (mr_metadata r)\<rparr>
                    | _ \<Rightarrow> r);
              r2 = mark_deleted now r1
          in (True, drop_index (note_name_of h r2) i (put_record r2 st))))"

text \<open>The newest first; equal time stamps keep the insertion order.\<close>

definition list_all_records :: "bool \<Rightarrow> store \<Rightarrow> memory_record list" where
  "list_all_records incl st =
     sort_key (\<lambda>r. - updated_at r)
       (filter (\<lambda>r. incl \<or> \<not> is_deleted r) (map snd (records st)))"

section \<open>Search\<close>

definition matches_text :: "host \<Rightarrow> memory_record \<Rightarrow> string \<Rightarrow> bool" where
  "matches_text h r txt =
     contains txt (py_lower h (join '' ''
       [mr_content r, join '' '' (mr_tags r), to_str h (dict_of (mr_metadata r)),
        memory_type_value (mr_type r)]))"

definition matches_id :: "string option \<Rightarrow> string option \<Rightarrow> bool" where
  "matches_id wanted actual = (wanted = None \<or> wanted = Some [] \<or> actual = wanted)"

definition matches_query :: "host \<Rightarrow> memory_query \<Rightarrow> memory_record \<Rightarrow> bool" where
  "matches_query h q r =
     ((\<not> is_deleted r \<or> include_deleted q) \<and>
      matches_id (q_user_id q) (mr_user_id r) \<and> matches_id (q_session_id q) (mr_session_id r) \<and>
      (q_types q = [] \<or> mr_type r \<in> set (q_types q)) \<and>
      (q_tags q = [] \<or> set (q_tags q) \<inter> set (mr_tags r) \<noteq> {}) \<and>
      (let txt = strip (py_lower h (q_text q)) in txt = [] \<or> matches_text h r txt))"

text \<open>\<open>xs[:limit]\<close>, with a negative limit counting from the end.\<close>

definition slice_to :: "int \<Rightarrow> 'a list \<Rightarrow> 'a list" where
  "slice_to n xs = take (if n < 0 then length xs - nat (- n) else nat n) xs"

definition rank :: "memory_record \<Rightarrow> rat \<times> int" where
  "rank r = (- importance r, - updated_at r)"

definition store_search :: "host \<Rightarrow> memory_query \<Rightarrow> store \<Rightarrow> memory_record list" where
  "store_search h q st =
     slice_to (q_limit q)
       (sort_key rank (filter (matches_query h q) (map snd (records st))))"

section \<open>Notes\<close>

definition new_note :: "string \<Rightarrow> int \<Rightarrow> string \<Rightarrow> string \<Rightarrow> memory_record" where
  "new_note i now name txt =
     \<lparr>mr_content = txt, mr_type = NOTE, mr_id = i, mr_user_id = None, mr_session_id = None,
      mr_task_id = None, mr_run_id = None, mr_source_event_id = None, mr_tags = [], importance = 1 / 2, mr_confidence = 1, mr_source = USER,
      created_at = now, updated_at = now, deleted_at = None,
      mr_metadata = [(''name'', VStr name)]\<rparr>"

definition write_note ::
  "host \<Rightarrow> int \<Rightarrow> string \<Rightarrow> string \<Rightarrow> string \<Rightarrow> store \<Rightarrow> exn + memory_record \<times> store" where
  "write_note h now fresh nm txt st =
     (let note = strip nm
      in if note = [] then Inl (ValueError ''note name cannot be empty'')
         else case (case map_of (note_index st) note of
                      Some (c # cs) \<Rightarrow> live_record st (c # cs) | _ \<Rightarrow> None) of
           Some r \<Rightarrow> (let r' = mark_updated now (r\<lparr>mr_content := txt\<rparr>)
                      in Inr (r', put_record r' st))
         | None \<Rightarrow> Inr (store_write h now (new_note fresh now note txt) st))"

definition read_note :: "store \<Rightarrow> string \<Rightarrow> string option" where
  "read_note st nm =
     (case map_of (note_index st) (strip nm) of
        Some (c # cs) \<Rightarrow> map_option mr_content (live_record st (c # cs))
      | _ \<Rightarrow> None)"

definition list_notes :: "store \<Rightarrow> string list" where
  "list_notes st =
     sort (map fst (filter (\<lambda>(n, i). live_record st i \<noteq> None) (note_index st)))"

section \<open>The store invariant\<close>

text \<open>
  Keys are unique and are the records' own identifiers, identifiers are not empty, and an
  indexed name belongs to a live note of that name.
\<close>

definition records_ok :: "store \<Rightarrow> bool" where
  "records_ok st \<longleftrightarrow>
     distinct (map fst (records st)) \<and>
     (\<forall>i r. map_of (records st) i = Some r \<longrightarrow> mr_id r = i \<and> i \<noteq> [])"

definition live_note :: "host \<Rightarrow> store \<Rightarrow> string \<Rightarrow> string \<Rightarrow> bool" where
  "live_note h st n i \<longleftrightarrow>
     (\<exists>r. live_record st i = Some r \<and> mr_type r = NOTE \<and> note_name_of h r = Some n)"

definition store_ok :: "host \<Rightarrow> store \<Rightarrow> bool" where
  "store_ok h st \<longleftrightarrow>
     records_ok st \<and> distinct (map fst (note_index st)) \<and>
     (\<forall>n i. map_of (note_index st) n = Some i \<longrightarrow> live_note h st n i)"

lemma store_ok_empty: "store_ok h empty_store"
  by (simp add: store_ok_def records_ok_def empty_store_def)

lemma live_record_Some:
  "live_record st i = Some r \<longleftrightarrow> map_of (records st) i = Some r \<and> \<not> is_deleted r"
  by (auto simp: live_record_def split: option.splits)

lemma store_okD: "store_ok h st \<Longrightarrow> map_of (note_index st) n = Some i \<Longrightarrow> live_note h st n i"
  unfolding store_ok_def by blast

lemma live_record_id:
  assumes "store_ok h st" and "live_record st i = Some r"
  shows "mr_id r = i" and "i \<noteq> []"
  using assms unfolding store_ok_def records_ok_def live_record_Some by blast+

lemma live_record_put [simp]:
  "live_record (put_record r st) i =
     (if i = mr_id r then if is_deleted r then None else Some r else live_record st i)"
  by (simp add: live_record_def put_record_def)

lemma note_index_put [simp]: "note_index (put_record r st) = note_index st"
  by (simp add: put_record_def)

lemma map_of_filter_key: "map_of (filter (\<lambda>(k, _). k \<noteq> x) kvs) = (map_of kvs)(x := None)"
  by (induction kvs) (auto simp: fun_eq_iff)

lemma distinct_filter_key: "distinct (map fst kvs) \<Longrightarrow> distinct (map fst (filter P kvs))"
  by (induction kvs) auto

text \<open>How the two index operations change a lookup; neither touches the records.\<close>

lemma map_of_drop_index:
  "map_of (note_index (drop_index nm i st)) n =
     (if nm = Some n \<and> map_of (note_index st) n = Some i then None else map_of (note_index st) n)"
  by (auto simp: drop_index_def map_of_filter_key split: option.splits)

lemma map_of_sync_index:
  "map_of (note_index (sync_note_index h r st)) n =
     (if mr_type r = NOTE \<and> \<not> is_deleted r \<and> note_name_of h r = Some n
      then Some (mr_id r) else map_of (note_index st) n)"
  by (auto simp: sync_note_index_def split: option.splits)

lemma index_ops_records [simp]:
  "records (drop_index nm i st) = records st"
  "records (sync_note_index h r st) = records st"
  by (auto simp: drop_index_def sync_note_index_def split: option.splits)

lemma live_record_cong: "records st = records st' \<Longrightarrow> live_record st = live_record st'"
  by (simp add: live_record_def fun_eq_iff)

lemma index_ops_distinct:
  "distinct (map fst (note_index st)) \<Longrightarrow> distinct (map fst (note_index (drop_index nm i st)))"
  "distinct (map fst (note_index st)) \<Longrightarrow> distinct (map fst (note_index (sync_note_index h r st)))"
  by (auto simp: drop_index_def sync_note_index_def distinct_filter_key distinct_dict_put
      split: option.splits)

lemma records_ok_put: "records_ok st \<Longrightarrow> mr_id r \<noteq> [] \<Longrightarrow> records_ok (put_record r st)"
  unfolding records_ok_def by (auto simp: put_record_def distinct_dict_put)

text \<open>
  Putting a record under its identifier, forgetting the name it had and indexing the name it
  has keeps the invariant; with no previous record there is no name to forget.
\<close>

lemma store_ok_replace:
  assumes ok: "store_ok h st" and ne: "mr_id r \<noteq> []"
    and old: "\<And>r0. live_record st (mr_id r) = Some r0 \<Longrightarrow> nm = note_name_of h r0"
  shows "store_ok h (sync_note_index h r (drop_index nm (mr_id r) (put_record r st)))"
    (is "store_ok h ?st")
proof -
  have rec: "records ?st = records (put_record r st)" by simp
  have "live_note h ?st n i" if lk: "map_of (note_index ?st) n = Some i" for n i
  proof (cases "mr_type r = NOTE \<and> \<not> is_deleted r \<and> note_name_of h r = Some n")
    case True
    with lk have "i = mr_id r" by (simp add: map_of_sync_index)
    with True show ?thesis unfolding live_note_def live_record_cong [OF rec] by simp
  next
    case False
    with lk have idx: "map_of (note_index st) n = Some i" "\<not> (nm = Some n \<and> i = mr_id r)"
      by (auto simp: map_of_sync_index map_of_drop_index split: if_splits)
    from store_okD [OF ok idx(1)] have ln: "live_note h st n i" .
    with idx(2) old have "i \<noteq> mr_id r" by (auto simp: live_note_def)
    with ln show ?thesis unfolding live_note_def live_record_cong [OF rec] by simp
  qed
  moreover have "records_ok ?st"
    using records_ok_put [OF _ ne, of st] ok unfolding store_ok_def records_ok_def rec by blast
  moreover have "distinct (map fst (note_index ?st))"
    using ok by (intro index_ops_distinct) (simp add: store_ok_def)
  ultimately show ?thesis unfolding store_ok_def by blast
qed

lemma drop_index_None [simp]: "drop_index None i st = st"
  by (simp add: drop_index_def)

lemma mark_updated_fields [simp]:
  "mr_id (mark_updated t r) = mr_id r" "mr_content (mark_updated t r) = mr_content r"
  "is_deleted (mark_updated t r) = is_deleted r"
  "note_name_of h (mark_updated t r) = note_name_of h r" "mr_type (mark_updated t r) = mr_type r"
  by (simp_all add: mark_updated_def is_deleted_def note_name_of_def)

lemma store_ok_write:
  assumes "store_ok h st" and "mr_id r \<noteq> []" and "live_record st (mr_id r) = None"
  shows "store_ok h (snd (store_write h now r st))"
  using store_ok_replace [of h st "mark_updated now r" None] assms
  by (simp add: store_write_def Let_def)

lemma apply_patch_id: "mr_id (fold apply_patch ps r) = mr_id r"
proof (induction ps arbitrary: r)
  case (Cons p ps)
  then show ?case by (cases p) auto
qed simp

lemma store_ok_update:
  assumes "store_ok h st"
  shows "store_ok h (snd (store_update h now i ps st))"
proof (cases "live_record st i")
  case (Some r)
  with assms have "mr_id r = i" "i \<noteq> []"
    by (simp_all add: live_record_id)
  with Some show ?thesis
    using store_ok_replace [of h st "mark_updated now (fold apply_patch ps r)" "note_name_of h r"]
      assms by (simp add: store_update_def Let_def apply_patch_id)
qed (simp add: assms store_update_def)

lemma store_ok_delete:
  assumes "store_ok h st"
  shows "store_ok h (snd (store_delete h now i reason st))"
proof (cases "live_record st i")
  case (Some r)
  define r2 where "r2 = mark_deleted now (case reason of
      Some (c # cs) \<Rightarrow> r\<lparr>mr_metadata := dict_put ''delete_reason'' (VStr (c # cs)) (mr_metadata r)\<rparr>
    | _ \<Rightarrow> r)"
  from Some assms have "mr_id r = i" "i \<noteq> []"
    by (simp_all add: live_record_id)
  then have r2: "mr_id r2 = i" "note_name_of h r2 = note_name_of h r" "is_deleted r2"
    by (auto simp: r2_def mark_deleted_def note_name_of_def is_deleted_def
        split: option.splits list.splits)
  then have "sync_note_index h r2 s = s" for s by (simp add: sync_note_index_def)
  then have "store_ok h (drop_index (note_name_of h r2) i (put_record r2 st))"
    using store_ok_replace [of h st r2 "note_name_of h r"] assms r2 Some \<open>i \<noteq> []\<close> by simp
  with Some show ?thesis by (simp add: store_delete_def Let_def r2_def)
qed (simp add: assms store_delete_def)

section \<open>Notes behave as a map from names to texts\<close>

lemma new_note_fields [simp]:
  "mr_id (new_note i t n c) = i" "mr_content (new_note i t n c) = c"
  "mr_type (new_note i t n c) = NOTE" "\<not> is_deleted (new_note i t n c)"
  by (simp_all add: new_note_def is_deleted_def)

lemma new_note_name: "n \<noteq> [] \<Longrightarrow> strip n = n \<Longrightarrow> note_name_of h (new_note i t n c) = Some n"
  by (simp add: note_name_of_def new_note_def Let_def)

text \<open>The record a note name leads to.\<close>

definition note_record :: "store \<Rightarrow> string \<Rightarrow> memory_record option" where
  "note_record st n =
     (case map_of (note_index st) n of Some (c # cs) \<Rightarrow> live_record st (c # cs) | _ \<Rightarrow> None)"

lemma read_note_record: "read_note st nm = map_option mr_content (note_record st (strip nm))"
  by (simp add: read_note_def note_record_def split: option.splits list.splits)

lemma note_record_ok:
  assumes "store_ok h st"
  shows "note_record st n = Some r \<longleftrightarrow>
     (\<exists>i. map_of (note_index st) n = Some i \<and> live_record st i = Some r)"
proof -
  have "i \<noteq> []" if "live_record st i = Some r" for i
    using that assms by (simp add: live_record_id)
  then show ?thesis by (auto simp: note_record_def split: option.splits list.splits)
qed

lemma note_record_name:
  assumes "store_ok h st" and "note_record st n = Some r"
  shows "note_name_of h r = Some n" and "mr_type r = NOTE"
  using assms unfolding note_record_ok [OF assms(1)] store_ok_def live_note_def by force+

lemma write_note_cases:
  assumes "\<not> blank nm"
  shows "write_note h now fresh nm txt st =
     Inr (case note_record st (strip nm) of
        Some r \<Rightarrow> (mark_updated now (r\<lparr>mr_content := txt\<rparr>),
                   put_record (mark_updated now (r\<lparr>mr_content := txt\<rparr>)) st)
      | None \<Rightarrow> store_write h now (new_note fresh now (strip nm) txt) st)"
  using assms by (simp add: write_note_def note_record_def Let_def split: option.splits)

lemma content_fields [simp]:
  "note_name_of h (r\<lparr>mr_content := c\<rparr>) = note_name_of h r"
  "is_deleted (r\<lparr>mr_content := c\<rparr>) = is_deleted r"
  by (simp_all add: note_name_of_def is_deleted_def)

lemma note_record_put:
  assumes "note_record st n = Some r" and "store_ok h st" and "mr_id r' = mr_id r"
    and "is_deleted r' = is_deleted r"
  shows "note_record (put_record r' st) m = (if m = n then Some r' else note_record st m)"
proof (cases "map_of (note_index st) m = Some (mr_id r)")
  case True
  have live: "map_of (note_index st) n = Some (mr_id r)" "live_record st (mr_id r) = Some r"
    using assms(1) live_record_id [OF assms(2)] unfolding note_record_ok [OF assms(2)] by auto
  with True have "note_record st m = Some r" unfolding note_record_ok [OF assms(2)] by blast
  then have "m = n"
    using note_record_name(1) [OF assms(2)] assms(1) by (metis option.inject)
  with live assms(3,4) live_record_id(2) [OF assms(2) live(2)] show ?thesis
    by (auto simp: note_record_def live_record_Some split: list.splits)
next
  case False
  then have "m \<noteq> n"
    using assms(1) live_record_id [OF assms(2)] unfolding note_record_ok [OF assms(2)] by auto
  with False show ?thesis
    using assms(3) by (auto simp: note_record_def split: option.splits list.splits)
qed

lemma note_record_new:
  assumes "store_ok h st" and "map_of (records st) i = None" and "i \<noteq> []"
    and "n \<noteq> []" and "strip n = n"
  shows "note_record (snd (store_write h now (new_note i t n txt) st)) m =
     (if m = n then Some (mark_updated now (new_note i t n txt)) else note_record st m)"
proof -
  let ?r = "mark_updated now (new_note i t n txt)"
  have st': "snd (store_write h now (new_note i t n txt) st) = sync_note_index h ?r (put_record ?r st)"
    by (simp add: store_write_def Let_def)
  have live: "live_record (sync_note_index h ?r (put_record ?r st)) = live_record (put_record ?r st)"
    by (rule live_record_cong) simp
  have "map_of (note_index st) m \<noteq> Some i"
    using store_okD [OF assms(1)] assms(2) by (force simp: live_note_def live_record_Some)
  then show ?thesis
    unfolding st' note_record_def live using assms(3-5)
    by (auto simp: map_of_sync_index new_note_name split: option.splits list.splits)
qed

lemma store_ok_same_name:
  assumes ok: "store_ok h st" and live: "live_record st (mr_id r) = Some r0"
    and same: "mr_type r = mr_type r0" "note_name_of h r = note_name_of h r0" "\<not> is_deleted r"
  shows "store_ok h (put_record r st)"
proof -
  have "live_note h (put_record r st) n i" if "map_of (note_index st) n = Some i" for n i
    using store_okD [OF ok that] live same by (auto simp: live_note_def)
  moreover have "records_ok (put_record r st)"
    using ok live_record_id(2) [OF ok live] by (simp add: records_ok_put store_ok_def)
  ultimately show ?thesis using ok by (simp add: store_ok_def)
qed

text \<open>The note map after a write: the written name changes, the others do not.\<close>

definition note_written :: "host \<Rightarrow> string \<Rightarrow> string \<Rightarrow> string \<Rightarrow> store \<Rightarrow> store \<Rightarrow> bool" where
  "note_written h i nm txt st st' \<longleftrightarrow>
     store_ok h st' \<and>
     (\<forall>m. read_note st' m = (if strip m = strip nm then Some txt else read_note st m)) \<and>
     (\<forall>j. map_of (records st) j = None \<and> j \<noteq> i \<longrightarrow> map_of (records st') j = None)"

lemma write_note_new:
  assumes ok: "store_ok h st" and fresh: "map_of (records st) i = None" "i \<noteq> []"
    and nb: "\<not> blank nm"
  shows "note_written h i nm txt st (snd (store_write h now (new_note i now (strip nm) txt) st))"
    (is "note_written _ _ _ _ _ ?st")
proof -
  have "live_record st i = None" using fresh by (simp add: live_record_def)
  with ok fresh have "store_ok h ?st" by (intro store_ok_write) simp_all
  moreover have "read_note ?st m = (if strip m = strip nm then Some txt else read_note st m)" for m
    unfolding read_note_record using note_record_new [OF ok fresh] nb by simp
  moreover have "map_of (records ?st) j = None" if "map_of (records st) j = None" "j \<noteq> i" for j
    using that by (simp add: store_write_def Let_def put_record_def)
  ultimately show ?thesis by (simp add: note_written_def)
qed

lemma write_note_existing:
  assumes ok: "store_ok h st" and r0: "note_record st (strip nm) = Some r0"
  shows "note_written h i nm txt st (put_record (mark_updated now (r0\<lparr>mr_content := txt\<rparr>)) st)"
    (is "note_written _ _ _ _ _ (put_record ?r st)")
proof -
  have live: "live_record st (mr_id r0) = Some r0"
    using r0 live_record_id [OF ok] unfolding note_record_ok [OF ok] by auto
  then have "store_ok h (put_record ?r st)"
    by (intro store_ok_same_name [OF ok, of _ r0]) (simp_all add: live_record_Some)
  moreover have "read_note (put_record ?r st) m =
      (if strip m = strip nm then Some txt else read_note st m)" for m
    unfolding read_note_record using note_record_put [OF r0 ok, of ?r] by simp
  moreover have "map_of (records (put_record ?r st)) j = None" if "map_of (records st) j = None" for j
    using that live by (auto simp: put_record_def live_record_Some)
  ultimately show ?thesis by (simp add: note_written_def)
qed

lemma write_note_spec:
  assumes ok: "store_ok h st" and fresh: "map_of (records st) i = None" "i \<noteq> []"
    and w: "write_note h now i nm txt st = Inr (r, st')"
  shows "note_written h i nm txt st st'"
proof -
  have nb: "\<not> blank nm" using w by (auto simp: write_note_def Let_def)
  show ?thesis
  proof (cases "note_record st (strip nm)")
    case None
    with w nb have "st' = snd (store_write h now (new_note i now (strip nm) txt) st)"
      by (simp add: write_note_cases)
    then show ?thesis using write_note_new [OF ok fresh nb] by simp
  next
    case (Some r0)
    with w nb have "st' = put_record (mark_updated now (r0\<lparr>mr_content := txt\<rparr>)) st"
      by (auto simp: write_note_cases)
    then show ?thesis using write_note_existing [OF ok Some] by simp
  qed
qed

lemma write_note_total: "(\<exists>r st'. write_note h now i nm txt st = Inr (r, st')) \<longleftrightarrow> \<not> blank nm"
  by (cases "blank nm")
     (auto simp: write_note_cases store_write_def Let_def write_note_def split: option.splits)

text \<open>A note is listed exactly when it can be read.\<close>

lemma list_notes_read:
  assumes "store_ok h st" and "strip n = n"
  shows "n \<in> set (list_notes st) \<longleftrightarrow> read_note st n \<noteq> None"
proof -
  have d: "distinct (map fst (note_index st))" using assms(1) by (simp add: store_ok_def)
  have "n \<in> set (list_notes st) \<longleftrightarrow>
      (\<exists>i. map_of (note_index st) n = Some i \<and> live_record st i \<noteq> None)"
    using d by (force simp: list_notes_def)
  also have "\<dots> \<longleftrightarrow> (\<exists>r. note_record st n = Some r)"
    using note_record_ok [OF assms(1)] by blast
  finally show ?thesis using assms(2) by (simp add: read_note_record)
qed

section \<open>The note store as an interface\<close>

text \<open>
  What the note tools rely on, whatever the store behind them: a write with a fresh record
  identifier succeeds on a name that is not blank, and afterwards the name, up to
  surrounding whitespace, reads as the text and every other name as before.
\<close>

locale note_store =
  fixes inv :: "'s \<Rightarrow> bool"
    and fresh :: "'s \<Rightarrow> string \<Rightarrow> bool"
    and wr :: "string \<Rightarrow> string \<Rightarrow> string \<Rightarrow> 's \<Rightarrow> 's option"
    and rd :: "'s \<Rightarrow> string \<Rightarrow> string option"
  assumes wr_defined: "wr i n c s \<noteq> None \<longleftrightarrow> \<not> blank n"
    and wr_inv: "inv s \<Longrightarrow> fresh s i \<Longrightarrow> wr i n c s = Some s' \<Longrightarrow> inv s'"
    and wr_read: "inv s \<Longrightarrow> fresh s i \<Longrightarrow> wr i n c s = Some s' \<Longrightarrow>
      rd s' m = (if strip m = strip n then Some c else rd s m)"
    and wr_fresh: "inv s \<Longrightarrow> fresh s i \<Longrightarrow> wr i n c s = Some s' \<Longrightarrow> fresh s j \<Longrightarrow> j \<noteq> i
      \<Longrightarrow> fresh s' j"
begin

text \<open>A run of writes, each with its own identifier, stopping at the first refusal.\<close>

fun writes :: "(string \<times> string \<times> string) list \<Rightarrow> 's \<Rightarrow> 's option" where
  "writes [] s = Some s"
| "writes ((i, n, c) # ws) s = (case wr i n c s of None \<Rightarrow> None | Some s' \<Rightarrow> writes ws s')"

fun last_write :: "(string \<times> string \<times> string) list \<Rightarrow> string \<Rightarrow> string option \<Rightarrow> string option" where
  "last_write [] m old = old"
| "last_write ((i, n, c) # ws) m old =
     last_write ws m (if strip n = strip m then Some c else old)"

lemma writes_defined: "writes ws s \<noteq> None \<longleftrightarrow> (\<forall>(i, n, c) \<in> set ws. \<not> blank n)"
proof (induction ws arbitrary: s)
  case (Cons w ws)
  obtain i n c where w: "w = (i, n, c)" by (cases w)
  show ?case
  proof (cases "wr i n c s")
    case None
    then have "blank n" using wr_defined [of i n c s] by simp
    with None w show ?thesis by auto
  next
    case (Some s')
    then have "\<not> blank n" using wr_defined [of i n c s] by simp
    with Some w Cons show ?thesis by simp
  qed
qed simp

lemma writes_read:
  assumes "inv s" and "distinct (map fst ws)" and "\<forall>w \<in> set ws. fresh s (fst w)"
    and "writes ws s = Some s'"
  shows "inv s' \<and> rd s' m = last_write ws m (rd s m)"
  using assms
proof (induction ws arbitrary: s)
  case (Cons w ws)
  obtain i n c where w: "w = (i, n, c)" by (cases w)
  with Cons.prems obtain s1 where s1: "wr i n c s = Some s1" "writes ws s1 = Some s'"
    by (auto split: option.splits)
  from Cons.prems w have fr: "fresh s i" by simp
  have "inv s1" using wr_inv [OF Cons.prems(1) fr s1(1)] .
  moreover have "\<forall>w \<in> set ws. fresh s1 (fst w)"
    using wr_fresh [OF Cons.prems(1) fr s1(1)] Cons.prems(2,3) w by force
  ultimately have "inv s' \<and> rd s' m = last_write ws m (rd s1 m)"
    using Cons.IH s1(2) Cons.prems(2) w by simp
  then show ?case using wr_read [OF Cons.prems(1) fr s1(1)] w by auto
qed simp

end

definition write_note_store ::
  "host \<Rightarrow> int \<Rightarrow> string \<Rightarrow> string \<Rightarrow> string \<Rightarrow> store \<Rightarrow> store option" where
  "write_note_store h now i nm txt st =
     (case write_note h now i nm txt st of Inl _ \<Rightarrow> None | Inr (r, st') \<Rightarrow> Some st')"

definition fresh_id :: "store \<Rightarrow> string \<Rightarrow> bool" where
  "fresh_id st i \<longleftrightarrow> map_of (records st) i = None \<and> i \<noteq> []"

lemma write_note_store_Some:
  "write_note_store h now i nm txt st = Some st' \<longleftrightarrow>
     (\<exists>r. write_note h now i nm txt st = Inr (r, st'))"
  by (auto simp: write_note_store_def split: sum.splits)

interpretation in_memory: note_store "store_ok h" fresh_id "write_note_store h now" read_note
  for h now
proof
  show "write_note_store h now i n c s \<noteq> None \<longleftrightarrow> \<not> blank n" for i n c s
    using write_note_total [of h now i n c s] write_note_store_Some [of h now i n c s]
    by (metis not_None_eq)
qed (auto simp: write_note_store_Some fresh_id_def dest!: write_note_spec
      simp: note_written_def)

end
