(* ===== verification/Memory_Client.thy ===== *)
theory Memory_Client
  imports Memory_Store Tool_Safety
begin

text \<open>
  The memory client protocol (\<open>memory/contracts.py\<close>, \<open>memory/client.py\<close>) and the two
  backends that need no network: \<open>LocalMemoryClient\<close> over the shared store and
  \<open>NullMemoryClient\<close>; the factory that pairs a backend with the tools it allows
  (\<open>memory/factory.py\<close>).  A client acts on a world of type \<open>'w\<close>: the shared store for the
  local client, whatever lies behind the network for a remote one.  Every call returns the
  world it leaves behind, so a repeated retrieval may see different data.
\<close>

section \<open>The protocol\<close>

record memory_candidate =
  mc_type :: memory_type
  mc_content :: string
  mc_tags :: "string list"
  mc_importance :: rat
  mc_confidence :: rat
  evidence_ref :: "string option"
  mc_metadata :: kwargs

record write_response =
  written_ids :: "string list"
  skipped :: "string list"

record retrieve_request =
  rq_goal :: string
  rq_user :: "string option"
  rq_session :: "string option"
  rq_budget :: int
  rq_max_items :: int

record write_request =
  wq_candidates :: "memory_candidate list"
  wq_user :: "string option"
  wq_session :: "string option"
  wq_task :: "string option"
  wq_request_id :: "string option"

record 'w memory_client =
  supports_required_write :: bool
  retrieve_context_pack :: "retrieve_request \<Rightarrow> 'w \<Rightarrow> (exn + context_pack) \<times> 'w"
  write_memory_candidates :: "write_request \<Rightarrow> 'w \<Rightarrow> (exn + write_response) \<times> 'w"

section \<open>The local client\<close>

definition count_tokens :: "string \<Rightarrow> nat" where
  "count_tokens txt = max 1 (length (split_words txt))"

definition to_item :: "memory_record \<Rightarrow> nat \<Rightarrow> exn + context_item" where
  "to_item r n =
     (if blank (mr_id r) then Inl (ValueError ''MemoryRecord.id must be a non-blank string'')
      else Inr \<lparr>ci_content = mr_content r, ci_type = mr_type r, ci_score = importance r,
                ci_tokens = n, ci_source = ''local_memory'', ci_provenance = ''fallback'',
                ci_confidence = ''limited'', ci_freshness = ''unknown'',
                ci_metadata = [(''memory_id'', VStr (strip (mr_id r)))],
                ci_source_type = MEMORY, ci_trust = UNTRUSTED_EVIDENCE,
                ci_source_ref = Some (strip (mr_id r))\<rparr>)"

text \<open>The loop over the ranked records: it stops at the first one over the budget.\<close>

fun pack_items ::
  "int \<Rightarrow> context_item list \<Rightarrow> nat \<Rightarrow> memory_record list
     \<Rightarrow> exn + context_item list \<times> nat \<times> bool" where
  "pack_items budget its used [] = Inr (its, used, False)"
| "pack_items budget its used (r # rs) =
     (let n = count_tokens (mr_content r)
      in if int (used + n) > budget then Inr (its, used, True)
         else seqE (to_item r n) (\<lambda>it. pack_items budget (its @ [it]) (used + n) rs))"

definition local_retrieve ::
  "host \<Rightarrow> retrieve_request \<Rightarrow> store \<Rightarrow> (exn + context_pack) \<times> store" where
  "local_retrieve h rq st =
     (let q = \<lparr>q_text = [], q_user_id = rq_user rq, q_session_id = rq_session rq, q_types = [],
               q_tags = [], include_deleted = False, q_limit = rq_max_items rq\<rparr>
      in (seqE (pack_items (rq_budget rq) [] 0 (store_search h q st))
            (\<lambda>(its, used, trunc). Inr
               \<lparr>items = its, total_items = length its, tokens_used = used,
                token_budget = rq_budget rq, truncated = trunc, degraded = True,
                memory_source = ''local''\<rparr>), st))"

definition candidate_record :: "string \<Rightarrow> int \<Rightarrow> write_request \<Rightarrow> memory_candidate \<Rightarrow> memory_record" where
  "candidate_record i now wq c =
     \<lparr>mr_content = mc_content c, mr_type = mc_type c, mr_id = i, mr_user_id = wq_user wq,
      mr_session_id = wq_session wq, mr_task_id = wq_task wq, mr_run_id = None,
      mr_source_event_id = None, mr_tags = mc_tags c,
      importance = 1 / 2, mr_confidence = mc_confidence c, mr_source = USER,
      created_at = now, updated_at = now, deleted_at = None, mr_metadata = []\<rparr>"

fun local_write_all ::
  "host \<Rightarrow> int \<Rightarrow> (nat \<Rightarrow> string) \<Rightarrow> nat \<Rightarrow> write_request \<Rightarrow> memory_candidate list
     \<Rightarrow> store \<Rightarrow> string list \<times> store" where
  "local_write_all h now ids k wq [] st = ([], st)"
| "local_write_all h now ids k wq (c # cs) st =
     (let (r, st1) = store_write h now (candidate_record (ids k) now wq c) st;
          (ws, st2) = local_write_all h now ids (Suc k) wq cs st1
      in (mr_id r # ws, st2))"

definition local_write ::
  "host \<Rightarrow> int \<Rightarrow> (nat \<Rightarrow> string) \<Rightarrow> write_request \<Rightarrow> store \<Rightarrow> (exn + write_response) \<times> store" where
  "local_write h now ids wq st =
     (let (ws, st') = local_write_all h now ids 0 wq (wq_candidates wq) st
      in (Inr \<lparr>written_ids = ws, skipped = []\<rparr>, st'))"

definition local_client :: "host \<Rightarrow> int \<Rightarrow> (nat \<Rightarrow> string) \<Rightarrow> store memory_client" where
  "local_client h now ids =
     \<lparr>supports_required_write = False, retrieve_context_pack = local_retrieve h,
      write_memory_candidates = local_write h now ids\<rparr>"

section \<open>The null client\<close>

definition null_retrieve :: "retrieve_request \<Rightarrow> 'w \<Rightarrow> (exn + context_pack) \<times> 'w" where
  "null_retrieve rq w =
     (Inr \<lparr>items = [], total_items = 0, tokens_used = 0, token_budget = rq_budget rq,
           truncated = False, degraded = False, memory_source = ''remote''\<rparr>, w)"

definition null_write :: "write_request \<Rightarrow> 'w \<Rightarrow> (exn + write_response) \<times> 'w" where
  "null_write wq w = (Inr \<lparr>written_ids = [], skipped = []\<rparr>, w)"

definition null_client :: "'w memory_client" where
  "null_client =
     \<lparr>supports_required_write = False, retrieve_context_pack = null_retrieve,
      write_memory_candidates = null_write\<rparr>"

section \<open>Choosing a backend\<close>

datatype memory_backend = LocalBackend | RemoteBackend | NoBackend

record backend_config =
  backend :: memory_backend
  base_url :: "string option"
  project_id :: "string option"
  default_user_id :: "string option"

abbreviation RemoteMemoryConfigurationError :: "string \<Rightarrow> exn" where
  "RemoteMemoryConfigurationError m \<equiv> Exn ''RemoteMemoryConfigurationError'' m"

definition parse_backend :: "string \<Rightarrow> exn + memory_backend" where
  "parse_backend s =
     (if s = ''local'' then Inr LocalBackend
      else if s = ''remote'' then Inr RemoteBackend
      else if s = ''none'' then Inr NoBackend
      else Inl (RemoteMemoryConfigurationError ''memory_backend must be local, remote, or none''))"

definition config_from_values ::
  "string \<Rightarrow> string option \<Rightarrow> string option \<Rightarrow> string option \<Rightarrow> exn + backend_config" where
  "config_from_values b url proj usr =
     seqE (parse_backend b) (\<lambda>bk.
       Inr \<lparr>backend = bk, base_url = url, project_id = proj, default_user_id = usr\<rparr>)"

definition required_value :: "string option \<Rightarrow> string \<Rightarrow> exn + string" where
  "required_value v fld =
     (case v of
        None \<Rightarrow> Inl (RemoteMemoryConfigurationError (fld @ '' is required''))
      | Some s \<Rightarrow> if blank s then Inl (RemoteMemoryConfigurationError (fld @ '' is required''))
                  else Inr s)"

text \<open>The tools that touch the local store; a backend other than the local one disables them.\<close>

definition local_durable_tools :: "tool_name set" where
  "local_durable_tools =
     {WRITE_NOTE, READ_NOTE, LIST_NOTES, SAVE_FACT, SAVE_PREFERENCE, SAVE_DECISION,
      SEARCH_MEMORY, SUMMARIZE_MEMORY}"

datatype client_choice = LocalChoice | NullChoice | RemoteChoice string string string

record backend_components =
  bc_client :: client_choice
  bc_store :: store
  disabled_tools :: "tool_name set"

definition build_memory_backend :: "backend_config \<Rightarrow> exn + backend_components" where
  "build_memory_backend cfg =
     (case backend cfg of
        LocalBackend \<Rightarrow>
          Inr \<lparr>bc_client = LocalChoice, bc_store = empty_store, disabled_tools = {}\<rparr>
      | NoBackend \<Rightarrow>
          Inr \<lparr>bc_client = NullChoice, bc_store = empty_store,
               disabled_tools = local_durable_tools\<rparr>
      | RemoteBackend \<Rightarrow>
          seqE (required_value (base_url cfg) ''memory_base_url'') (\<lambda>u.
          seqE (required_value (project_id cfg) ''memory_project_id'') (\<lambda>p.
          seqE (required_value (default_user_id cfg) ''memory_user_id'') (\<lambda>d.
            Inr \<lparr>bc_client = RemoteChoice u p d, bc_store = empty_store,
                 disabled_tools = local_durable_tools\<rparr>))))"

definition validate_memory_activation :: "client_choice option \<Rightarrow> 'm registry \<Rightarrow> exn + unit" where
  "validate_memory_activation c tools =
     (let has_local = (\<exists>t \<in> local_durable_tools. t \<in> fst ` set tools)
      in raise_first
        [((case c of Some (RemoteChoice _ _ _) \<Rightarrow> has_local | _ \<Rightarrow> False),
            RemoteMemoryConfigurationError
              ''remote memory backend cannot activate local durable-memory tools''),
         (c = Some NullChoice \<and> has_local,
            RemoteMemoryConfigurationError
              ''none memory backend cannot activate durable-memory tools'')])"

section \<open>The contract of a context pack\<close>

text \<open>
  What the runtime may rely on about a pack, whichever client returned it: the token count
  is the sum over the items and stays within the budget that the pack reports, at least as
  many items are reported as are returned, and every item is untrusted evidence.
\<close>

definition pack_ok :: "context_pack \<Rightarrow> bool" where
  "pack_ok p \<longleftrightarrow>
     tokens_used p = sum_list (map ci_tokens (items p)) \<and>
     (items p \<noteq> [] \<longrightarrow> int (tokens_used p) \<le> token_budget p) \<and>
     length (items p) \<le> total_items p \<and>
     (\<forall>it \<in> set (items p). ci_trust it = UNTRUSTED_EVIDENCE \<and> ci_source_type it = MEMORY)"

locale client_contract =
  fixes client :: "'w memory_client"
  assumes retrieve_ok: "retrieve_context_pack client rq w = (Inr p, w') \<Longrightarrow> pack_ok p"
begin

text \<open>Within a budget the contents of a pack are bounded, however it was obtained.\<close>

lemma item_tokens_bounded:
  assumes "retrieve_context_pack client rq w = (Inr p, w')" and "it \<in> set (items p)"
  shows "int (ci_tokens it) \<le> token_budget p"
proof -
  have "ci_tokens it \<le> sum_list (map ci_tokens (items p))"
    using assms(2) by (intro member_le_sum_list) auto
  moreover have "items p \<noteq> []" using assms(2) by auto
  ultimately show ?thesis using retrieve_ok [OF assms(1)] by (simp add: pack_ok_def)
qed

end

lemma to_item_fields:
  "to_item r n = Inr it \<Longrightarrow>
     ci_tokens it = n \<and> ci_trust it = UNTRUSTED_EVIDENCE \<and> ci_source_type it = MEMORY"
  by (auto simp: to_item_def split: if_splits)

lemma pack_items_spec:
  assumes "pack_items b its used rs = Inr (its', used', tr)"
    and "used = sum_list (map ci_tokens its)" and "its \<noteq> [] \<longrightarrow> int used \<le> b"
    and "\<forall>it \<in> set its. ci_trust it = UNTRUSTED_EVIDENCE \<and> ci_source_type it = MEMORY"
  shows "used' = sum_list (map ci_tokens its') \<and> (its' \<noteq> [] \<longrightarrow> int used' \<le> b) \<and>
    (\<forall>it \<in> set its'. ci_trust it = UNTRUSTED_EVIDENCE \<and> ci_source_type it = MEMORY) \<and>
    length its' \<le> length its + length rs \<and> (\<not> tr \<longrightarrow> length its' = length its + length rs)"
  using assms
proof (induction b its used rs rule: pack_items.induct)
  case (2 b its used r rs)
  let ?n = "count_tokens (mr_content r)"
  show ?case
  proof (cases "int (used + ?n) > b")
    case True
    with 2 show ?thesis by (auto simp: Let_def)
  next
    case False
    with 2(2) obtain it where it: "to_item r ?n = Inr it"
      "pack_items b (its @ [it]) (used + ?n) rs = Inr (its', used', tr)"
      by (auto simp: Let_def result_simps)
    show ?thesis
      using 2(1) [OF refl _ it(2)] False 2(3-5) to_item_fields [OF it(1)] by auto
  qed
qed auto

lemma local_retrieve_ok:
  assumes "local_retrieve h rq st = (Inr p, st')"
  shows "pack_ok p" and "st' = st" and "degraded p" and "token_budget p = rq_budget rq"
    and "0 \<le> rq_max_items rq \<Longrightarrow> int (length (items p)) \<le> rq_max_items rq"
proof -
  define q where "q = \<lparr>q_text = [], q_user_id = rq_user rq, q_session_id = rq_session rq,
    q_types = [], q_tags = [], include_deleted = False, q_limit = rq_max_items rq\<rparr>"
  obtain its used tr where r: "pack_items (rq_budget rq) [] 0 (store_search h q st) = Inr (its, used, tr)"
    "p = \<lparr>items = its, total_items = length its, tokens_used = used, token_budget = rq_budget rq,
          truncated = tr, degraded = True, memory_source = ''local''\<rparr>"
    using assms by (auto simp: local_retrieve_def Let_def q_def result_simps)
  from pack_items_spec [OF r(1)] show "pack_ok p" by (auto simp: r(2) pack_ok_def)
  have "length its \<le> length (store_search h q st)" using pack_items_spec [OF r(1)] by simp
  then show "0 \<le> rq_max_items rq \<Longrightarrow> int (length (items p)) \<le> rq_max_items rq"
    by (auto simp: r(2) store_search_def slice_to_def q_def)
qed (use assms in \<open>auto simp: local_retrieve_def Let_def result_simps\<close>)

interpretation local: client_contract "local_client h now ids" for h now ids
  by unfold_locales (simp add: local_client_def local_retrieve_ok(1))

interpretation null: client_contract null_client
  by unfold_locales (auto simp: null_client_def null_retrieve_def pack_ok_def)

text \<open>Local writes keep the store invariant when the identifiers are fresh.\<close>

lemma store_write_records:
  "map_of (records (snd (store_write h now r st))) j =
     (if j = mr_id r then Some (mark_updated now r) else map_of (records st) j)"
  by (simp add: store_write_def Let_def put_record_def)

lemma local_write_all_ok:
  assumes "store_ok h st" and "\<And>j. k \<le> j \<Longrightarrow> fresh_id st (ids j)" and "inj ids"
  shows "store_ok h (snd (local_write_all h now ids k wq cs st))
    \<and> fst (local_write_all h now ids k wq cs st) = map ids [k..<k + length cs]"
  using assms(1,2)
proof (induction cs arbitrary: k st)
  case (Cons c cs)
  let ?r = "candidate_record (ids k) now wq c"
  let ?st = "snd (store_write h now ?r st)"
  have id: "mr_id ?r = ids k" by (simp add: candidate_record_def)
  have "store_ok h ?st"
    using Cons.prems(1) Cons.prems(2) [of k]
    by (intro store_ok_write) (simp_all add: id fresh_id_def live_record_def)
  moreover have "fresh_id ?st (ids j)" if "Suc k \<le> j" for j
    using Cons.prems(2) [of j] that assms(3)
    by (auto simp: fresh_id_def store_write_records id dest: injD)
  ultimately have "store_ok h (snd (local_write_all h now ids (Suc k) wq cs ?st))
      \<and> fst (local_write_all h now ids (Suc k) wq cs ?st) = map ids [Suc k..<Suc k + length cs]"
    by (rule Cons.IH)
  moreover have "fst (store_write h now ?r st) = mark_updated now ?r"
    by (simp add: store_write_def Let_def)
  ultimately show ?case
    by (simp add: case_prod_beta Let_def id upt_conv_Cons del: upt.simps)
qed simp

text \<open>
  The stores a process can get to: every operation that changes the store, with identifiers
  drawn fresh as \<open>uuid4\<close> draws them.
\<close>

inductive store_reach :: "host \<Rightarrow> store \<Rightarrow> bool" for h where
  start: "store_reach h empty_store"
| written: "store_reach h st \<Longrightarrow> fresh_id st (mr_id r) \<Longrightarrow> store_reach h (snd (store_write h now r st))"
| updated: "store_reach h st \<Longrightarrow> store_reach h (snd (store_update h now i ps st))"
| deleted: "store_reach h st \<Longrightarrow> store_reach h (snd (store_delete h now i reason st))"
| noted: "store_reach h st \<Longrightarrow> fresh_id st i \<Longrightarrow> write_note h now i nm txt st = Inr (r, st')
    \<Longrightarrow> store_reach h st'"
| client: "store_reach h st \<Longrightarrow> (\<And>j. fresh_id st (ids j)) \<Longrightarrow> inj ids
    \<Longrightarrow> store_reach h (snd (local_write h now ids wq st))"

lemma store_reach_ok: "store_reach h st \<Longrightarrow> store_ok h st"
proof (induction rule: store_reach.induct)
  case (written st r now)
  then show ?case by (intro store_ok_write) (simp_all add: fresh_id_def live_record_def)
next
  case (noted st i now nm c r st1)
  then show ?case using write_note_spec [of h st i] by (auto simp: fresh_id_def note_written_def)
next
  case (client st ids now wq)
  then show ?case
    using local_write_all_ok [of h st 0 ids now wq "wq_candidates wq"]
    by (simp add: local_write_def case_prod_beta Let_def)
qed (simp_all add: store_ok_empty store_ok_update store_ok_delete)

section \<open>The backends agree with the registry\<close>

lemma build_tool_registry_keys:
  assumes "build_tool_registry builtin dis = Inr reg"
  shows "fst ` set reg = set all_tool_names - dis" and "registry_ok reg"
proof -
  have r: "from_specs (filter (\<lambda>sp. name sp \<notin> dis) builtin) = Inr reg"
    "name ` set (filter (\<lambda>sp. name sp \<notin> dis) builtin) = set all_tool_names - dis"
    using assms by (auto simp: build_tool_registry_def Let_def split: if_splits)
  then show "registry_ok reg" by (simp add: from_specs_registry_ok)
  from r show "fst ` set reg = set all_tool_names - dis"
    by (simp add: from_specs_iff image_image)
qed

end
