(* ===== verification/Confirmation.thy ===== *)
theory Confirmation
  imports Memory_Client
begin

text \<open>
  Evidence envelopes (\<open>safety/evidence.py\<close>) and the confirmed-decision write
  (\<open>confirmation/\<close>): the normalising constructors of a decision and of a save operation, the
  trusted evidence made for an explicit confirmation, the write policy that turns one
  operation into one candidate, and the check of the backend's answer.
\<close>

section \<open>Evidence\<close>

fun metadata_scalar :: "pyval \<Rightarrow> bool" where
  "metadata_scalar VNone = True"
| "metadata_scalar (VBool b) = True"
| "metadata_scalar (VInt i) = True"
| "metadata_scalar (VFloat f) = True"
| "metadata_scalar (VStr s) = True"
| "metadata_scalar v = False"

fun validate_metadata_value :: "pyval \<Rightarrow> exn + pyval" where
  "validate_metadata_value (VTuple vs) =
     (if list_all metadata_scalar vs then Inr (VTuple vs)
      else Inl (Exn ''TypeError'' ''tuple element must be a MetadataScalar''))"
| "validate_metadata_value v =
     (if metadata_scalar v then Inr v
      else Inl (Exn ''TypeError'' ''value must be a MetadataScalar or tuple of MetadataScalar''))"

definition evidence_envelope_init :: "evidence_envelope \<Rightarrow> exn + evidence_envelope" where
  "evidence_envelope_init e =
     seqE (raise_first
       [((case ev_source_ref e of None \<Rightarrow> False | Some r \<Rightarrow> blank r),
           ValueError ''source_ref must be None or a non-blank string'')]) (\<lambda>_.
     seqE (mapE (\<lambda>(k, v).
              if blank k then Inl (ValueError ''metadata key must be a non-blank string'')
              else seqE (validate_metadata_value v) (\<lambda>v'. Inr (k, v'))) (ev_metadata e))
       (\<lambda>md. Inr (e\<lparr>ev_metadata := md\<rparr>)))"

definition make_confirmation_evidence ::
  "string \<Rightarrow> string \<Rightarrow> string \<Rightarrow> exn + evidence_envelope" where
  "make_confirmation_evidence task conf txt =
     seqE (raise_first
       [(blank task, ValueError ''task_id must be a nonblank string''),
        (blank conf, ValueError ''confirmation_id must be a nonblank string''),
        (blank txt, ValueError ''content must be a nonblank string'')]) (\<lambda>_.
     evidence_envelope_init
       \<lparr>ev_content = strip txt, ev_source_type = USER, ev_trust_level = TRUSTED_INSTRUCTION,
        ev_source_ref = Some (''user-explicit:'' @ strip task @ '':'' @ strip conf),
        ev_metadata = [(''confirmation_id'', VStr (strip conf))]\<rparr>)"

section \<open>Decisions and save operations\<close>

definition confirmed_memory_request_id :: "string \<Rightarrow> exn + string" where
  "confirmed_memory_request_id conf =
     (if blank conf then Inl (ValueError ''confirmation_id must be nonblank'')
      else Inr (''memory-write:'' @ strip conf))"

definition confirmed_decision_init ::
  "string \<Rightarrow> string \<Rightarrow> evidence_envelope \<Rightarrow> exn + confirmed_decision" where
  "confirmed_decision_init conf txt ev =
     seqE (raise_first
       [(blank conf, ValueError ''confirmation_id must be nonblank''),
        (blank txt, ValueError ''content must be nonblank'')])
     (\<lambda>_. Inr \<lparr>confirmation_id = strip conf, cd_content = strip txt,
               confirmation_evidence = ev\<rparr>)"

definition confirmed_save_operation_init ::
  "string \<Rightarrow> string \<Rightarrow> string option \<Rightarrow> confirmed_decision \<Rightarrow> exn + confirmed_save_op" where
  "confirmed_save_operation_init req task sess dec =
     seqE (raise_first
       [(blank req, ValueError ''request_id must be nonblank''),
        (blank task, ValueError ''task_id must be nonblank''),
        ((case sess of None \<Rightarrow> False | Some s \<Rightarrow> blank s),
           ValueError ''session_id must be None or a nonblank string'')]) (\<lambda>_.
     seqE (confirmed_memory_request_id (confirmation_id dec)) (\<lambda>expected.
       if strip req \<noteq> expected
       then Inl (ValueError ''request_id must equal memory-write:<decision.confirmation_id>'')
       else Inr \<lparr>request_id = strip req, op_task_id = strip task,
                 op_session_id = map_option strip sess, decision = dec\<rparr>))"

section \<open>The write policy\<close>

abbreviation ConfirmedWriteValidationError :: "string \<Rightarrow> exn" where
  "ConfirmedWriteValidationError m \<equiv> Exn ''ConfirmedWriteValidationError'' m"

text \<open>
  \<open>to_candidate\<close>.  The code compares the operation with the one in the state by identity; the
  caller passes the state's own operation, so equality is the same test.
\<close>

definition to_candidate :: "confirmed_save_op \<Rightarrow> 'm agent_state \<Rightarrow> exn + memory_candidate" where
  "to_candidate op s =
     (let dec = decision op; conf = confirmation_id dec; ev = confirmation_evidence dec
      in seqE (raise_first
           [(confirmed_save_operation s = None,
               ConfirmedWriteValidationError ''state has no confirmed save operation''),
            (confirmed_save_operation s \<noteq> Some op,
               ConfirmedWriteValidationError
                 ''provided operation does not match the state operation''),
            (blank (task_id s), ConfirmedWriteValidationError ''state task_id is blank''),
            ((case user_id s of None \<Rightarrow> True | Some u \<Rightarrow> blank u),
               ConfirmedWriteValidationError ''state user_id is blank''),
            (op_task_id op \<noteq> task_id s,
               ConfirmedWriteValidationError ''operation task_id differs from state task_id''),
            (op_session_id op \<noteq> session_id s,
               ConfirmedWriteValidationError
                 ''operation session_id differs from state session_id''),
            (conf = [], ConfirmedWriteValidationError ''confirmation_id is blank''),
            (cd_content dec = [], ConfirmedWriteValidationError ''content is blank'')]) (\<lambda>_.
         seqE (confirmed_memory_request_id conf) (\<lambda>expected.
         seqE (raise_first
           [(request_id op \<noteq> expected,
               ConfirmedWriteValidationError
                 ''request_id differs from memory-write:<confirmation_id>''),
            (ev_content ev \<noteq> cd_content dec,
               ConfirmedWriteValidationError
                 ''evidence content differs from normalized decision content''),
            (ev_source_type ev \<noteq> USER,
               ConfirmedWriteValidationError ''evidence source_type is not USER''),
            (ev_trust_level ev \<noteq> TRUSTED_INSTRUCTION,
               ConfirmedWriteValidationError
                 ''evidence trust_level is not TRUSTED_INSTRUCTION''),
            (ev_source_ref ev \<noteq> Some (''user-explicit:'' @ op_task_id op @ '':'' @ conf),
               ConfirmedWriteValidationError
                 ''evidence source_ref is absent or does not match the expected reference'')])
         (\<lambda>_. Inr \<lparr>mc_type = DECISION, mc_content = cd_content dec, mc_tags = [],
                   mc_importance = 1 / 2, mc_confidence = 1, evidence_ref = ev_source_ref ev,
                   mc_metadata = [(''candidate_id'', VStr conf)]\<rparr>))))"

section \<open>The answer of the backend\<close>

datatype required_write_outcome = Written string | SkippedDuplicate

abbreviation RequiredWriteConsistencyError :: "string \<Rightarrow> exn" where
  "RequiredWriteConsistencyError m \<equiv> Exn ''RequiredWriteConsistencyError'' m"

definition validate_required_write_response ::
  "write_response \<Rightarrow> string \<Rightarrow> exn + required_write_outcome" where
  "validate_required_write_response r expected =
     (if blank expected
      then Inl (RequiredWriteConsistencyError ''expected_candidate_id must be nonblank'')
      else if written_ids r \<noteq> [] \<and> skipped r \<noteq> []
      then Inl (RequiredWriteConsistencyError ''response has both written and skipped results'')
      else case (written_ids r, skipped r) of
        ([m], []) \<Rightarrow>
          if blank m then Inl (RequiredWriteConsistencyError ''written memory_id is blank'')
          else Inr (Written m)
      | ([], [c]) \<Rightarrow>
          if c \<noteq> expected
          then Inl (RequiredWriteConsistencyError
                      ''skipped candidate_id differs from expected candidate_id'')
          else Inr SkippedDuplicate
      | _ \<Rightarrow> Inl (RequiredWriteConsistencyError
               ''required write response did not contain exactly one decision outcome''))"

section \<open>Lemmas\<close>

lemma validate_required_write_response_iff:
  "validate_required_write_response r expected = Inr out \<longleftrightarrow>
     \<not> blank expected \<and>
     ((\<exists>m. written_ids r = [m] \<and> skipped r = [] \<and> \<not> blank m \<and> out = Written m)
      \<or> (written_ids r = [] \<and> skipped r = [expected] \<and> out = SkippedDuplicate))"
  unfolding validate_required_write_response_def by (auto split: list.splits)

text \<open>The candidate of an accepted operation, and exactly when there is one.\<close>

definition operation_ok :: "confirmed_save_op \<Rightarrow> 'm agent_state \<Rightarrow> bool" where
  "operation_ok op s \<longleftrightarrow>
     confirmed_save_operation s = Some op \<and> \<not> blank (task_id s) \<and>
     (\<exists>u. user_id s = Some u \<and> \<not> blank u) \<and>
     op_task_id op = task_id s \<and> op_session_id op = session_id s \<and>
     \<not> blank (confirmation_id (decision op)) \<and> cd_content (decision op) \<noteq> [] \<and>
     request_id op = ''memory-write:'' @ strip (confirmation_id (decision op)) \<and>
     ev_content (confirmation_evidence (decision op)) = cd_content (decision op) \<and>
     ev_source_type (confirmation_evidence (decision op)) = USER \<and>
     ev_trust_level (confirmation_evidence (decision op)) = TRUSTED_INSTRUCTION \<and>
     ev_source_ref (confirmation_evidence (decision op)) =
       Some (''user-explicit:'' @ op_task_id op @ '':'' @ confirmation_id (decision op))"

lemma to_candidate_iff:
  "to_candidate op s = Inr c \<longleftrightarrow>
     operation_ok op s \<and>
     c = \<lparr>mc_type = DECISION, mc_content = cd_content (decision op), mc_tags = [],
          mc_importance = 1 / 2, mc_confidence = 1,
          evidence_ref = ev_source_ref (confirmation_evidence (decision op)),
          mc_metadata = [(''candidate_id'', VStr (confirmation_id (decision op)))]\<rparr>"
  unfolding to_candidate_def operation_ok_def confirmed_memory_request_id_def Let_def
  by (auto simp: result_simps split: option.splits)

lemma make_confirmation_evidence_ok:
  assumes "\<not> blank task" and "\<not> blank conf" and "\<not> blank txt"
  shows "make_confirmation_evidence task conf txt =
    Inr \<lparr>ev_content = strip txt, ev_source_type = USER, ev_trust_level = TRUSTED_INSTRUCTION,
         ev_source_ref = Some (''user-explicit:'' @ strip task @ '':'' @ strip conf),
         ev_metadata = [(''confirmation_id'', VStr (strip conf))]\<rparr>"
proof -
  have "\<not> blank (''user-explicit:'' @ strip task @ '':'' @ strip conf)"
    by (rule visible_not_blank [of "CHR ''u''"]) (simp_all add: visible_def)
  moreover have "\<not> blank ''confirmation_id''"
    by (rule visible_not_blank [of "CHR ''c''"]) (simp_all add: visible_def)
  ultimately show ?thesis using assms
    by (simp add: make_confirmation_evidence_def evidence_envelope_init_def)
qed

text \<open>
  The three constructors used in order produce an operation that the policy accepts, for the
  state that holds it.
\<close>

lemma confirmed_operation_accepted:
  assumes nb: "\<not> blank task" "\<not> blank conf" "\<not> blank txt"
    and ev: "make_confirmation_evidence task conf txt = Inr ev"
    and dec: "confirmed_decision_init conf txt ev = Inr dec"
    and req: "confirmed_memory_request_id conf = Inr req"
    and op: "confirmed_save_operation_init req task sess dec = Inr op"
    and st: "confirmed_save_operation s = Some op" "task_id s = strip task"
      "session_id s = map_option strip sess" "user_id s = Some u" "\<not> blank u"
  shows "operation_ok op s"
proof -
  have ev': "ev = \<lparr>ev_content = strip txt, ev_source_type = USER,
      ev_trust_level = TRUSTED_INSTRUCTION,
      ev_source_ref = Some (''user-explicit:'' @ strip task @ '':'' @ strip conf),
      ev_metadata = [(''confirmation_id'', VStr (strip conf))]\<rparr>"
    using ev make_confirmation_evidence_ok [OF nb] by simp
  have dec': "dec = \<lparr>confirmation_id = strip conf, cd_content = strip txt,
      confirmation_evidence = ev\<rparr>"
    using dec nb by (simp add: confirmed_decision_init_def)
  show ?thesis
    using op st nb req
    by (auto simp: operation_ok_def confirmed_save_operation_init_def dec' ev' result_simps
        confirmed_memory_request_id_def)
qed

end
