(* ===== verification/Runtime_Agent.thy ===== *)
theory Runtime_Agent
  imports Skills Confirmation
begin

text \<open>
  The runtime (\<open>runtime/runtime_agent.py\<close>, \<open>runtime/lifecycle.py\<close>, \<open>output/final_composer.py\<close>):
  a run retrieves memory, plans, executes the plan step by step and finalises once; two
  dedicated runs save a confirmed decision and recall one.  The memory client, the planner
  and the tools are fields of the runtime.  A run that an exception escapes from is \<open>Inl\<close> with
  the state at that point.  The plan is iterated as it was when execution began; a step that
  the executor marks is written back at its position.
\<close>

section \<open>Composition and disclosure\<close>

record 'm runtime =
  host_of :: host
  make_plan :: "'m agent_state \<Rightarrow> exn + step list"
  tools_of :: "'m registry"
  client_of :: "'m memory_client option"

type_synonym 'm run_outcome = "(exn \<times> 'm agent_state) + 'm agent_state"

definition memory_actions :: "tool_name set" where
  "memory_actions = {WRITE_NOTE, SAVE_FACT, SAVE_PREFERENCE, SAVE_DECISION}"

definition memory_plan_actions :: "tool_name set" where
  "memory_plan_actions = memory_actions \<union> {READ_NOTE, ANSWER_FROM_CONTEXT}"

definition disclosure_text :: "string \<Rightarrow> string option" where
  "disclosure_text r =
     (if r = ''memory_degraded'' then Some
        (''(L'' @ [CHR 0xC6, CHR 0xB0] @ ''u '' @ [CHR 0xC3, CHR 0xBD] @ '': ''
           @ [CHR 0xC4, CHR 0x91] @ ''ang ch'' @ [CHR 0xE1, CHR 0xBA, CHR 0xA1] @ ''y ''
           @ [CHR 0xE1, CHR 0xBB, CHR 0x9F] @ '' ch'' @ [CHR 0xE1, CHR 0xBA, CHR 0xBF] @ '' ''
           @ [CHR 0xC4, CHR 0x91, CHR 0xE1, CHR 0xBB, CHR 0x99] @ '' memory r''
           @ [CHR 0xC3, CHR 0xBA] @ ''t g'' @ [CHR 0xE1, CHR 0xBB, CHR 0x8D] @ ''n ''
           @ [CHR 0xE2, CHR 0x80, CHR 0x94] @ '' ng'' @ [CHR 0xE1, CHR 0xBB, CHR 0xAF] @ '' c''
           @ [CHR 0xE1, CHR 0xBA, CHR 0xA3] @ ''nh d'' @ [CHR 0xE1, CHR 0xBB, CHR 0xB1] @ '' ''
           @ [CHR 0xC3, CHR 0xA1] @ ''n d'' @ [CHR 0xC3, CHR 0xA0] @ ''i h''
           @ [CHR 0xE1, CHR 0xBA, CHR 0xA1] @ ''n c'' @ [CHR 0xC3, CHR 0xB3] @ '' th''
           @ [CHR 0xE1, CHR 0xBB, CHR 0x83] @ '' thi'' @ [CHR 0xE1, CHR 0xBA, CHR 0xBF]
           @ ''u.)'')
      else if r = ''memory_write_failed'' then Some
        (''(L'' @ [CHR 0xC6, CHR 0xB0] @ ''u '' @ [CHR 0xC3, CHR 0xBD] @ '': l''
           @ [CHR 0xC6, CHR 0xB0] @ ''u memory kh'' @ [CHR 0xC3, CHR 0xB4] @ ''ng th''
           @ [CHR 0xC3, CHR 0xA0] @ ''nh c'' @ [CHR 0xC3, CHR 0xB4] @ ''ng cho l''
           @ [CHR 0xE1, CHR 0xBA, CHR 0xA7] @ ''n n'' @ [CHR 0xC3, CHR 0xA0] @ ''y.)'')
      else None)"

definition append_disclosures :: "string \<Rightarrow> string list \<Rightarrow> string" where
  "append_disclosures draft reasons =
     (let lines = List.map_filter disclosure_text reasons
      in if lines = [] then draft
         else draft @ [CHR 0x0A, CHR 0x0A] @ join [CHR 0x0A] lines)"

text \<open>\<open>step.action in actions\<close>, for the string-valued tool names.\<close>

definition step_action_in :: "tool_name set \<Rightarrow> step \<Rightarrow> bool" where
  "step_action_in ts st = (action_text (action st) \<in> tool_name_value ` ts)"

definition task_touches_memory :: "'m agent_state \<Rightarrow> bool" where
  "task_touches_memory s = (\<exists>st \<in> set (plan s). step_action_in memory_plan_actions st)"

definition user_expected_persistence :: "'m agent_state \<Rightarrow> bool" where
  "user_expected_persistence s = (\<exists>st \<in> set (plan s). step_action_in memory_actions st)"

definition add_reason :: "string \<Rightarrow> 'm agent_state \<Rightarrow> 'm agent_state" where
  "add_reason r s =
     (if r \<in> set (disclosure_reasons s) then s
      else s\<lparr>disclosure_reasons := disclosure_reasons s @ [r]\<rparr>)"

definition apply_disclosure :: "'m agent_state \<Rightarrow> 'm agent_state" where
  "apply_disclosure s =
     (let s1 = (if memory_degraded s \<and> task_touches_memory s
                then add_reason ''memory_degraded'' s else s)
      in if memory_write_failed s1 \<and> user_expected_persistence s1
         then add_reason ''memory_write_failed'' s1 else s1)"

definition compose_final :: "host \<Rightarrow> 'm agent_state \<Rightarrow> string" where
  "compose_final h s =
     (case final_answer s of
        Some (c # cs) \<Rightarrow> c # cs
      | _ \<Rightarrow> stringify_output h (last_val s))"

definition log_line :: "string \<Rightarrow> 'm agent_state \<Rightarrow> 'm agent_state" where
  "log_line l s = s\<lparr>history := history s @ [l]\<rparr>"

definition add_error :: "string \<Rightarrow> 'm agent_state \<Rightarrow> 'm agent_state" where
  "add_error e s = s\<lparr>errors := errors s @ [e]\<rparr>"

section \<open>The ordinary run\<close>

definition retrieve_request_of :: "'m agent_state \<Rightarrow> retrieve_request" where
  "retrieve_request_of s =
     \<lparr>rq_goal = goal s, rq_user = user_id s, rq_session = session_id s,
      rq_budget = 1500, rq_max_items = 20\<rparr>"

definition retrieve_memory :: "'m runtime \<Rightarrow> 'm agent_state \<Rightarrow> 'm agent_state" where
  "retrieve_memory rt s =
     (case client_of rt of
        None \<Rightarrow> s
      | Some mc \<Rightarrow>
         (case retrieve_context_pack mc (retrieve_request_of s) (memory s) of
            (Inl e, w) \<Rightarrow> fail (''memory retrieve failed: '' @ exn_msg e) (s\<lparr>memory := w\<rparr>)
          | (Inr p, w) \<Rightarrow>
             (let s1 = s\<lparr>memory := w, context_pack_of := Some p\<rparr>
              in if degraded p then s1\<lparr>memory_degraded := True\<rparr> else s1)))"

definition plan_run :: "'m runtime \<Rightarrow> 'm agent_state \<Rightarrow> 'm agent_state" where
  "plan_run rt s =
     (let s1 = emit_event ''planning_started'' None (s\<lparr>status := PLANNING\<rparr>);
          failed = (\<lambda>e s. emit_event ''planning_failed'' None
                       (fail (''Plan validation failed: '' @ exn_msg e) s))
      in case make_plan rt s1 of
           Inl e \<Rightarrow> failed e s1
         | Inr sts \<Rightarrow>
            (let s2 = s1\<lparr>plan := sts\<rparr>
             in case validate_plan sts (tools_of rt) of
                  Inl e \<Rightarrow> failed e s2
                | Inr _ \<Rightarrow>
                    emit_event ''planning_completed'' None
                      (log_line (''Plan length: '' @ show_nat (length sts))
                        (log_line (''Goal: '' @ goal s) s2))))"

definition step_tag :: "nat \<Rightarrow> string" where
  "step_tag i = ''[Step '' @ show_nat i @ '']''"

definition start_step :: "nat \<Rightarrow> step \<Rightarrow> 'm agent_state \<Rightarrow> 'm agent_state" where
  "start_step i st s =
     log_line (step_tag i @ '' thought='' @ thought st) (s\<lparr>current_step := i\<rparr>)"

definition begin_step :: "nat \<Rightarrow> tool_name \<Rightarrow> step \<Rightarrow> 'm agent_state \<Rightarrow> 'm agent_state" where
  "begin_step i t st s =
     emit_event ''step_started'' (Some i)
       (log_line (step_tag i @ '' action='' @ tool_name_value t) (start_step i st s))"

text \<open>The executor marked the step that the plan holds at position \<open>i\<close>, counted from one.\<close>

definition put_step :: "nat \<Rightarrow> step \<Rightarrow> 'm agent_state \<Rightarrow> 'm agent_state" where
  "put_step i st s = s\<lparr>plan := (plan s)[i - 1 := st]\<rparr>"

text \<open>What follows a successful or failed execution of step \<open>i\<close>.\<close>

definition step_succeeded :: "host \<Rightarrow> nat \<Rightarrow> tool_result \<Rightarrow> 'm agent_state \<Rightarrow> 'm agent_state" where
  "step_succeeded h i r s =
     emit_event ''step_completed'' (Some i)
       (log_line (step_tag i @ '' output='' @ stringify_output h (result_val r)) s)"

definition step_failed :: "nat \<Rightarrow> tool_result \<Rightarrow> 'm agent_state \<Rightarrow> 'm agent_state" where
  "step_failed i r s =
     emit_event ''step_failed'' (Some i) (fail (''Tool error: '' @ opt_text (error r)) s)"

fun execute_steps ::
  "host \<Rightarrow> 'm registry \<Rightarrow> nat \<Rightarrow> step list \<Rightarrow> 'm agent_state \<Rightarrow> 'm run_outcome" where
  "execute_steps h tools i [] s = Inr s"
| "execute_steps h tools i (st # sts) s =
     (if is_terminal s then Inr s
      else if max_steps s < i
      then Inr (emit_event ''run_failed'' (Some i)
                  (fail (''Max steps exceeded: '' @ show_nat (max_steps s)) s))
      else case action st of
        RawAction a \<Rightarrow>
          Inl (Exn ''AttributeError'' ''no attribute value'', start_step i st s)
      | Tool t \<Rightarrow>
         (case execute h tools st (begin_step i t st s) of
            Inl (e, st', s') \<Rightarrow> Inl (e, put_step i st' s')
          | Inr (r, st', s') \<Rightarrow>
             (let s1 = put_step i st' s'
              in if \<not> success r then Inr (step_failed i r s1)
                 else if t = FINISH
                 then Inr (emit_event ''finish_reached'' (Some i) (step_succeeded h i r s1))
                 else execute_steps h tools (Suc i) sts (step_succeeded h i r s1))))"

definition execute_plan :: "'m runtime \<Rightarrow> 'm agent_state \<Rightarrow> 'm run_outcome" where
  "execute_plan rt s =
     execute_steps (host_of rt) (tools_of rt) 1 (plan s)
       (emit_event ''running_started'' None (s\<lparr>status := agent_status.RUNNING\<rparr>))"

text \<open>\<open>_collect_candidates\<close> returns the empty list; a subclass may override it.\<close>

definition collect_candidates :: "'m agent_state \<Rightarrow> memory_candidate list" where
  "collect_candidates s = []"

definition write_memory ::
  "'m runtime \<Rightarrow> memory_candidate list \<Rightarrow> 'm agent_state \<Rightarrow> 'm agent_state" where
  "write_memory rt cands s =
     (case client_of rt of
        None \<Rightarrow> s
      | Some mc \<Rightarrow>
          if cands = [] then s
          else case write_memory_candidates mc
                 \<lparr>wq_candidates = cands, wq_user = user_id s, wq_session = session_id s,
                  wq_task = Some (task_id s), wq_request_id = None\<rparr> (memory s) of
              (Inl e, w) \<Rightarrow> add_error (''memory write failed: '' @ exn_msg e)
                              (s\<lparr>memory := w, memory_write_failed := True\<rparr>)
            | (Inr _, w) \<Rightarrow> s\<lparr>memory := w\<rparr>)"

definition finalize_run :: "'m runtime \<Rightarrow> 'm agent_state \<Rightarrow> 'm agent_state" where
  "finalize_run rt s =
     (if done_flag s then s
      else let draft = compose_final (host_of rt) s;
               s1 = apply_disclosure (write_memory rt (collect_candidates s) s)
           in emit_event ''run_completed'' None
                (complete (append_disclosures draft (disclosure_reasons s1)) s1))"

definition run :: "'m runtime \<Rightarrow> 'm agent_state \<Rightarrow> 'm run_outcome" where
  "run rt s =
     (let s1 = retrieve_memory rt s
      in if is_terminal s1 then Inr (finalize_run rt s1)
         else let s2 = plan_run rt s1
              in if is_terminal s2 then Inr (finalize_run rt s2)
                 else case execute_plan rt s2 of
                        Inl e \<Rightarrow> Inl e
                      | Inr s3 \<Rightarrow> Inr (finalize_run rt s3))"

section \<open>Saving a confirmed decision\<close>

definition confirmed_save_failed_message :: string where
  "confirmed_save_failed_message = ''Decision was not saved.''"

definition save_failed :: "string \<Rightarrow> 'm agent_state \<Rightarrow> 'm agent_state" where
  "save_failed tag s = fail confirmed_save_failed_message (add_error (''confirmed_write:'' @ tag) s)"

definition save_request :: "confirmed_save_op \<Rightarrow> memory_candidate \<Rightarrow> 'm agent_state \<Rightarrow> write_request" where
  "save_request op c s =
     \<lparr>wq_candidates = [c], wq_user = user_id s, wq_session = session_id s,
      wq_task = Some (task_id s), wq_request_id = Some (request_id op)\<rparr>"

text \<open>
  The three handlers of the write differ only in what they log: each marks the write as
  failed, records the type of the exception and fails with the same message.
\<close>

definition save_write ::
  "'m memory_client \<Rightarrow> confirmed_save_op \<Rightarrow> memory_candidate \<Rightarrow> 'm agent_state \<Rightarrow> 'm agent_state" where
  "save_write mc op c s =
     (case write_memory_candidates mc (save_request op c s) (memory s) of
        (resp, w) \<Rightarrow>
         (let s1 = s\<lparr>memory := w\<rparr>;
              src = opt_text (ev_source_ref (confirmation_evidence (decision op)))
          in case seqE resp (\<lambda>r. validate_required_write_response r
                                    (confirmation_id (decision op))) of
               Inl e \<Rightarrow> save_failed (exn_type e) (s1\<lparr>memory_write_failed := True\<rparr>)
             | Inr (Written m) \<Rightarrow>
                 complete (''Decision saved.'' @ [CHR 0x0A] @ ''Memory ID: '' @ m @ [CHR 0x0A]
                           @ ''Provenance: '' @ src) s1
             | Inr SkippedDuplicate \<Rightarrow>
                 complete (''Decision already existed.'' @ [CHR 0x0A] @ ''Provenance: '' @ src) s1))"

definition run_confirmed_save :: "'m runtime \<Rightarrow> 'm agent_state \<Rightarrow> 'm run_outcome" where
  "run_confirmed_save rt s =
     (if done_flag s \<or> status s \<noteq> CREATED then Inr s
      else case confirmed_save_operation s of
        None \<Rightarrow> Inr (save_failed ''missing_operation'' s)
      | Some op \<Rightarrow>
         (case client_of rt of
            None \<Rightarrow> Inr (save_failed ''backend_not_capable'' s)
          | Some mc \<Rightarrow>
              if \<not> supports_required_write mc then Inr (save_failed ''backend_not_capable'' s)
              else case to_candidate op s of
                  Inl e \<Rightarrow> if exn_type e = ''ConfirmedWriteValidationError''
                           then Inr (save_failed (exn_type e) s) else Inl (e, s)
                | Inr c \<Rightarrow> Inr (save_write mc op c s)))"

section \<open>Recalling a decision\<close>

fun truthy :: "pyval \<Rightarrow> bool" where
  "truthy VNone = False"
| "truthy (VBool b) = b"
| "truthy (VInt i) = (i \<noteq> 0)"
| "truthy (VFloat f) = (f \<noteq> PyFinite ''0.0'' \<and> f \<noteq> PyFinite ''-0.0'')"
| "truthy (VStr s) = (s \<noteq> [])"
| "truthy (VList vs) = (vs \<noteq> [])"
| "truthy (VTuple vs) = (vs \<noteq> [])"
| "truthy (VDict kvs) = (kvs \<noteq> [])"
| "truthy (VEnum c s) = (s \<noteq> [])"
| "truthy (VObj c fs) = True"

definition meta_get :: "kwargs \<Rightarrow> string \<Rightarrow> pyval" where
  "meta_get md k = (case map_of md k of None \<Rightarrow> VNone | Some v \<Rightarrow> v)"

definition recall_block :: "host \<Rightarrow> context_item \<Rightarrow> string" where
  "recall_block h it =
     (let md = ci_metadata it;
          mid = (if truthy (meta_get md ''memory_id'') then meta_get md ''memory_id''
                 else opt_str (ci_source_ref it));
          line = (\<lambda>label v. if truthy v then [label @ to_str h v] else [])
      in join [CHR 0x0A]
           ([ci_content it] @ line ''Memory ID: '' mid
            @ line ''Provenance: '' (meta_get md ''evidence_ref'')
            @ line ''Source task: '' (meta_get md ''source_task_id'')))"

definition format_recall_output :: "host \<Rightarrow> context_pack \<Rightarrow> string" where
  "format_recall_output h p = join [CHR 0x0A, CHR 0x0A] (map (recall_block h) (items p))"

definition recall_failed_message :: string where
  "recall_failed_message = ''Decision recall failed.''"

definition recall_no_result_message :: string where
  "recall_no_result_message = ''No matching project decision found.''"

text \<open>
  The retry loop, with the number of attempts it made.  \<open>attempt\<close> is the counter before the
  increment at the head of the loop; sleeping between attempts changes nothing here.
\<close>

function recall_loop ::
  "host \<Rightarrow> 'm memory_client \<Rightarrow> int \<Rightarrow> nat \<Rightarrow> 'm agent_state \<Rightarrow> nat \<times> 'm agent_state" where
  "recall_loop h mc max_tries attempt s =
     (case retrieve_context_pack mc (retrieve_request_of s) (memory s) of
        (Inl e, w) \<Rightarrow>
          (Suc attempt, fail recall_failed_message
             (add_error (''memory_recall:'' @ exn_type e) (s\<lparr>memory := w\<rparr>)))
      | (Inr p, w) \<Rightarrow>
         (let s1 = s\<lparr>memory := w\<rparr>
          in if degraded p
             then (Suc attempt, fail recall_failed_message
                     (add_error ''memory_recall:degraded'' (s1\<lparr>memory_degraded := True\<rparr>)))
             else if items p \<noteq> []
             then (Suc attempt, complete (format_recall_output h p) (s1\<lparr>context_pack_of := Some p\<rparr>))
             else if int (Suc attempt) \<ge> max_tries
             then (Suc attempt, complete recall_no_result_message (s1\<lparr>context_pack_of := Some p\<rparr>))
             else recall_loop h mc max_tries (Suc attempt) s1))"
  by pat_completeness auto
termination
  by (relation "measure (\<lambda>(h, mc, m, a, s). nat (m - int a))") auto

definition run_memory_recall :: "'m runtime \<Rightarrow> int \<Rightarrow> 'm agent_state \<Rightarrow> 'm agent_state" where
  "run_memory_recall rt max_tries s =
     (if done_flag s \<or> status s \<noteq> CREATED then s
      else case client_of rt of
        None \<Rightarrow> fail recall_failed_message (add_error ''memory_recall:no_client'' s)
      | Some mc \<Rightarrow> snd (recall_loop (host_of rt) mc max_tries 0 s))"

declare recall_loop.simps [simp del]

section \<open>What every run ends in\<close>

lemma finalize_run_done: "done_flag (finalize_run rt s)"
  by (simp add: finalize_run_def Let_def emit_event_def complete_def)

lemma run_done: "run rt s = Inr s' \<Longrightarrow> done_flag s'"
  by (auto simp: run_def Let_def finalize_run_done split: if_splits sum.splits)

text \<open>
  The built-in tools leave the bookkeeping of the run alone.  \<open>same_run\<close> compares the fields
  that belong to the runtime and not to the tools.
\<close>

definition same_run :: "'m agent_state \<Rightarrow> 'm agent_state \<Rightarrow> bool" where
  "same_run s s' \<longleftrightarrow>
     done_flag s' = done_flag s \<and> status s' = status s \<and> final_answer s' = final_answer s \<and>
     plan s' = plan s \<and> observations s' = observations s \<and> max_steps s' = max_steps s \<and>
     errors s' = errors s \<and> task_id s' = task_id s \<and>
     memory_degraded s' = memory_degraded s \<and> memory_write_failed s' = memory_write_failed s \<and>
     disclosure_reasons s' = disclosure_reasons s \<and> read_only s' = read_only s \<and>
     approved_tools s' = approved_tools s"

fun outcome_state :: "'m fn_outcome \<Rightarrow> 'm agent_state" where
  "outcome_state (Returned r s) = s"
| "outcome_state (ReturnedOther t s) = s"
| "outcome_state (Raised e s) = s"

definition quiet :: "'m tool_spec \<Rightarrow> bool" where
  "quiet sp \<longleftrightarrow> (\<forall>s kw. same_run s (outcome_state (fn sp s kw)))"

lemma same_run_refl [simp]: "same_run s s"
  by (simp add: same_run_def)

lemma same_run_set_slot [simp]: "same_run s (set_slot k v s') \<longleftrightarrow> same_run s s'"
  by (simp add: same_run_def set_slot_def)

text \<open>After an execution exactly one observation is new, and it tells whether the step succeeded.\<close>

definition one_more :: "'m agent_state \<Rightarrow> bool \<Rightarrow> 'm agent_state \<Rightarrow> bool" where
  "one_more s ok s' \<longleftrightarrow>
     same_run s (s'\<lparr>observations := observations s\<rparr>) \<and>
     (\<exists>obs. observations s' = observations s @ [obs] \<and> obs_success obs = ok
        \<and> obs_trust obs = UNTRUSTED_EVIDENCE)"

lemma record_result_one_more:
  assumes "record_result h st kw r s0 = Inr s'" and "same_run s s0"
  shows "one_more s (success r) s'"
  using record_result_Inr [OF assms(1)] record_result_frame [OF assms(1)] assms(2)
  by (auto simp: one_more_def same_run_def)

lemma invoke_tool_recorded:
  assumes "invoke_tool h t tool st s kw = Inr (r, st', s')"
  shows "\<exists>s0. record_result h st' kw r s0 = Inr s' \<and> same_run (outcome_state (fn tool s kw)) s0"
  using assms
  by (auto simp: invoke_tool_def exec_fail_def finish_step_Inr Let_def
      split: fn_outcome.splits option.splits if_splits)

lemma same_run_trans: "same_run a b \<Longrightarrow> same_run b c \<Longrightarrow> same_run a c"
  by (simp add: same_run_def)

lemma invoke_tool_one_more:
  assumes "invoke_tool h t tool st s kw = Inr (r, st', s')" and "quiet tool"
  shows "one_more s (success r) s'"
  using invoke_tool_recorded [OF assms(1)] assms(2) record_result_one_more same_run_trans
  unfolding quiet_def by blast

lemma exec_fail_one_more:
  "exec_fail h st s m et md kw = Inr (r, st', s') \<Longrightarrow> one_more s (success r) s'"
  using exec_fail_Inr record_result_one_more same_run_refl by metis

text \<open>How an execution ends: refused or failed before the call, or with the call of the tool.\<close>

lemma execute_cases:
  assumes "execute h tools st s = Inr (r, st', s')"
  obtains st1 m et md kw where "exec_fail h st1 s m et md kw = Inr (r, st', s')"
  | t tool kw where "action st = Tool t" "registry_get tools t = Some tool" "gates_pass tool s"
      "invoke_tool h t tool (mark_running st) s kw = Inr (r, st', s')"
  using assms gates_pass_iff
  by (fastforce simp: execute_def Let_def
      split: action.splits option.splits sum.splits args_failure.splits if_splits)

lemma execute_one_more:
  assumes "execute h tools st s = Inr (r, st', s')"
    and "\<And>t tool. action st = Tool t \<Longrightarrow> registry_get tools t = Some tool \<Longrightarrow> gates_pass tool s
      \<Longrightarrow> quiet tool"
  shows "one_more s (success r) s'"
  using assms(1)
  by (cases rule: execute_cases) (auto intro: exec_fail_one_more invoke_tool_one_more assms(2))

section \<open>The execution loop\<close>

declare log_line_def [state_defs] add_error_def [state_defs] start_step_def [state_defs]
  step_succeeded_def [state_defs] step_failed_def [state_defs]

lemma finish_step_step: "finish_step h st kw r s = Inr (r', st', s') \<Longrightarrow> st' = st"
  by (simp add: finish_step_Inr)

lemma mark_action [simp]:
  "action (mark_running st) = action st" "action (mark_completed st) = action st"
  "action (mark_failed st) = action st"
  by (simp_all add: mark_running_def mark_completed_def mark_failed_def)

lemma execute_action: "execute h tools st s = Inr (r, st', s') \<Longrightarrow> action st' = action st"
  by (auto simp: execute_def invoke_tool_def exec_fail_def finish_step_Inr Let_def
      split: action.splits option.splits sum.splits args_failure.splits if_splits fn_outcome.splits)

text \<open>
  \<open>advanced s obs s'\<close>: the run went from \<open>s\<close> to \<open>s'\<close> and recorded the observations \<open>obs\<close>;
  steps were marked, nothing else that belongs to the runtime changed.
\<close>

definition advanced :: "'m agent_state \<Rightarrow> observation list \<Rightarrow> 'm agent_state \<Rightarrow> bool" where
  "advanced s obs s' \<longleftrightarrow>
     same_run s (s'\<lparr>observations := observations s, plan := plan s\<rparr>) \<and>
     observations s' = observations s @ obs \<and> map action (plan s') = map action (plan s) \<and>
     (\<forall>ob \<in> set obs. obs_trust ob = UNTRUSTED_EVIDENCE)"

lemma advanced_trans:
  "advanced a xs b \<Longrightarrow> advanced b ys c \<Longrightarrow> advanced a (xs @ ys) c"
  by (auto simp: advanced_def same_run_def)

lemma same_run_advanced: "same_run s s' \<Longrightarrow> advanced s [] s'"
  by (simp add: advanced_def same_run_def)

definition gates_quiet :: "'m registry \<Rightarrow> 'm agent_state \<Rightarrow> bool" where
  "gates_quiet tools s \<longleftrightarrow>
     (\<forall>t tool. registry_get tools t = Some tool \<longrightarrow> gates_pass tool s \<longrightarrow> quiet tool)"

lemma gates_pass_cong:
  "read_only s' = read_only s \<Longrightarrow> approved_tools s' = approved_tools s \<Longrightarrow>
     gates_pass tool s' = gates_pass tool s"
  by (simp add: gates_pass_def)

lemma gates_quiet_cong:
  "read_only s' = read_only s \<Longrightarrow> approved_tools s' = approved_tools s \<Longrightarrow>
     gates_quiet tools s' = gates_quiet tools s"
  using gates_pass_cong [of s' s] by (simp add: gates_quiet_def)

lemma gates_quiet_advanced: "advanced s obs s' \<Longrightarrow> gates_quiet tools s' = gates_quiet tools s"
  using gates_quiet_cong [of s' s] by (simp add: advanced_def same_run_def)

lemma execute_advanced:
  assumes "execute h tools st s = Inr (r, st', s')" and "gates_quiet tools s"
    and "map action (plan s) ! (i - 1) = action st"
  shows "\<exists>ob. advanced s [ob] (put_step i st' s') \<and> obs_success ob = success r"
proof -
  have om: "one_more s (success r) s'"
    using assms(1,2) by (intro execute_one_more) (auto simp: gates_quiet_def)
  then have "plan s' = plan s" by (simp add: one_more_def same_run_def)
  then have "map action ((plan s')[i - 1 := st']) = map action (plan s)"
    using assms(3) execute_action [OF assms(1)] by (simp add: map_update) (metis list_update_id)
  with om show ?thesis by (auto simp: one_more_def advanced_def same_run_def put_step_def)
qed

lemma begin_step_same_run: "same_run s (begin_step i t st s)"
  by (simp add: begin_step_def same_run_def state_defs)

lemma step_succeeded_same_run: "same_run s (step_succeeded h i r s)"
  by (simp add: same_run_def state_defs)

lemma finish_event_same_run: "same_run s (emit_event n i s)"
  by (simp add: same_run_def state_defs)

text \<open>One step, with the observation it leaves and how the loop goes on after it.\<close>

lemma execute_steps_Cons:
  assumes "execute_steps h tools i (st # sts) s = Inr s'" and "\<not> is_terminal s"
    and "i \<le> max_steps s"
  obtains t r st' s1 where "action st = Tool t" "execute h tools st (begin_step i t st s) = Inr (r, st', s1)"
    "\<not> success r \<and> s' = step_failed i r (put_step i st' s1)
     \<or> success r \<and> s' = emit_event ''finish_reached'' (Some i) (step_succeeded h i r (put_step i st' s1))
     \<or> success r \<and> execute_steps h tools (Suc i) sts (step_succeeded h i r (put_step i st' s1)) = Inr s'"
proof -
  obtain t where t: "action st = Tool t"
    using assms by (auto split: action.splits)
  moreover obtain r st' s1 where e: "execute h tools st (begin_step i t st s) = Inr (r, st', s1)"
    using assms t by (auto split: sum.splits)
  ultimately show thesis using that assms by (auto simp: Let_def split: if_splits)
qed

lemma step_advanced:
  assumes "execute h tools st (begin_step i t st s) = Inr (r, st', s1)" and "gates_quiet tools s"
    and "map action (plan s) ! (i - 1) = action st"
  shows "\<exists>ob. advanced s [ob] (put_step i st' s1) \<and> obs_success ob = success r"
proof -
  have adv0: "advanced s [] (begin_step i t st s)"
    by (rule same_run_advanced [OF begin_step_same_run])
  moreover have "plan (begin_step i t st s) = plan s" by (simp add: begin_step_def state_defs)
  ultimately show ?thesis
    using execute_advanced [OF assms(1), of i] assms(2,3) gates_quiet_advanced [OF adv0, of tools]
      advanced_trans [OF adv0] by fastforce
qed

text \<open>
  How the loop over the plan ends: with observations of the executed steps, no more than the
  step budget allows, and either all of them successful and the run still open, or the run
  failed.
\<close>

definition loop_ends ::
  "nat \<Rightarrow> 'm agent_state \<Rightarrow> 'm agent_state \<Rightarrow> bool" where
  "loop_ends budget s s' \<longleftrightarrow>
     (\<exists>obs s1. advanced s obs s1 \<and> length obs \<le> budget \<and>
        (s' = s1 \<and> (\<forall>ob \<in> set obs. obs_success ob) \<or>
         (\<exists>n i m. s' = emit_event n i (fail m s1))))"

lemma loop_ends_refl: "loop_ends b s s"
  unfolding loop_ends_def
  by (rule exI [of _ "[]"], rule exI [of _ s]) (simp add: same_run_advanced)

lemma loop_ends_fail: "loop_ends b s (emit_event n i (fail m s))"
  unfolding loop_ends_def
  by (rule exI [of _ "[]"], rule exI [of _ s]) (auto simp: same_run_advanced)

lemma loop_ends_step:
  assumes "advanced s [ob] s1" and "obs_success ob" and "loop_ends b s1 s'"
  shows "loop_ends (Suc b) s s'"
proof -
  from assms(3) obtain obs s2 where r: "advanced s1 obs s2" "length obs \<le> b"
    "s' = s2 \<and> (\<forall>ob \<in> set obs. obs_success ob) \<or> (\<exists>n i m. s' = emit_event n i (fail m s2))"
    unfolding loop_ends_def by blast
  have "advanced s ([ob] @ obs) s2" by (rule advanced_trans [OF assms(1) r(1)])
  moreover have "length ([ob] @ obs) \<le> Suc b" using r(2) by simp
  ultimately show ?thesis using r(3) assms(2) unfolding loop_ends_def by fastforce
qed

lemma loop_ends_last:
  assumes "advanced s [ob] s1" and "obs_success ob \<and> s' = s1 \<or> (\<exists>n i m. s' = emit_event n i (fail m s1))"
  shows "loop_ends (Suc b) s s'"
  using assms unfolding loop_ends_def by (intro exI [of _ "[ob]"] exI [of _ s1]) auto

lemma execute_steps_ends:
  assumes "execute_steps h tools i sts s = Inr s'" and "gates_quiet tools s"
    and "0 < i" and "drop (i - 1) (map action (plan s)) = map action sts"
  shows "loop_ends (Suc (max_steps s) - i) s s'"
  using assms
proof (induction sts arbitrary: i s)
  case Nil
  then show ?case by (simp add: loop_ends_refl)
next
  case (Cons st sts)
  show ?case
  proof (cases "is_terminal s \<or> max_steps s < i")
    case True
    with Cons.prems(1) show ?thesis using loop_ends_refl loop_ends_fail by (auto split: if_splits)
  next
    case False
    then have b: "Suc (max_steps s) - i = Suc (max_steps s - i)" by (simp add: Suc_diff_le)
    from False obtain t r st' s1 where e: "execute h tools st (begin_step i t st s) = Inr (r, st', s1)"
      and after: "\<not> success r \<and> s' = step_failed i r (put_step i st' s1)
        \<or> success r \<and> s' = emit_event ''finish_reached'' (Some i) (step_succeeded h i r (put_step i st' s1))
        \<or> success r \<and> execute_steps h tools (Suc i) sts (step_succeeded h i r (put_step i st' s1)) = Inr s'"
      using execute_steps_Cons [OF Cons.prems(1)] by (metis linorder_not_less)
    let ?s1 = "put_step i st' s1" and ?s2 = "step_succeeded h i r (put_step i st' s1)"
    have "map action (plan s) ! (i - 1) = action st"
      using Cons.prems(4) by (metis list.simps(9) nth_via_drop)
    then obtain ob where ob: "advanced s [ob] ?s1" "obs_success ob = success r"
      using step_advanced [OF e Cons.prems(2)] by blast
    have adv2: "advanced s [ob] ?s2"
      using advanced_trans [OF ob(1) same_run_advanced [OF step_succeeded_same_run]] by simp
    have adv3: "advanced s [ob] (emit_event n j ?s2)" for n j
      using advanced_trans [OF adv2 same_run_advanced [OF finish_event_same_run]] by simp
    have tl: "drop (Suc i - 1) (map action (plan ?s2)) = map action sts"
      using Cons.prems(3,4) adv2
      by (metis Suc_pred' advanced_def diff_Suc_1 drop_Suc list.sel(3) list.simps(9) tl_drop)
    have ms: "max_steps ?s2 = max_steps s" using adv2 by (simp add: advanced_def same_run_def)
    show ?thesis
    proof (cases "success r \<and> execute_steps h tools (Suc i) sts ?s2 = Inr s'")
      case True
      then have "loop_ends (max_steps s - i) ?s2 s'"
        using Cons.IH [of "Suc i" ?s2] gates_quiet_advanced [OF adv2, of tools] Cons.prems(2) tl ms
        by simp
      with True ob(2) show ?thesis unfolding b by (intro loop_ends_step [OF adv2]) auto
    next
      case False
      then show ?thesis
        unfolding b using after ob adv3 loop_ends_last unfolding step_failed_def by metis
    qed
  qed
qed

section \<open>A run returns\<close>

text \<open>
  Nothing escapes a run when the task and the steps have identifiers that are not blank and
  the plan names its tools by \<open>ToolName\<close>.
\<close>

lemma mark_step_id [simp]:
  "step_id (mark_running st) = step_id st" "step_id (mark_completed st) = step_id st"
  "step_id (mark_failed st) = step_id st"
  by (simp_all add: mark_running_def mark_completed_def mark_failed_def)

lemma finish_step_total:
  assumes "\<not> blank (task_id s)" and "\<not> blank (step_id st)" and "action st = Tool t"
  shows "\<exists>s'. finish_step h st kw r s = Inr (r, st, s')"
  using record_result_total [OF assms, of h kw r] by (auto simp: finish_step_def)

lemma exec_fail_total:
  assumes "\<not> blank (task_id s)" and "\<not> blank (step_id st)" and "action st = Tool t"
  shows "\<exists>x. exec_fail h st s m et md kw = Inr x"
  using finish_step_total [of s "mark_failed st" t] assms unfolding exec_fail_def by (metis mark_action(3) mark_step_id(3))

lemma invoke_tool_total:
  assumes "\<not> blank (task_id s)" and "\<not> blank (step_id st)" and "action st = Tool t" and "quiet tool"
  shows "\<exists>x. invoke_tool h t tool st s kw = Inr x"
proof -
  have id: "task_id (outcome_state (fn tool s kw)) = task_id s"
    using assms(4) by (simp add: quiet_def same_run_def)
  show ?thesis
  proof (cases "fn tool s kw")
    case (Returned r s1)
    define r1 where "r1 = (if res_tool_name r = None \<or> res_tool_name r = Some []
      then r\<lparr>res_tool_name := Some (tool_name_value t)\<rparr> else r)"
    define s2 where "s2 = (case calc_value (res_output r1) of
        Some v \<Rightarrow> if t = CALCULATE then set_slot ''calc_result'' v s1 else s1 | None \<Rightarrow> s1)"
    define st2 where "st2 = (if success r1 then mark_completed st else mark_failed st)"
    have "\<not> blank (task_id s2)" "\<not> blank (step_id st2)" "action st2 = Tool t"
      using assms id Returned by (auto simp: s2_def st2_def set_slot_def split: option.split)
    from finish_step_total [OF this, of h kw r1] show ?thesis
      by (auto simp: invoke_tool_def Returned Let_def r1_def s2_def st2_def)
  next
    case (ReturnedOther ty s1)
    then show ?thesis
      using assms id exec_fail_total [of s1 st t] unfolding invoke_tool_def by simp
  next
    case (Raised e s1)
    then show ?thesis
      using assms id exec_fail_total [of s1 st t] unfolding invoke_tool_def by simp
  qed
qed

lemma execute_total:
  assumes "\<not> blank (task_id s)" and "\<not> blank (step_id st)" and "action st = Tool t"
    and "gates_quiet tools s"
  shows "\<exists>x. execute h tools st s = Inr x"
proof -
  have run: "\<not> blank (step_id (mark_running st))" "action (mark_running st) = Tool t"
    using assms by simp_all
  note fails = exec_fail_total [OF assms(1-3)] exec_fail_total [OF assms(1) run]
  show ?thesis
  proof (cases "registry_get tools t")
    case (Some tool)
    show ?thesis
    proof (cases "\<exists>kw. prepare_args h tool (mark_running st) s = Inr kw \<and> gates_pass tool s")
      case True
      then obtain kw where kw: "prepare_args h tool (mark_running st) s = Inr kw" "gates_pass tool s"
        by blast
      then have "quiet tool" using assms(4) Some by (auto simp: gates_quiet_def)
      from invoke_tool_total [OF assms(1) run this] show ?thesis
        using kw assms(3) Some gates_pass_iff [of tool s kw kw] by (simp add: execute_def Let_def)
    next
      case False
      then show ?thesis
        using fails assms(3) Some gates_pass_iff
        by (fastforce simp: execute_def Let_def split: sum.split args_failure.split)
    qed
  qed (use fails assms(3) in \<open>simp add: execute_def\<close>)
qed

lemma execute_steps_total:
  assumes "\<not> blank (task_id s)" and "gates_quiet tools s"
    and "\<forall>st \<in> set sts. \<not> blank (step_id st) \<and> (\<exists>t. action st = Tool t)"
    and "0 < i" and "drop (i - 1) (map action (plan s)) = map action sts"
  shows "\<exists>s'. execute_steps h tools i sts s = Inr s'"
  using assms
proof (induction sts arbitrary: i s)
  case (Cons st sts)
  obtain t where t: "action st = Tool t" "\<not> blank (step_id st)" using Cons.prems(3) by auto
  have b: "task_id (begin_step i t st s) = task_id s" "gates_quiet tools (begin_step i t st s)"
    using Cons.prems(2) gates_quiet_cong [of "begin_step i t st s" s]
    by (simp_all add: begin_step_def state_defs)
  obtain r st' s1 where e: "execute h tools st (begin_step i t st s) = Inr (r, st', s1)"
    using execute_total [OF _ t(2,1) b(2)] b(1) Cons.prems(1) by (metis prod_cases3)
  have "map action (plan s) ! (i - 1) = action st"
    using Cons.prems(5) by (metis list.simps(9) nth_via_drop)
  then obtain ob where "advanced s [ob] (put_step i st' s1)"
    using step_advanced [OF e Cons.prems(2)] by blast
  then have adv: "advanced s [ob] (step_succeeded h i r (put_step i st' s1))"
    using advanced_trans same_run_advanced [OF step_succeeded_same_run] by fastforce
  have "drop (Suc i - 1) (map action (plan (step_succeeded h i r (put_step i st' s1)))) = map action sts"
    using Cons.prems(4,5) adv
    by (metis Suc_pred' advanced_def diff_Suc_1 drop_Suc list.sel(3) list.simps(9) tl_drop)
  moreover have "task_id (step_succeeded h i r (put_step i st' s1)) = task_id s"
    using adv by (simp add: advanced_def same_run_def)
  ultimately have "\<exists>s'. execute_steps h tools (Suc i) sts (step_succeeded h i r (put_step i st' s1)) = Inr s'"
    using Cons.prems gates_quiet_advanced [OF adv, of tools] by (intro Cons.IH) simp_all
  with e t show ?case by (simp add: Let_def)
qed simp

section \<open>The verdict of a run\<close>

lemma retrieve_memory_frame:
  "read_only (retrieve_memory rt s) = read_only s"
  "approved_tools (retrieve_memory rt s) = approved_tools s"
  "observations (retrieve_memory rt s) = observations s"
  "max_steps (retrieve_memory rt s) = max_steps s"
  by (auto simp: retrieve_memory_def state_defs Let_def split: option.splits sum.splits prod.splits)

lemma retrieve_memory_open:
  assumes "\<not> is_terminal s"
  shows "done_flag (retrieve_memory rt s) \<longleftrightarrow> is_terminal (retrieve_memory rt s)"
    and "done_flag (retrieve_memory rt s) \<Longrightarrow>
      status (retrieve_memory rt s) = agent_status.FAILED \<and> final_answer (retrieve_memory rt s) \<noteq> None"
  using assms
  by (auto simp: retrieve_memory_def is_terminal_def state_defs Let_def
      split: option.splits sum.splits prod.splits if_splits)

lemma plan_run_frame:
  "read_only (plan_run rt s) = read_only s" "approved_tools (plan_run rt s) = approved_tools s"
  "observations (plan_run rt s) = observations s" "max_steps (plan_run rt s) = max_steps s"
  "memory_degraded (plan_run rt s) = memory_degraded s"
  by (auto simp: plan_run_def state_defs Let_def split: sum.splits)

lemma plan_run_open:
  assumes "\<not> done_flag s"
  shows "done_flag (plan_run rt s) \<longleftrightarrow> is_terminal (plan_run rt s)"
    and "done_flag (plan_run rt s) \<Longrightarrow>
      status (plan_run rt s) = agent_status.FAILED \<and> final_answer (plan_run rt s) \<noteq> None"
    and "\<not> done_flag (plan_run rt s) \<Longrightarrow>
      validate_plan (plan (plan_run rt s)) (tools_of rt) = Inr ()"
  using assms
  by (auto simp: plan_run_def is_terminal_def state_defs Let_def split: sum.splits)

lemma apply_disclosure_frame:
  "observations (apply_disclosure s) = observations s" "plan (apply_disclosure s) = plan s"
  "memory_degraded (apply_disclosure s) = memory_degraded s"
  "memory_write_failed (apply_disclosure s) = memory_write_failed s"
  by (auto simp: apply_disclosure_def add_reason_def Let_def)

lemma write_memory_none [simp]: "write_memory rt (collect_candidates s) s = s"
  by (simp add: write_memory_def collect_candidates_def split: option.split)

lemma finalize_run_open:
  assumes "\<not> done_flag s"
  shows "status (finalize_run rt s) = agent_status.COMPLETED"
    and "final_answer (finalize_run rt s) = Some (append_disclosures (compose_final (host_of rt) s)
      (disclosure_reasons (apply_disclosure s)))"
    and "observations (finalize_run rt s) = observations s" and "plan (finalize_run rt s) = plan s"
    and "memory_degraded (finalize_run rt s) = memory_degraded s"
    and "memory_write_failed (finalize_run rt s) = memory_write_failed s"
  using assms by (simp_all add: finalize_run_def Let_def state_defs apply_disclosure_frame)

lemma finalize_run_closed [simp]: "done_flag s \<Longrightarrow> finalize_run rt s = s"
  by (simp add: finalize_run_def)

text \<open>The three ways a run of an open state returns.\<close>

lemma run_cases:
  assumes "run rt s = Inr s'" and "\<not> is_terminal s"
  obtains (retrieve) "done_flag s'" "s' = retrieve_memory rt s"
  | (planning) "\<not> done_flag (retrieve_memory rt s)" "done_flag s'"
      "s' = plan_run rt (retrieve_memory rt s)"
  | (executed) s3 where "\<not> done_flag (retrieve_memory rt s)"
      "\<not> done_flag (plan_run rt (retrieve_memory rt s))"
      "execute_plan rt (plan_run rt (retrieve_memory rt s)) = Inr s3" "s' = finalize_run rt s3"
proof -
  let ?s1 = "retrieve_memory rt s" and ?s2 = "plan_run rt (retrieve_memory rt s)"
  note op = retrieve_memory_open(1) [OF assms(2), of rt]
  show thesis
  proof (cases "done_flag ?s1")
    case True
    with op assms(1) show thesis by (intro retrieve) (simp_all add: run_def)
  next
    case False
    note op2 = plan_run_open(1) [OF False, of rt]
    show thesis
    proof (cases "done_flag ?s2")
      case True
      with False op op2 assms(1) show thesis by (intro planning) (simp_all add: run_def Let_def)
    next
      case False2: False
      with False op op2 assms(1) obtain s3 where "execute_plan rt ?s2 = Inr s3"
        "s' = finalize_run rt s3"
        by (auto simp: run_def Let_def split: sum.splits)
      with False False2 show thesis by (rule executed)
    qed
  qed
qed

lemma execute_plan_ends:
  assumes "execute_plan rt s = Inr s'" and "gates_quiet (tools_of rt) s"
  shows "loop_ends (max_steps s)
        (emit_event ''running_started'' None (s\<lparr>status := agent_status.RUNNING\<rparr>)) s'"
proof -
  let ?s0 = "emit_event ''running_started'' None (s\<lparr>status := agent_status.RUNNING\<rparr>)"
  have "gates_quiet (tools_of rt) ?s0"
    using assms(2) gates_pass_cong [of ?s0 s] by (simp add: gates_quiet_def state_defs)
  moreover have "drop (1 - 1) (map action (plan ?s0)) = map action (plan s)"
    by (simp add: state_defs)
  ultimately have "loop_ends (Suc (max_steps ?s0) - 1) ?s0 s'"
    using assms(1) unfolding execute_plan_def by (intro execute_steps_ends) simp_all
  then show ?thesis by (simp add: state_defs)
qed

lemma emit_fail_fields [simp]:
  "done_flag (emit_event n i (fail m s))" "status (emit_event n i (fail m s)) = agent_status.FAILED"
  "final_answer (emit_event n i (fail m s)) = Some m"
  "observations (emit_event n i (fail m s)) = observations s"
  by (simp_all add: state_defs)

text \<open>What a run that returned has to show: a final answer and a verdict that fits its observations.\<close>

definition good_verdict :: "'m agent_state \<Rightarrow> 'm agent_state \<Rightarrow> bool" where
  "good_verdict s s' \<longleftrightarrow>
     done_flag s' \<and> final_answer s' \<noteq> None \<and>
     status s' \<in> {agent_status.COMPLETED, agent_status.FAILED} \<and>
     (\<exists>obs. observations s' = observations s @ obs \<and> length obs \<le> max_steps s \<and>
        (\<forall>ob \<in> set obs. obs_trust ob = UNTRUSTED_EVIDENCE) \<and>
        (status s' = agent_status.COMPLETED \<longrightarrow> (\<forall>ob \<in> set obs. obs_success ob)))"

lemma loop_verdict:
  assumes "loop_ends (max_steps s) s s3" and "\<not> done_flag s"
  shows "good_verdict s (finalize_run rt s3)"
proof -
  from assms(1) obtain obs s1 where r: "advanced s obs s1" "length obs \<le> max_steps s"
    "s3 = s1 \<and> (\<forall>ob \<in> set obs. obs_success ob) \<or> (\<exists>n i m. s3 = emit_event n i (fail m s1))"
    unfolding loop_ends_def by blast
  have open1: "\<not> done_flag s1" "observations s1 = observations s @ obs"
    "\<forall>ob \<in> set obs. obs_trust ob = UNTRUSTED_EVIDENCE"
    using r(1) assms(2) by (auto simp: advanced_def same_run_def)
  from r(3) show ?thesis
  proof (elim disjE exE conjE)
    assume "s3 = s1" "\<forall>ob \<in> set obs. obs_success ob"
    with open1 r(2) show ?thesis
      by (simp add: good_verdict_def finalize_run_open finalize_run_done)
  next
    fix n i m assume "s3 = emit_event n i (fail m s1)"
    with open1 r(2) show ?thesis by (simp add: good_verdict_def)
  qed
qed

lemma run_good_verdict:
  assumes "run rt s = Inr s'" and "\<not> is_terminal s" and "gates_quiet (tools_of rt) s"
  shows "good_verdict s s'"
  using assms(1,2)
proof (cases rule: run_cases)
  case retrieve
  with retrieve_memory_open(2) [OF assms(2), of rt] show ?thesis
    by (simp add: good_verdict_def retrieve_memory_frame)
next
  case planning
  with plan_run_open(2) [OF planning(1), of rt] show ?thesis
    by (simp add: good_verdict_def plan_run_frame retrieve_memory_frame)
next
  case (executed s3)
  let ?s2 = "plan_run rt (retrieve_memory rt s)"
  let ?s0 = "emit_event ''running_started'' None (?s2\<lparr>status := agent_status.RUNNING\<rparr>)"
  have "gates_quiet (tools_of rt) ?s2"
    using assms(3) gates_quiet_cong [of ?s2 s] by (simp add: plan_run_frame retrieve_memory_frame)
  from execute_plan_ends [OF executed(3) this] have "loop_ends (max_steps ?s0) ?s0 s3"
    by (simp add: state_defs)
  then have "good_verdict ?s0 s'"
    unfolding executed(4) by (rule loop_verdict) (simp add: executed(2) state_defs)
  then show ?thesis
    by (simp add: good_verdict_def state_defs plan_run_frame retrieve_memory_frame)
qed

text \<open>A run returns whatever the memory client, the planner and the tools do.\<close>

lemma retrieve_memory_task [simp]: "task_id (retrieve_memory rt s) = task_id s"
  by (auto simp: retrieve_memory_def state_defs Let_def split: option.splits sum.splits prod.splits)

lemma plan_run_task [simp]: "task_id (plan_run rt s) = task_id s"
  by (auto simp: plan_run_def state_defs Let_def split: sum.splits)

lemma plan_run_plan:
  assumes "\<not> done_flag (plan_run rt s)"
  shows "\<exists>s1. make_plan rt s1 = Inr (plan (plan_run rt s))"
  using assms by (auto simp: plan_run_def state_defs Let_def split: sum.splits)

lemma run_total:
  assumes "\<not> blank (task_id s)" and "gates_quiet (tools_of rt) s"
    and steps: "\<And>s1 sts st. make_plan rt s1 = Inr sts \<Longrightarrow> st \<in> set sts \<Longrightarrow>
      \<not> blank (step_id st) \<and> (\<exists>t. action st = Tool t)"
  shows "\<exists>s'. run rt s = Inr s'"
proof (cases "is_terminal (plan_run rt (retrieve_memory rt s))")
  case True
  then show ?thesis by (simp add: run_def Let_def)
next
  case False
  let ?s2 = "plan_run rt (retrieve_memory rt s)"
  let ?s0 = "emit_event ''running_started'' None (?s2\<lparr>status := agent_status.RUNNING\<rparr>)"
  have "gates_quiet (tools_of rt) ?s0"
    using assms(2) gates_quiet_cong [of ?s0 s]
    by (simp add: plan_run_frame retrieve_memory_frame state_defs)
  moreover have "\<not> done_flag ?s2" using False by (simp add: is_terminal_def)
  then have "\<forall>st \<in> set (plan ?s2). \<not> blank (step_id st) \<and> (\<exists>t. action st = Tool t)"
    using plan_run_plan steps by meson
  ultimately have "\<exists>s'. execute_plan rt ?s2 = Inr s'"
    unfolding execute_plan_def using assms(1)
    by (intro execute_steps_total) (simp_all add: state_defs)
  with False show ?thesis by (auto simp: run_def Let_def)
qed

section \<open>Disclosure\<close>

lemma sublist_join: "x \<in> set xs \<Longrightarrow> sublist x (join sep xs)"
proof (induction sep xs rule: join.induct)
  case (3 sep y z zs)
  show ?case
  proof (cases "x = y")
    case False
    with 3 have "sublist x (join sep (z # zs))" by auto
    moreover have "sublist (join sep (z # zs)) ((y @ sep) @ join sep (z # zs))" by blast
    ultimately show ?thesis using sublist_order.order_trans by fastforce
  qed auto
qed auto

lemma append_disclosures_mentions:
  assumes "r \<in> set reasons" and "disclosure_text r = Some txt"
  shows "sublist txt (append_disclosures draft reasons)"
proof -
  have "txt \<in> set (List.map_filter disclosure_text reasons)"
    using assms by (force simp: List.map_filter_def)
  moreover define ls where "ls = List.map_filter disclosure_text reasons"
  ultimately have "sublist txt (join [CHR 0x0A] ls)" and ne: "ls \<noteq> []"
    using sublist_join by auto
  moreover have "sublist (join [CHR 0x0A] ls) ((draft @ [CHR 0x0A, CHR 0x0A]) @ join [CHR 0x0A] ls)"
    by blast
  ultimately show ?thesis
    using sublist_order.order_trans by (fastforce simp: append_disclosures_def Let_def ls_def)
qed

lemma apply_disclosure_reasons:
  "memory_degraded s \<Longrightarrow> task_touches_memory s \<Longrightarrow>
     ''memory_degraded'' \<in> set (disclosure_reasons (apply_disclosure s))"
  "memory_write_failed s \<Longrightarrow> user_expected_persistence s \<Longrightarrow>
     ''memory_write_failed'' \<in> set (disclosure_reasons (apply_disclosure s))"
  by (auto simp: apply_disclosure_def add_reason_def Let_def user_expected_persistence_def)

lemma run_completed_from:
  assumes "run rt s = Inr s'" and "\<not> is_terminal s" and "gates_quiet (tools_of rt) s"
    and "status s' = agent_status.COMPLETED"
  shows "\<exists>s3. \<not> done_flag s3 \<and> s' = finalize_run rt s3"
  using assms(1,2)
proof (cases rule: run_cases)
  case retrieve
  with retrieve_memory_open(2) [OF assms(2), of rt] assms(4) show ?thesis by simp
next
  case planning
  with plan_run_open(2) [OF planning(1), of rt] assms(4) show ?thesis by simp
next
  case (executed s3)
  show ?thesis
  proof (cases "done_flag s3")
    case True
    have q: "gates_quiet (tools_of rt) (plan_run rt (retrieve_memory rt s))"
      using assms(3) gates_quiet_cong [of "plan_run rt (retrieve_memory rt s)" s]
      by (simp add: plan_run_frame retrieve_memory_frame)
    have "status s3 = agent_status.COMPLETED" using True executed(4) assms(4) by simp
    with execute_plan_ends [OF executed(3) q] True executed(2) show ?thesis
      by (auto simp: loop_ends_def advanced_def same_run_def state_defs)
  qed (use executed(4) in blast)
qed

lemma run_discloses:
  assumes "run rt s = Inr s'" and "\<not> is_terminal s" and "gates_quiet (tools_of rt) s"
    and "status s' = agent_status.COMPLETED"
    and "memory_degraded s' \<and> task_touches_memory s' \<and> r = ''memory_degraded''
      \<or> memory_write_failed s' \<and> user_expected_persistence s' \<and> r = ''memory_write_failed''"
  shows "\<exists>a txt. final_answer s' = Some a \<and> disclosure_text r = Some txt \<and> sublist txt a"
proof -
  obtain s3 where s3: "\<not> done_flag s3" "s' = finalize_run rt s3"
    using run_completed_from [OF assms(1-4)] by blast
  then have "r \<in> set (disclosure_reasons (apply_disclosure s3))"
    using assms(5) apply_disclosure_reasons [of s3] finalize_run_open [OF s3(1), of rt]
    by (auto simp: task_touches_memory_def user_expected_persistence_def)
  moreover obtain l where "disclosure_text r = Some l"
    using assms(5) by (auto simp: disclosure_text_def)
  ultimately show ?thesis
    using s3 finalize_run_open(2) [OF s3(1), of rt] append_disclosures_mentions by blast
qed

section \<open>Refused tools are never called\<close>

definition all_refused :: "('m tool_spec \<Rightarrow> bool) \<Rightarrow> 'm registry \<Rightarrow> 'm agent_state \<Rightarrow> bool" where
  "all_refused P tools s \<longleftrightarrow>
     (\<forall>t tool. registry_get tools t = Some tool \<longrightarrow> P tool \<longrightarrow> \<not> gates_pass tool s)"

lemma all_refused_cong:
  "read_only s' = read_only s \<Longrightarrow> approved_tools s' = approved_tools s \<Longrightarrow>
     all_refused P tools s' = all_refused P tools s"
  using gates_pass_cong [of s' s] by (simp add: all_refused_def)

lemma advanced_gates:
  assumes "advanced s obs s'"
  shows "all_refused P tools s' = all_refused P tools s" "gates_quiet tools s' = gates_quiet tools s"
  using assms all_refused_cong [of s' s] gates_quiet_cong [of s' s]
  by (simp_all add: advanced_def same_run_def)

lemma execute_steps_refused:
  assumes "all_refused P tools s" and "gates_quiet tools s"
    and "0 < i" and "drop (i - 1) (map action (plan s)) = map action sts"
  shows "execute_steps h (replace_fns P f tools) i sts s = execute_steps h tools i sts s"
  using assms
proof (induction sts arbitrary: i s)
  case (Cons st sts)
  have at: "map action (plan s) ! (i - 1) = action st"
    using Cons.prems(4) by (metis list.simps(9) nth_via_drop)
  have same: "execute h (replace_fns P f tools) st (begin_step i t st s)
      = execute h tools st (begin_step i t st s)" for t
    using Cons.prems(1) all_refused_cong [of "begin_step i t st s" s P tools]
    by (intro execute_refused) (auto simp: all_refused_def begin_step_def state_defs)
  have rest: "execute_steps h (replace_fns P f tools) (Suc i) sts (step_succeeded h i r (put_step i st' s1))
      = execute_steps h tools (Suc i) sts (step_succeeded h i r (put_step i st' s1))"
    if e: "execute h tools st (begin_step i t st s) = Inr (r, st', s1)" for t r st' s1
  proof -
    obtain ob where "advanced s [ob] (put_step i st' s1)"
      using step_advanced [OF e Cons.prems(2) at] by blast
    then have adv: "advanced s [ob] (step_succeeded h i r (put_step i st' s1))"
      using advanced_trans same_run_advanced [OF step_succeeded_same_run] by fastforce
    have "drop (Suc i - 1) (map action (plan (step_succeeded h i r (put_step i st' s1)))) = map action sts"
      using Cons.prems(3,4) adv
      by (metis Suc_pred' advanced_def diff_Suc_1 drop_Suc list.sel(3) list.simps(9) tl_drop)
    with Cons.IH adv show ?thesis using advanced_gates [OF adv] Cons.prems(1,2) by simp
  qed
  then show ?case by (simp add: same split: action.split sum.split) (auto simp: Let_def)
qed simp

lemma find_tool_replace_fns:
  "map_option (\<lambda>sp. (required_args sp, allowed_args sp)) (find_tool (replace_fns P f tools) a) =
     map_option (\<lambda>sp. (required_args sp, allowed_args sp)) (find_tool tools a)"
  by (induction tools) (auto simp: find_tool_def replace_fns_def split: if_splits)

lemma validate_steps_replace_fns:
  "validate_steps (replace_fns P f tools) seen i sts = validate_steps tools seen i sts"
proof (induction sts arbitrary: seen i)
  case (Cons st sts)
  then show ?case
    using find_tool_replace_fns [of P f tools "action st"]
    by (cases "find_tool tools (action st)"; cases "find_tool (replace_fns P f tools) (action st)")
       (simp_all add: Let_def)
qed simp

lemma plan_run_replace_fns:
  "plan_run (rt\<lparr>tools_of := replace_fns P f (tools_of rt)\<rparr>) s = plan_run rt s"
  by (simp add: plan_run_def validate_plan_def validate_steps_replace_fns Let_def split: sum.split)

lemma run_refused:
  assumes "\<not> is_terminal s" and "all_refused P (tools_of rt) s" and "gates_quiet (tools_of rt) s"
  shows "run (rt\<lparr>tools_of := replace_fns P f (tools_of rt)\<rparr>) s = run rt s"
proof -
  let ?s2 = "plan_run rt (retrieve_memory rt s)"
  have "execute_plan (rt\<lparr>tools_of := replace_fns P f (tools_of rt)\<rparr>) ?s2 = execute_plan rt ?s2"
    unfolding execute_plan_def using assms(2,3)
      all_refused_cong [of "emit_event ''running_started'' None (?s2\<lparr>status := agent_status.RUNNING\<rparr>)" s]
      gates_quiet_cong [of "emit_event ''running_started'' None (?s2\<lparr>status := agent_status.RUNNING\<rparr>)" s]
    by (simp, intro execute_steps_refused)
       (simp_all add: state_defs plan_run_frame retrieve_memory_frame)
  moreover have "retrieve_memory (rt\<lparr>tools_of := replace_fns P f (tools_of rt)\<rparr>) s = retrieve_memory rt s"
    by (simp add: retrieve_memory_def)
  moreover have "finalize_run (rt\<lparr>tools_of := replace_fns P f (tools_of rt)\<rparr>) = finalize_run rt"
    by (simp add: fun_eq_iff finalize_run_def write_memory_def collect_candidates_def Let_def
        split: option.split)
  ultimately show ?thesis
    by (simp add: run_def plan_run_replace_fns Let_def split: sum.split)
qed

lemma read_only_refuses: "read_only s \<Longrightarrow> all_refused mutates_state tools s"
  by (simp add: all_refused_def gates_pass_def)

section \<open>The confirmed save\<close>

lemma run_confirmed_save_once:
  "run_confirmed_save rt s = Inr s' \<Longrightarrow> run_confirmed_save rt s' = Inr s'"
proof -
  assume r: "run_confirmed_save rt s = Inr s'"
  have "done_flag s' \<or> status s' \<noteq> CREATED"
    using r by (auto simp: run_confirmed_save_def save_write_def save_failed_def fail_def complete_def
        Let_def split: if_splits option.splits sum.splits prod.splits required_write_outcome.splits)
  then show ?thesis by (simp add: run_confirmed_save_def)
qed

text \<open>When a save ends as completed, and when it may write at all.\<close>

lemma run_confirmed_save_completed:
  assumes "run_confirmed_save rt s = Inr s'" and "\<not> done_flag s" and "status s = CREATED"
    and "status s' = agent_status.COMPLETED"
  shows "\<exists>op mc c resp w. confirmed_save_operation s = Some op \<and> client_of rt = Some mc \<and>
     supports_required_write mc \<and> operation_ok op s \<and> to_candidate op s = Inr c \<and>
     write_memory_candidates mc (save_request op c s) (memory s) = (Inr resp, w) \<and>
     (written_ids resp = [] \<and> skipped resp = [confirmation_id (decision op)] \<or>
      (\<exists>m. written_ids resp = [m] \<and> skipped resp = [] \<and> \<not> blank m))"
proof -
  from assms obtain op mc c where g: "confirmed_save_operation s = Some op" "client_of rt = Some mc"
    "supports_required_write mc" "to_candidate op s = Inr c" "s' = save_write mc op c s"
    by (auto simp: run_confirmed_save_def save_failed_def fail_def add_error_def
        split: option.splits if_splits sum.splits)
  obtain resp w where w: "write_memory_candidates mc (save_request op c s) (memory s) = (resp, w)"
    by fastforce
  with g(5) assms(4) obtain r out where "resp = Inr r"
    "validate_required_write_response r (confirmation_id (decision op)) = Inr out"
    by (auto simp: save_write_def save_failed_def fail_def add_error_def Let_def result_simps
        split: sum.splits)
  with g w show ?thesis
    by (auto simp: validate_required_write_response_iff to_candidate_iff)
qed

lemma run_confirmed_save_untouched:
  assumes "run_confirmed_save rt s = Inr s'"
    and "client_of rt = None \<or> (\<exists>mc. client_of rt = Some mc \<and> \<not> supports_required_write mc)
      \<or> confirmed_save_operation s = None \<or> (\<exists>op. confirmed_save_operation s = Some op \<and> \<not> operation_ok op s)"
  shows "memory s' = memory s"
proof -
  have nc: "to_candidate op s \<noteq> Inr c" if "\<not> operation_ok op s" for op c
    using that by (simp add: to_candidate_iff)
  show ?thesis
    using assms
    by (auto simp: run_confirmed_save_def save_failed_def fail_def add_error_def nc
        split: if_splits option.splits sum.splits)
qed

section \<open>The recall\<close>

lemma recall_loop_cases:
  obtains (again) w where "int (Suc a) < m"
      "recall_loop h mc m a s = recall_loop h mc m (Suc a) (s\<lparr>memory := w\<rparr>)"
  | (stop) s1 where "recall_loop h mc m a s = (Suc a, s1)" "is_terminal s1" "final_answer s1 \<noteq> None"
proof (cases "retrieve_context_pack mc (retrieve_request_of s) (memory s)")
  case (Pair res w)
  show thesis
  proof (cases res)
    case (Inl e)
    with Pair show thesis by (intro stop) (subst recall_loop.simps, auto simp: fail_def is_terminal_def)
  next
    case (Inr p)
    show thesis
    proof (cases "\<not> degraded p \<and> items p = [] \<and> int (Suc a) < m")
      case True
      with Pair Inr show thesis by (intro again [of w]) (simp, subst recall_loop.simps, simp)
    next
      case False
      with Pair Inr have "fst (recall_loop h mc m a s) = Suc a \<and>
          is_terminal (snd (recall_loop h mc m a s)) \<and>
          final_answer (snd (recall_loop h mc m a s)) \<noteq> None"
        by (subst (1 2 3) recall_loop.simps)
           (auto simp: Let_def fail_def complete_def is_terminal_def)
      then show thesis by (intro stop [of "snd (recall_loop h mc m a s)"]) (simp_all add: prod_eq_iff)
    qed
  qed
qed

lemma recall_loop_spec:
  "is_terminal (snd (recall_loop h mc m a s)) \<and> final_answer (snd (recall_loop h mc m a s)) \<noteq> None
   \<and> a < fst (recall_loop h mc m a s) \<and> int (fst (recall_loop h mc m a s)) \<le> max (int a + 1) m"
proof (induction "nat (m - int a)" arbitrary: a s rule: less_induct)
  case less
  show ?case
  proof (cases rule: recall_loop_cases [of a m h mc s])
    case (again w)
    with less [of "Suc a" "s\<lparr>memory := w\<rparr>"] show ?thesis by auto
  next
    case (stop s1)
    then show ?thesis by simp
  qed
qed

end
