(* ===== verification/Builtin_Tools.thy ===== *)
theory Builtin_Tools
  imports Runtime_Agent
begin

text \<open>
  The built-in tools over the in-memory store (\<open>tools/builtin_tools.py\<close>), the memory agent
  they call (\<open>memory/memory_agent.py\<close>), their argument schemas (\<open>tools/input_schemas.py\<close>) and
  the static table of specifications (\<open>tools/registry.py\<close>).  What the tools take from outside
  is the record \<open>tool_env\<close>: the clock, a fresh record identifier, the arithmetic evaluator
  behind \<open>calculate\<close>, the web search client, pydantic's validation of a schema, and the two
  tools that only print search results (with formatted time stamps and floats).
\<close>

section \<open>The environment of the tools\<close>

record tool_env =
  te_host :: host
  te_now :: int
  te_fresh :: "store \<Rightarrow> string"
  te_eval :: "string \<Rightarrow> exn + pyfloat"
  te_search :: "string \<Rightarrow> int \<Rightarrow> exn + source list"
  te_provider :: string
  te_search_memory :: "store agent_state \<Rightarrow> kwargs \<Rightarrow> tool_result"
  te_summarize_memory :: "store agent_state \<Rightarrow> kwargs \<Rightarrow> tool_result"
  te_validate :: "tool_name \<Rightarrow> kwargs \<Rightarrow> (string \<times> pyval) + kwargs"

type_synonym tool_fn = "store agent_state \<Rightarrow> kwargs \<Rightarrow> store fn_outcome"

definition success_result :: "pyval \<Rightarrow> tool_name \<Rightarrow> tool_result_kind \<Rightarrow> kwargs \<Rightarrow> tool_result" where
  "success_result out t k md =
     \<lparr>success = True, res_output = out, error = None, res_tool_name = Some (tool_name_value t),
      kind = k, res_sources = [], metadata = md\<rparr>"

definition failure_result :: "string \<Rightarrow> tool_name \<Rightarrow> tool_result_kind \<Rightarrow> kwargs \<Rightarrow> tool_result" where
  "failure_result e t k md =
     \<lparr>success = False, res_output = VNone, error = Some e, res_tool_name = Some (tool_name_value t),
      kind = k, res_sources = [], metadata = md\<rparr>"

text \<open>
  A call binds keyword arguments to parameters; a parameter without a value and without a
  default is a \<open>TypeError\<close> in front of the body.
\<close>

definition with_arg :: "kwargs \<Rightarrow> string \<Rightarrow> store agent_state \<Rightarrow> (pyval \<Rightarrow> store fn_outcome) \<Rightarrow> store fn_outcome" where
  "with_arg kw k s f =
     (case map_of kw k of
        None \<Rightarrow> Raised (Exn ''TypeError'' (''missing required argument: '' @ k)) s
      | Some v \<Rightarrow> f v)"

text \<open>A parameter that the body uses as a string.\<close>

definition with_text :: "kwargs \<Rightarrow> string \<Rightarrow> store agent_state \<Rightarrow> (string \<Rightarrow> store fn_outcome) \<Rightarrow> store fn_outcome" where
  "with_text kw k s f =
     with_arg kw k s (\<lambda>v. case v of VStr t \<Rightarrow> f t
        | _ \<Rightarrow> Raised (Exn ''AttributeError'' (''not a string: '' @ k)) s)"

section \<open>Finishing and answering\<close>

definition tool_finish :: "tool_env \<Rightarrow> tool_fn" where
  "tool_finish env s kw =
     with_arg kw ''answer'' s (\<lambda>v.
       let answer = strip (stringify_output (te_host env) v)
       in Returned (if answer = []
            then failure_result ''empty final answer'' FINISH EMPTY
                   [(''reason'', VStr ''empty_answer'')]
            else success_result (VObj ''FinishOutput'' [(''answer'', VStr answer)]) FINISH TEXT
                   [(''answer_length'', VInt (int (py_len answer))), (''terminal'', VBool True)]) s)"

definition project_context_items :: "store agent_state \<Rightarrow> context_item list" where
  "project_context_items s =
     (case context_pack_of s of
        None \<Rightarrow> []
      | Some p \<Rightarrow> filter (\<lambda>i. ci_type i \<in> {DECISION, PROJECT_CONTEXT}) (items p))"

definition context_output :: "string \<Rightarrow> int \<Rightarrow> pyval" where
  "context_output answer n =
     VObj ''AnswerFromContextOutput'' [(''answer'', VStr answer), (''used_item_count'', VInt n)]"

definition tool_answer_from_context :: "tool_env \<Rightarrow> tool_fn" where
  "tool_answer_from_context env s kw =
     with_arg kw ''query'' s (\<lambda>_.
       case project_context_items s of
         [] \<Rightarrow> Returned (success_result
           (context_output
             (''T'' @ [CHR 0xC3, CHR 0xB4] @ ''i kh'' @ [CHR 0xC3, CHR 0xB4] @ ''ng c''
           @ [CHR 0xC3, CHR 0xB3] @ '' '' @ [CHR 0xC4, CHR 0x91, CHR 0xE1, CHR 0xBB, CHR 0xA7]
           @ '' project context '' @ [CHR 0xC4, CHR 0x91, CHR 0xE1, CHR 0xBB, CHR 0x83]
           @ '' tr'' @ [CHR 0xE1, CHR 0xBA, CHR 0xA3] @ '' l'' @ [CHR 0xE1, CHR 0xBB, CHR 0x9D]
           @ ''i c'' @ [CHR 0xC3, CHR 0xA2] @ ''u h'' @ [CHR 0xE1, CHR 0xBB, CHR 0x8F]
           @ ''i n'' @ [CHR 0xC3, CHR 0xA0] @ ''y.'')
             0) ANSWER_FROM_CONTEXT TEXT
           [(''reason'', VStr ''no_context''), (''matched'', VInt 0)]) s
       | [i] \<Rightarrow> Returned (success_result
           (context_output
             ((''Theo project context '' @ [CHR 0xC4, CHR 0x91, CHR 0xC3, CHR 0xA3] @ '' l''
           @ [CHR 0xC6, CHR 0xB0] @ ''u: '')
              @ ci_content i) 1) ANSWER_FROM_CONTEXT TEXT
           [(''reason'', VStr ''used_context''), (''matched'', VInt 1),
            (''memory_id'', meta_get (ci_metadata i) ''memory_id'')]) (s\<lparr>context_consumed := True\<rparr>)
       | _ \<Rightarrow> Returned (success_result
           (context_output
             (''Project context ch'' @ [CHR 0xC6, CHR 0xB0] @ ''a ''
           @ [CHR 0xC4, CHR 0x91, CHR 0xE1, CHR 0xBB, CHR 0xA7] @ '' r'' @ [CHR 0xC3, CHR 0xB5]
           @ '' (c'' @ [CHR 0xC3, CHR 0xB3] @ '' nhi'' @ [CHR 0xE1, CHR 0xBB, CHR 0x81]
           @ ''u m'' @ [CHR 0xE1, CHR 0xBB, CHR 0xA5] @ ''c li'' @ [CHR 0xC3, CHR 0xAA]
           @ ''n quan).'')
             0) ANSWER_FROM_CONTEXT TEXT
           [(''reason'', VStr ''ambiguous_context''),
            (''matched'', VInt (int (length (project_context_items s))))]) s)"

section \<open>Calculating, searching and summarising\<close>

definition tool_calculate :: "tool_env \<Rightarrow> tool_fn" where
  "tool_calculate env s kw =
     with_text kw ''expression'' s (\<lambda>e. Returned
       (case te_eval env e of
          Inr v \<Rightarrow> success_result
            (VObj ''CalculateOutput'' [(''expression'', VStr e), (''value'', VFloat v)])
            CALCULATE NUMBER [(''expression'', VStr e)]
        | Inl x \<Rightarrow> failure_result (''calculate failed: '' @ exn_msg x) CALCULATE NUMBER
            [(''expression'', VStr e), (''error_type'', VStr (exn_type x))]) s)"

definition replace_char :: "char \<Rightarrow> char \<Rightarrow> string \<Rightarrow> string" where
  "replace_char a b s = map (\<lambda>c. if c = a then b else c) s"

text \<open>
  \<open>normalized_text[:120]\<close> is only reached with no sentence at all, that is for a text of
  full stops; those are single bytes.
\<close>

definition tool_summarize :: "tool_env \<Rightarrow> tool_fn" where
  "tool_summarize env s kw =
     with_text kw ''text'' s (\<lambda>t.
       let norm = join '' '' (split_words (strip t));
           sentences = filter (\<lambda>x. x \<noteq> []) (map strip (split_on (CHR ''.'')
             (replace_char (CHR ''?'') (CHR ''.'') (replace_char (CHR ''!'') (CHR ''.'') norm))));
           summary = (if sentences = [] then take 120 norm else join ''. '' (take 2 sentences))
       in Returned (if norm = []
            then failure_result ''empty text'' SUMMARIZE TEXT
                   [(''reason'', VStr ''empty_text''), (''original_length'', VInt (int (py_len t)))]
            else success_result
                   (VObj ''SummarizeOutput''
                      [(''summary'', VStr summary), (''original_length'', VInt (int (py_len norm))),
                       (''summary_length'', VInt (int (py_len summary))),
                       (''sentence_count'', VInt (int (length sentences)))]) SUMMARIZE TEXT
                   [(''strategy'', VStr ''first_2_sentences''), (''max_sentences'', VInt 2)]) s)"

definition source_or_title :: "source \<Rightarrow> string" where
  "source_or_title src = (case src_url src of Some (c # cs) \<Rightarrow> c # cs | _ \<Rightarrow> src_title src)"

definition tool_web_search :: "tool_env \<Rightarrow> tool_fn" where
  "tool_web_search env s kw =
     with_text kw ''query'' s (\<lambda>q0.
       let q = strip q0;
           n = (case map_of kw ''max_results'' of Some (VInt i) \<Rightarrow> i | _ \<Rightarrow> 3)
       in Returned (if q = []
            then failure_result ''web_search failed: empty query'' WEB_SEARCH SEARCH
                   [(''reason'', VStr ''empty_query'')]
            else case te_search env q n of
              Inl x \<Rightarrow> failure_result (''web_search failed: '' @ exn_msg x) WEB_SEARCH SEARCH
                [(''query'', VStr q), (''max_results'', VInt n),
                 (''provider'', VStr (te_provider env)), (''error_type'', VStr (exn_type x))]
            | Inr srcs \<Rightarrow>
               (let snippets = map (\<lambda>x. case src_snippet x of None \<Rightarrow> [] | Some t \<Rightarrow> t) srcs
                in (success_result
                      (VObj ''WebSearchOutput''
                         [(''answer'', VStr (join [CHR 0x0A] (take 3 snippets))),
                          (''snippets'', VList (map VStr snippets)),
                          (''sources'', VList (map (VStr \<circ> source_or_title) srcs))])
                      WEB_SEARCH SEARCH
                      [(''query'', VStr q), (''max_results'', VInt n),
                       (''provider'', VStr (te_provider env))])\<lparr>res_sources := srcs\<rparr>)) s)"

definition fake_web_search :: "string \<Rightarrow> int \<Rightarrow> source list" where
  "fake_web_search q0 n =
     (let q = strip q0
      in slice_to n
        [\<lparr>src_title = ''Fake result for '' @ q, src_url = Some ''https://example.com'',
          src_snippet = Some (''Fake snippet about '' @ q), src_type = ''web'',
          src_metadata = [(''provider'', VStr ''fake'')]\<rparr>])"

section \<open>Notes and memories\<close>

text \<open>\<open>MemoryAgent\<close>: every write makes a new record; the store indexes it by name.\<close>

definition agent_record ::
  "tool_env \<Rightarrow> store agent_state \<Rightarrow> string \<Rightarrow> memory_type \<Rightarrow> string list \<Rightarrow> rat \<Rightarrow> kwargs
     \<Rightarrow> memory_record" where
  "agent_record env s txt ty tags imp md =
     \<lparr>mr_content = txt, mr_type = ty, mr_id = te_fresh env (memory s), mr_user_id = user_id s,
      mr_session_id = session_id s, mr_task_id = Some (task_id s), mr_run_id = None,
      mr_source_event_id = None, mr_tags = tags,
      importance = imp, mr_confidence = 1, mr_source = USER, created_at = te_now env,
      updated_at = te_now env, deleted_at = None, mr_metadata = md\<rparr>"

definition agent_write_note ::
  "tool_env \<Rightarrow> store agent_state \<Rightarrow> string \<Rightarrow> string \<Rightarrow> exn + memory_record \<times> store" where
  "agent_write_note env s nm txt =
     (if blank nm then Inl (ValueError ''note name cannot be empty'')
      else Inr (store_write (te_host env) (te_now env)
             (agent_record env s txt NOTE [] (1 / 2) [(''name'', VStr (strip nm))]) (memory s)))"

definition agent_save_memory ::
  "tool_env \<Rightarrow> store agent_state \<Rightarrow> string \<Rightarrow> memory_type \<Rightarrow> string list \<Rightarrow> rat
     \<Rightarrow> exn + memory_record \<times> store" where
  "agent_save_memory env s txt ty tags imp =
     (if blank txt then Inl (ValueError ''memory content cannot be empty'')
      else Inr (store_write (te_host env) (te_now env)
             (agent_record env s txt ty tags imp []) (memory s)))"

definition tool_write_note :: "tool_env \<Rightarrow> tool_fn" where
  "tool_write_note env s kw =
     with_text kw ''name'' s (\<lambda>nm. with_arg kw ''content'' s (\<lambda>v.
       let txt = stringify_output (te_host env) v;
           len = (''content_length'', VInt (int (py_len txt)))
       in case agent_write_note env s nm txt of
            Inr (r, m) \<Rightarrow> Returned (success_result
              (VObj ''WriteNoteOutput''
                [(''name'', VStr nm), (''saved'', VBool True),
                 (''message'', VStr (''saved note '' @ [CHR 0x27] @ nm @ [CHR 0x27])),
                 (''memory_id'', VStr (mr_id r))]) WRITE_NOTE ACTION
              [(''memory_id'', VStr (mr_id r)), (''note_name'', VStr nm), len,
               (''mutates_state'', VBool True)]) (s\<lparr>memory := m\<rparr>)
          | Inl x \<Rightarrow> Returned (failure_result (''write_note failed: '' @ exn_msg x)
              WRITE_NOTE ACTION
              [(''note_name'', VStr nm), len, (''mutates_state'', VBool True),
               (''error_type'', VStr (exn_type x))]) s))"

definition tool_read_note :: "tool_env \<Rightarrow> tool_fn" where
  "tool_read_note env s kw =
     with_text kw ''name'' s (\<lambda>nm. Returned
       (case read_note (memory s) nm of
          None \<Rightarrow> failure_result (''note '' @ [CHR 0x27] @ nm @ [CHR 0x27] @ '' not found'')
            READ_NOTE TEXT [(''note_name'', VStr nm), (''reason'', VStr ''not_found'')]
        | Some t \<Rightarrow> success_result
            (VObj ''ReadNoteOutput'' [(''name'', VStr nm), (''content'', VStr t)]) READ_NOTE TEXT
            [(''note_name'', VStr nm), (''content_length'', VInt (int (py_len t)))]) s)"

definition tool_list_notes :: "tool_env \<Rightarrow> tool_fn" where
  "tool_list_notes env s kw =
     (let names = list_notes (memory s)
      in Returned (success_result (VObj ''ListNotesOutput'' [(''names'', VList (map VStr names))])
           LIST_NOTES JSON [(''count'', VInt (int (length names)))]) s)"

fun str_list :: "pyval \<Rightarrow> string list" where
  "str_list (VList vs) = concat (map (\<lambda>v. case v of VStr t \<Rightarrow> [t] | _ \<Rightarrow> []) vs)"
| "str_list v = []"

text \<open>The importance that \<open>save_fact\<close>, \<open>save_preference\<close> and \<open>save_decision\<close> give a record.\<close>

fun default_importance :: "memory_type \<Rightarrow> rat" where
  "default_importance PREFERENCE = 7 / 10"
| "default_importance DECISION = 4 / 5"
| "default_importance t = 1 / 2"

fun memory_tool :: "memory_type \<Rightarrow> tool_name" where
  "memory_tool PREFERENCE = SAVE_PREFERENCE"
| "memory_tool DECISION = SAVE_DECISION"
| "memory_tool t = SAVE_FACT"

definition float_text :: "rat \<Rightarrow> pyval" where
  "float_text r = VFloat (PyFinite
     (if r = 7 / 10 then ''0.7'' else if r = 4 / 5 then ''0.8'' else if r = 1 then ''1.0'' else ''0.5''))"

text \<open>\<open>_save_memory\<close> for the three types that have a tool.\<close>

definition tool_save :: "tool_env \<Rightarrow> memory_type \<Rightarrow> tool_fn" where
  "tool_save env ty s kw =
     with_text kw ''content'' s (\<lambda>txt.
       let tags = (case map_of kw ''tags'' of None \<Rightarrow> [] | Some v \<Rightarrow> str_list v);
           t = memory_tool ty
       in case agent_save_memory env s txt ty tags (default_importance ty) of
            Inr (r, m) \<Rightarrow> Returned (success_result
              (VObj ''MemoryWriteOutput''
                [(''id'', VStr (mr_id r)), (''type'', VStr (memory_type_value (mr_type r))),
                 (''content'', VStr (mr_content r)), (''tags'', VList (map VStr (mr_tags r))),
                 (''importance'', float_text (importance r)),
                 (''confidence'', float_text (mr_confidence r))]) t ACTION
              [(''memory_id'', VStr (mr_id r)),
               (''memory_type'', VStr (memory_type_value (mr_type r))),
               (''tags'', VList (map VStr (mr_tags r))),
               (''importance'', float_text (importance r)),
               (''confidence'', float_text (mr_confidence r)), (''mutates_state'', VBool True)])
              (s\<lparr>memory := m\<rparr>)
          | Inl x \<Rightarrow> Returned (failure_result (tool_name_value t @ '' failed: '' @ exn_msg x) t ACTION
              [(''memory_type'', VStr (memory_type_value ty)), (''tags'', VList (map VStr tags)),
               (''mutates_state'', VBool True), (''error_type'', VStr (exn_type x))]) s)"

section \<open>The table of specifications\<close>

fun tool_impl :: "tool_env \<Rightarrow> tool_name \<Rightarrow> tool_fn" where
  "tool_impl env CALCULATE = tool_calculate env"
| "tool_impl env WRITE_NOTE = tool_write_note env"
| "tool_impl env READ_NOTE = tool_read_note env"
| "tool_impl env LIST_NOTES = tool_list_notes env"
| "tool_impl env SAVE_FACT = tool_save env FACT"
| "tool_impl env SAVE_PREFERENCE = tool_save env PREFERENCE"
| "tool_impl env SAVE_DECISION = tool_save env DECISION"
| "tool_impl env SEARCH_MEMORY = (\<lambda>s kw. Returned (te_search_memory env s kw) s)"
| "tool_impl env SUMMARIZE_MEMORY = (\<lambda>s kw. Returned (te_summarize_memory env s kw) s)"
| "tool_impl env SUMMARIZE = tool_summarize env"
| "tool_impl env WEB_SEARCH = tool_web_search env"
| "tool_impl env FINISH = tool_finish env"
| "tool_impl env ANSWER_FROM_CONTEXT = tool_answer_from_context env"

text \<open>The fields of the argument models, and those without a default.\<close>

fun schema_table :: "tool_name \<Rightarrow> string list \<times> string list" where
  "schema_table CALCULATE = ([''expression''], [''expression''])"
| "schema_table WRITE_NOTE = ([''name'', ''content''], [''name'', ''content''])"
| "schema_table READ_NOTE = ([''name''], [''name''])"
| "schema_table LIST_NOTES = ([], [])"
| "schema_table SAVE_FACT = ([''content'', ''tags''], [''content''])"
| "schema_table SAVE_PREFERENCE = ([''content'', ''tags''], [''content''])"
| "schema_table SAVE_DECISION = ([''content'', ''tags''], [''content''])"
| "schema_table SEARCH_MEMORY = ([''query'', ''limit''], [''query''])"
| "schema_table SUMMARIZE_MEMORY = ([''query'', ''limit''], [])"
| "schema_table SUMMARIZE = ([''text''], [''text''])"
| "schema_table WEB_SEARCH = ([''query'', ''max_results''], [''query''])"
| "schema_table FINISH = ([''answer''], [''answer''])"
| "schema_table ANSWER_FROM_CONTEXT = ([''query''], [''query''])"

definition builtin_schema :: "tool_env \<Rightarrow> tool_name \<Rightarrow> args_schema" where
  "builtin_schema env t =
     \<lparr>schema_fields = fst (schema_table t), schema_required = snd (schema_table t),
      schema_extra = Some ''forbid'', schema_strict = True, model_validate = te_validate env t\<rparr>"

definition default_retry :: retry_policy where
  "default_retry = \<lparr>max_attempts = 1, backoff_zero = True, backoff_negative = False\<rparr>"

definition spec_of ::
  "tool_env \<Rightarrow> tool_name \<Rightarrow> string \<Rightarrow> string set \<Rightarrow> string set \<Rightarrow> string list \<Rightarrow> bool
     \<Rightarrow> store tool_spec" where
  "spec_of env t descr req opts effects idem =
     \<lparr>name = t, fn = tool_impl env t, description = descr, required_args = req,
      allowed_args = opts, mutates_state = (effects \<noteq> []), risk = LOW, side_effects = effects,
      requires_approval = False, timeout_set = False, retry = default_retry, idempotent = idem,
      schema = Some (builtin_schema env t)\<rparr>"

definition builtin_tool_specs :: "tool_env \<Rightarrow> store tool_spec list" where
  "builtin_tool_specs env =
     [spec_of env CALCULATE ''Evaluate a basic arithmetic expression.''
        {''expression''} {''expression''} [] True,
      spec_of env WRITE_NOTE ''Write content into agent memory notes.''
        {''name'', ''content''} {''name'', ''content''} [''memory_write''] True,
      spec_of env READ_NOTE ''Read a note from agent memory.'' {''name''} {''name''} [] True,
      spec_of env LIST_NOTES ''List note names.'' {} {} [] True,
      spec_of env SAVE_FACT ''Save a durable fact into memory.''
        {''content''} {''content'', ''tags''} [''memory_write''] False,
      spec_of env SAVE_PREFERENCE ''Save a durable user preference into memory.''
        {''content''} {''content'', ''tags''} [''memory_write''] False,
      spec_of env SAVE_DECISION ''Save a durable decision into memory.''
        {''content''} {''content'', ''tags''} [''memory_write''] False,
      spec_of env SEARCH_MEMORY ''Search durable memory records.''
        {''query''} {''query'', ''limit''} [] True,
      spec_of env SUMMARIZE_MEMORY ''Summarize durable memory records.''
        {} {''query'', ''limit''} [] True,
      spec_of env SUMMARIZE ''Summarize text using a simple rule-based strategy.''
        {''text''} {''text''} [] True,
      spec_of env WEB_SEARCH ''Search the web and return summarized snippets with sources.''
        {''query''} {''query'', ''max_results''} [] True,
      spec_of env FINISH ''Finish the task and return the final answer.''
        {''answer''} {''answer''} [] True,
      spec_of env ANSWER_FROM_CONTEXT
        ''Answer a project-context question by reading the ContextPack (read-only, does not touch store).''
        {''query''} {''query''} [] True]"

section \<open>Lemmas\<close>

text \<open>Every built-in tool leaves the bookkeeping of the run alone.\<close>

lemma with_arg_state:
  "(\<And>v. same_run s (outcome_state (f v))) \<Longrightarrow> same_run s (outcome_state (with_arg kw k s f))"
  by (simp add: with_arg_def split: option.split)

lemma with_text_state:
  "(\<And>t. same_run s (outcome_state (f t))) \<Longrightarrow> same_run s (outcome_state (with_text kw k s f))"
  unfolding with_text_def by (rule with_arg_state) (simp split: pyval.split)

lemma same_run_memory [simp]: "same_run s (s\<lparr>memory := m\<rparr>)" "same_run s (s\<lparr>context_consumed := b\<rparr>)"
  by (simp_all add: same_run_def)

lemmas tool_fn_defs =
  tool_finish_def tool_answer_from_context_def tool_calculate_def tool_summarize_def
  tool_web_search_def tool_write_note_def tool_read_note_def tool_list_notes_def tool_save_def

lemma tool_fns_same_run:
  "same_run s (outcome_state (tool_finish env s kw))"
  "same_run s (outcome_state (tool_answer_from_context env s kw))"
  "same_run s (outcome_state (tool_calculate env s kw))"
  "same_run s (outcome_state (tool_summarize env s kw))"
  "same_run s (outcome_state (tool_web_search env s kw))"
  "same_run s (outcome_state (tool_write_note env s kw))"
  "same_run s (outcome_state (tool_read_note env s kw))"
  "same_run s (outcome_state (tool_list_notes env s kw))"
  "same_run s (outcome_state (tool_save env ty s kw))"
  unfolding tool_fn_defs Let_def
  by ((intro with_arg_state with_text_state)?; simp split: list.split sum.split prod.split)+

lemma tool_impl_same_run: "same_run s (outcome_state (tool_impl env t s kw))"
  by (cases t) (simp_all add: tool_fns_same_run)

lemma builtin_quiet: "sp \<in> set (builtin_tool_specs env) \<Longrightarrow> quiet sp"
  by (auto simp: builtin_tool_specs_def spec_of_def quiet_def tool_impl_same_run
      simp del: tool_impl.simps)

lemma builtin_names: "map name (builtin_tool_specs env) = all_tool_names"
  by (simp add: builtin_tool_specs_def spec_of_def all_tool_names_def)

lemma distinct_all_tool_names: "distinct all_tool_names"
  by (simp add: all_tool_names_def)

lemma all_tool_names_UNIV: "t \<in> set all_tool_names"
  by (cases t) (simp_all add: all_tool_names_def)

lemma build_builtin_registry:
  "build_tool_registry (builtin_tool_specs env) dis =
     Inr (map (\<lambda>sp. (name sp, sp)) (filter (\<lambda>sp. name sp \<notin> dis) (builtin_tool_specs env)))"
proof -
  let ?sps = "filter (\<lambda>sp. name sp \<notin> dis) (builtin_tool_specs env)"
  have "name ` set (builtin_tool_specs env) = set all_tool_names"
    by (metis builtin_names list.set_map)
  then have "name ` set ?sps = set all_tool_names - dis" by auto
  moreover have "distinct (map name ?sps)"
    using builtin_names [of env] distinct_all_tool_names by (metis distinct_map_filter)
  ultimately show ?thesis
    by (simp add: build_tool_registry_def Let_def from_specs_iff)
qed

lemma registry_get_builtin:
  assumes "build_tool_registry (builtin_tool_specs env) dis = Inr reg"
  shows "registry_get reg t = Some sp \<Longrightarrow> sp \<in> set (builtin_tool_specs env) \<and> name sp = t \<and> t \<notin> dis"
  using assms by (auto simp: build_builtin_registry registry_get_def dest!: map_of_SomeD)

lemma builtin_gates_quiet:
  assumes "build_tool_registry (builtin_tool_specs env) dis = Inr reg"
  shows "gates_quiet reg s"
  using registry_get_builtin [OF assms] builtin_quiet by (auto simp: gates_quiet_def)

text \<open>The table satisfies the construction checks of \<open>ToolSpec\<close>.\<close>

lemma text_not_blank: "list_ex visible t \<Longrightarrow> \<not> blank t"
  using visible_not_blank by (auto simp: list_ex_iff)

lemma schema_field_not_blank: "k \<in> set (fst (schema_table t)) \<Longrightarrow> \<not> blank k"
  by (rule text_not_blank) (cases t; auto simp: visible_def)

lemma spec_of_checked:
  assumes "list_ex visible descr" and "opts = set (fst (schema_table t))"
    and "req = set (snd (schema_table t))" and "req \<subseteq> opts"
    and "eff = [] \<or> eff = [''memory_write'']"
  shows "tool_spec_init (spec_of env t descr req opts eff idem) = Inr (spec_of env t descr req opts eff idem)"
proof -
  have "\<not> blank ''memory_write''" by (rule text_not_blank) (simp add: visible_def)
  moreover have "\<forall>a \<in> opts. \<not> blank a" using schema_field_not_blank assms(2) by blast
  moreover note text_not_blank [OF assms(1)]
  ultimately show ?thesis
    using assms(2-5)
    by (auto simp: tool_spec_init_def spec_of_def builtin_schema_def default_retry_def)
qed

lemma builtin_specs_checked: "list_all (\<lambda>sp. tool_spec_init sp = Inr sp) (builtin_tool_specs env)"
  unfolding builtin_tool_specs_def
  by (simp add: spec_of_checked visible_def insert_commute)

section \<open>The planners only make plans the registry accepts\<close>

lemma full_registry_args:
  assumes "build_tool_registry (builtin_tool_specs env) {} = Inr reg"
  shows "\<exists>sp. registry_get reg t = Some sp \<and> required_args sp = set (snd (schema_table t))
    \<and> allowed_args sp = set (fst (schema_table t))"
proof -
  have "reg = map (\<lambda>sp. (name sp, sp)) (builtin_tool_specs env)"
    using assms by (simp add: build_builtin_registry)
  then show ?thesis
    by (cases t) (simp_all add: registry_get_def builtin_tool_specs_def spec_of_def insert_commute)
qed

lemma new_step_ok:
  assumes "build_tool_registry (builtin_tool_specs env) {} = Inr reg"
    and "set (snd (schema_table t)) \<subseteq> fst ` set kw" and "fst ` set kw \<subseteq> set (fst (schema_table t))"
  shows "step_ok reg (new_step i th t kw)"
  using full_registry_args [OF assms(1), of t] assms(2,3) by (auto simp: step_ok_def new_step_def)

lemma new_step_fields [simp]:
  "step_id (new_step i th t kw) = i" "depends_on (new_step i th t kw) = []"
  "action (new_step i th t kw) = Tool t"
  by (simp_all add: new_step_def)

text \<open>Plans of fresh steps, in the shape all planners build them.\<close>

lemma fresh_plan_valid:
  assumes "inj ids" and "sts \<noteq> []" and "map step_id sts = map ids [0..<length sts]"
    and "\<forall>st \<in> set sts. depends_on st = [] \<and> step_ok reg st"
  shows "validate_plan sts reg = Inr ()"
proof -
  have "distinct (map step_id sts)"
    unfolding assms(3) using assms(1) by (auto simp: distinct_map intro: inj_on_subset)
  moreover have "deps_ok {} sts" using assms(4) by (simp add: deps_ok_def)
  ultimately show ?thesis using assms(2,4) by (simp add: validate_plan_iff)
qed

lemmas plan_defs =
  clarification_plan_def calculate_plan_def read_note_plan_def write_note_plan_def
  project_context_query_plan_def greeting_plan_def unknown_plan_def
  calculate_and_save_steps_def read_and_summarize_steps_def web_search_steps_def
  capability_unavailable_plan_def

lemma plans_valid:
  assumes reg: "build_tool_registry (builtin_tool_specs env) {} = Inr reg" and ids: "inj ids"
  shows "validate_plan (clarification_plan ids p) reg = Inr ()"
    and "validate_plan (calculate_plan ids p) reg = Inr ()"
    and "validate_plan (read_note_plan ids p) reg = Inr ()"
    and "validate_plan (write_note_plan ids p) reg = Inr ()"
    and "validate_plan (project_context_query_plan ids p) reg = Inr ()"
    and "validate_plan (greeting_plan ids) reg = Inr ()"
    and "validate_plan (unknown_plan ids) reg = Inr ()"
    and "validate_plan (calculate_and_save_steps ids h e n) reg = Inr ()"
    and "validate_plan (read_and_summarize_steps ids n) reg = Inr ()"
    and "validate_plan (web_search_steps ids q k) reg = Inr ()"
    and "validate_plan (capability_unavailable_plan ids d) reg = Inr ()"
  by (rule fresh_plan_valid [OF ids]; simp add: plan_defs new_step_ok [OF reg] upt_rec numeral_2_eq_2)+

lemma intent_plan_valid:
  assumes "build_tool_registry (builtin_tool_specs env) {} = Inr reg" and "inj ids"
  shows "validate_plan (intent_plan ids p) reg = Inr ()"
  unfolding intent_plan_def using plans_valid [OF assms] by simp

text \<open>With every tool registered all three skills are active.\<close>

lemma full_catalog:
  assumes "build_tool_registry (builtin_tool_specs env) {} = Inr reg"
  shows "\<exists>c. build_skill_catalog h reg = Inr c"
    and "build_skill_catalog h reg = Inr c \<Longrightarrow>
      for_intent (active c) i =
        Inr (if i = CalculateThenSaveNote then Some (builtin_skill_specs h ! 0)
             else if i = ReadNoteThenSummarize then Some (builtin_skill_specs h ! 1)
             else if i = WebSearch then Some (builtin_skill_specs h ! 2) else None)"
    and "build_skill_catalog h reg = Inr c \<Longrightarrow> disabled c = []"
proof -
  have keys: "fst ` set reg = UNIV"
    using build_tool_registry_keys(1) [OF assms] all_tool_names_UNIV by auto
  have c: "build_skill_catalog h reg = Inr c \<longleftrightarrow>
      c = \<lparr>active = \<lparr>sr_data = map (\<lambda>sk. (sk_name sk, sk)) (builtin_skill_specs h),
           intent_index = (\<lambda>i. if i = WebSearch then Some WebSearchSkill
             else if i = ReadNoteThenSummarize then Some ReadAndSummarize
             else if i = CalculateThenSaveNote then Some CalculateAndSave else None)\<rparr>,
           disabled = []\<rparr>" for c
    by (auto simp: build_skill_catalog_def catalog_from_specs_def skill_registry_from_specs_def
        builtin_skill_specs_def keys Let_def)
  show "\<exists>c. build_skill_catalog h reg = Inr c" using c by blast
  show "build_skill_catalog h reg = Inr c \<Longrightarrow> disabled c = []" using c by simp
  show "build_skill_catalog h reg = Inr c \<Longrightarrow>
      for_intent (active c) i =
        Inr (if i = CalculateThenSaveNote then Some (builtin_skill_specs h ! 0)
             else if i = ReadNoteThenSummarize then Some (builtin_skill_specs h ! 1)
             else if i = WebSearch then Some (builtin_skill_specs h ! 2) else None)"
    using c by (simp add: for_intent_def builtin_skill_specs_def)
qed

lemma skill_plans_checked:
  "validate_skill_plan (builtin_skill_specs h ! 0) (calculate_and_save_steps ids h e n) = Inr ()"
  "validate_skill_plan (builtin_skill_specs h ! 1) (read_and_summarize_steps ids n) = Inr ()"
  "validate_skill_plan (builtin_skill_specs h ! 2) (web_search_steps ids q k) = Inr ()"
  by (simp_all add: validate_skill_plan_def builtin_skill_specs_def plan_defs)

lemma skill_plans_made:
  "plan_factory (builtin_skill_specs h ! 0) ids (extract_inputs (builtin_skill_specs h ! 0) p) =
     Inr (calculate_and_save_steps ids h (slot_value p ''expression'') (slot_value p ''note_name''))"
  "plan_factory (builtin_skill_specs h ! 1) ids (extract_inputs (builtin_skill_specs h ! 1) p) =
     Inr (read_and_summarize_steps ids (slot_value p ''note_name''))"
  "plan_factory (builtin_skill_specs h ! 2) ids (extract_inputs (builtin_skill_specs h ! 2) p) =
     Inr (web_search_steps ids (slot_value p ''query'') 3)"
  by (simp_all add: builtin_skill_specs_def extract_inputs_def calculate_and_save_factory_def
      read_and_summarize_factory_def web_search_factory_def need_input_def)

lemma skill_plans_valid:
  assumes "build_tool_registry (builtin_tool_specs env) {} = Inr reg" and "inj ids"
    and "sk \<in> {builtin_skill_specs h ! 0, builtin_skill_specs h ! 1, builtin_skill_specs h ! 2}"
  shows "\<exists>sts. plan_factory sk ids (extract_inputs sk p) = Inr sts \<and> validate_skill_plan sk sts = Inr ()
    \<and> validate_plan sts reg = Inr ()"
  using assms(3)
  by (elim insertE emptyE; simp only: skill_plans_made skill_plans_checked plans_valid [OF assms(1,2)] sum.inject simp_thms)

lemma rule_based_plan_valid:
  assumes reg: "build_tool_registry (builtin_tool_specs env) {} = Inr reg" and ids: "inj ids"
    and c: "build_skill_catalog h reg = Inr c"
  shows "\<exists>sts. rule_based_make_plan parse c ids s = Inr sts \<and> validate_plan sts reg = Inr ()"
proof -
  let ?p = "validate_slots (parse (goal s))"
  have u: "unavailable_for_intent c (intent ?p) = None"
    using full_catalog(3) [OF reg c] by (simp add: unavailable_for_intent_def)
  show ?thesis
  proof (cases "missing_slots ?p = [] \<and> intent ?p \<in> {CalculateThenSaveNote, ReadNoteThenSummarize, WebSearch}")
    case True
    then obtain sk where sk: "for_intent (active c) (intent ?p) = Inr (Some sk)"
      "sk \<in> {builtin_skill_specs h ! 0, builtin_skill_specs h ! 1, builtin_skill_specs h ! 2}"
      using full_catalog(2) [OF reg c, of "intent ?p"] by auto
    with True skill_plans_valid [OF reg ids sk(2), of ?p] show ?thesis
      by (auto simp: rule_based_make_plan_def skill_aware_plan_def)
  next
    case False
    then have "rule_based_make_plan parse c ids s = Inr (intent_plan ids ?p)"
      using u full_catalog(2) [OF reg c, of "intent ?p"]
      by (auto simp: rule_based_make_plan_def skill_aware_plan_def)
    with intent_plan_valid [OF reg ids] show ?thesis by blast
  qed
qed

end
