(* ===== verification/Sha256.thy ===== *)
theory Sha256
  imports Prelude "HOL-Library.Word"
begin

text \<open>
  SHA-256 on byte strings, as \<open>hashlib.sha256(...).hexdigest()\<close> computes it (FIPS 180-4):
  padding to blocks of 64 bytes, the message schedule, the compression function, and the
  lower-case hexadecimal digest.  The development uses it to form digests; no statement
  depends on its security.
\<close>

unbundle bit_operations_syntax

type_synonym word32 = "32 word"

definition ror32 :: "nat \<Rightarrow> word32 \<Rightarrow> word32" where
  "ror32 n x = drop_bit n x OR push_bit (32 - n) x"

text \<open>
  The constants are the first 32 bits of the fractional parts of the cube roots of the first
  64 primes and of the square roots of the first eight.  \<open>root_bits k b 0 n\<close> is the integer
  \<open>k\<close>-th root of \<open>n\<close>, found bit by bit below \<open>2 ^ b\<close>.
\<close>

fun root_bits :: "nat \<Rightarrow> nat \<Rightarrow> int \<Rightarrow> int \<Rightarrow> int" where
  "root_bits k 0 r n = r"
| "root_bits k (Suc b) r n =
     root_bits k b (if (r + 2 ^ b) ^ k \<le> n then r + 2 ^ b else r) n"

definition first_primes :: "int list" where
  "first_primes =
     [2, 3, 5, 7, 11, 13, 17, 19, 23, 29, 31, 37, 41, 43, 47, 53, 59, 61, 67, 71, 73, 79, 83,
      89, 97, 101, 103, 107, 109, 113, 127, 131, 137, 139, 149, 151, 157, 163, 167, 173, 179,
      181, 191, 193, 197, 199, 211, 223, 227, 229, 233, 239, 241, 251, 257, 263, 269, 271,
      277, 281, 283, 293, 307, 311]"

definition round_constants :: "word32 list" where
  "round_constants = map (\<lambda>p. of_int (root_bits 3 36 0 (p * 2 ^ 96))) first_primes"

definition initial_state :: "word32 list" where
  "initial_state = map (\<lambda>p. of_int (root_bits 2 36 0 (p * 2 ^ 64))) (take 8 first_primes)"

definition big_endian :: "nat \<Rightarrow> nat \<Rightarrow> nat list" where
  "big_endian k n = map (\<lambda>i. (n div 256 ^ (k - 1 - i)) mod 256) [0..<k]"

definition pad_message :: "nat list \<Rightarrow> nat list" where
  "pad_message bs =
     bs @ [0x80] @ replicate ((119 - length bs mod 64) mod 64) 0 @ big_endian 8 (8 * length bs)"

fun bytes_to_words :: "nat list \<Rightarrow> word32 list" where
  "bytes_to_words (a # b # c # d # rest) =
     of_nat (((a * 256 + b) * 256 + c) * 256 + d) # bytes_to_words rest"
| "bytes_to_words _ = []"

text \<open>One more word of the schedule, from the sixteen before it (latest first).\<close>

definition next_word :: "word32 list \<Rightarrow> word32" where
  "next_word ws =
     (let w2 = ws ! 1; w7 = ws ! 6; w15 = ws ! 14; w16 = ws ! 15;
          s0 = ror32 7 w15 XOR ror32 18 w15 XOR drop_bit 3 w15;
          s1 = ror32 17 w2 XOR ror32 19 w2 XOR drop_bit 10 w2
      in w16 + s0 + w7 + s1)"

fun extend_schedule :: "nat \<Rightarrow> word32 list \<Rightarrow> word32 list" where
  "extend_schedule 0 ws = ws"
| "extend_schedule (Suc n) ws = extend_schedule n (next_word ws # ws)"

definition schedule :: "word32 list \<Rightarrow> word32 list" where
  "schedule block = rev (extend_schedule 48 (rev block))"

fun sha_round :: "word32 list \<Rightarrow> word32 \<times> word32 \<Rightarrow> word32 list" where
  "sha_round [a, b, c, d, e, f, g, h] (k, w) =
     (let s1 = ror32 6 e XOR ror32 11 e XOR ror32 25 e;
          ch = (e AND f) XOR (NOT e AND g);
          t1 = h + s1 + ch + k + w;
          s0 = ror32 2 a XOR ror32 13 a XOR ror32 22 a;
          maj = (a AND b) XOR (a AND c) XOR (b AND c)
      in [t1 + s0 + maj, a, b, c, d + t1, e, f, g])"
| "sha_round st kw = st"

definition compress :: "word32 list \<Rightarrow> word32 list \<Rightarrow> word32 list" where
  "compress st block =
     map2 (+) st (foldl sha_round st (zip round_constants (schedule block)))"

function blocks_of :: "word32 list \<Rightarrow> word32 list list" where
  "blocks_of ws = (if length ws < 16 then [] else take 16 ws # blocks_of (drop 16 ws))"
  by pat_completeness auto
termination
  by (relation "measure length") auto

declare blocks_of.simps [simp del]

definition sha256_words :: "nat list \<Rightarrow> word32 list" where
  "sha256_words bs = foldl compress initial_state (blocks_of (bytes_to_words (pad_message bs)))"

definition hex_digit :: "nat \<Rightarrow> char" where
  "hex_digit n = char_of (if n < 10 then 48 + n else 87 + n)"

definition hex_word :: "word32 \<Rightarrow> string" where
  "hex_word w = map (\<lambda>i. hex_digit (unat w div 16 ^ (7 - i) mod 16)) [0..<8]"

definition sha256_hex :: "string \<Rightarrow> string" where
  "sha256_hex s = concat (map hex_word (sha256_words (map of_char s)))"

section \<open>The shape of a digest\<close>

definition lower_hex :: "char \<Rightarrow> bool" where
  "lower_hex c = (between (CHR ''0'') (CHR ''9'') c \<or> between (CHR ''a'') (CHR ''f'') c)"

lemma hex_digit_lower: "n < 16 \<Longrightarrow> lower_hex (hex_digit n)"
  by (auto simp: hex_digit_def lower_hex_def between_def)

lemma hex_word_shape: "length (hex_word w) = 8 \<and> list_all lower_hex (hex_word w)"
  by (auto simp: hex_word_def list_all_iff intro: hex_digit_lower)

lemma length_sha_round: "length st = 8 \<Longrightarrow> length (sha_round st kw) = 8"
  by (induction st kw rule: sha_round.induct) (auto simp: Let_def)

lemma length_foldl_round: "length st = 8 \<Longrightarrow> length (foldl sha_round st kws) = 8"
  by (induction kws arbitrary: st) (simp_all add: length_sha_round)

lemma length_sha256_words: "length (sha256_words bs) = 8"
proof -
  have "length st = 8 \<Longrightarrow> length (foldl compress st bls) = 8" for st bls
    by (induction bls arbitrary: st) (simp_all add: compress_def length_foldl_round)
  then show ?thesis by (simp add: sha256_words_def initial_state_def first_primes_def)
qed

lemma sha256_hex_shape: "length (sha256_hex s) = 64 \<and> list_all lower_hex (sha256_hex s)"
proof -
  have "length (concat (map hex_word ws)) = 8 * length ws \<and> list_all lower_hex (concat (map hex_word ws))"
    for ws by (induction ws) (simp_all add: hex_word_shape)
  then show ?thesis by (simp add: sha256_hex_def length_sha256_words)
qed

end
