(* ===== verification/Canonical.thy ===== *)
theory Canonical
  imports Py_Value Sha256 "HOL-Library.Multiset"
begin

text \<open>
  The strict validators and the canonical serialisation that every ChangeGate and
  merge-eligibility record is built on (\<open>build_harness/canonical.py\<close>).  Validators take a
  dynamic value and return the typed one; an error names the field.  Unicode normalisation
  (\<open>unicodedata.normalize("NFC", ...)\<close>) is an argument \<open>nfc\<close>.
\<close>

section \<open>Exact types\<close>

abbreviation P09BValidationError :: "string \<Rightarrow> exn" where
  "P09BValidationError m \<equiv> Exn ''P09BValidationError'' m"

fun require_str :: "string \<Rightarrow> bool \<Rightarrow> pyval \<Rightarrow> exn + string" where
  "require_str fld allow_empty (VStr s) =
     (if \<not> allow_empty \<and> s = []
      then Inl (P09BValidationError (fld @ '' must be a non-empty string'')) else Inr s)"
| "require_str fld allow_empty v = Inl (P09BValidationError (fld @ '' must be a string''))"

fun require_int :: "string \<Rightarrow> pyval \<Rightarrow> exn + int" where
  "require_int fld (VInt i) = Inr i"
| "require_int fld v = Inl (P09BValidationError (fld @ '' must be an int''))"

fun require_bool :: "string \<Rightarrow> pyval \<Rightarrow> exn + bool" where
  "require_bool fld (VBool b) = Inr b"
| "require_bool fld v = Inl (P09BValidationError (fld @ '' must be a bool''))"

fun require_str_tuple :: "string \<Rightarrow> pyval \<Rightarrow> exn + string list" where
  "require_str_tuple fld (VTuple vs) = mapE (require_str (fld @ ''[]'') False) vs"
| "require_str_tuple fld v = Inl (P09BValidationError (fld @ '' must be a tuple''))"

definition reject_control_characters :: "string \<Rightarrow> string \<Rightarrow> exn + unit" where
  "reject_control_characters fld s =
     (if list_ex control_char s
      then Inl (P09BValidationError (fld @ '' contains control characters'')) else Inr ())"

definition require_sorted_unique_str_tuple :: "string \<Rightarrow> pyval \<Rightarrow> exn + string list" where
  "require_sorted_unique_str_tuple fld v =
     seqE (require_str_tuple fld v) (\<lambda>xs.
     seqE (mapE (\<lambda>x. seqE (reject_control_characters (fld @ ''[]'') x) (\<lambda>_. Inr x)) xs) (\<lambda>_.
     seqE (raise_first
       [(xs \<noteq> sort xs, P09BValidationError (fld @ '' must be lexicographically sorted'')),
        (\<not> distinct xs, P09BValidationError (fld @ '' must not contain duplicate entries''))])
     (\<lambda>_. Inr xs)))"

section \<open>Grammars\<close>

text \<open>
  A pattern anchored with a dollar sign also matches in front of a final newline; the
  patterns below match whole strings otherwise.
\<close>

definition dollar_match :: "(string \<Rightarrow> bool) \<Rightarrow> string \<Rightarrow> bool" where
  "dollar_match P s = (P s \<or> (s \<noteq> [] \<and> last s = CHR 0x0A \<and> P (butlast s)))"

definition ascii_lower :: "char \<Rightarrow> bool" where
  "ascii_lower c = between (CHR ''a'') (CHR ''z'') c"

definition ascii_upper :: "char \<Rightarrow> bool" where
  "ascii_upper c = between (CHR ''A'') (CHR ''Z'') c"

definition ascii_digit :: "char \<Rightarrow> bool" where
  "ascii_digit c = between (CHR ''0'') (CHR ''9'') c"

definition first_rest :: "(char \<Rightarrow> bool) \<Rightarrow> (char \<Rightarrow> bool) \<Rightarrow> nat \<Rightarrow> string \<Rightarrow> bool" where
  "first_rest F R n s = (case s of [] \<Rightarrow> False | c # cs \<Rightarrow> F c \<and> list_all R cs \<and> length cs \<le> n)"

definition task_id_grammar :: "string \<Rightarrow> bool" where
  "task_id_grammar =
     first_rest (\<lambda>c. ascii_lower c \<or> ascii_upper c \<or> ascii_digit c)
       (\<lambda>c. ascii_lower c \<or> ascii_upper c \<or> ascii_digit c \<or> c \<in> {CHR ''.'', CHR ''_'', CHR ''-''})
       127"

definition generated_id_grammar :: "string \<Rightarrow> bool" where
  "generated_id_grammar =
     first_rest (\<lambda>c. ascii_lower c \<or> ascii_digit c)
       (\<lambda>c. ascii_lower c \<or> ascii_digit c \<or> c = CHR ''-'') 63"

definition hex_grammar :: "nat \<Rightarrow> string \<Rightarrow> bool" where
  "hex_grammar n s = (length s = n \<and> list_all lower_hex s)"

definition sha256_digest_grammar :: "string \<Rightarrow> bool" where
  "sha256_digest_grammar s = (starts_with ''sha256:'' s \<and> hex_grammar 64 (drop 7 s))"

definition match_or_fail :: "string \<Rightarrow> (string \<Rightarrow> bool) \<Rightarrow> string \<Rightarrow> pyval \<Rightarrow> exn + string" where
  "match_or_fail fld P msg v =
     seqE (require_str fld False v) (\<lambda>s.
       if dollar_match P s then Inr s else Inl (P09BValidationError (fld @ msg)))"

definition validate_task_id :: "string \<Rightarrow> pyval \<Rightarrow> exn + string" where
  "validate_task_id fld v =
     match_or_fail fld task_id_grammar '' must match the P0-9A task grammar'' v"

definition validate_generated_id :: "string \<Rightarrow> pyval \<Rightarrow> exn + string" where
  "validate_generated_id fld v =
     match_or_fail fld generated_id_grammar '' must match the generated-id grammar'' v"

definition validate_sha256_digest :: "string \<Rightarrow> pyval \<Rightarrow> exn + string" where
  "validate_sha256_digest fld v =
     match_or_fail fld sha256_digest_grammar '' must be a sha256 digest'' v"

definition validate_git_object_sha :: "string \<Rightarrow> string \<Rightarrow> pyval \<Rightarrow> exn + string" where
  "validate_git_object_sha fld object_format v =
     seqE (require_str fld False v) (\<lambda>s.
       if object_format = ''sha1''
       then (if dollar_match (hex_grammar 40) s then Inr s
             else Inl (P09BValidationError (fld @ '' must be 40 lowercase hex characters'')))
       else if object_format = ''sha256''
       then (if dollar_match (hex_grammar 64) s then Inr s
             else Inl (P09BValidationError (fld @ '' must be 64 lowercase hex characters'')))
       else Inl (P09BValidationError (fld @ '': unknown object_format'')))"

section \<open>Paths and text\<close>

definition windows_drive :: "string \<Rightarrow> bool" where
  "windows_drive s =
     (case s of a # b # _ \<Rightarrow> (ascii_lower a \<or> ascii_upper a) \<and> b = CHR '':'' | _ \<Rightarrow> False)"

definition bad_segment :: "string \<Rightarrow> bool" where
  "bad_segment seg = (seg = [] \<or> seg = ''.'' \<or> seg = ''..'')"

definition validate_repo_path :: "(string \<Rightarrow> string) \<Rightarrow> string \<Rightarrow> pyval \<Rightarrow> exn + string" where
  "validate_repo_path nfc fld v =
     seqE (require_str fld False v) (\<lambda>s.
     seqE (reject_control_characters fld s) (\<lambda>_.
     seqE (raise_first
       [(CHR 0x5C \<in> set s, P09BValidationError (fld @ '': backslash is not a path separator'')),
        (windows_drive s, P09BValidationError (fld @ '': Windows drive path rejected'')),
        (starts_with ''/'' s, P09BValidationError (fld @ '': absolute path rejected'')),
        (nfc s \<noteq> s, P09BValidationError (fld @ '': path must already be NFC-normalized'')),
        (list_ex bad_segment (split_on (CHR ''/'') s),
           P09BValidationError (fld @ '': empty or dot path segment rejected''))])
     (\<lambda>_. Inr s)))"

definition validate_working_directory :: "(string \<Rightarrow> string) \<Rightarrow> string \<Rightarrow> pyval \<Rightarrow> exn + string" where
  "validate_working_directory nfc fld v =
     seqE (require_str fld False v) (\<lambda>s.
       if s = ''.'' then Inr ''.'' else validate_repo_path nfc fld (VStr s))"

definition validate_repository_root_hint :: "string \<Rightarrow> pyval \<Rightarrow> exn + string" where
  "validate_repository_root_hint fld v =
     seqE (require_str fld False v) (\<lambda>s. seqE (reject_control_characters fld s) (\<lambda>_. Inr s))"

definition validate_diagnostic_text :: "string \<Rightarrow> nat \<Rightarrow> pyval \<Rightarrow> exn + string" where
  "validate_diagnostic_text fld max_len v =
     seqE (require_str fld True v) (\<lambda>s.
     seqE (raise_first
       [(CHR 0x00 \<in> set s, P09BValidationError (fld @ '' contains a NUL character'')),
        (max_len < py_len s, P09BValidationError (fld @ '' is too long''))])
     (\<lambda>_. Inr s))"

section \<open>Canonical JSON\<close>

fun canonicalize :: "(string \<Rightarrow> string) \<Rightarrow> pyval \<Rightarrow> exn + pyval"
  and canonicalize_list :: "(string \<Rightarrow> string) \<Rightarrow> pyval list \<Rightarrow> exn + pyval list"
  and canonicalize_items :: "(string \<Rightarrow> string) \<Rightarrow> string list \<Rightarrow> (pyval \<times> pyval) list
    \<Rightarrow> exn + (pyval \<times> pyval) list" where
  "canonicalize nfc VNone = Inr VNone"
| "canonicalize nfc (VBool b) = Inr (VBool b)"
| "canonicalize nfc (VInt i) = Inr (VInt i)"
| "canonicalize nfc (VFloat (PyFinite t)) = Inr (VFloat (PyFinite t))"
| "canonicalize nfc (VFloat f) = Inl (P09BValidationError ''NaN/Infinity is not allowed'')"
| "canonicalize nfc (VStr s) = Inr (VStr (nfc s))"
| "canonicalize nfc (VEnum c s) = Inr (VStr (nfc s))"
| "canonicalize nfc (VList vs) = seqE (canonicalize_list nfc vs) (\<lambda>ws. Inr (VList ws))"
| "canonicalize nfc (VTuple vs) = seqE (canonicalize_list nfc vs) (\<lambda>ws. Inr (VList ws))"
| "canonicalize nfc (VDict kvs) = seqE (canonicalize_items nfc [] kvs) (\<lambda>kws. Inr (VDict kws))"
| "canonicalize nfc (VObj c fs) =
     Inl (P09BValidationError ''unsupported type for canonical serialization'')"
| "canonicalize_list nfc [] = Inr []"
| "canonicalize_list nfc (v # vs) =
     seqE (canonicalize nfc v) (\<lambda>w. seqE (canonicalize_list nfc vs) (\<lambda>ws. Inr (w # ws)))"
| "canonicalize_items nfc seen [] = Inr []"
| "canonicalize_items nfc seen ((k, v) # kvs) =
     (case k of
        VStr s \<Rightarrow>
          if nfc s \<in> set seen
          then Inl (P09BValidationError ''duplicate object key after NFC normalization'')
          else seqE (canonicalize nfc v) (\<lambda>w.
               seqE (canonicalize_items nfc (nfc s # seen) kvs) (\<lambda>kws.
                 Inr ((VStr (nfc s), w) # kws)))
      | _ \<Rightarrow> Inl (P09BValidationError ''object keys must be exact str''))"

text \<open>String escapes of \<open>json.dumps\<close> with \<open>ensure_ascii=False\<close>.\<close>

definition json_escape :: "char \<Rightarrow> string" where
  "json_escape c =
     (if c = CHR 0x22 then [CHR 0x5C, CHR 0x22]
      else if c = CHR 0x5C then [CHR 0x5C, CHR 0x5C]
      else if c = CHR 0x0A then [CHR 0x5C, CHR ''n'']
      else if c = CHR 0x0D then [CHR 0x5C, CHR ''r'']
      else if c = CHR 0x09 then [CHR 0x5C, CHR ''t'']
      else if c = CHR 0x0C then [CHR 0x5C, CHR ''f'']
      else if c = CHR 0x08 then [CHR 0x5C, CHR ''b'']
      else if code_point c < 32
      then CHR 0x5C # ''u00'' @ [hex_digit (code_point c div 16), hex_digit (code_point c mod 16)]
      else [c])"

definition json_string :: "string \<Rightarrow> string" where
  "json_string s = [CHR 0x22] @ concat (map json_escape s) @ [CHR 0x22]"

fun key_text :: "pyval \<Rightarrow> string" where
  "key_text (VStr s) = s"
| "key_text v = []"

fun json_dumps :: "pyval \<Rightarrow> string" where
  "json_dumps VNone = ''null''"
| "json_dumps (VBool b) = (if b then ''true'' else ''false'')"
| "json_dumps (VInt i) = show_int i"
| "json_dumps (VFloat f) = show_float f"
| "json_dumps (VStr s) = json_string s"
| "json_dumps (VEnum c s) = json_string s"
| "json_dumps (VList vs) = ''['' @ join '','' (map json_dumps vs) @ '']''"
| "json_dumps (VTuple vs) = ''['' @ join '','' (map json_dumps vs) @ '']''"
| "json_dumps (VDict kvs) =
     ''{'' @ join '','' (map (\<lambda>(k, t). json_string k @ '':'' @ t)
                (sort_key fst (map (\<lambda>(k, v). (key_text k, json_dumps v)) kvs))) @ ''}''"
| "json_dumps (VObj c fs) = []"

text \<open>\<open>repr\<close> of an integer refuses more than 4300 digits.\<close>

fun json_ints :: "pyval \<Rightarrow> bool" where
  "json_ints (VInt i) = (length (show_nat (nat \<bar>i\<bar>)) \<le> 4300)"
| "json_ints (VList vs) = (\<forall>v \<in> set vs. json_ints v)"
| "json_ints (VTuple vs) = (\<forall>v \<in> set vs. json_ints v)"
| "json_ints (VDict kvs) = (\<forall>kv \<in> set kvs. json_ints (snd kv))"
| "json_ints v = True"

definition canonical_json_bytes :: "(string \<Rightarrow> string) \<Rightarrow> pyval \<Rightarrow> exn + string" where
  "canonical_json_bytes nfc v =
     seqE (canonicalize nfc v) (\<lambda>w.
       if json_ints w then Inr (json_dumps w)
       else Inl (ValueError ''Exceeds the limit (4300 digits) for integer string conversion''))"

definition sha256_digest_bytes :: "string \<Rightarrow> string" where
  "sha256_digest_bytes b = ''sha256:'' @ sha256_hex b"

definition canonical_digest :: "(string \<Rightarrow> string) \<Rightarrow> pyval \<Rightarrow> exn + string" where
  "canonical_digest nfc v = seqE (canonical_json_bytes nfc v) (\<lambda>b. Inr (sha256_digest_bytes b))"

definition changed_files_digest :: "(string \<Rightarrow> string) \<Rightarrow> string list \<Rightarrow> exn + string" where
  "changed_files_digest nfc paths =
     canonical_digest nfc (dict_of
       [(''kind'', VStr ''p0-9b.changed-files.v1''), (''paths'', VList (map VStr paths))])"

section \<open>Lemmas on the validators\<close>

lemma require_str_Inr [simp]:
  "require_str fld e v = Inr s \<longleftrightarrow> v = VStr s \<and> (e \<or> s \<noteq> [])"
  by (cases v) auto

lemma require_int_Inr [simp]: "require_int fld v = Inr i \<longleftrightarrow> v = VInt i"
  by (cases v) auto

lemma require_bool_Inr [simp]: "require_bool fld v = Inr b \<longleftrightarrow> v = VBool b"
  by (cases v) auto

lemma mapE_require_str:
  "mapE (require_str fld False) vs = Inr xs \<longleftrightarrow> vs = map VStr xs \<and> [] \<notin> set xs"
proof (induction vs arbitrary: xs)
  case (Cons v vs)
  then show ?case by (cases xs) (simp_all add: seqE_Inr_iff, blast)
qed auto

lemma require_str_tuple_Inr [simp]:
  "require_str_tuple fld v = Inr xs \<longleftrightarrow> v = VTuple (map VStr xs) \<and> [] \<notin> set xs"
  by (cases v) (auto simp: mapE_require_str)

lemma reject_control_ok [simp]:
  "reject_control_characters fld s = Inr u \<longleftrightarrow> \<not> list_ex control_char s"
  by (simp add: reject_control_characters_def)

lemma require_sorted_unique_Inr:
  "require_sorted_unique_str_tuple fld v = Inr xs \<longleftrightarrow>
     v = VTuple (map VStr xs) \<and> [] \<notin> set xs \<and> sorted_wrt (<) xs
     \<and> (\<forall>x \<in> set xs. \<not> list_ex control_char x)"
proof -
  have ctl: "mapE (\<lambda>x. seqE (reject_control_characters (fld @ ''[]'') x) (\<lambda>_. Inr x)) ys = Inr zs \<longleftrightarrow>
      zs = ys \<and> (\<forall>x \<in> set ys. \<not> list_ex control_char x)" for ys zs
    by (induction ys arbitrary: zs) (auto simp: seqE_Inr_iff)
  have srt: "(ys = sort ys) = sorted ys" for ys :: "string list"
    by (metis sorted_sort sorted_sort_id)
  show ?thesis
    unfolding require_sorted_unique_str_tuple_def
    by (simp add: seqE_Inr_iff ctl srt strict_sorted_iff) blast
qed

lemma sha256_digest_shape: "sha256_digest_grammar (sha256_digest_bytes b)"
  using sha256_hex_shape [of b]
  by (simp add: sha256_digest_grammar_def sha256_digest_bytes_def hex_grammar_def)

lemma canonical_digest_shape: "canonical_digest nfc v = Inr d \<Longrightarrow> sha256_digest_grammar d"
  by (auto simp: canonical_digest_def result_simps sha256_digest_shape)

lemma validate_repo_path_Inr:
  "validate_repo_path nfc fld v = Inr s \<longleftrightarrow>
     v = VStr s \<and> s \<noteq> [] \<and> \<not> list_ex control_char s \<and> CHR 0x5C \<notin> set s \<and> \<not> windows_drive s
     \<and> \<not> starts_with ''/'' s \<and> nfc s = s \<and> \<not> list_ex bad_segment (split_on (CHR ''/'') s)"
  by (auto simp: validate_repo_path_def result_simps)

section \<open>Canonical values\<close>

lemma canonicalize_idem_all:
  "(\<forall>s. nfc (nfc s) = nfc s) \<Longrightarrow> canonicalize nfc v = Inr w \<Longrightarrow> canonicalize nfc w = Inr w"
  "(\<forall>s. nfc (nfc s) = nfc s) \<Longrightarrow> canonicalize_list nfc vs = Inr ws \<Longrightarrow>
     canonicalize_list nfc ws = Inr ws"
  "(\<forall>s. nfc (nfc s) = nfc s) \<Longrightarrow> canonicalize_items nfc seen kvs = Inr kws \<Longrightarrow>
     canonicalize_items nfc seen kws = Inr kws"
  by (induction nfc v and nfc vs and nfc seen kvs arbitrary: w and ws and kws
      rule: canonicalize_canonicalize_list_canonicalize_items.induct)
     (auto simp: result_simps split: pyval.splits if_splits)

text \<open>One entry of an object, canonicalised, and what the scan over all of them checks.\<close>

definition canon_entry :: "(string \<Rightarrow> string) \<Rightarrow> pyval \<times> pyval \<Rightarrow> pyval \<times> pyval \<Rightarrow> bool" where
  "canon_entry nfc kv kw \<longleftrightarrow>
     (\<exists>s. fst kv = VStr s \<and> fst kw = VStr (nfc s) \<and> canonicalize nfc (snd kv) = Inr (snd kw))"

lemma canonicalize_items_iff:
  "canonicalize_items nfc seen kvs = Inr kws \<longleftrightarrow>
     list_all2 (canon_entry nfc) kvs kws \<and> distinct (map fst kws)
     \<and> set (map fst kws) \<inter> VStr ` set seen = {}"
proof (induction kvs arbitrary: seen kws)
  case (Cons kv kvs)
  obtain k v where kv: "kv = (k, v)" by (cases kv)
  show ?case
  proof (cases k)
    case (VStr s)
    show ?thesis
      by (cases kws) (auto simp: kv VStr result_simps Cons.IH canon_entry_def intro: rev_image_eqI)
  qed (auto simp: kv canon_entry_def list_all2_Cons1)
qed auto

text \<open>The bytes do not depend on the order in which an object lists its keys.\<close>

lemma json_dumps_perm:
  assumes "mset kws = mset kws'" and "distinct (map fst kws)"
    and "\<forall>k \<in> set (map fst kws). \<exists>s. k = VStr s"
  shows "json_dumps (VDict kws) = json_dumps (VDict kws')"
proof -
  let ?g = "\<lambda>(k, v). (key_text k, json_dumps v)"
  have inj: "inj_on fst (set (map ?g kws))"
  proof (rule inj_onI)
    fix x y assume "x \<in> set (map ?g kws)" "y \<in> set (map ?g kws)" "fst x = fst y"
    then obtain k v k' v' where kv: "(k, v) \<in> set kws" "(k', v') \<in> set kws"
      "x = ?g (k, v)" "y = ?g (k', v')" "key_text k = key_text k'" by auto
    moreover have "k \<in> set (map fst kws)" "k' \<in> set (map fst kws)" using kv(1,2) by force+
    then obtain s s' where "k = VStr s" "k' = VStr s'" using assms(3) by blast
    then have "k = k'" using kv(5) by simp
    ultimately show "x = y" using assms(2) by (auto dest: eq_key_imp_eq_value)
  qed
  have "mset (map ?g kws) = mset (map ?g kws')" using assms(1) by simp
  then have "sort_key fst (map ?g kws) = sort_key fst (map ?g kws')"
    using inj by (intro sort_key_inj_key_eq) simp_all
  then show ?thesis by simp
qed

lemma canonical_json_perm:
  assumes "mset kvs = mset kvs'" and "canonical_json_bytes nfc (VDict kvs) = Inr b"
  shows "canonical_json_bytes nfc (VDict kvs') = Inr b"
proof -
  obtain kws where kws: "list_all2 (canon_entry nfc) kvs kws" "distinct (map fst kws)"
    "b = json_dumps (VDict kws)" "json_ints (VDict kws)"
    using assms(2)
    by (auto simp del: json_ints.simps simp: canonical_json_bytes_def result_simps canonicalize_items_iff split: if_splits)
  obtain kws' where kws': "list_all2 (canon_entry nfc) kvs' kws'" "mset kws' = mset kws"
    using list_all2_reorder_left_invariance [OF kws(1)] assms(1) by metis
  have "distinct (map fst kws')"
    using kws(2) kws'(2) by (metis mset_eq_imp_distinct_iff mset_map)
  then have "canonicalize_items nfc [] kvs' = Inr kws'"
    using kws'(1) by (simp add: canonicalize_items_iff)
  moreover have "json_dumps (VDict kws') = b"
    unfolding kws(3)
  proof (rule json_dumps_perm [OF kws'(2) \<open>distinct (map fst kws')\<close>])
    show "\<forall>k \<in> set (map fst kws'). \<exists>s. k = VStr s"
      using kws'(1) by (induction rule: list_all2_induct) (auto simp: canon_entry_def)
  qed
  moreover have "json_ints (VDict kws')"
    using kws(4) mset_eq_setD [OF kws'(2)] by simp
  ultimately show ?thesis by (simp add: canonical_json_bytes_def)
qed

text \<open>
  Data that always has a canonical form: no non-finite float, no object, no integer of more
  than 4300 digits, and dictionary keys that are distinct ASCII strings, which normalisation leaves alone.
\<close>

definition ascii_text :: "string \<Rightarrow> bool" where
  "ascii_text s = list_all (\<lambda>c. code_point c < 128) s"

definition keeps_ascii :: "(string \<Rightarrow> string) \<Rightarrow> bool" where
  "keeps_ascii nfc \<longleftrightarrow> (\<forall>s. ascii_text s \<longrightarrow> nfc s = s)"

fun json_ready :: "pyval \<Rightarrow> bool" where
  "json_ready (VFloat f) = (case f of PyFinite t \<Rightarrow> True | _ \<Rightarrow> False)"
| "json_ready (VInt i) = (length (show_nat (nat \<bar>i\<bar>)) \<le> 4300)"
| "json_ready (VList vs) = (\<forall>v \<in> set vs. json_ready v)"
| "json_ready (VTuple vs) = (\<forall>v \<in> set vs. json_ready v)"
| "json_ready (VDict kvs) =
     ((\<forall>kv \<in> set kvs. (case fst kv of VStr s \<Rightarrow> ascii_text s | _ \<Rightarrow> False) \<and> json_ready (snd kv))
      \<and> distinct (map fst kvs))"
| "json_ready (VObj c fs) = False"
| "json_ready v = True"

lemma canonicalize_ready_all:
  "keeps_ascii nfc \<Longrightarrow> json_ready v \<Longrightarrow> \<exists>w. canonicalize nfc v = Inr w \<and> json_ints w"
  "keeps_ascii nfc \<Longrightarrow> \<forall>v \<in> set vs. json_ready v \<Longrightarrow> \<exists>ws. canonicalize_list nfc vs = Inr ws \<and> (\<forall>w \<in> set ws. json_ints w)"
  "keeps_ascii nfc \<Longrightarrow> json_ready (VDict kvs) \<Longrightarrow> \<forall>kv \<in> set kvs. fst kv \<notin> VStr ` set seen
     \<Longrightarrow> \<exists>ws. canonicalize_items nfc seen kvs = Inr ws \<and> (\<forall>kv \<in> set ws. json_ints (snd kv))"
proof (induction nfc v and nfc vs and nfc seen kvs
    rule: canonicalize_canonicalize_list_canonicalize_items.induct)
  case (15 nfc seen k v kvs)
  then obtain s where k: "k = VStr s" "nfc s = s" by (auto simp: keeps_ascii_def split: pyval.splits)
  then have "s \<notin> set seen" using 15(5) by auto
  moreover have "\<forall>kv \<in> set kvs. fst kv \<notin> VStr ` set (nfc s # seen)" using 15(4,5) k by force
  moreover have "json_ready v" "json_ready (VDict kvs)" using 15(4) by auto
  ultimately obtain w ws where "canonicalize nfc v = Inr w" "json_ints w"
    "canonicalize_items nfc (nfc s # seen) kvs = Inr ws" "\<forall>kv \<in> set ws. json_ints (snd kv)"
    using 15(1,2) 15(3) k by (metis (no_types, lifting))
  then show ?case using k \<open>s \<notin> set seen\<close> by simp
qed (auto simp: seqE_Inr_iff)

lemma canonical_digest_ready:
  assumes "keeps_ascii nfc" and "json_ready v"
  shows "\<exists>d. canonical_digest nfc v = Inr d"
  using canonicalize_ready_all(1) [OF assms] by (fastforce simp: canonical_digest_def canonical_json_bytes_def)

lemma json_ready_dict_of:
  "json_ready (dict_of kvs) \<longleftrightarrow>
     distinct (map fst kvs) \<and> (\<forall>(k, v) \<in> set kvs. ascii_text k \<and> json_ready v)"
proof -
  have "map fst (map (\<lambda>(k, v). (VStr k, v)) kvs) = map VStr (map fst kvs)" by auto
  then have "distinct (map fst (map (\<lambda>(k, v). (VStr k, v)) kvs)) \<longleftrightarrow> distinct (map fst kvs)"
    by (simp add: distinct_map inj_on_def del: map_map)
  then show ?thesis by (fastforce simp: dict_of_def)
qed

end
