(* ===== verification/Examples.thy ===== *)
theory Examples
  imports Builtin_Tools Canonical
begin

text \<open>
  Concrete inputs on which the hypotheses of the properties hold: a host, a tool environment,
  the registry of all built-in tools, an open state and runtimes over them.
\<close>

definition ex_host :: host where
  "ex_host = \<lparr>py_str = (\<lambda>_. ''object''), py_attr = (\<lambda>_ _. None), py_lower = id, py_isdigit = (\<lambda>_. False), py_int = (\<lambda>_. None)\<rparr>"

definition ex_env :: tool_env where
  "ex_env =
     \<lparr>te_host = ex_host, te_now = 7, te_fresh = (\<lambda>_. ''m1''),
      te_eval = (\<lambda>_. Inr (PyFinite ''2.0'')), te_search = (\<lambda>q n. Inr (fake_web_search q n)),
      te_provider = ''FakeWebSearchClient'',
      te_search_memory = (\<lambda>_ _. success_result VNone SEARCH_MEMORY JSON []),
      te_summarize_memory = (\<lambda>_ _. success_result VNone SUMMARIZE_MEMORY TEXT []),
      te_validate = (\<lambda>_ kw. Inr kw)\<rparr>"

definition ex_registry :: "store registry" where
  "ex_registry = map (\<lambda>sp. (name sp, sp)) (builtin_tool_specs ex_env)"

definition ex_state :: "store agent_state" where
  "ex_state =
     \<lparr>goal = ''Tinh 1 + 1'', task_id = ''task-1'', user_id = Some ''u'', session_id = None,
      status = CREATED, plan = [], current_step = 0, done_flag = False, final_answer = None,
      last_result = None, slots = [], memory = empty_store, history = [], observations = [],
      sources = [], errors = [], context_pack_of = None, memory_degraded = False,
      memory_write_failed = False, disclosure_reasons = [], context_consumed = False,
      max_steps = 5, approved_tools = {}, read_only = False, confirmed_save_operation = None\<rparr>"

definition ex_plan :: "step list" where
  "ex_plan = [new_step ''s1'' ''done'' FINISH [(''answer'', VStr ''ok'')],
              new_step ''s2'' ''read'' READ_NOTE [(''name'', VStr ''n'')]]"

definition ex_runtime :: "store runtime" where
  "ex_runtime =
     \<lparr>host_of = ex_host, make_plan = (\<lambda>_. Inr ex_plan), tools_of = ex_registry,
      client_of = Some (local_client ex_host 7 (\<lambda>n. replicate (Suc n) (CHR ''i'')))\<rparr>"

definition ex_note_state :: "store agent_state" where
  "ex_note_state = ex_state\<lparr>memory :=
     snd (store_write ex_host 3 (new_note ''m0'' 3 ''n'' ''text'') empty_store)\<rparr>"

lemma ex_registry_built: "build_tool_registry (builtin_tool_specs ex_env) {} = Inr ex_registry"
  by (simp add: build_builtin_registry ex_registry_def)

lemma ex_open: "\<not> is_terminal ex_note_state"
  by (simp add: ex_note_state_def ex_state_def is_terminal_def)

lemma strip_ids:
  "strip ''n'' = ''n''" "strip ''task-1'' = ''task-1''" "strip ''s1'' = ''s1''" "strip ''s2'' = ''s2''"
  "strip ''m0'' = ''m0''" "strip ''ok'' = ''ok''" "strip ''u'' = ''u''"
  by (rule strip_visible, simp add: visible_def)+

lemma ex_registry_get:
  "registry_get ex_registry READ_NOTE =
     Some (spec_of ex_env READ_NOTE ''Read a note from agent memory.'' {''name''} {''name''} [] True)"
  "registry_get ex_registry FINISH =
     Some (spec_of ex_env FINISH ''Finish the task and return the final answer.''
       {''answer''} {''answer''} [] True)"
  by (simp_all add: registry_get_def ex_registry_def builtin_tool_specs_def spec_of_def)

lemma ex_note: "read_note (memory ex_note_state) ''n'' = Some ''text''"
  using write_note_new [OF store_ok_empty, of "''m0''" "''n''" ex_host "''text''" 3]
  by (simp add: note_written_def ex_note_state_def empty_store_def strip_ids)

lemma ex_plan_valid: "validate_plan ex_plan ex_registry = Inr ()"
  using new_step_ok [OF ex_registry_built]
  by (simp add: validate_plan_iff ex_plan_def)

text \<open>A run with a client that reports degraded memory, evaluated to its end.\<close>

definition ex_degraded :: "store runtime" where
  "ex_degraded = ex_runtime\<lparr>client_of := Some
     \<lparr>supports_required_write = True,
      retrieve_context_pack = (\<lambda>rq w. (Inr \<lparr>items = [], total_items = 0, tokens_used = 0,
        token_budget = rq_budget rq, truncated = False, degraded = True,
        memory_source = ''remote''\<rparr>, w)),
      write_memory_candidates = (\<lambda>wq w. (Inr \<lparr>written_ids = [''m9''], skipped = []\<rparr>, w))\<rparr>\<rparr>"

lemma ex_prepare:
  "prepare_args h (spec_of ex_env FINISH d {''answer''} {''answer''} [] True)
     (mark_running (new_step i th FINISH [(''answer'', VStr ''ok'')])) s = Inr [(''answer'', VStr ''ok'')]"
proof -
  have "resolve_args h s [(''answer'', VStr ''ok'')] = Inr [(''answer'', VStr ''ok'')]"
    by (rule resolve_args_plain) (simp add: plain_text_def)
  then show ?thesis
    by (simp add: prepare_args_def validate_args_def spec_of_def builtin_schema_def ex_env_def
        new_step_def mark_running_def)
qed

lemma ex_finish_call:
  "fn (spec_of ex_env FINISH d {''answer''} {''answer''} [] True) s [(''answer'', VStr ''ok'')] =
     Returned (success_result (VObj ''FinishOutput'' [(''answer'', VStr ''ok'')]) FINISH TEXT
       [(''answer_length'', VInt (int (py_len ''ok''))), (''terminal'', VBool True)]) s"
  by (simp add: spec_of_def tool_finish_def with_arg_def strip_ids Let_def)

lemma ex_gates:
  "policy_check (spec_of ex_env t d a b [] True) kw s = \<lparr>allowed = True, gate_reason = [], gate_metadata = []\<rparr>"
  "approval_check (spec_of ex_env t d a b e i) kw s = \<lparr>allowed = True, gate_reason = [], gate_metadata = []\<rparr>"
  by (simp_all add: policy_check_def approval_check_def spec_of_def)

lemma ex_execute_finish:
  assumes "task_id s = ''task-1''"
  shows "\<exists>r st' s'. execute h ex_registry (new_step ''s1'' ''done'' FINISH [(''answer'', VStr ''ok'')]) s =
    Inr (r, st', s') \<and> success r"
proof -
  let ?st = "new_step ''s1'' ''done'' FINISH [(''answer'', VStr ''ok'')]"
  let ?r = "success_result (VObj ''FinishOutput'' [(''answer'', VStr ''ok'')]) FINISH TEXT
       [(''answer_length'', VInt (int (py_len ''ok''))), (''terminal'', VBool True)]"
  have "\<not> blank (task_id s)" "\<not> blank (step_id (mark_completed (mark_running ?st)))"
    "action (mark_completed (mark_running ?st)) = Tool FINISH"
    by (simp_all add: assms strip_ids)
  from finish_step_total [OF this, of h "[(''answer'', VStr ''ok'')]" ?r]
  obtain s' where "finish_step h (mark_completed (mark_running ?st)) [(''answer'', VStr ''ok'')] ?r s =
      Inr (?r, mark_completed (mark_running ?st), s')" by blast
  then show ?thesis
    by (simp add: execute_def ex_registry_get ex_prepare ex_gates invoke_tool_def ex_finish_call
        Let_def success_result_def)
qed

text \<open>The degraded run completes, with its plan as made.\<close>

lemma ex_degraded_run:
  "\<exists>s'. run ex_degraded ex_note_state = Inr s' \<and> status s' = agent_status.COMPLETED
     \<and> memory_degraded s' \<and> task_touches_memory s'"
proof -
  let ?s2 = "plan_run ex_degraded (retrieve_memory ex_degraded ex_note_state)"
  let ?s0 = "emit_event ''running_started'' None (?s2\<lparr>status := agent_status.RUNNING\<rparr>)"
  let ?st = "new_step ''s1'' ''done'' FINISH [(''answer'', VStr ''ok'')]"
  have s1: "\<not> is_terminal (retrieve_memory ex_degraded ex_note_state)"
    by (simp add: retrieve_memory_def ex_degraded_def ex_runtime_def ex_note_state_def ex_state_def
        is_terminal_def state_defs Let_def)
  have s2: "\<not> is_terminal ?s2" "plan ?s2 = ex_plan" "task_id ?s2 = ''task-1''" "max_steps ?s2 = 5"
    "memory_degraded ?s2"
    by (simp_all add: plan_run_def retrieve_memory_def ex_degraded_def ex_runtime_def ex_plan_valid
        ex_note_state_def ex_state_def is_terminal_def state_defs Let_def)
  have q: "gates_quiet ex_registry ?s2" by (rule builtin_gates_quiet [OF ex_registry_built])
  obtain r st' s1 where e: "execute ex_host ex_registry ?st (begin_step 1 FINISH ?st ?s0) = Inr (r, st', s1)"
    "success r"
    using ex_execute_finish [of "begin_step 1 FINISH ?st ?s0" ex_host] s2(3)
    by (auto simp: begin_step_def state_defs)
  let ?s3 = "emit_event ''finish_reached'' (Some 1) (step_succeeded ex_host 1 r (put_step 1 st' s1))"
  have "map action (plan ?s0) ! (1 - 1) = action ?st" using s2(2) by (simp add: state_defs ex_plan_def)
  then obtain ob where adv: "advanced ?s0 [ob] (put_step 1 st' s1)"
    using step_advanced [OF e(1)] q gates_quiet_cong [of ?s0 ?s2] by (auto simp: state_defs)
  have "execute_plan ex_degraded ?s2 = Inr ?s3"
    using s2 e by (simp add: execute_plan_def ex_plan_def ex_degraded_def ex_runtime_def
        is_terminal_def state_defs Let_def)
  then have r: "run ex_degraded ex_note_state = Inr (finalize_run ex_degraded ?s3)"
    using s1 s2(1) by (simp add: run_def Let_def)
  have s3: "\<not> done_flag ?s3" "memory_degraded ?s3" "map action (plan ?s3) = map action ex_plan"
    using adv s2 by (auto simp: advanced_def same_run_def state_defs is_terminal_def)
  have "Tool READ_NOTE \<in> set (map action (plan ?s3))" unfolding s3(3) by (simp add: ex_plan_def)
  then obtain st where "st \<in> set (plan ?s3)" "action st = Tool READ_NOTE"
    unfolding set_map by (elim imageE) simp
  then have "task_touches_memory ?s3"
    unfolding task_touches_memory_def
    by (intro bexI [of _ st]) (simp_all add: step_action_in_def memory_plan_actions_def)
  then show ?thesis using r s3 finalize_run_open [OF s3(1), of ex_degraded] by (auto simp: task_touches_memory_def)
qed


text \<open>A parsed intent that a built-in skill serves, and its plan.\<close>

definition ex_ids :: "nat \<Rightarrow> string" where
  "ex_ids n = replicate (Suc n) (CHR ''x'')"

lemma ex_ids_inj: "inj ex_ids"
  by (rule injI) (metis ex_ids_def length_replicate nat.inject)

definition ex_intent :: parsed_intent where
  "ex_intent =
     \<lparr>intent = WebSearch, confidence = 1, pi_source = ''rule'', raw_text = ''tim weather'',
      expression = None, note_name = None, content = VNone, query = Some ''weather'',
      missing_slots = [], pi_metadata = []\<rparr>"

lemma ex_skill_plan:
  "\<exists>c sts. catalog_from_specs (builtin_skill_specs ex_host) ex_registry = Inr c
     \<and> skill_aware_plan c ex_ids ex_intent = Inr sts"
proof -
  obtain c where c: "build_skill_catalog ex_host ex_registry = Inr c"
    using full_catalog(1) [OF ex_registry_built] by blast
  let ?sk = "builtin_skill_specs ex_host ! 2"
  have "for_intent (active c) WebSearch = Inr (Some ?sk)"
    using full_catalog(2) [OF ex_registry_built c, of WebSearch] by simp
  moreover obtain sts where "plan_factory ?sk ex_ids (extract_inputs ?sk ex_intent) = Inr sts"
    "validate_skill_plan ?sk sts = Inr ()"
    using skill_plans_valid [OF ex_registry_built ex_ids_inj, of ?sk ex_host ex_intent] by blast
  ultimately have "skill_aware_plan c ex_ids ex_intent = Inr sts"
    by (simp add: skill_aware_plan_def ex_intent_def)
  with c show ?thesis unfolding build_skill_catalog_def by blast
qed

lemma ex_all_registered: "fst ` set ex_registry = UNIV"
  using build_tool_registry_keys(1) [OF ex_registry_built] all_tool_names_UNIV by auto


text \<open>A confirmed decision, the state that holds it and a client that stores it.\<close>

definition ex_evidence :: evidence_envelope where
  "ex_evidence =
     \<lparr>ev_content = ''ok'', ev_source_type = USER, ev_trust_level = TRUSTED_INSTRUCTION,
      ev_source_ref = Some ''user-explicit:task-1:n'', ev_metadata = [(''confirmation_id'', VStr ''n'')]\<rparr>"

definition ex_decision :: confirmed_decision where
  "ex_decision = \<lparr>confirmation_id = ''n'', cd_content = ''ok'', confirmation_evidence = ex_evidence\<rparr>"

definition ex_operation :: confirmed_save_op where
  "ex_operation =
     \<lparr>request_id = ''memory-write:n'', op_task_id = ''task-1'', op_session_id = None,
      decision = ex_decision\<rparr>"

definition ex_save_state :: "store agent_state" where
  "ex_save_state = ex_state\<lparr>confirmed_save_operation := Some ex_operation\<rparr>"

lemma ex_request_id: "strip ''memory-write:n'' = ''memory-write:n''"
  by (rule strip_visible) (simp add: visible_def)

lemma ex_confirmation:
  "make_confirmation_evidence ''task-1'' ''n'' ''ok'' = Inr ex_evidence"
  "confirmed_decision_init ''n'' ''ok'' ex_evidence = Inr ex_decision"
  "confirmed_memory_request_id ''n'' = Inr ''memory-write:n''"
  "confirmed_save_operation_init ''memory-write:n'' ''task-1'' None ex_decision = Inr ex_operation"
  by (simp_all add: make_confirmation_evidence_ok strip_ids ex_evidence_def confirmed_decision_init_def
      ex_decision_def confirmed_memory_request_id_def confirmed_save_operation_init_def
      ex_operation_def ex_request_id)

lemma ex_operation_ok: "operation_ok ex_operation ex_save_state"
  by (simp add: operation_ok_def ex_operation_def ex_save_state_def ex_state_def ex_decision_def
      ex_evidence_def strip_ids)

end
