(* ===== verification/Str_Enum.thy ===== *)
theory Str_Enum
  imports Py_Value
begin

text \<open>
  The interface of the closed string enums (\<open>class X(str, Enum)\<close>) of the build harness: the list of
  the members in the order of the class body and the value of a member.  Readers look a value up in
  the list.
\<close>

text \<open>An enum lists all its members, and their values differ.\<close>

locale str_enum =
  fixes members :: "'a list" and val :: "'a \<Rightarrow> string"
  assumes member: "x \<in> set members"
    and values_differ: "distinct (map val members)"
begin

lemma val_inj: "val x = val y \<longleftrightarrow> x = y"
  using values_differ member by (auto simp: distinct_map dest: inj_onD)

lemma find_own [simp]: "find (\<lambda>m. val m = val x) members = Some x"
proof (cases "find (\<lambda>m. val m = val x) members")
  case None
  then show ?thesis using member [of x] by (auto simp: find_None_iff)
next
  case (Some y)
  then have "val y = val x" by (auto simp: find_Some_iff)
  with Some val_inj show ?thesis by auto
qed

lemma find_value: "find (\<lambda>m. val m = t) members = Some x \<longleftrightarrow> t = val x"
proof
  show "find (\<lambda>m. val m = t) members = Some x \<Longrightarrow> t = val x" by (auto simp: find_Some_iff)
qed simp

end

end
