(* ===== verification/Merge_Enums.thy ===== *)
theory Merge_Enums
  imports Canonical Str_Enum
begin

text \<open>
  The closed string enums of the merge-eligibility decision (\<open>build_harness/merge_eligibility.py\<close>):
  each with the value and the list of its members, and the reader \<open>_require_enum\<close>; every one of them
  satisfies the interface \<open>str_enum\<close>.
\<close>

section \<open>Closed values\<close>

datatype task_context_currency =
    CURRENT | STALE | UNKNOWN

fun task_context_currency_value :: "task_context_currency \<Rightarrow> string" where
  "task_context_currency_value task_context_currency.CURRENT = ''CURRENT''"
| "task_context_currency_value task_context_currency.STALE = ''STALE''"
| "task_context_currency_value task_context_currency.UNKNOWN = ''UNKNOWN''"

definition task_context_currency_members :: "task_context_currency list" where
  "task_context_currency_members = [task_context_currency.CURRENT, task_context_currency.STALE, task_context_currency.UNKNOWN]"

datatype candidate_binding_currency =
    CURRENT | STALE | UNKNOWN

fun candidate_binding_currency_value :: "candidate_binding_currency \<Rightarrow> string" where
  "candidate_binding_currency_value candidate_binding_currency.CURRENT = ''CURRENT''"
| "candidate_binding_currency_value candidate_binding_currency.STALE = ''STALE''"
| "candidate_binding_currency_value candidate_binding_currency.UNKNOWN = ''UNKNOWN''"

definition candidate_binding_currency_members :: "candidate_binding_currency list" where
  "candidate_binding_currency_members = [candidate_binding_currency.CURRENT, candidate_binding_currency.STALE, candidate_binding_currency.UNKNOWN]"

datatype repository_snapshot_currency =
    CURRENT | MISMATCH | UNKNOWN

fun repository_snapshot_currency_value :: "repository_snapshot_currency \<Rightarrow> string" where
  "repository_snapshot_currency_value repository_snapshot_currency.CURRENT = ''CURRENT''"
| "repository_snapshot_currency_value repository_snapshot_currency.MISMATCH = ''MISMATCH''"
| "repository_snapshot_currency_value repository_snapshot_currency.UNKNOWN = ''UNKNOWN''"

definition repository_snapshot_currency_members :: "repository_snapshot_currency list" where
  "repository_snapshot_currency_members = [repository_snapshot_currency.CURRENT, repository_snapshot_currency.MISMATCH, repository_snapshot_currency.UNKNOWN]"

datatype release_cleanliness =
    CLEAN | DIRTY | UNKNOWN

fun release_cleanliness_value :: "release_cleanliness \<Rightarrow> string" where
  "release_cleanliness_value release_cleanliness.CLEAN = ''CLEAN''"
| "release_cleanliness_value release_cleanliness.DIRTY = ''DIRTY''"
| "release_cleanliness_value release_cleanliness.UNKNOWN = ''UNKNOWN''"

definition release_cleanliness_members :: "release_cleanliness list" where
  "release_cleanliness_members = [release_cleanliness.CLEAN, release_cleanliness.DIRTY, release_cleanliness.UNKNOWN]"

datatype policy_context_currency =
    CURRENT | STALE | UNKNOWN

fun policy_context_currency_value :: "policy_context_currency \<Rightarrow> string" where
  "policy_context_currency_value policy_context_currency.CURRENT = ''CURRENT''"
| "policy_context_currency_value policy_context_currency.STALE = ''STALE''"
| "policy_context_currency_value policy_context_currency.UNKNOWN = ''UNKNOWN''"

definition policy_context_currency_members :: "policy_context_currency list" where
  "policy_context_currency_members = [policy_context_currency.CURRENT, policy_context_currency.STALE, policy_context_currency.UNKNOWN]"

datatype evidence_context =
    COHERENT | INCOHERENT | UNKNOWN

fun evidence_context_value :: "evidence_context \<Rightarrow> string" where
  "evidence_context_value evidence_context.COHERENT = ''COHERENT''"
| "evidence_context_value evidence_context.INCOHERENT = ''INCOHERENT''"
| "evidence_context_value evidence_context.UNKNOWN = ''UNKNOWN''"

definition evidence_context_members :: "evidence_context list" where
  "evidence_context_members = [evidence_context.COHERENT, evidence_context.INCOHERENT, evidence_context.UNKNOWN]"

datatype evidence_violation =
    TASK_MISMATCH | RUN_MISMATCH | CANDIDATE_MISMATCH | PROVENANCE_INVALID | DUPLICATE_IDENTITY

fun evidence_violation_value :: "evidence_violation \<Rightarrow> string" where
  "evidence_violation_value evidence_violation.TASK_MISMATCH = ''TASK_MISMATCH''"
| "evidence_violation_value evidence_violation.RUN_MISMATCH = ''RUN_MISMATCH''"
| "evidence_violation_value evidence_violation.CANDIDATE_MISMATCH = ''CANDIDATE_MISMATCH''"
| "evidence_violation_value evidence_violation.PROVENANCE_INVALID = ''PROVENANCE_INVALID''"
| "evidence_violation_value evidence_violation.DUPLICATE_IDENTITY = ''DUPLICATE_IDENTITY''"

definition evidence_violation_members :: "evidence_violation list" where
  "evidence_violation_members = [evidence_violation.TASK_MISMATCH, evidence_violation.RUN_MISMATCH, evidence_violation.CANDIDATE_MISMATCH, evidence_violation.PROVENANCE_INVALID, evidence_violation.DUPLICATE_IDENTITY]"

datatype scope =
    COMPLIANT | VIOLATION | SEMANTIC_UNCERTAIN | NOT_EVALUATED

fun scope_value :: "scope \<Rightarrow> string" where
  "scope_value scope.COMPLIANT = ''COMPLIANT''"
| "scope_value scope.VIOLATION = ''VIOLATION''"
| "scope_value scope.SEMANTIC_UNCERTAIN = ''SEMANTIC_UNCERTAIN''"
| "scope_value scope.NOT_EVALUATED = ''NOT_EVALUATED''"

definition scope_members :: "scope list" where
  "scope_members = [scope.COMPLIANT, scope.VIOLATION, scope.SEMANTIC_UNCERTAIN, scope.NOT_EVALUATED]"

datatype approval =
    VALID | MISSING | STALE | UNKNOWN

fun approval_value :: "approval \<Rightarrow> string" where
  "approval_value approval.VALID = ''VALID''"
| "approval_value approval.MISSING = ''MISSING''"
| "approval_value approval.STALE = ''STALE''"
| "approval_value approval.UNKNOWN = ''UNKNOWN''"

definition approval_members :: "approval list" where
  "approval_members = [approval.VALID, approval.MISSING, approval.STALE, approval.UNKNOWN]"

datatype authority =
    VALID | INVALID | UNKNOWN

fun authority_value :: "authority \<Rightarrow> string" where
  "authority_value authority.VALID = ''VALID''"
| "authority_value authority.INVALID = ''INVALID''"
| "authority_value authority.UNKNOWN = ''UNKNOWN''"

definition authority_members :: "authority list" where
  "authority_members = [authority.VALID, authority.INVALID, authority.UNKNOWN]"

datatype verifier_identity =
    ATTESTED | PRESENT_UNATTESTED | ABSENT | INVALID

fun verifier_identity_value :: "verifier_identity \<Rightarrow> string" where
  "verifier_identity_value verifier_identity.ATTESTED = ''ATTESTED''"
| "verifier_identity_value verifier_identity.PRESENT_UNATTESTED = ''PRESENT_UNATTESTED''"
| "verifier_identity_value verifier_identity.ABSENT = ''ABSENT''"
| "verifier_identity_value verifier_identity.INVALID = ''INVALID''"

definition verifier_identity_members :: "verifier_identity list" where
  "verifier_identity_members = [verifier_identity.ATTESTED, verifier_identity.PRESENT_UNATTESTED, verifier_identity.ABSENT, verifier_identity.INVALID]"

datatype verifier_independence =
    INDEPENDENT | NOT_INDEPENDENT | UNKNOWN

fun verifier_independence_value :: "verifier_independence \<Rightarrow> string" where
  "verifier_independence_value verifier_independence.INDEPENDENT = ''INDEPENDENT''"
| "verifier_independence_value verifier_independence.NOT_INDEPENDENT = ''NOT_INDEPENDENT''"
| "verifier_independence_value verifier_independence.UNKNOWN = ''UNKNOWN''"

definition verifier_independence_members :: "verifier_independence list" where
  "verifier_independence_members = [verifier_independence.INDEPENDENT, verifier_independence.NOT_INDEPENDENT, verifier_independence.UNKNOWN]"

datatype evaluation_mode =
    ENFORCE | SHADOW

fun evaluation_mode_value :: "evaluation_mode \<Rightarrow> string" where
  "evaluation_mode_value evaluation_mode.ENFORCE = ''ENFORCE''"
| "evaluation_mode_value evaluation_mode.SHADOW = ''SHADOW''"

definition evaluation_mode_members :: "evaluation_mode list" where
  "evaluation_mode_members = [evaluation_mode.ENFORCE, evaluation_mode.SHADOW]"

datatype disposition =
    ELIGIBLE_TO_MERGE_UNDER_POLICY | REVIEW_REQUIRED | BLOCK

fun disposition_value :: "disposition \<Rightarrow> string" where
  "disposition_value disposition.ELIGIBLE_TO_MERGE_UNDER_POLICY = ''ELIGIBLE_TO_MERGE_UNDER_POLICY''"
| "disposition_value disposition.REVIEW_REQUIRED = ''REVIEW_REQUIRED''"
| "disposition_value disposition.BLOCK = ''BLOCK''"

definition disposition_members :: "disposition list" where
  "disposition_members = [disposition.ELIGIBLE_TO_MERGE_UNDER_POLICY, disposition.REVIEW_REQUIRED, disposition.BLOCK]"

datatype decision_authority =
    AUTHORITATIVE | ADVISORY_ONLY

fun decision_authority_value :: "decision_authority \<Rightarrow> string" where
  "decision_authority_value decision_authority.AUTHORITATIVE = ''AUTHORITATIVE''"
| "decision_authority_value decision_authority.ADVISORY_ONLY = ''ADVISORY_ONLY''"

definition decision_authority_members :: "decision_authority list" where
  "decision_authority_members = [decision_authority.AUTHORITATIVE, decision_authority.ADVISORY_ONLY]"

section \<open>Reading a member\<close>

abbreviation MergeEligibilityInputError :: "string \<Rightarrow> exn" where
  "MergeEligibilityInputError m \<equiv> Exn ''MergeEligibilityInputError'' m"

text \<open>
  \<open>_require_enum\<close>: a member of the class itself, or an exact string that is the value of one.
\<close>

definition require_enum ::
  "string \<Rightarrow> 'a list \<Rightarrow> ('a \<Rightarrow> string) \<Rightarrow> string \<Rightarrow> pyval \<Rightarrow> exn + 'a" where
  "require_enum cls members val fld v =
     (let look = (\<lambda>t. case find (\<lambda>m. val m = t) members of
                        None \<Rightarrow> Inl (MergeEligibilityInputError (fld @ '' is not a valid '' @ cls))
                      | Some m \<Rightarrow> Inr m)
      in case v of
           VStr t \<Rightarrow> look t
         | VEnum c t \<Rightarrow>
             if c = cls then look t
             else Inl (MergeEligibilityInputError (fld @ '' must be a string enum value''))
         | _ \<Rightarrow> Inl (MergeEligibilityInputError (fld @ '' must be a string enum value'')))"

context str_enum
begin

lemma require_enum_iff:
  "require_enum cls members val fld v = Inr x \<longleftrightarrow> v = VStr (val x) \<or> v = VEnum cls (val x)"
  by (cases v) (auto simp: require_enum_def Let_def find_value split: option.splits dest: val_inj [THEN iffD1])

lemma require_enum_value [simp]: "require_enum cls members val fld (VStr (val x)) = Inr x"
  by (simp add: require_enum_iff)

lemma require_enum_error:
  "require_enum cls members val fld v = Inl e \<Longrightarrow> exn_type e = ''MergeEligibilityInputError''"
  by (auto simp: require_enum_def Let_def split: pyval.splits option.splits if_splits)

lemma mapE_require_enum: "mapE (require_enum cls members val fld) (map VStr (map val xs)) = Inr xs"
  by (induction xs) simp_all

end

interpretation task_context_currency_enum: str_enum task_context_currency_members task_context_currency_value
  using task_context_currency.nchotomy by unfold_locales (auto simp: task_context_currency_members_def)

interpretation candidate_binding_currency_enum: str_enum candidate_binding_currency_members candidate_binding_currency_value
  using candidate_binding_currency.nchotomy by unfold_locales (auto simp: candidate_binding_currency_members_def)

interpretation repository_snapshot_currency_enum: str_enum repository_snapshot_currency_members repository_snapshot_currency_value
  using repository_snapshot_currency.nchotomy by unfold_locales (auto simp: repository_snapshot_currency_members_def)

interpretation release_cleanliness_enum: str_enum release_cleanliness_members release_cleanliness_value
  using release_cleanliness.nchotomy by unfold_locales (auto simp: release_cleanliness_members_def)

interpretation policy_context_currency_enum: str_enum policy_context_currency_members policy_context_currency_value
  using policy_context_currency.nchotomy by unfold_locales (auto simp: policy_context_currency_members_def)

interpretation evidence_context_enum: str_enum evidence_context_members evidence_context_value
  using evidence_context.nchotomy by unfold_locales (auto simp: evidence_context_members_def)

interpretation evidence_violation_enum: str_enum evidence_violation_members evidence_violation_value
  using evidence_violation.nchotomy by unfold_locales (auto simp: evidence_violation_members_def)

interpretation scope_enum: str_enum scope_members scope_value
  using scope.nchotomy by unfold_locales (auto simp: scope_members_def)

interpretation approval_enum: str_enum approval_members approval_value
  using approval.nchotomy by unfold_locales (auto simp: approval_members_def)

interpretation authority_enum: str_enum authority_members authority_value
  using authority.nchotomy by unfold_locales (auto simp: authority_members_def)

interpretation verifier_identity_enum: str_enum verifier_identity_members verifier_identity_value
  using verifier_identity.nchotomy by unfold_locales (auto simp: verifier_identity_members_def)

interpretation verifier_independence_enum: str_enum verifier_independence_members verifier_independence_value
  using verifier_independence.nchotomy by unfold_locales (auto simp: verifier_independence_members_def)

interpretation evaluation_mode_enum: str_enum evaluation_mode_members evaluation_mode_value
  using evaluation_mode.nchotomy by unfold_locales (auto simp: evaluation_mode_members_def)

interpretation disposition_enum: str_enum disposition_members disposition_value
  using disposition.nchotomy by unfold_locales (auto simp: disposition_members_def)

interpretation decision_authority_enum: str_enum decision_authority_members decision_authority_value
  using decision_authority.nchotomy by unfold_locales (auto simp: decision_authority_members_def)

end
