(* ===== verification/Merge_Input.thy ===== *)
theory Merge_Input
  imports Merge_Enums
begin

text \<open>
  The typed input of the merge-eligibility decision (\<open>build_harness/merge_eligibility.py\<close>, first
  half): the strict validators of the JSON boundary, the facts with their coherence and partition
  rules, and the policy input with its four committed bindings, its canonical payload and its
  digest.

  The fields of the two dataclasses carry Isabelle types, so what the constructors check about
  the type of a field is already typing; what they check about its value is in \<open>facts_init\<close>
  and \<open>merge_input_init\<close>.  The JSON readers take a dynamic value and check both.
\<close>

section \<open>Validators of the boundary\<close>

definition me_reject_control :: "string \<Rightarrow> string \<Rightarrow> exn + unit" where
  "me_reject_control fld s =
     (case reject_control_characters fld s of
        Inl e \<Rightarrow> Inl (MergeEligibilityInputError (exn_msg e)) | Inr u \<Rightarrow> Inr u)"

definition me_require_str :: "string \<Rightarrow> pyval \<Rightarrow> exn + string" where
  "me_require_str fld v =
     (case v of
        VStr s \<Rightarrow>
          seqE (raise_first
            [(s = [], MergeEligibilityInputError (fld @ '' must be a non-empty string'')),
             (blank s, MergeEligibilityInputError (fld @ '' must not be whitespace-only''))])
          (\<lambda>_. seqE (me_reject_control fld s) (\<lambda>_. Inr s))
      | _ \<Rightarrow> Inl (MergeEligibilityInputError (fld @ '' must be a string'')))"

definition require_pattern :: "(string \<Rightarrow> bool) \<Rightarrow> string \<Rightarrow> pyval \<Rightarrow> exn + string" where
  "require_pattern P fld v =
     seqE (me_require_str fld v) (\<lambda>s.
       if dollar_match P s then Inr s
       else Inl (MergeEligibilityInputError (fld @ '' does not match the required grammar'')))"

definition me_require_task_id :: "string \<Rightarrow> pyval \<Rightarrow> exn + string" where
  "me_require_task_id = require_pattern task_id_grammar"

definition me_require_version :: "string \<Rightarrow> pyval \<Rightarrow> exn + string" where
  "me_require_version = require_pattern task_id_grammar"

definition me_require_digest :: "string \<Rightarrow> pyval \<Rightarrow> exn + string" where
  "me_require_digest = require_pattern sha256_digest_grammar"

definition APPROVAL_SENTINEL :: string where
  "APPROVAL_SENTINEL = ''NO_APPROVAL_SUPPLIED''"

definition me_require_digest_or_sentinel :: "string \<Rightarrow> pyval \<Rightarrow> exn + string" where
  "me_require_digest_or_sentinel fld v =
     seqE (me_require_str fld v) (\<lambda>s.
       if s = APPROVAL_SENTINEL \<or> dollar_match sha256_digest_grammar s then Inr s
       else Inl (MergeEligibilityInputError
                   (fld @ '' must be a sha256 digest or the exact sentinel'')))"

definition is_exact_str :: "pyval \<Rightarrow> bool" where
  "is_exact_str v = (case v of VStr _ \<Rightarrow> True | _ \<Rightarrow> False)"

definition require_exact_keys :: "string \<Rightarrow> string list \<Rightarrow> (pyval \<times> pyval) list \<Rightarrow> exn + unit" where
  "require_exact_keys model required kvs =
     raise_first
       [(\<exists>kv \<in> set kvs. \<not> is_exact_str (fst kv),
           MergeEligibilityInputError (model @ '': keys must be strings'')),
        (\<not> VStr ` set required \<subseteq> fst ` set kvs,
           MergeEligibilityInputError (model @ '': missing field(s)'')),
        (\<not> fst ` set kvs \<subseteq> VStr ` set required,
           MergeEligibilityInputError (model @ '': unknown field(s)''))]"

definition require_mapping :: "string \<Rightarrow> pyval \<Rightarrow> exn + (pyval \<times> pyval) list" where
  "require_mapping model v =
     (case v of VDict kvs \<Rightarrow> Inr kvs
      | _ \<Rightarrow> Inl (MergeEligibilityInputError (model @ '': root must be a JSON object'')))"

text \<open>
  One identifier of a committed set, and the whole set: not empty, no control character, then
  sorted and without duplicates.  The JSON reader takes a list, the constructor a tuple.
\<close>

definition check_identifier :: "string \<Rightarrow> pyval \<Rightarrow> exn + string" where
  "check_identifier fld v =
     (case v of
        VStr s \<Rightarrow>
          if s = [] then Inl (MergeEligibilityInputError (fld @ ''[] must be a non-empty string''))
          else seqE (me_reject_control (fld @ ''[]'') s) (\<lambda>_. Inr s)
      | _ \<Rightarrow> Inl (MergeEligibilityInputError (fld @ ''[] must be a string'')))"

definition check_sorted_unique :: "string \<Rightarrow> string list \<Rightarrow> exn + unit" where
  "check_sorted_unique fld xs =
     raise_first
       [(xs \<noteq> sort xs, MergeEligibilityInputError (fld @ '' must be lexicographically sorted'')),
        (\<not> distinct xs, MergeEligibilityInputError (fld @ '' must not contain duplicate entries''))]"

definition me_sorted_unique_list :: "string \<Rightarrow> pyval \<Rightarrow> exn + string list" where
  "me_sorted_unique_list fld v =
     (case v of
        VList vs \<Rightarrow>
          seqE (mapE (check_identifier fld) vs) (\<lambda>xs.
          seqE (check_sorted_unique fld xs) (\<lambda>_. Inr xs))
      | _ \<Rightarrow> Inl (MergeEligibilityInputError (fld @ '' must be a JSON list'')))"

definition me_sorted_unique_strict :: "string \<Rightarrow> string list \<Rightarrow> exn + unit" where
  "me_sorted_unique_strict fld xs =
     seqE (mapE (\<lambda>x. check_identifier fld (VStr x)) xs) (\<lambda>_. check_sorted_unique fld xs)"

definition me_sorted_unique_enum_list ::
  "string \<Rightarrow> 'a list \<Rightarrow> ('a \<Rightarrow> string) \<Rightarrow> string \<Rightarrow> pyval \<Rightarrow> exn + 'a list" where
  "me_sorted_unique_enum_list cls members val fld v =
     seqE (me_sorted_unique_list fld v) (\<lambda>raw.
       mapE (\<lambda>x. require_enum cls members val (fld @ ''[]'') (VStr x)) raw)"

section \<open>The facts\<close>

record eligibility_facts =
  task_context_current :: task_context_currency
  candidate_binding_current :: candidate_binding_currency
  repository_snapshot_current :: repository_snapshot_currency
  repository_release_clean :: release_cleanliness
  policy_context_current :: policy_context_currency
  evidence_context_status :: evidence_context
  evidence_context_violations :: "evidence_violation list"
  scope_status :: scope
  approval_status :: approval
  authority_status :: authority
  verifier_identity_status :: verifier_identity
  verifier_independence_status :: verifier_independence
  required_requirement_ids :: "string list"
  satisfied_requirement_ids :: "string list"
  invalid_requirement_ids :: "string list"
  missing_requirement_ids :: "string list"
  rejected_evidence_ids :: "string list"
  invalid_provenance_evidence_ids :: "string list"
  unexpected_evidence_ids :: "string list"

definition requirement_set_fields :: "string list" where
  "requirement_set_fields =
     [''required_requirement_ids'', ''satisfied_requirement_ids'', ''invalid_requirement_ids'',
      ''missing_requirement_ids'']"

definition evidence_set_fields :: "string list" where
  "evidence_set_fields =
     [''rejected_evidence_ids'', ''invalid_provenance_evidence_ids'', ''unexpected_evidence_ids'']"

text \<open>The sets of identifiers, by field name (\<open>getattr(facts, name)\<close>).\<close>

definition set_facts :: "eligibility_facts \<Rightarrow> (string \<times> string list) list" where
  "set_facts f =
     zip (requirement_set_fields @ evidence_set_fields)
       [required_requirement_ids f, satisfied_requirement_ids f, invalid_requirement_ids f,
        missing_requirement_ids f, rejected_evidence_ids f, invalid_provenance_evidence_ids f,
        unexpected_evidence_ids f]"

definition facts_keys :: "string list" where
  "facts_keys =
     [''task_context_current'', ''candidate_binding_current'', ''repository_snapshot_current'',
      ''repository_release_clean'', ''policy_context_current'', ''evidence_context_status'',
      ''evidence_context_violations'', ''scope_status'', ''approval_status'', ''authority_status'',
      ''verifier_identity_status'', ''verifier_independence_status'']
     @ requirement_set_fields @ evidence_set_fields"

text \<open>\<open>EligibilityFacts.__post_init__\<close>.\<close>

definition facts_init :: "eligibility_facts \<Rightarrow> exn + eligibility_facts" where
  "facts_init f =
     (let vals = map evidence_violation_value (evidence_context_violations f);
          incoherent = (evidence_context_status f = evidence_context.INCOHERENT);
          required = set (required_requirement_ids f); satisfied = set (satisfied_requirement_ids f);
          invalid = set (invalid_requirement_ids f); missing = set (missing_requirement_ids f)
      in seqE (check_sorted_unique ''facts.evidence_context_violations'' vals) (\<lambda>_.
         seqE (mapE (\<lambda>(k, xs). me_sorted_unique_strict (''facts.'' @ k) xs) (set_facts f)) (\<lambda>_.
         seqE (raise_first
           [(incoherent \<and> vals = [], MergeEligibilityInputError
               ''facts.evidence_context_violations must be non-empty when INCOHERENT''),
            (vals \<noteq> [] \<and> \<not> incoherent, MergeEligibilityInputError
               ''facts.evidence_context_violations must be empty unless INCOHERENT''),
            (satisfied \<inter> invalid \<noteq> {}, MergeEligibilityInputError
               ''facts: satisfied and invalid requirements must be disjoint''),
            (satisfied \<inter> missing \<noteq> {}, MergeEligibilityInputError
               ''facts: satisfied and missing requirements must be disjoint''),
            (invalid \<inter> missing \<noteq> {}, MergeEligibilityInputError
               ''facts: invalid and missing requirements must be disjoint''),
            (satisfied \<union> invalid \<union> missing \<noteq> required, MergeEligibilityInputError
               ''facts: required must equal the union of satisfied, invalid and missing'')])
         (\<lambda>_. Inr f))))"

definition facts_items :: "eligibility_facts \<Rightarrow> kwargs" where
  "facts_items f =
     [(''task_context_current'', VStr (task_context_currency_value (task_context_current f))),
       (''candidate_binding_current'',
          VStr (candidate_binding_currency_value (candidate_binding_current f))),
       (''repository_snapshot_current'',
          VStr (repository_snapshot_currency_value (repository_snapshot_current f))),
       (''repository_release_clean'', VStr (release_cleanliness_value (repository_release_clean f))),
       (''policy_context_current'', VStr (policy_context_currency_value (policy_context_current f))),
       (''evidence_context_status'', VStr (evidence_context_value (evidence_context_status f))),
       (''evidence_context_violations'',
          VList (map VStr (map evidence_violation_value (evidence_context_violations f)))),
       (''scope_status'', VStr (scope_value (scope_status f))),
       (''approval_status'', VStr (approval_value (approval_status f))),
       (''authority_status'', VStr (authority_value (authority_status f))),
       (''verifier_identity_status'', VStr (verifier_identity_value (verifier_identity_status f))),
       (''verifier_independence_status'',
          VStr (verifier_independence_value (verifier_independence_status f)))]
     @ map (\<lambda>(k, xs). (k, VList (map VStr xs))) (set_facts f)"

definition facts_to_json :: "eligibility_facts \<Rightarrow> pyval" where
  "facts_to_json f = dict_of (facts_items f)"

text \<open>The value of a key that is known to be present.\<close>

definition json_field :: "(pyval \<times> pyval) list \<Rightarrow> string \<Rightarrow> pyval" where
  "json_field kvs k = (case map_of kvs (VStr k) of None \<Rightarrow> VNone | Some v \<Rightarrow> v)"

text \<open>\<open>EligibilityFacts.from_json_dict\<close>: the fields in the order of the constructor call.\<close>

definition facts_from_json :: "pyval \<Rightarrow> exn + eligibility_facts" where
  "facts_from_json v =
     seqE (require_mapping ''EligibilityFacts'' v) (\<lambda>d.
     seqE (require_exact_keys ''EligibilityFacts'' facts_keys d) (\<lambda>_.
     seqE (require_enum ''TaskContextCurrency'' task_context_currency_members
       task_context_currency_value ''facts.task_context_current''
       (json_field d ''task_context_current'')) (\<lambda>tc.
     seqE (require_enum ''CandidateBindingCurrency'' candidate_binding_currency_members
       candidate_binding_currency_value ''facts.candidate_binding_current''
       (json_field d ''candidate_binding_current'')) (\<lambda>cb.
     seqE (require_enum ''RepositorySnapshotCurrency'' repository_snapshot_currency_members
       repository_snapshot_currency_value ''facts.repository_snapshot_current''
       (json_field d ''repository_snapshot_current'')) (\<lambda>rs.
     seqE (require_enum ''ReleaseCleanliness'' release_cleanliness_members
       release_cleanliness_value ''facts.repository_release_clean''
       (json_field d ''repository_release_clean'')) (\<lambda>rc.
     seqE (require_enum ''PolicyContextCurrency'' policy_context_currency_members
       policy_context_currency_value ''facts.policy_context_current''
       (json_field d ''policy_context_current'')) (\<lambda>pc.
     seqE (require_enum ''EvidenceContextStatus'' evidence_context_members
       evidence_context_value ''facts.evidence_context_status''
       (json_field d ''evidence_context_status'')) (\<lambda>ec.
     seqE (me_sorted_unique_enum_list ''EvidenceContextViolation'' evidence_violation_members
       evidence_violation_value ''facts.evidence_context_violations''
       (json_field d ''evidence_context_violations'')) (\<lambda>ev.
     seqE (require_enum ''ScopeStatus'' scope_members scope_value ''facts.scope_status''
       (json_field d ''scope_status'')) (\<lambda>sc.
     seqE (require_enum ''ApprovalStatus'' approval_members approval_value ''facts.approval_status''
       (json_field d ''approval_status'')) (\<lambda>ap.
     seqE (require_enum ''AuthorityStatus'' authority_members authority_value
       ''facts.authority_status'' (json_field d ''authority_status'')) (\<lambda>au.
     seqE (require_enum ''VerifierIdentityStatus'' verifier_identity_members
       verifier_identity_value ''facts.verifier_identity_status''
       (json_field d ''verifier_identity_status'')) (\<lambda>vi.
     seqE (require_enum ''VerifierIndependenceStatus'' verifier_independence_members
       verifier_independence_value ''facts.verifier_independence_status''
       (json_field d ''verifier_independence_status'')) (\<lambda>vd.
     seqE (mapE (\<lambda>k. me_sorted_unique_list (''facts.'' @ k) (json_field d k))
       (requirement_set_fields @ evidence_set_fields)) (\<lambda>ids.
       facts_init
         \<lparr>task_context_current = tc, candidate_binding_current = cb,
          repository_snapshot_current = rs, repository_release_clean = rc,
          policy_context_current = pc, evidence_context_status = ec,
          evidence_context_violations = ev, scope_status = sc, approval_status = ap,
          authority_status = au, verifier_identity_status = vi,
          verifier_independence_status = vd, required_requirement_ids = ids ! 0,
          satisfied_requirement_ids = ids ! 1, invalid_requirement_ids = ids ! 2,
          missing_requirement_ids = ids ! 3, rejected_evidence_ids = ids ! 4,
          invalid_provenance_evidence_ids = ids ! 5, unexpected_evidence_ids = ids ! 6\<rparr>)))))))))))))))"

section \<open>The committed bindings\<close>

definition POLICY_RECORD_SCHEMA_VERSION :: string where
  "POLICY_RECORD_SCHEMA_VERSION = ''changegate.policy-evaluation-record.v1''"

definition CANONICALIZATION_VERSION :: string where
  "CANONICALIZATION_VERSION = ''tomtit.canonical.v1''"

definition INPUT_PAYLOAD_KIND :: string where
  "INPUT_PAYLOAD_KIND = ''changegate.merge-eligibility-policy-input.test-oracle.v1''"

definition string_field :: "string \<Rightarrow> pyval" where
  "string_field g = dict_of [(''type'', VStr ''string''), (''grammar'', VStr g)]"

definition set_field :: "string \<Rightarrow> pyval" where
  "set_field u = dict_of [(''type'', VStr ''sorted_unique_list''), (''items_from'', VStr u)]"

definition typed_field_contract :: pyval where
  "typed_field_contract = dict_of
     [(''schema_version'', dict_of [(''type'', VStr ''const''), (''value'', VStr ''changegate.policy-evaluation-record.v1'')]),
      (''task_id'', string_field ''task_id''),
      (''task_contract_digest'', string_field ''canonical_digest''),
      (''candidate_digest'', string_field ''canonical_digest''),
      (''repository_snapshot_digest'', string_field ''canonical_digest''),
      (''verification_bundle_digest'', string_field ''canonical_digest''),
      (''approval_digest_or_sentinel'', dict_of [(''type'', VStr ''string''), (''grammar'', VStr ''canonical_digest_or_sentinel''), (''sentinel'', VStr ''NO_APPROVAL_SUPPLIED'')]),
      (''authority_binding_digest'', string_field ''canonical_digest''),
      (''verifier_binding_digest'', string_field ''canonical_digest''),
      (''policy_digest'', string_field ''canonical_digest''),
      (''policy_version'', string_field ''version''),
      (''evaluator_version'', string_field ''version''),
      (''evaluation_mode'', dict_of [(''type'', VStr ''enum''), (''values'', VList (map VStr [''ENFORCE'', ''SHADOW'']))]),
      (''input_digest'', string_field ''canonical_digest''),
      (''disposition'', dict_of [(''type'', VStr ''enum''), (''values'', VList (map VStr [''ELIGIBLE_TO_MERGE_UNDER_POLICY'', ''REVIEW_REQUIRED'', ''BLOCK'']))]),
      (''decision_authority'', dict_of [(''type'', VStr ''enum''), (''values'', VList (map VStr [''AUTHORITATIVE'', ''ADVISORY_ONLY'']))]),
      (''primary_reason_code'', dict_of [(''type'', VStr ''nullable_enum''), (''values_from'', VStr ''reason_taxonomy'')]),
      (''complete_reason_codes'', set_field ''reason_taxonomy''),
      (''blocking_reason_codes'', set_field ''reason_taxonomy''),
      (''review_reason_codes'', set_field ''reason_taxonomy''),
      (''required_requirement_ids'', set_field ''requirement_id_universe''),
      (''satisfied_requirement_ids'', set_field ''requirement_id_universe''),
      (''invalid_requirement_ids'', set_field ''requirement_id_universe''),
      (''missing_requirement_ids'', set_field ''requirement_id_universe''),
      (''rejected_evidence_ids'', set_field ''evidence_record_id_universe''),
      (''invalid_provenance_evidence_ids'', set_field ''evidence_record_id_universe''),
      (''unexpected_evidence_ids'', set_field ''evidence_record_id_universe''),
      (''decision_digest'', string_field ''canonical_digest'')]"

definition canonicalization_contract :: pyval where
  "canonicalization_contract = dict_of
     [(''kind'', VStr ''changegate.canonicalization-contract.v1''),
      (''encoding'', VStr ''UTF-8''), (''unicode_normalization'', VStr ''NFC''),
      (''object_keys'', VStr ''lexicographically sorted by the serializer; JSON insertion order is NOT semantic''),
      (''separators'', VStr (''compact ('' @ [CHR 0x27] @ '','' @ [CHR 0x27] @ '', '' @ [CHR 0x27] @ '':''
           @ [CHR 0x27] @ '')'')),
      (''non_finite_numbers'', VStr ''rejected (no NaN/Infinity)''),
      (''digest'', VStr ([CHR 0x27] @ ''sha256:'' @ [CHR 0x27]
           @ '' + 64 lowercase hex over the canonical JSON bytes'')),
      (''implementation'', VStr ''agent_core.build_harness.canonical.canonical_json_bytes/canonical_digest'')]"

text \<open>
  The two digests are computed when the module is imported; an exception there would leave no
  module to use, which the empty string stands for: no digest is empty.
\<close>

definition committed_digest :: "(string \<Rightarrow> string) \<Rightarrow> pyval \<Rightarrow> string" where
  "committed_digest nfc v = (case canonical_digest nfc v of Inl e \<Rightarrow> [] | Inr d \<Rightarrow> d)"

definition POLICY_RECORD_SCHEMA_DIGEST :: "(string \<Rightarrow> string) \<Rightarrow> string" where
  "POLICY_RECORD_SCHEMA_DIGEST nfc = committed_digest nfc typed_field_contract"

definition CANONICALIZATION_CONTRACT_DIGEST :: "(string \<Rightarrow> string) \<Rightarrow> string" where
  "CANONICALIZATION_CONTRACT_DIGEST nfc = committed_digest nfc canonicalization_contract"

section \<open>The policy input\<close>

text \<open>The eight source bindings that the input, the decision and the record carry.\<close>

record source_bindings =
  task_contract_digest :: string
  candidate_digest :: string
  repository_snapshot_digest :: string
  verification_bundle_digest :: string
  approval_digest_or_sentinel :: string
  authority_binding_digest :: string
  verifier_binding_digest :: string
  policy_digest :: string

definition binding_items :: "source_bindings \<Rightarrow> (string \<times> string) list" where
  "binding_items b =
     [(''task_contract_digest'', task_contract_digest b), (''candidate_digest'', candidate_digest b),
      (''repository_snapshot_digest'', repository_snapshot_digest b),
      (''verification_bundle_digest'', verification_bundle_digest b),
      (''approval_digest_or_sentinel'', approval_digest_or_sentinel b),
      (''authority_binding_digest'', authority_binding_digest b),
      (''verifier_binding_digest'', verifier_binding_digest b), (''policy_digest'', policy_digest b)]"

record merge_input =
  mi_task_id :: string
  mi_bindings :: source_bindings
  mi_policy_version :: string
  mi_evaluator_version :: string
  mi_mode :: evaluation_mode
  policy_record_schema_version :: string
  policy_record_schema_digest :: string
  canonicalization_version :: string
  canonicalization_contract_digest :: string
  mi_facts :: eligibility_facts

text \<open>Validating one source binding: a digest, or the sentinel for the approval.\<close>

definition require_binding :: "string \<Rightarrow> pyval \<Rightarrow> exn + string" where
  "require_binding k v =
     (if k = ''approval_digest_or_sentinel'' then me_require_digest_or_sentinel k v
      else me_require_digest k v)"

text \<open>\<open>MergeEligibilityPolicyInput.__post_init__\<close>.\<close>

definition merge_input_init :: "(string \<Rightarrow> string) \<Rightarrow> merge_input \<Rightarrow> exn + merge_input" where
  "merge_input_init nfc m =
     seqE (me_require_task_id ''task_id'' (VStr (mi_task_id m))) (\<lambda>_.
     seqE (mapE (\<lambda>(k, x). require_binding k (VStr x)) (binding_items (mi_bindings m))) (\<lambda>_.
     seqE (me_require_version ''policy_version'' (VStr (mi_policy_version m))) (\<lambda>_.
     seqE (me_require_version ''evaluator_version'' (VStr (mi_evaluator_version m))) (\<lambda>_.
     seqE (me_require_str ''policy_record_schema_version'' (VStr (policy_record_schema_version m))) (\<lambda>_.
     seqE (me_require_digest ''policy_record_schema_digest'' (VStr (policy_record_schema_digest m))) (\<lambda>_.
     seqE (me_require_str ''canonicalization_version'' (VStr (canonicalization_version m))) (\<lambda>_.
     seqE (me_require_digest ''canonicalization_contract_digest''
       (VStr (canonicalization_contract_digest m))) (\<lambda>_.
     seqE (raise_first
       [(policy_record_schema_version m \<noteq> POLICY_RECORD_SCHEMA_VERSION, MergeEligibilityInputError
           ''policy_record_schema_version must equal the committed constant''),
        (policy_record_schema_digest m \<noteq> POLICY_RECORD_SCHEMA_DIGEST nfc, MergeEligibilityInputError
           ''policy_record_schema_digest must equal the digest of the field contract''),
        (canonicalization_version m \<noteq> CANONICALIZATION_VERSION, MergeEligibilityInputError
           ''canonicalization_version must equal the committed constant''),
        (canonicalization_contract_digest m \<noteq> CANONICALIZATION_CONTRACT_DIGEST nfc,
           MergeEligibilityInputError
             ''canonicalization_contract_digest must equal the committed constant'')])
     (\<lambda>_. Inr m)))))))))"

definition policy_input_keys :: "string list" where
  "policy_input_keys =
     [''task_id'', ''task_contract_digest'', ''candidate_digest'', ''repository_snapshot_digest'',
      ''verification_bundle_digest'', ''approval_digest_or_sentinel'', ''authority_binding_digest'',
      ''verifier_binding_digest'', ''policy_digest'', ''policy_version'', ''evaluator_version'',
      ''evaluation_mode'', ''policy_record_schema_version'', ''policy_record_schema_digest'',
      ''canonicalization_version'', ''canonicalization_contract_digest'', ''facts'']"

definition source_binding_fields :: "string list" where
  "source_binding_fields =
     [''task_contract_digest'', ''candidate_digest'', ''repository_snapshot_digest'',
      ''verification_bundle_digest'', ''approval_digest_or_sentinel'', ''authority_binding_digest'',
      ''verifier_binding_digest'', ''policy_digest'']"

definition bindings_of :: "string list \<Rightarrow> source_bindings" where
  "bindings_of xs =
     \<lparr>task_contract_digest = xs ! 0, candidate_digest = xs ! 1, repository_snapshot_digest = xs ! 2,
      verification_bundle_digest = xs ! 3, approval_digest_or_sentinel = xs ! 4,
      authority_binding_digest = xs ! 5, verifier_binding_digest = xs ! 6, policy_digest = xs ! 7\<rparr>"

definition merge_input_from_json :: "(string \<Rightarrow> string) \<Rightarrow> pyval \<Rightarrow> exn + merge_input" where
  "merge_input_from_json nfc v =
     seqE (require_mapping ''MergeEligibilityPolicyInput'' v) (\<lambda>d.
     seqE (require_exact_keys ''MergeEligibilityPolicyInput'' policy_input_keys d) (\<lambda>_.
     seqE (me_require_task_id ''task_id'' (json_field d ''task_id'')) (\<lambda>t.
     seqE (mapE (\<lambda>k. require_binding k (json_field d k)) source_binding_fields) (\<lambda>bs.
     seqE (me_require_version ''policy_version'' (json_field d ''policy_version'')) (\<lambda>pv.
     seqE (me_require_version ''evaluator_version'' (json_field d ''evaluator_version'')) (\<lambda>ev.
     seqE (require_enum ''EvaluationMode'' evaluation_mode_members evaluation_mode_value
       ''evaluation_mode'' (json_field d ''evaluation_mode'')) (\<lambda>em.
     seqE (me_require_str ''policy_record_schema_version''
       (json_field d ''policy_record_schema_version'')) (\<lambda>sv.
     seqE (me_require_digest ''policy_record_schema_digest''
       (json_field d ''policy_record_schema_digest'')) (\<lambda>sd.
     seqE (me_require_str ''canonicalization_version'' (json_field d ''canonicalization_version'')) (\<lambda>cv.
     seqE (me_require_digest ''canonicalization_contract_digest''
       (json_field d ''canonicalization_contract_digest'')) (\<lambda>cd.
     seqE (facts_from_json (json_field d ''facts'')) (\<lambda>f.
       merge_input_init nfc
         \<lparr>mi_task_id = t, mi_bindings = bindings_of bs, mi_policy_version = pv,
          mi_evaluator_version = ev, mi_mode = em, policy_record_schema_version = sv,
          policy_record_schema_digest = sd, canonicalization_version = cv,
          canonicalization_contract_digest = cd, mi_facts = f\<rparr>))))))))))))"

text \<open>
  The canonical payload: a kind, and the entries that the reader takes.  The entries of a dictionary are
  not ordered by the payload.
\<close>

definition merge_input_items :: "merge_input \<Rightarrow> kwargs" where
  "merge_input_items m =
     [(''task_id'', VStr (mi_task_id m))]
     @ map (\<lambda>(k, x). (k, VStr x)) (binding_items (mi_bindings m))
     @ [(''policy_version'', VStr (mi_policy_version m)),
        (''evaluator_version'', VStr (mi_evaluator_version m)),
        (''evaluation_mode'', VStr (evaluation_mode_value (mi_mode m))),
        (''policy_record_schema_version'', VStr (policy_record_schema_version m)),
        (''policy_record_schema_digest'', VStr (policy_record_schema_digest m)),
        (''canonicalization_version'', VStr (canonicalization_version m)),
        (''canonicalization_contract_digest'', VStr (canonicalization_contract_digest m)),
        (''facts'', facts_to_json (mi_facts m))]"

definition merge_input_payload :: "merge_input \<Rightarrow> pyval" where
  "merge_input_payload m = dict_of ((''kind'', VStr INPUT_PAYLOAD_KIND) # merge_input_items m)"

definition input_digest :: "(string \<Rightarrow> string) \<Rightarrow> merge_input \<Rightarrow> exn + string" where
  "input_digest nfc m = canonical_digest nfc (merge_input_payload m)"

section \<open>What the validators accept\<close>

lemma me_reject_control_ok [simp]: "me_reject_control fld s = Inr u \<longleftrightarrow> \<not> list_ex control_char s"
  by (simp add: me_reject_control_def reject_control_characters_def)

lemma me_require_str_Inr:
  "me_require_str fld v = Inr s \<longleftrightarrow> v = VStr s \<and> \<not> blank s \<and> \<not> list_ex control_char s"
  by (cases v) (auto simp: me_require_str_def result_simps)

text \<open>Without control characters the dollar sign anchors at the end only.\<close>

lemma dollar_match_clean: "\<not> list_ex control_char s \<Longrightarrow> dollar_match P s \<longleftrightarrow> P s"
proof -
  assume "\<not> list_ex control_char s"
  then have "s = [] \<or> last s \<noteq> CHR 0x0A" by (cases s rule: rev_cases) (auto simp: control_char_def)
  then show ?thesis by (auto simp: dollar_match_def)
qed

lemma visible_text: "s \<noteq> [] \<Longrightarrow> list_all visible s \<Longrightarrow> \<not> blank s \<and> \<not> list_ex control_char s"
  using strip_visible [of s] by (auto simp: list_ex_iff list_all_iff visible_def control_char_def)

lemma require_pattern_iff:
  "require_pattern P fld v = Inr s \<longleftrightarrow> v = VStr s \<and> \<not> blank s \<and> \<not> list_ex control_char s \<and> P s"
proof -
  have "require_pattern P fld v = Inr s \<longleftrightarrow>
      v = VStr s \<and> \<not> blank s \<and> \<not> list_ex control_char s \<and> dollar_match P s"
    unfolding require_pattern_def seqE_Inr_iff me_require_str_Inr by (auto split: if_splits)
  then show ?thesis using dollar_match_clean [of s P] by blast
qed

lemma require_pattern_Inr:
  assumes "\<And>s. P s \<Longrightarrow> s \<noteq> [] \<and> list_all visible s"
  shows "require_pattern P fld v = Inr s \<longleftrightarrow> v = VStr s \<and> P s"
  unfolding require_pattern_iff using visible_text [of s] assms [of s] by blast

lemma token_visible: "task_id_grammar s \<Longrightarrow> s \<noteq> [] \<and> list_all visible s"
  by (auto simp: task_id_grammar_def first_rest_def ascii_lower_def ascii_upper_def ascii_digit_def
      between_def visible_def list_all_iff split: list.splits)

lemma digest_visible: "sha256_digest_grammar s \<Longrightarrow> s \<noteq> [] \<and> list_all visible s"
proof -
  assume "sha256_digest_grammar s"
  then obtain t where s: "s = ''sha256:'' @ t" and "list_all lower_hex t"
    by (auto simp: sha256_digest_grammar_def hex_grammar_def starts_with_prefix prefix_def)
  then have "list_all visible t"
    by (auto simp: list_all_iff lower_hex_def between_def visible_def dest!: bspec)
  with s show ?thesis by (simp add: visible_def)
qed

lemma me_require_Inr:
  "me_require_task_id fld v = Inr s \<longleftrightarrow> v = VStr s \<and> task_id_grammar s"
  "me_require_version fld v = Inr s \<longleftrightarrow> v = VStr s \<and> task_id_grammar s"
  "me_require_digest fld v = Inr s \<longleftrightarrow> v = VStr s \<and> sha256_digest_grammar s"
  unfolding me_require_task_id_def me_require_version_def me_require_digest_def
  using require_pattern_Inr token_visible digest_visible by metis+

lemma me_require_digest_or_sentinel_Inr:
  "me_require_digest_or_sentinel fld v = Inr s \<longleftrightarrow>
     v = VStr s \<and> (s = APPROVAL_SENTINEL \<or> sha256_digest_grammar s)"
proof -
  have "me_require_digest_or_sentinel fld v = Inr s \<longleftrightarrow>
      v = VStr s \<and> \<not> blank s \<and> \<not> list_ex control_char s \<and>
      (s = APPROVAL_SENTINEL \<or> dollar_match sha256_digest_grammar s)"
    unfolding me_require_digest_or_sentinel_def seqE_Inr_iff me_require_str_Inr
    by (auto split: if_splits)
  moreover have "\<not> blank APPROVAL_SENTINEL \<and> \<not> list_ex control_char APPROVAL_SENTINEL"
    by (rule visible_text) (simp_all add: APPROVAL_SENTINEL_def visible_def)
  ultimately show ?thesis
    using dollar_match_clean [of s sha256_digest_grammar] visible_text [of s] digest_visible [of s]
    by blast
qed

lemma me_require_ok [simp]:
  "task_id_grammar s \<Longrightarrow> me_require_task_id fld (VStr s) = Inr s"
  "task_id_grammar s \<Longrightarrow> me_require_version fld (VStr s) = Inr s"
  "sha256_digest_grammar s \<Longrightarrow> me_require_digest fld (VStr s) = Inr s"
  "s = APPROVAL_SENTINEL \<or> sha256_digest_grammar s \<Longrightarrow> me_require_digest_or_sentinel fld (VStr s) = Inr s"
  by (simp_all add: me_require_Inr me_require_digest_or_sentinel_Inr)

text \<open>A committed set of identifiers.\<close>

definition ids_ok :: "string list \<Rightarrow> bool" where
  "ids_ok xs \<longleftrightarrow> sorted_wrt (<) xs \<and> (\<forall>x \<in> set xs. x \<noteq> [] \<and> \<not> list_ex control_char x)"

lemma check_identifier_Inr:
  "check_identifier fld v = Inr s \<longleftrightarrow> v = VStr s \<and> s \<noteq> [] \<and> \<not> list_ex control_char s"
  by (cases v) (auto simp: check_identifier_def seqE_Inr_iff)

lemma check_sorted_unique_ok [simp]: "check_sorted_unique fld xs = Inr u \<longleftrightarrow> sorted_wrt (<) xs"
proof -
  have "xs = sort xs \<longleftrightarrow> sorted xs" by (metis sorted_sort sorted_sort_id)
  then show ?thesis by (auto simp: check_sorted_unique_def strict_sorted_iff)
qed

lemma mapE_check_identifier:
  "mapE (check_identifier fld) vs = Inr xs \<longleftrightarrow>
     vs = map VStr xs \<and> (\<forall>x \<in> set xs. x \<noteq> [] \<and> \<not> list_ex control_char x)"
proof (induction vs arbitrary: xs)
  case (Cons v vs)
  then show ?case by (cases xs) (auto simp: seqE_Inr_iff check_identifier_Inr)
qed auto

lemma me_sorted_unique_list_Inr:
  "me_sorted_unique_list fld v = Inr xs \<longleftrightarrow> v = VList (map VStr xs) \<and> ids_ok xs"
  by (cases v) (auto simp: me_sorted_unique_list_def seqE_Inr_iff mapE_check_identifier ids_ok_def)

lemma me_sorted_unique_list_ok [simp]:
  "ids_ok xs \<Longrightarrow> me_sorted_unique_list fld (VList (map VStr xs)) = Inr xs"
  by (simp add: me_sorted_unique_list_Inr)

lemma me_sorted_unique_strict_ok [simp]: "me_sorted_unique_strict fld xs = Inr u \<longleftrightarrow> ids_ok xs"
proof -
  have "mapE (\<lambda>x. check_identifier fld (VStr x)) xs = mapE (check_identifier fld) (map VStr xs)"
    by (induction xs) simp_all
  then show ?thesis
    by (auto simp: me_sorted_unique_strict_def seqE_Inr_iff mapE_check_identifier ids_ok_def
        dest: map_injective [OF _ injI])
qed

section \<open>The invariant of the facts\<close>

definition facts_ok :: "eligibility_facts \<Rightarrow> bool" where
  "facts_ok f \<longleftrightarrow>
     sorted_wrt (<) (map evidence_violation_value (evidence_context_violations f)) \<and>
     (\<forall>(k, xs) \<in> set (set_facts f). ids_ok xs) \<and>
     (evidence_context_violations f \<noteq> [] \<longleftrightarrow> evidence_context_status f = evidence_context.INCOHERENT) \<and>
     set (satisfied_requirement_ids f) \<inter> set (invalid_requirement_ids f) = {} \<and>
     set (satisfied_requirement_ids f) \<inter> set (missing_requirement_ids f) = {} \<and>
     set (invalid_requirement_ids f) \<inter> set (missing_requirement_ids f) = {} \<and>
     set (required_requirement_ids f) =
       set (satisfied_requirement_ids f) \<union> set (invalid_requirement_ids f) \<union> set (missing_requirement_ids f)"

lemma mapE_unit_ok: "(\<exists>us. mapE f xs = Inr us) \<longleftrightarrow> (\<forall>x \<in> set xs. \<exists>u. f x = Inr u)"
  by (induction xs) (auto simp: seqE_Inr_iff)

lemma facts_init_iff: "facts_init f = Inr g \<longleftrightarrow> g = f \<and> facts_ok f"
proof -
  have ids: "(\<exists>us. mapE (\<lambda>(k, xs). me_sorted_unique_strict (''facts.'' @ k) xs) (set_facts f) = Inr us)
      \<longleftrightarrow> (\<forall>(k, xs) \<in> set (set_facts f). ids_ok xs)"
    by (simp add: mapE_unit_ok case_prod_beta)
  show ?thesis
    unfolding facts_init_def Let_def seqE_Inr_iff ex_simps ids facts_ok_def by auto
qed

text \<open>Reading back what was written.\<close>

lemma json_field_dict [simp]:
  "json_field (map (\<lambda>(k, v). (VStr k, v)) kvs) k = (case map_of kvs k of None \<Rightarrow> VNone | Some v \<Rightarrow> v)"
  by (induction kvs) (auto simp: json_field_def)

lemma require_exact_keys_dict [simp]:
  "require_exact_keys m ks (map (\<lambda>(k, v). (VStr k, v)) kvs) = Inr u \<longleftrightarrow> fst ` set kvs = set ks"
  by (auto simp: require_exact_keys_def is_exact_str_def image_image case_prod_beta image_iff; force)

lemma violation_ids_ok [simp]:
  "ids_ok (map evidence_violation_value vs) \<longleftrightarrow> sorted_wrt (<) (map evidence_violation_value vs)"
proof -
  have "evidence_violation_value v \<noteq> [] \<and> \<not> list_ex control_char (evidence_violation_value v)" for v
    by (cases v) (simp_all add: control_char_def)
  then show ?thesis by (auto simp: ids_ok_def)
qed

lemma violations_round_trip:
  assumes "sorted_wrt (<) (map evidence_violation_value vs)"
  shows "me_sorted_unique_enum_list ''EvidenceContextViolation'' evidence_violation_members
    evidence_violation_value fld (VList (map VStr (map evidence_violation_value vs))) = Inr vs"
proof -
  have "mapE (\<lambda>x. require_enum ''EvidenceContextViolation'' evidence_violation_members
      evidence_violation_value fd (VStr x)) (map evidence_violation_value vs) = Inr vs" for fd
    by (induction vs) simp_all
  then show ?thesis using assms by (simp add: me_sorted_unique_enum_list_def del: map_map)
qed

lemmas set_fact_defs = set_facts_def requirement_set_fields_def evidence_set_fields_def

lemma facts_items_keys: "map fst (facts_items f) = facts_keys"
  by (simp add: facts_items_def facts_keys_def set_fact_defs)

lemma facts_items_enums:
  "map_of (facts_items f) ''task_context_current'' =
     Some (VStr (task_context_currency_value (task_context_current f)))"
  "map_of (facts_items f) ''candidate_binding_current'' =
     Some (VStr (candidate_binding_currency_value (candidate_binding_current f)))"
  "map_of (facts_items f) ''repository_snapshot_current'' =
     Some (VStr (repository_snapshot_currency_value (repository_snapshot_current f)))"
  "map_of (facts_items f) ''repository_release_clean'' =
     Some (VStr (release_cleanliness_value (repository_release_clean f)))"
  "map_of (facts_items f) ''policy_context_current'' =
     Some (VStr (policy_context_currency_value (policy_context_current f)))"
  "map_of (facts_items f) ''evidence_context_status'' =
     Some (VStr (evidence_context_value (evidence_context_status f)))"
  "map_of (facts_items f) ''evidence_context_violations'' =
     Some (VList (map VStr (map evidence_violation_value (evidence_context_violations f))))"
  "map_of (facts_items f) ''scope_status'' = Some (VStr (scope_value (scope_status f)))"
  "map_of (facts_items f) ''approval_status'' = Some (VStr (approval_value (approval_status f)))"
  "map_of (facts_items f) ''authority_status'' = Some (VStr (authority_value (authority_status f)))"
  "map_of (facts_items f) ''verifier_identity_status'' =
     Some (VStr (verifier_identity_value (verifier_identity_status f)))"
  "map_of (facts_items f) ''verifier_independence_status'' =
     Some (VStr (verifier_independence_value (verifier_independence_status f)))"
  by (simp_all add: facts_items_def)

lemma facts_items_sets:
  "map (\<lambda>k. map_of (facts_items f) k) (requirement_set_fields @ evidence_set_fields) =
     map (\<lambda>(k, xs). Some (VList (map VStr xs))) (set_facts f)"
  by (simp add: facts_items_def set_fact_defs)

lemma read_sets:
  assumes "facts_ok f"
  shows "mapE (\<lambda>k. me_sorted_unique_list (''facts.'' @ k)
      (case map_of (facts_items f) k of None \<Rightarrow> VNone | Some v \<Rightarrow> v))
    (requirement_set_fields @ evidence_set_fields) = Inr (map snd (set_facts f))"
proof -
  have "list_all ids_ok (map snd (set_facts f))"
    using assms by (auto simp: facts_ok_def list_all_iff)
  then show ?thesis by (simp add: facts_items_def set_fact_defs)
qed

lemma facts_round_trip:
  assumes "facts_ok f"
  shows "facts_from_json (facts_to_json f) = Inr f"
proof -
  have keys: "require_exact_keys ''EligibilityFacts'' facts_keys
      (map (\<lambda>(k, v). (VStr k, v)) (facts_items f)) = Inr ()"
    using arg_cong [OF facts_items_keys, of set f] by simp
  have vs: "sorted_wrt (<) (map evidence_violation_value (evidence_context_violations f))"
    using assms by (simp add: facts_ok_def)
  show ?thesis
    using assms
    by (simp add: facts_from_json_def facts_to_json_def dict_of_def require_mapping_def keys
        facts_items_enums read_sets [OF assms] violations_round_trip [OF vs] del: map_map append_Cons)
      (cases f, simp add: set_fact_defs facts_init_iff)
qed

lemma facts_from_json_ok: "facts_from_json v = Inr f \<Longrightarrow> facts_ok f"
  unfolding facts_from_json_def seqE_Inr_iff facts_init_iff by blast

section \<open>The invariant of the input\<close>

definition bindings_ok :: "source_bindings \<Rightarrow> bool" where
  "bindings_ok b \<longleftrightarrow>
     (\<forall>(k, x) \<in> set (binding_items b). sha256_digest_grammar x
        \<or> k = ''approval_digest_or_sentinel'' \<and> x = APPROVAL_SENTINEL)"

definition merge_input_ok :: "(string \<Rightarrow> string) \<Rightarrow> merge_input \<Rightarrow> bool" where
  "merge_input_ok nfc m \<longleftrightarrow>
     task_id_grammar (mi_task_id m) \<and> bindings_ok (mi_bindings m) \<and>
     task_id_grammar (mi_policy_version m) \<and> task_id_grammar (mi_evaluator_version m) \<and>
     policy_record_schema_version m = POLICY_RECORD_SCHEMA_VERSION \<and>
     policy_record_schema_digest m = POLICY_RECORD_SCHEMA_DIGEST nfc \<and>
     sha256_digest_grammar (policy_record_schema_digest m) \<and>
     canonicalization_version m = CANONICALIZATION_VERSION \<and>
     canonicalization_contract_digest m = CANONICALIZATION_CONTRACT_DIGEST nfc \<and>
     sha256_digest_grammar (canonicalization_contract_digest m)"

lemma require_binding_Inr:
  "require_binding k v = Inr s \<longleftrightarrow>
     v = VStr s \<and> (sha256_digest_grammar s \<or> k = ''approval_digest_or_sentinel'' \<and> s = APPROVAL_SENTINEL)"
  by (auto simp: require_binding_def me_require_Inr me_require_digest_or_sentinel_Inr)

lemma committed_versions_ok:
  "me_require_str fld (VStr s) = Inr s" if "s = POLICY_RECORD_SCHEMA_VERSION \<or> s = CANONICALIZATION_VERSION"
proof -
  have "s \<noteq> [] \<and> list_all visible s"
    using that by (auto simp: POLICY_RECORD_SCHEMA_VERSION_def CANONICALIZATION_VERSION_def visible_def)
  then show ?thesis using visible_text [of s] by (simp add: me_require_str_Inr)
qed

lemma merge_input_init_iff: "merge_input_init nfc m = Inr n \<longleftrightarrow> n = m \<and> merge_input_ok nfc m"
proof -
  have bs: "(\<exists>us. mapE (\<lambda>(k, x). require_binding k (VStr x)) (binding_items (mi_bindings m)) = Inr us)
      \<longleftrightarrow> bindings_ok (mi_bindings m)"
    by (auto simp: mapE_unit_ok case_prod_beta bindings_ok_def require_binding_Inr)
  show ?thesis
    unfolding merge_input_init_def seqE_Inr_iff ex_simps bs merge_input_ok_def me_require_Inr
    using committed_versions_ok by (auto simp: me_require_str_Inr)
qed

lemma merge_input_from_json_ok:
  "merge_input_from_json nfc v = Inr m \<Longrightarrow> merge_input_ok nfc m \<and> facts_ok (mi_facts m)"
  unfolding merge_input_from_json_def seqE_Inr_iff merge_input_init_iff
  by (elim exE conjE) (auto dest: facts_from_json_ok)

text \<open>The payload without its kind reads back as the input.\<close>

lemma binding_items_keys: "map fst (binding_items b) = source_binding_fields"
  by (simp add: binding_items_def source_binding_fields_def)

lemma merge_input_items_keys: "map fst (merge_input_items m) = policy_input_keys"
  by (simp add: merge_input_items_def policy_input_keys_def binding_items_def)

lemma merge_input_items_get:
  "map_of (merge_input_items m) ''task_id'' = Some (VStr (mi_task_id m))"
  "map_of (merge_input_items m) ''policy_version'' = Some (VStr (mi_policy_version m))"
  "map_of (merge_input_items m) ''evaluator_version'' = Some (VStr (mi_evaluator_version m))"
  "map_of (merge_input_items m) ''evaluation_mode'' = Some (VStr (evaluation_mode_value (mi_mode m)))"
  "map_of (merge_input_items m) ''policy_record_schema_version'' =
     Some (VStr (policy_record_schema_version m))"
  "map_of (merge_input_items m) ''policy_record_schema_digest'' =
     Some (VStr (policy_record_schema_digest m))"
  "map_of (merge_input_items m) ''canonicalization_version'' = Some (VStr (canonicalization_version m))"
  "map_of (merge_input_items m) ''canonicalization_contract_digest'' =
     Some (VStr (canonicalization_contract_digest m))"
  "map_of (merge_input_items m) ''facts'' = Some (facts_to_json (mi_facts m))"
  by (simp_all add: merge_input_items_def binding_items_def)

lemma read_bindings:
  assumes "bindings_ok (mi_bindings m)"
  shows "mapE (\<lambda>k. require_binding k
      (case map_of (merge_input_items m) k of None \<Rightarrow> VNone | Some v \<Rightarrow> v)) source_binding_fields =
    Inr (map snd (binding_items (mi_bindings m)))"
  using assms
  by (simp add: merge_input_items_def binding_items_def source_binding_fields_def bindings_ok_def
      require_binding_def disj_commute)

lemma bindings_of_items: "bindings_of (map snd (binding_items b)) = b"
  by (cases b) (simp add: bindings_of_def binding_items_def)

lemma merge_input_round_trip:
  assumes "merge_input_ok nfc m" and "facts_ok (mi_facts m)"
  shows "merge_input_from_json nfc (dict_of (merge_input_items m)) = Inr m"
proof -
  have keys: "require_exact_keys ''MergeEligibilityPolicyInput'' policy_input_keys
      (map (\<lambda>(k, v). (VStr k, v)) (merge_input_items m)) = Inr ()"
    using arg_cong [OF merge_input_items_keys, of set m] by simp
  have b: "bindings_ok (mi_bindings m)" using assms(1) by (simp add: merge_input_ok_def)
  have parts: "task_id_grammar (mi_task_id m)" "task_id_grammar (mi_policy_version m)"
    "task_id_grammar (mi_evaluator_version m)" "sha256_digest_grammar (policy_record_schema_digest m)"
    "sha256_digest_grammar (canonicalization_contract_digest m)"
    "me_require_str fld (VStr (policy_record_schema_version m)) = Inr (policy_record_schema_version m)"
    "me_require_str fld (VStr (canonicalization_version m)) = Inr (canonicalization_version m)" for fld
    using assms(1) committed_versions_ok by (auto simp: merge_input_ok_def)
  have "merge_input_from_json nfc (dict_of (merge_input_items m)) = merge_input_init nfc m"
    using facts_round_trip [OF assms(2)] parts
    by (simp add: merge_input_from_json_def dict_of_def require_mapping_def keys merge_input_items_get
        read_bindings [OF b] bindings_of_items) (cases m, simp)
  then show ?thesis using assms(1) by (simp add: merge_input_init_iff)
qed

text \<open>
  The payload also names its kind, a key that the reader does not know: the reader refuses the payload as it
  is written, and takes it back without that entry.
\<close>

definition without_kind :: "pyval \<Rightarrow> pyval" where
  "without_kind v = (case v of VDict kvs \<Rightarrow> VDict (filter (\<lambda>kv. fst kv \<noteq> VStr ''kind'') kvs) | _ \<Rightarrow> v)"

lemma merge_payload_refused:
  "merge_input_from_json nfc (merge_input_payload m) =
     Inl (MergeEligibilityInputError ''MergeEligibilityPolicyInput: unknown field(s)'')"
proof -
  let ?kvs = "(VStr ''kind'', VStr INPUT_PAYLOAD_KIND) # map (\<lambda>(k, v). (VStr k, v)) (merge_input_items m)"
  have keys: "fst ` set ?kvs = insert (VStr ''kind'') (VStr ` set policy_input_keys)"
  proof -
    have "fst ` set ?kvs = insert (VStr ''kind'') (set (map VStr (map fst (merge_input_items m))))"
      by (simp add: case_prod_beta image_image)
    then show ?thesis by (simp only: merge_input_items_keys set_map)
  qed
  have new: "''kind'' \<notin> set policy_input_keys" by (simp add: policy_input_keys_def)
  have str: "\<forall>kv \<in> set ?kvs. is_exact_str (fst kv)" by (auto simp: is_exact_str_def)
  have "require_exact_keys ''MergeEligibilityPolicyInput'' policy_input_keys ?kvs =
      Inl (MergeEligibilityInputError ''MergeEligibilityPolicyInput: unknown field(s)'')"
    unfolding require_exact_keys_def keys using new str by (auto simp del: list.set)
  then show ?thesis by (simp add: merge_input_from_json_def merge_input_payload_def dict_of_def require_mapping_def)
qed

lemma payload_without_kind: "without_kind (merge_input_payload m) = dict_of (merge_input_items m)"
proof -
  have "fst kv \<noteq> ''kind''" if "kv \<in> set (merge_input_items m)" for kv
  proof -
    have "fst kv \<in> set policy_input_keys" using that merge_input_items_keys [of m] by (metis image_eqI set_map)
    then show ?thesis by (auto simp: policy_input_keys_def)
  qed
  then show ?thesis
    by (force simp: without_kind_def merge_input_payload_def dict_of_def filter_id_conv)
qed

end
