(* ===== verification/Merge_Policy.thy ===== *)
theory Merge_Policy
  imports Merge_Input
begin

text \<open>
  The merge-eligibility policy and its evaluation (\<open>build_harness/merge_eligibility.py\<close>, second
  half): reason definitions, the verifier rule, the policy with its totality and closure checks,
  the production policy V1, the decision core with its consistency checks, and the evaluator.
  The lemmas show what the evaluator computes: the reasons that the facts trigger, sorted, split
  by their default disposition, with the reason of least rank as the primary one.
\<close>

section \<open>Identities, reasons and rules\<close>

record policy_identity =
  pid_version :: string
  pid_digest :: string

definition policy_identity_init :: "policy_identity \<Rightarrow> exn + policy_identity" where
  "policy_identity_init i =
     seqE (me_require_version ''policy_version'' (VStr (pid_version i))) (\<lambda>v.
     seqE (me_require_digest ''policy_digest'' (VStr (pid_digest i))) (\<lambda>d.
       Inr \<lparr>pid_version = v, pid_digest = d\<rparr>))"

definition evaluator_identity_init :: "string \<Rightarrow> exn + string" where
  "evaluator_identity_init v = me_require_version ''evaluator_version'' (VStr v)"

record reason_definition =
  code :: string
  precedence_rank :: int
  category :: string
  rd_kind :: string
  default_disposition :: disposition
  owner_decision_pending :: "string option"

definition reason_categories :: "string list" where
  "reason_categories =
     [''SCOPE'', ''REPO_STATE'', ''INDEPENDENCE'', ''EVIDENCE'', ''FRESHNESS'', ''INTEGRITY'',
      ''APPROVAL'', ''CONTEXT'']"

definition machine_code_grammar :: "string \<Rightarrow> bool" where
  "machine_code_grammar s =
     (case s of [] \<Rightarrow> False
      | c # cs \<Rightarrow> ascii_upper c \<and> list_all (\<lambda>x. ascii_upper x \<or> ascii_digit x \<or> x = CHR ''_'') cs)"

definition owner_decision_grammar :: "string \<Rightarrow> bool" where
  "owner_decision_grammar s =
     (starts_with ''OD-'' s \<and> drop 3 s \<noteq> []
      \<and> list_all (\<lambda>x. ascii_upper x \<or> ascii_digit x \<or> x = CHR ''-'') (drop 3 s))"

definition reason_definition_init :: "reason_definition \<Rightarrow> exn + reason_definition" where
  "reason_definition_init r =
     seqE (raise_first
       [(\<not> dollar_match machine_code_grammar (code r), MergeEligibilityInputError
           ''ReasonDefinition.code must match [A-Z][A-Z0-9_]*''),
        (precedence_rank r \<le> 0, MergeEligibilityInputError
           ''ReasonDefinition.precedence_rank must be positive''),
        (category r \<notin> set reason_categories, MergeEligibilityInputError
           ''ReasonDefinition.category is not a committed category''),
        (rd_kind r \<notin> {''FACTUAL'', ''SEMANTIC''}, MergeEligibilityInputError
           ''ReasonDefinition.kind is not a committed kind''),
        ((case owner_decision_pending r of None \<Rightarrow> False
          | Some d \<Rightarrow> \<not> dollar_match owner_decision_grammar d), MergeEligibilityInputError
           ''ReasonDefinition.owner_decision_pending must be None or match OD-*'')])
     (\<lambda>_. Inr r)"

text \<open>A rule row; \<open>None\<close> is the wildcard.\<close>

record rule_row =
  rr_identity :: "string list option"
  rr_independence :: "string list option"
  rr_reason :: "string option"

definition rule_row_init :: "rule_row \<Rightarrow> exn + rule_row" where
  "rule_row_init r =
     seqE (case rr_identity r of None \<Rightarrow> Inr []
           | Some xs \<Rightarrow> mapE (\<lambda>x. require_enum ''VerifierIdentityStatus'' verifier_identity_members
               verifier_identity_value ''verifier_rule.identity'' (VStr x)) xs) (\<lambda>_.
     seqE (case rr_independence r of None \<Rightarrow> Inr []
           | Some xs \<Rightarrow> mapE (\<lambda>x. require_enum ''VerifierIndependenceStatus''
               verifier_independence_members verifier_independence_value
               ''verifier_rule.independence'' (VStr x)) xs) (\<lambda>_.
       Inr r))"

definition row_matches :: "rule_row \<Rightarrow> string \<Rightarrow> string \<Rightarrow> bool" where
  "row_matches r i d =
     ((case rr_identity r of None \<Rightarrow> True | Some xs \<Rightarrow> i \<in> set xs) \<and>
      (case rr_independence r of None \<Rightarrow> True | Some xs \<Rightarrow> d \<in> set xs))"

section \<open>The policy\<close>

record merge_policy =
  declared_identity :: policy_identity
  reason_definitions :: "reason_definition list"
  enum_fact_reasons :: "(string \<times> (string \<times> string option) list) list"
  violation_tag_reasons :: "(string \<times> string) list"
  set_fact_triggers :: "(string \<times> string option) list"
  verifier_rule :: "rule_row list"

text \<open>The nine enum facts: their names with their values in a state of facts, and their domains.\<close>

definition enum_facts :: "eligibility_facts \<Rightarrow> (string \<times> string) list" where
  "enum_facts f =
     [(''task_context_current'', task_context_currency_value (task_context_current f)),
      (''candidate_binding_current'', candidate_binding_currency_value (candidate_binding_current f)),
      (''repository_snapshot_current'',
         repository_snapshot_currency_value (repository_snapshot_current f)),
      (''repository_release_clean'', release_cleanliness_value (repository_release_clean f)),
      (''policy_context_current'', policy_context_currency_value (policy_context_current f)),
      (''evidence_context_status'', evidence_context_value (evidence_context_status f)),
      (''scope_status'', scope_value (scope_status f)),
      (''approval_status'', approval_value (approval_status f)),
      (''authority_status'', authority_value (authority_status f))]"

definition enum_fact_fields :: "(string \<times> string list) list" where
  "enum_fact_fields =
     [(''task_context_current'', map task_context_currency_value task_context_currency_members),
      (''candidate_binding_current'',
         map candidate_binding_currency_value candidate_binding_currency_members),
      (''repository_snapshot_current'',
         map repository_snapshot_currency_value repository_snapshot_currency_members),
      (''repository_release_clean'', map release_cleanliness_value release_cleanliness_members),
      (''policy_context_current'', map policy_context_currency_value policy_context_currency_members),
      (''evidence_context_status'', map evidence_context_value evidence_context_members),
      (''scope_status'', map scope_value scope_members),
      (''approval_status'', map approval_value approval_members),
      (''authority_status'', map authority_value authority_members)]"

definition known_reason :: "string set \<Rightarrow> string option \<Rightarrow> bool" where
  "known_reason known c = (case c of None \<Rightarrow> True | Some x \<Rightarrow> x \<in> known)"

definition validate_fact_row ::
  "string set \<Rightarrow> string list \<Rightarrow> (string \<times> string option) list \<Rightarrow> exn + unit" where
  "validate_fact_row known vals row =
     raise_first
       [(fst ` set row \<noteq> set vals, MergeEligibilityInputError
           ''enum_fact_reasons row must be total over the closed enum domain''),
        (\<exists>kc \<in> set row. \<not> known_reason known (snd kc), MergeEligibilityInputError
           ''enum_fact_reasons references unknown reason code'')]"

definition get_row :: "(string \<times> (string \<times> 'a) list) list \<Rightarrow> string \<Rightarrow> (string \<times> 'a) list" where
  "get_row rows k = (case map_of rows k of None \<Rightarrow> [] | Some r \<Rightarrow> r)"

definition validate_enum_fact_reasons ::
  "string set \<Rightarrow> (string \<times> (string \<times> string option) list) list \<Rightarrow> exn + unit" where
  "validate_enum_fact_reasons known rows =
     (if fst ` set rows \<noteq> fst ` set enum_fact_fields
      then Inl (MergeEligibilityInputError
             ''enum_fact_reasons must have exactly the committed 9 enum-fact keys'')
      else seqE (mapE (\<lambda>(k, vals). validate_fact_row known vals (get_row rows k)) enum_fact_fields)
            (\<lambda>_. Inr ()))"

definition validate_violation_tag_reasons ::
  "string set \<Rightarrow> (string \<times> string) list \<Rightarrow> exn + unit" where
  "validate_violation_tag_reasons known rows =
     raise_first
       [(fst ` set rows \<noteq> evidence_violation_value ` set evidence_violation_members,
           MergeEligibilityInputError
             ''violation_tag_reasons must be total over the closed violation-tag domain''),
        (\<exists>kc \<in> set rows. snd kc \<notin> known, MergeEligibilityInputError
             ''violation_tag_reasons references unknown reason code'')]"

definition validate_set_fact_triggers ::
  "string set \<Rightarrow> (string \<times> string option) list \<Rightarrow> exn + unit" where
  "validate_set_fact_triggers known rows =
     raise_first
       [(fst ` set rows \<noteq> set (requirement_set_fields @ evidence_set_fields),
           MergeEligibilityInputError
             ''set_fact_triggers must have exactly the committed 7 set-fact keys''),
        (\<exists>kc \<in> set rows. \<not> known_reason known (snd kc), MergeEligibilityInputError
             ''set_fact_triggers references unknown reason code'')]"

definition verifier_rule_covers :: "rule_row list \<Rightarrow> bool" where
  "verifier_rule_covers rule =
     list_all (\<lambda>i. list_all (\<lambda>d.
        list_ex (\<lambda>r. row_matches r (verifier_identity_value i) (verifier_independence_value d)) rule)
      verifier_independence_members) verifier_identity_members"

definition merge_policy_init :: "merge_policy \<Rightarrow> exn + merge_policy" where
  "merge_policy_init p =
     (let codes = map code (reason_definitions p);
          ranks = map precedence_rank (reason_definitions p); known = set codes
      in seqE (raise_first
           [(\<not> distinct codes, MergeEligibilityInputError
               ''duplicate reason code in reason_definitions''),
            (\<not> distinct ranks, MergeEligibilityInputError
               ''duplicate precedence_rank in reason_definitions'')]) (\<lambda>_.
         seqE (validate_enum_fact_reasons known (enum_fact_reasons p)) (\<lambda>_.
         seqE (validate_violation_tag_reasons known (violation_tag_reasons p)) (\<lambda>_.
         seqE (validate_set_fact_triggers known (set_fact_triggers p)) (\<lambda>_.
         seqE (raise_first
           [(\<exists>r \<in> set (verifier_rule p). \<not> known_reason known (rr_reason r),
               MergeEligibilityInputError ''verifier_rule references unknown reason code''),
            (\<not> verifier_rule_covers (verifier_rule p), MergeEligibilityInputError
               ''verifier_rule must resolve all 12 combinations via first match'')])
         (\<lambda>_. Inr p))))))"

definition resolve_verifier_reason ::
  "merge_policy \<Rightarrow> string \<Rightarrow> string \<Rightarrow> exn + string option" where
  "resolve_verifier_reason p i d =
     (case find (\<lambda>r. row_matches r i d) (verifier_rule p) of
        Some r \<Rightarrow> Inr (rr_reason r)
      | None \<Rightarrow> Inl (MergeEligibilityInputError ''no verifier_rule row matches''))"

section \<open>The production policy\<close>

definition reason ::
  "string \<Rightarrow> int \<Rightarrow> string \<Rightarrow> string \<Rightarrow> disposition \<Rightarrow> string option \<Rightarrow> reason_definition" where
  "reason c r cat k d od =
     \<lparr>code = c, precedence_rank = r, category = cat, rd_kind = k, default_disposition = d,
      owner_decision_pending = od\<rparr>"

definition mk_row ::
  "string list option \<Rightarrow> string list option \<Rightarrow> string option \<Rightarrow> rule_row" where
  "mk_row i d c = \<lparr>rr_identity = i, rr_independence = d, rr_reason = c\<rparr>"

definition v1_reason_definitions :: "reason_definition list" where
  "v1_reason_definitions =
     [reason ''AUTHORITY_INVALID'' 10 ''INTEGRITY'' ''FACTUAL'' disposition.BLOCK None,
      reason ''REQUIRED_CONTEXT_INCOMPLETE'' 20 ''CONTEXT'' ''FACTUAL'' disposition.BLOCK None,
      reason ''EVIDENCE_TASK_MISMATCH'' 30 ''INTEGRITY'' ''FACTUAL'' disposition.BLOCK None,
      reason ''EVIDENCE_RUN_MISMATCH'' 40 ''INTEGRITY'' ''FACTUAL'' disposition.BLOCK None,
      reason ''EVIDENCE_CANDIDATE_MISMATCH'' 50 ''INTEGRITY'' ''FACTUAL'' disposition.BLOCK None,
      reason ''REPOSITORY_CONTEXT_MISMATCH'' 60 ''INTEGRITY'' ''FACTUAL'' disposition.BLOCK None,
      reason ''EVIDENCE_PROVENANCE_INVALID'' 70 ''INTEGRITY'' ''FACTUAL'' disposition.BLOCK None,
      reason ''EVIDENCE_DUPLICATE_IDENTITY'' 80 ''INTEGRITY'' ''FACTUAL'' disposition.BLOCK None,
      reason ''REQUIRED_EVIDENCE_INVALID'' 90 ''EVIDENCE'' ''FACTUAL'' disposition.BLOCK None,
      reason ''TASK_CONTEXT_STALE'' 95 ''FRESHNESS'' ''FACTUAL'' disposition.BLOCK None,
      reason ''CANDIDATE_STALE'' 100 ''FRESHNESS'' ''FACTUAL'' disposition.BLOCK None,
      reason ''POLICY_CONTEXT_STALE'' 110 ''FRESHNESS'' ''FACTUAL'' disposition.BLOCK None,
      reason ''REQUIRED_EVIDENCE_MISSING'' 120 ''EVIDENCE'' ''FACTUAL'' disposition.BLOCK None,
      reason ''RELEASE_STATE_NOT_CLEAN'' 130 ''REPO_STATE'' ''FACTUAL'' disposition.BLOCK None,
      reason ''SCOPE_VIOLATION'' 140 ''SCOPE'' ''FACTUAL'' disposition.BLOCK None,
      reason ''APPROVAL_MISSING'' 150 ''APPROVAL'' ''FACTUAL'' disposition.BLOCK (Some ''OD-S1A-001''),
      reason ''APPROVAL_STALE'' 160 ''APPROVAL'' ''FACTUAL'' disposition.BLOCK (Some ''OD-S1A-002''),
      reason ''VERIFIER_NOT_INDEPENDENT'' 170 ''INDEPENDENCE'' ''FACTUAL'' disposition.BLOCK None,
      reason ''SCOPE_UNCERTAIN'' 180 ''SCOPE'' ''SEMANTIC'' disposition.REVIEW_REQUIRED None,
      reason ''VERIFIER_INDEPENDENCE_UNKNOWN'' 190 ''INDEPENDENCE'' ''SEMANTIC'' disposition.REVIEW_REQUIRED (Some ''OD-S1A-003'')]"

definition v1_enum_fact_reasons :: "(string \<times> (string \<times> string option) list) list" where
  "v1_enum_fact_reasons =
     [(''task_context_current'',
        [(''CURRENT'', None),
         (''STALE'', Some ''TASK_CONTEXT_STALE''),
         (''UNKNOWN'', Some ''REQUIRED_CONTEXT_INCOMPLETE'')]),
      (''candidate_binding_current'',
        [(''CURRENT'', None),
         (''STALE'', Some ''CANDIDATE_STALE''),
         (''UNKNOWN'', Some ''REQUIRED_CONTEXT_INCOMPLETE'')]),
      (''repository_snapshot_current'',
        [(''CURRENT'', None),
         (''MISMATCH'', Some ''REPOSITORY_CONTEXT_MISMATCH''),
         (''UNKNOWN'', Some ''REQUIRED_CONTEXT_INCOMPLETE'')]),
      (''repository_release_clean'',
        [(''CLEAN'', None),
         (''DIRTY'', Some ''RELEASE_STATE_NOT_CLEAN''),
         (''UNKNOWN'', Some ''REQUIRED_CONTEXT_INCOMPLETE'')]),
      (''policy_context_current'',
        [(''CURRENT'', None),
         (''STALE'', Some ''POLICY_CONTEXT_STALE''),
         (''UNKNOWN'', Some ''REQUIRED_CONTEXT_INCOMPLETE'')]),
      (''evidence_context_status'',
        [(''COHERENT'', None),
         (''INCOHERENT'', None),
         (''UNKNOWN'', Some ''REQUIRED_CONTEXT_INCOMPLETE'')]),
      (''scope_status'',
        [(''COMPLIANT'', None),
         (''VIOLATION'', Some ''SCOPE_VIOLATION''),
         (''SEMANTIC_UNCERTAIN'', Some ''SCOPE_UNCERTAIN''),
         (''NOT_EVALUATED'', Some ''REQUIRED_CONTEXT_INCOMPLETE'')]),
      (''approval_status'',
        [(''VALID'', None),
         (''MISSING'', Some ''APPROVAL_MISSING''),
         (''STALE'', Some ''APPROVAL_STALE''),
         (''UNKNOWN'', Some ''APPROVAL_MISSING'')]),
      (''authority_status'',
        [(''VALID'', None),
         (''INVALID'', Some ''AUTHORITY_INVALID''),
         (''UNKNOWN'', Some ''REQUIRED_CONTEXT_INCOMPLETE'')])]"

definition v1_violation_tag_reasons :: "(string \<times> string) list" where
  "v1_violation_tag_reasons =
     [(''TASK_MISMATCH'', ''EVIDENCE_TASK_MISMATCH''),
      (''RUN_MISMATCH'', ''EVIDENCE_RUN_MISMATCH''),
      (''CANDIDATE_MISMATCH'', ''EVIDENCE_CANDIDATE_MISMATCH''),
      (''PROVENANCE_INVALID'', ''EVIDENCE_PROVENANCE_INVALID''),
      (''DUPLICATE_IDENTITY'', ''EVIDENCE_DUPLICATE_IDENTITY'')]"

definition v1_set_fact_triggers :: "(string \<times> string option) list" where
  "v1_set_fact_triggers =
     [(''required_requirement_ids'', None),
      (''satisfied_requirement_ids'', None),
      (''missing_requirement_ids'', Some ''REQUIRED_EVIDENCE_MISSING''),
      (''invalid_requirement_ids'', Some ''REQUIRED_EVIDENCE_INVALID''),
      (''invalid_provenance_evidence_ids'', Some ''EVIDENCE_PROVENANCE_INVALID''),
      (''rejected_evidence_ids'', None),
      (''unexpected_evidence_ids'', None)]"

definition v1_verifier_rule :: "rule_row list" where
  "v1_verifier_rule =
     [mk_row (Some [''INVALID'']) None (Some ''AUTHORITY_INVALID''),
      mk_row (Some [''ABSENT'']) None (Some ''REQUIRED_CONTEXT_INCOMPLETE''),
      mk_row (Some [''ATTESTED'', ''PRESENT_UNATTESTED'']) (Some [''NOT_INDEPENDENT'']) (Some ''VERIFIER_NOT_INDEPENDENT''),
      mk_row (Some [''ATTESTED'']) (Some [''INDEPENDENT'']) None,
      mk_row (Some [''ATTESTED'']) (Some [''UNKNOWN'']) (Some ''VERIFIER_INDEPENDENCE_UNKNOWN''),
      mk_row (Some [''PRESENT_UNATTESTED'']) (Some [''INDEPENDENT'', ''UNKNOWN'']) (Some ''VERIFIER_INDEPENDENCE_UNKNOWN'')]"

definition MERGE_ELIGIBILITY_POLICY_V1 :: merge_policy where
  "MERGE_ELIGIBILITY_POLICY_V1 =
     \<lparr>declared_identity =
        \<lparr>pid_version = ''changegate-merge-eligibility-policy.v2-draft'',
         pid_digest = ''sha256:88304ee85d7d10c2124d75b0de11cb8d8f91a8707945cabc651c0cbdedc71934''\<rparr>,
      reason_definitions = v1_reason_definitions, enum_fact_reasons = v1_enum_fact_reasons,
      violation_tag_reasons = v1_violation_tag_reasons,
      set_fact_triggers = v1_set_fact_triggers, verifier_rule = v1_verifier_rule\<rparr>"

section \<open>The decision core\<close>

abbreviation MergeEligibilityEvaluationError :: "string \<Rightarrow> exn" where
  "MergeEligibilityEvaluationError m \<equiv> Exn ''MergeEligibilityEvaluationError'' m"

text \<open>The seven identifier sets that the decision and the record repeat from the facts.\<close>

record accounting =
  acc_required :: "string list"
  acc_satisfied :: "string list"
  acc_invalid :: "string list"
  acc_missing :: "string list"
  acc_rejected :: "string list"
  acc_invalid_provenance :: "string list"
  acc_unexpected :: "string list"

definition accounting_items :: "accounting \<Rightarrow> (string \<times> string list) list" where
  "accounting_items a =
     zip (requirement_set_fields @ evidence_set_fields)
       [acc_required a, acc_satisfied a, acc_invalid a, acc_missing a, acc_rejected a,
        acc_invalid_provenance a, acc_unexpected a]"

definition facts_accounting :: "eligibility_facts \<Rightarrow> accounting" where
  "facts_accounting f =
     \<lparr>acc_required = required_requirement_ids f, acc_satisfied = satisfied_requirement_ids f,
      acc_invalid = invalid_requirement_ids f, acc_missing = missing_requirement_ids f,
      acc_rejected = rejected_evidence_ids f,
      acc_invalid_provenance = invalid_provenance_evidence_ids f,
      acc_unexpected = unexpected_evidence_ids f\<rparr>"

record decision_core =
  dc_disposition :: disposition
  dc_authority :: decision_authority
  primary_reason_code :: "string option"
  complete_reason_codes :: "string list"
  blocking_reason_codes :: "string list"
  review_reason_codes :: "string list"
  dc_accounting :: accounting

definition require_code_tuple :: "string \<Rightarrow> string list \<Rightarrow> exn + unit" where
  "require_code_tuple fld xs =
     raise_first
       [([] \<in> set xs, MergeEligibilityEvaluationError
           (''DecisionCore.'' @ fld @ ''[] must be a non-empty string'')),
        (xs \<noteq> sort xs, MergeEligibilityEvaluationError
           (''DecisionCore.'' @ fld @ '' must be lexicographically sorted'')),
        (\<not> distinct xs, MergeEligibilityEvaluationError
           (''DecisionCore.'' @ fld @ '' must not contain duplicate entries''))]"

text \<open>The disposition follows from the partitions.\<close>

definition derived_disposition :: "string list \<Rightarrow> string list \<Rightarrow> disposition" where
  "derived_disposition blocking review =
     (if blocking \<noteq> [] then disposition.BLOCK
      else if review \<noteq> [] then disposition.REVIEW_REQUIRED
      else disposition.ELIGIBLE_TO_MERGE_UNDER_POLICY)"

definition decision_core_init :: "decision_core \<Rightarrow> exn + decision_core" where
  "decision_core_init c =
     (let complete = complete_reason_codes c; blocking = blocking_reason_codes c;
          review = review_reason_codes c
      in seqE (require_code_tuple ''complete_reason_codes'' complete) (\<lambda>_.
         seqE (require_code_tuple ''blocking_reason_codes'' blocking) (\<lambda>_.
         seqE (require_code_tuple ''review_reason_codes'' review) (\<lambda>_.
         seqE (mapE (\<lambda>(k, xs). require_code_tuple k xs) (accounting_items (dc_accounting c))) (\<lambda>_.
         seqE (raise_first
           [(set blocking \<inter> set review \<noteq> {}, MergeEligibilityEvaluationError
               ''blocking and review partitions must be disjoint''),
            (\<not> set blocking \<subseteq> set complete \<or> \<not> set review \<subseteq> set complete,
               MergeEligibilityEvaluationError ''partitions must be subsets of the complete set''),
            (set blocking \<union> set review \<noteq> set complete, MergeEligibilityEvaluationError
               ''partitions must exactly cover the complete reason set''),
            (primary_reason_code c = None \<and> complete \<noteq> [], MergeEligibilityEvaluationError
               ''primary_reason_code may be None only when the complete reason set is empty''),
            ((case primary_reason_code c of None \<Rightarrow> False | Some x \<Rightarrow> complete = []),
               MergeEligibilityEvaluationError
                 ''primary_reason_code must be None when the complete reason set is empty''),
            ((case primary_reason_code c of None \<Rightarrow> False | Some x \<Rightarrow> x \<notin> set complete),
               MergeEligibilityEvaluationError
                 ''primary_reason_code must be a member of the complete reason set''),
            (dc_disposition c \<noteq> derived_disposition blocking review, MergeEligibilityEvaluationError
               ''disposition must be derived from the reason partitions'')])
         (\<lambda>_. Inr c))))))"

section \<open>The evaluator\<close>

definition key_error :: "string \<Rightarrow> exn" where
  "key_error k = Exn ''KeyError'' k"

definition enum_fact_codes :: "merge_policy \<Rightarrow> eligibility_facts \<Rightarrow> exn + string option list" where
  "enum_fact_codes p f =
     mapE (\<lambda>(fn, row).
       case map_of (enum_facts f) fn of
         None \<Rightarrow> Inl (Exn ''AttributeError'' fn)
       | Some v \<Rightarrow> (case map_of row v of None \<Rightarrow> Inl (key_error v) | Some c \<Rightarrow> Inr c))
     (enum_fact_reasons p)"

definition violation_codes :: "merge_policy \<Rightarrow> eligibility_facts \<Rightarrow> exn + string list" where
  "violation_codes p f =
     mapE (\<lambda>tag.
       case map_of (violation_tag_reasons p) (evidence_violation_value tag) of
         None \<Rightarrow> Inl (key_error (evidence_violation_value tag)) | Some c \<Rightarrow> Inr c)
     (evidence_context_violations f)"

definition trigger_codes :: "merge_policy \<Rightarrow> eligibility_facts \<Rightarrow> exn + string option list" where
  "trigger_codes p f =
     mapE (\<lambda>(fn, c).
       case c of None \<Rightarrow> Inr None
       | Some x \<Rightarrow> (case map_of (set_facts f) fn of
                      None \<Rightarrow> Inl (Exn ''AttributeError'' fn)
                    | Some xs \<Rightarrow> Inr (if xs = [] then None else Some x)))
     (set_fact_triggers p)"

text \<open>All reasons in the order they are added to the set.\<close>

definition collect_reasons :: "merge_policy \<Rightarrow> eligibility_facts \<Rightarrow> exn + string list" where
  "collect_reasons p f =
     seqE (enum_fact_codes p f) (\<lambda>es.
     seqE (violation_codes p f) (\<lambda>vs.
     seqE (trigger_codes p f) (\<lambda>ts.
     seqE (resolve_verifier_reason p (verifier_identity_value (verifier_identity_status f))
             (verifier_independence_value (verifier_independence_status f))) (\<lambda>r.
       Inr (List.map_filter id es @ vs @ List.map_filter id ts @ List.map_filter id [r])))))"

definition find_reason :: "merge_policy \<Rightarrow> string \<Rightarrow> reason_definition option" where
  "find_reason p c = find (\<lambda>r. code r = c) (reason_definitions p)"

definition has_disposition :: "merge_policy \<Rightarrow> disposition \<Rightarrow> string \<Rightarrow> bool" where
  "has_disposition p d c =
     (case find_reason p c of None \<Rightarrow> False | Some r \<Rightarrow> default_disposition r = d)"

definition rank_of :: "merge_policy \<Rightarrow> string \<Rightarrow> int" where
  "rank_of p c = (case find_reason p c of None \<Rightarrow> 0 | Some r \<Rightarrow> precedence_rank r)"

definition choose_primary :: "merge_policy \<Rightarrow> string list \<Rightarrow> exn + string option" where
  "choose_primary p complete =
     (if complete = [] then Inr None
      else case filter (\<lambda>c. rank_of p c = Min (rank_of p ` set complete)) complete of
             [c] \<Rightarrow> Inr (Some c)
           | _ \<Rightarrow> Inl (MergeEligibilityEvaluationError ''primary reason selection is ambiguous''))"

fun authority_of :: "evaluation_mode \<Rightarrow> decision_authority" where
  "authority_of evaluation_mode.ENFORCE = decision_authority.AUTHORITATIVE"
| "authority_of evaluation_mode.SHADOW = decision_authority.ADVISORY_ONLY"

definition evaluate_decision_core :: "merge_input \<Rightarrow> merge_policy \<Rightarrow> exn + decision_core" where
  "evaluate_decision_core m p =
     seqE (collect_reasons p (mi_facts m)) (\<lambda>reasons.
       let complete = sort (remdups reasons);
           blocking = filter (has_disposition p disposition.BLOCK) complete;
           review = filter (has_disposition p disposition.REVIEW_REQUIRED) complete
       in seqE (raise_first
            [(\<exists>c \<in> set reasons. find_reason p c = None, MergeEligibilityEvaluationError
                ''evaluator collected a reason absent from policy definitions''),
             (length blocking + length review \<noteq> length complete, MergeEligibilityEvaluationError
                ''collected reason neither blocks nor reviews'')]) (\<lambda>_.
          seqE (choose_primary p complete) (\<lambda>primary.
            decision_core_init
              \<lparr>dc_disposition = derived_disposition blocking review,
               dc_authority = authority_of (mi_mode m), primary_reason_code = primary,
               complete_reason_codes = complete, blocking_reason_codes = blocking,
               review_reason_codes = review, dc_accounting = facts_accounting (mi_facts m)\<rparr>)))"

section \<open>A validated policy\<close>

text \<open>
  The mappings of a policy are dictionaries: no key occurs twice.  A policy object holds only
  reasons, rows and an identity that their own constructors accepted.
\<close>

definition policy_dicts :: "merge_policy \<Rightarrow> bool" where
  "policy_dicts p \<longleftrightarrow>
     distinct (map fst (enum_fact_reasons p)) \<and>
     (\<forall>(k, row) \<in> set (enum_fact_reasons p). distinct (map fst row)) \<and>
     distinct (map fst (violation_tag_reasons p)) \<and> distinct (map fst (set_fact_triggers p))"

definition merge_policy_ok :: "merge_policy \<Rightarrow> bool" where
  "merge_policy_ok p \<longleftrightarrow>
     policy_dicts p \<and> merge_policy_init p = Inr p \<and>
     policy_identity_init (declared_identity p) = Inr (declared_identity p) \<and>
     (\<forall>r \<in> set (reason_definitions p). reason_definition_init r = Inr r) \<and>
     (\<forall>r \<in> set (verifier_rule p). rule_row_init r = Inr r)"

abbreviation known_codes :: "merge_policy \<Rightarrow> string set" where
  "known_codes p \<equiv> code ` set (reason_definitions p)"

lemma validate_fact_row_ok [simp]:
  "validate_fact_row known vals row = Inr u \<longleftrightarrow>
     fst ` set row = set vals \<and> (\<forall>kc \<in> set row. known_reason known (snd kc))"
  by (auto simp: validate_fact_row_def)

lemma validate_enum_fact_reasons_ok:
  "validate_enum_fact_reasons known rows = Inr u \<longleftrightarrow>
     fst ` set rows = fst ` set enum_fact_fields \<and>
     (\<forall>(k, vals) \<in> set enum_fact_fields. fst ` set (get_row rows k) = set vals \<and>
        (\<forall>kc \<in> set (get_row rows k). known_reason known (snd kc)))"
  using mapE_unit_ok [of "\<lambda>(k, vals). validate_fact_row known vals (get_row rows k)" enum_fact_fields]
  by (simp add: validate_enum_fact_reasons_def seqE_Inr_iff case_prod_beta)

lemma policy_init_iff:
  "merge_policy_init p = Inr q \<longleftrightarrow> q = p \<and>
     distinct (map code (reason_definitions p)) \<and> distinct (map precedence_rank (reason_definitions p)) \<and>
     fst ` set (enum_fact_reasons p) = fst ` set enum_fact_fields \<and>
     (\<forall>(k, vals) \<in> set enum_fact_fields. fst ` set (get_row (enum_fact_reasons p) k) = set vals \<and>
        (\<forall>kc \<in> set (get_row (enum_fact_reasons p) k). known_reason (known_codes p) (snd kc))) \<and>
     fst ` set (violation_tag_reasons p) = evidence_violation_value ` set evidence_violation_members \<and>
     (\<forall>kc \<in> set (violation_tag_reasons p). snd kc \<in> known_codes p) \<and>
     fst ` set (set_fact_triggers p) = set (requirement_set_fields @ evidence_set_fields) \<and>
     (\<forall>kc \<in> set (set_fact_triggers p). known_reason (known_codes p) (snd kc)) \<and>
     (\<forall>r \<in> set (verifier_rule p). known_reason (known_codes p) (rr_reason r)) \<and>
     verifier_rule_covers (verifier_rule p)"
  unfolding merge_policy_init_def Let_def seqE_Inr_iff validate_enum_fact_reasons_ok
  by (auto simp: validate_violation_tag_reasons_def validate_set_fact_triggers_def)

text \<open>When the facts trigger a reason.\<close>

definition triggered :: "merge_policy \<Rightarrow> eligibility_facts \<Rightarrow> string \<Rightarrow> bool" where
  "triggered p f c \<longleftrightarrow>
     (\<exists>fn row v. (fn, row) \<in> set (enum_fact_reasons p) \<and> (fn, v) \<in> set (enum_facts f) \<and>
        map_of row v = Some (Some c)) \<or>
     (\<exists>tag \<in> set (evidence_context_violations f).
        map_of (violation_tag_reasons p) (evidence_violation_value tag) = Some c) \<or>
     (\<exists>fn xs. (fn, Some c) \<in> set (set_fact_triggers p) \<and> (fn, xs) \<in> set (set_facts f) \<and> xs \<noteq> []) \<or>
     resolve_verifier_reason p (verifier_identity_value (verifier_identity_status f))
       (verifier_independence_value (verifier_independence_status f)) = Inr (Some c)"

lemma enum_facts_domain: "(fn, v) \<in> set (enum_facts f) \<Longrightarrow> \<exists>vals. (fn, vals) \<in> set enum_fact_fields \<and> v \<in> set vals"
  unfolding enum_facts_def enum_fact_fields_def
  using task_context_currency_enum.member candidate_binding_currency_enum.member
    repository_snapshot_currency_enum.member release_cleanliness_enum.member
    policy_context_currency_enum.member evidence_context_enum.member scope_enum.member
    approval_enum.member authority_enum.member
  by fastforce

lemma enum_facts_keys: "map fst (enum_facts f) = map fst enum_fact_fields"
  by (simp add: enum_facts_def enum_fact_fields_def)

lemma enum_facts_distinct: "distinct (map fst (enum_facts f))" "distinct (map fst enum_fact_fields)"
  by (simp_all add: enum_facts_def enum_fact_fields_def)

lemma set_facts_keys: "map fst (set_facts f) = requirement_set_fields @ evidence_set_fields"
  by (simp add: set_fact_defs)

lemma set_facts_distinct: "distinct (map fst (set_facts f))"
  by (simp add: set_fact_defs)

lemma set_map_filter_id: "set (List.map_filter id ys) = {c. Some c \<in> set ys}"
  by (force simp: List.map_filter_def)

lemma key_lookup: "k \<in> fst ` set kvs \<Longrightarrow> \<exists>v. map_of kvs k = Some v"
  by (metis map_of_eq_None_iff not_None_eq)

lemma merge_policy_okD:
  assumes "merge_policy_ok p"
  shows "distinct (map fst (enum_fact_reasons p))" and "distinct (map code (reason_definitions p))"
    and "distinct (map precedence_rank (reason_definitions p))"
    and "fst ` set (enum_fact_reasons p) = fst ` set enum_fact_fields"
    and "(k, vals) \<in> set enum_fact_fields \<Longrightarrow> fst ` set (get_row (enum_fact_reasons p) k) = set vals"
    and "(k, vals) \<in> set enum_fact_fields \<Longrightarrow> (v, c) \<in> set (get_row (enum_fact_reasons p) k)
      \<Longrightarrow> known_reason (known_codes p) c"
    and "evidence_violation_value tag \<in> fst ` set (violation_tag_reasons p)"
    and "(t, d) \<in> set (violation_tag_reasons p) \<Longrightarrow> d \<in> known_codes p"
    and "fst ` set (set_fact_triggers p) = fst ` set (set_facts f)"
    and "(s, Some d) \<in> set (set_fact_triggers p) \<Longrightarrow> d \<in> known_codes p"
    and "r \<in> set (verifier_rule p) \<Longrightarrow> known_reason (known_codes p) (rr_reason r)"
    and "verifier_rule_covers (verifier_rule p)"
proof -
  have i: "policy_dicts p" "merge_policy_init p = Inr p" using assms by (auto simp: merge_policy_ok_def)
  show "distinct (map fst (enum_fact_reasons p))" using i(1) by (simp add: policy_dicts_def)
  note c = i(2) [unfolded policy_init_iff, THEN conjunct2]
  note c1 = c [THEN conjunct1] and c = c [THEN conjunct2]
  note c2 = c [THEN conjunct1] and c = c [THEN conjunct2]
  note c3 = c [THEN conjunct1] and c = c [THEN conjunct2]
  note c4 = c [THEN conjunct1] and c = c [THEN conjunct2]
  note c5 = c [THEN conjunct1] and c = c [THEN conjunct2]
  note c6 = c [THEN conjunct1] and c = c [THEN conjunct2]
  note c7 = c [THEN conjunct1] and c = c [THEN conjunct2]
  note c8 = c [THEN conjunct1] and c = c [THEN conjunct2]
  show "distinct (map code (reason_definitions p))" by (rule c1)
  show "distinct (map precedence_rank (reason_definitions p))" by (rule c2)
  show "fst ` set (enum_fact_reasons p) = fst ` set enum_fact_fields" by (rule c3)
  show "(k, vals) \<in> set enum_fact_fields \<Longrightarrow> fst ` set (get_row (enum_fact_reasons p) k) = set vals"
    "(k, vals) \<in> set enum_fact_fields \<Longrightarrow> (v, c) \<in> set (get_row (enum_fact_reasons p) k)
      \<Longrightarrow> known_reason (known_codes p) c"
    using c4 by fastforce+
  show "evidence_violation_value tag \<in> fst ` set (violation_tag_reasons p)"
    using c5 evidence_violation_enum.member [of tag] by simp
  show "(t, d) \<in> set (violation_tag_reasons p) \<Longrightarrow> d \<in> known_codes p" using c6 by force
  have "fst ` set (set_facts f) = set (requirement_set_fields @ evidence_set_fields)"
    using arg_cong [OF set_facts_keys, of set f] by simp
  then show "fst ` set (set_fact_triggers p) = fst ` set (set_facts f)" using c7 by simp
  show "(s, Some d) \<in> set (set_fact_triggers p) \<Longrightarrow> d \<in> known_codes p"
    using c8 by (force simp: known_reason_def)
  show "r \<in> set (verifier_rule p) \<Longrightarrow> known_reason (known_codes p) (rr_reason r)"
    "verifier_rule_covers (verifier_rule p)"
    using c by blast+
qed

text \<open>Each enum fact is looked up in a row that covers its whole domain.\<close>

lemma enum_row_total:
  assumes ok: "merge_policy_ok p" and row: "(k, row) \<in> set (enum_fact_reasons p)"
  obtains v c where "map_of (enum_facts f) k = Some v" "map_of row v = Some c" "known_reason (known_codes p) c"
proof -
  have "k \<in> fst ` set (enum_facts f)"
    using row merge_policy_okD(4) [OF ok] arg_cong [OF enum_facts_keys, of set f] by force
  then obtain v where v: "map_of (enum_facts f) k = Some v" using key_lookup by metis
  then obtain vals where d: "(k, vals) \<in> set enum_fact_fields" "v \<in> set vals"
    using enum_facts_domain [of k v f] map_of_SomeD by metis
  have get: "get_row (enum_fact_reasons p) k = row"
    using map_of_is_SomeI [OF merge_policy_okD(1) [OF ok] row] by (simp add: get_row_def)
  have "v \<in> fst ` set row" using merge_policy_okD(5) [OF ok d(1)] d(2) get by simp
  then obtain c where c: "map_of row v = Some c" using key_lookup by metis
  have "known_reason (known_codes p) c"
    using merge_policy_okD(6) [OF ok d(1)] get map_of_SomeD [OF c] by metis
  then show ?thesis using that v c by blast
qed

lemma enum_fact_codes_ok:
  assumes ok: "merge_policy_ok p"
  shows "\<exists>es. enum_fact_codes p f = Inr es \<and> (\<forall>c. Some c \<in> set es \<longrightarrow> c \<in> known_codes p) \<and>
    (\<forall>c. Some c \<in> set es \<longleftrightarrow> (\<exists>fn row v. (fn, row) \<in> set (enum_fact_reasons p) \<and>
       (fn, v) \<in> set (enum_facts f) \<and> map_of row v = Some (Some c)))"
proof -
  let ?g = "\<lambda>kr. the (map_of (snd kr) (the (map_of (enum_facts f) (fst kr))))"
  have look: "\<exists>v. (fst kr, v) \<in> set (enum_facts f) \<and> map_of (enum_facts f) (fst kr) = Some v \<and>
      map_of (snd kr) v = Some (?g kr) \<and> known_reason (known_codes p) (?g kr)"
    if "kr \<in> set (enum_fact_reasons p)" for kr
  proof -
    have "(fst kr, snd kr) \<in> set (enum_fact_reasons p)" using that by simp
    then obtain v c where "map_of (enum_facts f) (fst kr) = Some v" "map_of (snd kr) v = Some c"
      "known_reason (known_codes p) c"
      by (rule enum_row_total [OF ok])
    then show ?thesis using map_of_SomeD by fastforce
  qed
  have "enum_fact_codes p f = Inr (map ?g (enum_fact_reasons p))"
    unfolding enum_fact_codes_def
  proof (rule mapE_total)
    fix kr assume "kr \<in> set (enum_fact_reasons p)"
    from look [OF this] show "(case kr of (fn, row) \<Rightarrow>
        case map_of (enum_facts f) fn of None \<Rightarrow> Inl (Exn ''AttributeError'' fn)
        | Some v \<Rightarrow> (case map_of row v of None \<Rightarrow> Inl (key_error v) | Some c \<Rightarrow> Inr c)) = Inr (?g kr)"
      by (cases kr) (auto split: option.split)
  qed
  moreover have "\<forall>c. Some c \<in> set (map ?g (enum_fact_reasons p)) \<longrightarrow> c \<in> known_codes p"
  proof (intro allI impI)
    fix c assume "Some c \<in> set (map ?g (enum_fact_reasons p))"
    then obtain kr where "kr \<in> set (enum_fact_reasons p)" "?g kr = Some c" by auto
    with look show "c \<in> known_codes p" by (metis known_reason_def option.simps(5))
  qed
  moreover have "Some c \<in> set (map ?g (enum_fact_reasons p)) \<longleftrightarrow>
      (\<exists>fn row v. (fn, row) \<in> set (enum_fact_reasons p) \<and> (fn, v) \<in> set (enum_facts f) \<and>
         map_of row v = Some (Some c))" for c
  proof
    assume "Some c \<in> set (map ?g (enum_fact_reasons p))"
    then obtain kr where kr: "kr \<in> set (enum_fact_reasons p)" "?g kr = Some c" by auto
    with look [OF kr(1)] show "\<exists>fn row v. (fn, row) \<in> set (enum_fact_reasons p) \<and>
        (fn, v) \<in> set (enum_facts f) \<and> map_of row v = Some (Some c)" by (metis prod.collapse)
  next
    assume "\<exists>fn row v. (fn, row) \<in> set (enum_fact_reasons p) \<and> (fn, v) \<in> set (enum_facts f) \<and>
        map_of row v = Some (Some c)"
    then obtain fn row v where kr: "(fn, row) \<in> set (enum_fact_reasons p)"
      "map_of (enum_facts f) fn = Some v" "map_of row v = Some (Some c)"
      using map_of_is_SomeI [OF enum_facts_distinct(1)] by blast
    then have "Some c = ?g (fn, row)" by simp
    then show "Some c \<in> set (map ?g (enum_fact_reasons p))"
      unfolding set_map using kr(1) by (rule image_eqI)
  qed
  ultimately show ?thesis by blast
qed

lemma violation_codes_ok:
  assumes ok: "merge_policy_ok p"
  shows "\<exists>vs. violation_codes p f = Inr vs \<and> set vs \<subseteq> known_codes p \<and>
    (\<forall>c. c \<in> set vs \<longleftrightarrow> (\<exists>tag \<in> set (evidence_context_violations f).
       map_of (violation_tag_reasons p) (evidence_violation_value tag) = Some c))"
proof -
  have "\<exists>c. map_of (violation_tag_reasons p) (evidence_violation_value tag) = Some c \<and> c \<in> known_codes p" for tag
  proof -
    obtain c where "map_of (violation_tag_reasons p) (evidence_violation_value tag) = Some c"
      using key_lookup [OF merge_policy_okD(7) [OF ok]] by blast
    then show ?thesis using merge_policy_okD(8) [OF ok] map_of_SomeD by metis
  qed
  then obtain g where g: "map_of (violation_tag_reasons p) (evidence_violation_value tag) = Some (g tag)"
    "g tag \<in> known_codes p" for tag by metis
  then have "violation_codes p f = Inr (map g (evidence_context_violations f))"
    unfolding violation_codes_def by (intro mapE_total) simp
  with g show ?thesis by auto
qed

lemma trigger_codes_ok:
  assumes ok: "merge_policy_ok p"
  shows "\<exists>ts. trigger_codes p f = Inr ts \<and> (\<forall>c. Some c \<in> set ts \<longrightarrow> c \<in> known_codes p) \<and>
    (\<forall>c. Some c \<in> set ts \<longleftrightarrow> (\<exists>fn xs. (fn, Some c) \<in> set (set_fact_triggers p) \<and>
       (fn, xs) \<in> set (set_facts f) \<and> xs \<noteq> []))"
proof -
  let ?g = "\<lambda>kc. if the (map_of (set_facts f) (fst kc)) = [] then None else snd kc"
  have look: "\<exists>xs. map_of (set_facts f) (fst kc) = Some xs" if "kc \<in> set (set_fact_triggers p)" for kc
    using that key_lookup [of "fst kc" "set_facts f"] merge_policy_okD(9) [OF ok, of f] by blast
  have "trigger_codes p f = Inr (map ?g (set_fact_triggers p))"
    unfolding trigger_codes_def
    by (rule mapE_total) (use look in \<open>fastforce split: option.splits\<close>)
  moreover have iff: "Some c \<in> set (map ?g (set_fact_triggers p)) \<longleftrightarrow>
      (\<exists>fn xs. (fn, Some c) \<in> set (set_fact_triggers p) \<and> (fn, xs) \<in> set (set_facts f) \<and> xs \<noteq> [])" for c
  proof
    assume "Some c \<in> set (map ?g (set_fact_triggers p))"
    then obtain kc where kc: "kc \<in> set (set_fact_triggers p)" "?g kc = Some c" by auto
    then obtain xs where xs: "map_of (set_facts f) (fst kc) = Some xs" using look by blast
    with kc(2) have "xs \<noteq> []" "snd kc = Some c" by (auto split: if_splits)
    with kc(1) map_of_SomeD [OF xs] show "\<exists>fn xs. (fn, Some c) \<in> set (set_fact_triggers p) \<and>
        (fn, xs) \<in> set (set_facts f) \<and> xs \<noteq> []"
      by (metis prod.collapse)
  next
    assume "\<exists>fn xs. (fn, Some c) \<in> set (set_fact_triggers p) \<and> (fn, xs) \<in> set (set_facts f) \<and> xs \<noteq> []"
    then obtain fn xs where kc: "(fn, Some c) \<in> set (set_fact_triggers p)"
      "map_of (set_facts f) fn = Some xs" "xs \<noteq> []"
      using map_of_is_SomeI [OF set_facts_distinct] by blast
    then have "Some c = ?g (fn, Some c)" by simp
    then show "Some c \<in> set (map ?g (set_fact_triggers p))"
      unfolding set_map using kc(1) by (rule image_eqI)
  qed
  moreover have "\<forall>c. Some c \<in> set (map ?g (set_fact_triggers p)) \<longrightarrow> c \<in> known_codes p"
    unfolding iff using merge_policy_okD(10) [OF ok] by blast
  ultimately show ?thesis by blast
qed

lemma resolve_verifier_ok:
  assumes ok: "merge_policy_ok p"
  shows "\<exists>r. resolve_verifier_reason p (verifier_identity_value i) (verifier_independence_value d) = Inr r
    \<and> known_reason (known_codes p) r"
proof -
  let ?P = "\<lambda>r. row_matches r (verifier_identity_value i) (verifier_independence_value d)"
  have "list_ex ?P (verifier_rule p)"
    using merge_policy_okD(12) [OF ok] verifier_identity_enum.member [of i]
      verifier_independence_enum.member [of d]
    by (auto simp: verifier_rule_covers_def list_all_iff)
  then obtain r where r: "find ?P (verifier_rule p) = Some r"
    by (metis find_None_iff list_ex_iff not_None_eq)
  then have "r \<in> set (verifier_rule p)" by (auto simp: find_Some_iff)
  with r merge_policy_okD(11) [OF ok] show ?thesis by (simp add: resolve_verifier_reason_def)
qed

lemma collect_reasons_ok:
  assumes ok: "merge_policy_ok p"
  shows "\<exists>rs. collect_reasons p f = Inr rs \<and> set rs = {c. triggered p f c} \<and> set rs \<subseteq> known_codes p"
proof -
  obtain es where e: "enum_fact_codes p f = Inr es" "\<forall>c. Some c \<in> set es \<longrightarrow> c \<in> known_codes p"
    "\<forall>c. Some c \<in> set es \<longleftrightarrow> (\<exists>fn row v. (fn, row) \<in> set (enum_fact_reasons p) \<and>
       (fn, v) \<in> set (enum_facts f) \<and> map_of row v = Some (Some c))"
    using enum_fact_codes_ok [OF ok] by blast
  obtain vs where v: "violation_codes p f = Inr vs" "set vs \<subseteq> known_codes p"
    "\<forall>c. c \<in> set vs \<longleftrightarrow> (\<exists>tag \<in> set (evidence_context_violations f).
       map_of (violation_tag_reasons p) (evidence_violation_value tag) = Some c)"
    using violation_codes_ok [OF ok] by blast
  obtain ts where t: "trigger_codes p f = Inr ts" "\<forall>c. Some c \<in> set ts \<longrightarrow> c \<in> known_codes p"
    "\<forall>c. Some c \<in> set ts \<longleftrightarrow> (\<exists>fn xs. (fn, Some c) \<in> set (set_fact_triggers p) \<and>
       (fn, xs) \<in> set (set_facts f) \<and> xs \<noteq> [])"
    using trigger_codes_ok [OF ok] by blast
  obtain r where r: "resolve_verifier_reason p (verifier_identity_value (verifier_identity_status f))
      (verifier_independence_value (verifier_independence_status f)) = Inr r"
    "known_reason (known_codes p) r"
    using resolve_verifier_ok [OF ok] by blast
  let ?rs = "List.map_filter id es @ vs @ List.map_filter id ts @ List.map_filter id [r]"
  have "c \<in> set ?rs \<longleftrightarrow> triggered p f c" for c
    unfolding set_append set_map_filter_id triggered_def r(1) e(3) [rule_format, symmetric]
      v(3) [rule_format, symmetric] t(3) [rule_format, symmetric] by auto
  moreover have "set ?rs \<subseteq> known_codes p"
    unfolding set_append set_map_filter_id using e(2) v(2) t(2) r(2) by (auto simp: known_reason_def)
  ultimately show ?thesis using e(1) v(1) t(1) r(1) by (auto simp: collect_reasons_def)
qed

section \<open>What the evaluator returns\<close>

lemma require_code_tuple_ok [simp]:
  "require_code_tuple fld xs = Inr u \<longleftrightarrow> sorted_wrt (<) xs \<and> [] \<notin> set xs"
proof -
  have "xs = sort xs \<longleftrightarrow> sorted xs" by (metis sorted_sort sorted_sort_id)
  then show ?thesis by (auto simp: require_code_tuple_def strict_sorted_iff)
qed

lemma accounting_items_facts: "accounting_items (facts_accounting f) = set_facts f"
  by (simp add: accounting_items_def facts_accounting_def set_facts_def)

definition core_ok :: "decision_core \<Rightarrow> bool" where
  "core_ok c \<longleftrightarrow>
     sorted_wrt (<) (complete_reason_codes c) \<and> [] \<notin> set (complete_reason_codes c) \<and>
     sorted_wrt (<) (blocking_reason_codes c) \<and> sorted_wrt (<) (review_reason_codes c) \<and>
     (\<forall>(k, xs) \<in> set (accounting_items (dc_accounting c)). sorted_wrt (<) xs \<and> [] \<notin> set xs) \<and>
     set (blocking_reason_codes c) \<inter> set (review_reason_codes c) = {} \<and>
     set (blocking_reason_codes c) \<union> set (review_reason_codes c) = set (complete_reason_codes c) \<and>
     (case primary_reason_code c of None \<Rightarrow> complete_reason_codes c = []
      | Some x \<Rightarrow> x \<in> set (complete_reason_codes c)) \<and>
     dc_disposition c = derived_disposition (blocking_reason_codes c) (review_reason_codes c)"

lemma decision_core_init_iff: "decision_core_init c = Inr d \<longleftrightarrow> d = c \<and> core_ok c"
proof -
  have acc: "(\<exists>us. mapE (\<lambda>(k, xs). require_code_tuple k xs) (accounting_items (dc_accounting c)) = Inr us)
      \<longleftrightarrow> (\<forall>(k, xs) \<in> set (accounting_items (dc_accounting c)). sorted_wrt (<) xs \<and> [] \<notin> set xs)"
    by (simp add: mapE_unit_ok case_prod_beta)
  show ?thesis
    unfolding decision_core_init_def Let_def seqE_Inr_iff ex_simps acc core_ok_def
    by (cases "primary_reason_code c") auto
qed

text \<open>With distinct ranks the reason of least rank is unique.\<close>

lemma singleton_list:
  assumes "distinct ys" and "set ys = {c}"
  shows "ys = [c]"
proof -
  have "length ys = 1" using distinct_card [OF assms(1)] assms(2) by simp
  then obtain y where "ys = [y]" by (cases ys) auto
  with assms(2) show ?thesis by simp
qed

lemma unique_minimum:
  fixes g :: "'a \<Rightarrow> 'b :: linorder"
  assumes "distinct xs" and "xs \<noteq> []" and "inj_on g (set xs)"
  shows "\<exists>c \<in> set xs. filter (\<lambda>x. g x = Min (g ` set xs)) xs = [c] \<and> (\<forall>x \<in> set xs. g c \<le> g x)"
proof -
  have "Min (g ` set xs) \<in> g ` set xs" using assms(2) by simp
  then obtain c where c: "c \<in> set xs" "g c = Min (g ` set xs)" by auto
  have "set (filter (\<lambda>x. g x = Min (g ` set xs)) xs) = {c}"
    using c assms(3) by (auto simp: inj_on_def)
  moreover have "distinct (filter (\<lambda>x. g x = Min (g ` set xs)) xs)" using assms(1) by simp
  ultimately have "filter (\<lambda>x. g x = Min (g ` set xs)) xs = [c]"
    by (intro singleton_list)
  moreover have "\<forall>x \<in> set xs. g c \<le> g x" using c(2) by simp
  ultimately show ?thesis using c(1) by blast
qed

lemma find_distinct:
  "distinct (map g xs) \<Longrightarrow> find (\<lambda>r. g r = c) xs = Some r \<longleftrightarrow> r \<in> set xs \<and> g r = c"
  by (induction xs) (auto simp: rev_image_eqI)

lemma find_reason_known:
  "merge_policy_ok p \<Longrightarrow> find_reason p c = Some r \<longleftrightarrow> r \<in> set (reason_definitions p) \<and> code r = c"
  unfolding find_reason_def by (rule find_distinct) (rule merge_policy_okD(2))

lemma known_reason_found:
  assumes "merge_policy_ok p" and "c \<in> known_codes p"
  obtains r where "find_reason p c = Some r" "r \<in> set (reason_definitions p)" "code r = c"
  using assms(2) find_reason_known [OF assms(1)] by blast

lemma rank_inj:
  assumes ok: "merge_policy_ok p"
  shows "inj_on (rank_of p) (known_codes p)"
proof (rule inj_onI)
  fix c d assume "c \<in> known_codes p" "d \<in> known_codes p" and eq: "rank_of p c = rank_of p d"
  then obtain r s where r: "find_reason p c = Some r" "r \<in> set (reason_definitions p)" "code r = c"
    and s: "find_reason p d = Some s" "s \<in> set (reason_definitions p)" "code s = d"
    using known_reason_found [OF ok] by metis
  then have "precedence_rank r = precedence_rank s" using eq by (simp add: rank_of_def)
  then have "r = s"
    using merge_policy_okD(3) [OF ok] r(2) s(2) by (auto simp: distinct_map dest: inj_onD)
  with r s show "c = d" by simp
qed

lemma code_not_empty:
  assumes "merge_policy_ok p"
  shows "[] \<notin> known_codes p"
proof
  assume "[] \<in> known_codes p"
  then obtain r where r: "r \<in> set (reason_definitions p)" "code r = []" by auto
  then have "reason_definition_init r = Inr r" using assms by (simp add: merge_policy_ok_def)
  with r(2) show False
    by (simp add: reason_definition_init_def seqE_Inr_iff dollar_match_def machine_code_grammar_def)
qed

lemma disposition_cases:
  assumes "merge_policy_ok p" and "c \<in> known_codes p"
  shows "has_disposition p disposition.BLOCK c \<or> has_disposition p disposition.REVIEW_REQUIRED c
    \<or> has_disposition p disposition.ELIGIBLE_TO_MERGE_UNDER_POLICY c"
proof -
  obtain r where "find_reason p c = Some r" using known_reason_found [OF assms] .
  then show ?thesis by (cases "default_disposition r") (simp_all add: has_disposition_def)
qed

lemma disposition_unique: "has_disposition p d c \<Longrightarrow> has_disposition p e c \<Longrightarrow> d = e"
  by (auto simp: has_disposition_def split: option.splits)

lemma choose_primary_ok:
  assumes ok: "merge_policy_ok p" and "set xs \<subseteq> known_codes p" and "distinct xs"
  shows "\<exists>c. choose_primary p xs = Inr c \<and> (case c of None \<Rightarrow> xs = []
    | Some x \<Rightarrow> x \<in> set xs \<and> (\<forall>y \<in> set xs. rank_of p x \<le> rank_of p y))"
proof (cases "xs = []")
  case False
  have "inj_on (rank_of p) (set xs)" using rank_inj [OF ok] assms(2) by (rule inj_on_subset)
  from unique_minimum [OF assms(3) False this] False show ?thesis by (auto simp: choose_primary_def)
qed (simp add: choose_primary_def)

text \<open>The decision that a validated policy makes on valid facts.\<close>

definition decides :: "merge_policy \<Rightarrow> merge_input \<Rightarrow> decision_core \<Rightarrow> bool" where
  "decides p m c \<longleftrightarrow>
     core_ok c \<and> set (complete_reason_codes c) = {x. triggered p (mi_facts m) x} \<and>
     set (blocking_reason_codes c) =
       {x. triggered p (mi_facts m) x \<and> has_disposition p disposition.BLOCK x} \<and>
     set (review_reason_codes c) =
       {x. triggered p (mi_facts m) x \<and> has_disposition p disposition.REVIEW_REQUIRED x} \<and>
     (\<forall>x. primary_reason_code c = Some x \<longrightarrow>
        triggered p (mi_facts m) x \<and> (\<forall>y. triggered p (mi_facts m) y \<longrightarrow> rank_of p x \<le> rank_of p y)) \<and>
     dc_authority c = authority_of (mi_mode m) \<and> dc_accounting c = facts_accounting (mi_facts m)"

lemma evaluate_decides:
  assumes ok: "merge_policy_ok p" and f: "facts_ok (mi_facts m)"
    and none: "\<forall>x. triggered p (mi_facts m) x \<longrightarrow>
      \<not> has_disposition p disposition.ELIGIBLE_TO_MERGE_UNDER_POLICY x"
  shows "\<exists>c. evaluate_decision_core m p = Inr c \<and> decides p m c"
proof -
  obtain rs where rs: "collect_reasons p (mi_facts m) = Inr rs"
    "set rs = {c. triggered p (mi_facts m) c}" "set rs \<subseteq> known_codes p"
    using collect_reasons_ok [OF ok] by blast
  define complete where "complete = sort (remdups rs)"
  define blocking where "blocking = filter (has_disposition p disposition.BLOCK) complete"
  define review where "review = filter (has_disposition p disposition.REVIEW_REQUIRED) complete"
  have set: "set complete = set rs" "sorted_wrt (<) complete" "distinct complete"
    by (simp_all add: complete_def strict_sorted_iff)
  have split: "has_disposition p disposition.BLOCK x \<longleftrightarrow> \<not> has_disposition p disposition.REVIEW_REQUIRED x"
    if "x \<in> set complete" for x
    using disposition_cases [OF ok, of x] disposition_unique [of p disposition.BLOCK x disposition.REVIEW_REQUIRED]
      that none set(1) rs(2,3) by auto
  have len: "length blocking + length review = length complete"
    using sum_length_filter_compl [of "has_disposition p disposition.BLOCK" complete] split
    by (simp add: blocking_def review_def cong: filter_cong)
  have known: "(\<exists>c \<in> set rs. find_reason p c = None) = False"
    using rs(3) known_reason_found [OF ok] by (metis option.distinct(1) subsetD)
  obtain prim where prim: "choose_primary p complete = Inr prim"
    "case prim of None \<Rightarrow> complete = [] | Some x \<Rightarrow> x \<in> set complete \<and> (\<forall>y \<in> set complete. rank_of p x \<le> rank_of p y)"
    using choose_primary_ok [OF ok, of complete] rs(3) set by auto
  let ?c = "\<lparr>dc_disposition = derived_disposition blocking review,
      dc_authority = authority_of (mi_mode m), primary_reason_code = prim,
      complete_reason_codes = complete, blocking_reason_codes = blocking,
      review_reason_codes = review, dc_accounting = facts_accounting (mi_facts m)\<rparr>"
  have parts: "sorted_wrt (<) blocking" "sorted_wrt (<) review" "set blocking \<inter> set review = {}"
    "set blocking \<union> set review = set complete"
    using set(2) split by (auto simp: blocking_def review_def sorted_wrt_filter)
  have "core_ok ?c"
    using set parts prim(2) f code_not_empty [OF ok] rs(3)
    by (auto simp: core_ok_def accounting_items_facts facts_ok_def ids_ok_def split: option.splits)
  moreover have "evaluate_decision_core m p = decision_core_init ?c"
    using rs(1) len prim(1)
    by (simp add: known evaluate_decision_core_def Let_def complete_def [symmetric] blocking_def [symmetric]
        review_def [symmetric])
  ultimately show ?thesis
    using set(1) rs(2) prim(2)
    by (auto simp: decision_core_init_iff decides_def blocking_def review_def split: option.splits)
qed

section \<open>The production policy decides\<close>

lemma v1_init: "is_ok (merge_policy_init MERGE_ELIGIBILITY_POLICY_V1)"
  by code_simp

lemma v1_parts:
  "list_all (\<lambda>r. is_ok (reason_definition_init r)) v1_reason_definitions"
  "list_all (\<lambda>r. is_ok (rule_row_init r)) v1_verifier_rule"
  "is_ok (policy_identity_init (declared_identity MERGE_ELIGIBILITY_POLICY_V1))"
  apply code_simp
  apply code_simp
  apply code_simp
  done

lemma v1_dicts: "policy_dicts MERGE_ELIGIBILITY_POLICY_V1"
  unfolding policy_dicts_def by code_simp

lemma reason_definition_init_id: "is_ok (reason_definition_init r) \<Longrightarrow> reason_definition_init r = Inr r"
  by (auto simp: is_ok_iff reason_definition_init_def seqE_Inr_iff)

lemma rule_row_init_id: "is_ok (rule_row_init r) \<Longrightarrow> rule_row_init r = Inr r"
  by (auto simp: is_ok_iff rule_row_init_def seqE_Inr_iff)

lemma policy_identity_init_iff:
  "policy_identity_init i = Inr j \<longleftrightarrow>
     j = i \<and> task_id_grammar (pid_version i) \<and> sha256_digest_grammar (pid_digest i)"
  by (cases i) (auto simp: policy_identity_init_def seqE_Inr_iff me_require_Inr)

lemma v1_ok: "merge_policy_ok MERGE_ELIGIBILITY_POLICY_V1"
  unfolding merge_policy_ok_def
proof (intro conjI ballI)
  show "merge_policy_init MERGE_ELIGIBILITY_POLICY_V1 = Inr MERGE_ELIGIBILITY_POLICY_V1"
    using v1_init policy_init_iff by (metis is_ok_iff)
  show "policy_identity_init (declared_identity MERGE_ELIGIBILITY_POLICY_V1) =
      Inr (declared_identity MERGE_ELIGIBILITY_POLICY_V1)"
    using v1_parts(3) by (auto simp: is_ok_iff policy_identity_init_iff)
  show "reason_definition_init r = Inr r" if "r \<in> set (reason_definitions MERGE_ELIGIBILITY_POLICY_V1)" for r
    using v1_parts(1) that reason_definition_init_id
    by (auto simp: MERGE_ELIGIBILITY_POLICY_V1_def list_all_iff)
  show "rule_row_init r = Inr r" if "r \<in> set (verifier_rule MERGE_ELIGIBILITY_POLICY_V1)" for r
    using v1_parts(2) that rule_row_init_id by (auto simp: MERGE_ELIGIBILITY_POLICY_V1_def list_all_iff)
qed (rule v1_dicts)

lemma v1_never_eligible:
  "\<not> has_disposition MERGE_ELIGIBILITY_POLICY_V1 disposition.ELIGIBLE_TO_MERGE_UNDER_POLICY c"
proof -
  have "list_all (\<lambda>r. default_disposition r \<noteq> disposition.ELIGIBLE_TO_MERGE_UNDER_POLICY) v1_reason_definitions"
    by (simp add: v1_reason_definitions_def reason_def)
  then show ?thesis
    using find_reason_known [OF v1_ok, of c]
    by (auto simp: has_disposition_def MERGE_ELIGIBILITY_POLICY_V1_def list_all_iff split: option.splits)
qed

text \<open>The facts under which nothing speaks against a merge.\<close>

definition all_clear :: "eligibility_facts \<Rightarrow> bool" where
  "all_clear f \<longleftrightarrow>
     task_context_current f = task_context_currency.CURRENT \<and>
     candidate_binding_current f = candidate_binding_currency.CURRENT \<and>
     repository_snapshot_current f = repository_snapshot_currency.CURRENT \<and>
     repository_release_clean f = release_cleanliness.CLEAN \<and>
     policy_context_current f = policy_context_currency.CURRENT \<and>
     evidence_context_status f \<noteq> evidence_context.UNKNOWN \<and> evidence_context_violations f = [] \<and>
     scope_status f = scope.COMPLIANT \<and> approval_status f = approval.VALID \<and>
     authority_status f = authority.VALID \<and>
     verifier_identity_status f = verifier_identity.ATTESTED \<and>
     verifier_independence_status f = verifier_independence.INDEPENDENT \<and>
     missing_requirement_ids f = [] \<and> invalid_requirement_ids f = [] \<and>
     invalid_provenance_evidence_ids f = []"

text \<open>A row of an enum fact speaks for a value when it gives that value a reason.\<close>

definition speaks :: "(string \<times> string option) list \<Rightarrow> string \<Rightarrow> bool" where
  "speaks row v \<longleftrightarrow> (\<exists>c. map_of row v = Some (Some c))"

lemma aligned_rows:
  "map fst xs = map fst ys \<Longrightarrow> distinct (map fst ys) \<Longrightarrow>
   (\<exists>k a b. (k, a) \<in> set xs \<and> (k, b) \<in> set ys \<and> P a b) \<longleftrightarrow> \<not> list_all2 (\<lambda>x y. \<not> P (snd x) (snd y)) xs ys"
proof (induction xs arbitrary: ys)
  case (Cons x xs)
  obtain y zs where ys: "ys = y # zs" "fst x = fst y" "map fst xs = map fst zs" "distinct (map fst zs)"
    "fst y \<notin> fst ` set zs" using Cons.prems by (cases ys) auto
  have "fst ` set xs = fst ` set zs" using arg_cong [OF ys(3), of set] by simp
  then have "(\<exists>k a b. (k, a) \<in> set (x # xs) \<and> (k, b) \<in> set ys \<and> P a b) \<longleftrightarrow>
      P (snd x) (snd y) \<or> (\<exists>k a b. (k, a) \<in> set xs \<and> (k, b) \<in> set zs \<and> P a b)"
    using ys(2,5) unfolding ys(1) by (cases x; cases y) (fastforce simp: image_iff)
  then show ?case using Cons.IH [OF ys(3,4)] by (simp add: ys(1))
qed simp

lemma v1_rows:
  "speaks [(''CURRENT'', None), (''STALE'', Some s), (''UNKNOWN'', Some u)] (task_context_currency_value t)
     \<longleftrightarrow> t \<noteq> task_context_currency.CURRENT"
  "speaks [(''CURRENT'', None), (''STALE'', Some s), (''UNKNOWN'', Some u)] (candidate_binding_currency_value b)
     \<longleftrightarrow> b \<noteq> candidate_binding_currency.CURRENT"
  "speaks [(''CURRENT'', None), (''MISMATCH'', Some s), (''UNKNOWN'', Some u)] (repository_snapshot_currency_value r)
     \<longleftrightarrow> r \<noteq> repository_snapshot_currency.CURRENT"
  "speaks [(''CLEAN'', None), (''DIRTY'', Some s), (''UNKNOWN'', Some u)] (release_cleanliness_value l)
     \<longleftrightarrow> l \<noteq> release_cleanliness.CLEAN"
  "speaks [(''CURRENT'', None), (''STALE'', Some s), (''UNKNOWN'', Some u)] (policy_context_currency_value p)
     \<longleftrightarrow> p \<noteq> policy_context_currency.CURRENT"
  "speaks [(''COHERENT'', None), (''INCOHERENT'', None), (''UNKNOWN'', Some u)] (evidence_context_value e)
     \<longleftrightarrow> e = evidence_context.UNKNOWN"
  "speaks [(''COMPLIANT'', None), (''VIOLATION'', Some s), (''SEMANTIC_UNCERTAIN'', Some v),
     (''NOT_EVALUATED'', Some u)] (scope_value c) \<longleftrightarrow> c \<noteq> scope.COMPLIANT"
  "speaks [(''VALID'', None), (''MISSING'', Some s), (''STALE'', Some v), (''UNKNOWN'', Some u)]
     (approval_value a) \<longleftrightarrow> a \<noteq> approval.VALID"
  "speaks [(''VALID'', None), (''INVALID'', Some s), (''UNKNOWN'', Some u)] (authority_value h)
     \<longleftrightarrow> h \<noteq> authority.VALID"
  unfolding speaks_def
  by (cases t, simp_all) (cases b, simp_all, cases r, simp_all, cases l, simp_all, cases p, simp_all,
    cases e, simp_all, cases c, simp_all, cases a, simp_all, cases h, simp_all)

definition enums_clear :: "eligibility_facts \<Rightarrow> bool" where
  "enums_clear f \<longleftrightarrow>
     task_context_current f = task_context_currency.CURRENT \<and>
     candidate_binding_current f = candidate_binding_currency.CURRENT \<and>
     repository_snapshot_current f = repository_snapshot_currency.CURRENT \<and>
     repository_release_clean f = release_cleanliness.CLEAN \<and>
     policy_context_current f = policy_context_currency.CURRENT \<and>
     evidence_context_status f \<noteq> evidence_context.UNKNOWN \<and>
     scope_status f = scope.COMPLIANT \<and> approval_status f = approval.VALID \<and>
     authority_status f = authority.VALID"

lemma v1_enum_quiet:
  "(\<exists>fn row v. (fn, row) \<in> set (enum_fact_reasons MERGE_ELIGIBILITY_POLICY_V1) \<and>
      (fn, v) \<in> set (enum_facts f) \<and> speaks row v) \<longleftrightarrow> \<not> enums_clear f"
proof -
  have keys: "map fst v1_enum_fact_reasons = map fst (enum_facts f)"
    by (simp add: v1_enum_fact_reasons_def enum_facts_def)
  have "list_all2 (\<lambda>x y. \<not> speaks (snd x) (snd y)) v1_enum_fact_reasons (enum_facts f) \<longleftrightarrow> enums_clear f"
    unfolding v1_enum_fact_reasons_def enum_facts_def list_all2_Cons list_all2_Nil snd_conv v1_rows enums_clear_def
    by simp
  then show ?thesis
    using aligned_rows [OF keys enum_facts_distinct(1), of speaks] by (simp add: MERGE_ELIGIBILITY_POLICY_V1_def)
qed

lemma v1_violation_quiet:
  "\<exists>c. map_of (violation_tag_reasons MERGE_ELIGIBILITY_POLICY_V1) (evidence_violation_value tag) = Some c"
  by (rule key_lookup) (rule merge_policy_okD(7) [OF v1_ok])

lemma v1_trigger_quiet:
  "(\<exists>c fn xs. (fn, Some c) \<in> set (set_fact_triggers MERGE_ELIGIBILITY_POLICY_V1) \<and>
      (fn, xs) \<in> set (set_facts f) \<and> xs \<noteq> []) \<longleftrightarrow>
   \<not> (missing_requirement_ids f = [] \<and> invalid_requirement_ids f = [] \<and>
      invalid_provenance_evidence_ids f = [])"
  (is "?lhs \<longleftrightarrow> _")
proof -
  let ?heard = "{''missing_requirement_ids'', ''invalid_requirement_ids'', ''invalid_provenance_evidence_ids''}"
  have heard: "(\<exists>c. (fn, Some c) \<in> set v1_set_fact_triggers) \<longleftrightarrow> fn \<in> ?heard" for fn
    unfolding v1_set_fact_triggers_def by auto
  have field: "(fn, xs) \<in> set (set_facts f) \<longleftrightarrow> map_of (set_facts f) fn = Some xs" for fn xs
    using map_of_eq_Some_iff [OF set_facts_distinct] by metis
  have "?lhs \<longleftrightarrow> (\<exists>fn xs. (\<exists>c. (fn, Some c) \<in> set v1_set_fact_triggers) \<and> (fn, xs) \<in> set (set_facts f) \<and> xs \<noteq> [])"
    unfolding MERGE_ELIGIBILITY_POLICY_V1_def merge_policy.select_convs by blast
  also have "\<dots> \<longleftrightarrow> (\<exists>fn \<in> ?heard. \<exists>xs. map_of (set_facts f) fn = Some xs \<and> xs \<noteq> [])"
    unfolding heard field Bex_def by (simp only: ex_simps)
  also have "\<dots> \<longleftrightarrow> \<not> (missing_requirement_ids f = [] \<and> invalid_requirement_ids f = [] \<and>
      invalid_provenance_evidence_ids f = [])"
    by (simp add: set_fact_defs)
  finally show ?thesis .
qed

lemma v1_verifier_quiet:
  "resolve_verifier_reason MERGE_ELIGIBILITY_POLICY_V1 (verifier_identity_value i)
     (verifier_independence_value d) = Inr None \<longleftrightarrow>
     i = verifier_identity.ATTESTED \<and> d = verifier_independence.INDEPENDENT"
  by (cases i; cases d)
     (simp_all add: resolve_verifier_reason_def MERGE_ELIGIBILITY_POLICY_V1_def v1_verifier_rule_def
       mk_row_def row_matches_def)

lemma v1_silent: "(\<forall>c. \<not> triggered MERGE_ELIGIBILITY_POLICY_V1 f c) \<longleftrightarrow> all_clear f"
proof -
  let ?p = MERGE_ELIGIBILITY_POLICY_V1
  obtain r where r: "resolve_verifier_reason ?p (verifier_identity_value (verifier_identity_status f))
      (verifier_independence_value (verifier_independence_status f)) = Inr r"
    using resolve_verifier_ok [OF v1_ok] by blast
  have "(\<exists>c. triggered ?p f c) \<longleftrightarrow>
      (\<exists>fn row v. (fn, row) \<in> set (enum_fact_reasons ?p) \<and> (fn, v) \<in> set (enum_facts f) \<and> speaks row v) \<or>
      evidence_context_violations f \<noteq> [] \<or>
      (\<exists>c fn xs. (fn, Some c) \<in> set (set_fact_triggers ?p) \<and> (fn, xs) \<in> set (set_facts f) \<and> xs \<noteq> []) \<or>
      r \<noteq> None"
    unfolding triggered_def speaks_def r using v1_violation_quiet
    by (cases "evidence_context_violations f"; cases r) (simp_all, blast+)
  moreover have "r = None \<longleftrightarrow> verifier_identity_status f = verifier_identity.ATTESTED \<and>
      verifier_independence_status f = verifier_independence.INDEPENDENT"
    using v1_verifier_quiet [of "verifier_identity_status f" "verifier_independence_status f"] r by simp
  ultimately show ?thesis
    unfolding v1_enum_quiet v1_trigger_quiet all_clear_def enums_clear_def by blast
qed

lemma v1_decides:
  assumes "facts_ok (mi_facts m)"
  shows "\<exists>c. evaluate_decision_core m MERGE_ELIGIBILITY_POLICY_V1 = Inr c \<and>
    decides MERGE_ELIGIBILITY_POLICY_V1 m c"
  using evaluate_decides [OF v1_ok assms] v1_never_eligible by blast

lemma core_eligible_iff:
  "core_ok c \<Longrightarrow>
   dc_disposition c = disposition.ELIGIBLE_TO_MERGE_UNDER_POLICY \<longleftrightarrow> complete_reason_codes c = []"
  by (auto simp: core_ok_def derived_disposition_def)

lemma v1_eligible_iff:
  assumes "facts_ok (mi_facts m)" and "evaluate_decision_core m MERGE_ELIGIBILITY_POLICY_V1 = Inr c"
  shows "dc_disposition c = disposition.ELIGIBLE_TO_MERGE_UNDER_POLICY \<longleftrightarrow> all_clear (mi_facts m)"
proof -
  have "decides MERGE_ELIGIBILITY_POLICY_V1 m c" using v1_decides [OF assms(1)] assms(2) by auto
  then have "core_ok c" "set (complete_reason_codes c) = {x. triggered MERGE_ELIGIBILITY_POLICY_V1 (mi_facts m) x}"
    by (simp_all add: decides_def)
  then show ?thesis using core_eligible_iff v1_silent [of "mi_facts m"] by (metis Collect_empty_eq set_empty)
qed

section \<open>The evaluation mode\<close>

lemma map_sum_seqE: "map_sum id g (seqE r f) = seqE r (\<lambda>x. map_sum id g (f x))"
  by (cases r) simp_all

lemma decision_core_init_authority:
  "decision_core_init (c\<lparr>dc_authority := a\<rparr>) = map_sum id (dc_authority_update (\<lambda>_. a)) (decision_core_init c)"
  unfolding decision_core_init_def Let_def map_sum_seqE
  by (cases c) (simp only: decision_core.simps map_sum.simps)

lemma evaluate_mode:
  "evaluate_decision_core (m\<lparr>mi_mode := x\<rparr>) p =
     map_sum id (dc_authority_update (\<lambda>_. authority_of x)) (evaluate_decision_core m p)"
  unfolding evaluate_decision_core_def Let_def map_sum_seqE decision_core_init_authority [symmetric]
  by (cases m) (simp only: decision_core.simps merge_input.simps)

end
