(* ===== verification/Merge_Record.thy ===== *)
theory Merge_Record
  imports Merge_Policy
begin

text \<open>
  Canonical records of a merge-eligibility decision (\<open>build_harness/merge_eligibility_record.py\<close>):
  the decision with its digest, the policy evaluation record with the digest over both, their
  constructors, and the validator that classifies a record found elsewhere; then the facade
  (\<open>merge_eligibility_facade.py\<close>) that composes evaluator and records.
\<close>

section \<open>Fields\<close>

abbreviation RecordConstructionError :: "string \<Rightarrow> exn" where
  "RecordConstructionError m \<equiv> Exn ''RecordConstructionError'' m"

definition DECISION_KIND :: string where
  "DECISION_KIND = ''changegate.merge-eligibility-decision.test-oracle.v1''"

definition reason_tuple_fields :: "string list" where
  "reason_tuple_fields = [''complete_reason_codes'', ''blocking_reason_codes'', ''review_reason_codes'']"

definition accounting_fields :: "string list" where
  "accounting_fields =
     [''required_requirement_ids'', ''satisfied_requirement_ids'', ''invalid_requirement_ids'',
      ''missing_requirement_ids'', ''rejected_evidence_ids'', ''invalid_provenance_evidence_ids'',
      ''unexpected_evidence_ids'']"

definition core_fields :: "string list" where
  "core_fields =
     [''disposition'', ''decision_authority'', ''primary_reason_code''] @ reason_tuple_fields @ accounting_fields"

definition echo_fields :: "string list" where
  "echo_fields =
     ''task_id'' # source_binding_fields @ [''policy_version'', ''evaluator_version'', ''evaluation_mode'']"

definition identity_fields :: "string list" where
  "identity_fields = echo_fields @ [''input_digest''] @ core_fields"

definition REASON_CODES :: "string list" where
  "REASON_CODES =
     [''AUTHORITY_INVALID'', ''REQUIRED_CONTEXT_INCOMPLETE'',
      ''EVIDENCE_TASK_MISMATCH'', ''EVIDENCE_RUN_MISMATCH'',
      ''EVIDENCE_CANDIDATE_MISMATCH'', ''REPOSITORY_CONTEXT_MISMATCH'',
      ''EVIDENCE_PROVENANCE_INVALID'', ''EVIDENCE_DUPLICATE_IDENTITY'',
      ''REQUIRED_EVIDENCE_INVALID'', ''TASK_CONTEXT_STALE'', ''CANDIDATE_STALE'',
      ''POLICY_CONTEXT_STALE'', ''REQUIRED_EVIDENCE_MISSING'',
      ''RELEASE_STATE_NOT_CLEAN'', ''SCOPE_VIOLATION'', ''APPROVAL_MISSING'',
      ''APPROVAL_STALE'', ''VERIFIER_NOT_INDEPENDENT'', ''SCOPE_UNCERTAIN'',
      ''VERIFIER_INDEPENDENCE_UNKNOWN'']"

text \<open>
  The identity of a decision: what it repeats from the input, the digest of the input, and the
  fields of the decision core.  The decision adds its digest, the evaluation record the schema
  version and a digest over all of it.
\<close>

record decision_identity =
  id_task_id :: string
  id_bindings :: source_bindings
  id_policy_version :: string
  id_evaluator_version :: string
  id_mode :: evaluation_mode
  id_input_digest :: string
  id_core :: decision_core

record merge_decision =
  md_identity :: decision_identity
  md_decision_digest :: string

record evaluation_record =
  er_schema_version :: string
  er_identity :: decision_identity
  er_decision_digest :: string
  er_record_digest :: string

text \<open>\<open>getattr(source, field)\<close> for the identity fields: enum members and tuples.\<close>

definition echo_values :: "string \<Rightarrow> source_bindings \<Rightarrow> string \<Rightarrow> string \<Rightarrow> evaluation_mode \<Rightarrow> kwargs" where
  "echo_values t b pv ev m =
     (''task_id'', VStr t) # map (\<lambda>(k, x). (k, VStr x)) (binding_items b)
     @ [(''policy_version'', VStr pv), (''evaluator_version'', VStr ev),
        (''evaluation_mode'', VEnum ''EvaluationMode'' (evaluation_mode_value m))]"

definition input_echo :: "merge_input \<Rightarrow> kwargs" where
  "input_echo m = echo_values (mi_task_id m) (mi_bindings m) (mi_policy_version m)
     (mi_evaluator_version m) (mi_mode m)"

definition identity_echo :: "decision_identity \<Rightarrow> kwargs" where
  "identity_echo i = echo_values (id_task_id i) (id_bindings i) (id_policy_version i)
     (id_evaluator_version i) (id_mode i)"

definition text_option :: "string option \<Rightarrow> pyval" where
  "text_option x = (case x of None \<Rightarrow> VNone | Some s \<Rightarrow> VStr s)"

definition core_values :: "decision_core \<Rightarrow> kwargs" where
  "core_values c =
     [(''disposition'', VEnum ''Disposition'' (disposition_value (dc_disposition c))),
      (''decision_authority'', VEnum ''DecisionAuthority'' (decision_authority_value (dc_authority c))),
      (''primary_reason_code'', text_option (primary_reason_code c)),
      (''complete_reason_codes'', VTuple (map VStr (complete_reason_codes c))),
      (''blocking_reason_codes'', VTuple (map VStr (blocking_reason_codes c))),
      (''review_reason_codes'', VTuple (map VStr (review_reason_codes c)))]
     @ map (\<lambda>(k, xs). (k, VTuple (map VStr xs))) (accounting_items (dc_accounting c))"

definition identity_values :: "decision_identity \<Rightarrow> kwargs" where
  "identity_values i = identity_echo i @ [(''input_digest'', VStr (id_input_digest i))] @ core_values (id_core i)"

text \<open>\<open>_value\<close>, \<open>_identity_payload\<close> and \<open>_record_payload\<close>.\<close>

fun enum_text :: "pyval \<Rightarrow> pyval" where
  "enum_text (VEnum c s) =
     (if c \<in> {''Disposition'', ''DecisionAuthority'', ''EvaluationMode''} then VStr s else VEnum c s)"
| "enum_text v = v"

definition identity_payload :: "decision_identity \<Rightarrow> kwargs" where
  "identity_payload i = map (\<lambda>(k, v). (k, enum_text v)) (identity_values i)"

definition record_payload :: "string \<Rightarrow> decision_identity \<Rightarrow> string \<Rightarrow> kwargs" where
  "record_payload sv i d =
     (''schema_version'', VStr sv) # identity_payload i @ [(''decision_digest'', VStr d)]"

section \<open>Construction\<close>

text \<open>
  The committed token and digest grammars are those of task identifiers and digests; a full
  match takes the whole string.
\<close>

definition rec_require_digest :: "bool \<Rightarrow> string \<Rightarrow> string \<Rightarrow> exn + unit" where
  "rec_require_digest sentinel fld s =
     (if sentinel \<and> s = APPROVAL_SENTINEL then Inr ()
      else if \<not> sha256_digest_grammar s
      then Inl (RecordConstructionError (fld @ '' must be a canonical digest''))
      else Inr ())"

definition require_token :: "string \<Rightarrow> string \<Rightarrow> exn + unit" where
  "require_token fld s =
     (if task_id_grammar s then Inr ()
      else Inl (RecordConstructionError (fld @ '' must match the committed token grammar'')))"

definition rec_require_tuple :: "bool \<Rightarrow> string \<Rightarrow> string list \<Rightarrow> exn + unit" where
  "rec_require_tuple is_reason fld xs =
     (let pattern = (if is_reason then machine_code_grammar else task_id_grammar)
      in raise_first
        [(\<exists>x \<in> set xs. x = [] \<or> \<not> pattern x,
            RecordConstructionError (fld @ '' must contain valid identifiers'')),
         (xs \<noteq> sort xs \<or> \<not> distinct xs,
            RecordConstructionError (fld @ '' must be sorted and duplicate-free'')),
         (is_reason \<and> \<not> set xs \<subseteq> set REASON_CODES,
            RecordConstructionError (fld @ '' contains an unknown reason code''))])"

text \<open>Pairwise disjoint, and together exactly the required set.\<close>

definition accounting_partition :: "string list \<Rightarrow> string list \<Rightarrow> string list \<Rightarrow> string list \<Rightarrow> bool" where
  "accounting_partition required satisfied invalid missing \<longleftrightarrow>
     set satisfied \<union> set invalid \<union> set missing = set required \<and>
     set satisfied \<inter> set invalid = {} \<and> set satisfied \<inter> set missing = {} \<and>
     set invalid \<inter> set missing = {}"

definition reason_partition :: "string list \<Rightarrow> string list \<Rightarrow> string list \<Rightarrow> bool" where
  "reason_partition complete blocking review \<longleftrightarrow>
     set blocking \<inter> set review = {} \<and> set blocking \<union> set review = set complete"

definition primary_agrees :: "string option \<Rightarrow> string list \<Rightarrow> bool" where
  "primary_agrees primary complete \<longleftrightarrow>
     (case primary of None \<Rightarrow> complete = [] | Some x \<Rightarrow> x \<in> set complete)"

definition validate_decision_fields :: "decision_core \<Rightarrow> exn + unit" where
  "validate_decision_fields c =
     (let complete = complete_reason_codes c; blocking = blocking_reason_codes c;
          review = review_reason_codes c; a = dc_accounting c
      in seqE (raise_first
           [((case primary_reason_code c of None \<Rightarrow> False | Some x \<Rightarrow> x \<notin> set REASON_CODES),
               RecordConstructionError ''primary_reason_code must be a known reason code or None'')]) (\<lambda>_.
         seqE (rec_require_tuple True ''complete_reason_codes'' complete) (\<lambda>_.
         seqE (rec_require_tuple True ''blocking_reason_codes'' blocking) (\<lambda>_.
         seqE (rec_require_tuple True ''review_reason_codes'' review) (\<lambda>_.
         seqE (mapE (\<lambda>(k, xs). rec_require_tuple False k xs) (accounting_items a)) (\<lambda>_.
           raise_first
             [(\<not> reason_partition complete blocking review,
                 RecordConstructionError ''reason partitions must be disjoint and exhaustive''),
              (\<not> primary_agrees (primary_reason_code c) complete,
                 RecordConstructionError ''primary reason must agree with complete reasons''),
              (dc_disposition c \<noteq> derived_disposition blocking review,
                 RecordConstructionError ''disposition must be derived from reason partitions''),
              (\<not> accounting_partition (acc_required a) (acc_satisfied a) (acc_invalid a) (acc_missing a),
                 RecordConstructionError
                   ''requirement accounting partitions must be disjoint and exhaustive'')]))))))"

definition validate_identity_fields :: "decision_identity \<Rightarrow> exn + unit" where
  "validate_identity_fields i =
     seqE (require_token ''task_id'' (id_task_id i)) (\<lambda>_.
     seqE (mapE (\<lambda>(k, x). rec_require_digest (k = ''approval_digest_or_sentinel'') k x)
             (binding_items (id_bindings i))) (\<lambda>_.
     seqE (require_token ''policy_version'' (id_policy_version i)) (\<lambda>_.
     seqE (require_token ''evaluator_version'' (id_evaluator_version i)) (\<lambda>_.
     seqE (rec_require_digest False ''input_digest'' (id_input_digest i)) (\<lambda>_.
       validate_decision_fields (id_core i))))))"

text \<open>The digest binds exactly the identity fields, under the kind of a decision.\<close>

definition decision_digest_for :: "(string \<Rightarrow> string) \<Rightarrow> pyval \<Rightarrow> exn + string" where
  "decision_digest_for nfc v =
     (case v of
        VDict kvs \<Rightarrow>
          if fst ` set kvs = VStr ` set identity_fields
          then canonical_digest nfc (dict_of
                 ((''kind'', VStr DECISION_KIND)
                  # map (\<lambda>k. (k, enum_text (json_field kvs k))) identity_fields))
          else Inl (RecordConstructionError ''decision identity payload has an invalid field set'')
      | _ \<Rightarrow> Inl (RecordConstructionError ''decision identity payload has an invalid field set''))"

text \<open>\<open>MergeEligibilityDecision.__post_init__\<close> and \<open>PolicyEvaluationRecord.__post_init__\<close>.\<close>

definition merge_decision_init :: "(string \<Rightarrow> string) \<Rightarrow> merge_decision \<Rightarrow> exn + merge_decision" where
  "merge_decision_init nfc d =
     seqE (validate_identity_fields (md_identity d)) (\<lambda>_.
     seqE (rec_require_digest False ''decision_digest'' (md_decision_digest d)) (\<lambda>_.
     seqE (decision_digest_for nfc (dict_of (identity_payload (md_identity d)))) (\<lambda>x.
       if md_decision_digest d \<noteq> x
       then Inl (RecordConstructionError ''decision_digest is inconsistent with decision identity'')
       else Inr d)))"

definition evaluation_record_init :: "(string \<Rightarrow> string) \<Rightarrow> evaluation_record \<Rightarrow> exn + evaluation_record" where
  "evaluation_record_init nfc r =
     seqE (raise_first
       [(er_schema_version r \<noteq> POLICY_RECORD_SCHEMA_VERSION,
           RecordConstructionError ''schema_version is not the committed record schema'')]) (\<lambda>_.
     seqE (validate_identity_fields (er_identity r)) (\<lambda>_.
     seqE (rec_require_digest False ''decision_digest'' (er_decision_digest r)) (\<lambda>_.
     seqE (rec_require_digest False ''policy_record_digest'' (er_record_digest r)) (\<lambda>_.
     seqE (decision_digest_for nfc (dict_of (identity_payload (er_identity r)))) (\<lambda>x.
       if er_decision_digest r \<noteq> x
       then Inl (RecordConstructionError ''decision_digest is inconsistent with record identity'')
       else seqE (canonical_digest nfc (dict_of
              (record_payload (er_schema_version r) (er_identity r) (er_decision_digest r)))) (\<lambda>y.
            if er_record_digest r \<noteq> y
            then Inl (RecordConstructionError ''policy_record_digest is inconsistent with record payload'')
            else Inr r))))))"

definition to_list :: "pyval \<Rightarrow> pyval" where
  "to_list v = (case v of VTuple vs \<Rightarrow> VList vs | _ \<Rightarrow> v)"

definition to_canonical_payload :: "evaluation_record \<Rightarrow> kwargs" where
  "to_canonical_payload r =
     map (\<lambda>(k, v). (k, to_list v)) (record_payload (er_schema_version r) (er_identity r) (er_decision_digest r))"

definition finalize_decision ::
  "(string \<Rightarrow> string) \<Rightarrow> merge_input \<Rightarrow> decision_core \<Rightarrow> exn + merge_decision" where
  "finalize_decision nfc m c =
     (if facts_accounting (mi_facts m) \<noteq> dc_accounting c
      then Inl (RecordConstructionError ''DecisionCore accounting does not match policy input facts'')
      else seqE (input_digest nfc m) (\<lambda>d.
        let i = \<lparr>id_task_id = mi_task_id m, id_bindings = mi_bindings m,
                 id_policy_version = mi_policy_version m, id_evaluator_version = mi_evaluator_version m,
                 id_mode = mi_mode m, id_input_digest = d, id_core = c\<rparr>
        in seqE (decision_digest_for nfc (dict_of (identity_values i))) (\<lambda>x.
             merge_decision_init nfc \<lparr>md_identity = i, md_decision_digest = x\<rparr>)))"

definition build_policy_evaluation_record ::
  "(string \<Rightarrow> string) \<Rightarrow> merge_input \<Rightarrow> merge_decision \<Rightarrow> exn + evaluation_record" where
  "build_policy_evaluation_record nfc m d =
     seqE (input_digest nfc m) (\<lambda>x.
       if x \<noteq> id_input_digest (md_identity d)
       then Inl (RecordConstructionError ''decision input_digest is inconsistent with policy input'')
       else if input_echo m \<noteq> identity_echo (md_identity d)
       then Inl (RecordConstructionError ''decision input echoes are inconsistent with policy input'')
       else seqE (decision_digest_for nfc (dict_of (identity_payload (md_identity d)))) (\<lambda>y.
         if y \<noteq> md_decision_digest d
         then Inl (RecordConstructionError ''decision_digest is inconsistent with decision identity'')
         else seqE (canonical_digest nfc (dict_of
                (record_payload POLICY_RECORD_SCHEMA_VERSION (md_identity d) (md_decision_digest d)))) (\<lambda>z.
              evaluation_record_init nfc
                \<lparr>er_schema_version = POLICY_RECORD_SCHEMA_VERSION, er_identity = md_identity d,
                 er_decision_digest = md_decision_digest d, er_record_digest = z\<rparr>)))"

section \<open>Validation\<close>

text \<open>The two representations of a record, and of the input it may be checked against.\<close>

datatype record_arg = RawRecord pyval | TypedRecord evaluation_record

datatype input_arg = RawInput pyval | TypedInput merge_input

record validation_result =
  vr_errors :: "string list"
  vr_classifications :: "string list"

definition validation_outcome :: "string list \<Rightarrow> validation_result" where
  "validation_outcome errors =
     \<lparr>vr_errors = sort (remdups errors),
      vr_classifications =
        (if errors \<noteq> [] then []
         else [''STRUCTURALLY_VALIDATED'', ''IDENTITY_RECOMPUTED'', ''SEMANTIC_REPLAY_NOT_PERFORMED''])\<rparr>"

definition raw_record_fields :: "string list" where
  "raw_record_fields = ''schema_version'' # identity_fields @ [''decision_digest'', ''policy_record_digest'']"

definition raw_input_fields :: "string list" where
  "raw_input_fields = ''kind'' # policy_input_keys"

definition record_values :: "evaluation_record \<Rightarrow> kwargs" where
  "record_values r =
     (''schema_version'', VStr (er_schema_version r)) # identity_values (er_identity r)
     @ [(''decision_digest'', VStr (er_decision_digest r)),
        (''policy_record_digest'', VStr (er_record_digest r))]"

definition raw_record_payload :: "record_arg \<Rightarrow> (pyval \<times> pyval) list option" where
  "raw_record_payload r =
     (case r of
        RawRecord (VDict kvs) \<Rightarrow> Some kvs
      | RawRecord _ \<Rightarrow> None
      | TypedRecord t \<Rightarrow>
          Some (map (\<lambda>(k, v). (VStr k, case v of VTuple vs \<Rightarrow> VList vs | _ \<Rightarrow> enum_text v)) (record_values t)))"

text \<open>A list of exact strings is read as such.\<close>

definition exact_str :: "pyval \<Rightarrow> string option" where
  "exact_str v = (case v of VStr s \<Rightarrow> Some s | _ \<Rightarrow> None)"

definition raw_string_list :: "pyval \<Rightarrow> string list option" where
  "raw_string_list v = (case v of VList vs \<Rightarrow> those (map exact_str vs) | _ \<Rightarrow> None)"

definition str_matches :: "(string \<Rightarrow> bool) \<Rightarrow> pyval \<Rightarrow> bool" where
  "str_matches P v = (case v of VStr s \<Rightarrow> P s | _ \<Rightarrow> False)"

abbreviation TYPE_INVALID :: string where
  "TYPE_INVALID \<equiv> ''RECORD_TYPE_INVALID''"

abbreviation NOT_NORMALIZED :: string where
  "NOT_NORMALIZED \<equiv> ''RECORD_NOT_NORMALIZED''"

text \<open>The errors that a list of tests appends.\<close>

definition errors_of :: "(bool \<times> string) list \<Rightarrow> string list" where
  "errors_of tests = map snd (filter fst tests)"

definition scalar_errors :: "(string \<Rightarrow> pyval) \<Rightarrow> string list" where
  "scalar_errors g =
     errors_of
       ([(text_of (g ''schema_version'') \<noteq> Some POLICY_RECORD_SCHEMA_VERSION, TYPE_INVALID)]
        @ map (\<lambda>k. (\<not> str_matches task_id_grammar (g k), TYPE_INVALID))
            [''task_id'', ''policy_version'', ''evaluator_version'']
        @ map (\<lambda>k. (\<not> (k = ''approval_digest_or_sentinel'' \<and> text_of (g k) = Some APPROVAL_SENTINEL)
                     \<and> \<not> str_matches sha256_digest_grammar (g k), TYPE_INVALID))
            (source_binding_fields @ [''input_digest'', ''decision_digest'', ''policy_record_digest''])
        @ [(\<not> str_matches (\<lambda>s. s \<in> evaluation_mode_value ` set evaluation_mode_members)
               (g ''evaluation_mode''), TYPE_INVALID),
           (\<not> str_matches (\<lambda>s. s \<in> disposition_value ` set disposition_members)
               (g ''disposition''), TYPE_INVALID),
           (\<not> str_matches (\<lambda>s. s \<in> decision_authority_value ` set decision_authority_members)
               (g ''decision_authority''), TYPE_INVALID)])"

definition list_errors :: "(string \<Rightarrow> pyval) \<Rightarrow> string list" where
  "list_errors g =
     errors_of
       (concat (map (\<lambda>k. case raw_string_list (g k) of
            None \<Rightarrow> [(True, TYPE_INVALID)]
          | Some xs \<Rightarrow> [(xs \<noteq> sort xs \<or> \<not> distinct xs, NOT_NORMALIZED)])
          (reason_tuple_fields @ accounting_fields))
        @ [(g ''primary_reason_code'' \<noteq> VNone
              \<and> \<not> str_matches (\<lambda>s. s \<in> set REASON_CODES) (g ''primary_reason_code''), TYPE_INVALID)]
        @ map (\<lambda>k. (case raw_string_list (g k) of None \<Rightarrow> False | Some xs \<Rightarrow> \<not> set xs \<subseteq> set REASON_CODES,
                     TYPE_INVALID)) reason_tuple_fields)"

text \<open>\<open>(primary is None) != (not complete)\<close>, or a primary reason outside the complete set.\<close>

definition raw_primary_agrees :: "pyval \<Rightarrow> string list \<Rightarrow> bool" where
  "raw_primary_agrees v complete \<longleftrightarrow>
     (if v = VNone then complete = []
      else complete \<noteq> [] \<and> (\<exists>s. text_of v = Some s \<and> s \<in> set complete))"

definition consistency_errors :: "(string \<Rightarrow> pyval) \<Rightarrow> string list" where
  "consistency_errors g =
     (case map (\<lambda>k. raw_string_list (g k)) reason_tuple_fields of
        [Some complete, Some blocking, Some review] \<Rightarrow>
          errors_of
            [(\<not> reason_partition complete blocking review, NOT_NORMALIZED),
             (\<not> raw_primary_agrees (g ''primary_reason_code'') complete, NOT_NORMALIZED),
             (text_of (g ''disposition'') \<noteq> Some (disposition_value (derived_disposition blocking review)),
                NOT_NORMALIZED)]
      | _ \<Rightarrow> [])
     @ (case map (\<lambda>k. raw_string_list (g k)) (take 4 accounting_fields) of
          [Some required, Some satisfied, Some invalid, Some missing] \<Rightarrow>
            errors_of [(\<not> accounting_partition required satisfied invalid missing, NOT_NORMALIZED)]
        | _ \<Rightarrow> [])"

text \<open>
  Testing the primary reason for membership in a set hashes it, which raises for lists and
  dictionaries; instances of frozen dataclasses have a hash.
\<close>

fun unhashable :: "pyval \<Rightarrow> bool" where
  "unhashable (VList vs) = True"
| "unhashable (VDict kvs) = True"
| "unhashable (VTuple vs) = (\<exists>v \<in> set vs. unhashable v)"
| "unhashable v = False"

definition validate_raw_fields :: "(pyval \<times> pyval) list \<Rightarrow> exn + string list" where
  "validate_raw_fields kvs =
     (let g = json_field kvs; primary = g ''primary_reason_code'';
          lists = map (\<lambda>k. raw_string_list (g k)) reason_tuple_fields
      in if None \<notin> set lists \<and> lists ! 0 \<noteq> Some [] \<and> unhashable primary
         then Inl (Exn ''TypeError'' ''unhashable type'')
         else Inr (scalar_errors g @ list_errors g @ consistency_errors g))"

text \<open>Equality with a value that is a string.\<close>

definition same_text :: "pyval \<Rightarrow> pyval \<Rightarrow> bool" where
  "same_text v w \<longleftrightarrow> text_of v \<noteq> None \<and> text_of v = text_of w"

definition validate_input_binding ::
  "(string \<Rightarrow> string) \<Rightarrow> (pyval \<times> pyval) list \<Rightarrow> input_arg \<Rightarrow> exn + string list" where
  "validate_input_binding nfc raw candidate =
     (case candidate of
        TypedInput m \<Rightarrow>
          if \<exists>kv \<in> set (input_echo m). \<not> same_text (snd kv) (json_field raw (fst kv))
          then Inr [''SOURCE_BINDING_MISMATCH'']
          else seqE (input_digest nfc m) (\<lambda>d.
            Inr (if text_of (json_field raw ''input_digest'') = Some d then []
                 else [''INPUT_DIGEST_MISMATCH'']))
      | RawInput (VDict kvs) \<Rightarrow>
          if \<exists>kv \<in> set kvs. \<not> is_exact_str (fst kv) then Inr [''INPUT_NOT_AN_OBJECT'']
          else
            let errors =
              errors_of
                [(\<exists>k \<in> set echo_fields. \<not> same_text (json_field kvs k) (json_field raw k),
                    ''SOURCE_BINDING_MISMATCH''),
                 (\<not> same_text (json_field kvs ''policy_record_schema_version'') (json_field raw ''schema_version'')
                    \<or> text_of (json_field kvs ''policy_record_schema_digest'')
                        \<noteq> Some (POLICY_RECORD_SCHEMA_DIGEST nfc), ''SCHEMA_BINDING_MISMATCH''),
                 (text_of (json_field kvs ''canonicalization_version'') \<noteq> Some CANONICALIZATION_VERSION
                    \<or> text_of (json_field kvs ''canonicalization_contract_digest'')
                        \<noteq> Some (CANONICALIZATION_CONTRACT_DIGEST nfc), ''CANONICALIZATION_BINDING_MISMATCH'')]
            in Inr (case canonical_digest nfc (VDict kvs) of
                      Inl e \<Rightarrow> errors @ [''INPUT_NOT_CANONICALIZABLE'']
                    | Inr d \<Rightarrow>
                        if fst ` set kvs \<noteq> VStr ` set raw_input_fields
                           \<or> text_of (json_field raw ''input_digest'') \<noteq> Some d
                        then errors @ [''INPUT_DIGEST_MISMATCH''] else errors)
      | RawInput _ \<Rightarrow> Inr [''INPUT_NOT_AN_OBJECT''])"

text \<open>The tests inside the \<open>try\<close> block: the first failing one decides.\<close>

definition identity_errors :: "(string \<Rightarrow> string) \<Rightarrow> (pyval \<times> pyval) list \<Rightarrow> string list" where
  "identity_errors nfc raw =
     (case seqE (validate_raw_fields raw) (\<lambda>structural.
          if structural \<noteq> [] then Inr structural
          else seqE (decision_digest_for nfc (dict_of (map (\<lambda>k. (k, json_field raw k)) identity_fields))) (\<lambda>x.
            if text_of (json_field raw ''decision_digest'') \<noteq> Some x then Inr [''DECISION_DIGEST_NOT_DERIVED'']
            else seqE (canonical_digest nfc
                   (VDict (filter (\<lambda>kv. fst kv \<noteq> VStr ''policy_record_digest'') raw))) (\<lambda>y.
                 Inr (if text_of (json_field raw ''policy_record_digest'') \<noteq> Some y
                      then [''RECORD_DIGEST_MISMATCH''] else [])))) of
        Inl e \<Rightarrow> [TYPE_INVALID]
      | Inr errors \<Rightarrow> errors)"

definition universe_errors :: "(pyval \<times> pyval) list \<Rightarrow> pyval \<Rightarrow> string list" where
  "universe_errors raw universes =
     (case universes of
        VNone \<Rightarrow> []
      | VDict kvs \<Rightarrow>
          concat (map (\<lambda>(fields, key).
            case raw_string_list (to_list (dict_get kvs key)) of
              None \<Rightarrow> [''IDENTIFIER_UNIVERSES_INVALID'']
            | Some universe \<Rightarrow>
                if \<exists>k \<in> set fields. \<exists>xs. raw_string_list (json_field raw k) = Some xs \<and> \<not> set xs \<subseteq> set universe
                then [''IDENTIFIER_UNIVERSE_MISMATCH''] else [])
          [(take 4 accounting_fields, ''requirement_id_universe''),
           (drop 4 accounting_fields, ''evidence_record_id_universe'')])
      | _ \<Rightarrow> [''IDENTIFIER_UNIVERSES_INVALID''])"

definition validate_policy_evaluation_record ::
  "(string \<Rightarrow> string) \<Rightarrow> record_arg \<Rightarrow> input_arg \<Rightarrow> pyval \<Rightarrow> exn + validation_result" where
  "validate_policy_evaluation_record nfc r canonical_input universes =
     (case raw_record_payload r of
        None \<Rightarrow> Inr (validation_outcome [''RECORD_NOT_AN_OBJECT''])
      | Some raw \<Rightarrow>
          if \<exists>kv \<in> set raw. \<not> is_exact_str (fst kv) then Inr (validation_outcome [''RECORD_NOT_AN_OBJECT''])
          else if fst ` set raw \<noteq> VStr ` set raw_record_fields
          then Inr (validation_outcome [''RECORD_FIELD_SET_DRIFT''])
          else if identity_errors nfc raw \<noteq> [] then Inr (validation_outcome (identity_errors nfc raw))
          else seqE (case canonical_input of RawInput VNone \<Rightarrow> Inr []
                     | _ \<Rightarrow> validate_input_binding nfc raw canonical_input) (\<lambda>binding.
            Inr (validation_outcome (universe_errors raw universes @ binding))))"

section \<open>The facade\<close>

definition evaluate_merge_eligibility ::
  "(string \<Rightarrow> string) \<Rightarrow> merge_input \<Rightarrow> exn + merge_decision \<times> evaluation_record" where
  "evaluate_merge_eligibility nfc m =
     seqE (evaluate_decision_core m MERGE_ELIGIBILITY_POLICY_V1) (\<lambda>c.
     seqE (finalize_decision nfc m c) (\<lambda>d.
     seqE (build_policy_evaluation_record nfc m d) (\<lambda>r. Inr (d, r))))"

section \<open>Payloads and digests\<close>

lemma echo_values_keys: "map fst (echo_values t b pv ev m) = echo_fields"
  by (simp add: echo_values_def echo_fields_def binding_items_def source_binding_fields_def)

lemma accounting_items_keys: "map fst (accounting_items a) = accounting_fields"
  by (simp add: accounting_items_def accounting_fields_def requirement_set_fields_def evidence_set_fields_def)

lemma core_values_keys: "map fst (core_values c) = core_fields"
  using accounting_items_keys [of "dc_accounting c"]
  by (simp add: core_values_def core_fields_def reason_tuple_fields_def case_prod_beta comp_def)

lemma identity_values_keys: "map fst (identity_values i) = identity_fields"
  by (simp add: identity_values_def identity_echo_def identity_fields_def echo_values_keys core_values_keys)

lemma identity_payload_keys: "map fst (identity_payload i) = identity_fields"
  using identity_values_keys [of i] by (simp add: identity_payload_def case_prod_beta comp_def)

lemma record_values_keys: "map fst (record_values r) = raw_record_fields"
  by (simp add: record_values_def raw_record_fields_def identity_values_keys)

lemma record_fields_distinct: "distinct (''kind'' # raw_record_fields)"
  by code_simp

lemma record_fields_ascii: "list_all ascii_text (''kind'' # raw_record_fields)"
  by code_simp

lemma identity_fields_distinct: "distinct identity_fields"
  using record_fields_distinct by (simp add: raw_record_fields_def)

text \<open>Changing values without changing their canonical form keeps every digest.\<close>

lemma canonicalize_items_map:
  assumes "\<And>v. canonicalize nfc (f v) = canonicalize nfc v"
  shows "canonicalize_items nfc seen (map (\<lambda>(k, v). (k, f v)) kvs) = canonicalize_items nfc seen kvs"
proof (induction kvs arbitrary: seen)
  case (Cons kv kvs)
  then show ?case using assms by (cases kv) (simp split: pyval.split)
qed simp

lemma canonical_digest_map:
  assumes "\<And>v. canonicalize nfc (f v) = canonicalize nfc v"
  shows "canonical_digest nfc (dict_of (map (\<lambda>(k, v). (k, f v)) kvs)) = canonical_digest nfc (dict_of kvs)"
proof -
  have "map (\<lambda>(k, v). (VStr k, v)) (map (\<lambda>(k, v). (k, f v)) kvs) =
      map (\<lambda>(k, v). (k, f v)) (map (\<lambda>(k, v). (VStr k, v)) kvs)" by auto
  then show ?thesis
    by (simp only: canonical_digest_def canonical_json_bytes_def dict_of_def canonicalize.simps
        canonicalize_items_map [of nfc f, OF assms])
qed

lemma canonicalize_enum_text [simp]: "canonicalize nfc (enum_text v) = canonicalize nfc v"
  by (cases v) simp_all

lemma canonicalize_to_list [simp]: "canonicalize nfc (to_list v) = canonicalize nfc v"
  by (cases v) (simp_all add: to_list_def)

lemma enum_text_idem [simp]: "enum_text (enum_text v) = enum_text v"
  by (cases v) simp_all

lemma lookup_all:
  assumes "distinct (map fst kvs)"
  shows "map (\<lambda>k. (k, json_field (map (\<lambda>(k, v). (VStr k, v)) kvs) k)) (map fst kvs) = kvs"
proof -
  have "(fst kv, json_field (map (\<lambda>(k, v). (VStr k, v)) kvs) (fst kv)) = kv" if "kv \<in> set kvs" for kv
    using map_of_is_SomeI [OF assms, of "fst kv" "snd kv"] that by simp
  then show ?thesis by (simp add: comp_def map_idI)
qed

text \<open>The digest of a decision does not depend on the representation of its identity.\<close>

abbreviation decision_payload :: "decision_identity \<Rightarrow> kwargs" where
  "decision_payload i \<equiv> (''kind'', VStr DECISION_KIND) # identity_payload i"

lemma decision_digest_items:
  assumes "map fst kvs = identity_fields"
  shows "decision_digest_for nfc (dict_of kvs) =
    canonical_digest nfc (dict_of ((''kind'', VStr DECISION_KIND) # kvs))"
proof -
  let ?d = "map (\<lambda>(k, v). (VStr k, v)) kvs"
  have keys: "fst ` set ?d = VStr ` set identity_fields"
    unfolding assms [symmetric] by force
  have "map (\<lambda>k. (k, enum_text (json_field ?d k))) identity_fields = map (\<lambda>(k, v). (k, enum_text v)) kvs"
    using arg_cong [OF lookup_all [of kvs], of "map (\<lambda>(k, v). (k, enum_text v))"]
      identity_fields_distinct assms by (simp add: comp_def)
  then have "decision_digest_for nfc (dict_of kvs) = canonical_digest nfc
      (dict_of (map (\<lambda>(k, v). (k, enum_text v)) ((''kind'', VStr DECISION_KIND) # kvs)))"
    using keys by (simp add: decision_digest_for_def dict_of_def)
  then show ?thesis by (simp only: canonical_digest_map [of nfc enum_text, OF canonicalize_enum_text])
qed

lemma decision_digest_values:
  "decision_digest_for nfc (dict_of (identity_values i)) = canonical_digest nfc (dict_of (decision_payload i))"
proof -
  have "decision_payload i = map (\<lambda>(k, v). (k, enum_text v)) ((''kind'', VStr DECISION_KIND) # identity_values i)"
    by (simp add: identity_payload_def)
  then show ?thesis
    by (simp only: decision_digest_items [OF identity_values_keys]
        canonical_digest_map [of nfc enum_text, OF canonicalize_enum_text])
qed

lemma decision_digest_payload:
  "decision_digest_for nfc (dict_of (identity_payload i)) = canonical_digest nfc (dict_of (decision_payload i))"
  by (rule decision_digest_items) (rule identity_payload_keys)

text \<open>Every payload has a digest.\<close>

lemma keyed_ready:
  assumes "map fst kvs = ks" and "distinct ks" and "list_all ascii_text ks"
    and "list_all (\<lambda>kv. json_ready (snd kv)) kvs"
  shows "json_ready (dict_of kvs)"
  using assms by (force simp: json_ready_dict_of list_all_iff)

lemma identity_payload_ready: "list_all (\<lambda>kv. json_ready (snd kv)) (identity_payload i)"
  by (auto simp: identity_payload_def identity_values_def identity_echo_def echo_values_def core_values_def
      text_option_def list_all_iff split: option.splits)

lemma decision_payload_digest:
  assumes "keeps_ascii nfc"
  obtains x where "canonical_digest nfc (dict_of (decision_payload i)) = Inr x" "sha256_digest_grammar x"
proof -
  have "distinct (''kind'' # identity_fields)" "list_all ascii_text (''kind'' # identity_fields)"
    using record_fields_distinct record_fields_ascii by (simp_all add: raw_record_fields_def)
  moreover have "map fst (decision_payload i) = ''kind'' # identity_fields"
    by (simp add: identity_payload_keys)
  ultimately have "json_ready (dict_of (decision_payload i))"
    using identity_payload_ready [of i] by (intro keyed_ready [where ks = "''kind'' # identity_fields"]) simp_all
  then show ?thesis using that canonical_digest_ready [OF assms] canonical_digest_shape by metis
qed

lemma record_payload_digest:
  assumes "keeps_ascii nfc"
  obtains x where "canonical_digest nfc (dict_of (record_payload sv i d)) = Inr x" "sha256_digest_grammar x"
proof -
  let ?ks = "''schema_version'' # identity_fields @ [''decision_digest'']"
  have "distinct ?ks" "list_all ascii_text ?ks"
    using record_fields_distinct record_fields_ascii by (simp_all add: raw_record_fields_def)
  moreover have "map fst (record_payload sv i d) = ?ks"
    by (simp add: record_payload_def identity_payload_keys)
  moreover have "list_all (\<lambda>kv. json_ready (snd kv)) (record_payload sv i d)"
    using identity_payload_ready by (simp add: record_payload_def)
  ultimately have "json_ready (dict_of (record_payload sv i d))" by (intro keyed_ready)
  then show ?thesis using that canonical_digest_ready [OF assms] canonical_digest_shape by metis
qed

lemma facts_ready: "json_ready (facts_to_json f)"
proof -
  have "list_all ascii_text facts_keys" "distinct facts_keys" by code_simp+
  then show ?thesis
    unfolding facts_to_json_def
    by (intro keyed_ready [OF facts_items_keys]) (auto simp: facts_items_def list_all_iff)
qed

lemma input_digest_total:
  assumes "keeps_ascii nfc"
  obtains x where "input_digest nfc m = Inr x" "sha256_digest_grammar x"
proof -
  have "list_all ascii_text raw_input_fields" "distinct raw_input_fields" by code_simp+
  moreover have "map fst ((''kind'', VStr INPUT_PAYLOAD_KIND) # merge_input_items m) = raw_input_fields"
    by (simp add: merge_input_items_keys raw_input_fields_def)
  moreover have "list_all (\<lambda>kv. json_ready (snd kv)) ((''kind'', VStr INPUT_PAYLOAD_KIND) # merge_input_items m)"
    by (auto simp: merge_input_items_def facts_ready list_all_iff)
  ultimately have "json_ready (merge_input_payload m)"
    unfolding merge_input_payload_def by (intro keyed_ready)
  then show ?thesis
    using that canonical_digest_ready [OF assms] canonical_digest_shape unfolding input_digest_def by metis
qed

section \<open>What the constructors accept\<close>

definition tuple_ok :: "(string \<Rightarrow> bool) \<Rightarrow> string list \<Rightarrow> bool" where
  "tuple_ok P xs \<longleftrightarrow> sorted_wrt (<) xs \<and> list_all P xs"

lemma sort_distinct_iff: "xs = sort xs \<and> distinct xs \<longleftrightarrow> sorted_wrt (<) (xs :: string list)"
  by (metis sorted_sort sorted_sort_id strict_sorted_iff)

lemma rec_require_tuple_ok [simp]:
  "rec_require_tuple True fld xs = Inr u \<longleftrightarrow>
     tuple_ok (\<lambda>x. machine_code_grammar x \<and> x \<in> set REASON_CODES) xs"
  "rec_require_tuple False fld xs = Inr u \<longleftrightarrow> tuple_ok task_id_grammar xs"
proof -
  have "\<not> machine_code_grammar []" "\<not> task_id_grammar []"
    by (simp_all add: machine_code_grammar_def task_id_grammar_def first_rest_def)
  then show "rec_require_tuple True fld xs = Inr u \<longleftrightarrow>
      tuple_ok (\<lambda>x. machine_code_grammar x \<and> x \<in> set REASON_CODES) xs"
    "rec_require_tuple False fld xs = Inr u \<longleftrightarrow> tuple_ok task_id_grammar xs"
    unfolding rec_require_tuple_def tuple_ok_def sort_distinct_iff [symmetric] list_all_iff by auto
qed

definition record_core_ok :: "decision_core \<Rightarrow> bool" where
  "record_core_ok c \<longleftrightarrow>
     (\<forall>x. primary_reason_code c = Some x \<longrightarrow> x \<in> set REASON_CODES) \<and>
     (\<forall>xs \<in> {complete_reason_codes c, blocking_reason_codes c, review_reason_codes c}.
        tuple_ok (\<lambda>x. machine_code_grammar x \<and> x \<in> set REASON_CODES) xs) \<and>
     (\<forall>(k, xs) \<in> set (accounting_items (dc_accounting c)). tuple_ok task_id_grammar xs) \<and>
     reason_partition (complete_reason_codes c) (blocking_reason_codes c) (review_reason_codes c) \<and>
     primary_agrees (primary_reason_code c) (complete_reason_codes c) \<and>
     dc_disposition c = derived_disposition (blocking_reason_codes c) (review_reason_codes c) \<and>
     accounting_partition (acc_required (dc_accounting c)) (acc_satisfied (dc_accounting c))
       (acc_invalid (dc_accounting c)) (acc_missing (dc_accounting c))"

definition identity_ok :: "decision_identity \<Rightarrow> bool" where
  "identity_ok i \<longleftrightarrow>
     task_id_grammar (id_task_id i) \<and> bindings_ok (id_bindings i) \<and>
     task_id_grammar (id_policy_version i) \<and> task_id_grammar (id_evaluator_version i) \<and>
     sha256_digest_grammar (id_input_digest i) \<and> record_core_ok (id_core i)"

lemma validate_decision_fields_ok: "validate_decision_fields c = Inr u \<longleftrightarrow> record_core_ok c"
proof -
  have "(\<exists>us. mapE (\<lambda>(k, xs). rec_require_tuple False k xs) (accounting_items (dc_accounting c)) = Inr us)
      \<longleftrightarrow> (\<forall>(k, xs) \<in> set (accounting_items (dc_accounting c)). tuple_ok task_id_grammar xs)"
    by (simp add: mapE_unit_ok case_prod_beta)
  then show ?thesis
    unfolding validate_decision_fields_def Let_def seqE_Inr_iff record_core_ok_def
    by (cases "primary_reason_code c") simp_all
qed

lemma rec_require_digest_ok [simp]:
  "rec_require_digest b fld s = Inr u \<longleftrightarrow> sha256_digest_grammar s \<or> b \<and> s = APPROVAL_SENTINEL"
  by (auto simp: rec_require_digest_def)

lemma require_token_ok [simp]: "require_token fld s = Inr u \<longleftrightarrow> task_id_grammar s"
  by (simp add: require_token_def)

lemma validate_identity_fields_ok: "validate_identity_fields i = Inr u \<longleftrightarrow> identity_ok i"
proof -
  have "(\<exists>us. mapE (\<lambda>(k, x). rec_require_digest (k = ''approval_digest_or_sentinel'') k x)
      (binding_items (id_bindings i)) = Inr us) \<longleftrightarrow> bindings_ok (id_bindings i)"
    by (simp add: mapE_unit_ok case_prod_beta bindings_ok_def)
  then show ?thesis
    unfolding validate_identity_fields_def seqE_Inr_iff identity_ok_def validate_decision_fields_ok by simp
qed

text \<open>A decision and a record are exactly an accepted identity with derived digests.\<close>

definition decision_ok :: "(string \<Rightarrow> string) \<Rightarrow> merge_decision \<Rightarrow> bool" where
  "decision_ok nfc d \<longleftrightarrow>
     identity_ok (md_identity d) \<and>
     decision_digest_for nfc (dict_of (identity_payload (md_identity d))) = Inr (md_decision_digest d)"

definition record_ok :: "(string \<Rightarrow> string) \<Rightarrow> evaluation_record \<Rightarrow> bool" where
  "record_ok nfc r \<longleftrightarrow>
     er_schema_version r = POLICY_RECORD_SCHEMA_VERSION \<and> identity_ok (er_identity r) \<and>
     decision_digest_for nfc (dict_of (identity_payload (er_identity r))) = Inr (er_decision_digest r) \<and>
     canonical_digest nfc (dict_of (record_payload (er_schema_version r) (er_identity r)
       (er_decision_digest r))) = Inr (er_record_digest r)"

lemma merge_decision_init_iff: "merge_decision_init nfc d = Inr e \<longleftrightarrow> e = d \<and> decision_ok nfc d"
  unfolding merge_decision_init_def seqE_Inr_iff validate_identity_fields_ok decision_ok_def
    decision_digest_payload
  by (auto dest: canonical_digest_shape)

lemma evaluation_record_init_iff: "evaluation_record_init nfc r = Inr s \<longleftrightarrow> s = r \<and> record_ok nfc r"
  unfolding evaluation_record_init_def seqE_Inr_iff validate_identity_fields_ok record_ok_def
    decision_digest_payload
  by (auto simp: seqE_Inr_iff dest: canonical_digest_shape)

text \<open>Finalising a consistent core.\<close>

definition bound_identity :: "(string \<Rightarrow> string) \<Rightarrow> merge_input \<Rightarrow> decision_core \<Rightarrow> decision_identity \<Rightarrow> bool" where
  "bound_identity nfc m c i \<longleftrightarrow> identity_echo i = input_echo m \<and> id_core i = c \<and>
     input_digest nfc m = Inr (id_input_digest i)"

lemma finalize_decision_ok:
  assumes "keeps_ascii nfc" and "merge_input_ok nfc m" and "record_core_ok c"
    and "dc_accounting c = facts_accounting (mi_facts m)"
  shows "\<exists>d. finalize_decision nfc m c = Inr d \<and> decision_ok nfc d \<and> bound_identity nfc m c (md_identity d)"
proof -
  obtain x where x: "input_digest nfc m = Inr x" "sha256_digest_grammar x"
    using input_digest_total [OF assms(1)] .
  let ?i = "\<lparr>id_task_id = mi_task_id m, id_bindings = mi_bindings m,
     id_policy_version = mi_policy_version m, id_evaluator_version = mi_evaluator_version m,
     id_mode = mi_mode m, id_input_digest = x, id_core = c\<rparr>"
  obtain y where y: "canonical_digest nfc (dict_of (decision_payload ?i)) = Inr y"
    using decision_payload_digest [OF assms(1)] .
  have "identity_ok ?i" using assms(2,3) x(2) by (simp add: identity_ok_def merge_input_ok_def)
  then have ok: "decision_ok nfc \<lparr>md_identity = ?i, md_decision_digest = y\<rparr>"
    using y by (simp add: decision_ok_def decision_digest_payload)
  then have "finalize_decision nfc m c = Inr \<lparr>md_identity = ?i, md_decision_digest = y\<rparr>"
    using assms(4) x y
    by (simp add: finalize_decision_def Let_def decision_digest_values merge_decision_init_iff)
  with ok x(1) show ?thesis by (simp add: bound_identity_def identity_echo_def input_echo_def)
qed

lemma build_record_ok:
  assumes "keeps_ascii nfc" and "decision_ok nfc d" and "bound_identity nfc m c (md_identity d)"
  shows "\<exists>r. build_policy_evaluation_record nfc m d = Inr r \<and> record_ok nfc r \<and>
    er_identity r = md_identity d \<and> er_decision_digest r = md_decision_digest d"
proof -
  let ?p = "record_payload POLICY_RECORD_SCHEMA_VERSION (md_identity d) (md_decision_digest d)"
  obtain z where z: "canonical_digest nfc (dict_of ?p) = Inr z" using record_payload_digest [OF assms(1)] .
  let ?r = "\<lparr>er_schema_version = POLICY_RECORD_SCHEMA_VERSION, er_identity = md_identity d,
     er_decision_digest = md_decision_digest d, er_record_digest = z\<rparr>"
  have ok: "record_ok nfc ?r" using assms(2) z by (simp add: record_ok_def decision_ok_def)
  then have "build_policy_evaluation_record nfc m d = Inr ?r"
    using assms(2,3) z
    by (simp add: build_policy_evaluation_record_def bound_identity_def decision_ok_def evaluation_record_init_iff)
  with ok show ?thesis by simp
qed

section \<open>The facade is total\<close>

text \<open>
  The identifiers of the facts may be any text without control characters; a record takes only
  tokens.
\<close>

definition tokens_ok :: "eligibility_facts \<Rightarrow> bool" where
  "tokens_ok f \<longleftrightarrow> (\<forall>(k, xs) \<in> set (set_facts f). list_all task_id_grammar xs)"

lemma v1_codes: "code ` set v1_reason_definitions = set REASON_CODES"
  by code_simp

lemma reason_codes_grammar: "list_all machine_code_grammar REASON_CODES"
  by code_simp

lemma triggered_known: "merge_policy_ok p \<Longrightarrow> triggered p f c \<Longrightarrow> c \<in> known_codes p"
  using collect_reasons_ok [of p f] by auto

lemma v1_triggered: "triggered MERGE_ELIGIBILITY_POLICY_V1 f c \<Longrightarrow> machine_code_grammar c \<and> c \<in> set REASON_CODES"
  using triggered_known [OF v1_ok] reason_codes_grammar v1_codes
  by (auto simp: MERGE_ELIGIBILITY_POLICY_V1_def list_all_iff)

lemma v1_core_recordable:
  assumes d: "decides MERGE_ELIGIBILITY_POLICY_V1 m c" and f: "facts_ok (mi_facts m)" and "tokens_ok (mi_facts m)"
  shows "record_core_ok c"
proof -
  have core: "core_ok c" "dc_accounting c = facts_accounting (mi_facts m)" using d by (simp_all add: decides_def)
  have codes: "x \<in> set REASON_CODES \<and> machine_code_grammar x"
    if "x \<in> set (complete_reason_codes c) \<union> set (blocking_reason_codes c) \<union> set (review_reason_codes c)" for x
    using that d v1_triggered by (auto simp: decides_def)
  have "tuple_ok task_id_grammar xs" if "(k, xs) \<in> set (accounting_items (dc_accounting c))" for k xs
    using that f assms(3) unfolding core(2) accounting_items_facts
    by (auto simp: facts_ok_def tokens_ok_def tuple_ok_def ids_ok_def)
  moreover have "accounting_partition (acc_required (dc_accounting c)) (acc_satisfied (dc_accounting c))
      (acc_invalid (dc_accounting c)) (acc_missing (dc_accounting c))"
    using f unfolding core(2) by (simp add: facts_ok_def accounting_partition_def facts_accounting_def)
  ultimately show ?thesis
    using core(1) codes
    by (auto simp: record_core_ok_def core_ok_def tuple_ok_def list_all_iff reason_partition_def
        primary_agrees_def split: option.splits)
qed

definition evaluated_record ::
  "(string \<Rightarrow> string) \<Rightarrow> merge_input \<Rightarrow> decision_core \<Rightarrow> merge_decision \<Rightarrow> evaluation_record \<Rightarrow> bool" where
  "evaluated_record nfc m c d r \<longleftrightarrow>
     decision_ok nfc d \<and> record_ok nfc r \<and> bound_identity nfc m c (er_identity r) \<and>
     md_identity d = er_identity r \<and> md_decision_digest d = er_decision_digest r"

lemma record_pipeline_ok:
  assumes "keeps_ascii nfc" and "merge_input_ok nfc m" and "record_core_ok c"
    and "dc_accounting c = facts_accounting (mi_facts m)"
  shows "\<exists>d r. finalize_decision nfc m c = Inr d \<and> build_policy_evaluation_record nfc m d = Inr r \<and>
    evaluated_record nfc m c d r"
proof -
  obtain d where d: "finalize_decision nfc m c = Inr d" "decision_ok nfc d" "bound_identity nfc m c (md_identity d)"
    using finalize_decision_ok [OF assms] by blast
  then obtain r where "build_policy_evaluation_record nfc m d = Inr r" "record_ok nfc r"
    "er_identity r = md_identity d" "er_decision_digest r = md_decision_digest d"
    using build_record_ok [OF assms(1)] by blast
  with d show ?thesis by (auto simp: evaluated_record_def)
qed

lemma facade_ok:
  assumes "keeps_ascii nfc" and "merge_input_ok nfc m" and "facts_ok (mi_facts m)" and "tokens_ok (mi_facts m)"
  shows "\<exists>c d r. evaluate_merge_eligibility nfc m = Inr (d, r) \<and>
    evaluate_decision_core m MERGE_ELIGIBILITY_POLICY_V1 = Inr c \<and>
    decides MERGE_ELIGIBILITY_POLICY_V1 m c \<and> evaluated_record nfc m c d r"
proof -
  obtain c where c: "evaluate_decision_core m MERGE_ELIGIBILITY_POLICY_V1 = Inr c"
    "decides MERGE_ELIGIBILITY_POLICY_V1 m c"
    using v1_decides [OF assms(3)] by blast
  have "record_core_ok c" "dc_accounting c = facts_accounting (mi_facts m)"
    using v1_core_recordable [OF c(2) assms(3,4)] c(2) by (simp_all add: decides_def)
  then obtain d r where "finalize_decision nfc m c = Inr d" "build_policy_evaluation_record nfc m d = Inr r"
    "evaluated_record nfc m c d r"
    using record_pipeline_ok [OF assms(1,2)] by blast
  with c show ?thesis by (auto simp: evaluate_merge_eligibility_def)
qed

section \<open>A constructed record validates\<close>

definition raw_value :: "pyval \<Rightarrow> pyval" where
  "raw_value v = (case v of VTuple vs \<Rightarrow> VList vs | _ \<Rightarrow> enum_text v)"

definition raw_items :: "evaluation_record \<Rightarrow> kwargs" where
  "raw_items r = map (\<lambda>(k, v). (k, raw_value v)) (record_values r)"

abbreviation raw_get :: "evaluation_record \<Rightarrow> string \<Rightarrow> pyval" where
  "raw_get r k \<equiv> case map_of (raw_items r) k of None \<Rightarrow> VNone | Some v \<Rightarrow> v"

lemma raw_record_typed:
  "raw_record_payload (TypedRecord r) = Some (map (\<lambda>(k, v). (VStr k, v)) (raw_items r))"
  by (auto simp: raw_record_payload_def raw_items_def raw_value_def)

lemma raw_value_simps [simp]:
  "raw_value (VStr s) = VStr s" "raw_value (VTuple vs) = VList vs"
  "raw_value (VEnum ''Disposition'' s) = VStr s" "raw_value (VEnum ''DecisionAuthority'' s) = VStr s"
  "raw_value (VEnum ''EvaluationMode'' s) = VStr s" "raw_value (text_option x) = text_option x"
  by (simp_all add: raw_value_def text_option_def split: option.split)

lemmas raw_items_defs = raw_items_def record_values_def identity_values_def identity_echo_def echo_values_def
  binding_items_def core_values_def accounting_items_def requirement_set_fields_def evidence_set_fields_def

lemma raw_scalars:
  "raw_get r ''schema_version'' = VStr (er_schema_version r)"
  "raw_get r ''task_id'' = VStr (id_task_id (er_identity r))"
  "raw_get r ''policy_version'' = VStr (id_policy_version (er_identity r))"
  "raw_get r ''evaluator_version'' = VStr (id_evaluator_version (er_identity r))"
  "raw_get r ''evaluation_mode'' = VStr (evaluation_mode_value (id_mode (er_identity r)))"
  "raw_get r ''input_digest'' = VStr (id_input_digest (er_identity r))"
  "raw_get r ''disposition'' = VStr (disposition_value (dc_disposition (id_core (er_identity r))))"
  "raw_get r ''decision_authority'' = VStr (decision_authority_value (dc_authority (id_core (er_identity r))))"
  "raw_get r ''primary_reason_code'' = text_option (primary_reason_code (id_core (er_identity r)))"
  "raw_get r ''decision_digest'' = VStr (er_decision_digest r)"
  "raw_get r ''policy_record_digest'' = VStr (er_record_digest r)"
  by (simp_all add: raw_items_defs)

lemma raw_bindings:
  "map (raw_get r) source_binding_fields = map (\<lambda>kv. VStr (snd kv)) (binding_items (id_bindings (er_identity r)))"
  by (simp add: raw_items_defs source_binding_fields_def)

definition core_lists :: "decision_core \<Rightarrow> string list list" where
  "core_lists c = [complete_reason_codes c, blocking_reason_codes c, review_reason_codes c]
     @ map snd (accounting_items (dc_accounting c))"

lemma raw_lists:
  "map (raw_get r) (reason_tuple_fields @ accounting_fields) =
     map (\<lambda>xs. VList (map VStr xs)) (core_lists (id_core (er_identity r)))"
  by (simp add: raw_items_defs reason_tuple_fields_def accounting_fields_def core_lists_def)

lemma errors_of_Nil [simp]: "errors_of tests = [] \<longleftrightarrow> list_all (\<lambda>t. \<not> fst t) tests"
  by (auto simp: errors_of_def filter_empty_conv list_all_iff)

lemma raw_string_list_strs [simp]: "raw_string_list (VList (map VStr xs)) = Some xs"
proof -
  have "those (map exact_str (map VStr xs)) = Some xs" by (induction xs) (simp_all add: exact_str_def)
  then show ?thesis by (simp add: raw_string_list_def del: map_map)
qed

lemma str_matches_str [simp]: "str_matches P (VStr s) = P s"
  by (simp add: str_matches_def)

lemma raw_items_keys: "map fst (raw_items r) = raw_record_fields"
  using record_values_keys [of r] by (simp add: raw_items_def case_prod_beta comp_def)

lemma raw_lookup:
  assumes "(k, v) \<in> set (record_values r)"
  shows "raw_get r k = raw_value v"
proof -
  have "(k, raw_value v) \<in> set (raw_items r)" using assms by (force simp: raw_items_def)
  moreover have "distinct (map fst (raw_items r))"
    using record_fields_distinct by (simp only: raw_items_keys distinct.simps)
  ultimately have "map_of (raw_items r) k = Some (raw_value v)" by (rule map_of_is_SomeI [rotated])
  then show ?thesis by simp
qed

lemma dict_keys: "fst ` set (map (\<lambda>(k, v). (VStr k, v)) kvs) = VStr ` set (map fst kvs)"
  by (simp add: image_image case_prod_beta)

lemma scalar_errors_typed:
  assumes "record_ok nfc r"
  shows "scalar_errors (raw_get r) = []"
proof -
  have i: "identity_ok (er_identity r)" and sv: "er_schema_version r = POLICY_RECORD_SCHEMA_VERSION"
    and d: "sha256_digest_grammar (er_decision_digest r)" "sha256_digest_grammar (er_record_digest r)"
    using assms canonical_digest_shape by (auto simp: record_ok_def decision_digest_payload)
  have "list_all (\<lambda>k. k = ''approval_digest_or_sentinel'' \<and> text_of (raw_get r k) = Some APPROVAL_SENTINEL
      \<or> str_matches sha256_digest_grammar (raw_get r k)) source_binding_fields"
    unfolding list_all_iff
  proof
    fix k assume "k \<in> set source_binding_fields"
    then obtain x where x: "(k, x) \<in> set (binding_items (id_bindings (er_identity r)))"
      using arg_cong [OF binding_items_keys, of set "id_bindings (er_identity r)"] by force
    then have "(k, VStr x) \<in> set (record_values r)"
      by (force simp: record_values_def identity_values_def identity_echo_def echo_values_def)
    then have "raw_get r k = VStr x" using raw_lookup by simp
    with x show "k = ''approval_digest_or_sentinel'' \<and> text_of (raw_get r k) = Some APPROVAL_SENTINEL
        \<or> str_matches sha256_digest_grammar (raw_get r k)"
      using i by (auto simp: identity_ok_def bindings_ok_def)
  qed
  then show ?thesis
    using i sv d evaluation_mode_enum.member [of "id_mode (er_identity r)"]
      disposition_enum.member [of "dc_disposition (id_core (er_identity r))"]
      decision_authority_enum.member [of "dc_authority (id_core (er_identity r))"]
    by (auto simp: scalar_errors_def raw_scalars identity_ok_def list_all_iff comp_def)
qed

lemma list_errors_typed:
  assumes "record_core_ok (id_core (er_identity r))"
  shows "list_errors (raw_get r) = []"
proof -
  let ?c = "id_core (er_identity r)"
  let ?G = "\<lambda>v. case raw_string_list v of None \<Rightarrow> [(True, TYPE_INVALID)]
      | Some xs \<Rightarrow> [(xs \<noteq> sort xs \<or> \<not> distinct xs, NOT_NORMALIZED)]"
  let ?H = "\<lambda>v. (case raw_string_list v of None \<Rightarrow> False | Some xs \<Rightarrow> \<not> set xs \<subseteq> set REASON_CODES, TYPE_INVALID)"
  have "map ?G (map (raw_get r) (reason_tuple_fields @ accounting_fields)) =
      map (\<lambda>xs. [(xs \<noteq> sort xs \<or> \<not> distinct xs, NOT_NORMALIZED)]) (core_lists ?c)"
    unfolding raw_lists by simp
  then have G: "map (\<lambda>k. ?G (raw_get r k)) (reason_tuple_fields @ accounting_fields) =
      map (\<lambda>xs. [(xs \<noteq> sort xs \<or> \<not> distinct xs, NOT_NORMALIZED)]) (core_lists ?c)"
    by (simp only: map_map comp_def)
  have "map (raw_get r) reason_tuple_fields = map (\<lambda>xs. VList (map VStr xs)) (take 3 (core_lists ?c))"
    using arg_cong [OF raw_lists, of "take 3" r] by (simp add: reason_tuple_fields_def take_map)
  then have "map ?H (map (raw_get r) reason_tuple_fields) =
      map (\<lambda>xs. (\<not> set xs \<subseteq> set REASON_CODES, TYPE_INVALID)) (take 3 (core_lists ?c))"
    by simp
  then have H: "map (\<lambda>k. ?H (raw_get r k)) reason_tuple_fields =
      map (\<lambda>xs. (\<not> set xs \<subseteq> set REASON_CODES, TYPE_INVALID)) (take 3 (core_lists ?c))"
    by (simp only: map_map comp_def)
  have "\<forall>xs \<in> set (core_lists ?c). xs = sort xs \<and> distinct xs"
    using assms unfolding sort_distinct_iff by (auto simp: core_lists_def record_core_ok_def tuple_ok_def)
  moreover have "\<forall>xs \<in> set (take 3 (core_lists ?c)). set xs \<subseteq> set REASON_CODES"
    using assms by (auto simp: core_lists_def record_core_ok_def tuple_ok_def list_all_iff)
  moreover have "text_option (primary_reason_code ?c) = VNone \<or>
      str_matches (\<lambda>s. s \<in> set REASON_CODES) (text_option (primary_reason_code ?c))"
    using assms by (auto simp: text_option_def record_core_ok_def split: option.splits)
  ultimately show ?thesis
    unfolding list_errors_def G H raw_scalars by (auto simp: list_all_iff)
qed

lemma consistency_errors_typed:
  assumes "record_core_ok (id_core (er_identity r))"
  shows "consistency_errors (raw_get r) = []"
proof -
  let ?c = "id_core (er_identity r)"
  define F where "F = (\<lambda>k. raw_string_list (raw_get r k))"
  have "map raw_string_list (map (raw_get r) (reason_tuple_fields @ accounting_fields)) = map Some (core_lists ?c)"
    unfolding raw_lists by simp
  then have lists: "map F (reason_tuple_fields @ accounting_fields) = map Some (core_lists ?c)"
    by (simp only: map_map comp_def F_def)
  have reasons: "map F reason_tuple_fields =
      [Some (complete_reason_codes ?c), Some (blocking_reason_codes ?c), Some (review_reason_codes ?c)]"
    using lists by (simp add: reason_tuple_fields_def core_lists_def)
  have acc: "map F (take 4 accounting_fields) =
      [Some (acc_required (dc_accounting ?c)), Some (acc_satisfied (dc_accounting ?c)),
       Some (acc_invalid (dc_accounting ?c)), Some (acc_missing (dc_accounting ?c))]"
    using lists by (simp add: reason_tuple_fields_def accounting_fields_def core_lists_def accounting_items_def
        requirement_set_fields_def evidence_set_fields_def)
  have "raw_primary_agrees (text_option (primary_reason_code ?c)) (complete_reason_codes ?c)"
    using assms by (auto simp: raw_primary_agrees_def record_core_ok_def primary_agrees_def text_option_def
        split: option.splits)
  then show ?thesis
    using assms unfolding consistency_errors_def F_def [symmetric] reasons acc raw_scalars
    by (simp add: record_core_ok_def)
qed

lemma json_field_raw: "json_field (map (\<lambda>(k, v). (VStr k, v)) (raw_items r)) = raw_get r"
  by (rule ext) simp

lemma raw_fields_typed:
  assumes "record_ok nfc r"
  shows "validate_raw_fields (map (\<lambda>(k, v). (VStr k, v)) (raw_items r)) = Inr []"
proof -
  have c: "record_core_ok (id_core (er_identity r))" using assms by (simp add: record_ok_def identity_ok_def)
  have "\<not> unhashable (text_option x)" for x by (simp add: text_option_def split: option.split)
  then show ?thesis
    unfolding validate_raw_fields_def Let_def json_field_raw raw_scalars
    using scalar_errors_typed [OF assms] list_errors_typed [OF c] consistency_errors_typed [OF c] by simp
qed

lemma canonicalize_raw_value: "canonicalize nfc (raw_value v) = canonicalize nfc v"
  by (cases v) (simp_all add: raw_value_def)

lemma raw_items_split:
  "raw_items r = (''schema_version'', VStr (er_schema_version r))
     # map (\<lambda>(k, v). (k, raw_value v)) (identity_values (er_identity r))
     @ [(''decision_digest'', VStr (er_decision_digest r)), (''policy_record_digest'', VStr (er_record_digest r))]"
  by (simp add: raw_items_def record_values_def)

lemma raw_identity:
  "map (\<lambda>k. (k, raw_get r k)) identity_fields =
     map (\<lambda>(k, v). (k, raw_value v)) (identity_values (er_identity r))"
proof -
  have "distinct (map fst (raw_items r))"
    using record_fields_distinct by (simp only: raw_items_keys distinct.simps)
  then have "map (\<lambda>k. (k, raw_get r k)) raw_record_fields = raw_items r"
    using lookup_all [of "raw_items r"] unfolding json_field_raw raw_items_keys by simp
  then show ?thesis
    unfolding raw_items_split [of r] raw_record_fields_def list.map map_append
    by (simp add: append_eq_append_conv)
qed

lemma decision_digest_raw:
  "decision_digest_for nfc (dict_of (map (\<lambda>k. (k, raw_get r k)) identity_fields)) =
     canonical_digest nfc (dict_of (decision_payload (er_identity r)))"
proof -
  let ?vs = "(''kind'', VStr DECISION_KIND) # identity_values (er_identity r)"
  have "map fst (map (\<lambda>k. (k, raw_get r k)) identity_fields) = identity_fields" by (simp add: comp_def)
  then have "decision_digest_for nfc (dict_of (map (\<lambda>k. (k, raw_get r k)) identity_fields)) =
      canonical_digest nfc (dict_of (map (\<lambda>(k, v). (k, raw_value v)) ?vs))"
    using decision_digest_items raw_identity by simp
  then show ?thesis
    using decision_digest_values [of nfc "er_identity r"] decision_digest_items [OF identity_values_keys]
    by (simp only: canonical_digest_map [of nfc raw_value, OF canonicalize_raw_value])
qed

lemma record_digest_raw:
  "canonical_digest nfc (VDict (filter (\<lambda>kv. fst kv \<noteq> VStr ''policy_record_digest'')
       (map (\<lambda>(k, v). (VStr k, v)) (raw_items r)))) =
     canonical_digest nfc (dict_of (record_payload (er_schema_version r) (er_identity r) (er_decision_digest r)))"
proof -
  let ?vs = "(''schema_version'', VStr (er_schema_version r)) # identity_values (er_identity r)
    @ [(''decision_digest'', VStr (er_decision_digest r))]"
  have "''policy_record_digest'' \<notin> fst ` set (identity_values (er_identity r))"
    using record_fields_distinct arg_cong [OF identity_values_keys, of set "er_identity r"]
    by (simp add: raw_record_fields_def)
  then have "filter (\<lambda>x. fst x \<noteq> ''policy_record_digest'') (identity_values (er_identity r)) =
      identity_values (er_identity r)"
    by (force simp: filter_id_conv)
  then have "filter (\<lambda>kv. fst kv \<noteq> VStr ''policy_record_digest'') (map (\<lambda>(k, v). (VStr k, v)) (raw_items r)) =
      map (\<lambda>(k, v). (VStr k, v)) (map (\<lambda>(k, v). (k, raw_value v)) ?vs)"
    by (simp add: raw_items_split filter_map comp_def case_prod_beta)
  then have "VDict (filter (\<lambda>kv. fst kv \<noteq> VStr ''policy_record_digest'') (map (\<lambda>(k, v). (VStr k, v)) (raw_items r))) =
      dict_of (map (\<lambda>(k, v). (k, raw_value v)) ?vs)"
    by (simp only: dict_of_def)
  moreover have "record_payload (er_schema_version r) (er_identity r) (er_decision_digest r) =
      map (\<lambda>(k, v). (k, enum_text v)) ?vs"
    by (simp add: record_payload_def identity_payload_def)
  ultimately show ?thesis
    by (simp only: canonical_digest_map [of nfc raw_value, OF canonicalize_raw_value]
        canonical_digest_map [of nfc enum_text, OF canonicalize_enum_text])
qed

lemma identity_errors_typed:
  assumes "record_ok nfc r"
  shows "identity_errors nfc (map (\<lambda>(k, v). (VStr k, v)) (raw_items r)) = []"
proof -
  have "canonical_digest nfc (dict_of (decision_payload (er_identity r))) = Inr (er_decision_digest r)"
    "canonical_digest nfc (dict_of (record_payload (er_schema_version r) (er_identity r) (er_decision_digest r))) =
      Inr (er_record_digest r)"
    using assms unfolding record_ok_def decision_digest_payload by blast+
  then show ?thesis
    unfolding identity_errors_def raw_fields_typed [OF assms] json_field_raw raw_scalars
      decision_digest_raw record_digest_raw by simp
qed

lemma validate_typed:
  assumes "record_ok nfc r"
  shows "validate_policy_evaluation_record nfc (TypedRecord r) inp universes =
    seqE (case inp of RawInput VNone \<Rightarrow> Inr []
      | _ \<Rightarrow> validate_input_binding nfc (map (\<lambda>(k, v). (VStr k, v)) (raw_items r)) inp) (\<lambda>binding.
    Inr (validation_outcome (universe_errors (map (\<lambda>(k, v). (VStr k, v)) (raw_items r)) universes @ binding)))"
proof -
  have "fst ` set (map (\<lambda>(k, v). (VStr k, v)) (raw_items r)) = VStr ` set raw_record_fields"
    unfolding dict_keys raw_items_keys ..
  then show ?thesis
    by (simp add: validate_policy_evaluation_record_def raw_record_typed identity_errors_typed [OF assms]
        is_exact_str_def case_prod_beta del: json_field_dict)
qed

lemma input_binding_typed:
  assumes "bound_identity nfc m c (er_identity r)"
  shows "validate_input_binding nfc (map (\<lambda>(k, v). (VStr k, v)) (raw_items r)) (TypedInput m) = Inr []"
proof -
  have "same_text (snd kv) (raw_get r (fst kv))" if "kv \<in> set (identity_echo (er_identity r))" for kv
  proof -
    have "(fst kv, snd kv) \<in> set (record_values r)"
      using that by (simp add: record_values_def identity_values_def)
    then have "raw_get r (fst kv) = raw_value (snd kv)" by (rule raw_lookup)
    then show ?thesis using that by (auto simp: same_text_def identity_echo_def echo_values_def)
  qed
  then show ?thesis
    using assms
    by (auto simp: validate_input_binding_def bound_identity_def json_field_raw raw_scalars simp del: json_field_dict)
qed

section \<open>The errors of record construction\<close>

definition raises_only :: "string \<Rightarrow> exn + 'a \<Rightarrow> bool" where
  "raises_only cls r \<longleftrightarrow> (\<forall>e. r = Inl e \<longrightarrow> exn_type e = cls)"

lemma raises_only_seqE: "raises_only cls r \<Longrightarrow> (\<And>a. raises_only cls (f a)) \<Longrightarrow> raises_only cls (seqE r f)"
  by (auto simp: raises_only_def seqE_Inl_iff)

lemma raises_only_mapE: "(\<And>x. raises_only cls (f x)) \<Longrightarrow> raises_only cls (mapE f xs)"
  by (auto simp: raises_only_def dest: mapE_Inl_mem)

lemma raises_only_first: "list_all (\<lambda>ce. exn_type (snd ce) = cls) ces \<Longrightarrow> raises_only cls (raise_first ces)"
  by (force simp: raises_only_def list_all_iff dest: raise_first_InlD)

lemma raises_only_identity: "raises_only ''RecordConstructionError'' (validate_identity_fields i)"
  unfolding validate_identity_fields_def validate_decision_fields_def Let_def
  by (intro raises_only_seqE raises_only_mapE raises_only_first)
     (auto simp: raises_only_def require_token_def rec_require_digest_def rec_require_tuple_def Let_def
        dest!: raise_first_InlD split: if_splits)

lemma facade_refuses:
  assumes "keeps_ascii nfc" and "facts_ok (mi_facts m)" and "\<not> tokens_ok (mi_facts m)"
  shows "\<exists>e. evaluate_merge_eligibility nfc m = Inl e \<and> exn_type e = ''RecordConstructionError''"
proof -
  obtain c where c: "evaluate_decision_core m MERGE_ELIGIBILITY_POLICY_V1 = Inr c"
    "decides MERGE_ELIGIBILITY_POLICY_V1 m c"
    using v1_decides [OF assms(2)] by blast
  then have acc: "dc_accounting c = facts_accounting (mi_facts m)" by (simp add: decides_def)
  obtain x where x: "input_digest nfc m = Inr x" using input_digest_total [OF assms(1)] .
  let ?i = "\<lparr>id_task_id = mi_task_id m, id_bindings = mi_bindings m,
     id_policy_version = mi_policy_version m, id_evaluator_version = mi_evaluator_version m,
     id_mode = mi_mode m, id_input_digest = x, id_core = c\<rparr>"
  obtain y where y: "canonical_digest nfc (dict_of (decision_payload ?i)) = Inr y"
    using decision_payload_digest [OF assms(1)] .
  have "\<not> identity_ok ?i"
    using assms(3) acc
    by (auto simp: identity_ok_def record_core_ok_def accounting_items_facts tokens_ok_def tuple_ok_def)
  then obtain e where e: "validate_identity_fields ?i = Inl e"
    using validate_identity_fields_ok [of ?i] by (cases "validate_identity_fields ?i") auto
  then have "exn_type e = ''RecordConstructionError''"
    using raises_only_identity [of ?i] by (simp add: raises_only_def)
  moreover have "finalize_decision nfc m c = Inl e"
    using acc x y e by (simp add: finalize_decision_def Let_def decision_digest_values merge_decision_init_def)
  ultimately show ?thesis using c(1) by (simp add: evaluate_merge_eligibility_def)
qed

end
