(* ===== verification/Merge_Replay.thy ===== *)
theory Merge_Replay
  imports Merge_Record "HOL-Library.Product_Lexorder"
begin

text \<open>
  Versioned registries and semantic replay (\<open>build_harness/merge_eligibility_replay.py\<close>): a
  stored record is validated, checked against the input it claims to judge, and evaluated again
  with the policy and the evaluator registered under the identities it names.
\<close>

section \<open>Registries\<close>

abbreviation RegistryConstructionError :: "string \<Rightarrow> exn" where
  "RegistryConstructionError m \<equiv> Exn ''RegistryConstructionError'' m"

type_synonym core_evaluator = "merge_input \<Rightarrow> merge_policy \<Rightarrow> exn + decision_core"

type_synonym policy_registry = "(policy_identity \<times> merge_policy) list"

type_synonym evaluator_registry = "(string \<times> core_evaluator) list"

text \<open>
  The loop of \<open>PolicyRegistry.__post_init__\<close> over the pairs of its source, then the sort by
  version and digest.
\<close>

fun add_policies :: "policy_registry \<Rightarrow> policy_registry \<Rightarrow> exn + policy_registry" where
  "add_policies built [] = Inr built"
| "add_policies built ((key, policy) # rest) =
     (if key \<noteq> declared_identity policy
      then Inl (RegistryConstructionError ''policy registry key must equal declared policy identity'')
      else if key \<in> fst ` set built then Inl (RegistryConstructionError ''duplicate policy identity'')
      else add_policies (built @ [(key, policy)]) rest)"

definition policy_registry_init :: "policy_registry \<Rightarrow> exn + policy_registry" where
  "policy_registry_init source =
     seqE (add_policies [] source) (\<lambda>built.
       Inr (sort_key (\<lambda>item. (pid_version (fst item), pid_digest (fst item))) built))"

definition resolve_policy :: "policy_registry \<Rightarrow> policy_identity \<Rightarrow> merge_policy option" where
  "resolve_policy entries i = map_of entries i"

definition has_version :: "policy_registry \<Rightarrow> string \<Rightarrow> bool" where
  "has_version entries v = list_ex (\<lambda>item. pid_version (fst item) = v) entries"

fun add_evaluators :: "evaluator_registry \<Rightarrow> evaluator_registry \<Rightarrow> exn + evaluator_registry" where
  "add_evaluators built [] = Inr built"
| "add_evaluators built ((key, evaluator) # rest) =
     (case evaluator_identity_init key of
        Inl e \<Rightarrow> Inl (RegistryConstructionError ''invalid evaluator identity'')
      | Inr _ \<Rightarrow>
          if key \<in> fst ` set built then Inl (RegistryConstructionError ''duplicate evaluator identity'')
          else add_evaluators (built @ [(key, evaluator)]) rest)"

definition evaluator_registry_init :: "evaluator_registry \<Rightarrow> exn + evaluator_registry" where
  "evaluator_registry_init source =
     seqE (add_evaluators [] source) (\<lambda>built. Inr (sort_key fst built))"

definition resolve_evaluator :: "evaluator_registry \<Rightarrow> string \<Rightarrow> core_evaluator option" where
  "resolve_evaluator entries v = map_of entries v"

section \<open>Results\<close>

datatype replay_classification =
    RECORD_STRUCTURALLY_INVALID
  | INPUT_BINDING_MISMATCH
  | UNKNOWN_POLICY_IDENTITY
  | UNKNOWN_EVALUATOR_IDENTITY
  | SEMANTIC_REPLAY_MISMATCH
  | SEMANTICALLY_REPLAY_VERIFIED

record replay_result =
  rp_classification :: replay_classification
  rp_mismatch_codes :: "string list"
  rp_diagnostics :: "string list"
  record_structurally_valid :: bool
  policy_identity_resolved :: bool
  evaluator_identity_resolved :: bool
  semantic_replay_performed :: bool
  decision_identity_matches :: bool
  record_identity_matches :: bool

definition limit_diagnostics :: "string list" where
  "limit_diagnostics =
     [''NOT_VERIFIED_IN_SLICE_1B:FACTS_VS_REALITY'',
      ''NOT_VERIFIED_IN_SLICE_1B:IDENTIFIER_UNIVERSE_TRUTH'',
      ''NOT_VERIFIED_IN_SLICE_1B:POLICY_ARTIFACT_PROVENANCE'',
      ''NOT_VERIFIED_IN_SLICE_1B:SOURCE_BINDING_AUTHENTICITY'']"

text \<open>\<open>SemanticReplayResult.__post_init__\<close>, then \<open>_result\<close> with its flags.\<close>

definition replay_result_init :: "replay_result \<Rightarrow> exn + replay_result" where
  "replay_result_init r =
     (if rp_mismatch_codes r \<noteq> sort (remdups (rp_mismatch_codes r))
      then Inl (ValueError ''mismatch_codes must be sorted and duplicate-free'')
      else if rp_diagnostics r \<noteq> sort (remdups (rp_diagnostics r))
      then Inl (ValueError ''diagnostics must be sorted and duplicate-free'')
      else Inr r)"

definition replay_outcome ::
  "replay_classification \<Rightarrow> string list \<Rightarrow> string list \<Rightarrow> bool list \<Rightarrow> exn + replay_result" where
  "replay_outcome cls mismatches diagnostics flags =
     replay_result_init
       \<lparr>rp_classification = cls, rp_mismatch_codes = sort (remdups mismatches),
        rp_diagnostics = sort (remdups (limit_diagnostics @ diagnostics)),
        record_structurally_valid = flags ! 0, policy_identity_resolved = flags ! 1,
        evaluator_identity_resolved = flags ! 2, semantic_replay_performed = flags ! 3,
        decision_identity_matches = flags ! 4, record_identity_matches = flags ! 5\<rparr>"

section \<open>Replay\<close>

text \<open>\<open>_record_value\<close>: enum members as their text, the committed lists as tuples.\<close>

definition record_value :: "record_arg \<Rightarrow> string \<Rightarrow> pyval" where
  "record_value r k =
     (let v = (case r of
                 TypedRecord t \<Rightarrow> (case map_of (record_values t) k of None \<Rightarrow> VNone | Some v \<Rightarrow> v)
               | RawRecord (VDict kvs) \<Rightarrow> json_field kvs k
               | RawRecord _ \<Rightarrow> VNone);
          w = (case v of VEnum c s \<Rightarrow> VStr s | _ \<Rightarrow> v)
      in if k \<in> set (reason_tuple_fields @ accounting_fields)
         then (case w of VList vs \<Rightarrow> VTuple vs | _ \<Rightarrow> w) else w)"

definition differs :: "evaluation_record \<Rightarrow> record_arg \<Rightarrow> string \<Rightarrow> bool" where
  "differs replayed stored k \<longleftrightarrow> record_value (TypedRecord replayed) k \<noteq> record_value stored k"

definition mismatch_codes :: "evaluation_record \<Rightarrow> record_arg \<Rightarrow> string list" where
  "mismatch_codes replayed stored =
     sort (errors_of
       [(differs replayed stored ''disposition'', ''DISPOSITION_MISMATCH''),
        (differs replayed stored ''primary_reason_code'', ''PRIMARY_REASON_MISMATCH''),
        (differs replayed stored ''complete_reason_codes'', ''REASON_SET_MISMATCH''),
        (differs replayed stored ''blocking_reason_codes''
           \<or> differs replayed stored ''review_reason_codes'', ''PARTITION_MISMATCH''),
        (list_ex (differs replayed stored) accounting_fields, ''ACCOUNTING_MISMATCH''),
        (differs replayed stored ''decision_digest'', ''DECISION_DIGEST_MISMATCH''),
        (differs replayed stored ''policy_record_digest'', ''RECORD_DIGEST_MISMATCH'')])"

text \<open>\<open>str(x)\<close> of a validated field.\<close>

definition field_text :: "record_arg \<Rightarrow> string \<Rightarrow> string" where
  "field_text r k = (case record_value r k of VStr s \<Rightarrow> s | _ \<Rightarrow> [])"

definition verify_semantic_replay ::
  "(string \<Rightarrow> string) \<Rightarrow> merge_input \<Rightarrow> record_arg \<Rightarrow> policy_registry \<Rightarrow> evaluator_registry
     \<Rightarrow> exn + replay_result" where
  "verify_semantic_replay nfc m r policies evaluators =
     seqE (validate_policy_evaluation_record nfc r (RawInput VNone) VNone) (\<lambda>structural.
     if vr_errors structural \<noteq> []
     then replay_outcome RECORD_STRUCTURALLY_INVALID [] (vr_errors structural)
            [False, False, False, False, False, False]
     else
     seqE (validate_policy_evaluation_record nfc r (TypedInput m) VNone) (\<lambda>binding.
     if vr_errors binding \<noteq> []
     then replay_outcome INPUT_BINDING_MISMATCH [] (vr_errors binding)
            [True, False, False, False, False, False]
     else
     seqE (policy_identity_init
       \<lparr>pid_version = field_text r ''policy_version'', pid_digest = field_text r ''policy_digest''\<rparr>) (\<lambda>pid.
     case resolve_policy policies pid of
       None \<Rightarrow>
         replay_outcome UNKNOWN_POLICY_IDENTITY []
           (if has_version policies (pid_version pid) then [''POLICY_DIGEST_MISMATCH''] else [])
           [True, False, False, False, False, False]
     | Some policy \<Rightarrow>
         (case resolve_evaluator evaluators (field_text r ''evaluator_version'') of
            None \<Rightarrow>
              replay_outcome UNKNOWN_EVALUATOR_IDENTITY [] [] [True, True, False, False, False, False]
          | Some evaluator \<Rightarrow>
              seqE (evaluator m policy) (\<lambda>core.
              seqE (finalize_decision nfc m core) (\<lambda>decision.
              seqE (build_policy_evaluation_record nfc m decision) (\<lambda>replayed.
                let decision_matches = \<not> differs replayed r ''decision_digest'';
                    record_matches = \<not> differs replayed r ''policy_record_digest''
                in if mismatch_codes replayed r \<noteq> []
                   then replay_outcome SEMANTIC_REPLAY_MISMATCH (mismatch_codes replayed r) []
                          [True, True, True, True, decision_matches, record_matches]
                   else replay_outcome SEMANTICALLY_REPLAY_VERIFIED [] []
                          [True, True, True, True, True, True])))))))"

section \<open>Construction of registries\<close>

lemma add_policies_Inr:
  "add_policies built src = Inr reg \<Longrightarrow>
     reg = built @ src \<and> (\<forall>(k, p) \<in> set src. k = declared_identity p) \<and>
     (distinct (map fst built) \<longrightarrow> distinct (map fst reg))"
proof (induction built src rule: add_policies.induct)
  case (2 built key policy rest)
  then have k: "key = declared_identity policy" "key \<notin> fst ` set built"
    "add_policies (built @ [(key, policy)]) rest = Inr reg"
    by (auto split: if_splits)
  have ih: "reg = (built @ [(key, policy)]) @ rest \<and> (\<forall>(k, p) \<in> set rest. k = declared_identity p) \<and>
      (distinct (map fst (built @ [(key, policy)])) \<longrightarrow> distinct (map fst reg))"
    using 2(1) [OF _ k(2,3)] k(1) by blast
  moreover have "distinct (map fst built) \<Longrightarrow> distinct (map fst (built @ [(key, policy)]))" using k(2) by simp
  ultimately have "distinct (map fst built) \<longrightarrow> distinct (map fst reg)" by blast
  then show ?case using ih k(1) by simp
qed simp

lemma policy_registry_sound:
  assumes "policy_registry_init src = Inr reg"
  shows "resolve_policy reg i = Some p \<Longrightarrow> declared_identity p = i"
    and "(i, p) \<in> set src \<Longrightarrow> resolve_policy reg i = Some p"
proof -
  have reg: "reg = sort_key (\<lambda>item. (pid_version (fst item), pid_digest (fst item))) src"
    "\<forall>(k, p) \<in> set src. k = declared_identity p" "distinct (map fst src)"
    using assms add_policies_Inr [of "[]" src] by (auto simp: policy_registry_init_def seqE_Inr_iff)
  have "mset (map fst reg) = mset (map fst src)" unfolding reg(1) by simp
  then have d: "distinct (map fst reg)" using reg(3) mset_eq_imp_distinct_iff by metis
  show "resolve_policy reg i = Some p \<Longrightarrow> declared_identity p = i"
    using reg(2) map_of_SomeD [of reg i p] by (auto simp: resolve_policy_def reg(1) simp del: map_of_eq_None_iff)
  show "(i, p) \<in> set src \<Longrightarrow> resolve_policy reg i = Some p"
    using map_of_is_SomeI [OF d] reg(1) by (simp add: resolve_policy_def)
qed

section \<open>Replay of an evaluated record\<close>

lemma outcome_sorted [simp]:
  "replay_result_init \<lparr>rp_classification = cls, rp_mismatch_codes = sort (remdups ms),
     rp_diagnostics = sort (remdups ds), record_structurally_valid = a, policy_identity_resolved = b,
     evaluator_identity_resolved = c, semantic_replay_performed = d, decision_identity_matches = e,
     record_identity_matches = f\<rparr> =
   Inr \<lparr>rp_classification = cls, rp_mismatch_codes = sort (remdups ms),
     rp_diagnostics = sort (remdups ds), record_structurally_valid = a, policy_identity_resolved = b,
     evaluator_identity_resolved = c, semantic_replay_performed = d, decision_identity_matches = e,
     record_identity_matches = f\<rparr>"
proof -
  have "sort (remdups (sort (remdups xs))) = sort (remdups xs)" for xs :: "string list"
    by (simp add: distinct_remdups_id sorted_sort_id)
  then show ?thesis by (simp add: replay_result_init_def)
qed

lemma replay_outcome_class:
  "replay_outcome cls ms ds flags = Inr res \<Longrightarrow> rp_classification res = cls"
  by (auto simp: replay_outcome_def)

lemma replay_outcome_total: "\<exists>res. replay_outcome cls ms ds flags = Inr res"
  by (simp add: replay_outcome_def)

lemma record_values_distinct: "distinct (map fst (record_values r))"
  using record_fields_distinct by (simp only: record_values_keys distinct.simps)

lemma record_value_typed:
  assumes "(k, v) \<in> set (record_values r)"
  shows "record_value (TypedRecord r) k = (case v of VEnum c s \<Rightarrow> VStr s | VList vs \<Rightarrow>
     (if k \<in> set (reason_tuple_fields @ accounting_fields) then VTuple vs else v) | _ \<Rightarrow> v)"
  using map_of_is_SomeI [OF record_values_distinct assms]
  by (cases v) (simp_all add: record_value_def Let_def)

lemma stored_scalars:
  "record_value (TypedRecord r) ''policy_version'' = VStr (id_policy_version (er_identity r))"
  "record_value (TypedRecord r) ''policy_digest'' = VStr (policy_digest (id_bindings (er_identity r)))"
  "record_value (TypedRecord r) ''evaluator_version'' = VStr (id_evaluator_version (er_identity r))"
  "record_value (TypedRecord r) ''disposition'' =
     VStr (disposition_value (dc_disposition (id_core (er_identity r))))"
  "record_value (TypedRecord r) ''primary_reason_code'' =
     text_option (primary_reason_code (id_core (er_identity r)))"
  "record_value (TypedRecord r) ''decision_digest'' = VStr (er_decision_digest r)"
  "record_value (TypedRecord r) ''policy_record_digest'' = VStr (er_record_digest r)"
  "record_value (TypedRecord r) ''complete_reason_codes'' =
     VTuple (map VStr (complete_reason_codes (id_core (er_identity r))))"
  "record_value (TypedRecord r) ''blocking_reason_codes'' =
     VTuple (map VStr (blocking_reason_codes (id_core (er_identity r))))"
  "record_value (TypedRecord r) ''review_reason_codes'' =
     VTuple (map VStr (review_reason_codes (id_core (er_identity r))))"
  by (simp_all add: record_value_def record_values_def identity_values_def identity_echo_def echo_values_def
      binding_items_def core_values_def reason_tuple_fields_def accounting_fields_def text_option_def
      accounting_items_def requirement_set_fields_def evidence_set_fields_def split: option.split)

lemma stored_accounting:
  "map (record_value (TypedRecord r)) accounting_fields =
     map (\<lambda>kxs. VTuple (map VStr (snd kxs))) (accounting_items (dc_accounting (id_core (er_identity r))))"
proof -
  let ?a = "accounting_items (dc_accounting (id_core (er_identity r)))"
  have "record_value (TypedRecord r) (fst kxs) = VTuple (map VStr (snd kxs))" if "kxs \<in> set ?a" for kxs
  proof -
    have "(fst kxs, VTuple (map VStr (snd kxs))) \<in> set (record_values r)"
      using that by (force simp: record_values_def identity_values_def core_values_def)
    then show ?thesis using record_value_typed by simp
  qed
  then show ?thesis unfolding accounting_items_keys [of "dc_accounting (id_core (er_identity r))", symmetric] by simp
qed

text \<open>A record agrees with its own replay.\<close>

lemma no_mismatch_refl: "mismatch_codes r (TypedRecord r) = []"
  by (simp add: mismatch_codes_def differs_def errors_of_def list_ex_iff)

lemma no_mismatchD:
  assumes "mismatch_codes a (TypedRecord b) = []"
  defines "c \<equiv> id_core (er_identity a)" and "e \<equiv> id_core (er_identity b)"
  shows "dc_disposition c = dc_disposition e" and "primary_reason_code c = primary_reason_code e"
    and "complete_reason_codes c = complete_reason_codes e"
    and "blocking_reason_codes c = blocking_reason_codes e"
    and "review_reason_codes c = review_reason_codes e" and "dc_accounting c = dc_accounting e"
    and "er_decision_digest a = er_decision_digest b" and "er_record_digest a = er_record_digest b"
proof -
  have same: "record_value (TypedRecord a) k = record_value (TypedRecord b) k"
    if "k \<in> {''disposition'', ''primary_reason_code'', ''complete_reason_codes'', ''blocking_reason_codes'',
      ''review_reason_codes'', ''decision_digest'', ''policy_record_digest''} \<union> set accounting_fields" for k
    using assms(1) that
    unfolding mismatch_codes_def sort_Nil_iff errors_of_Nil differs_def list.pred_inject fst_conv list_ex_iff
    by blast
  have inj: "map VStr xs = map VStr ys \<Longrightarrow> xs = ys" for xs ys by (rule map_injective) (auto intro: injI)
  have opt: "text_option x = text_option y \<Longrightarrow> x = y" for x y by (auto simp: text_option_def split: option.splits)
  show "dc_disposition c = dc_disposition e"
    using same [of "''disposition''"] disposition_enum.val_inj unfolding stored_scalars c_def e_def by simp
  show "primary_reason_code c = primary_reason_code e"
    using same [of "''primary_reason_code''"] opt unfolding stored_scalars c_def e_def by blast
  show "complete_reason_codes c = complete_reason_codes e"
    using same [of "''complete_reason_codes''"] inj unfolding stored_scalars c_def e_def by simp
  show "blocking_reason_codes c = blocking_reason_codes e"
    using same [of "''blocking_reason_codes''"] inj unfolding stored_scalars c_def e_def by simp
  show "review_reason_codes c = review_reason_codes e"
    using same [of "''review_reason_codes''"] inj unfolding stored_scalars c_def e_def by simp
  show "er_decision_digest a = er_decision_digest b" "er_record_digest a = er_record_digest b"
    using same [of "''decision_digest''"] same [of "''policy_record_digest''"] unfolding stored_scalars by simp_all
  have "map (record_value (TypedRecord a)) accounting_fields = map (record_value (TypedRecord b)) accounting_fields"
    using same by simp
  then have "map snd (accounting_items (dc_accounting c)) = map snd (accounting_items (dc_accounting e))"
    unfolding stored_accounting c_def e_def
    by (simp add: accounting_items_def requirement_set_fields_def evidence_set_fields_def inj_map_eq_map inj_def)
  then show "dc_accounting c = dc_accounting e"
    by (simp add: accounting_items_def requirement_set_fields_def evidence_set_fields_def)
qed

section \<open>What replay promises\<close>

lemma replay_verifiedD:
  assumes "verify_semantic_replay nfc m rec policies evaluators = Inr res"
    and "rp_classification res = SEMANTICALLY_REPLAY_VERIFIED"
  obtains p ev c d r' where
    "resolve_policy policies \<lparr>pid_version = field_text rec ''policy_version'',
       pid_digest = field_text rec ''policy_digest''\<rparr> = Some p"
    "resolve_evaluator evaluators (field_text rec ''evaluator_version'') = Some ev"
    "ev m p = Inr c" "finalize_decision nfc m c = Inr d"
    "build_policy_evaluation_record nfc m d = Inr r'" "mismatch_codes r' rec = []"
  using assms
  unfolding verify_semantic_replay_def seqE_Inr_iff policy_identity_init_iff
  by (auto simp: seqE_Inr_iff Let_def policy_identity_init_iff dest!: replay_outcome_class
      split: if_splits option.splits)

lemma finalize_decision_Inr:
  "finalize_decision nfc m c = Inr d \<Longrightarrow> bound_identity nfc m c (md_identity d) \<and> decision_ok nfc d"
  unfolding finalize_decision_def
  by (auto simp: seqE_Inr_iff Let_def merge_decision_init_iff bound_identity_def identity_echo_def input_echo_def)

lemma build_record_Inr:
  "build_policy_evaluation_record nfc m d = Inr r \<Longrightarrow> record_ok nfc r \<and> er_identity r = md_identity d"
  unfolding build_policy_evaluation_record_def
  by (auto simp: seqE_Inr_iff evaluation_record_init_iff)

text \<open>
  The contract of an evaluator under a policy: on every input that it may be given it returns a
  core which can be recorded and which repeats the accounting of the facts.
\<close>

locale recordable_evaluator =
  fixes eval :: core_evaluator and policy :: merge_policy
  assumes total: "facts_ok (mi_facts m) \<Longrightarrow> tokens_ok (mi_facts m) \<Longrightarrow>
      \<exists>c. eval m policy = Inr c \<and> record_core_ok c \<and> dc_accounting c = facts_accounting (mi_facts m)"
begin

lemma replay_verifies:
  assumes m: "merge_input_ok nfc m"
    and c: "eval m policy = Inr c" "finalize_decision nfc m c = Inr d"
    and r: "build_policy_evaluation_record nfc m d = Inr r"
    and pid: "resolve_policy policies \<lparr>pid_version = mi_policy_version m,
        pid_digest = policy_digest (mi_bindings m)\<rparr> = Some policy"
    and ev: "resolve_evaluator evaluators (mi_evaluator_version m) = Some eval"
  shows "\<exists>res. verify_semantic_replay nfc m (TypedRecord r) policies evaluators = Inr res \<and>
    rp_classification res = SEMANTICALLY_REPLAY_VERIFIED"
proof -
  have d: "bound_identity nfc m c (md_identity d)" using finalize_decision_Inr [OF c(2)] by blast
  have ok: "record_ok nfc r" "er_identity r = md_identity d" using build_record_Inr [OF r] by blast+
  have echo: "id_policy_version (er_identity r) = mi_policy_version m"
    "policy_digest (id_bindings (er_identity r)) = policy_digest (mi_bindings m)"
    "id_evaluator_version (er_identity r) = mi_evaluator_version m"
    using d ok(2)
    by (simp_all add: bound_identity_def identity_echo_def input_echo_def echo_values_def binding_items_def)
  have id: "policy_identity_init \<lparr>pid_version = mi_policy_version m, pid_digest = policy_digest (mi_bindings m)\<rparr> =
      Inr \<lparr>pid_version = mi_policy_version m, pid_digest = policy_digest (mi_bindings m)\<rparr>"
    using m by (simp add: policy_identity_init_iff merge_input_ok_def bindings_ok_def binding_items_def)
  have b: "bound_identity nfc m c (er_identity r)" using d ok(2) by simp
  have "vr_errors (validation_outcome []) = []" by (simp add: validation_outcome_def)
  then show ?thesis
    unfolding verify_semantic_replay_def validate_typed [OF ok(1)] field_text_def stored_scalars echo
    using replay_outcome_total [of SEMANTICALLY_REPLAY_VERIFIED "[]" "[]" "[True, True, True, True, True, True]"]
    by (auto simp: input_binding_typed [OF b] universe_errors_def id pid ev c r no_mismatch_refl
        dest: replay_outcome_class)
qed

lemma evaluated_record_replays:
  assumes "keeps_ascii nfc" and "merge_input_ok nfc m" "facts_ok (mi_facts m)" "tokens_ok (mi_facts m)"
    and "resolve_policy policies \<lparr>pid_version = mi_policy_version m,
        pid_digest = policy_digest (mi_bindings m)\<rparr> = Some policy"
    and "resolve_evaluator evaluators (mi_evaluator_version m) = Some eval"
  shows "\<exists>c d r res. eval m policy = Inr c \<and> finalize_decision nfc m c = Inr d \<and>
    build_policy_evaluation_record nfc m d = Inr r \<and>
    verify_semantic_replay nfc m (TypedRecord r) policies evaluators = Inr res \<and>
    rp_classification res = SEMANTICALLY_REPLAY_VERIFIED"
proof -
  obtain c where c: "eval m policy = Inr c" "record_core_ok c" "dc_accounting c = facts_accounting (mi_facts m)"
    using total [OF assms(3,4)] by blast
  then obtain d r where "finalize_decision nfc m c = Inr d" "build_policy_evaluation_record nfc m d = Inr r"
    using record_pipeline_ok [OF assms(1,2)] by blast
  with c(1) show ?thesis using replay_verifies [OF assms(2) _ _ _ assms(5,6)] by blast
qed

lemma replay_sound:
  assumes "verify_semantic_replay nfc m (TypedRecord r) policies evaluators = Inr res"
    and "rp_classification res = SEMANTICALLY_REPLAY_VERIFIED"
    and "resolve_policy policies \<lparr>pid_version = id_policy_version (er_identity r),
        pid_digest = policy_digest (id_bindings (er_identity r))\<rparr> = Some policy"
    and "resolve_evaluator evaluators (id_evaluator_version (er_identity r)) = Some eval"
  shows "\<exists>c. eval m policy = Inr c \<and> c \<lparr>dc_authority := dc_authority (id_core (er_identity r))\<rparr> = id_core (er_identity r)"
proof -
  obtain p ev c d r' where x:
    "resolve_policy policies \<lparr>pid_version = field_text (TypedRecord r) ''policy_version'',
       pid_digest = field_text (TypedRecord r) ''policy_digest''\<rparr> = Some p"
    "resolve_evaluator evaluators (field_text (TypedRecord r) ''evaluator_version'') = Some ev"
    "ev m p = Inr c" "finalize_decision nfc m c = Inr d"
    "build_policy_evaluation_record nfc m d = Inr r'" "mismatch_codes r' (TypedRecord r) = []"
    using replay_verifiedD [OF assms(1,2)] .
  have "p = policy" "ev = eval" using x(1,2) assms(3,4) by (simp_all add: field_text_def stored_scalars)
  moreover have "id_core (er_identity r') = c"
    using finalize_decision_Inr [OF x(4)] build_record_Inr [OF x(5)] by (simp add: bound_identity_def)
  ultimately show ?thesis using x(3) no_mismatchD [OF x(6)] by (auto intro: decision_core.equality)
qed

end

interpretation v1_evaluator: recordable_evaluator evaluate_decision_core MERGE_ELIGIBILITY_POLICY_V1
proof
  fix m :: merge_input assume f: "facts_ok (mi_facts m)" "tokens_ok (mi_facts m)"
  then obtain c where "evaluate_decision_core m MERGE_ELIGIBILITY_POLICY_V1 = Inr c"
    "decides MERGE_ELIGIBILITY_POLICY_V1 m c"
    using v1_decides by blast
  then show "\<exists>c. evaluate_decision_core m MERGE_ELIGIBILITY_POLICY_V1 = Inr c \<and> record_core_ok c \<and>
      dc_accounting c = facts_accounting (mi_facts m)"
    using v1_core_recordable f by (auto simp: decides_def)
qed

end
