(* ===== verification/Merge_Examples.thy ===== *)
theory Merge_Examples
  imports Merge_Replay
begin

text \<open>
  Concrete inputs of the merge-eligibility decision for the witnesses: facts with nothing against
  a merge, facts with a missing requirement, an input in each evaluation mode that names the
  production policy, and registries that hold it.  Unicode normalisation is instantiated by the
  identity, which is what it is on the ASCII text used here.
\<close>

definition ex_digest :: string where
  "ex_digest = ''sha256:'' @ replicate 64 (CHR ''0'')"

definition ex_facts :: eligibility_facts where
  "ex_facts =
     \<lparr>task_context_current = task_context_currency.CURRENT,
      candidate_binding_current = candidate_binding_currency.CURRENT,
      repository_snapshot_current = repository_snapshot_currency.CURRENT,
      repository_release_clean = release_cleanliness.CLEAN,
      policy_context_current = policy_context_currency.CURRENT,
      evidence_context_status = evidence_context.COHERENT, evidence_context_violations = [],
      scope_status = scope.COMPLIANT, approval_status = approval.VALID,
      authority_status = authority.VALID, verifier_identity_status = verifier_identity.ATTESTED,
      verifier_independence_status = verifier_independence.INDEPENDENT,
      required_requirement_ids = [''tests''], satisfied_requirement_ids = [''tests''],
      invalid_requirement_ids = [], missing_requirement_ids = [], rejected_evidence_ids = [],
      invalid_provenance_evidence_ids = [], unexpected_evidence_ids = []\<rparr>"

definition ex_missing_facts :: eligibility_facts where
  "ex_missing_facts = ex_facts\<lparr>satisfied_requirement_ids := [], missing_requirement_ids := [''tests'']\<rparr>"

definition ex_odd_facts :: eligibility_facts where
  "ex_odd_facts = ex_facts\<lparr>rejected_evidence_ids := [''a b'']\<rparr>"

definition ex_merge_input :: "eligibility_facts \<Rightarrow> merge_input" where
  "ex_merge_input f =
     \<lparr>mi_task_id = ''task-1'',
      mi_bindings =
        \<lparr>task_contract_digest = ex_digest, candidate_digest = ex_digest,
         repository_snapshot_digest = ex_digest, verification_bundle_digest = ex_digest,
         approval_digest_or_sentinel = APPROVAL_SENTINEL, authority_binding_digest = ex_digest,
         verifier_binding_digest = ex_digest,
         policy_digest = pid_digest (declared_identity MERGE_ELIGIBILITY_POLICY_V1)\<rparr>,
      mi_policy_version = pid_version (declared_identity MERGE_ELIGIBILITY_POLICY_V1),
      mi_evaluator_version = ''evaluator.v1'', mi_mode = evaluation_mode.ENFORCE,
      policy_record_schema_version = POLICY_RECORD_SCHEMA_VERSION,
      policy_record_schema_digest = POLICY_RECORD_SCHEMA_DIGEST id,
      canonicalization_version = CANONICALIZATION_VERSION,
      canonicalization_contract_digest = CANONICALIZATION_CONTRACT_DIGEST id,
      mi_facts = f\<rparr>"

definition ex_policies :: policy_registry where
  "ex_policies = [(declared_identity MERGE_ELIGIBILITY_POLICY_V1, MERGE_ELIGIBILITY_POLICY_V1)]"

definition ex_evaluators :: evaluator_registry where
  "ex_evaluators = [(''evaluator.v1'', evaluate_decision_core)]"

lemma keeps_ascii_id: "keeps_ascii id"
  by (simp add: keeps_ascii_def)

lemma contracts_ready: "json_ready typed_field_contract" "json_ready canonicalization_contract"
  by code_simp+

lemma committed_digest_shape:
  assumes "json_ready v"
  shows "sha256_digest_grammar (committed_digest id v)"
proof -
  obtain d where "canonical_digest id v = Inr d" using canonical_digest_ready [OF keeps_ascii_id assms] by blast
  then show ?thesis using canonical_digest_shape by (simp add: committed_digest_def)
qed

lemma ex_tokens:
  "task_id_grammar ''task-1''" "task_id_grammar ''tests''" "task_id_grammar ''evaluator.v1''"
  "\<not> task_id_grammar ''a b''"
  "task_id_grammar (pid_version (declared_identity MERGE_ELIGIBILITY_POLICY_V1))"
  "sha256_digest_grammar ex_digest"
  "sha256_digest_grammar (pid_digest (declared_identity MERGE_ELIGIBILITY_POLICY_V1))"
  by code_simp+

lemma ex_input_ok: "merge_input_ok id (ex_merge_input f)"
  using committed_digest_shape [OF contracts_ready(1)] committed_digest_shape [OF contracts_ready(2)]
  by (simp add: merge_input_ok_def ex_merge_input_def ex_tokens bindings_ok_def binding_items_def
      POLICY_RECORD_SCHEMA_DIGEST_def CANONICALIZATION_CONTRACT_DIGEST_def)

lemma ex_facts_ok: "facts_ok ex_facts" "facts_ok ex_missing_facts" "facts_ok ex_odd_facts"
  by (simp_all add: facts_ok_def ex_facts_def ex_missing_facts_def ex_odd_facts_def set_fact_defs ids_ok_def
      control_char_def)

lemma ex_tokens_ok: "tokens_ok ex_facts" "tokens_ok ex_missing_facts" "\<not> tokens_ok ex_odd_facts"
  by (simp_all add: tokens_ok_def ex_facts_def ex_missing_facts_def ex_odd_facts_def set_fact_defs ex_tokens)

lemma ex_clear: "all_clear ex_facts" "\<not> all_clear ex_missing_facts"
  by (simp_all add: all_clear_def ex_facts_def ex_missing_facts_def)

lemma ex_input_facts [simp]: "mi_facts (ex_merge_input f) = f"
  by (simp add: ex_merge_input_def)

lemma ex_registries:
  "policy_registry_init ex_policies = Inr ex_policies" "evaluator_registry_init ex_evaluators = Inr ex_evaluators"
  "resolve_policy ex_policies \<lparr>pid_version = mi_policy_version (ex_merge_input f),
     pid_digest = policy_digest (mi_bindings (ex_merge_input f))\<rparr> = Some MERGE_ELIGIBILITY_POLICY_V1"
  "resolve_evaluator ex_evaluators (mi_evaluator_version (ex_merge_input f)) = Some evaluate_decision_core"
  by (simp_all add: policy_registry_init_def evaluator_registry_init_def ex_policies_def ex_evaluators_def
      evaluator_identity_init_def ex_tokens resolve_policy_def resolve_evaluator_def ex_merge_input_def)

end
