(* ===== verification/Harness_Contract.thy ===== *)
theory Harness_Contract
  imports Canonical
begin

text \<open>
  The first layer of the build harness: identifier and path validation
  (\<open>build_harness/validation.py\<close>), the task contract with its loader from JSON data
  (\<open>contracts.py\<close>) and the role prompts made from a contract (\<open>prompt_generator.py\<close>).

  The text of an error leaves out the representation of the offending value, which no code reads.
\<close>

section \<open>Identifiers and paths\<close>

abbreviation alnum :: "char \<Rightarrow> bool" where
  "alnum c \<equiv> ascii_lower c \<or> ascii_upper c \<or> ascii_digit c"

definition artifact_grammar :: "string \<Rightarrow> bool" where
  "artifact_grammar = first_rest alnum (\<lambda>c. alnum c \<or> c = CHR ''_'' \<or> c = CHR ''-'') 63"

abbreviation InvalidEvidenceIdentifierError :: "string \<Rightarrow> exn" where
  "InvalidEvidenceIdentifierError m \<equiv> Exn ''InvalidEvidenceIdentifierError'' m"

abbreviation InvalidRepoPathError :: "string \<Rightarrow> exn" where
  "InvalidRepoPathError m \<equiv> Exn ''InvalidRepoPathError'' m"

definition is_valid_task_id :: "pyval \<Rightarrow> bool" where
  "is_valid_task_id v =
     (case text_of v of None \<Rightarrow> False | Some s \<Rightarrow> dollar_match task_id_grammar s)"

definition check_task_id :: "pyval \<Rightarrow> exn + pyval" where
  "check_task_id v =
     (if is_valid_task_id v then Inr v else Inl (InvalidEvidenceIdentifierError ''invalid task_id''))"

definition is_valid_evidence_id :: "pyval \<Rightarrow> bool" where
  "is_valid_evidence_id v =
     (case text_of v of None \<Rightarrow> False | Some s \<Rightarrow> dollar_match artifact_grammar s)"

definition validate_artifact_name :: "string \<Rightarrow> pyval \<Rightarrow> exn + pyval" where
  "validate_artifact_name k v =
     (if is_valid_evidence_id v then Inr v else Inl (InvalidEvidenceIdentifierError (''invalid '' @ k)))"

definition to_slashes :: "string \<Rightarrow> string" where
  "to_slashes = map (\<lambda>c. if c = CHR 0x5C then CHR ''/'' else c)"

function drop_dot_slash :: "string \<Rightarrow> string" where
  "drop_dot_slash s = (if starts_with ''./'' s then drop_dot_slash (drop 2 s) else s)"
  by pat_completeness auto
termination
proof (relation "measure length")
  fix s assume "starts_with ''./'' s"
  then show "(drop 2 s, s) \<in> measure length" by (auto simp: starts_with_prefix prefix_def)
qed simp

declare drop_dot_slash.simps [simp del]

definition normalize_repo_path :: "pyval \<Rightarrow> exn + string" where
  "normalize_repo_path v =
     (case text_of v of
        None \<Rightarrow> Inl (InvalidRepoPathError ''empty or non-string path'')
      | Some path \<Rightarrow>
          let raw = strip path; normalized = to_slashes raw;
              segments = filter (\<lambda>seg. seg \<notin> {[], ''.''}) (split_on (CHR ''/'') (drop_dot_slash normalized))
          in seqE (raise_first
               [(raw = [], InvalidRepoPathError ''empty or non-string path''),
                (list_ex control_char raw, InvalidRepoPathError ''path contains control characters''),
                (starts_with [CHR 0x5C, CHR 0x5C] raw, InvalidRepoPathError ''UNC path rejected''),
                (windows_drive raw, InvalidRepoPathError ''Windows drive path rejected''),
                (starts_with ''/'' normalized, InvalidRepoPathError ''absolute path rejected''),
                (segments = [], InvalidRepoPathError ''path resolves to nothing''),
                (''..'' \<in> set segments, InvalidRepoPathError ''path traversal segment rejected'')])
             (\<lambda>_. Inr (join ''/'' segments)))"

section \<open>Task contracts\<close>

abbreviation ContractValidationError :: "string \<Rightarrow> exn" where
  "ContractValidationError m \<equiv> Exn ''ContractValidationError'' m"

record task_contract =
  tc_task_id :: string
  tc_title :: string
  tc_goal :: string
  allowed_paths :: "string list"
  forbidden_paths :: "string list"
  acceptance_criteria :: "string list"
  required_evidence :: "string list"
  tc_risk_level :: string
  requires_human_approval_for :: "string list"
  broad_scope_allowed :: bool

definition default_approval_actions :: "string list" where
  "default_approval_actions = [''merge'', ''push'', ''deploy'', ''dependency_change'']"

text \<open>The items of a list of strings, stripped, and the errors: one for each bad item.\<close>

fun str_items :: "string \<Rightarrow> nat \<Rightarrow> pyval list \<Rightarrow> string list \<times> string list" where
  "str_items fld i [] = ([], [])"
| "str_items fld i (v # vs) =
     (let (items, errs) = str_items fld (Suc i) vs
      in case text_of v of
           Some s \<Rightarrow>
             if \<not> blank s then (strip s # items, errs)
             else (items, (fld @ ''['' @ show_nat i @ ''] must be a non-empty string'') # errs)
         | None \<Rightarrow> (items, (fld @ ''['' @ show_nat i @ ''] must be a non-empty string'') # errs))"

definition as_str_list :: "string \<Rightarrow> pyval \<Rightarrow> string list \<times> string list" where
  "as_str_list fld v =
     (case v of
        VNone \<Rightarrow> ([], [])
      | VList vs \<Rightarrow> str_items fld 0 vs
      | _ \<Rightarrow> ([], [fld @ '' must be a list of strings'']))"

definition req_str :: "(pyval \<times> pyval) list \<Rightarrow> string \<Rightarrow> string \<times> string list" where
  "req_str data k =
     (case text_of (dict_get data k) of
        Some s \<Rightarrow> if blank s then ([], [k @ '' is required and must be a non-empty string'']) else (strip s, [])
      | None \<Rightarrow> ([], [k @ '' is required and must be a non-empty string'']))"

definition risk_of :: "(pyval \<times> pyval) list \<Rightarrow> string \<times> string list" where
  "risk_of data =
     (case text_of (dict_get_or (VStr ''medium'') data ''risk_level'') of
        Some r \<Rightarrow> if r \<in> {''low'', ''medium'', ''high''} then (r, [])
                 else (''medium'', [''risk_level must be one of low, medium, high''])
      | None \<Rightarrow> (''medium'', [''risk_level must be one of low, medium, high'']))"

definition broad_of :: "(pyval \<times> pyval) list \<Rightarrow> bool \<times> string list" where
  "broad_of data =
     (case dict_get_or (VBool False) data ''broad_scope_allowed'' of
        VBool b \<Rightarrow> (b, [])
      | _ \<Rightarrow> (False, [''broad_scope_allowed must be a JSON boolean'']))"

definition approval_of :: "(pyval \<times> pyval) list \<Rightarrow> string list \<times> string list" where
  "approval_of data =
     (case dict_get data ''requires_human_approval_for'' of
        VNone \<Rightarrow> (default_approval_actions, [])
      | a \<Rightarrow> as_str_list ''requires_human_approval_for'' a)"

text \<open>All problems are collected before the contract is refused.\<close>

definition validate_contract_dict :: "pyval \<Rightarrow> exn + task_contract" where
  "validate_contract_dict v =
     (case v of
        VDict data \<Rightarrow>
          let (tid, e1) = req_str data ''task_id'';
              (title, e2) = req_str data ''title'';
              (goal, e3) = req_str data ''goal'';
              e4 = (if tid \<noteq> [] \<and> \<not> is_valid_task_id (VStr tid)
                    then [''task_id must match [A-Za-z0-9][A-Za-z0-9._-]{0,127}''] else []);
              (allowed, e5) = as_str_list ''allowed_paths'' (dict_get data ''allowed_paths'');
              (forbidden, e6) = as_str_list ''forbidden_paths'' (dict_get data ''forbidden_paths'');
              (acceptance, e7) = as_str_list ''acceptance_criteria'' (dict_get data ''acceptance_criteria'');
              e8 = (if acceptance = []
                       \<and> \<not> list_ex (starts_with ''acceptance_criteria'') (e1 @ e2 @ e3 @ e4 @ e5 @ e6 @ e7)
                    then [''acceptance_criteria requires at least one criterion''] else []);
              (evidence, e9) = as_str_list ''required_evidence'' (dict_get data ''required_evidence'');
              (risk, e10) = risk_of data;
              (broad, e11) = broad_of data;
              e12 = (if allowed = [] \<and> \<not> broad
                     then [''allowed_paths may be empty only when broad_scope_allowed is true''] else []);
              (approval, e13) = approval_of data;
              errs = e1 @ e2 @ e3 @ e4 @ e5 @ e6 @ e7 @ e8 @ e9 @ e10 @ e11 @ e12 @ e13
          in if errs \<noteq> []
             then Inl (ContractValidationError (''invalid task contract: '' @ join ''; '' errs))
             else Inr \<lparr>tc_task_id = tid, tc_title = title, tc_goal = goal, allowed_paths = allowed,
                       forbidden_paths = forbidden, acceptance_criteria = acceptance,
                       required_evidence = evidence, tc_risk_level = risk,
                       requires_human_approval_for = approval, broad_scope_allowed = broad\<rparr>
      | _ \<Rightarrow> Inl (ContractValidationError ''contract must be a JSON object''))"

definition text_list :: "string list \<Rightarrow> pyval" where
  "text_list xs = VList (map VStr xs)"

definition contract_to_dict :: "task_contract \<Rightarrow> pyval" where
  "contract_to_dict c = dict_of
     [(''task_id'', VStr (tc_task_id c)), (''title'', VStr (tc_title c)), (''goal'', VStr (tc_goal c)),
      (''allowed_paths'', text_list (allowed_paths c)), (''forbidden_paths'', text_list (forbidden_paths c)),
      (''acceptance_criteria'', text_list (acceptance_criteria c)),
      (''required_evidence'', text_list (required_evidence c)), (''risk_level'', VStr (tc_risk_level c)),
      (''requires_human_approval_for'', text_list (requires_human_approval_for c)),
      (''broad_scope_allowed'', VBool (broad_scope_allowed c))]"

section \<open>Role prompts\<close>

datatype agent_role = ARCHITECT | IMPLEMENTER | VERIFIER | GATEKEEPER | RELEASE_OPERATOR

fun agent_role_value :: "agent_role \<Rightarrow> string" where
  "agent_role_value ARCHITECT = ''architect''"
| "agent_role_value IMPLEMENTER = ''implementer''"
| "agent_role_value VERIFIER = ''verifier''"
| "agent_role_value GATEKEEPER = ''gatekeeper''"
| "agent_role_value RELEASE_OPERATOR = ''release_operator''"

abbreviation NL :: string where
  "NL \<equiv> [CHR 0x0A]"

definition bullets :: "string \<Rightarrow> string list \<Rightarrow> string" where
  "bullets none xs = (if xs = [] then ''- '' @ none else join NL (map (\<lambda>x. ''- '' @ x) xs))"

definition machine_summary_block :: "task_contract \<Rightarrow> agent_role \<Rightarrow> string \<Rightarrow> string" where
  "machine_summary_block c role statuses =
     (''## Required output '' @ [CHR 0xE2, CHR 0x80, CHR 0x94] @ '' machine_summary''
           @ [CHR 0x0A, CHR 0x0A]
           @ ''End your report with this fenced JSON block (exact key names):''
           @ [CHR 0x0A, CHR 0x0A, CHR 0x60, CHR 0x60, CHR 0x60] @ ''json'' @ [CHR 0x0A] @ ''{''
           @ [CHR 0x0A] @ ''  '' @ [CHR 0x22] @ ''machine_summary'' @ [CHR 0x22] @ '': {''
           @ [CHR 0x0A] @ ''    '' @ [CHR 0x22] @ ''task_id'' @ [CHR 0x22] @ '': ''
           @ [CHR 0x22]) @ tc_task_id c @ ([CHR 0x22] @ '','' @ [CHR 0x0A] @ ''    '' @ [CHR 0x22] @ ''role'' @ [CHR 0x22]
           @ '': '' @ [CHR 0x22]) @ agent_role_value role @ ([CHR 0x22] @ '','' @ [CHR 0x0A] @ ''    '' @ [CHR 0x22] @ ''status'' @ [CHR 0x22]
           @ '': '' @ [CHR 0x22]) @ statuses @ ([CHR 0x22] @ '','' @ [CHR 0x0A] @ ''    '' @ [CHR 0x22] @ ''result'' @ [CHR 0x22]
           @ '': '' @ [CHR 0x22] @ ''PASS | NEEDS_FIX | BLOCKED'' @ [CHR 0x22] @ '',''
           @ [CHR 0x0A] @ ''    '' @ [CHR 0x22] @ ''files_changed'' @ [CHR 0x22] @ '': [],''
           @ [CHR 0x0A] @ ''    '' @ [CHR 0x22] @ ''tests_run'' @ [CHR 0x22] @ '': [],''
           @ [CHR 0x0A] @ ''    '' @ [CHR 0x22] @ ''blockers'' @ [CHR 0x22] @ '': [],''
           @ [CHR 0x0A] @ ''    '' @ [CHR 0x22] @ ''next_recommended_action'' @ [CHR 0x22]
           @ '': null'' @ [CHR 0x0A] @ ''  }'' @ [CHR 0x0A] @ ''}''
           @ [CHR 0x0A, CHR 0x60, CHR 0x60, CHR 0x60])"

definition contract_header :: "task_contract \<Rightarrow> string" where
  "contract_header c =
     ''# Task '' @ tc_task_id c @ ('' '' @ [CHR 0xE2, CHR 0x80, CHR 0x94] @ '' '') @ tc_title c @ ([CHR 0x0A, CHR 0x0A] @ ''## Goal'' @ [CHR 0x0A]) @ tc_goal c @ ([CHR 0x0A, CHR 0x0A] @ ''## Allowed paths (scope)'' @ [CHR 0x0A]) @ bullets (if broad_scope_allowed c then ''broad scope explicitly allowed'' else ''(none)'') (allowed_paths c) @ ([CHR 0x0A, CHR 0x0A] @ ''## Forbidden paths'' @ [CHR 0x0A]) @ bullets ''(none)'' (forbidden_paths c) @ ([CHR 0x0A, CHR 0x0A] @ ''## Acceptance criteria'' @ [CHR 0x0A]) @ bullets ''(none)'' (acceptance_criteria c) @ ([CHR 0x0A, CHR 0x0A] @ ''## Required evidence'' @ [CHR 0x0A]) @ bullets ''(none)'' (required_evidence c) @ ([CHR 0x0A, CHR 0x0A] @ ''## Risk level'' @ [CHR 0x0A]) @ tc_risk_level c @ ([CHR 0x0A, CHR 0x0A] @ ''## Human approval required for'' @ [CHR 0x0A]) @ bullets ''(none)'' (requires_human_approval_for c)"

text \<open>The rules of each role, and the statuses its prompt offers for the report.\<close>

fun role_rules :: "agent_role \<Rightarrow> string" where
  "role_rules IMPLEMENTER = ([CHR 0x0A, CHR 0x0A] @ ''## Role: IMPLEMENTER'' @ [CHR 0x0A, CHR 0x0A]
           @ ''Rules (non-negotiable):'' @ [CHR 0x0A]
           @ ''- Implement ONLY within the allowed paths above.'' @ [CHR 0x0A]
           @ ''- Do not merge.'' @ [CHR 0x0A] @ ''- Do not push.'' @ [CHR 0x0A]
           @ ''- Do not edit forbidden files.'' @ [CHR 0x0A]
           @ ''- Do not add dependencies unless approved by a human first.'' @ [CHR 0x0A]
           @ ''- Run and record the required evidence commands exactly as listed.''
           @ [CHR 0x0A] @ ''- Commit on a feature branch; report the exact commit SHA.''
           @ [CHR 0x0A, CHR 0x0A])"
| "role_rules VERIFIER = ([CHR 0x0A, CHR 0x0A] @ ''## Role: VERIFIER'' @ [CHR 0x0A, CHR 0x0A]
           @ ''Rules (non-negotiable):'' @ [CHR 0x0A] @ ''- Verify only. Do not edit code.''
           @ [CHR 0x0A] @ ''- Do not commit. Do not merge. Do not push.'' @ [CHR 0x0A]
           @ ''- Check scope: every changed file must be within the allowed paths.''
           @ [CHR 0x0A] @ ''- Check forbidden paths were not touched.'' @ [CHR 0x0A]
           @ ''- Check dependency files were not changed without approval.'' @ [CHR 0x0A]
           @ ''- Check the required tests/evidence were actually run and passed.'' @ [CHR 0x0A]
           @ ''- Return exactly one verdict: PASS / NEEDS_FIX / BLOCKED.''
           @ [CHR 0x0A, CHR 0x0A])"
| "role_rules RELEASE_OPERATOR = ([CHR 0x0A, CHR 0x0A] @ ''## Role: RELEASE_OPERATOR'' @ [CHR 0x0A, CHR 0x0A]
           @ ''Rules (non-negotiable):'' @ [CHR 0x0A]
           @ ''- Merge/push ONLY after every gate has passed and human approval is recorded.''
           @ [CHR 0x0A] @ ''- Do not force push. Never rewrite remote history.'' @ [CHR 0x0A]
           @ ''- Verify the exact commit identity (SHA) being merged matches the approved candidate.''
           @ [CHR 0x0A] @ ''- Verify clean tracked/staged state before and after the merge.''
           @ [CHR 0x0A] @ ''- Report the final remote SHA after the push.''
           @ [CHR 0x0A, CHR 0x0A])"
| "role_rules ARCHITECT = ([CHR 0x0A, CHR 0x0A] @ ''## Role: ARCHITECT'' @ [CHR 0x0A, CHR 0x0A] @ ''Rules:''
           @ [CHR 0x0A]
           @ ''- Refine the contract: scope, acceptance criteria, risks, evidence requirements.''
           @ [CHR 0x0A] @ ''- Do not implement. Do not merge. Do not push.''
           @ [CHR 0x0A, CHR 0x0A])"
| "role_rules GATEKEEPER = ([CHR 0x0A, CHR 0x0A] @ ''## Role: GATEKEEPER'' @ [CHR 0x0A, CHR 0x0A] @ ''Rules:''
           @ [CHR 0x0A]
           @ ''- Evaluate the change against the contract: scope, forbidden paths, dependencies, evidence.''
           @ [CHR 0x0A] @ ''- Do not edit code. Do not merge. Do not push.'' @ [CHR 0x0A]
           @ ''- Return exactly one decision: PASS / REVIEW_REQUIRED / BLOCK.''
           @ [CHR 0x0A, CHR 0x0A])"

fun prompt_statuses :: "agent_role \<Rightarrow> string list" where
  "prompt_statuses IMPLEMENTER = [''IMPLEMENTED'', ''BLOCKED'']"
| "prompt_statuses VERIFIER = [''VERIFIED'', ''BLOCKED'']"
| "prompt_statuses RELEASE_OPERATOR = [''MERGED'', ''BLOCKED'']"
| "prompt_statuses ARCHITECT = [''CONTRACT_READY'', ''BLOCKED'']"
| "prompt_statuses GATEKEEPER = [''GATED'', ''BLOCKED'']"

definition generate_prompt :: "task_contract \<Rightarrow> agent_role \<Rightarrow> string" where
  "generate_prompt c role =
     contract_header c @ role_rules role @ machine_summary_block c role (join '' | '' (prompt_statuses role))"

section \<open>Accepted paths\<close>

lemma split_on_plain: "d \<notin> set x \<Longrightarrow> split_on d x = [x]"
  by (induction x) auto

lemma split_on_sep: "d \<notin> set x \<Longrightarrow> split_on d (x @ d # s) = x # split_on d s"
  by (induction x) auto

lemma split_on_join: "xs \<noteq> [] \<Longrightarrow> \<forall>x \<in> set xs. d \<notin> set x \<Longrightarrow> split_on d (join [d] xs) = xs"
  by (induction "[d]" xs rule: join.induct) (auto simp: split_on_plain split_on_sep)

lemma set_split_on: "w \<in> set (split_on d s) \<Longrightarrow> set w \<subseteq> set s"
proof (induction s arbitrary: w)
  case (Cons c cs)
  show ?case
  proof (cases "split_on d cs")
    case (Cons v vs)
    with Cons.prems Cons.IH show ?thesis by (fastforce split: if_splits)
  qed simp
qed simp

lemma set_drop_dot_slash: "set (drop_dot_slash s) \<subseteq> set s"
  by (induction s rule: drop_dot_slash.induct) (metis drop_dot_slash.simps order_trans set_drop_subset order_refl)

lemma set_join: "set (join d xs) \<subseteq> set d \<union> \<Union> (set ` set xs)"
  by (induction d xs rule: join.induct) auto

lemma normalized_path:
  assumes "normalize_repo_path v = Inr p"
  shows "set (split_on (CHR ''/'') p) \<inter> {[], ''.'', ''..''} = {}" and "\<not> list_ex control_char p"
    and "CHR 0x5C \<notin> set p" and "p \<noteq> []" and "hd p \<noteq> CHR ''/''"
proof -
  obtain path segs where path: "text_of v = Some path"
    and segs: "segs = filter (\<lambda>seg. seg \<notin> {[], ''.''}) (split_on (CHR ''/'') (drop_dot_slash (to_slashes (strip path))))"
    and ok: "\<not> list_ex control_char (strip path)" "segs \<noteq> []" "''..'' \<notin> set segs" "p = join ''/'' segs"
    using assms by (auto simp: normalize_repo_path_def Let_def seqE_Inr_iff split: option.splits)
  have slash: "\<not> control_char (CHR ''/'')" by (simp add: control_char_def)
  have chars: "set seg \<subseteq> set (to_slashes (strip path)) - {CHR ''/''}" if "seg \<in> set segs" for seg
  proof -
    have w: "seg \<in> set (split_on (CHR ''/'') (drop_dot_slash (to_slashes (strip path))))" using that by (simp add: segs)
    show ?thesis using set_split_on [OF w] split_on_no_sep [OF w] set_drop_dot_slash by blast
  qed
  have split: "split_on (CHR ''/'') p = segs"
    unfolding ok(4) using ok(2) chars by (intro split_on_join) auto
  then show s: "set (split_on (CHR ''/'') p) \<inter> {[], ''.'', ''..''} = {}"
    using ok(3) by (auto simp: segs)
  have "set p \<subseteq> insert (CHR ''/'') (set (to_slashes (strip path)))"
    unfolding ok(4) using chars by (intro subset_trans [OF set_join]) auto
  moreover have "\<not> control_char x \<and> x \<noteq> CHR 0x5C" if "x \<in> set (to_slashes (strip path))" for x
    using that ok(1) by (auto simp: to_slashes_def list_ex_iff slash)
  ultimately show "\<not> list_ex control_char p" "CHR 0x5C \<notin> set p"
    using slash by (auto simp: list_ex_iff)
  show "p \<noteq> []" using s by auto
  then show "hd p \<noteq> CHR ''/''" using s by (cases p) auto
qed

section \<open>Accepted contracts\<close>

definition clean_text :: "string \<Rightarrow> bool" where
  "clean_text s \<longleftrightarrow> s \<noteq> [] \<and> strip s = s"

definition contract_ok :: "task_contract \<Rightarrow> bool" where
  "contract_ok c \<longleftrightarrow>
     clean_text (tc_task_id c) \<and> is_valid_task_id (VStr (tc_task_id c)) \<and>
     clean_text (tc_title c) \<and> clean_text (tc_goal c) \<and>
     list_all clean_text (allowed_paths c) \<and> list_all clean_text (forbidden_paths c) \<and>
     list_all clean_text (acceptance_criteria c) \<and> acceptance_criteria c \<noteq> [] \<and>
     list_all clean_text (required_evidence c) \<and> tc_risk_level c \<in> {''low'', ''medium'', ''high''} \<and>
     list_all clean_text (requires_human_approval_for c) \<and>
     (allowed_paths c = [] \<longrightarrow> broad_scope_allowed c)"

lemma one_error [simp]: "(if b then [x] else []) = [] \<longleftrightarrow> \<not> b"
  by simp

lemma clean_strip: "\<not> blank s \<Longrightarrow> clean_text (strip s)"
  by (simp add: clean_text_def)

lemma str_items_clean: "str_items fld i vs = (xs, []) \<Longrightarrow> list_all clean_text xs"
  by (induction fld i vs arbitrary: xs rule: str_items.induct)
     (auto simp: Let_def clean_text_def split: option.splits prod.splits if_splits)

lemma str_items_strs: "list_all clean_text xs \<Longrightarrow> str_items fld i (map VStr xs) = (xs, [])"
  by (induction xs arbitrary: i) (auto simp: Let_def clean_text_def split: prod.splits)

lemma as_str_list_clean: "as_str_list fld v = (xs, []) \<Longrightarrow> list_all clean_text xs"
  by (cases v) (auto simp: as_str_list_def dest: str_items_clean)

lemma as_str_list_strs [simp]: "list_all clean_text xs \<Longrightarrow> as_str_list fld (text_list xs) = (xs, [])"
  by (simp add: as_str_list_def text_list_def str_items_strs)

lemma req_str_clean: "req_str data k = (x, []) \<Longrightarrow> clean_text x"
  by (auto simp: req_str_def clean_text_def split: option.splits if_splits)

lemma default_actions_clean: "list_all clean_text default_approval_actions"
  by code_simp

lemma validate_contract_ok:
  assumes "validate_contract_dict v = Inr c"
  shows "contract_ok c"
proof -
  obtain data where v: "v = VDict data" using assms by (cases v) (auto simp: validate_contract_dict_def)
  obtain tid e1 where 1: "req_str data ''task_id'' = (tid, e1)" by (rule prod.exhaust)
  obtain ti e2 where 2: "req_str data ''title'' = (ti, e2)" by (rule prod.exhaust)
  obtain g e3 where 3: "req_str data ''goal'' = (g, e3)" by (rule prod.exhaust)
  obtain al e5 where 5: "as_str_list ''allowed_paths'' (dict_get data ''allowed_paths'') = (al, e5)" by (rule prod.exhaust)
  obtain fo e6 where 6: "as_str_list ''forbidden_paths'' (dict_get data ''forbidden_paths'') = (fo, e6)" by (rule prod.exhaust)
  obtain ac e7 where 7: "as_str_list ''acceptance_criteria'' (dict_get data ''acceptance_criteria'') = (ac, e7)"
    by (rule prod.exhaust)
  obtain ev e9 where 9: "as_str_list ''required_evidence'' (dict_get data ''required_evidence'') = (ev, e9)"
    by (rule prod.exhaust)
  obtain ap e13 where 13: "approval_of data = (ap, e13)" by (rule prod.exhaust)
  obtain br e11 where 11: "broad_of data = (br, e11)" by (rule prod.exhaust)
  obtain ri e10 where 10: "risk_of data = (ri, e10)" by (rule prod.exhaust)
  from assms [unfolded v validate_contract_dict_def pyval.case Let_def 1 2 3 5 6 7 9 10 11 13 prod.case if_raise_ok
      append_is_Nil_conv not_not one_error sum.inject]
  have none: "e1 = []" "e2 = []" "e3 = []" "e5 = []" "e6 = []" "e7 = []" "e9 = []" "e10 = []" "e13 = []"
    and id: "\<not> (tid \<noteq> [] \<and> \<not> is_valid_task_id (VStr tid))" and scope: "al = [] \<longrightarrow> br"
    and ac: "\<not> (ac = [] \<and> \<not> list_ex (starts_with ''acceptance_criteria'') (e1 @ e2 @ e3
      @ (if tid \<noteq> [] \<and> \<not> is_valid_task_id (VStr tid)
         then [''task_id must match [A-Za-z0-9][A-Za-z0-9._-]{0,127}''] else []) @ e5 @ e6 @ e7))"
    and c: "c = \<lparr>tc_task_id = tid, tc_title = ti, tc_goal = g, allowed_paths = al, forbidden_paths = fo,
      acceptance_criteria = ac, required_evidence = ev, tc_risk_level = ri,
      requires_human_approval_for = ap, broad_scope_allowed = br\<rparr>"
    by blast+
  have "ac \<noteq> []" using ac id by (simp add: none)
  have "list_all clean_text ap"
    using 13 none as_str_list_clean default_actions_clean by (auto simp: approval_of_def split: pyval.splits)
  moreover have "ri \<in> {''low'', ''medium'', ''high''}"
    using 10 none by (auto simp: risk_of_def split: option.splits if_splits)
  moreover have "clean_text tid" "clean_text ti" "clean_text g" using 1 2 3 none req_str_clean by blast+
  moreover have "list_all clean_text al" "list_all clean_text fo" "list_all clean_text ac" "list_all clean_text ev"
    using 5 6 7 9 none as_str_list_clean by blast+
  ultimately show ?thesis using \<open>ac \<noteq> []\<close> id scope by (simp add: contract_ok_def c clean_text_def)
qed

lemma contract_round_trip_ok:
  assumes "contract_ok c"
  shows "validate_contract_dict (contract_to_dict c) = Inr c"
proof -
  have req: "req_str (map (\<lambda>(k, v). (VStr k, v)) kvs) k = (x, [])"
    if "map_of kvs k = Some (VStr x)" "clean_text x" for kvs k x
    using that by (simp add: req_str_def clean_text_def)
  have approval: "(case text_list xs of VNone \<Rightarrow> (default_approval_actions, [])
      | a \<Rightarrow> as_str_list fld a) = as_str_list fld (text_list xs)" for xs fld
    by (simp add: text_list_def)
  show ?thesis
    using assms
    unfolding contract_to_dict_def dict_of_def validate_contract_dict_def contract_ok_def
    by (simp add: Let_def req approval risk_of_def broad_of_def approval_of_def del: list.map(2))
qed

end
