(* ===== verification/Change_Gate.thy ===== *)
theory Change_Gate
  imports Harness_Contract
begin

text \<open>
  The change gate (\<open>build_harness/change_gate.py\<close>): a reported change and its evidence against a
  task contract.  File patterns follow \<open>fnmatch\<close>, which is written out here.  Evidence and
  decisions may have been built without their constructors, so they are dynamic objects whose
  attributes are read one by one, as the code does.

  The text of a reason leaves out the representation of the offending value.
\<close>

section \<open>File patterns\<close>

datatype glob = Star | AnyOne | One string | Never | Class bool "(string \<times> string) list"

text \<open>
  The bracket expression that starts after an opening bracket: an optional \<open>!\<close> and an optional
  first \<open>]\<close> belong to it, the next \<open>]\<close> ends it.
\<close>

definition bracket :: "string list \<Rightarrow> (string list \<times> string list) option" where
  "bracket cs =
     (let a = (if cs \<noteq> [] \<and> hd cs = ''!'' then 1 else 0);
          b = (if drop a cs \<noteq> [] \<and> hd (drop a cs) = '']'' then Suc a else a);
          j = b + length (takeWhile (\<lambda>c. c \<noteq> '']'') (drop b cs))
      in if length cs \<le> j then None else Some (take j cs, drop (Suc j) cs))"

text \<open>The chunks between the hyphens that form ranges; a final hyphen is a character.\<close>

function chunks_from :: "nat \<Rightarrow> string list \<Rightarrow> string list list" where
  "chunks_from k cs =
     (let a = takeWhile (\<lambda>c. c \<noteq> ''-'') (drop k cs)
      in if length cs \<le> k + length a then [cs]
         else take (k + length a) cs # chunks_from 2 (drop (Suc (k + length a)) cs))"
  by pat_completeness auto
termination
  by (relation "measure (\<lambda>(k, cs). length cs)") auto

declare chunks_from.simps [simp del]

definition range_chunks :: "string list \<Rightarrow> string list list" where
  "range_chunks stuff =
     (let ch = chunks_from (if hd stuff = ''!'' then 2 else 1) stuff
      in if last ch = [] then butlast (butlast ch) @ [last (butlast ch) @ [''-'']] else ch)"

text \<open>An empty range joins its neighbours, from the right.\<close>

fun drop_empty_ranges :: "string list list \<Rightarrow> string list list" where
  "drop_empty_ranges (c # d # cs) =
     (case drop_empty_ranges (d # cs) of
        e # es \<Rightarrow> if hd e < last c then (butlast c @ tl e) # es else c # e # es
      | [] \<Rightarrow> [c])"
| "drop_empty_ranges cs = cs"

fun class_items :: "string list list \<Rightarrow> (string \<times> string) list" where
  "class_items [] = []"
| "class_items [c] = map (\<lambda>x. (x, x)) c"
| "class_items (c # d # cs) = map (\<lambda>x. (x, x)) (butlast c) @ (last c, hd d) # class_items (tl d # cs)"

definition class_of :: "string list \<Rightarrow> glob" where
  "class_of stuff =
     (let cs = (if ''-'' \<in> set stuff then drop_empty_ranges (range_chunks stuff) else [stuff])
      in if concat cs = [] then Never
         else if cs = [[''!'']] then AnyOne
         else if hd (concat cs) = ''!'' then Class True (class_items (tl (hd cs) # tl cs))
         else Class False (class_items cs))"

function parse_glob :: "string list \<Rightarrow> glob list" where
  "parse_glob [] = []"
| "parse_glob (c # cs) =
     (if c = ''*'' then Star # parse_glob cs
      else if c = ''?'' then AnyOne # parse_glob cs
      else if c = ''['' then
        (case bracket cs of
           None \<Rightarrow> One c # parse_glob cs
         | Some (stuff, rest) \<Rightarrow> class_of stuff # parse_glob rest)
      else One c # parse_glob cs)"
  by pat_completeness auto
termination
  by (relation "measure length") (auto simp: bracket_def Let_def split: if_splits)

fun glob_match :: "glob list \<Rightarrow> string list \<Rightarrow> bool" where
  "glob_match [] cs = (cs = [])"
| "glob_match (Star # gs) [] = glob_match gs []"
| "glob_match (Star # gs) (c # cs) = (glob_match gs (c # cs) \<or> glob_match (Star # gs) cs)"
| "glob_match (g # gs) [] = False"
| "glob_match (g # gs) (c # cs) =
     ((case g of
         AnyOne \<Rightarrow> True | One x \<Rightarrow> c = x | Never \<Rightarrow> False | Star \<Rightarrow> True
       | Class neg rs \<Rightarrow> (\<exists>(lo, hi) \<in> set rs. lo \<le> c \<and> c \<le> hi) \<noteq> neg)
      \<and> glob_match gs cs)"

definition fnmatch :: "string \<Rightarrow> string \<Rightarrow> bool" where
  "fnmatch nm pat = glob_match (parse_glob (py_chars pat)) (py_chars nm)"

definition ends_with :: "string \<Rightarrow> string \<Rightarrow> bool" where
  "ends_with w s = starts_with (rev w) (rev s)"

definition path_matches :: "string \<Rightarrow> string \<Rightarrow> bool" where
  "path_matches file pattern =
     (if ends_with ''/**'' pattern
      then let prefix = take (length pattern - 3) pattern
           in file = prefix \<or> starts_with (prefix @ ''/'') file
      else fnmatch file pattern)"

definition matches_any :: "string \<Rightarrow> string list \<Rightarrow> bool" where
  "matches_any file patterns = list_ex (path_matches file) patterns"

section \<open>Evidence\<close>

definition attr_or :: "pyval \<Rightarrow> pyval \<Rightarrow> string \<Rightarrow> pyval" where
  "attr_or d v k =
     (case v of VObj c fs \<Rightarrow> (case map_of fs k of None \<Rightarrow> d | Some x \<Rightarrow> x) | _ \<Rightarrow> d)"

abbreviation attr :: "pyval \<Rightarrow> string \<Rightarrow> pyval" where
  "attr \<equiv> attr_or VNone"

text \<open>An exact string that is not blank.\<close>

definition solid_text :: "pyval \<Rightarrow> bool" where
  "solid_text v = (case v of VStr s \<Rightarrow> \<not> blank s | _ \<Rightarrow> False)"

fun first_error :: "(bool \<times> string) list \<Rightarrow> string option" where
  "first_error [] = None"
| "first_error ((bad, msg) # rest) = (if bad then Some msg else first_error rest)"

definition command_evidence_error :: "pyval \<Rightarrow> string option" where
  "command_evidence_error v =
     first_error
       ([(\<not> solid_text (attr v ''command''), ''command must be a non-empty string''),
         ((case attr v ''exit_code'' of VInt i \<Rightarrow> False | _ \<Rightarrow> True),
            ''exit_code must be an int (not bool/str/float)''),
         ((case attr v ''completed'' of VBool b \<Rightarrow> False | _ \<Rightarrow> True), ''completed must be a bool''),
         (\<not> solid_text (attr v ''commit_sha''), ''commit_sha must be a non-empty string''),
         (\<not> solid_text (attr v ''evidence_id''), ''evidence_id must be a non-empty string''),
         (\<not> is_valid_evidence_id (attr v ''evidence_id''), ''evidence_id is not a valid identifier'')]
        @ map (\<lambda>k. (attr v k \<noteq> VNone \<and> \<not> solid_text (attr v k), k @ '' must be None or a non-empty string''))
            [''completed_at'', ''artifact_digest''])"

text \<open>\<open>CommandEvidence.__post_init__\<close> on the seven fields.\<close>

definition command_evidence_init :: "kwargs \<Rightarrow> exn + pyval" where
  "command_evidence_init fs =
     (case command_evidence_error (VObj ''CommandEvidence'' fs) of
        None \<Rightarrow> Inr (VObj ''CommandEvidence'' fs)
      | Some e \<Rightarrow> Inl (Exn ''InvalidCommandEvidenceError'' e))"

definition attr_text :: "pyval \<Rightarrow> string \<Rightarrow> string" where
  "attr_text v k = (case attr v k of VStr s \<Rightarrow> s | _ \<Rightarrow> [])"

definition normalize_command :: "string \<Rightarrow> string" where
  "normalize_command c = join '' '' (split_words c)"

definition evidence_verdict :: "pyval \<Rightarrow> string \<Rightarrow> string option" where
  "evidence_verdict ev expected =
     first_error
       [(attr ev ''completed'' \<noteq> VBool True, ''evidence did not complete''),
        (attr ev ''exit_code'' \<noteq> VInt 0, ''evidence exit_code (must be 0)''),
        (blank (attr_text ev ''evidence_id''), ''evidence_id is empty''),
        (expected = [], ''expected_commit_sha is not set; commit-bound evidence cannot be verified''),
        (attr_text ev ''commit_sha'' \<noteq> expected, ''commit_sha mismatch'')]"

section \<open>Findings and decisions\<close>

record finding =
  f_type :: string
  f_severity :: string
  f_file :: "string option"
  f_reason :: string
  f_evidence :: "string option"

abbreviation mk_finding :: "string \<Rightarrow> string \<Rightarrow> string option \<Rightarrow> string \<Rightarrow> finding" where
  "mk_finding t sev fl r \<equiv> \<lparr>f_type = t, f_severity = sev, f_file = fl, f_reason = r, f_evidence = None\<rparr>"

record rejected_entry =
  rj_evidence_id :: pyval
  rj_command :: string
  rj_reason :: string

record gate_input =
  gi_contract :: task_contract
  changed_files :: "pyval list"
  tests_run :: "string list"
  dependency_files_changed :: "string list"
  gi_expected_commit_sha :: string
  test_evidence :: "pyval list"

record change_gate_decision =
  gd_decision :: string
  gd_findings :: "finding list"
  matched_required_evidence :: "string list"
  missing_required_evidence :: "string list"
  rejected_evidence :: "rejected_entry list"
  gd_expected_commit_sha :: string

definition DEPENDENCY_FILES :: "string list" where
  "DEPENDENCY_FILES =
     [''requirements.txt'', ''pyproject.toml'', ''poetry.lock'', ''package.json'', ''package-lock.json'',
      ''pnpm-lock.yaml'', ''yarn.lock'']"

definition INFO_FINDING_TYPES :: "string list" where
  "INFO_FINDING_TYPES = []"

definition REVIEW_FINDING_TYPES :: "string list" where
  "REVIEW_FINDING_TYPES =
     [''no_changed_files'', ''out_of_scope'', ''dependency_change'', ''missing_evidence'', ''no_evidence'']"

definition BLOCK_FINDING_TYPES :: "string list" where
  "BLOCK_FINDING_TYPES =
     [''invalid_changed_path'', ''forbidden_path'', ''invalid_evidence'', ''duplicate_evidence_id'']"

section \<open>The gate\<close>

text \<open>Step 0: canonical paths without duplicates, and a finding for each path that has none.\<close>

fun normalize_all :: "host \<Rightarrow> string list \<Rightarrow> pyval list \<Rightarrow> string list \<times> finding list" where
  "normalize_all h seen [] = ([], [])"
| "normalize_all h seen (v # vs) =
     (case normalize_repo_path v of
        Inl e \<Rightarrow>
          (let (files, fs) = normalize_all h seen vs
           in (files, mk_finding ''invalid_changed_path'' ''block'' (Some (to_str h v)) (exn_msg e) # fs))
      | Inr p \<Rightarrow>
          if p \<in> set seen then normalize_all h seen vs
          else (let (files, fs) = normalize_all h (p # seen) vs in (p # files, fs)))"

text \<open>Steps 1 and 2: forbidden patterns win, then the scope.\<close>

definition path_finding :: "task_contract \<Rightarrow> string \<Rightarrow> finding list" where
  "path_finding c file =
     (if matches_any file (forbidden_paths c)
      then [mk_finding ''forbidden_path'' ''block'' (Some file) (file @ '' matches a forbidden path pattern'')]
      else if allowed_paths c \<noteq> [] \<and> \<not> broad_scope_allowed c \<and> \<not> matches_any file (allowed_paths c)
      then [mk_finding ''out_of_scope'' ''warning'' (Some file)
              (file @ ('' is outside the contract'' @ [CHR 0x27] @ ''s allowed paths''))]
      else [])"

text \<open>Step 3: dependency files.\<close>

definition path_name :: "string \<Rightarrow> string" where
  "path_name p = last (split_on (CHR ''/'') p)"

definition dependency_findings :: "gate_input \<Rightarrow> string list \<Rightarrow> finding list" where
  "dependency_findings g files =
     (let touched = dependency_files_changed g @ filter (\<lambda>f. path_name f \<in> set DEPENDENCY_FILES) files
      in if ''dependency_change'' \<in> set (requires_human_approval_for (gi_contract g))
         then map (\<lambda>file. mk_finding ''dependency_change'' ''warning'' (Some file)
                (file @ '' is a dependency file; contract requires human approval for dependency changes''))
              (sort (remdups touched))
         else [])"

text \<open>Passes 1 and 2 over the evidence: identities are counted before bodies are checked.\<close>

definition valid_ids :: "pyval list \<Rightarrow> string list" where
  "valid_ids evs =
     List.map_filter (\<lambda>ev. case attr ev ''evidence_id'' of
       VStr s \<Rightarrow> if is_valid_evidence_id (VStr s) then Some s else None | _ \<Rightarrow> None) evs"

definition duplicate_ids :: "pyval list \<Rightarrow> string list" where
  "duplicate_ids evs = sort (remdups (filter (\<lambda>s. 1 < count_list (valid_ids evs) s) (valid_ids evs)))"

text \<open>Pass 3: malformed records are refused.\<close>

definition take_chars :: "nat \<Rightarrow> string \<Rightarrow> string" where
  "take_chars n s = concat (take n (py_chars s))"

fun malformed_evidence :: "host \<Rightarrow> nat \<Rightarrow> pyval list \<Rightarrow> rejected_entry list \<times> finding list" where
  "malformed_evidence h i [] = ([], [])"
| "malformed_evidence h i (ev # evs) =
     (let (rs, fs) = malformed_evidence h (Suc i) evs
      in case command_evidence_error ev of
           None \<Rightarrow> (rs, fs)
         | Some e \<Rightarrow>
             (\<lparr>rj_evidence_id = attr_or (VStr (''<index '' @ show_nat i @ ''>'')) ev ''evidence_id'',
               rj_command = take_chars 200 (to_str h (attr_or (VStr ''<unknown>'') ev ''command'')),
               rj_reason = ''malformed evidence: '' @ e\<rparr> # rs,
              mk_finding ''invalid_evidence'' ''block'' None
                (''malformed evidence at index '' @ show_nat i @ '': '' @ e) # fs))"

definition duplicate_findings :: "pyval list \<Rightarrow> finding list" where
  "duplicate_findings evs =
     map (\<lambda>eid. \<lparr>f_type = ''duplicate_evidence_id'', f_severity = ''block'', f_file = None,
        f_reason = ''evidence_id appears '' @ show_nat (count_list (valid_ids evs) eid)
          @ '' times; evidence identity is ambiguous'', f_evidence = Some eid\<rparr>) (duplicate_ids evs)"

definition duplicate_rejections :: "pyval list \<Rightarrow> rejected_entry list" where
  "duplicate_rejections evs =
     map (\<lambda>eid. \<lparr>rj_evidence_id = VStr eid, rj_command = ''<multiple>'',
        rj_reason = ''duplicate evidence_id used '' @ show_nat (count_list (valid_ids evs) eid) @ '' times''\<rparr>)
       (duplicate_ids evs)"

text \<open>Pass 4: the first trustworthy record for a required command, and those refused before it.\<close>

fun scan_evidence :: "string list \<Rightarrow> string \<Rightarrow> string \<Rightarrow> pyval list \<Rightarrow> bool \<times> rejected_entry list" where
  "scan_evidence dups sha required [] = (False, [])"
| "scan_evidence dups sha required (ev # evs) =
     (if attr_text ev ''evidence_id'' \<in> set dups
         \<or> normalize_command (attr_text ev ''command'') \<noteq> normalize_command required
      then scan_evidence dups sha required evs
      else case evidence_verdict ev sha of
             None \<Rightarrow> (True, [])
           | Some reason \<Rightarrow>
               (let (ok, rs) = scan_evidence dups sha required evs
                in (ok, \<lparr>rj_evidence_id = attr ev ''evidence_id'', rj_command = attr_text ev ''command'',
                        rj_reason = reason\<rparr> # rs)))"

definition missing_finding :: "gate_input \<Rightarrow> string \<Rightarrow> finding" where
  "missing_finding g required =
     \<lparr>f_type = ''missing_evidence'', f_severity = ''warning'', f_file = None,
      f_reason = ''required evidence not proven by structured evidence: '' @ required
        @ (if list_ex (contains required) (tests_run g)
           then '' (a matching legacy tests_run string exists but is unverified and cannot satisfy evidence)''
           else []),
      f_evidence = Some required\<rparr>"

definition usable_evidence :: "gate_input \<Rightarrow> pyval list" where
  "usable_evidence g = filter (\<lambda>ev. command_evidence_error ev = None) (test_evidence g)"

definition satisfied :: "gate_input \<Rightarrow> string \<Rightarrow> bool" where
  "satisfied g required =
     fst (scan_evidence (duplicate_ids (test_evidence g)) (gi_expected_commit_sha g) required (usable_evidence g))"

definition gate_findings :: "host \<Rightarrow> gate_input \<Rightarrow> finding list" where
  "gate_findings h g =
     (let (files, invalid) = normalize_all h [] (changed_files g); c = gi_contract g
      in invalid
         @ (if changed_files g = []
            then [mk_finding ''no_changed_files'' ''warning'' None ''no changed files were reported for this task'']
            else [])
         @ concat (map (path_finding c) files)
         @ dependency_findings g files
         @ snd (malformed_evidence h 0 (test_evidence g))
         @ duplicate_findings (test_evidence g)
         @ map (missing_finding g) (filter (\<lambda>r. \<not> satisfied g r) (required_evidence c))
         @ (if test_evidence g = [] \<and> required_evidence c = []
            then [mk_finding ''no_evidence'' ''warning'' None ''no structured evidence was provided for this change'']
            else []))"

definition decide :: "finding list \<Rightarrow> string" where
  "decide fs =
     (if list_ex (\<lambda>f. f_severity f = ''block'') fs then ''BLOCK''
      else if list_ex (\<lambda>f. f_severity f = ''warning'') fs then ''REVIEW_REQUIRED''
      else ''PASS'')"

definition evaluate_change_gate :: "host \<Rightarrow> gate_input \<Rightarrow> change_gate_decision" where
  "evaluate_change_gate h g =
     (let c = gi_contract g; evs = test_evidence g
      in \<lparr>gd_decision = decide (gate_findings h g), gd_findings = gate_findings h g,
          matched_required_evidence = filter (satisfied g) (required_evidence c),
          missing_required_evidence = filter (\<lambda>r. \<not> satisfied g r) (required_evidence c),
          rejected_evidence =
            fst (malformed_evidence h 0 evs) @ duplicate_rejections evs
            @ concat (map (\<lambda>r. snd (scan_evidence (duplicate_ids evs) (gi_expected_commit_sha g) r
                (usable_evidence g))) (required_evidence c)),
          gd_expected_commit_sha = gi_expected_commit_sha g\<rparr>)"

section \<open>Checking a decision\<close>

text \<open>A finding and a decision as the objects that the checks read.\<close>

definition finding_obj :: "finding \<Rightarrow> pyval" where
  "finding_obj f = VObj ''Finding''
     [(''type'', VStr (f_type f)), (''severity'', VStr (f_severity f)), (''file'', opt_str (f_file f)),
      (''reason'', VStr (f_reason f)), (''evidence'', opt_str (f_evidence f))]"

definition rejected_obj :: "rejected_entry \<Rightarrow> pyval" where
  "rejected_obj r = dict_of
     [(''evidence_id'', rj_evidence_id r), (''command'', VStr (rj_command r)), (''reason'', VStr (rj_reason r))]"

definition decision_fields :: "(finding \<Rightarrow> pyval) \<Rightarrow> change_gate_decision \<Rightarrow> kwargs" where
  "decision_fields fobj d =
     [(''decision'', VStr (gd_decision d)), (''findings'', VList (map fobj (gd_findings d))),
      (''matched_required_evidence'', text_list (matched_required_evidence d)),
      (''missing_required_evidence'', text_list (missing_required_evidence d)),
      (''rejected_evidence'', VList (map rejected_obj (rejected_evidence d))),
      (''expected_commit_sha'', VStr (gd_expected_commit_sha d))]"

definition decision_obj :: "change_gate_decision \<Rightarrow> pyval" where
  "decision_obj d = VObj ''ChangeGateDecision'' (decision_fields finding_obj d)"

definition decision_to_dict :: "change_gate_decision \<Rightarrow> pyval" where
  "decision_to_dict d = dict_of (decision_fields (\<lambda>f. asdict (finding_obj f)) d)"

definition finding_shape_error :: "pyval \<Rightarrow> string option" where
  "finding_shape_error v =
     first_error
       [(\<not> solid_text (attr_or (VStr ''__missing__'') v ''type''), ''finding.type must be a non-empty string''),
        (attr_or (VStr ''__missing__'') v ''severity'' \<notin> {VStr ''info'', VStr ''warning'', VStr ''block''},
           ''finding.severity must be one of block, info, warning''),
        (\<not> solid_text (attr_or (VStr ''__missing__'') v ''reason''), ''finding.reason must be a non-empty string''),
        ((case attr v ''file'' of VNone \<Rightarrow> False | VStr s \<Rightarrow> False | _ \<Rightarrow> True),
           ''finding.file must be a string or None''),
        ((case attr v ''evidence'' of VNone \<Rightarrow> False | VStr s \<Rightarrow> False | _ \<Rightarrow> True),
           ''finding.evidence must be a string or None'')]"

text \<open>
  What a finding says against a \<open>PASS\<close>.  The informational types are checked last against the
  severity that their classification fixes.
\<close>

definition pass_finding_errors :: "pyval \<Rightarrow> string list" where
  "pass_finding_errors v =
     (case finding_shape_error v of
        Some e \<Rightarrow> [''malformed finding in PASS decision: '' @ e]
      | None \<Rightarrow>
          let t = attr_text v ''type''; sev = attr_text v ''severity''
          in if sev = ''block'' then [''PASS decision contains a block-severity finding: '' @ t]
             else if sev = ''warning'' then [''PASS decision contains a warning-severity finding: '' @ t]
             else if t \<notin> set INFO_FINDING_TYPES then
               (if t \<in> set BLOCK_FINDING_TYPES
                then [(''PASS decision contains a block finding type relabeled '' @ [CHR 0x27] @ ''info''
           @ [CHR 0x27] @ '': '') @ t]
                else if t \<in> set REVIEW_FINDING_TYPES
                then [(''PASS decision contains a review finding type relabeled '' @ [CHR 0x27] @ ''info''
           @ [CHR 0x27] @ '': '') @ t]
                else [(''PASS decision contains an unknown finding type at '' @ [CHR 0x27] @ ''info''
           @ [CHR 0x27] @ '': '') @ t])
             else if sev \<noteq> ''info'' then [''finding has an inconsistent severity: '' @ t]
             else [])"

definition list_attr :: "pyval \<Rightarrow> string \<Rightarrow> pyval list option" where
  "list_attr v k = (case attr v k of VList xs \<Rightarrow> Some xs | _ \<Rightarrow> None)"

definition validate_change_gate_decision :: "task_contract \<Rightarrow> pyval \<Rightarrow> string list" where
  "validate_change_gate_decision c d =
     (case text_of (attr d ''decision'') of
        None \<Rightarrow> [''unknown decision value'']
      | Some dec \<Rightarrow>
          if dec \<notin> {''PASS'', ''REVIEW_REQUIRED'', ''BLOCK''} then [''unknown decision value'']
          else if dec \<noteq> ''PASS'' then [''decision is '' @ dec @ '', not PASS'']
          else
            let findings = list_attr d ''findings''; matched = list_attr d ''matched_required_evidence'';
                missing = list_attr d ''missing_required_evidence'';
                ms = (case matched of None \<Rightarrow> [] | Some xs \<Rightarrow> xs)
            in (if findings = None then [''findings is not a list''] else [])
               @ (if matched = None then [''matched_required_evidence is not a list''] else [])
               @ (if missing = None then [''missing_required_evidence is not a list''] else [])
               @ (if missing \<noteq> Some [] then [''missing_required_evidence is non-empty''] else [])
               @ map (\<lambda>r. ''required evidence not in matched set: '' @ r)
                   (filter (\<lambda>r. \<not> list_ex (\<lambda>m. text_of m = Some r) ms) (required_evidence c))
               @ (if required_evidence c \<noteq> [] \<and> ms = []
                  then [''contract has required evidence but matched set is empty''] else [])
               @ concat (map pass_finding_errors (case findings of None \<Rightarrow> [] | Some fs \<Rightarrow> fs)))"

definition producer_finding_types :: "string list" where
  "producer_finding_types =
     [''invalid_changed_path'', ''no_changed_files'', ''forbidden_path'', ''out_of_scope'',
      ''dependency_change'', ''invalid_evidence'', ''duplicate_evidence_id'', ''missing_evidence'',
      ''no_evidence'']"

section \<open>What the gate looks at\<close>

lemma first_error_None [simp]: "first_error es = None \<longleftrightarrow> list_all (\<lambda>e. \<not> fst e) es"
  by (induction es rule: first_error.induct) auto

declare first_error.simps [simp del]

lemma normalize_all_files:
  "set (fst (normalize_all h seen vs)) = {p. \<exists>v \<in> set vs. normalize_repo_path v = Inr p} - set seen"
  by (induction h seen vs rule: normalize_all.induct)
     (auto simp: Let_def case_prod_beta split: sum.splits)

lemma normalize_all_findings: "snd (normalize_all h seen vs) = [] \<longleftrightarrow> (\<forall>v \<in> set vs. is_ok (normalize_repo_path v))"
  by (induction h seen vs rule: normalize_all.induct)
     (auto simp: Let_def case_prod_beta split: sum.splits)

lemma path_finding_Nil:
  "path_finding c f = [] \<longleftrightarrow> \<not> matches_any f (forbidden_paths c) \<and>
     (allowed_paths c = [] \<or> broad_scope_allowed c \<or> matches_any f (allowed_paths c))"
  by (auto simp: path_finding_def)

lemma malformed_Nil: "snd (malformed_evidence h i evs) = [] \<longleftrightarrow> (\<forall>ev \<in> set evs. command_evidence_error ev = None)"
  by (induction h i evs rule: malformed_evidence.induct) (auto simp: Let_def case_prod_beta split: option.splits)

lemma distinct_count: "distinct xs \<longleftrightarrow> (\<forall>x \<in> set xs. \<not> 1 < count_list xs x)"
proof (induction xs)
  case (Cons a xs)
  have "0 < count_list xs a \<longleftrightarrow> a \<in> set xs" by (metis count_list_0_iff gr0I less_irrefl)
  with Cons show ?case by auto
qed simp

lemma duplicate_ids_Nil: "duplicate_ids evs = [] \<longleftrightarrow> distinct (valid_ids evs)"
  by (simp add: duplicate_ids_def distinct_count filter_empty_conv)

lemma scan_evidence_found:
  "fst (scan_evidence dups sha r evs) \<longleftrightarrow>
     (\<exists>ev \<in> set evs. attr_text ev ''evidence_id'' \<notin> set dups \<and>
        normalize_command (attr_text ev ''command'') = normalize_command r \<and> evidence_verdict ev sha = None)"
  by (induction dups sha r evs rule: scan_evidence.induct)
     (auto simp: Let_def case_prod_beta split: option.splits)

text \<open>Evidence that proves a command: completed with exit code 0 at the expected commit.\<close>

definition proves :: "gate_input \<Rightarrow> string \<Rightarrow> pyval \<Rightarrow> bool" where
  "proves g r ev \<longleftrightarrow>
     command_evidence_error ev = None \<and> attr ev ''completed'' = VBool True \<and> attr ev ''exit_code'' = VInt 0 \<and>
     attr ev ''commit_sha'' = VStr (gi_expected_commit_sha g) \<and> gi_expected_commit_sha g \<noteq> [] \<and>
     normalize_command (attr_text ev ''command'') = normalize_command r"

lemma solid_text_attr: "solid_text (attr v k) \<Longrightarrow> attr v k = VStr (attr_text v k) \<and> \<not> blank (attr_text v k)"
  by (auto simp: solid_text_def attr_text_def split: pyval.splits)

lemma verdict_proves:
  assumes "command_evidence_error ev = None"
  shows "evidence_verdict ev (gi_expected_commit_sha g) = None \<and>
      normalize_command (attr_text ev ''command'') = normalize_command r \<longleftrightarrow> proves g r ev"
proof -
  have "solid_text (attr ev ''commit_sha'')" "solid_text (attr ev ''evidence_id'')"
    using assms by (simp_all add: command_evidence_error_def)
  from this [THEN solid_text_attr] show ?thesis
    using assms by (auto simp: evidence_verdict_def proves_def)
qed

lemma satisfied_iff:
  assumes "distinct (valid_ids (test_evidence g))"
  shows "satisfied g r \<longleftrightarrow> (\<exists>ev \<in> set (test_evidence g). proves g r ev)"
proof -
  have "duplicate_ids (test_evidence g) = []" using assms by (simp add: duplicate_ids_Nil)
  then show ?thesis
    unfolding satisfied_def scan_evidence_found usable_evidence_def
    using verdict_proves by (auto simp: proves_def)
qed

section \<open>When the gate passes\<close>

lemma findings_severity: "f \<in> set (gate_findings h g) \<Longrightarrow> f_severity f = ''block'' \<or> f_severity f = ''warning''"
proof -
  have n: "f \<in> set (snd (normalize_all h seen vs)) \<Longrightarrow> f_severity f = ''block''" for seen vs
    by (induction h seen vs rule: normalize_all.induct) (auto simp: Let_def case_prod_beta split: sum.splits if_splits)
  have m: "f \<in> set (snd (malformed_evidence h i evs)) \<Longrightarrow> f_severity f = ''block''" for i evs
    by (induction h i evs rule: malformed_evidence.induct) (auto simp: Let_def case_prod_beta split: option.splits)
  assume "f \<in> set (gate_findings h g)"
  then show ?thesis
    unfolding gate_findings_def Let_def case_prod_beta set_append
    using n m
    by (auto simp: path_finding_def dependency_findings_def duplicate_findings_def missing_finding_def split: if_splits)
qed

lemma decide_pass: "gd_decision (evaluate_change_gate h g) = ''PASS'' \<longleftrightarrow> gate_findings h g = []"
proof -
  have "decide (gate_findings h g) = ''PASS'' \<longleftrightarrow> gate_findings h g = []"
    using findings_severity [of _ h g] by (cases "gate_findings h g") (auto simp: decide_def)
  then show ?thesis by (simp add: evaluate_change_gate_def Let_def)
qed

definition passes :: "gate_input \<Rightarrow> bool" where
  "passes g \<longleftrightarrow> (let c = gi_contract g in
     changed_files g \<noteq> [] \<and>
     (\<forall>v \<in> set (changed_files g). \<exists>p. normalize_repo_path v = Inr p \<and> \<not> matches_any p (forbidden_paths c) \<and>
        (allowed_paths c = [] \<or> broad_scope_allowed c \<or> matches_any p (allowed_paths c)) \<and>
        (''dependency_change'' \<in> set (requires_human_approval_for c) \<longrightarrow> path_name p \<notin> set DEPENDENCY_FILES)) \<and>
     (''dependency_change'' \<in> set (requires_human_approval_for c) \<longrightarrow> dependency_files_changed g = []) \<and>
     (\<forall>ev \<in> set (test_evidence g). command_evidence_error ev = None) \<and> distinct (valid_ids (test_evidence g)) \<and>
     (\<forall>r \<in> set (required_evidence c). \<exists>ev \<in> set (test_evidence g). proves g r ev) \<and>
     (test_evidence g \<noteq> [] \<or> required_evidence c \<noteq> []))"

lemma dependency_findings_Nil:
  "dependency_findings g files = [] \<longleftrightarrow>
     (''dependency_change'' \<in> set (requires_human_approval_for (gi_contract g)) \<longrightarrow>
        dependency_files_changed g = [] \<and> (\<forall>f \<in> set files. path_name f \<notin> set DEPENDENCY_FILES))"
  by (auto simp: dependency_findings_def Let_def filter_empty_conv)

lemma gate_findings_Nil: "gate_findings h g = [] \<longleftrightarrow> passes g"
proof -
  let ?c = "gi_contract g" and ?files = "fst (normalize_all h [] (changed_files g))"
  have files: "(\<forall>f \<in> set ?files. P f) \<longleftrightarrow> (\<forall>v \<in> set (changed_files g). \<forall>p. normalize_repo_path v = Inr p \<longrightarrow> P p)" for P
    unfolding normalize_all_files by auto
  have dup: "duplicate_findings (test_evidence g) = [] \<longleftrightarrow> distinct (valid_ids (test_evidence g))"
    by (simp add: duplicate_findings_def duplicate_ids_Nil)
  have "gate_findings h g = [] \<longleftrightarrow>
      (\<forall>v \<in> set (changed_files g). is_ok (normalize_repo_path v)) \<and> changed_files g \<noteq> [] \<and>
      (\<forall>f \<in> set ?files. path_finding ?c f = []) \<and> dependency_findings g ?files = [] \<and>
      (\<forall>ev \<in> set (test_evidence g). command_evidence_error ev = None) \<and>
      distinct (valid_ids (test_evidence g)) \<and> (\<forall>r \<in> set (required_evidence ?c). satisfied g r) \<and>
      (test_evidence g \<noteq> [] \<or> required_evidence ?c \<noteq> [])"
    unfolding gate_findings_def Let_def case_prod_beta append_is_Nil_conv normalize_all_findings malformed_Nil dup
    by (auto simp: filter_empty_conv)
  also have "\<dots> \<longleftrightarrow> (\<forall>v \<in> set (changed_files g). is_ok (normalize_repo_path v)) \<and> changed_files g \<noteq> [] \<and>
      (\<forall>f \<in> set ?files. path_finding ?c f = []) \<and> dependency_findings g ?files = [] \<and>
      (\<forall>ev \<in> set (test_evidence g). command_evidence_error ev = None) \<and>
      distinct (valid_ids (test_evidence g)) \<and>
      (\<forall>r \<in> set (required_evidence ?c). \<exists>ev \<in> set (test_evidence g). proves g r ev) \<and>
      (test_evidence g \<noteq> [] \<or> required_evidence ?c \<noteq> [])"
    using satisfied_iff by blast
  also have "\<dots> \<longleftrightarrow> passes g"
    unfolding passes_def Let_def path_finding_Nil dependency_findings_Nil is_ok_iff files
    by (intro iffI; elim conjE; intro conjI ballI impI; fastforce)
  finally show ?thesis .
qed

lemma gate_pass_iff: "gd_decision (evaluate_change_gate h g) = ''PASS'' \<longleftrightarrow> passes g"
  by (simp add: decide_pass gate_findings_Nil)

section \<open>The checks of a decision\<close>

lemma pass_finding_errors_some: "pass_finding_errors v \<noteq> []"
  by (auto simp: pass_finding_errors_def Let_def INFO_FINDING_TYPES_def split: option.splits)

lemma validated_decision:
  "validate_change_gate_decision c d = [] \<longleftrightarrow>
     text_of (attr d ''decision'') = Some ''PASS'' \<and> attr d ''findings'' = VList [] \<and>
     attr d ''missing_required_evidence'' = VList [] \<and>
     (\<exists>ms. attr d ''matched_required_evidence'' = VList ms \<and>
        (\<forall>r \<in> set (required_evidence c). \<exists>m \<in> set ms. text_of m = Some r))"
proof -
  have la: "list_attr d k = Some xs \<longleftrightarrow> attr d k = VList xs" for k xs
    by (auto simp: list_attr_def split: pyval.splits)
  have concat: "concat (map pass_finding_errors fs) = [] \<longleftrightarrow> fs = []" for fs
    using pass_finding_errors_some by (cases fs) auto
  show ?thesis
  proof (cases "text_of (attr d ''decision'') = Some ''PASS''")
    case True
    then have "validate_change_gate_decision c d = [] \<longleftrightarrow>
        list_attr d ''findings'' \<noteq> None \<and> list_attr d ''matched_required_evidence'' \<noteq> None \<and>
        list_attr d ''missing_required_evidence'' = Some [] \<and>
        (\<forall>r \<in> set (required_evidence c). \<exists>m \<in> set (case list_attr d ''matched_required_evidence'' of
            None \<Rightarrow> [] | Some xs \<Rightarrow> xs). text_of m = Some r) \<and>
        \<not> (required_evidence c \<noteq> [] \<and> (case list_attr d ''matched_required_evidence'' of
            None \<Rightarrow> [] | Some xs \<Rightarrow> xs) = []) \<and>
        (case list_attr d ''findings'' of None \<Rightarrow> [] | Some fs \<Rightarrow> fs) = []"
      unfolding validate_change_gate_decision_def Let_def append_is_Nil_conv concat
      by (auto simp: pass_finding_errors_some filter_empty_conv list_ex_iff)
    then show ?thesis
      unfolding la [symmetric] using True
      by (cases "list_attr d ''findings''"; cases "list_attr d ''matched_required_evidence''") auto
  next
    case False
    then show ?thesis by (auto simp: validate_change_gate_decision_def split: option.split)
  qed
qed

lemma genuine_pass_validates:
  assumes "gd_decision (evaluate_change_gate h g) = ''PASS''"
  shows "validate_change_gate_decision (gi_contract g) (decision_obj (evaluate_change_gate h g)) = []"
proof -
  have f: "gate_findings h g = []" and p: "passes g" using assms by (simp_all add: decide_pass gate_findings_Nil)
  then have "\<forall>r \<in> set (required_evidence (gi_contract g)). satisfied g r"
    by (simp add: passes_def Let_def satisfied_iff)
  then show ?thesis
    using f assms unfolding validated_decision
    by (auto simp: decision_obj_def decision_fields_def attr_or_def evaluate_change_gate_def Let_def text_list_def
        filter_empty_conv)
qed

lemma trusted_iff_pass:
  "validate_change_gate_decision (gi_contract g) (decision_obj (evaluate_change_gate h g)) = [] \<longleftrightarrow>
     gd_decision (evaluate_change_gate h g) = ''PASS''"
proof
  assume "validate_change_gate_decision (gi_contract g) (decision_obj (evaluate_change_gate h g)) = []"
  then show "gd_decision (evaluate_change_gate h g) = ''PASS''"
    unfolding validated_decision by (simp add: decision_obj_def decision_fields_def attr_or_def)
qed (rule genuine_pass_validates)

end
