(* ===== verification/Json_Reader.thy ===== *)
theory Json_Reader
  imports Canonical
begin

text \<open>
  \<open>json.loads\<close> of the standard library, which the report reader of the build harness calls with
  an \<open>object_pairs_hook\<close> on text that an agent wrote, and which reads back what
  \<open>canonical.py\<close> writes.  Strings are their UTF-8 bytes; a lone surrogate escape becomes its
  three-byte form.  Two things are those of the interpreter: \<open>float(text)\<close> on a literal that matches the
  number grammar, and how many objects and arrays may enclose one another before a \<open>RecursionError\<close>.
\<close>

section \<open>Strings\<close>

abbreviation JSONDecodeError :: "string \<Rightarrow> exn" where
  "JSONDecodeError m \<equiv> Exn ''JSONDecodeError'' m"

definition hex_value :: "char \<Rightarrow> nat option" where
  "hex_value c =
     (if ascii_digit c then Some (code_point c - 48)
      else if between (CHR ''a'') (CHR ''f'') c then Some (code_point c - 87)
      else if between (CHR ''A'') (CHR ''F'') c then Some (code_point c - 55)
      else None)"

fun hex4 :: "string \<Rightarrow> (nat \<times> string) option" where
  "hex4 (a # b # c # d # r) =
     (case (hex_value a, hex_value b, hex_value c, hex_value d) of
        (Some i, Some j, Some k, Some l) \<Rightarrow> Some (4096 * i + 256 * j + 16 * k + l, r)
      | _ \<Rightarrow> None)"
| "hex4 s = None"

definition utf8 :: "nat \<Rightarrow> string" where
  "utf8 n =
     (if n < 0x80 then [char_of n]
      else if n < 0x800 then [char_of (0xC0 + n div 64), char_of (0x80 + n mod 64)]
      else if n < 0x10000
      then [char_of (0xE0 + n div 4096), char_of (0x80 + n div 64 mod 64), char_of (0x80 + n mod 64)]
      else [char_of (0xF0 + n div 262144), char_of (0x80 + n div 4096 mod 64),
            char_of (0x80 + n div 64 mod 64), char_of (0x80 + n mod 64)])"

text \<open>What follows \<open>\u\<close>: a code unit, and its low surrogate when a second escape gives one.\<close>

definition unicode_escape :: "string \<Rightarrow> (string \<times> string) option" where
  "unicode_escape s =
     (case hex4 s of
        None \<Rightarrow> None
      | Some (hi, r) \<Rightarrow>
          if 0xD800 \<le> hi \<and> hi \<le> 0xDBFF \<and> starts_with [CHR 0x5C, CHR ''u''] r
          then (case hex4 (drop 2 r) of
                  None \<Rightarrow> None
                | Some (lo, r2) \<Rightarrow>
                    if 0xDC00 \<le> lo \<and> lo \<le> 0xDFFF
                    then Some (utf8 (0x10000 + (hi - 0xD800) * 1024 + (lo - 0xDC00)), r2)
                    else Some (utf8 hi, r))
          else Some (utf8 hi, r))"

fun plain_escape :: "char \<Rightarrow> char option" where
  "plain_escape c =
     (if c = CHR 0x22 \<or> c = CHR 0x5C \<or> c = CHR ''/'' then Some c
      else if c = CHR ''b'' then Some (CHR 0x08)
      else if c = CHR ''f'' then Some (CHR 0x0C)
      else if c = CHR ''n'' then Some (CHR 0x0A)
      else if c = CHR ''r'' then Some (CHR 0x0D)
      else if c = CHR ''t'' then Some (CHR 0x09)
      else None)"

text \<open>The character that an escape stands for, after the backslash, and the rest.\<close>

fun unescape :: "string \<Rightarrow> (string \<times> string) option" where
  "unescape [] = None"
| "unescape (c # cs) =
     (if c = CHR ''u'' then unicode_escape cs
      else map_option (\<lambda>x. ([x], cs)) (plain_escape c))"

lemma hex4_shorter: "hex4 s = Some (n, r) \<Longrightarrow> length r < length s"
  by (induction s rule: hex4.induct) (auto split: option.splits)

lemma unescape_shorter:
  assumes "unescape s = Some (u, r)"
  shows "length r < length s"
proof -
  have "unicode_escape cs = Some (u, r) \<Longrightarrow> length r < length cs" for cs
    by (auto simp: unicode_escape_def split: option.splits if_splits dest!: hex4_shorter)
  then show ?thesis
    using assms by (cases s) (fastforce simp del: plain_escape.simps split: if_splits)+
qed

text \<open>A string after its opening quote, in strict mode.\<close>

function scan_string :: "string \<Rightarrow> exn + string \<times> string" where
  "scan_string [] = Inl (JSONDecodeError ''Unterminated string'')"
| "scan_string (c # cs) =
     (if c = CHR 0x22 then Inr ([], cs)
      else if c = CHR 0x5C then
        (case unescape cs of
           None \<Rightarrow> Inl (JSONDecodeError ''Invalid escape'')
         | Some (u, r) \<Rightarrow> seqE (scan_string r) (\<lambda>(t, r2). Inr (u @ t, r2)))
      else if code_point c < 32 then Inl (JSONDecodeError ''Invalid control character'')
      else seqE (scan_string cs) (\<lambda>(t, r). Inr (c # t, r)))"
  by pat_completeness auto
termination
  by (relation "measure length") (auto dest: unescape_shorter)

section \<open>Numbers\<close>

definition digits :: "string \<Rightarrow> string" where
  "digits = takeWhile ascii_digit"

definition after_digits :: "string \<Rightarrow> string" where
  "after_digits = dropWhile ascii_digit"

definition minus_part :: "string \<Rightarrow> string" where
  "minus_part s = (if starts_with ''-'' s then ''-'' else [])"

definition int_part :: "string \<Rightarrow> string" where
  "int_part s = (if starts_with ''0'' s then ''0'' else digits s)"

definition frac_part :: "string \<Rightarrow> string" where
  "frac_part s = (if starts_with ''.'' s \<and> digits (tl s) \<noteq> [] then ''.'' @ digits (tl s) else [])"

definition exp_part :: "string \<Rightarrow> string" where
  "exp_part s =
     (if starts_with ''e'' s \<or> starts_with ''E'' s
      then let sign = (if starts_with ''-'' (tl s) \<or> starts_with ''+'' (tl s) then [hd (tl s)] else []);
               ds = digits (drop (length sign) (tl s))
           in if ds = [] then [] else [hd s] @ sign @ ds
      else [])"

definition digits_value :: "string \<Rightarrow> nat" where
  "digits_value = foldl (\<lambda>n c. 10 * n + (code_point c - 48)) 0"

text \<open>
  \<open>(-?(?:0|[1-9][0-9]*))(\.[0-9]+)?([eE][-+]?[0-9]+)?\<close>; \<open>int(text)\<close> refuses more than 4300 digits
  with a plain \<open>ValueError\<close>.
\<close>

definition scan_number :: "(string \<Rightarrow> pyfloat) \<Rightarrow> string \<Rightarrow> exn + pyval \<times> string" where
  "scan_number flt s =
     (let m = minus_part s; s1 = drop (length m) s; i = int_part s1; s2 = drop (length i) s1;
          f = frac_part s2; s3 = drop (length f) s2; e = exp_part s3; s4 = drop (length e) s3
      in if i = [] then Inl (JSONDecodeError ''Expecting value'')
         else if f \<noteq> [] \<or> e \<noteq> [] then Inr (VFloat (flt (m @ i @ f @ e)), s4)
         else if 4300 < length i then Inl (ValueError ''Exceeds the limit (4300 digits) for integer string conversion'')
         else Inr (VInt ((if m = [] then 1 else - 1) * int (digits_value i)), s2))"

section \<open>Values\<close>

text \<open>
  Two calls in a row look at a shorter text, so a fuel of twice its length is enough
  (\<open>json_fuel\<close>).
\<close>

definition json_ws :: "string \<Rightarrow> string" where
  "json_ws = dropWhile (\<lambda>c. c \<in> {CHR '' '', CHR 0x09, CHR 0x0A, CHR 0x0D})"

definition json_constant :: "string \<Rightarrow> (pyval \<times> nat) option" where
  "json_constant s =
     (if starts_with ''null'' s then Some (VNone, 4)
      else if starts_with ''true'' s then Some (VBool True, 4)
      else if starts_with ''false'' s then Some (VBool False, 5)
      else if starts_with ''NaN'' s then Some (VFloat PyNaN, 3)
      else if starts_with ''Infinity'' s then Some (VFloat PyInf, 8)
      else if starts_with ''-Infinity'' s then Some (VFloat PyNegInf, 9)
      else None)"

type_synonym pairs_hook = "(pyval \<times> pyval) list \<Rightarrow> exn + pyval"

record json_env =
  je_float :: "string \<Rightarrow> pyfloat"
  je_depth :: nat

abbreviation RecursionError :: exn where
  "RecursionError \<equiv> Exn ''RecursionError'' ''maximum recursion depth exceeded''"

abbreviation OutOfFuel :: exn where
  "OutOfFuel \<equiv> Exn ''OutOfFuel'' []"

text \<open>\<open>d\<close> is how many objects and arrays may still be entered; the scanner enters an empty one, too.\<close>

fun json_value :: "pairs_hook \<Rightarrow> json_env \<Rightarrow> nat \<Rightarrow> nat \<Rightarrow> string \<Rightarrow> exn + pyval \<times> string"
  and json_items :: "pairs_hook \<Rightarrow> json_env \<Rightarrow> nat \<Rightarrow> nat \<Rightarrow> string \<Rightarrow> exn + pyval list \<times> string"
  and json_members ::
    "pairs_hook \<Rightarrow> json_env \<Rightarrow> nat \<Rightarrow> nat \<Rightarrow> string \<Rightarrow> exn + (pyval \<times> pyval) list \<times> string"
where
  "json_value hook je d 0 s = Inl OutOfFuel"
| "json_value hook je d (Suc n) [] = Inl (JSONDecodeError ''Expecting value'')"
| "json_value hook je d (Suc n) (c # cs) =
     (if c = CHR 0x22 then seqE (scan_string cs) (\<lambda>(t, r). Inr (VStr t, r))
      else if (c = CHR ''{'' \<or> c = CHR ''['') \<and> d = 0 then Inl RecursionError
      else if c = CHR ''{'' then
        (if starts_with ''}'' (json_ws cs) then seqE (hook []) (\<lambda>v. Inr (v, tl (json_ws cs)))
         else seqE (json_members hook je (d - 1) n (json_ws cs)) (\<lambda>(kvs, r). seqE (hook kvs) (\<lambda>v. Inr (v, r))))
      else if c = CHR ''['' then
        (if starts_with '']'' (json_ws cs) then Inr (VList [], tl (json_ws cs))
         else seqE (json_items hook je (d - 1) n (json_ws cs)) (\<lambda>(vs, r). Inr (VList vs, r)))
      else case json_constant (c # cs) of
             Some (v, k) \<Rightarrow> Inr (v, drop k (c # cs))
           | None \<Rightarrow> scan_number (je_float je) (c # cs))"
| "json_items hook je d 0 s = Inl OutOfFuel"
| "json_items hook je d (Suc n) s =
     seqE (json_value hook je d n s) (\<lambda>(v, r).
       if starts_with '']'' (json_ws r) then Inr ([v], tl (json_ws r))
       else if starts_with '','' (json_ws r)
       then seqE (json_items hook je d n (json_ws (tl (json_ws r)))) (\<lambda>(vs, r2). Inr (v # vs, r2))
       else Inl (JSONDecodeError (''Expecting '' @ [CHR 0x27] @ '','' @ [CHR 0x27] @ '' delimiter'')))"
| "json_members hook je d 0 s = Inl OutOfFuel"
| "json_members hook je d (Suc n) s =
     (if \<not> starts_with [CHR 0x22] s then Inl (JSONDecodeError ''Expecting property name enclosed in double quotes'')
      else seqE (scan_string (tl s)) (\<lambda>(k, r).
        if \<not> starts_with '':'' (json_ws r) then Inl (JSONDecodeError (''Expecting '' @ [CHR 0x27] @ '':'' @ [CHR 0x27] @ '' delimiter''))
        else seqE (json_value hook je d n (json_ws (tl (json_ws r)))) (\<lambda>(v, r2).
          if starts_with ''}'' (json_ws r2) then Inr ([(VStr k, v)], tl (json_ws r2))
          else if starts_with '','' (json_ws r2)
          then seqE (json_members hook je d n (json_ws (tl (json_ws r2)))) (\<lambda>(kvs, r3). Inr ((VStr k, v) # kvs, r3))
          else Inl (JSONDecodeError (''Expecting '' @ [CHR 0x27] @ '','' @ [CHR 0x27] @ '' delimiter'')))))"

definition json_loads_hook :: "pairs_hook \<Rightarrow> json_env \<Rightarrow> string \<Rightarrow> exn + pyval" where
  "json_loads_hook hook je s =
     (if starts_with [CHR 0xEF, CHR 0xBB, CHR 0xBF] s then Inl (JSONDecodeError ''Unexpected UTF-8 BOM'')
      else seqE (json_value hook je (je_depth je) (2 * length s + 2) (json_ws s)) (\<lambda>(v, r).
        if json_ws r = [] then Inr v else Inl (JSONDecodeError ''Extra data'')))"

text \<open>Without a hook an object is a dictionary, in which a later value replaces an earlier one.\<close>

definition dict_set :: "(pyval \<times> pyval) list \<Rightarrow> pyval \<times> pyval \<Rightarrow> (pyval \<times> pyval) list" where
  "dict_set kvs kv =
     (if fst kv \<in> fst ` set kvs then map (\<lambda>(k, v). (k, if k = fst kv then snd kv else v)) kvs else kvs @ [kv])"

definition plain_hook :: pairs_hook where
  "plain_hook kvs = Inr (VDict (foldl dict_set [] kvs))"

definition json_loads :: "json_env \<Rightarrow> string \<Rightarrow> exn + pyval" where
  "json_loads = json_loads_hook plain_hook"

section \<open>The fuel is enough\<close>

lemma seqE_cong: "x = y \<Longrightarrow> (\<And>a. y = Inr a \<Longrightarrow> f a = g a) \<Longrightarrow> seqE x f = seqE y g"
  by (cases y) auto

lemma json_ws_shorter: "length (json_ws s) \<le> length s"
  by (simp add: json_ws_def length_dropWhile_le)

lemma scan_string_shorter: "scan_string s = Inr (t, r) \<Longrightarrow> length r < length s"
proof (induction s arbitrary: t r rule: scan_string.induct)
  case (2 c cs)
  then show ?case
    by (auto simp: seqE_Inr_iff split: if_splits option.splits dest!: unescape_shorter) fastforce+
qed simp

lemma scan_number_shorter:
  assumes "scan_number flt s = Inr (v, r)"
  shows "length r < length s"
proof -
  let ?i = "int_part (drop (length (minus_part s)) s)"
  let ?s2 = "drop (length ?i) (drop (length (minus_part s)) s)"
  have i: "?i \<noteq> []" and r: "\<exists>a b. r = drop a (drop b ?s2)"
    using assms unfolding scan_number_def Let_def
    by (auto split: if_splits simp del: drop_drop) (metis drop_drop drop0)+
  from i have "drop (length (minus_part s)) s \<noteq> []"
    by (auto simp: int_part_def digits_def)
  moreover obtain a b where "length r = length ?s2 - b - a" using r by (auto simp: algebra_simps)
  moreover have "1 \<le> length ?i" using i by (simp add: Suc_le_eq)
  ultimately show ?thesis by (simp add: not_le)
qed

lemma json_constant_pos: "json_constant s = Some (v, k) \<Longrightarrow> 0 < k"
  by (auto simp: json_constant_def split: if_splits)

lemma starts_with_one: "starts_with [c] s \<longleftrightarrow> (\<exists>t. s = c # t)"
  by (cases s) auto

lemma json_ws_Cons: "json_ws s = c # t \<Longrightarrow> length t < length s"
  using json_ws_shorter [of s] by simp

lemma json_shorter:
  "json_value hook je d n s = Inr (v, r) \<Longrightarrow> length r < length s"
  "json_items hook je d n s = Inr (vs, r) \<Longrightarrow> length r < length s"
  "json_members hook je d n s = Inr (kvs, r) \<Longrightarrow> length r < length s"
proof (induction hook je d n s and hook je d n s and hook je d n s arbitrary: v r and vs r and kvs r
    rule: json_value_json_items_json_members.induct)
  case (3 hook je d n c cs)
  have ws: "length (json_ws cs) \<le> length cs" by (rule json_ws_shorter)
  have tl: "length (tl (json_ws cs)) < length (c # cs)" using ws by simp
  have dz: "\<not> ((c = CHR ''{'' \<or> c = CHR ''['') \<and> d = 0)" using 3(3) by (auto split: if_splits)
  have members: "length r' < length (c # cs)" if "json_members hook je (d - 1) n (json_ws cs) = Inr (kvs, r')"
      "c = CHR ''{''" "\<not> starts_with ''}'' (json_ws cs)" for kvs r'
    using 3(1) [OF _ _ that(2,3,1)] that(2) dz ws by simp
  have items: "length r' < length (c # cs)" if "json_items hook je (d - 1) n (json_ws cs) = Inr (vs, r')"
      "c = CHR ''[''" "\<not> starts_with '']'' (json_ws cs)" for vs r'
    using 3(2) [OF _ _ _ that(2,3,1)] that(2) dz ws by simp
  show ?case
    using 3(3) members items tl scan_string_shorter [of cs] scan_number_shorter [of "je_float je" "c # cs"]
      json_constant_pos [of "c # cs"]
    by (fastforce simp: seqE_Inr_iff simp del: drop_Suc_Cons split: if_splits option.splits)
next
  case (5 hook je d n s)
  from 5(3) obtain v1 r1 where v: "json_value hook je d n s = Inr (v1, r1)" by (auto simp: seqE_Inr_iff)
  then have r1: "length r1 < length s" by (rule 5(1))
  have more: "length r2 < length s" if "json_items hook je d n (json_ws (tl (json_ws r1))) = Inr (ws, r2)"
      "\<not> starts_with '']'' (json_ws r1)" "starts_with '','' (json_ws r1)" for ws r2
    using 5(2) [OF that(2,3,1)] json_ws_shorter [of r1] json_ws_shorter [of "tl (json_ws r1)"] r1 by simp
  show ?case
    using 5(3) v more r1 json_ws_shorter [of r1] by (fastforce simp: seqE_Inr_iff split: if_splits)
next
  case (7 hook je d n s)
  from 7(3) obtain k r1 where k: "starts_with [CHR 0x22] s" "scan_string (tl s) = Inr (k, r1)"
    "starts_with '':'' (json_ws r1)" by (auto simp: seqE_Inr_iff split: if_splits)
  have r1: "length r1 < length s" using scan_string_shorter [OF k(2)] by simp
  from 7(3) k obtain v r2 where v: "json_value hook je d n (json_ws (tl (json_ws r1))) = Inr (v, r2)"
    by (auto simp: seqE_Inr_iff split: if_splits)
  have r2: "length r2 < length s"
    using 7(1) [OF _ _ v] k json_ws_shorter [of r1] json_ws_shorter [of "tl (json_ws r1)"] r1 by simp
  have more: "length r3 < length s" if "json_members hook je d n (json_ws (tl (json_ws r2))) = Inr (kvs', r3)"
      "\<not> starts_with ''}'' (json_ws r2)" "starts_with '','' (json_ws r2)" for kvs' r3
    using 7(2) [OF _ _ that(2,3,1), of r1] k json_ws_shorter [of r2] json_ws_shorter [of "tl (json_ws r2)"] r2
    by simp
  show ?case
    using 7(3) k v more r2 json_ws_shorter [of r2] by (fastforce simp: seqE_Inr_iff split: if_splits)
qed auto

text \<open>What is left is the end of the text.\<close>

lemma suffix_ws: "suffix (json_ws s) s" "suffix (tl (json_ws s)) s" "suffix (json_ws (tl (json_ws s))) s"
proof -
  have ws: "suffix (json_ws x) x" for x by (simp add: json_ws_def suffix_dropWhile)
  then show "suffix (json_ws s) s" "suffix (tl (json_ws s)) s" "suffix (json_ws (tl (json_ws s))) s"
    using suffix_tl [of "json_ws s"] by (blast intro: suffix_order.trans)+
qed

lemma hex4_rest: "hex4 s = Some (n, r) \<Longrightarrow> suffix r s"
  by (induction s rule: hex4.induct) (auto simp: suffix_Cons split: option.splits)

lemma unescape_rest: "unescape s = Some (u, r) \<Longrightarrow> suffix r s"
proof (cases s)
  case (Cons c cs)
  have hi: "suffix r cs" if "unicode_escape cs = Some (u, r)"
    using that by (auto simp: unicode_escape_def split: option.splits if_splits dest!: hex4_rest)
      (meson suffix_drop suffix_order.trans)
  assume "unescape s = Some (u, r)"
  with hi Cons show ?thesis by (auto simp del: plain_escape.simps simp: suffix_Cons split: if_splits)
qed simp

lemma scan_string_rest: "scan_string s = Inr (t, r) \<Longrightarrow> suffix r s"
proof (induction s arbitrary: t r rule: scan_string.induct)
  case (2 c cs)
  then show ?case
    by (auto simp: seqE_Inr_iff suffix_Cons split: if_splits option.splits dest!: unescape_rest)
      (meson suffix_order.trans)+
qed simp

lemma scan_number_rest: "scan_number flt s = Inr (v, r) \<Longrightarrow> suffix r s"
  by (auto simp: scan_number_def Let_def suffix_drop split: if_splits)

lemma json_rest:
  "json_value hook je d n s = Inr (v, r) \<Longrightarrow> suffix r s"
  "json_items hook je d n s = Inr (vs, r) \<Longrightarrow> suffix r s"
  "json_members hook je d n s = Inr (kvs, r) \<Longrightarrow> suffix r s"
proof (induction hook je d n s and hook je d n s and hook je d n s arbitrary: v r and vs r and kvs r
    rule: json_value_json_items_json_members.induct)
  case (3 hook je d n c cs)
  have dz: "\<not> ((c = CHR ''{'' \<or> c = CHR ''['') \<and> d = 0)" using 3(3) by (auto split: if_splits)
  have members: "suffix r' (c # cs)" if "json_members hook je (d - 1) n (json_ws cs) = Inr (kvs, r')"
      "c = CHR ''{''" "\<not> starts_with ''}'' (json_ws cs)" for kvs r'
    using 3(1) [OF _ _ that(2,3,1)] that(2) dz suffix_ws(1) [of cs] by (auto intro: suffix_ConsI suffix_order.trans)
  have items: "suffix r' (c # cs)" if "json_items hook je (d - 1) n (json_ws cs) = Inr (vs, r')"
      "c = CHR ''[''" "\<not> starts_with '']'' (json_ws cs)" for vs r'
    using 3(2) [OF _ _ _ that(2,3,1)] that(2) dz suffix_ws(1) [of cs] by (auto intro: suffix_ConsI suffix_order.trans)
  have str: "suffix r' (c # cs)" if "scan_string cs = Inr (t, r')" for t r'
    using scan_string_rest [OF that] by (rule suffix_ConsI)
  have num: "suffix r' (c # cs)" if "scan_number (je_float je) (c # cs) = Inr (x, r')" for x r'
    using scan_number_rest [OF that] .
  have const: "suffix (drop k (c # cs)) (c # cs)" for k by (rule suffix_drop)
  have tl: "suffix (tl (json_ws cs)) (c # cs)" using suffix_ws(2) by (rule suffix_ConsI)
  show ?case
    using 3(3) members items str num const tl
    by (auto simp: seqE_Inr_iff simp del: drop_Suc_Cons split: if_splits option.splits)
next
  case (5 hook je d n s)
  from 5(3) obtain v1 r1 where v: "json_value hook je d n s = Inr (v1, r1)" by (auto simp: seqE_Inr_iff)
  then have r1: "suffix r1 s" by (rule 5(1))
  have more: "suffix r2 s" if "json_items hook je d n (json_ws (tl (json_ws r1))) = Inr (ws, r2)"
      "\<not> starts_with '']'' (json_ws r1)" "starts_with '','' (json_ws r1)" for ws r2
    using 5(2) [OF that(2,3,1)] suffix_ws(3) [of r1] r1 by (blast intro: suffix_order.trans)
  have "suffix (tl (json_ws r1)) s" using suffix_ws(2) [of r1] r1 by (blast intro: suffix_order.trans)
  then show ?case using 5(3) v more by (auto simp: seqE_Inr_iff split: if_splits)
next
  case (7 hook je d n s)
  from 7(3) obtain k r1 where k: "starts_with [CHR 0x22] s" "scan_string (tl s) = Inr (k, r1)"
    "starts_with '':'' (json_ws r1)" by (auto simp: seqE_Inr_iff split: if_splits)
  have r1: "suffix r1 s" using scan_string_rest [OF k(2)] suffix_tl [of s] by (blast intro: suffix_order.trans)
  from 7(3) k obtain v r2 where v: "json_value hook je d n (json_ws (tl (json_ws r1))) = Inr (v, r2)"
    by (auto simp: seqE_Inr_iff split: if_splits)
  have r2: "suffix r2 s"
    using 7(1) [OF _ _ v] k suffix_ws(3) [of r1] r1 by (auto intro: suffix_order.trans)
  have more: "suffix r3 s" if "json_members hook je d n (json_ws (tl (json_ws r2))) = Inr (kvs', r3)"
      "\<not> starts_with ''}'' (json_ws r2)" "starts_with '','' (json_ws r2)" for kvs' r3
    using 7(2) [OF _ _ that(2,3,1), of r1] k suffix_ws(3) [of r2] r2 by (auto intro: suffix_order.trans)
  have "suffix (tl (json_ws r2)) s" using suffix_ws(2) [of r2] r2 by (blast intro: suffix_order.trans)
  then show ?case
    using 7(3) k v more by (auto simp: seqE_Inr_iff split: if_splits)
qed auto

lemma json_more_fuel:
  "2 * length s < n \<Longrightarrow> json_value hook je d (Suc n) s = json_value hook je d n s"
  "2 * length s + 1 < n \<Longrightarrow> json_items hook je d (Suc n) s = json_items hook je d n s"
  "2 * length s + 1 < n \<Longrightarrow> json_members hook je d (Suc n) s = json_members hook je d n s"
proof (induction hook je d n s and hook je d n s and hook je d n s rule: json_value_json_items_json_members.induct)
  case (3 hook je d n c cs)
  have ws: "length (json_ws cs) \<le> length cs" by (rule json_ws_shorter)
  then have "2 * length (json_ws cs) + 1 < n" using 3(3) by simp
  with 3(1,2) show ?case by (simp cong: if_cong)
next
  case (5 hook je d n s)
  have v: "json_value hook je d (Suc n) s = json_value hook je d n s" using 5(1,3) by simp
  have "json_items hook je d (Suc n) (json_ws (tl (json_ws r))) = json_items hook je d n (json_ws (tl (json_ws r)))"
    if r: "json_value hook je d n s = Inr (v, r)" "\<not> starts_with '']'' (json_ws r)" "starts_with '','' (json_ws r)" for v r
  proof (rule 5(2) [OF r(2,3)])
    show "2 * length (json_ws (tl (json_ws r))) + 1 < n"
      using 5(3) json_shorter(1) [OF r(1)] json_ws_shorter [of r] json_ws_shorter [of "tl (json_ws r)"] by simp
  qed
  then show ?case unfolding json_items.simps(2) [of _ _ _ n] json_items.simps(2) [of _ _ _ "Suc n"] v by (auto intro!: seqE_cong)
next
  case (7 hook je d n s)
  have v: "json_value hook je d (Suc n) (json_ws (tl (json_ws r1))) = json_value hook je d n (json_ws (tl (json_ws r1)))"
    if "starts_with [CHR 0x22] s" "scan_string (tl s) = Inr (k, r1)" "starts_with '':'' (json_ws r1)" for k r1
    using 7(1) [of r1] that 7(3) scan_string_shorter [OF that(2)]
      json_ws_shorter [of r1] json_ws_shorter [of "tl (json_ws r1)"] by simp
  have m: "json_members hook je d (Suc n) (json_ws (tl (json_ws r2))) = json_members hook je d n (json_ws (tl (json_ws r2)))"
    if "starts_with [CHR 0x22] s" "scan_string (tl s) = Inr (k, r1)" "starts_with '':'' (json_ws r1)"
      "json_value hook je d n (json_ws (tl (json_ws r1))) = Inr (v, r2)"
      "\<not> starts_with ''}'' (json_ws r2)" "starts_with '','' (json_ws r2)" for k r1 v r2
    using 7(2) [OF _ _ that(5,6)] that 7(3) scan_string_shorter [OF that(2)]
      json_shorter(1) [OF that(4)] json_ws_shorter [of r1] json_ws_shorter [of "tl (json_ws r1)"]
      json_ws_shorter [of r2] json_ws_shorter [of "tl (json_ws r2)"] by simp
  show ?case
    unfolding json_members.simps(2) [of _ _ _ n] json_members.simps(2) [of _ _ _ "Suc n"]
    using v m by (auto intro!: seqE_cong)
qed auto

lemma json_fuel: "2 * length s < n \<Longrightarrow> n \<le> m \<Longrightarrow> json_value hook je d m s = json_value hook je d n s"
proof (induction m)
  case (Suc m)
  then show ?case using json_more_fuel(1) [of s m] by (cases "n \<le> m") (auto simp: le_Suc_eq)
qed simp

section \<open>Reading back what is written\<close>

text \<open>
  What the reader returns for the text of a value: tuples and enum members are read as lists and
  strings, and an object has its keys in the order in which they were written.
\<close>

fun json_read :: "pyval \<Rightarrow> pyval" where
  "json_read (VEnum c s) = VStr s"
| "json_read (VList vs) = VList (map json_read vs)"
| "json_read (VTuple vs) = VList (map json_read vs)"
| "json_read (VDict kvs) = VDict (map (\<lambda>(k, v). (VStr (key_text k), json_read v)) (sort_key (key_text \<circ> fst) kvs))"
| "json_read v = v"

text \<open>
  A text of the number grammar that is no integer, as \<open>repr\<close> writes a finite float; and how deep a value
  is nested.
\<close>

definition float_text :: "string \<Rightarrow> bool" where
  "float_text t =
     (let s1 = drop (length (minus_part t)) t; i = int_part s1; s2 = drop (length i) s1;
          f = frac_part s2; s3 = drop (length f) s2; e = exp_part s3
      in i \<noteq> [] \<and> (f \<noteq> [] \<or> e \<noteq> []) \<and> minus_part t @ i @ f @ e = t)"

fun nested_within :: "nat \<Rightarrow> pyval \<Rightarrow> bool" where
  "nested_within d (VList vs) = (d \<noteq> 0 \<and> (\<forall>v \<in> set vs. nested_within (d - 1) v))"
| "nested_within d (VTuple vs) = (d \<noteq> 0 \<and> (\<forall>v \<in> set vs. nested_within (d - 1) v))"
| "nested_within d (VDict kvs) = (d \<noteq> 0 \<and> (\<forall>kv \<in> set kvs. nested_within (d - 1) (snd kv)))"
| "nested_within d v = True"

text \<open>
  Values without objects, of finite floats that \<open>float\<close> takes back from their text and of integers that
  the reader accepts.
\<close>

definition float_read :: "json_env \<Rightarrow> pyfloat \<Rightarrow> bool" where
  "float_read je f = (case f of PyFinite t \<Rightarrow> float_text t \<and> je_float je t = f | _ \<Rightarrow> False)"

fun json_plain :: "json_env \<Rightarrow> pyval \<Rightarrow> bool" where
  "json_plain je (VFloat f) = float_read je f"
| "json_plain je (VObj c fs) = False"
| "json_plain je (VInt i) = (length (show_nat (nat \<bar>i\<bar>)) \<le> 4300)"
| "json_plain je (VList vs) = (\<forall>v \<in> set vs. json_plain je v)"
| "json_plain je (VTuple vs) = (\<forall>v \<in> set vs. json_plain je v)"
| "json_plain je (VDict kvs) = (distinct (map (key_text \<circ> fst) kvs) \<and> (\<forall>kv \<in> set kvs. json_plain je (snd kv)))"
| "json_plain je v = True"

lemma hex_value_digit: "n < 16 \<Longrightarrow> hex_value (hex_digit n) = Some n"
  by (auto simp: hex_digit_def hex_value_def ascii_digit_def between_def)

lemma scan_hex_escape:
  assumes "code_point c < 32"
  shows "scan_string (CHR 0x5C # ''u00'' @ hex_digit (code_point c div 16) # hex_digit (code_point c mod 16) # s)
    = seqE (scan_string s) (\<lambda>(t, r). Inr (c # t, r))"
proof -
  have zero: "hex_value (CHR ''0'') = Some 0" by (simp add: hex_value_def ascii_digit_def between_def)
  have "hex4 (''00'' @ hex_digit (code_point c div 16) # hex_digit (code_point c mod 16) # s) = Some (code_point c, s)"
    using assms by (simp add: hex_value_digit zero)
  then have "unescape (''u00'' @ hex_digit (code_point c div 16) # hex_digit (code_point c mod 16) # s) = Some ([c], s)"
    using assms by (simp add: unicode_escape_def utf8_def)
  then show ?thesis by simp
qed

lemma scan_escaped: "scan_string (json_escape c @ s) = seqE (scan_string s) (\<lambda>(t, r). Inr (c # t, r))"
  unfolding json_escape_def using scan_hex_escape [of c s] by (simp split: sum.split)

lemma scan_json_string: "scan_string (concat (map json_escape s) @ CHR 0x22 # r) = Inr (s, r)"
  by (induction s) (simp_all add: scan_escaped)

lemma show_nat_digits: "list_all ascii_digit (show_nat n)"
proof (induction n rule: show_nat.induct)
  case (1 n)
  have "ascii_digit (char_of (48 + k))" if "k < 10" for k :: nat using that by (simp add: ascii_digit_def between_def)
  with 1 show ?case by (subst show_nat.simps) auto
qed

lemma digits_value_snoc: "digits_value (s @ [c]) = 10 * digits_value s + (code_point c - 48)"
  by (simp add: digits_value_def)

lemma digits_value_show: "digits_value (show_nat n) = n"
proof (induction n rule: show_nat.induct)
  case (1 n)
  have one: "digits_value [char_of (48 + k)] = k" if "k < 10" for k :: nat using that by (simp add: digits_value_def)
  show ?case using 1 one by (subst show_nat.simps) (auto simp: digits_value_snoc)
qed

lemma char_zero: "char_of (48 :: nat) = CHR ''0''"
  by code_simp

lemma show_nat_first: "starts_with ''0'' (show_nat n @ r) \<longleftrightarrow> n = 0"
proof (induction n arbitrary: r rule: show_nat.induct)
  case (1 n)
  have "CHR ''0'' = char_of (48 + k) \<longleftrightarrow> k = 0" if "k < 10" for k :: nat
  proof
    assume "CHR ''0'' = char_of (48 + k)"
    then have "code_point (CHR ''0'') = code_point (char_of (48 + k))" by (rule arg_cong)
    then show "k = 0" using that by simp
  qed (simp add: char_zero)
  then show ?case using 1 by (subst show_nat.simps) auto
qed

definition number_ends :: "string \<Rightarrow> bool" where
  "number_ends r \<longleftrightarrow> (r = [] \<or> hd r \<in> set '',]}'')"

lemma digits_of: "list_all ascii_digit ds \<Longrightarrow> number_ends r \<Longrightarrow> digits (ds @ r) = ds"
  by (induction ds) (auto simp: digits_def number_ends_def takeWhile_eq_Nil_iff ascii_digit_def between_def neq_Nil_conv)

lemma scan_number_int:
  assumes "number_ends r" and "length (show_nat (nat \<bar>i\<bar>)) \<le> 4300"
  shows "scan_number flt (show_int i @ r) = Inr (VInt i, r)"
proof -
  let ?n = "nat \<bar>i\<bar>"
  have int: "int_part (show_nat ?n @ r) = show_nat ?n"
  proof (cases "?n = 0")
    case True
    then show ?thesis by (simp add: int_part_def show_nat.simps char_zero)
  next
    case False
    then show ?thesis using digits_of [OF show_nat_digits assms(1)] by (simp add: int_part_def show_nat_first)
  qed
  have ends: "frac_part r = []" "exp_part r = []"
    using assms(1) by (cases r; auto simp: frac_part_def exp_part_def number_ends_def)+
  obtain c t where c: "show_nat ?n = c # t" by (cases "show_nat ?n") auto
  then have "ascii_digit c" using show_nat_digits [of ?n] by simp
  then have "c \<noteq> CHR ''-''" by (auto simp: ascii_digit_def between_def)
  then have "minus_part (show_int i @ r) = (if i < 0 then ''-'' else [])"
    and s: "show_int i @ r = (if i < 0 then ''-'' else []) @ show_nat ?n @ r"
    using c by (cases "i < 0"; simp add: minus_part_def show_int_def)+
  then show ?thesis
    using int ends assms(2) digits_value_show [of ?n] by (simp add: scan_number_def Let_def c)
qed

text \<open>The same for a float: what follows the number does not change its parts.\<close>

lemma digits_stop: "number_ends r \<Longrightarrow> digits (s @ r) = digits s"
  by (induction s) (cases r; auto simp: digits_def number_ends_def ascii_digit_def between_def)+

lemma starts_append: "s \<noteq> [] \<Longrightarrow> starts_with [c] (s @ r) \<longleftrightarrow> starts_with [c] s"
  by (cases s) auto

lemma ends_start: "number_ends r \<Longrightarrow> c \<notin> set '',]}'' \<Longrightarrow> starts_with [c] (s @ r) \<longleftrightarrow> starts_with [c] s"
  by (cases s; cases r) (auto simp: number_ends_def)

lemma frac_stop: "number_ends r \<Longrightarrow> frac_part (s @ r) = frac_part s"
  by (cases s) (auto simp: frac_part_def ends_start [of r _ "[]", simplified] digits_stop)

lemma exp_stop:
  assumes "number_ends r"
  shows "exp_part (s @ r) = exp_part s"
proof (cases s)
  case Nil
  then show ?thesis using ends_start [OF assms, of _ "[]"] by (simp add: exp_part_def)
next
  case (Cons x q)
  have sign: "starts_with [c] (q @ r) \<longleftrightarrow> starts_with [c] q" if "c \<in> set ''+-''" for c
    using ends_start [OF assms, of c q] that by auto
  show ?thesis
  proof (cases "starts_with ''-'' q \<or> starts_with ''+'' q")
    case True
    then obtain y z where "q = y # z" by (cases q) auto
    with True Cons show ?thesis by (auto simp: exp_part_def Let_def digits_stop [OF assms])
  next
    case False
    with sign Cons show ?thesis by (simp add: exp_part_def Let_def digits_stop [OF assms])
  qed
qed

lemma int_stop: "number_ends r \<Longrightarrow> s \<noteq> [] \<Longrightarrow> int_part (s @ r) = int_part s"
  by (simp add: int_part_def starts_append digits_stop)

lemma scan_number_float:
  assumes "number_ends r" "float_text t"
  shows "scan_number flt (t @ r) = Inr (VFloat (flt t), r)"
proof -
  define m where "m = minus_part t"
  define s1 where "s1 = drop (length m) t"
  define i where "i = int_part s1"
  define s2 where "s2 = drop (length i) s1"
  define f where "f = frac_part s2"
  define s3 where "s3 = drop (length f) s2"
  define e where "e = exp_part s3"
  note defs = m_def s1_def i_def s2_def f_def s3_def e_def
  have t: "i \<noteq> []" "f \<noteq> [] \<or> e \<noteq> []" "t = m @ i @ f @ e" using assms(2) unfolding float_text_def Let_def defs by (blast, blast, metis)
  then have s: "s1 = i @ f @ e" "s2 = f @ e" "s3 = e" by (simp_all add: s1_def s2_def s3_def)
  have ne: "t \<noteq> []" using t(1) by (subst t(3)) simp
  have T: "t @ r = m @ i @ f @ e @ r" by (subst t(3)) simp
  have "minus_part (t @ r) = m" unfolding m_def minus_part_def by (simp only: starts_append [OF ne])
  then have "minus_part (m @ i @ f @ e @ r) = m" by (simp only: T)
  moreover have "int_part (s1 @ r) = i"
    unfolding i_def by (rule int_stop [OF assms(1)]) (use s(1) t(1) in fast)
  then have "int_part (i @ f @ e @ r) = i" by (simp only: s(1) append_assoc)
  moreover have "frac_part (s2 @ r) = f" unfolding f_def by (rule frac_stop [OF assms(1)])
  then have "frac_part (f @ e @ r) = f" by (simp only: s(2) append_assoc)
  moreover have "exp_part (s3 @ r) = e" unfolding e_def by (rule exp_stop [OF assms(1)])
  then have "exp_part (e @ r) = e" by (simp only: s(3))
  ultimately have "scan_number flt (m @ i @ f @ e @ r) = Inr (VFloat (flt (m @ i @ f @ e)), r)"
    using t(1,2) by (auto simp: scan_number_def Let_def)
  then show ?thesis by (simp only: T t(3) [symmetric])
qed

lemma int_part_start: "int_part s \<noteq> [] \<Longrightarrow> \<exists>c u. s = c # u \<and> ascii_digit c"
  by (cases s) (auto simp: int_part_def digits_def ascii_digit_def between_def split: if_splits)

lemma float_start:
  assumes "float_text t"
  obtains c u where "t = c # u" "ascii_digit c" | c u where "t = CHR ''-'' # c # u" "ascii_digit c"
proof -
  from assms have "int_part (drop (length (minus_part t)) t) \<noteq> []" by (simp add: float_text_def Let_def)
  then obtain c u where c: "drop (length (minus_part t)) t = c # u" "ascii_digit c" using int_part_start by blast
  then show thesis using that by (cases t) (auto simp: minus_part_def split: if_splits)
qed

lemma insort_key_map: "map f (insort_key (\<lambda>a. g (f a)) x xs) = insort_key g (f x) (map f xs)"
  by (induction xs) auto

lemma sort_key_map: "sort_key g (map f xs) = map f (sort_key (g \<circ> f) xs)"
  by (induction xs) (simp_all add: insort_key_map)

text \<open>What the text of a value starts with.\<close>

definition value_start :: "string \<Rightarrow> bool" where
  "value_start s \<longleftrightarrow> (\<exists>c t. s = c # t \<and> c \<notin> {CHR '' '', CHR 0x09, CHR 0x0A, CHR 0x0D, CHR '']'', CHR ''}''})"

lemma json_ws_start: "value_start s \<Longrightarrow> json_ws (s @ r) = s @ r"
  by (auto simp: value_start_def json_ws_def)

lemma json_ws_stop [simp]: "c \<in> set '':,]}'' \<Longrightarrow> json_ws (c # s) = c # s"
  by (auto simp: json_ws_def)

lemma json_ws_Nil [simp]: "json_ws [] = []"
  by (simp add: json_ws_def)

lemma not_closed: "value_start s \<Longrightarrow> \<not> starts_with '']'' (s @ r) \<and> \<not> starts_with ''}'' (s @ r)"
  by (auto simp: value_start_def)

lemma join_start: "value_start x \<Longrightarrow> value_start (join sep (x # xs))"
  by (cases xs) (auto simp: value_start_def)

lemma dumps_start: "json_plain je v \<Longrightarrow> value_start (json_dumps v)"
proof (cases v)
  case (VInt i)
  obtain c t where c: "show_nat (nat \<bar>i\<bar>) = c # t" by (cases "show_nat (nat \<bar>i\<bar>)") auto
  then have "ascii_digit c" using show_nat_digits [of "nat \<bar>i\<bar>"] by simp
  then show ?thesis using VInt c by (auto simp: value_start_def show_int_def ascii_digit_def between_def)
next
  case (VFloat f)
  assume "json_plain je v"
  then obtain t where t: "f = PyFinite t" "float_text t" using VFloat by (auto simp: float_read_def split: pyfloat.splits)
  from float_start [OF t(2)] show ?thesis
    using VFloat t(1) by cases (auto simp: value_start_def ascii_digit_def between_def)
qed (auto simp: value_start_def json_string_def)

lemma digit_start:
  assumes "ascii_digit c"
  shows "\<forall>x \<in> set (CHR 0x22 # ''ntfNI-{[''). c \<noteq> x \<and> x \<noteq> c"
  using assms by (auto simp: ascii_digit_def between_def)

lemma int_value:
  assumes "number_ends r" "json_plain je (VInt i)"
  shows "json_value hook je d (Suc n) (show_int i @ r) = Inr (VInt i, r)"
proof -
  obtain c t where c: "show_nat (nat \<bar>i\<bar>) = c # t" by (cases "show_nat (nat \<bar>i\<bar>)") auto
  then have "ascii_digit c" using show_nat_digits [of "nat \<bar>i\<bar>"] by simp
  note d = digit_start [OF this]
  have k: "json_constant (show_int i @ r) = None"
    using c d by (cases "i < 0") (simp_all add: json_constant_def show_int_def)
  obtain e u where e: "show_int i @ r = e # u" "e \<noteq> CHR 0x22" "e \<noteq> CHR ''{''" "e \<noteq> CHR ''[''"
    using c d by (cases "i < 0") (simp_all add: show_int_def)
  have "scan_number (je_float je) (e # u) = Inr (VInt i, r)"
    using scan_number_int [OF assms(1), of i "je_float je"] assms(2) e(1) by simp
  then show ?thesis using e(2-4) k unfolding e(1) by simp
qed

lemma float_value:
  assumes "number_ends r" "json_plain je (VFloat f)"
  shows "json_value hook je d (Suc n) (show_float f @ r) = Inr (VFloat f, r)"
proof -
  from assms(2) obtain t where t: "f = PyFinite t" "float_text t" "je_float je t = f"
    by (auto simp: float_read_def split: pyfloat.splits)
  have k: "json_constant (t @ r) = None"
    using float_start [OF t(2)] by cases (use digit_start in \<open>auto simp: json_constant_def\<close>)
  obtain e u where e: "t @ r = e # u" "e \<noteq> CHR 0x22" "e \<noteq> CHR ''{''" "e \<noteq> CHR ''[''"
    using float_start [OF t(2)] by cases (use digit_start in auto)
  show ?thesis using scan_number_float [OF assms(1) t(2), of "je_float je"] k e(2-4) t(1,3) unfolding t(1) by (simp add: e(1))
qed

lemma items_read:
  assumes "vs \<noteq> []" and "2 * length (join '','' (map json_dumps vs)) + 2 < n"
    and "\<And>v n r. v \<in> set vs \<Longrightarrow> number_ends r \<Longrightarrow> 2 * length (json_dumps v) + 1 < n \<Longrightarrow>
      json_value hook je d n (json_dumps v @ r) = Inr (g v, r)"
    and "\<forall>v \<in> set vs. json_plain je v"
  shows "json_items hook je d n (join '','' (map json_dumps vs) @ '']'' @ r) = Inr (map g vs, r)"
  using assms
proof (induction vs arbitrary: n rule: induct_list012)
  case (2 v)
  then obtain m where n: "n = Suc m" by (cases n) auto
  have "json_value hook je d m (json_dumps v @ CHR '']'' # r) = Inr (g v, CHR '']'' # r)"
    using 2 n by (intro 2(3)) (auto simp: number_ends_def)
  then show ?case by (simp add: n)
next
  case (3 v w vs)
  then obtain m where n: "n = Suc m" by (cases n) auto
  let ?rest = "join '','' (map json_dumps (w # vs)) @ '']'' @ r"
  have "json_value hook je d m (json_dumps v @ CHR '','' # ?rest) = Inr (g v, CHR '','' # ?rest)"
    using 3(4) n by (intro 3(5)) (auto simp: number_ends_def)
  moreover have "json_items hook je d m ?rest = Inr (map g (w # vs), r)"
    using 3(4-6) n by (intro 3(2)) auto
  moreover have "json_ws ?rest = ?rest"
    using json_ws_start [OF dumps_start [of je w]] 3(6) by (cases vs) simp_all
  ultimately show ?case by (simp add: n)
qed simp

text \<open>The text of a member of an object.\<close>

abbreviation member_text :: "pyval \<times> pyval \<Rightarrow> string" where
  "member_text kv \<equiv> json_string (key_text (fst kv)) @ CHR '':'' # json_dumps (snd kv)"

lemma members_read:
  assumes "kvs \<noteq> []" and "2 * length (join '','' (map member_text kvs)) + 2 < n"
    and "\<And>kv n r. kv \<in> set kvs \<Longrightarrow> number_ends r \<Longrightarrow> 2 * length (json_dumps (snd kv)) + 1 < n \<Longrightarrow>
      json_value hook je d n (json_dumps (snd kv) @ r) = Inr (g (snd kv), r)"
    and "\<forall>kv \<in> set kvs. json_plain je (snd kv)"
  shows "json_members hook je d n (join '','' (map member_text kvs) @ ''}'' @ r)
    = Inr (map (\<lambda>(k, v). (VStr (key_text k), g v)) kvs, r)"
  using assms
proof (induction kvs arbitrary: n rule: induct_list012)
  case (2 kv)
  then obtain m where n: "n = Suc m" by (cases n) auto
  have "json_value hook je d m (json_dumps (snd kv) @ CHR ''}'' # r) = Inr (g (snd kv), CHR ''}'' # r)"
    using 2 n by (intro 2(3)) (auto simp: number_ends_def)
  then show ?case
    using 2(4) json_ws_start [OF dumps_start [of je "snd kv"]]
    by (simp add: n json_string_def scan_json_string
        case_prod_beta)
next
  case (3 kv lv kvs)
  then obtain m where n: "n = Suc m" by (cases n) auto
  let ?rest = "join '','' (map member_text (lv # kvs)) @ ''}'' @ r"
  have "json_value hook je d m (json_dumps (snd kv) @ CHR '','' # ?rest) = Inr (g (snd kv), CHR '','' # ?rest)"
    using 3(4) n by (intro 3(5)) (auto simp: number_ends_def)
  moreover have "json_members hook je d m ?rest = Inr (map (\<lambda>(k, v). (VStr (key_text k), g v)) (lv # kvs), r)"
    using 3(4-6) n by (intro 3(2)) auto
  moreover have "json_ws ?rest = ?rest"
    by (cases kvs) (simp_all add: json_string_def json_ws_def)
  ultimately show ?case
    using 3(6) json_ws_start [OF dumps_start [of je "snd kv"]]
    by (simp add: n json_string_def scan_json_string
        case_prod_beta)
qed simp

lemma plain_hook_distinct:
  assumes "distinct (map fst kvs)"
  shows "plain_hook kvs = Inr (VDict kvs)"
proof -
  have "foldl dict_set acc kvs = acc @ kvs" if "distinct (map fst (acc @ kvs))" for acc
    using that
  proof (induction kvs arbitrary: acc)
    case (Cons kv kvs)
    then have "dict_set acc kv = acc @ [kv]" by (auto simp: dict_set_def)
    then show ?case using Cons by simp
  qed simp
  from this [of "[]"] show ?thesis using assms by (simp add: plain_hook_def)
qed

lemma list_read:
  assumes "d \<noteq> 0" and "2 * length (''['' @ join '','' (map json_dumps vs) @ '']'') + 1 < n"
    and "\<And>v n r. v \<in> set vs \<Longrightarrow> number_ends r \<Longrightarrow> 2 * length (json_dumps v) + 1 < n \<Longrightarrow>
      json_value hook je (d - 1) n (json_dumps v @ r) = Inr (g v, r)"
    and "\<forall>v \<in> set vs. json_plain je v"
  shows "json_value hook je d n (''['' @ join '','' (map json_dumps vs) @ '']'' @ r) = Inr (VList (map g vs), r)"
proof -
  obtain m where n: "n = Suc m" using assms(2) by (cases n) auto
  show ?thesis
  proof (cases vs)
    case (Cons v ws)
    have start: "value_start (join '','' (map json_dumps vs))"
      using assms(4) by (simp add: Cons join_start dumps_start [of je])
    have "json_items hook je (d - 1) m (join '','' (map json_dumps vs) @ '']'' @ r) = Inr (map g vs, r)"
      using assms n Cons by (intro items_read) auto
    then show ?thesis
      using json_ws_start [OF start] not_closed [OF start] assms(1) by (simp add: n)
  qed (use assms(1) in \<open>simp add: n\<close>)
qed

lemma object_read:
  assumes "d \<noteq> 0" and "2 * length (''{'' @ join '','' (map member_text kvs) @ ''}'') + 1 < n"
    and "\<And>kv n r. kv \<in> set kvs \<Longrightarrow> number_ends r \<Longrightarrow> 2 * length (json_dumps (snd kv)) + 1 < n \<Longrightarrow>
      json_value plain_hook je (d - 1) n (json_dumps (snd kv) @ r) = Inr (g (snd kv), r)"
    and "\<forall>kv \<in> set kvs. json_plain je (snd kv)" and "distinct (map (key_text \<circ> fst) kvs)"
  shows "json_value plain_hook je d n (''{'' @ join '','' (map member_text kvs) @ ''}'' @ r)
    = Inr (VDict (map (\<lambda>(k, v). (VStr (key_text k), g v)) kvs), r)"
proof -
  obtain m where n: "n = Suc m" using assms(2) by (cases n) auto
  have "map fst (map (\<lambda>(k, v). (VStr (key_text k), g v)) kvs) = map VStr (map (key_text \<circ> fst) kvs)"
    by (simp add: case_prod_beta)
  then have hook: "plain_hook (map (\<lambda>(k, v). (VStr (key_text k), g v)) kvs)
      = Inr (VDict (map (\<lambda>(k, v). (VStr (key_text k), g v)) kvs))"
    using assms(5) by (intro plain_hook_distinct) (simp only: distinct_map inj_on_def pyval.inject, simp)
  show ?thesis
  proof (cases kvs)
    case (Cons kv lvs)
    have start: "value_start (join '','' (map member_text kvs))"
      by (simp add: Cons) (rule join_start, simp add: value_start_def json_string_def)
    have "json_members plain_hook je (d - 1) m (join '','' (map member_text kvs) @ ''}'' @ r)
        = Inr (map (\<lambda>(k, v). (VStr (key_text k), g v)) kvs, r)"
      using assms n Cons by (intro members_read) auto
    then show ?thesis
      using json_ws_start [OF start] not_closed [OF start] hook assms(1) by (simp add: n)
  qed (use hook assms(1) in \<open>simp add: n\<close>)
qed

lemma json_value_read:
  assumes "json_plain je v" and "nested_within d v" and "number_ends r" and "2 * length (json_dumps v) + 1 < n"
  shows "json_value plain_hook je d n (json_dumps v @ r) = Inr (json_read v, r)"
  using assms
proof (induction v arbitrary: d n r rule: json_plain.induct)
  case (1 je f)
  then obtain m where "n = Suc m" by (cases n) auto
  with 1 float_value [of r je f plain_hook d m] show ?case by simp
next
  case (3 je i)
  then obtain m where "n = Suc m" by (cases n) auto
  with 3 int_value [of r je i plain_hook d m] show ?case by simp
next
  case (4 je vs)
  then show ?case using list_read [of d vs n plain_hook je json_read r] by simp
next
  case (5 je vs)
  then show ?case using list_read [of d vs n plain_hook je json_read r] by simp
next
  case (6 je kvs)
  let ?s = "sort_key (key_text \<circ> fst) kvs"
  have dumps: "json_dumps (VDict kvs) = ''{'' @ join '','' (map member_text ?s) @ ''}''"
    by (simp add: sort_key_map comp_def case_prod_beta)
  have "json_value plain_hook je d n (''{'' @ join '','' (map member_text ?s) @ ''}'' @ r)
      = Inr (VDict (map (\<lambda>(k, v). (VStr (key_text k), json_read v)) ?s), r)"
  proof (rule object_read)
    show "2 * length (''{'' @ join '','' (map member_text ?s) @ ''}'') + 1 < n" using 6(5) by (simp only: dumps)
    have "mset (map (key_text \<circ> fst) ?s) = mset (map (key_text \<circ> fst) kvs)" by simp
    then show "distinct (map (key_text \<circ> fst) ?s)" using 6(2) mset_eq_imp_distinct_iff by fastforce
  qed (use 6 in \<open>auto\<close>)
  then show ?case unfolding dumps by simp
next
  case "7_1"
  then show ?case by (cases n) (auto simp: json_constant_def)
next
  case "7_2"
  then show ?case by (cases n) (auto simp: json_constant_def)
next
  case "7_3"
  then show ?case by (cases n) (auto simp: json_string_def scan_json_string)
next
  case "7_4"
  then show ?case by (cases n) (auto simp: json_string_def scan_json_string)
qed auto

lemma json_loads_dumps:
  assumes "json_plain je v" and "nested_within (je_depth je) v"
  shows "json_loads je (json_dumps v) = Inr (json_read v)"
proof -
  have start: "value_start (json_dumps v)" by (rule dumps_start [OF assms(1)])
  have "\<not> starts_with [CHR 0xEF, CHR 0xBB, CHR 0xBF] (json_dumps v)"
  proof (cases v)
    case (VInt i)
    obtain c t where c: "show_nat (nat \<bar>i\<bar>) = c # t" by (cases "show_nat (nat \<bar>i\<bar>)") auto
    then have "c \<noteq> CHR 0xEF" using show_nat_digits [of "nat \<bar>i\<bar>"] by (auto simp: ascii_digit_def between_def)
    then show ?thesis using VInt c by (auto simp: show_int_def)
  next
    case (VFloat f)
    then obtain t where t: "f = PyFinite t" "float_text t"
      using assms(1) by (auto simp: float_read_def split: pyfloat.splits)
    from float_start [OF t(2)] show ?thesis
      using VFloat t(1) by cases (auto simp: ascii_digit_def between_def)
  qed (use assms(1) in \<open>auto simp: json_string_def\<close>)
  moreover have "json_value plain_hook je (je_depth je) (2 * length (json_dumps v) + 2) (json_dumps v @ []) = Inr (json_read v, [])"
    using assms by (intro json_value_read) (simp_all add: number_ends_def)
  moreover have "json_ws (json_dumps v) = json_dumps v" using json_ws_start [OF start, of "[]"] by simp
  ultimately show ?thesis by (simp add: json_loads_def json_loads_hook_def)
qed

lemma sort_key_sorted: "sorted (map f xs) \<Longrightarrow> sort_key f xs = xs"
  by (induction xs) (simp_all add: insort_is_Cons)

lemma json_dumps_read: "json_plain je v \<Longrightarrow> json_dumps (json_read v) = json_dumps v"
proof (induction v rule: json_plain.induct)
  case (6 je kvs)
  let ?s = "sort_key (key_text \<circ> fst) kvs"
  have "map (\<lambda>(k, v). (key_text k, json_dumps v)) (map (\<lambda>(k, v). (VStr (key_text k), json_read v)) ?s)
      = map (\<lambda>(k, v). (key_text k, json_dumps v)) ?s"
    using 6 by auto
  moreover have "sort_key (key_text \<circ> fst) ?s = ?s" by (intro sort_key_sorted) (metis sorted_sort_key map_map)
  ultimately show ?case by (simp only: json_read.simps json_dumps.simps sort_key_map) (simp add: sort_key_map comp_def case_prod_beta)
qed (simp_all cong: map_cong)

text \<open>Values whose floats are given by a text that \<open>float\<close> takes back, as \<open>repr\<close> promises of its result.\<close>

fun floats_exact :: "json_env \<Rightarrow> pyval \<Rightarrow> bool" where
  "floats_exact je (VFloat f) = (case f of PyFinite t \<Rightarrow> float_read je f | _ \<Rightarrow> True)"
| "floats_exact je (VList vs) = (\<forall>v \<in> set vs. floats_exact je v)"
| "floats_exact je (VTuple vs) = (\<forall>v \<in> set vs. floats_exact je v)"
| "floats_exact je (VDict kvs) = (\<forall>kv \<in> set kvs. floats_exact je (snd kv))"
| "floats_exact je v = True"

lemma canonical_plain:
  "canonicalize nfc v = Inr w \<Longrightarrow> floats_exact je v \<Longrightarrow> json_ints w \<Longrightarrow> json_plain je w"
  "canonicalize_list nfc vs = Inr ws \<Longrightarrow> \<forall>v \<in> set vs. floats_exact je v \<Longrightarrow> \<forall>w \<in> set ws. json_ints w \<Longrightarrow>
    \<forall>w \<in> set ws. json_plain je w"
  "canonicalize_items nfc seen kvs = Inr kws \<Longrightarrow> \<forall>kv \<in> set kvs. floats_exact je (snd kv) \<Longrightarrow> json_ints (VDict kws) \<Longrightarrow>
    json_plain je (VDict kws) \<and> (\<forall>kw \<in> set kws. key_text (fst kw) \<notin> set seen)"
proof (induction nfc v and nfc vs and nfc seen kvs arbitrary: w and ws and kws
    rule: canonicalize_canonicalize_list_canonicalize_items.induct)
  case (15 nfc seen k v kvs)
  from 15(3) obtain s x xs where k: "k = VStr s" "nfc s \<notin> set seen" "canonicalize nfc v = Inr x"
    "canonicalize_items nfc (nfc s # seen) kvs = Inr xs" "kws = (VStr (nfc s), x) # xs"
    by (auto simp: seqE_Inr_iff split: pyval.splits if_splits)
  have "json_plain je x" using 15(1) [OF k(1,2,3)] 15(4,5) k(5) by simp
  moreover have "json_plain je (VDict xs) \<and> (\<forall>kw \<in> set xs. key_text (fst kw) \<notin> set (nfc s # seen))"
    using 15(2) [OF k(1,2) k(4)] 15(4,5) k(5) by simp
  ultimately show ?case using k(2) by (auto simp: k(5))
qed (auto simp: result_simps)

text \<open>Canonicalising keeps the nesting.\<close>

lemma canonical_nested:
  "canonicalize nfc v = Inr w \<Longrightarrow> nested_within d w = nested_within d v"
  "canonicalize_list nfc vs = Inr ws \<Longrightarrow> (\<forall>w \<in> set ws. nested_within d w) = (\<forall>v \<in> set vs. nested_within d v)"
  "canonicalize_items nfc seen kvs = Inr kws \<Longrightarrow>
     (\<forall>kw \<in> set kws. nested_within d (snd kw)) = (\<forall>kv \<in> set kvs. nested_within d (snd kv))"
proof (induction nfc v and nfc vs and nfc seen kvs arbitrary: d w and d ws and d kws
    rule: canonicalize_canonicalize_list_canonicalize_items.induct)
  case (10 nfc kvs)
  then obtain kws where k: "canonicalize_items nfc [] kvs = Inr kws" "w = VDict kws" by (auto simp: result_simps)
  show ?case using 10(1) [OF k(1), of "d - 1"] by (simp add: k(2))
next
  case (13 nfc v vs)
  then obtain x xs where x: "canonicalize nfc v = Inr x" "canonicalize_list nfc vs = Inr xs" "ws = x # xs"
    by (auto simp: result_simps)
  show ?case using 13(1) [OF x(1)] 13(2) [OF x(2)] by (simp add: x(3))
next
  case (15 nfc seen k v kvs)
  from 15(3) obtain s x xs where k: "k = VStr s" "nfc s \<notin> set seen" "canonicalize nfc v = Inr x"
    "canonicalize_items nfc (nfc s # seen) kvs = Inr xs" "kws = (VStr (nfc s), x) # xs"
    by (auto simp: seqE_Inr_iff split: pyval.splits if_splits)
  show ?case using 15(1) [OF k(1,2,3)] 15(2) [OF k(1,2,4)] by (simp add: k(5))
qed (auto simp: result_simps)

lemma nested_size: "size v \<le> d \<Longrightarrow> nested_within d v"
proof (induction d v rule: nested_within.induct)
  case (1 d vs)
  have "size v \<le> size_list size vs" if "v \<in> set vs" for v using that by (rule size_list_estimation') simp
  with 1 show ?case by fastforce
next
  case (2 d vs)
  have "size v \<le> size_list size vs" if "v \<in> set vs" for v using that by (rule size_list_estimation') simp
  with 2 show ?case by fastforce
next
  case (3 d kvs)
  have "size (snd kv) \<le> size_list (size_prod size size) kvs" if "kv \<in> set kvs" for kv
    using that by (rule size_list_estimation') (cases kv; simp)
  with 3 show ?case by fastforce
qed simp_all

lemma json_plain_depth: "json_plain (je\<lparr>je_depth := d\<rparr>) v = json_plain je v"
  by (induction je v rule: json_plain.induct) (auto simp: float_read_def split: pyfloat.splits)

lemma canonical_bytes_read:
  assumes "canonical_json_bytes nfc v = Inr b" and "floats_exact je v"
  obtains w where "canonicalize nfc v = Inr w" "b = json_dumps w" "json_plain je w"
    "nested_within (je_depth je) v \<Longrightarrow> json_loads je b = Inr (json_read w)"
proof -
  from assms(1) obtain w where w: "canonicalize nfc v = Inr w" "json_ints w" "b = json_dumps w"
    by (auto simp: canonical_json_bytes_def seqE_Inr_iff split: if_splits)
  have "json_plain je w" by (rule canonical_plain(1) [OF w(1) assms(2) w(2)])
  with that w canonical_nested(1) [OF w(1)] json_loads_dumps show thesis by blast
qed

lemma json_dumps_equal:
  assumes "json_plain je w" "json_plain je w'"
  shows "json_dumps w = json_dumps w' \<longleftrightarrow> json_read w = json_read w'"
proof -
  let ?je = "je\<lparr>je_depth := max (size w) (size w')\<rparr>"
  have "json_loads ?je (json_dumps w) = Inr (json_read w)" "json_loads ?je (json_dumps w') = Inr (json_read w')"
    using assms by (auto intro!: json_loads_dumps nested_size simp: json_plain_depth)
  moreover have "json_dumps (json_read w) = json_dumps w" "json_dumps (json_read w') = json_dumps w'"
    using assms json_dumps_read by blast+
  ultimately show ?thesis by (metis sum.inject(2))
qed

end
