(* ===== verification/Harness_Report.thy ===== *)
theory Harness_Report
  imports Harness_Contract Json_Reader
begin

text \<open>
  Agent reports (\<open>build_harness/reports.py\<close>): the one \<open>machine_summary\<close> block of a report is found,
  read as JSON or as indented lines, and checked against closed vocabularies.  Every refusal is a
  report that failed to parse; only an error of the JSON reader that is no syntax error escapes: an integer literal that is
  too long, or data nested too deeply for the interpreter.

  The text of an error leaves out the representation of the offending value.
\<close>

section \<open>Vocabularies\<close>

definition MAX_REPORT_BYTES :: nat where
  "MAX_REPORT_BYTES = 1024 * 1024"

definition ALLOWED_ROLES :: "string list" where
  "ALLOWED_ROLES = [''architect'', ''implementer'', ''verifier'', ''gatekeeper'', ''release_operator'']"

definition ALLOWED_RESULTS :: "string list" where
  "ALLOWED_RESULTS = [''PASS'', ''NEEDS_FIX'', ''BLOCKED'']"

definition ALLOWED_STATUS_RESULT_BY_ROLE :: "(string \<times> (string \<times> string) list) list" where
  "ALLOWED_STATUS_RESULT_BY_ROLE =
     [(''implementer'', [(''IMPLEMENTED'', ''PASS''), (''BLOCKED'', ''BLOCKED'')]),
      (''verifier'', [(''VERIFIED_PASS'', ''PASS''), (''NEEDS_FIX'', ''NEEDS_FIX''), (''BLOCKED'', ''BLOCKED'')]),
      (''architect'', [(''CONTRACT_READY'', ''PASS''), (''BLOCKED'', ''BLOCKED'')]),
      (''gatekeeper'', [(''GATED'', ''PASS''), (''GATED'', ''NEEDS_FIX''), (''BLOCKED'', ''BLOCKED'')]),
      (''release_operator'', [(''MERGED'', ''PASS''), (''BLOCKED'', ''BLOCKED'')])]"

definition is_allowed_status_result :: "string \<Rightarrow> string \<Rightarrow> string \<Rightarrow> bool" where
  "is_allowed_status_result role status result =
     (case map_of ALLOWED_STATUS_RESULT_BY_ROLE role of
        None \<Rightarrow> False | Some prs \<Rightarrow> (status, result) \<in> set prs)"

definition REQUIRED_FIELDS :: "string list" where
  "REQUIRED_FIELDS =
     [''task_id'', ''role'', ''status'', ''result'', ''files_changed'', ''tests_run'', ''blockers'']"

definition OPTIONAL_FIELDS :: "string list" where
  "OPTIONAL_FIELDS = [''next_recommended_action'', ''commit_sha'']"

record agent_report =
  ar_task_id :: string
  ar_role :: string
  ar_status :: string
  ar_result :: string
  ar_files_changed :: "string list"
  ar_tests_run :: "string list"
  ar_blockers :: "string list"
  ar_next_action :: "string option"
  ar_commit_sha :: "string option"
  ar_raw_text :: string
  ar_parse_ok :: bool
  ar_parse_error :: "string option"

definition failed_report :: "string \<Rightarrow> string \<Rightarrow> agent_report" where
  "failed_report raw reason =
     \<lparr>ar_task_id = [], ar_role = [], ar_status = ''BLOCKED'', ar_result = ''BLOCKED'',
      ar_files_changed = [], ar_tests_run = [], ar_blockers = [], ar_next_action = None,
      ar_commit_sha = None, ar_raw_text = raw, ar_parse_ok = False, ar_parse_error = Some reason\<rparr>"

section \<open>Fields\<close>

abbreviation SummaryError :: "string \<Rightarrow> exn" where
  "SummaryError m \<equiv> Exn ''_SummaryError'' m"

fun reject_duplicate_keys :: "(pyval \<times> pyval) list \<Rightarrow> (pyval \<times> pyval) list \<Rightarrow> exn + pyval" where
  "reject_duplicate_keys acc [] = Inr (VDict (rev acc))"
| "reject_duplicate_keys acc ((k, v) # kvs) =
     (if k \<in> fst ` set acc then Inl (SummaryError ''duplicate key in machine_summary JSON'')
      else reject_duplicate_keys ((k, v) # acc) kvs)"

definition summary_str :: "(pyval \<times> pyval) list \<Rightarrow> string \<Rightarrow> exn + string" where
  "summary_str d k =
     (case text_of (dict_get d k) of
        Some s \<Rightarrow> if blank s then Inl (SummaryError (''machine_summary field '' @ k @ '' must be a non-empty string''))
                 else Inr (strip s)
      | None \<Rightarrow> Inl (SummaryError (''machine_summary field '' @ k @ '' must be a non-empty string'')))"

definition summary_item :: "string \<Rightarrow> pyval \<Rightarrow> exn + string" where
  "summary_item k v =
     (case text_of v of Some s \<Rightarrow> Inr s
      | None \<Rightarrow> Inl (SummaryError (''machine_summary field '' @ k @ '' contains a non-string item'')))"

definition summary_str_list :: "(pyval \<times> pyval) list \<Rightarrow> string \<Rightarrow> exn + string list" where
  "summary_str_list d k =
     (case dict_get d k of
        VList vs \<Rightarrow> mapE (summary_item k) vs
      | _ \<Rightarrow> Inl (SummaryError (''machine_summary field '' @ k @ '' must be a list of strings'')))"

text \<open>
  \<open>s.lower() == "null"\<close>: no character outside ASCII becomes one of these letters.
\<close>

definition ascii_lowercase :: "string \<Rightarrow> string" where
  "ascii_lowercase = map (\<lambda>c. if ascii_upper c then char_of (code_point c + 32) else c)"

definition summary_optional :: "(pyval \<times> pyval) list \<Rightarrow> string \<Rightarrow> exn + string option" where
  "summary_optional d k =
     (case dict_get d k of
        VNone \<Rightarrow> Inr None
      | v \<Rightarrow> (case text_of v of
                Some s \<Rightarrow> Inr (if ascii_lowercase s = ''null'' \<or> blank s then None else Some (strip s))
              | None \<Rightarrow> Inl (SummaryError (''machine_summary field '' @ k @ '' must be a string or null''))))"

definition has_key :: "(pyval \<times> pyval) list \<Rightarrow> string \<Rightarrow> bool" where
  "has_key d k = list_ex (\<lambda>kv. text_of (fst kv) = Some k) d"

definition from_summary_dict :: "(pyval \<times> pyval) list \<Rightarrow> string \<Rightarrow> exn + agent_report" where
  "from_summary_dict d raw =
     seqE (raise_first
       (map (\<lambda>k. (\<not> has_key d k, SummaryError (''machine_summary is missing required field '' @ k))) REQUIRED_FIELDS
        @ [(list_ex (\<lambda>kv. text_of (fst kv) \<notin> Some ` set (REQUIRED_FIELDS @ OPTIONAL_FIELDS)) d,
            SummaryError ''machine_summary has unknown field(s)'')])) (\<lambda>_.
     seqE (summary_str d ''task_id'') (\<lambda>tid.
     seqE (raise_first [(\<not> is_valid_task_id (VStr tid), SummaryError ''machine_summary task_id is not a valid task id'')]) (\<lambda>_.
     seqE (summary_str d ''role'') (\<lambda>role.
     seqE (raise_first [(role \<notin> set ALLOWED_ROLES, SummaryError ''unknown role'')]) (\<lambda>_.
     seqE (summary_str d ''status'') (\<lambda>status.
     seqE (summary_str d ''result'') (\<lambda>res.
     seqE (raise_first
       [(res \<notin> set ALLOWED_RESULTS, SummaryError ''unknown result''),
        (\<not> is_allowed_status_result role status res,
           SummaryError ''contradictory or unknown status/result for role'')]) (\<lambda>_.
     seqE (summary_str_list d ''files_changed'') (\<lambda>files.
     seqE (summary_str_list d ''tests_run'') (\<lambda>tests.
     seqE (summary_str_list d ''blockers'') (\<lambda>blockers.
     seqE (summary_optional d ''next_recommended_action'') (\<lambda>next_action.
     seqE (summary_optional d ''commit_sha'') (\<lambda>sha.
       Inr \<lparr>ar_task_id = tid, ar_role = role, ar_status = status, ar_result = res,
            ar_files_changed = files, ar_tests_run = tests, ar_blockers = blockers,
            ar_next_action = next_action, ar_commit_sha = sha, ar_raw_text = raw,
            ar_parse_ok = True, ar_parse_error = None\<rparr>)))))))))))))"

section \<open>Finding the blocks\<close>

text \<open>The text before the first occurrence of \<open>w\<close>, and the text after it.\<close>

fun until_text :: "string \<Rightarrow> string \<Rightarrow> (string \<times> string) option" where
  "until_text w [] = (if w = [] then Some ([], []) else None)"
| "until_text w (c # cs) =
     (if starts_with w (c # cs) then Some ([], drop (length w) (c # cs))
      else map_option (\<lambda>(a, b). (c # a, b)) (until_text w cs))"

text \<open>
  One match of the pattern of a JSON fence: the opening, whitespace that ends with a line feed (the
  last one of the whole run, as the pattern is greedy), and the shortest text up to the closing fence.
\<close>

definition json_fence :: "string \<Rightarrow> (string \<times> string) option" where
  "json_fence s =
     (let body = drop 7 s; space = take (length body - length (lstrip body)) body
      in if starts_with ''```json'' s \<and> CHR 0x0A \<in> set space
         then until_text ''```'' (drop (length space - length (takeWhile (\<lambda>c. c \<noteq> CHR 0x0A) (rev space))) body)
         else None)"

lemma until_text_shorter: "until_text w s = Some (a, b) \<Longrightarrow> length b \<le> length s"
  by (induction w s arbitrary: a b rule: until_text.induct) (auto split: if_splits)

function json_fences :: "string \<Rightarrow> string list" where
  "json_fences [] = []"
| "json_fences (c # cs) =
     (case json_fence (c # cs) of
        None \<Rightarrow> json_fences cs
      | Some (content, rest) \<Rightarrow> content # json_fences rest)"
  by pat_completeness auto
termination
proof (relation "measure length")
  fix c cs p content rest
  assume "json_fence (c # cs) = Some p" "(content, rest) = p"
  then have "length rest \<le> length (c # cs) - 7" "starts_with ''```json'' (c # cs)"
    by (auto simp: json_fence_def Let_def split: if_splits dest!: until_text_shorter)
  then show "(rest, c # cs) \<in> measure length" by (auto simp: starts_with_prefix prefix_def)
qed simp_all

text \<open>The text from each line that opens an indented block, including that line.\<close>

fun yaml_blocks :: "string list \<Rightarrow> string list" where
  "yaml_blocks [] = []"
| "yaml_blocks (l # ls) =
     (if starts_with ''machine_summary:'' l \<and> blank (drop 16 l)
      then join [CHR 0x0A] (l # ls) # yaml_blocks ls else yaml_blocks ls)"

text \<open>\<open>s.splitlines()\<close> on characters; \<open>cur\<close> is the line read so far.\<close>

definition line_breaks :: "string list" where
  "line_breaks =
     [[CHR 0x0A], [CHR 0x0B], [CHR 0x0C], [CHR 0x0D], [CHR 0x1C], [CHR 0x1D], [CHR 0x1E],
      [CHR 0xC2, CHR 0x85], [CHR 0xE2, CHR 0x80, CHR 0xA8], [CHR 0xE2, CHR 0x80, CHR 0xA9]]"

fun lines_from :: "string \<Rightarrow> string list \<Rightarrow> string list" where
  "lines_from cur [] = (if cur = [] then [] else [cur])"
| "lines_from cur [c] = (if c \<in> set line_breaks then [cur] else [cur @ c])"
| "lines_from cur (c # d # cs) =
     (if c \<in> set line_breaks
      then cur # (if c = [CHR 0x0D] \<and> d = [CHR 0x0A] then lines_from [] cs else lines_from [] (d # cs))
      else lines_from (cur @ c) (d # cs))"

section \<open>Indented blocks\<close>

definition indent :: "string \<Rightarrow> nat" where
  "indent line = length (takeWhile (\<lambda>c. c = CHR '' '') line)"

definition append_item :: "(pyval \<times> pyval) list \<Rightarrow> string \<Rightarrow> string \<Rightarrow> (pyval \<times> pyval) list" where
  "append_item d k item =
     map (\<lambda>(x, v). (x, if x = VStr k then (case v of VList vs \<Rightarrow> VList (vs @ [VStr item]) | _ \<Rightarrow> v) else v)) d"

fun yaml_lines ::
  "string \<Rightarrow> (pyval \<times> pyval) list \<Rightarrow> string list \<Rightarrow> exn + (pyval \<times> pyval) list"
where
  "yaml_lines cur d [] = Inr d"
| "yaml_lines cur d (line # lines) =
     (let s = strip line; k = strip (takeWhile (\<lambda>c. c \<noteq> CHR '':'') s);
          v = strip (drop 1 (dropWhile (\<lambda>c. c \<noteq> CHR '':'') s))
      in if blank line then Inr d
         else if 4 \<le> indent line \<and> starts_with ''- '' s \<and> cur \<noteq> []
         then yaml_lines cur (append_item d cur (strip (drop 2 s))) lines
         else if 2 \<le> indent line \<and> CHR '':'' \<in> set s \<and> \<not> starts_with ''- '' s
         then (if has_key d k then Inl (SummaryError ''duplicate key in machine_summary YAML block'')
               else if v = [] then yaml_lines k (d @ [(VStr k, VList [])]) lines
               else if v = ''[]'' then yaml_lines [] (d @ [(VStr k, VList [])]) lines
               else yaml_lines [] (d @ [(VStr k, VStr v)]) lines)
         else Inr d)"

definition parse_yamlish_block :: "string list \<Rightarrow> exn + (pyval \<times> pyval) list" where
  "parse_yamlish_block chars = yaml_lines [] [] (tl (lines_from [] chars))"

section \<open>Reading a report\<close>

definition json_summary :: "json_env \<Rightarrow> string \<Rightarrow> string \<Rightarrow> exn + agent_report" where
  "json_summary je content txt =
     (case json_loads_hook (reject_duplicate_keys []) je content of
        Inl e \<Rightarrow>
          if exn_type e = ''JSONDecodeError''
          then Inr (failed_report txt (''machine_summary JSON block is invalid: '' @ exn_msg e)) else Inl e
      | Inr (VDict payload) \<Rightarrow>
          (case dict_get payload ''machine_summary'' of
             VDict d \<Rightarrow> from_summary_dict d txt
           | _ \<Rightarrow> Inr (failed_report txt ''JSON block does not contain a machine_summary object''))
      | Inr _ \<Rightarrow> Inr (failed_report txt ''JSON block does not contain a machine_summary object''))"

definition parse_agent_report :: "json_env \<Rightarrow> string \<Rightarrow> exn + agent_report" where
  "parse_agent_report je txt =
     (let js = filter (contains ''machine_summary'') (json_fences txt);
          ys = yaml_blocks (split_on (CHR 0x0A) txt)
      in if MAX_REPORT_BYTES < length txt
         then Inr (failed_report ''<oversized report omitted>'' ''report exceeds the byte limit'')
         else if length js + length ys = 0 then Inr (failed_report txt ''no machine_summary block found in report'')
         else if 1 < length js + length ys
         then Inr (failed_report txt ''multiple/conflicting machine_summary blocks found; exactly one is required'')
         else case (if js \<noteq> [] then json_summary je (hd js) txt
                    else seqE (parse_yamlish_block (py_chars (hd ys))) (\<lambda>d. from_summary_dict d txt)) of
                Inl e \<Rightarrow> if exn_type e = ''_SummaryError'' then Inr (failed_report txt (exn_msg e)) else Inl e
              | Inr r \<Rightarrow> Inr r)"

section \<open>What a report is\<close>

text \<open>A report that parsed is within the vocabularies, one that did not is blocked.\<close>

definition report_ok :: "agent_report \<Rightarrow> bool" where
  "report_ok r \<longleftrightarrow>
     ar_parse_ok r \<and> ar_parse_error r = None \<and> is_valid_task_id (VStr (ar_task_id r)) \<and>
     ar_role r \<in> set ALLOWED_ROLES \<and> ar_result r \<in> set ALLOWED_RESULTS \<and>
     is_allowed_status_result (ar_role r) (ar_status r) (ar_result r)"

definition report_refused :: "agent_report \<Rightarrow> bool" where
  "report_refused r \<longleftrightarrow>
     \<not> ar_parse_ok r \<and> ar_parse_error r \<noteq> None \<and> ar_status r = ''BLOCKED'' \<and> ar_result r = ''BLOCKED'' \<and>
     ar_task_id r = [] \<and> ar_role r = []"

lemma failed_refused [simp]: "report_refused (failed_report raw e)"
  by (simp add: report_refused_def failed_report_def)

lemma from_summary_ok: "from_summary_dict d raw = Inr r \<Longrightarrow> report_ok r"
  by (auto simp: from_summary_dict_def seqE_Inr_iff report_ok_def)

lemma json_summary_cases: "json_summary je c txt = Inr r \<Longrightarrow> report_ok r \<or> report_refused r"
  by (auto simp: json_summary_def split: sum.splits pyval.splits if_splits dest: from_summary_ok)

lemma parse_report_cases:
  assumes "parse_agent_report je txt = Inr r"
  shows "report_ok r \<or> report_refused r"
  using assms
  by (auto simp: parse_agent_report_def Let_def split: if_splits sum.splits dest: json_summary_cases
      elim!: seqE_Inr_iff [THEN iffD1, elim_format] dest!: from_summary_ok)

text \<open>
  The errors that reading a value can raise, and what they say of the text: a \<open>ValueError\<close> needs more than
  4300 digits, a \<open>RecursionError\<close> more opening brackets than may be nested.
\<close>

definition digit_count :: "string \<Rightarrow> nat" where
  "digit_count s = length (filter ascii_digit s)"

definition bracket_count :: "string \<Rightarrow> nat" where
  "bracket_count s = length (filter (\<lambda>c. c = CHR ''{'' \<or> c = CHR ''['') s)"

definition json_error_of :: "pairs_hook \<Rightarrow> nat \<Rightarrow> string \<Rightarrow> exn \<Rightarrow> bool" where
  "json_error_of hook d s e \<longleftrightarrow>
     exn_type e = ''JSONDecodeError'' \<or> exn_type e = ''ValueError'' \<and> 4300 < digit_count s
     \<or> exn_type e = ''RecursionError'' \<and> d < bracket_count s \<or> (\<exists>kvs. hook kvs = Inl e)"

lemma count_part: "s = a @ t @ b \<Longrightarrow> digit_count t \<le> digit_count s \<and> bracket_count t \<le> bracket_count s"
  by (simp add: digit_count_def bracket_count_def)

lemma json_error_suffix: "json_error_of hook d t e \<Longrightarrow> suffix t s \<Longrightarrow> json_error_of hook d s e"
  using count_part [of s _ t "[]"] by (fastforce simp: json_error_of_def suffix_def)

lemma json_error_inner:
  assumes "json_error_of hook (d - 1) (json_ws cs) e" "c = CHR ''{'' \<or> c = CHR ''[''" "d \<noteq> 0"
  shows "json_error_of hook d (c # cs) e"
proof -
  have "json_error_of hook (d - 1) cs e" by (rule json_error_suffix [OF assms(1) suffix_ws(1)])
  with assms(2,3) show ?thesis by (auto simp: json_error_of_def digit_count_def bracket_count_def)
qed

lemma scan_string_error: "scan_string s = Inl e \<Longrightarrow> exn_type e = ''JSONDecodeError''"
  by (induction s arbitrary: e rule: scan_string.induct) (auto simp: result_simps split: if_splits option.splits)

lemma int_part_digits: "length (int_part s) \<le> max 1 (digit_count s)"
proof -
  have "digit_count (takeWhile ascii_digit s) \<le> digit_count s"
    using count_part [of s "[]" "takeWhile ascii_digit s" "dropWhile ascii_digit s"] by simp
  moreover have "filter ascii_digit (takeWhile ascii_digit s) = takeWhile ascii_digit s"
    by (simp add: filter_id_conv) (metis set_takeWhileD)
  ultimately show ?thesis by (simp add: int_part_def digits_def digit_count_def max.coboundedI2)
qed

lemma scan_number_error:
  assumes "scan_number flt s = Inl e"
  shows "json_error_of hook d s e"
proof -
  let ?s1 = "drop (length (minus_part s)) s"
  have "digit_count ?s1 \<le> digit_count s"
    using count_part [of s "take (length (minus_part s)) s" ?s1 "[]"] by simp
  with int_part_digits [of ?s1] assms show ?thesis
    by (auto simp: scan_number_def Let_def json_error_of_def split: if_splits)
qed

text \<open>With enough fuel nothing else is raised.\<close>

lemma json_errors:
  "json_value hook je d n s = Inl e \<Longrightarrow> 2 * length s < n \<Longrightarrow> json_error_of hook d s e"
  "json_items hook je d n s = Inl e \<Longrightarrow> 2 * length s + 1 < n \<Longrightarrow> json_error_of hook d s e"
  "json_members hook je d n s = Inl e \<Longrightarrow> 2 * length s + 1 < n \<Longrightarrow> json_error_of hook d s e"
proof (induction hook je d n s and hook je d n s and hook je d n s
    rule: json_value_json_items_json_members.induct)
  case (2 hook je d n)
  then show ?case by (auto simp: json_error_of_def)
next
  case (3 hook je d n c cs)
  have fuel: "2 * length (json_ws cs) + 1 < n" using 3(4) json_ws_shorter [of cs] by simp
  have deep: "json_error_of hook d (c # cs) RecursionError" if "c = CHR ''{'' \<or> c = CHR ''[''" "d = 0"
    using that by (auto simp: json_error_of_def bracket_count_def)
  have members: "json_error_of hook d (c # cs) e" if "json_members hook je (d - 1) n (json_ws cs) = Inl e" "c = CHR ''{''"
      "d \<noteq> 0" "\<not> starts_with ''}'' (json_ws cs)"
    using 3(1) [OF _ _ that(2,4,1) fuel] that(2,3) by (intro json_error_inner) simp_all
  have items: "json_error_of hook d (c # cs) e" if "json_items hook je (d - 1) n (json_ws cs) = Inl e" "c = CHR ''[''"
      "d \<noteq> 0" "\<not> starts_with '']'' (json_ws cs)"
    using 3(2) [OF _ _ _ that(2,4,1) fuel] that(2,3) by (intro json_error_inner) simp_all
  have hook: "json_error_of hook d (c # cs) e" if "hook kvs = Inl e" for kvs using that by (auto simp: json_error_of_def)
  have str: "json_error_of hook d (c # cs) e" if "scan_string cs = Inl e"
    using scan_string_error [OF that] by (simp add: json_error_of_def)
  show ?case
    using 3(3) deep members items hook str scan_number_error [of "je_float je" "c # cs" e hook d]
    by (auto simp: seqE_Inl_iff split: if_splits option.splits)
next
  case (5 hook je d n s)
  have fuel: "2 * length s < n" using 5(4) by simp
  have more: "json_error_of hook d s e" if v: "json_value hook je d n s = Inr (v, r)"
      and "json_items hook je d n (json_ws (tl (json_ws r))) = Inl e" "\<not> starts_with '']'' (json_ws r)"
      "starts_with '','' (json_ws r)" for v r
  proof -
    have "2 * length (json_ws (tl (json_ws r))) + 1 < n"
      using json_shorter(1) [OF v] json_ws_shorter [of r] json_ws_shorter [of "tl (json_ws r)"] 5(4) by simp
    from 5(2) [OF that(3,4,2) this] show ?thesis
      by (rule json_error_suffix) (use suffix_ws(3) [of r] json_rest(1) [OF v] in \<open>blast intro: suffix_order.trans\<close>)
  qed
  have other: "json_error_of hook d s (JSONDecodeError m)" for m by (simp add: json_error_of_def)
  show ?case
    using 5(3) 5(1) [OF _ fuel] more other by (auto simp: seqE_Inl_iff split: if_splits)
next
  case (7 hook je d n s)
  have r1: "suffix r1 s" if "scan_string (tl s) = Inr (k, r1)" for k r1
    using scan_string_rest [OF that] suffix_tl [of s] by (blast intro: suffix_order.trans)
  have v: "json_error_of hook d s e" if "starts_with [CHR 0x22] s" and k: "scan_string (tl s) = Inr (k, r1)"
      and "starts_with '':'' (json_ws r1)" "json_value hook je d n (json_ws (tl (json_ws r1))) = Inl e" for k r1
  proof -
    have "2 * length (json_ws (tl (json_ws r1))) < n"
      using scan_string_shorter [OF k] json_ws_shorter [of r1] json_ws_shorter [of "tl (json_ws r1)"] 7(4) by simp
    from 7(1) [OF _ _ that(4) this] that(1,3) have "json_error_of hook d (json_ws (tl (json_ws r1))) e" by simp
    then show ?thesis
      by (rule json_error_suffix) (use suffix_ws(3) [of r1] r1 [OF k] in \<open>blast intro: suffix_order.trans\<close>)
  qed
  have m: "json_error_of hook d s e" if "starts_with [CHR 0x22] s" and k: "scan_string (tl s) = Inr (k, r1)"
      and "starts_with '':'' (json_ws r1)" and v: "json_value hook je d n (json_ws (tl (json_ws r1))) = Inr (v, r2)"
      and "\<not> starts_with ''}'' (json_ws r2)" "starts_with '','' (json_ws r2)"
      "json_members hook je d n (json_ws (tl (json_ws r2))) = Inl e" for k r1 v r2
  proof -
    have "2 * length (json_ws (tl (json_ws r2))) + 1 < n"
      using scan_string_shorter [OF k] json_shorter(1) [OF v] json_ws_shorter [of r1]
        json_ws_shorter [of "tl (json_ws r1)"] json_ws_shorter [of r2] json_ws_shorter [of "tl (json_ws r2)"] 7(4) by simp
    from 7(2) [OF _ _ that(5,6,7) this] that(1,3) have "json_error_of hook d (json_ws (tl (json_ws r2))) e" by simp
    moreover have "suffix (json_ws (tl (json_ws r2))) s"
      using suffix_ws(3) [of r2] json_rest(1) [OF v] suffix_ws(3) [of r1] r1 [OF k] by (meson suffix_order.trans)
    ultimately show ?thesis by (rule json_error_suffix)
  qed
  have str: "json_error_of hook d s e" if "scan_string (tl s) = Inl e"
    using scan_string_error [OF that] by (simp add: json_error_of_def)
  have other: "json_error_of hook d s (JSONDecodeError m)" for m by (simp add: json_error_of_def)
  show ?case
    using 7(3) v m str other by (auto simp: seqE_Inl_iff split: if_splits)
qed auto

lemma json_loads_error:
  assumes "json_loads_hook hook je s = Inl e"
  shows "json_error_of hook (je_depth je) s e"
proof -
  have "2 * length (json_ws s) < 2 * length s + 2" using json_ws_shorter [of s] by simp
  with json_errors(1) have "json_value hook je (je_depth je) (2 * length s + 2) (json_ws s) = Inl e \<Longrightarrow>
      json_error_of hook (je_depth je) s e"
    by (blast intro: json_error_suffix suffix_ws(1))
  then show ?thesis
    using assms by (auto simp: json_loads_hook_def seqE_Inl_iff json_error_of_def split: if_splits)
qed

text \<open>A computation that raises one type of exception only.\<close>

definition raises :: "string \<Rightarrow> exn + 'a \<Rightarrow> bool" where
  "raises t r \<longleftrightarrow> (\<forall>e. r = Inl e \<longrightarrow> exn_type e = t)"

lemma raises_Inr [intro, simp]: "raises t (Inr x)"
  by (simp add: raises_def)

lemma raises_Inl [simp]: "raises t (Inl e) \<longleftrightarrow> exn_type e = t"
  by (auto simp: raises_def)

lemma raises_seqE [intro]: "raises t r \<Longrightarrow> (\<And>a. raises t (f a)) \<Longrightarrow> raises t (seqE r f)"
  by (cases r) (auto simp: raises_def)

lemma raises_first [intro]: "list_all (\<lambda>be. exn_type (snd be) = t) es \<Longrightarrow> raises t (raise_first es)"
  by (induction es rule: raise_first.induct) auto

lemma raises_mapE [intro]: "(\<And>x. raises t (f x)) \<Longrightarrow> raises t (mapE f xs)"
  by (auto simp: raises_def dest: mapE_Inl_mem)

lemma duplicate_raises: "raises ''_SummaryError'' (reject_duplicate_keys acc kvs)"
  by (induction acc kvs rule: reject_duplicate_keys.induct) simp_all

lemma summary_raises [intro]:
  "raises ''_SummaryError'' (summary_str d k)"
  "raises ''_SummaryError'' (summary_str_list d k)"
  "raises ''_SummaryError'' (summary_optional d k)"
proof -
  have "raises ''_SummaryError'' (summary_item k v)" for v by (simp add: summary_item_def split: option.split)
  then show "raises ''_SummaryError'' (summary_str_list d k)"
    by (auto simp: summary_str_list_def split: pyval.split)
qed (simp_all add: summary_str_def summary_optional_def split: option.split pyval.split)

lemma from_summary_raises: "raises ''_SummaryError'' (from_summary_dict d raw)"
  unfolding from_summary_dict_def
  by (intro raises_seqE raises_first raises_Inr summary_raises) (simp_all add: list_all_iff)

lemma yaml_raises: "raises ''_SummaryError'' (yaml_lines cur d ls)"
  by (induction ls arbitrary: cur d) (simp_all add: Let_def)

text \<open>A fence is a part of the report.\<close>

lemma until_text_parts: "until_text w s = Some (a, b) \<Longrightarrow> s = a @ w @ b"
  by (induction w s arbitrary: a b rule: until_text.induct)
     (auto simp: starts_with_prefix prefix_def split: if_splits)

lemma json_fence_parts: "json_fence s = Some (content, rest) \<Longrightarrow> \<exists>a b. s = a @ content @ b @ rest"
proof -
  assume "json_fence s = Some (content, rest)"
  then obtain n where "drop n s = content @ ''```'' @ rest"
    by (auto simp: json_fence_def Let_def split: if_splits dest!: until_text_parts)
  then show ?thesis by (metis append_take_drop_id)
qed

lemma json_fences_part: "c \<in> set (json_fences s) \<Longrightarrow> \<exists>a b. s = a @ c @ b"
proof (induction s rule: json_fences.induct)
  case (2 x xs)
  show ?case
  proof (cases "json_fence (x # xs)")
    case None
    with 2 obtain a b where "xs = a @ c @ b" by auto
    then have "x # xs = (x # a) @ c @ b" by simp
    then show ?thesis by blast
  next
    case (Some z)
    obtain content rest where z: "z = (content, rest)" by force
    with json_fence_parts Some obtain a b where ab: "x # xs = a @ content @ b @ rest" by blast
    from 2(3) Some z consider "c = content" | "c \<in> set (json_fences rest)" by auto
    then show ?thesis
    proof cases
      case 1
      with ab show ?thesis by blast
    next
      case later: 2
      with 2(2) [OF Some z [symmetric]] obtain d e where "rest = d @ c @ e" by blast
      with ab have "x # xs = (a @ content @ b @ d) @ c @ e" by simp
      then show ?thesis by blast
    qed
  qed
qed simp

text \<open>
  What escapes the reader: the plain \<open>ValueError\<close> of an integer literal that is too long, and the
  \<open>RecursionError\<close> of data nested too deeply.
\<close>

definition report_reader_escape :: "json_env \<Rightarrow> string \<Rightarrow> exn \<Rightarrow> bool" where
  "report_reader_escape je txt e \<longleftrightarrow>
     exn_type e = ''ValueError'' \<and> 4300 < digit_count txt
     \<or> exn_type e = ''RecursionError'' \<and> je_depth je < bracket_count txt"

lemma escape_part: "report_reader_escape je c e \<Longrightarrow> txt = a @ c @ b \<Longrightarrow> report_reader_escape je txt e"
  using count_part [of "txt" a c b] by (auto simp: report_reader_escape_def)

lemma parse_report_error:
  assumes "parse_agent_report je txt = Inl e"
  shows "report_reader_escape je txt e"
proof -
  have hook: "exn_type e \<in> {''JSONDecodeError'', ''_SummaryError''} \<or> report_reader_escape je c e"
    if "json_loads_hook (reject_duplicate_keys []) je c = Inl e" for c e
    using json_loads_error [OF that] duplicate_raises by (auto simp: json_error_of_def raises_def report_reader_escape_def)
  have summary: "exn_type e = ''_SummaryError'' \<or> report_reader_escape je c e" if "json_summary je c txt = Inl e" for c e
    using that hook from_summary_raises
    by (fastforce simp: json_summary_def raises_def split: sum.splits pyval.splits if_splits)
  have yaml: "raises ''_SummaryError'' (seqE (parse_yamlish_block cs) (\<lambda>d. from_summary_dict d txt))" for cs
    unfolding parse_yamlish_block_def by (intro raises_seqE yaml_raises from_summary_raises)
  let ?js = "filter (contains ''machine_summary'') (json_fences txt)"
  have js: "report_reader_escape je txt e" if "?js \<noteq> []" "report_reader_escape je (hd ?js) e"
  proof -
    have "hd ?js \<in> set (json_fences txt)" using hd_in_set [OF that(1)] by (simp only: set_filter) blast
    with json_fences_part escape_part [OF that(2)] show ?thesis by blast
  qed
  show ?thesis
    using assms summary yaml js
    by (auto simp: parse_agent_report_def Let_def raises_def split: if_splits sum.splits)
qed

end
