(* ===== verification/Harness_Process.thy ===== *)
theory Harness_Process
  imports Change_Gate Harness_Report
begin

text \<open>
  The process layer of the build harness: the task state machine (\<open>build_harness/state.py\<close>), the
  process guard that decides whether a change may ship (\<open>process_guard.py\<close>) and the recommender of
  the next action (\<open>next_action.py\<close>).

  A change-gate decision reaches the guard as an arbitrary object (\<open>VNone\<close> for none), because the
  guard checks it again; the recommender reads the fields of a decision record.
\<close>

section \<open>Task states\<close>

datatype task_state =
    DRAFT | READY_FOR_IMPLEMENTATION | IMPLEMENTING | IMPLEMENTED | READY_FOR_VERIFICATION
  | VERIFIED_PASS | NEEDS_FIX | READY_FOR_MERGE | READY_FOR_HUMAN_APPROVAL | APPROVED | DONE | BLOCKED

datatype task_event =
    CONTRACT_VALIDATED | IMPLEMENTATION_STARTED | IMPLEMENTATION_REPORT_INGESTED
  | VERIFICATION_REQUESTED | VERIFICATION_PASSED | VERIFICATION_FAILED | CHANGEGATE_PASSED
  | CHANGEGATE_FAILED | HUMAN_APPROVED | MERGED | BLOCKED_EVENT

fun task_state_value :: "task_state \<Rightarrow> string" where
  "task_state_value DRAFT = ''DRAFT''"
| "task_state_value READY_FOR_IMPLEMENTATION = ''READY_FOR_IMPLEMENTATION''"
| "task_state_value IMPLEMENTING = ''IMPLEMENTING''"
| "task_state_value IMPLEMENTED = ''IMPLEMENTED''"
| "task_state_value READY_FOR_VERIFICATION = ''READY_FOR_VERIFICATION''"
| "task_state_value VERIFIED_PASS = ''VERIFIED_PASS''"
| "task_state_value NEEDS_FIX = ''NEEDS_FIX''"
| "task_state_value READY_FOR_MERGE = ''READY_FOR_MERGE''"
| "task_state_value READY_FOR_HUMAN_APPROVAL = ''READY_FOR_HUMAN_APPROVAL''"
| "task_state_value APPROVED = ''APPROVED''"
| "task_state_value DONE = ''DONE''"
| "task_state_value BLOCKED = ''BLOCKED''"

fun task_event_value :: "task_event \<Rightarrow> string" where
  "task_event_value CONTRACT_VALIDATED = ''contract_validated''"
| "task_event_value IMPLEMENTATION_STARTED = ''implementation_started''"
| "task_event_value IMPLEMENTATION_REPORT_INGESTED = ''implementation_report_ingested''"
| "task_event_value VERIFICATION_REQUESTED = ''verification_requested''"
| "task_event_value VERIFICATION_PASSED = ''verification_passed''"
| "task_event_value VERIFICATION_FAILED = ''verification_failed''"
| "task_event_value CHANGEGATE_PASSED = ''changegate_passed''"
| "task_event_value CHANGEGATE_FAILED = ''changegate_failed''"
| "task_event_value HUMAN_APPROVED = ''human_approved''"
| "task_event_value MERGED = ''merged''"
| "task_event_value BLOCKED_EVENT = ''blocked''"

definition TRANSITIONS :: "((task_state \<times> task_event) \<times> task_state) list" where
  "TRANSITIONS =
     [((DRAFT, CONTRACT_VALIDATED), READY_FOR_IMPLEMENTATION),
      ((READY_FOR_IMPLEMENTATION, IMPLEMENTATION_STARTED), IMPLEMENTING),
      ((IMPLEMENTING, IMPLEMENTATION_REPORT_INGESTED), IMPLEMENTED),
      ((IMPLEMENTED, VERIFICATION_REQUESTED), READY_FOR_VERIFICATION),
      ((READY_FOR_VERIFICATION, VERIFICATION_PASSED), VERIFIED_PASS),
      ((READY_FOR_VERIFICATION, VERIFICATION_FAILED), NEEDS_FIX),
      ((NEEDS_FIX, IMPLEMENTATION_STARTED), IMPLEMENTING),
      ((VERIFIED_PASS, CHANGEGATE_PASSED), READY_FOR_HUMAN_APPROVAL),
      ((VERIFIED_PASS, CHANGEGATE_FAILED), NEEDS_FIX),
      ((READY_FOR_HUMAN_APPROVAL, HUMAN_APPROVED), APPROVED),
      ((APPROVED, MERGED), DONE),
      ((READY_FOR_MERGE, HUMAN_APPROVED), APPROVED),
      ((READY_FOR_MERGE, MERGED), DONE)]"

abbreviation InvalidTransitionError :: "string \<Rightarrow> exn" where
  "InvalidTransitionError m \<equiv> Exn ''InvalidTransitionError'' m"

definition transition :: "task_state \<Rightarrow> task_event \<Rightarrow> exn + task_state" where
  "transition current event =
     (if event = BLOCKED_EVENT
      then if current = DONE then Inl (InvalidTransitionError ''cannot block a DONE task'') else Inr BLOCKED
      else case map_of TRANSITIONS (current, event) of
             None \<Rightarrow> Inl (InvalidTransitionError
               (''no transition defined for state='' @ task_state_value current @ '' event='' @ task_event_value event))
           | Some s \<Rightarrow> Inr s)"

section \<open>The process guard\<close>

datatype intended_action = CONTINUE | MERGE | PUSH | DEPLOY | DONE_ACTION

fun intended_action_value :: "intended_action \<Rightarrow> string" where
  "intended_action_value CONTINUE = ''continue''"
| "intended_action_value MERGE = ''merge''"
| "intended_action_value PUSH = ''push''"
| "intended_action_value DEPLOY = ''deploy''"
| "intended_action_value DONE_ACTION = ''done''"

definition INTENDED_ACTIONS :: "intended_action list" where
  "INTENDED_ACTIONS = [CONTINUE, MERGE, PUSH, DEPLOY, DONE_ACTION]"

definition SHIP_ACTIONS :: "intended_action list" where
  "SHIP_ACTIONS = [MERGE, PUSH, DEPLOY, DONE_ACTION]"

fun VALID_SHIP_STATES :: "intended_action \<Rightarrow> task_state list" where
  "VALID_SHIP_STATES MERGE = [READY_FOR_MERGE, APPROVED]"
| "VALID_SHIP_STATES PUSH = [APPROVED]"
| "VALID_SHIP_STATES DEPLOY = [APPROVED]"
| "VALID_SHIP_STATES DONE_ACTION = [APPROVED, DONE]"
| "VALID_SHIP_STATES CONTINUE = []"

definition APPROVAL_HARD_ACTIONS :: "intended_action list" where
  "APPROVAL_HARD_ACTIONS = [PUSH, DEPLOY]"

text \<open>The intended action: a member of the enum, or a raw value that may name one.\<close>

record guard_input =
  pg_contract :: task_contract
  pg_task_state :: task_state
  pg_implementer_report :: "agent_report option"
  pg_verifier_report :: "agent_report option"
  pg_changegate_decision :: pyval
  pg_human_approved :: bool
  pg_intended_action :: "intended_action + pyval"

record guard_decision =
  pd_decision :: string
  missing_steps :: "string list"
  pd_reason :: string

definition guard_to_dict :: "guard_decision \<Rightarrow> pyval" where
  "guard_to_dict d = dict_of
     [(''decision'', VStr (pd_decision d)), (''missing_steps'', text_list (missing_steps d)),
      (''reason'', VStr (pd_reason d))]"

definition report_identity_error :: "agent_report option \<Rightarrow> task_contract \<Rightarrow> string \<Rightarrow> string option" where
  "report_identity_error report c role =
     (case report of
        None \<Rightarrow> None
      | Some r \<Rightarrow> first_error
          [(\<not> ar_parse_ok r, role @ '' report is unparseable: ''
              @ (case ar_parse_error r of None \<Rightarrow> ''None'' | Some e \<Rightarrow> e)),
           (ar_task_id r \<noteq> tc_task_id c, role @ '' report belongs to another task''),
           (ar_role r \<noteq> role, ''report in the '' @ role @ '' slot has another role''),
           (\<not> is_allowed_status_result (ar_role r) (ar_status r) (ar_result r),
              role @ '' report has a contradictory status/result'')])"

definition action_of :: "intended_action + pyval \<Rightarrow> intended_action option" where
  "action_of raw =
     (case raw of
        Inl a \<Rightarrow> Some a
      | Inr v \<Rightarrow> (case text_of v of
                   None \<Rightarrow> None | Some s \<Rightarrow> find (\<lambda>a. intended_action_value a = s) INTENDED_ACTIONS))"

definition guard_block :: "string list \<Rightarrow> string \<Rightarrow> guard_decision" where
  "guard_block steps reason = \<lparr>pd_decision = ''BLOCK'', missing_steps = steps, pd_reason = reason\<rparr>"

definition guard_review :: "string list \<Rightarrow> string \<Rightarrow> guard_decision" where
  "guard_review steps reason = \<lparr>pd_decision = ''REVIEW_REQUIRED'', missing_steps = steps, pd_reason = reason\<rparr>"

definition guard_pass :: "string \<Rightarrow> guard_decision" where
  "guard_pass reason = \<lparr>pd_decision = ''PASS'', missing_steps = [], pd_reason = reason\<rparr>"

definition result_of :: "agent_report option \<Rightarrow> string option" where
  "result_of report = map_option ar_result report"

text \<open>The steps that reports and gate leave open; a passing gate decision is checked again.\<close>

definition gate_steps :: "task_contract \<Rightarrow> pyval \<Rightarrow> string list" where
  "gate_steps c gate =
     (if text_of (attr gate ''decision'') \<noteq> Some ''PASS'' then [''changegate_pass'']
      else if validate_change_gate_decision c gate \<noteq> [] then [''valid_changegate_decision'']
      else [])"

definition open_steps :: "guard_input \<Rightarrow> string list" where
  "open_steps g =
     (if result_of (pg_implementer_report g) \<noteq> Some ''PASS'' then [''implementer_report_pass''] else [])
     @ (if result_of (pg_verifier_report g) \<noteq> Some ''PASS'' then [''verifier_report_pass''] else [])
     @ gate_steps (pg_contract g) (pg_changegate_decision g)"

definition ship_decision :: "guard_input \<Rightarrow> intended_action \<Rightarrow> guard_decision" where
  "ship_decision g action =
     (let missing =
        (if pg_task_state g \<notin> set (VALID_SHIP_STATES action)
         then [''valid_task_state_for_'' @ intended_action_value action] else [])
        @ open_steps g
      in if missing \<noteq> [] then
           guard_block missing
             (''cannot ship from task_state='' @ task_state_value (pg_task_state g) @ '': missing ''
              @ join '', '' missing
              @ (if ''valid_changegate_decision'' \<in> set missing
                 then ''; ChangeGateDecision marked PASS is internally inconsistent: ''
                   @ join ''; '' (validate_change_gate_decision (pg_contract g) (pg_changegate_decision g))
                 else []))
         else if action \<in> set APPROVAL_HARD_ACTIONS \<and> \<not> pg_human_approved g then
           guard_block [''human_approval''] (''cannot '' @ intended_action_value action @ '' without human approval'')
         else if \<not> pg_human_approved g then
           guard_review [''human_approval''] ''all gates pass but human approval is missing''
         else guard_pass ''all reports, gates, and human approval are in place'')"

definition continue_decision :: "guard_input \<Rightarrow> guard_decision" where
  "continue_decision g =
     (let missing = open_steps g @ (if \<not> pg_human_approved g then [''human_approval''] else [])
      in if missing \<noteq> [] then guard_review missing (''workflow incomplete: '' @ join '', '' missing)
         else guard_pass ''workflow complete'')"

definition evaluate_process_guard :: "guard_input \<Rightarrow> guard_decision" where
  "evaluate_process_guard g =
     (case action_of (pg_intended_action g) of
        None \<Rightarrow> guard_block [''valid_intended_action''] ''unknown intended_action''
      | Some action \<Rightarrow>
          (case report_identity_error (pg_implementer_report g) (pg_contract g) ''implementer'' of
             Some e \<Rightarrow> guard_block [''trusted_implementer_report''] e
           | None \<Rightarrow>
               (case report_identity_error (pg_verifier_report g) (pg_contract g) ''verifier'' of
                  Some e \<Rightarrow> guard_block [''trusted_verifier_report''] e
                | None \<Rightarrow>
                    if result_of (pg_implementer_report g) = Some ''BLOCKED''
                       \<or> result_of (pg_verifier_report g) = Some ''BLOCKED''
                    then guard_block [] ''an agent report is BLOCKED; resolve it before proceeding''
                    else if result_of (pg_verifier_report g) = Some ''NEEDS_FIX''
                    then guard_block [''fix_and_reverify''] ''verifier returned NEEDS_FIX''
                    else if action \<in> set SHIP_ACTIONS then ship_decision g action
                    else continue_decision g)))"

section \<open>The next action\<close>

record next_step =
  na_action :: string
  na_reason :: string
  na_prompt :: "string option"

definition next_step_to_dict :: "next_step \<Rightarrow> pyval" where
  "next_step_to_dict n = dict_of
     [(''action'', VStr (na_action n)), (''reason'', VStr (na_reason n)), (''prompt'', opt_str (na_prompt n))]"

abbreviation step_of :: "string \<Rightarrow> string \<Rightarrow> string option \<Rightarrow> next_step" where
  "step_of a r p \<equiv> \<lparr>na_action = a, na_reason = r, na_prompt = p\<rparr>"

definition identity_error :: "agent_report option \<Rightarrow> task_contract \<Rightarrow> string \<Rightarrow> string option" where
  "identity_error report c role =
     (case report of
        None \<Rightarrow> None
      | Some r \<Rightarrow>
          if \<not> ar_parse_ok r then None
          else first_error
            [(ar_task_id r \<noteq> tc_task_id c, role @ '' report belongs to another task''),
             (ar_role r \<noteq> role, ''report in the '' @ role @ '' slot has another role'')])"

text \<open>
  \<open>str.upper\<close> of one character, as far as its value is ASCII; any other character is left as it is,
  which is not ASCII either.
\<close>

definition upper_specials :: "(string \<times> string) list" where
  "upper_specials =
     [([CHR 0xC3, CHR 0x9F], ''SS''), ([CHR 0xC4, CHR 0xB1], ''I''), ([CHR 0xC5, CHR 0xBF], ''S''),
      ([CHR 0xEF, CHR 0xAC, CHR 0x80], ''FF''), ([CHR 0xEF, CHR 0xAC, CHR 0x81], ''FI''),
      ([CHR 0xEF, CHR 0xAC, CHR 0x82], ''FL''), ([CHR 0xEF, CHR 0xAC, CHR 0x83], ''FFI''),
      ([CHR 0xEF, CHR 0xAC, CHR 0x84], ''FFL''), ([CHR 0xEF, CHR 0xAC, CHR 0x85], ''ST''),
      ([CHR 0xEF, CHR 0xAC, CHR 0x86], ''ST'')]"

definition upper_char :: "string \<Rightarrow> string" where
  "upper_char c =
     (case map_of upper_specials c of
        Some u \<Rightarrow> u
      | None \<Rightarrow> map (\<lambda>x. if ascii_lower x then char_of (code_point x - 32) else x) c)"

definition upper_is :: "string \<Rightarrow> string \<Rightarrow> bool" where
  "upper_is s word = (concat (map upper_char (py_chars s)) = word)"

definition fix_prompt :: "task_contract \<Rightarrow> agent_report \<Rightarrow> string" where
  "fix_prompt c verifier =
     generate_prompt c IMPLEMENTER @ ([CHR 0x0A, CHR 0x0A] @ ''## Fix context'' @ [CHR 0x0A]
           @ ''The independent verifier returned NEEDS_FIX. Address the verifier'' @ [CHR 0x27]
           @ ''s blockers, then report again:'' @ [CHR 0x0A]) @ join NL (map (\<lambda>b. ''- '' @ b)
        (if ar_blockers verifier = [] then [''(see verifier report)''] else ar_blockers verifier))"

definition recommend_next_action ::
  "task_contract \<Rightarrow> agent_report option \<Rightarrow> agent_report option \<Rightarrow> change_gate_decision option
    \<Rightarrow> guard_decision option \<Rightarrow> next_step"
where
  "recommend_next_action c implementer verifier gate guard =
     (case (identity_error implementer c ''implementer'', identity_error verifier c ''verifier'') of
        (Some e, _) \<Rightarrow> step_of ''ESCALATE_TO_HUMAN'' (''report identity is invalid: '' @ e) None
      | (None, Some e) \<Rightarrow> step_of ''ESCALATE_TO_HUMAN'' (''report identity is invalid: '' @ e) None
      | (None, None) \<Rightarrow>
     (case implementer of
        None \<Rightarrow> step_of ''SEND_TO_IMPLEMENTER'' ''no implementer report has been ingested for this task''
          (Some (generate_prompt c IMPLEMENTER))
      | Some impl \<Rightarrow>
     if \<not> ar_parse_ok impl \<or> upper_is (ar_result impl) ''BLOCKED''
     then step_of ''ESCALATE_TO_HUMAN'' (''implementer report is BLOCKED or unparseable: ''
       @ (case ar_parse_error impl of
            None \<Rightarrow> ''reported blocked'' | Some e \<Rightarrow> if e = [] then ''reported blocked'' else e)) None
     else (case verifier of
        None \<Rightarrow> step_of ''SEND_TO_VERIFIER'' ''implementer reported PASS; independent verification is missing''
          (Some (generate_prompt c VERIFIER))
      | Some ver \<Rightarrow>
     if upper_is (ar_result ver) ''NEEDS_FIX''
     then step_of ''SEND_FIX_PROMPT_TO_IMPLEMENTER'' ''verifier returned NEEDS_FIX'' (Some (fix_prompt c ver))
     else if map_option gd_decision gate = Some ''BLOCK''
     then step_of ''SEND_FIX_PROMPT_TO_IMPLEMENTER''
       (''ChangeGate blocked the change: ''
        @ join ''; '' (map f_reason (filter (\<lambda>f. f_severity f = ''block'') (gd_findings (the gate)))))
       (Some (generate_prompt c IMPLEMENTER))
     else if map_option gd_decision gate = Some ''REVIEW_REQUIRED''
     then step_of ''REQUEST_HUMAN_REVIEW''
       (''ChangeGate requires human review: '' @ join ''; '' (map f_reason (gd_findings (the gate)))) None
     else (case guard of
        None \<Rightarrow> step_of ''REQUEST_HUMAN_REVIEW'' ''workflow state is ambiguous; a human should inspect the evidence'' None
      | Some pg \<Rightarrow>
     if pd_decision pg = ''BLOCK''
     then step_of ''REQUEST_HUMAN_REVIEW'' (''ProcessGuard blocked the workflow: '' @ pd_reason pg) None
     else if pd_decision pg = ''REVIEW_REQUIRED'' \<and> ''human_approval'' \<in> set (missing_steps pg)
     then step_of ''REQUEST_HUMAN_APPROVAL'' ''all gates pass but human approval is missing'' None
     else if pd_decision pg = ''PASS''
     then step_of ''READY_FOR_MERGE_OR_PUSH'' ''all reports, gates, and human approval are in place''
       (Some (generate_prompt c RELEASE_OPERATOR))
     else step_of ''REQUEST_HUMAN_REVIEW'' ''workflow state is ambiguous; a human should inspect the evidence'' None))))"

section \<open>Reachable task states\<close>

inductive delivers :: "task_event list \<Rightarrow> task_state \<Rightarrow> bool" where
  delivers_start: "delivers [] DRAFT"
| delivers_step: "delivers es s \<Longrightarrow> transition s e = Inr s' \<Longrightarrow> delivers (es @ [e]) s'"

inductive_cases delivers_NilE: "delivers [] s"

lemma transition_iff:
  "transition s e = Inr s' \<longleftrightarrow> (e = BLOCKED_EVENT \<and> s \<noteq> DONE \<and> s' = BLOCKED) \<or> ((s, e), s') \<in> set TRANSITIONS"
  by (cases s; cases e) (auto simp: transition_def TRANSITIONS_def)

text \<open>What the last events of a history were, state by state.\<close>

definition build_events :: "task_event list" where
  "build_events = [IMPLEMENTATION_STARTED, IMPLEMENTATION_REPORT_INGESTED]"

definition verify_events :: "task_event list" where
  "verify_events = build_events @ [VERIFICATION_REQUESTED, VERIFICATION_PASSED]"

definition approve_events :: "task_event list" where
  "approve_events = verify_events @ [CHANGEGATE_PASSED, HUMAN_APPROVED]"

fun recent_events :: "task_state \<Rightarrow> task_event list" where
  "recent_events IMPLEMENTING = [IMPLEMENTATION_STARTED]"
| "recent_events IMPLEMENTED = build_events"
| "recent_events READY_FOR_VERIFICATION = build_events @ [VERIFICATION_REQUESTED]"
| "recent_events VERIFIED_PASS = verify_events"
| "recent_events READY_FOR_HUMAN_APPROVAL = verify_events @ [CHANGEGATE_PASSED]"
| "recent_events APPROVED = approve_events"
| "recent_events DONE = approve_events @ [MERGED]"
| "recent_events BLOCKED = [BLOCKED_EVENT]"
| "recent_events s = []"

lemma delivers_invariant:
  "delivers es s \<Longrightarrow> s \<noteq> READY_FOR_MERGE \<and> suffix (recent_events s) es \<and> (s \<noteq> DRAFT \<longrightarrow> es \<noteq> [])"
proof (induction rule: delivers.induct)
  case (delivers_step es s e s')
  then have ih: "s \<noteq> READY_FOR_MERGE" "suffix (recent_events s) es" by simp_all
  have last_two: "suffix (xs @ [e]) (es @ [e])" if "suffix xs es" for xs using that by simp
  from delivers_step(2) show ?case
    unfolding transition_iff TRANSITIONS_def
    using ih by (auto simp: build_events_def verify_events_def approve_events_def suffix_def)
qed simp

lemma blocked_is_final: "transition BLOCKED e = Inr s \<Longrightarrow> s = BLOCKED"
  by (auto simp: transition_iff TRANSITIONS_def)

section \<open>What the guard lets through\<close>

text \<open>A report that the guard trusts in a slot, and that passed.\<close>

definition passing_report :: "task_contract \<Rightarrow> string \<Rightarrow> agent_report option \<Rightarrow> bool" where
  "passing_report c role report \<longleftrightarrow>
     (\<exists>r. report = Some r \<and> ar_parse_ok r \<and> ar_task_id r = tc_task_id c \<and> ar_role r = role \<and>
        ar_result r = ''PASS'' \<and> is_allowed_status_result role (ar_status r) ''PASS'')"

text \<open>Everything a delivery needs.\<close>

definition workflow_complete :: "guard_input \<Rightarrow> bool" where
  "workflow_complete g \<longleftrightarrow>
     passing_report (pg_contract g) ''implementer'' (pg_implementer_report g) \<and>
     passing_report (pg_contract g) ''verifier'' (pg_verifier_report g) \<and>
     validate_change_gate_decision (pg_contract g) (pg_changegate_decision g) = [] \<and>
     pg_human_approved g"

lemma identity_passing:
  "report_identity_error report c role = None \<and> result_of report = Some ''PASS'' \<longleftrightarrow> passing_report c role report"
  by (cases report) (auto simp: report_identity_error_def result_of_def passing_report_def)

lemma gate_steps_Nil: "gate_steps c gate = [] \<longleftrightarrow> validate_change_gate_decision c gate = []"
  by (auto simp: gate_steps_def validated_decision)

lemma guard_pass_iff:
  "pd_decision (evaluate_process_guard g) = ''PASS'' \<longleftrightarrow>
     (\<exists>a. action_of (pg_intended_action g) = Some a \<and> workflow_complete g \<and>
        (a \<noteq> CONTINUE \<longrightarrow> pg_task_state g \<in> set (VALID_SHIP_STATES a)))"
  (is "?pass \<longleftrightarrow> ?rhs")
proof -
  have steps: "open_steps g = [] \<longleftrightarrow> result_of (pg_implementer_report g) = Some ''PASS'' \<and>
      result_of (pg_verifier_report g) = Some ''PASS'' \<and>
      validate_change_gate_decision (pg_contract g) (pg_changegate_decision g) = []"
    by (auto simp: open_steps_def gate_steps_Nil)
  have ship: "pd_decision (ship_decision g a) = ''PASS'' \<longleftrightarrow>
      pg_task_state g \<in> set (VALID_SHIP_STATES a) \<and> open_steps g = [] \<and> pg_human_approved g" for a
    by (auto simp: ship_decision_def Let_def guard_block_def guard_review_def guard_pass_def)
  have cont: "pd_decision (continue_decision g) = ''PASS'' \<longleftrightarrow> open_steps g = [] \<and> pg_human_approved g"
    by (auto simp: continue_decision_def Let_def guard_review_def guard_pass_def)
  have block: "pd_decision (guard_block ss r) \<noteq> ''PASS''" for ss r by (simp add: guard_block_def)
  have acts: "a \<in> set SHIP_ACTIONS \<longleftrightarrow> a \<noteq> CONTINUE" for a by (cases a) (simp_all add: SHIP_ACTIONS_def)
  have complete: "workflow_complete g \<longleftrightarrow>
      report_identity_error (pg_implementer_report g) (pg_contract g) ''implementer'' = None \<and>
      report_identity_error (pg_verifier_report g) (pg_contract g) ''verifier'' = None \<and>
      open_steps g = [] \<and> pg_human_approved g"
    unfolding workflow_complete_def steps identity_passing [symmetric] by blast
  have res: "open_steps g = [] \<Longrightarrow> result_of (pg_implementer_report g) \<noteq> Some ''BLOCKED'' \<and>
      result_of (pg_verifier_report g) \<noteq> Some ''BLOCKED'' \<and> result_of (pg_verifier_report g) \<noteq> Some ''NEEDS_FIX''"
    by (simp add: steps)
  show ?thesis
    unfolding evaluate_process_guard_def complete
    by (auto simp: block ship cont acts res split: option.split)
qed

lemma recommendation_needs_pass:
  assumes "na_action (recommend_next_action c implementer verifier gate guard) = ''READY_FOR_MERGE_OR_PUSH''"
  shows "\<exists>pg. guard = Some pg \<and> pd_decision pg = ''PASS''"
  using assms by (auto simp: recommend_next_action_def split: option.splits prod.splits if_splits)

end
