(* ===== verification/Harness_Examples.thy ===== *)
theory Harness_Examples
  imports Harness_Process
begin

text \<open>
  Concrete inputs of the build harness: a contract, evidence for its one command, a change that the
  gate passes, the two agent reports and the question whether the change may be merged.
\<close>

definition hx_contract :: task_contract where
  "hx_contract = \<lparr>tc_task_id = ''T1'', tc_title = ''Fix'', tc_goal = ''Fix it'', allowed_paths = [''src/**''],
     forbidden_paths = [''src/ci/**''], acceptance_criteria = [''tests pass''], required_evidence = [''pytest -q''],
     tc_risk_level = ''low'', requires_human_approval_for = [''merge''], broad_scope_allowed = False\<rparr>"

definition hx_evidence :: pyval where
  "hx_evidence = VObj ''CommandEvidence''
     [(''command'', VStr ''pytest  -q''), (''exit_code'', VInt 0), (''completed'', VBool True),
      (''commit_sha'', VStr ''abc''), (''evidence_id'', VStr ''e1''), (''completed_at'', VNone),
      (''artifact_digest'', VNone)]"

definition hx_gate_input :: gate_input where
  "hx_gate_input = \<lparr>gi_contract = hx_contract, changed_files = [VStr ''./src/a.py''], tests_run = [],
     dependency_files_changed = [], gi_expected_commit_sha = ''abc'', test_evidence = [hx_evidence]\<rparr>"

definition hx_report_text :: "string \<Rightarrow> string \<Rightarrow> string" where
  "hx_report_text role status = (''machine_summary:'' @ [CHR 0x0A] @ ''  task_id: T1'' @ [CHR 0x0A] @ ''  role: '') @ role @ ([CHR 0x0A] @ ''  status: '') @ status @ ([CHR 0x0A] @ ''  result: PASS'' @ [CHR 0x0A] @ ''  files_changed:'' @ [CHR 0x0A]
           @ ''    - src/a.py'' @ [CHR 0x0A] @ ''  tests_run: []'' @ [CHR 0x0A]
           @ ''  blockers: []'' @ [CHR 0x0A])"

definition hx_report :: "string \<Rightarrow> string \<Rightarrow> agent_report" where
  "hx_report role status =
     \<lparr>ar_task_id = ''T1'', ar_role = role, ar_status = status, ar_result = ''PASS'',
      ar_files_changed = [''src/a.py''], ar_tests_run = [], ar_blockers = [], ar_next_action = None,
      ar_commit_sha = None, ar_raw_text = hx_report_text role status, ar_parse_ok = True, ar_parse_error = None\<rparr>"

definition hx_host :: host where
  "hx_host = \<lparr>py_str = (\<lambda>v. []), py_attr = (\<lambda>v k. None), py_lower = id, py_isdigit = (\<lambda>_. False), py_int = (\<lambda>_. None)\<rparr>"

definition hx_guard_input :: guard_input where
  "hx_guard_input = \<lparr>pg_contract = hx_contract, pg_task_state = APPROVED,
     pg_implementer_report = Some (hx_report ''implementer'' ''IMPLEMENTED''),
     pg_verifier_report = Some (hx_report ''verifier'' ''VERIFIED_PASS''),
     pg_changegate_decision = decision_obj (evaluate_change_gate hx_host hx_gate_input),
     pg_human_approved = True, pg_intended_action = Inr (VStr ''merge'')\<rparr>"

text \<open>The report of the verifier is read; its four stages are evaluated one by one.\<close>

definition hx_summary :: "(pyval \<times> pyval) list" where
  "hx_summary =
     [(VStr ''task_id'', VStr ''T1''), (VStr ''role'', VStr ''verifier''), (VStr ''status'', VStr ''VERIFIED_PASS''),
      (VStr ''result'', VStr ''PASS''), (VStr ''files_changed'', VList [VStr ''src/a.py'']),
      (VStr ''tests_run'', VList []), (VStr ''blockers'', VList [])]"

abbreviation hx_text :: string where
  "hx_text \<equiv> hx_report_text ''verifier'' ''VERIFIED_PASS''"

lemma hx_report_read: "parse_agent_report je hx_text = Inr (hx_report ''verifier'' ''VERIFIED_PASS'')"
proof -
  have "json_fences hx_text = []" by code_simp
  moreover have "yaml_blocks (split_on (CHR 0x0A) hx_text) = [hx_text]" by code_simp
  moreover have "parse_yamlish_block (py_chars hx_text) = Inr hx_summary" by code_simp
  moreover have "from_summary_dict hx_summary hx_text = Inr (hx_report ''verifier'' ''VERIFIED_PASS'')" by code_simp
  moreover have "length hx_text \<le> MAX_REPORT_BYTES" by (simp add: hx_report_text_def MAX_REPORT_BYTES_def)
  ultimately show ?thesis by (simp add: parse_agent_report_def)
qed

text \<open>The gate passes the change.\<close>

lemma hx_paths:
  "normalize_repo_path (VStr ''./src/a.py'') = Inr ''src/a.py''"
  "matches_any ''src/a.py'' [''src/**'']" "\<not> matches_any ''src/a.py'' [''src/ci/**'']"
  by code_simp+

lemma hx_evidence_ok:
  "command_evidence_error hx_evidence = None" "valid_ids [hx_evidence] = [''e1'']"
  "normalize_command ''pytest  -q'' = normalize_command ''pytest -q''"
  by code_simp+

lemma hx_gate: "gd_decision (evaluate_change_gate h hx_gate_input) = ''PASS''"
proof -
  have "proves hx_gate_input ''pytest -q'' hx_evidence"
    using hx_evidence_ok by (simp add: proves_def hx_gate_input_def hx_evidence_def attr_or_def attr_text_def)
  then show ?thesis
    unfolding gate_pass_iff passes_def Let_def
    using hx_paths hx_evidence_ok by (simp add: hx_gate_input_def hx_contract_def)
qed

lemma hx_guard: "pd_decision (evaluate_process_guard hx_guard_input) = ''PASS''"
proof -
  have gate: "validate_change_gate_decision hx_contract (decision_obj (evaluate_change_gate hx_host hx_gate_input)) = []"
    using genuine_pass_validates [OF hx_gate] by (simp add: hx_gate_input_def)
  have act: "action_of (Inr (VStr ''merge'')) = Some MERGE" by code_simp
  have allowed: "is_allowed_status_result ''implementer'' ''IMPLEMENTED'' ''PASS''"
    "is_allowed_status_result ''verifier'' ''VERIFIED_PASS'' ''PASS''" by code_simp+
  show ?thesis
    unfolding guard_pass_iff workflow_complete_def passing_report_def
    using gate act allowed by (simp add: hx_guard_input_def hx_report_def hx_contract_def)
qed

lemma hx_recommendation:
  "na_action (recommend_next_action hx_contract (Some (hx_report ''implementer'' ''IMPLEMENTED''))
     (Some (hx_report ''verifier'' ''VERIFIED_PASS'')) (Some (evaluate_change_gate hx_host hx_gate_input))
     (Some (evaluate_process_guard hx_guard_input))) = ''READY_FOR_MERGE_OR_PUSH''"
proof -
  have "\<not> upper_is ''PASS'' ''BLOCKED''" "\<not> upper_is ''PASS'' ''NEEDS_FIX''" by code_simp+
  then show ?thesis
    using hx_gate hx_guard
    by (simp add: recommend_next_action_def identity_error_def hx_report_def hx_contract_def first_error.simps)
qed

lemma hx_delivery:
  "delivers [CONTRACT_VALIDATED, IMPLEMENTATION_STARTED, IMPLEMENTATION_REPORT_INGESTED, VERIFICATION_REQUESTED,
     VERIFICATION_PASSED, CHANGEGATE_PASSED, HUMAN_APPROVED, MERGED] DONE"
proof -
  have run: "delivers es s \<Longrightarrow> foldl (\<lambda>r e. seqE r (\<lambda>s. transition s e)) (Inr s) fs = Inr s' \<Longrightarrow> delivers (es @ fs) s'"
    for es s fs s'
  proof (induction fs arbitrary: es s)
    case (Cons f fs)
    show ?case
    proof (cases "transition s f")
      case (Inl e)
      have "foldl (\<lambda>r e. seqE r (\<lambda>s. transition s e)) (Inl e) fs = Inl e" by (induction fs) simp_all
      with Inl Cons.prems show ?thesis by simp
    next
      case (Inr t)
      then show ?thesis using Cons.IH [OF delivers_step [OF Cons.prems(1) Inr]] Cons.prems(2) by simp
    qed
  qed simp
  show ?thesis
    using run [OF delivers_start, of "[CONTRACT_VALIDATED, IMPLEMENTATION_STARTED, IMPLEMENTATION_REPORT_INGESTED,
      VERIFICATION_REQUESTED, VERIFICATION_PASSED, CHANGEGATE_PASSED, HUMAN_APPROVED, MERGED]" DONE]
    by (simp add: transition_def TRANSITIONS_def)
qed

lemma hx_contract_ok: "contract_ok hx_contract"
  by code_simp

end
