(* ===== verification/Canonical_Time.thy ===== *)
theory Canonical_Time
  imports Canonical "HOL-Library.Log_Nat"
begin

text \<open>
  Time stamps and durations of \<open>build_harness/canonical.py\<close>.  \<open>datetime.strptime\<close> is written out for
  the one format that is used; a moment is the number of microseconds since 0001-01-01.  \<open>nd\<close> is the
  Unicode table of decimal digits, which \<open>\d\<close> and \<open>int\<close> consult: the value of a character that is
  one.  Durations are compared in double precision, written out as correctly rounded rationals.
\<close>

section \<open>Fields\<close>

type_synonym digit_table = "string \<Rightarrow> nat option"

definition digit_range :: "nat \<Rightarrow> nat \<Rightarrow> string \<Rightarrow> bool" where
  "digit_range lo hi c = (\<exists>k \<in> set [lo..<Suc hi]. c = [char_of (48 + k)])"

definition is_digit :: "digit_table \<Rightarrow> string \<Rightarrow> bool" where
  "is_digit nd c = (nd c \<noteq> None)"

definition number_of_digits :: "digit_table \<Rightarrow> string list \<Rightarrow> nat" where
  "number_of_digits nd = foldl (\<lambda>n c. 10 * n + (case nd c of None \<Rightarrow> 0 | Some k \<Rightarrow> k)) 0"

text \<open>The texts that a directive matches.\<close>

definition year_field :: "digit_table \<Rightarrow> string list \<Rightarrow> bool" where
  "year_field nd cs = (length cs = 4 \<and> list_all (is_digit nd) cs)"

fun month_field :: "string list \<Rightarrow> bool" where
  "month_field [a] = digit_range 1 9 a"
| "month_field [a, b] = (a = ''1'' \<and> digit_range 0 2 b \<or> a = ''0'' \<and> digit_range 1 9 b)"
| "month_field cs = False"

fun day_field :: "digit_table \<Rightarrow> string list \<Rightarrow> bool" where
  "day_field nd [a] = digit_range 1 9 a"
| "day_field nd [a, b] =
     (a = ''3'' \<and> digit_range 0 1 b \<or> digit_range 1 2 a \<and> is_digit nd b
      \<or> (a = ''0'' \<or> a = '' '') \<and> digit_range 1 9 b)"
| "day_field nd cs = False"

fun hour_field :: "digit_table \<Rightarrow> string list \<Rightarrow> bool" where
  "hour_field nd [a] = is_digit nd a"
| "hour_field nd [a, b] = (a = ''2'' \<and> digit_range 0 3 b \<or> digit_range 0 1 a \<and> is_digit nd b)"
| "hour_field nd cs = False"

fun minute_field :: "digit_table \<Rightarrow> string list \<Rightarrow> bool" where
  "minute_field nd [a] = is_digit nd a"
| "minute_field nd [a, b] = (digit_range 0 5 a \<and> is_digit nd b)"
| "minute_field nd cs = False"

fun second_field :: "digit_table \<Rightarrow> string list \<Rightarrow> bool" where
  "second_field nd [a] = is_digit nd a"
| "second_field nd [a, b] = (a = ''6'' \<and> digit_range 0 1 b \<or> digit_range 0 5 a \<and> is_digit nd b)"
| "second_field nd cs = False"

definition fraction_field :: "string list \<Rightarrow> bool" where
  "fraction_field cs = (cs \<noteq> [] \<and> length cs \<le> 6 \<and> list_all (digit_range 0 9) cs)"

text \<open>The characters in front of the first separator, and those behind it.\<close>

definition cut_at :: "string list \<Rightarrow> string list \<Rightarrow> string list \<times> string list option" where
  "cut_at seps cs =
     (let f = takeWhile (\<lambda>c. c \<notin> set seps) cs
      in (f, if length f < length cs then Some (drop (Suc (length f)) cs) else None))"

section \<open>The calendar\<close>

definition leap_year :: "nat \<Rightarrow> bool" where
  "leap_year y = (4 dvd y \<and> (\<not> 100 dvd y \<or> 400 dvd y))"

definition month_lengths :: "nat \<Rightarrow> nat list" where
  "month_lengths y = [31, if leap_year y then 29 else 28, 31, 30, 31, 30, 31, 31, 30, 31, 30, 31]"

text \<open>Microseconds since 0001-01-01, for a date that exists.\<close>

definition moment :: "nat \<Rightarrow> nat \<Rightarrow> nat \<Rightarrow> nat \<Rightarrow> nat \<Rightarrow> nat \<Rightarrow> nat \<Rightarrow> nat" where
  "moment y mo d h mi s us =
     ((((y - 1) * 365 + (y - 1) div 4 - (y - 1) div 100 + (y - 1) div 400
        + sum_list (take (mo - 1) (month_lengths y)) + (d - 1)) * 24 + h) * 3600 + mi * 60 + s) * 1000000 + us"

definition valid_date :: "nat \<Rightarrow> nat \<Rightarrow> nat \<Rightarrow> nat \<Rightarrow> bool" where
  "valid_date y mo d s = (1 \<le> y \<and> d \<le> month_lengths y ! (mo - 1) \<and> s \<le> 59)"

section \<open>Time stamps\<close>

definition parse_rfc3339_utc :: "digit_table \<Rightarrow> string \<Rightarrow> exn + nat" where
  "parse_rfc3339_utc nd s =
     (let (y, r1) = cut_at [''-''] (py_chars s);
          (mo, r2) = cut_at [''-''] (case r1 of None \<Rightarrow> [] | Some r \<Rightarrow> r);
          (d, r3) = cut_at [''T'', ''t''] (case r2 of None \<Rightarrow> [] | Some r \<Rightarrow> r);
          (h, r4) = cut_at ['':''] (case r3 of None \<Rightarrow> [] | Some r \<Rightarrow> r);
          (mi, r5) = cut_at ['':''] (case r4 of None \<Rightarrow> [] | Some r \<Rightarrow> r);
          (sec, r6) = cut_at [''.''] (case r5 of None \<Rightarrow> [] | Some r \<Rightarrow> r);
          (us, r7) = cut_at [''Z'', ''z''] (case r6 of None \<Rightarrow> [] | Some r \<Rightarrow> r);
          n = number_of_digits nd
      in if \<not> (year_field nd y \<and> month_field mo \<and> day_field nd d \<and> hour_field nd h \<and> minute_field nd mi
                \<and> second_field nd sec \<and> fraction_field us \<and> r7 = Some [])
         then Inl (ValueError ''time data does not match format'')
         else if \<not> valid_date (n y) (n mo) (n d) (n sec) then Inl (ValueError ''day is out of range for month'')
         else Inr (moment (n y) (n mo) (n d) (n h) (n mi) (n sec) (n us * 10 ^ (6 - length us))))"

text \<open>\<open>^\d{4}-\d{2}-\d{2}T\d{2}:\d{2}:\d{2}\.\d{6}Z$\<close>, a final newline included.\<close>

definition stamp_shape :: "digit_table \<Rightarrow> string \<Rightarrow> bool" where
  "stamp_shape nd s =
     (let cs = py_chars s;
          body = (if length cs = 28 \<and> last cs = [CHR 0x0A] then butlast cs else cs);
          marks = [(4, ''-''), (7, ''-''), (10, ''T''), (13, '':''), (16, '':''), (19, ''.''), (26, ''Z'')]
      in length body = 27 \<and>
         list_all (\<lambda>i. case map_of marks i of Some m \<Rightarrow> body ! i = m | None \<Rightarrow> is_digit nd (body ! i)) [0..<27])"

definition validate_rfc3339_utc :: "digit_table \<Rightarrow> string \<Rightarrow> pyval \<Rightarrow> exn + string" where
  "validate_rfc3339_utc nd fld v =
     seqE (require_str fld False v) (\<lambda>s.
       if \<not> stamp_shape nd s then Inl (P09BValidationError (fld @ '' must be strict UTC RFC3339''))
       else (case parse_rfc3339_utc nd s of
               Inl e \<Rightarrow> Inl (P09BValidationError (fld @ '' is not a valid timestamp: '' @ exn_msg e))
             | Inr t \<Rightarrow> Inr s))"

section \<open>Double precision\<close>

text \<open>The largest \<open>e\<close> with \<open>2 ^ e \<le> x\<close>, for a positive rational.\<close>

definition pow2 :: "int \<Rightarrow> rat" where
  "pow2 e = (if 0 \<le> e then 2 ^ nat e else 1 / 2 ^ nat (- e))"

definition exponent :: "rat \<Rightarrow> int" where
  "exponent x =
     (let (a, b) = quotient_of x; e = bitlen a - bitlen b
      in if pow2 e \<le> x then e else e - 1)"

text \<open>Rounding to the nearest integer, halves to the even one.\<close>

definition round_even :: "rat \<Rightarrow> int" where
  "round_even y =
     (let f = \<lfloor>y\<rfloor>; d = y - of_int f
      in if d < 1 / 2 \<or> (d = 1 / 2 \<and> even f) then f else f + 1)"

text \<open>The double nearest to a rational, which is far from overflow and underflow here.\<close>

definition to_double :: "rat \<Rightarrow> rat" where
  "to_double x =
     (if x = 0 then 0
      else let u = pow2 (exponent \<bar>x\<bar> - 52) in (if x < 0 then - 1 else 1) * of_int (round_even (\<bar>x\<bar> / u)) * u)"

section \<open>Durations\<close>

definition expected_ms :: "nat \<Rightarrow> nat \<Rightarrow> rat" where
  "expected_ms start finish =
     to_double (to_double (of_int (int finish - int start) / 1000000) * 1000)"

definition validate_duration_ms :: "digit_table \<Rightarrow> string \<Rightarrow> int \<Rightarrow> string \<Rightarrow> string \<Rightarrow> exn + unit" where
  "validate_duration_ms nd fld duration started completed =
     seqE (parse_rfc3339_utc nd started) (\<lambda>start.
     seqE (parse_rfc3339_utc nd completed) (\<lambda>finish.
       if 2 ^ 1024 - 2 ^ 970 \<le> \<bar>duration\<bar> then Inl (Exn ''OverflowError'' ''int too large to convert to float'')
       else if 1 < \<bar>to_double (to_double (of_int duration) - expected_ms start finish)\<bar>
       then Inl (P09BValidationError (fld @ '' disagrees with timestamps by more than 1ms''))
       else Inr ()))"

section \<open>Rounding errors\<close>

lemma pow2_pos [simp]: "0 < pow2 e"
  by (simp add: pow2_def)

lemma round_even_error: "\<bar>of_int (round_even y) - y\<bar> \<le> 1 / 2"
proof -
  have "of_int \<lfloor>y\<rfloor> \<le> y" "y < of_int \<lfloor>y\<rfloor> + 1" by linarith+
  then show ?thesis unfolding round_even_def Let_def abs_le_iff by (simp split: if_split) linarith
qed

lemma pow2_nonzero [simp]: "pow2 e \<noteq> 0"
  using pow2_pos [of e] by linarith

lemma pow2_add: "pow2 (a + b) = pow2 a * pow2 b"
proof -
  have powi: "pow2 e = 2 powi e" for e by (simp add: pow2_def power_int_def power_one_over)
  show ?thesis unfolding powi by (rule power_int_add) simp
qed

lemma exponent_le: "0 < x \<Longrightarrow> pow2 (exponent x) \<le> x"
proof -
  assume x: "0 < x"
  obtain a b where q: "quotient_of x = (a, b)" by (rule prod.exhaust)
  have b: "0 < b" using quotient_of_denom_pos [OF q] .
  have xe: "x = of_int a / of_int b" using quotient_of_div [OF q] .
  with x b have a: "0 < a" by (simp add: zero_less_divide_iff)
  have bounds: "pow2 (bitlen a - 1) \<le> of_int a" "of_int b \<le> pow2 (bitlen b)"
  proof -
    have "1 \<le> bitlen a" using a by (simp add: bitlen_alt_def)
    moreover have "(of_int (2 ^ nat (bitlen a - 1)) :: rat) \<le> of_int a" using bitlen_bounds [OF a] of_int_le_iff by blast
    ultimately show "pow2 (bitlen a - 1) \<le> of_int a" by (simp add: pow2_def)
    have "(of_int b :: rat) \<le> of_int (2 ^ nat (bitlen b))" using bitlen_bounds [OF b] by (simp only: of_int_le_iff less_imp_le)
    then show "of_int b \<le> pow2 (bitlen b)" using bitlen_nonneg [of b] by (simp add: pow2_def)
  qed
  have "pow2 (bitlen a - bitlen b - 1) * pow2 (bitlen b) = pow2 (bitlen a - 1)"
    by (simp add: flip: pow2_add)
  then have "pow2 (bitlen a - bitlen b - 1) * of_int b \<le> of_int a"
    using bounds mult_left_mono [OF bounds(2), of "pow2 (bitlen a - bitlen b - 1)"] pow2_pos less_imp_le by (metis order_trans)
  then have "pow2 (bitlen a - bitlen b - 1) \<le> x" using b by (simp add: xe pos_le_divide_eq)
  then show ?thesis by (simp add: exponent_def q Let_def)
qed

lemma to_double_error: "\<bar>to_double x - x\<bar> \<le> \<bar>x\<bar> / 2 ^ 53"
proof (cases "x = 0")
  case False
  let ?a = "\<bar>x\<bar>" and ?u = "pow2 (exponent \<bar>x\<bar> - 52)"
  have a: "0 < ?a" using False by simp
  have u: "?u * 2 ^ 52 \<le> ?a"
  proof -
    have "?u * pow2 52 = pow2 (exponent ?a)" by (simp flip: pow2_add)
    then show ?thesis using exponent_le [OF a] by (simp add: pow2_def)
  qed
  have "of_int (round_even (?a / ?u)) * ?u - ?a = (of_int (round_even (?a / ?u)) - ?a / ?u) * ?u"
    by (simp add: left_diff_distrib)
  then have "\<bar>of_int (round_even (?a / ?u)) * ?u - ?a\<bar> = \<bar>of_int (round_even (?a / ?u)) - ?a / ?u\<bar> * ?u"
    by (simp only: abs_mult) (simp add: abs_of_pos)
  also have "\<dots> \<le> 1 / 2 * ?u" by (rule mult_right_mono [OF round_even_error less_imp_le [OF pow2_pos]])
  also have "\<dots> \<le> ?a / 2 ^ 53" using u by simp
  finally have "\<bar>of_int (round_even (?a / ?u)) * ?u - ?a\<bar> \<le> ?a / 2 ^ 53" .
  then show ?thesis using False by (auto simp: to_double_def Let_def abs_if split: if_splits)
qed (simp add: to_double_def)

lemma near_bounds:
  fixes p q :: rat
  assumes "\<bar>p - q\<bar> \<le> \<bar>q\<bar> / 2 ^ 53"
  shows "\<bar>q\<bar> * (1 - 1 / 2 ^ 53) \<le> \<bar>p\<bar>" and "\<bar>p\<bar> \<le> \<bar>q\<bar> * (1 + 1 / 2 ^ 53)"
proof -
  have "\<bar>q\<bar> \<le> \<bar>p\<bar> + \<bar>p - q\<bar>" "\<bar>p\<bar> \<le> \<bar>q\<bar> + \<bar>p - q\<bar>" by linarith+
  with assms show "\<bar>q\<bar> * (1 - 1 / 2 ^ 53) \<le> \<bar>p\<bar>" "\<bar>p\<bar> \<le> \<bar>q\<bar> * (1 + 1 / 2 ^ 53)"
    by (simp_all add: algebra_simps)
qed

text \<open>
  For spans up to \<open>2 ^ 50\<close> microseconds (35 years) the rounding is invisible except at the
  tolerance itself.
\<close>

lemma duration_rounding:
  fixes d :: int and start finish :: nat
  defines "n \<equiv> int finish - int start"
    and "gap \<equiv> \<bar>to_double (to_double (of_int d) - expected_ms start finish)\<bar>"
  assumes "\<bar>n\<bar> \<le> 2 ^ 50"
  shows "gap \<le> 1 \<Longrightarrow> \<bar>1000 * d - n\<bar> \<le> 1000" and "\<bar>1000 * d - n\<bar> < 1000 \<Longrightarrow> gap \<le> 1"
proof -
  let ?n = "of_int n :: rat" and ?d = "of_int d :: rat"
  let ?x = "to_double (?n / 1000000)" and ?e = "expected_ms start finish"
  let ?y = "to_double ?d - ?e"
  have n: "\<bar>?n\<bar> \<le> 2 ^ 50" using assms(3) by (metis of_int_abs of_int_le_iff of_int_numeral of_int_power)
  have x: "\<bar>?x - ?n / 1000000\<bar> \<le> \<bar>?n / 1000000\<bar> / 2 ^ 53" by (rule to_double_error)
  have e: "\<bar>?e - ?x * 1000\<bar> \<le> \<bar>?x * 1000\<bar> / 2 ^ 53"
    unfolding expected_ms_def n_def [symmetric] by (rule to_double_error)
  have dd: "\<bar>to_double ?d - ?d\<bar> \<le> \<bar>?d\<bar> / 2 ^ 53" by (rule to_double_error)
  have y: "\<bar>to_double ?y - ?y\<bar> \<le> \<bar>?y\<bar> / 2 ^ 53" by (rule to_double_error)
  have n6: "\<bar>?n / 1000000\<bar> \<le> 1125899907" using n by (simp add: abs_divide)
  then have "\<bar>?x - ?n / 1000000\<bar> \<le> 13 / 100000000" using x by simp
  then have x1: "\<bar>?x * 1000 - ?n / 1000\<bar> \<le> 13 / 100000" and xb: "\<bar>?x * 1000\<bar> \<le> 1125899908000"
    using n6 by linarith+
  have "\<bar>?e - ?x * 1000\<bar> \<le> 13 / 100000" using e xb by simp
  then have close: "\<bar>?e - ?n / 1000\<bar> \<le> 26 / 100000" using x1 by linarith
  note yb = near_bounds [OF y] and db = near_bounds [OF dd]
  have eb: "\<bar>?e\<bar> \<le> 1125899909000" using close xb x1 by linarith
  have d_near: "\<bar>to_double ?d - ?d\<bar> \<le> 13 / 100000" if "\<bar>?d\<bar> \<le> 1125899915000"
    using dd that by simp
  show "\<bar>1000 * d - n\<bar> \<le> 1000" if g: "gap \<le> 1"
  proof -
    have yy: "\<bar>?y\<bar> \<le> 1 + 1 / 100000" using g yb(1) unfolding gap_def by simp
    then have "\<bar>to_double ?d\<bar> \<le> 1125899911000" using eb by linarith
    then have "\<bar>?d\<bar> \<le> 1125899915000" using db(1) by simp
    then have "\<bar>?d - ?n / 1000\<bar> \<le> 1 + 41 / 100000" using d_near close yy by linarith
    then have "\<bar>1000 * ?d - ?n\<bar> < 1001" by linarith
    then have "of_int \<bar>1000 * d - n\<bar> < (of_int 1001 :: rat)" by simp
    then show ?thesis unfolding of_int_less_iff by linarith
  qed
  show "gap \<le> 1" if g: "\<bar>1000 * d - n\<bar> < 1000"
  proof -
    from g have "of_int \<bar>1000 * d - n\<bar> \<le> (of_int 999 :: rat)" unfolding of_int_le_iff by linarith
    then have d: "\<bar>1000 * ?d - ?n\<bar> \<le> 999" by simp
    then have "\<bar>?d\<bar> \<le> 1125899915000" using n by simp
    then have "\<bar>?y\<bar> \<le> 1 - 1 / 10000" using d d_near close by linarith
    then show ?thesis using yb(2) unfolding gap_def by simp
  qed
qed

end
