(* ===== verification/Repository_Models.thy ===== *)
theory Repository_Models
  imports Canonical_Time Str_Enum
begin

text \<open>
  \<open>build_harness/repository_models.py\<close>: the closed enums of the evidence models, the readers they
  share, and the three immutable models of a candidate, a repository snapshot and a required
  command, each with its constructor checks and its JSON form.

  A constructor takes the keyword arguments of the call as dynamic values and returns the record
  with typed fields.  Error messages name the field and leave out the printed value.
\<close>

section \<open>Closed enums\<close>

datatype git_object_format =
    SHA1 | SHA256

fun git_object_format_value :: "git_object_format \<Rightarrow> string" where
  "git_object_format_value git_object_format.SHA1 = ''sha1''"
| "git_object_format_value git_object_format.SHA256 = ''sha256''"

definition git_object_format_members :: "git_object_format list" where
  "git_object_format_members =
    [git_object_format.SHA1, git_object_format.SHA256]"

datatype dirty_state =
    CLEAN | DIRTY

fun dirty_state_value :: "dirty_state \<Rightarrow> string" where
  "dirty_state_value dirty_state.CLEAN = ''CLEAN''"
| "dirty_state_value dirty_state.DIRTY = ''DIRTY''"

definition dirty_state_members :: "dirty_state list" where
  "dirty_state_members =
    [dirty_state.CLEAN, dirty_state.DIRTY]"

datatype evidence_source =
    LOCAL_CONTROLLED_COLLECTOR | IMPORTED_CLAIM

fun evidence_source_value :: "evidence_source \<Rightarrow> string" where
  "evidence_source_value evidence_source.LOCAL_CONTROLLED_COLLECTOR = ''LOCAL_CONTROLLED_COLLECTOR''"
| "evidence_source_value evidence_source.IMPORTED_CLAIM = ''IMPORTED_CLAIM''"

definition evidence_source_members :: "evidence_source list" where
  "evidence_source_members =
    [evidence_source.LOCAL_CONTROLLED_COLLECTOR, evidence_source.IMPORTED_CLAIM]"

datatype verification_status =
    VERIFIED | STALE | REPOSITORY_MISMATCH | COMMIT_MISMATCH | TREE_MISMATCH
    | DIRTY_WORKTREE | COMMAND_MISMATCH | EXECUTION_FAILED | SNAPSHOT_CHANGED
    | DUPLICATE_IDENTITY | INVALID_PROVENANCE | UNSUPPORTED_SCHEMA | UNSUPPORTED_COLLECTOR
    | INSPECTION_FAILED

fun verification_status_value :: "verification_status \<Rightarrow> string" where
  "verification_status_value verification_status.VERIFIED = ''VERIFIED''"
| "verification_status_value verification_status.STALE = ''STALE''"
| "verification_status_value verification_status.REPOSITORY_MISMATCH = ''REPOSITORY_MISMATCH''"
| "verification_status_value verification_status.COMMIT_MISMATCH = ''COMMIT_MISMATCH''"
| "verification_status_value verification_status.TREE_MISMATCH = ''TREE_MISMATCH''"
| "verification_status_value verification_status.DIRTY_WORKTREE = ''DIRTY_WORKTREE''"
| "verification_status_value verification_status.COMMAND_MISMATCH = ''COMMAND_MISMATCH''"
| "verification_status_value verification_status.EXECUTION_FAILED = ''EXECUTION_FAILED''"
| "verification_status_value verification_status.SNAPSHOT_CHANGED = ''SNAPSHOT_CHANGED''"
| "verification_status_value verification_status.DUPLICATE_IDENTITY = ''DUPLICATE_IDENTITY''"
| "verification_status_value verification_status.INVALID_PROVENANCE = ''INVALID_PROVENANCE''"
| "verification_status_value verification_status.UNSUPPORTED_SCHEMA = ''UNSUPPORTED_SCHEMA''"
| "verification_status_value verification_status.UNSUPPORTED_COLLECTOR = ''UNSUPPORTED_COLLECTOR''"
| "verification_status_value verification_status.INSPECTION_FAILED = ''INSPECTION_FAILED''"

definition verification_status_members :: "verification_status list" where
  "verification_status_members =
    [verification_status.VERIFIED, verification_status.STALE
     , verification_status.REPOSITORY_MISMATCH, verification_status.COMMIT_MISMATCH
     , verification_status.TREE_MISMATCH, verification_status.DIRTY_WORKTREE
     , verification_status.COMMAND_MISMATCH, verification_status.EXECUTION_FAILED
     , verification_status.SNAPSHOT_CHANGED, verification_status.DUPLICATE_IDENTITY
     , verification_status.INVALID_PROVENANCE, verification_status.UNSUPPORTED_SCHEMA
     , verification_status.UNSUPPORTED_COLLECTOR, verification_status.INSPECTION_FAILED]"

datatype inspection_error_code =
    GIT_UNAVAILABLE | NOT_A_REPOSITORY | TIMEOUT | MALFORMED_OUTPUT | UNBORN_BRANCH
    | REPOSITORY_CHANGED | PERMISSION_DENIED | SUBMODULE_UNSUPPORTED | PATH_MISSING
    | CANDIDATE_MISSING | CANDIDATE_NOT_HEAD | BASE_NOT_ANCESTOR | DIRTY_WORKTREE
    | UNKNOWN_GIT_FAILURE

fun inspection_error_code_value :: "inspection_error_code \<Rightarrow> string" where
  "inspection_error_code_value inspection_error_code.GIT_UNAVAILABLE = ''GIT_UNAVAILABLE''"
| "inspection_error_code_value inspection_error_code.NOT_A_REPOSITORY = ''NOT_A_REPOSITORY''"
| "inspection_error_code_value inspection_error_code.TIMEOUT = ''TIMEOUT''"
| "inspection_error_code_value inspection_error_code.MALFORMED_OUTPUT = ''MALFORMED_OUTPUT''"
| "inspection_error_code_value inspection_error_code.UNBORN_BRANCH = ''UNBORN_BRANCH''"
| "inspection_error_code_value inspection_error_code.REPOSITORY_CHANGED = ''REPOSITORY_CHANGED''"
| "inspection_error_code_value inspection_error_code.PERMISSION_DENIED = ''PERMISSION_DENIED''"
| "inspection_error_code_value inspection_error_code.SUBMODULE_UNSUPPORTED = ''SUBMODULE_UNSUPPORTED''"
| "inspection_error_code_value inspection_error_code.PATH_MISSING = ''PATH_MISSING''"
| "inspection_error_code_value inspection_error_code.CANDIDATE_MISSING = ''CANDIDATE_MISSING''"
| "inspection_error_code_value inspection_error_code.CANDIDATE_NOT_HEAD = ''CANDIDATE_NOT_HEAD''"
| "inspection_error_code_value inspection_error_code.BASE_NOT_ANCESTOR = ''BASE_NOT_ANCESTOR''"
| "inspection_error_code_value inspection_error_code.DIRTY_WORKTREE = ''DIRTY_WORKTREE''"
| "inspection_error_code_value inspection_error_code.UNKNOWN_GIT_FAILURE = ''UNKNOWN_GIT_FAILURE''"

definition inspection_error_code_members :: "inspection_error_code list" where
  "inspection_error_code_members =
    [inspection_error_code.GIT_UNAVAILABLE, inspection_error_code.NOT_A_REPOSITORY
     , inspection_error_code.TIMEOUT, inspection_error_code.MALFORMED_OUTPUT
     , inspection_error_code.UNBORN_BRANCH, inspection_error_code.REPOSITORY_CHANGED
     , inspection_error_code.PERMISSION_DENIED, inspection_error_code.SUBMODULE_UNSUPPORTED
     , inspection_error_code.PATH_MISSING, inspection_error_code.CANDIDATE_MISSING
     , inspection_error_code.CANDIDATE_NOT_HEAD, inspection_error_code.BASE_NOT_ANCESTOR
     , inspection_error_code.DIRTY_WORKTREE, inspection_error_code.UNKNOWN_GIT_FAILURE]"

datatype execution_error_code =
    EXECUTABLE_UNAVAILABLE | INVALID_WORKING_DIRECTORY | TIMEOUT | OUTPUT_LIMIT_EXCEEDED
    | PERMISSION_DENIED | INTERRUPTED | FAILED_TO_START | UNKNOWN_EXECUTION_FAILURE

fun execution_error_code_value :: "execution_error_code \<Rightarrow> string" where
  "execution_error_code_value execution_error_code.EXECUTABLE_UNAVAILABLE = ''EXECUTABLE_UNAVAILABLE''"
| "execution_error_code_value execution_error_code.INVALID_WORKING_DIRECTORY = ''INVALID_WORKING_DIRECTORY''"
| "execution_error_code_value execution_error_code.TIMEOUT = ''TIMEOUT''"
| "execution_error_code_value execution_error_code.OUTPUT_LIMIT_EXCEEDED = ''OUTPUT_LIMIT_EXCEEDED''"
| "execution_error_code_value execution_error_code.PERMISSION_DENIED = ''PERMISSION_DENIED''"
| "execution_error_code_value execution_error_code.INTERRUPTED = ''INTERRUPTED''"
| "execution_error_code_value execution_error_code.FAILED_TO_START = ''FAILED_TO_START''"
| "execution_error_code_value execution_error_code.UNKNOWN_EXECUTION_FAILURE = ''UNKNOWN_EXECUTION_FAILURE''"

definition execution_error_code_members :: "execution_error_code list" where
  "execution_error_code_members =
    [execution_error_code.EXECUTABLE_UNAVAILABLE
     , execution_error_code.INVALID_WORKING_DIRECTORY, execution_error_code.TIMEOUT
     , execution_error_code.OUTPUT_LIMIT_EXCEEDED, execution_error_code.PERMISSION_DENIED
     , execution_error_code.INTERRUPTED, execution_error_code.FAILED_TO_START
     , execution_error_code.UNKNOWN_EXECUTION_FAILURE]"

interpretation git_object_format_enum: str_enum git_object_format_members git_object_format_value
  using git_object_format.nchotomy by unfold_locales (auto simp: git_object_format_members_def)

interpretation dirty_state_enum: str_enum dirty_state_members dirty_state_value
  using dirty_state.nchotomy by unfold_locales (auto simp: dirty_state_members_def)

interpretation evidence_source_enum: str_enum evidence_source_members evidence_source_value
  using evidence_source.nchotomy by unfold_locales (auto simp: evidence_source_members_def)

interpretation verification_status_enum: str_enum verification_status_members verification_status_value
  using verification_status.nchotomy by unfold_locales (auto simp: verification_status_members_def)

interpretation inspection_error_code_enum: str_enum inspection_error_code_members inspection_error_code_value
  using inspection_error_code.nchotomy by unfold_locales (auto simp: inspection_error_code_members_def)

interpretation execution_error_code_enum: str_enum execution_error_code_members execution_error_code_value
  using execution_error_code.nchotomy by unfold_locales (auto simp: execution_error_code_members_def)

section \<open>Readers\<close>

definition require_schema :: "string \<Rightarrow> string \<Rightarrow> pyval \<Rightarrow> exn + string" where
  "require_schema fld expected v =
     (if v = VStr expected then Inr expected
      else Inl (P09BValidationError (fld @ '' must be exactly '' @ expected)))"

text \<open>\<open>_enum\<close>: a member of the class itself, or an exact string that is the value of one.\<close>

definition p09b_enum :: "string \<Rightarrow> 'a list \<Rightarrow> ('a \<Rightarrow> string) \<Rightarrow> string \<Rightarrow> pyval \<Rightarrow> exn + 'a" where
  "p09b_enum cls members val fld v =
     (let invalid = P09BValidationError (fld @ '' is not a valid '' @ cls);
          look = (\<lambda>t. case find (\<lambda>m. val m = t) members of None \<Rightarrow> Inl invalid | Some m \<Rightarrow> Inr m)
      in case v of
           VStr t \<Rightarrow> look t
         | VEnum c t \<Rightarrow> if c = cls then look t else Inl invalid
         | _ \<Rightarrow> Inl invalid)"

definition p09b_mapping :: "string \<Rightarrow> pyval \<Rightarrow> exn + (pyval \<times> pyval) list" where
  "p09b_mapping model v =
     (case v of VDict kvs \<Rightarrow> Inr kvs
      | _ \<Rightarrow> Inl (P09BValidationError (model @ '': root must be a mapping'')))"

text \<open>
  The names of the unknown keys are sorted for the message before anything is raised, which fails
  on keys that have no order: two or more that are neither all texts nor all numbers.  (Tuples as
  keys are counted among the latter.)
\<close>

fun is_number :: "pyval \<Rightarrow> bool" where
  "is_number (VInt i) = True"
| "is_number (VBool b) = True"
| "is_number (VFloat f) = True"
| "is_number v = False"

definition sortable :: "pyval list \<Rightarrow> bool" where
  "sortable ks = (length ks \<le> 1 \<or> list_all (\<lambda>k. text_of k \<noteq> None) ks \<or> list_all is_number ks)"

definition p09b_exact_keys :: "string \<Rightarrow> string list \<Rightarrow> (pyval \<times> pyval) list \<Rightarrow> exn + unit" where
  "p09b_exact_keys model required kvs =
     (let ks = map fst kvs;
          unknown = filter (\<lambda>k. case text_of k of None \<Rightarrow> True | Some t \<Rightarrow> t \<notin> set required) ks
      in raise_first
        [(\<not> sortable unknown, Exn ''TypeError'' ''keys cannot be ordered''),
         (\<not> set required \<subseteq> set (List.map_filter text_of ks),
            P09BValidationError (model @ '': missing field(s)'')),
         (unknown \<noteq> [], P09BValidationError (model @ '': unknown field(s)''))])"

definition tuple_from_json_list :: "string \<Rightarrow> pyval \<Rightarrow> exn + pyval" where
  "tuple_from_json_list fld v =
     (case v of VList vs \<Rightarrow> Inr (VTuple vs)
      | _ \<Rightarrow> Inl (P09BValidationError (fld @ '' must be a JSON list'')))"

text \<open>
  A call of a dataclass constructor with keyword arguments: exactly the fields must be given.
  \<open>call_args\<close> is the call that \<open>from_json_dict\<close> makes, with the entries of the mapping but for
  those that were converted.
\<close>

definition bind_args :: "string list \<Rightarrow> kwargs \<Rightarrow> exn + unit" where
  "bind_args names kw =
     (if set (map fst kw) = set names then Inr ()
      else Inl (Exn ''TypeError'' ''missing or unexpected keyword argument''))"

definition arg :: "kwargs \<Rightarrow> string \<Rightarrow> pyval" where
  "arg kw k = (case map_of kw k of None \<Rightarrow> VNone | Some v \<Rightarrow> v)"

definition call_args :: "string list \<Rightarrow> kwargs \<Rightarrow> (pyval \<times> pyval) list \<Rightarrow> kwargs" where
  "call_args names converted d =
     map (\<lambda>k. (k, case map_of converted k of Some v \<Rightarrow> v | None \<Rightarrow> dict_get d k)) names"

definition str_list :: "string list \<Rightarrow> pyval" where
  "str_list xs = VList (map VStr xs)"

definition str_tuple :: "string list \<Rightarrow> pyval" where
  "str_tuple xs = VTuple (map VStr xs)"

section \<open>Candidate binding\<close>

record candidate_binding =
  cb_schema_version :: string
  cb_repository_id :: string
  cb_object_format :: git_object_format
  cb_base_commit_sha :: string
  cb_candidate_commit_sha :: string
  cb_candidate_tree_sha :: string
  cb_contract_digest :: string
  cb_changed_files_digest :: string

definition candidate_binding_keys :: "string list" where
  "candidate_binding_keys =
     [''schema_version'', ''repository_id'', ''object_format'', ''base_commit_sha'', ''candidate_commit_sha'',
      ''candidate_tree_sha'', ''contract_digest'', ''changed_files_digest'']"

abbreviation read_object_format :: "string \<Rightarrow> pyval \<Rightarrow> exn + git_object_format" where
  "read_object_format \<equiv> p09b_enum ''GitObjectFormat'' git_object_format_members git_object_format_value"

definition candidate_binding_init :: "kwargs \<Rightarrow> exn + candidate_binding" where
  "candidate_binding_init kw =
     seqE (bind_args candidate_binding_keys kw) (\<lambda>_.
     seqE (require_schema ''schema_version'' ''p0-9b.candidate-binding.v1'' (arg kw ''schema_version'')) (\<lambda>sv.
     seqE (validate_sha256_digest ''repository_id'' (arg kw ''repository_id'')) (\<lambda>repo.
     seqE (read_object_format ''object_format'' (arg kw ''object_format'')) (\<lambda>fmt.
     seqE (validate_git_object_sha ''base_commit_sha'' (git_object_format_value fmt)
       (arg kw ''base_commit_sha'')) (\<lambda>base.
     seqE (validate_git_object_sha ''candidate_commit_sha'' (git_object_format_value fmt)
       (arg kw ''candidate_commit_sha'')) (\<lambda>commit.
     seqE (validate_git_object_sha ''candidate_tree_sha'' (git_object_format_value fmt)
       (arg kw ''candidate_tree_sha'')) (\<lambda>tree.
     seqE (validate_sha256_digest ''contract_digest'' (arg kw ''contract_digest'')) (\<lambda>contract.
     seqE (validate_sha256_digest ''changed_files_digest'' (arg kw ''changed_files_digest'')) (\<lambda>changed.
       Inr \<lparr>cb_schema_version = sv, cb_repository_id = repo, cb_object_format = fmt,
            cb_base_commit_sha = base, cb_candidate_commit_sha = commit, cb_candidate_tree_sha = tree,
            cb_contract_digest = contract, cb_changed_files_digest = changed\<rparr>)))))))))"

definition candidate_binding_items :: "candidate_binding \<Rightarrow> kwargs" where
  "candidate_binding_items c =
     [(''schema_version'', VStr (cb_schema_version c)), (''repository_id'', VStr (cb_repository_id c)),
      (''object_format'', VStr (git_object_format_value (cb_object_format c))),
      (''base_commit_sha'', VStr (cb_base_commit_sha c)),
      (''candidate_commit_sha'', VStr (cb_candidate_commit_sha c)),
      (''candidate_tree_sha'', VStr (cb_candidate_tree_sha c)),
      (''contract_digest'', VStr (cb_contract_digest c)),
      (''changed_files_digest'', VStr (cb_changed_files_digest c))]"

definition candidate_binding_to_json :: "candidate_binding \<Rightarrow> pyval" where
  "candidate_binding_to_json c = dict_of (candidate_binding_items c)"

definition candidate_binding_from_json :: "pyval \<Rightarrow> exn + candidate_binding" where
  "candidate_binding_from_json v =
     seqE (p09b_mapping ''CandidateBinding'' v) (\<lambda>d.
     seqE (p09b_exact_keys ''CandidateBinding'' candidate_binding_keys d) (\<lambda>_.
     seqE (read_object_format ''object_format'' (dict_get d ''object_format'')) (\<lambda>fmt.
       candidate_binding_init (call_args candidate_binding_keys
         [(''object_format'', VEnum ''GitObjectFormat'' (git_object_format_value fmt))] d))))"

section \<open>Repository snapshot\<close>

definition validate_sorted_unique_paths ::
  "(string \<Rightarrow> string) \<Rightarrow> string \<Rightarrow> pyval \<Rightarrow> exn + string list" where
  "validate_sorted_unique_paths nfc fld v =
     seqE (require_str_tuple fld v) (\<lambda>ps.
     seqE (mapE (\<lambda>p. validate_repo_path nfc fld (VStr p)) ps) (\<lambda>_.
     seqE (raise_first
       [(ps \<noteq> sort ps, P09BValidationError (fld @ '' must be lexicographically sorted'')),
        (\<not> distinct ps, P09BValidationError (fld @ '' must not contain duplicates''))])
     (\<lambda>_. Inr ps)))"

record repository_snapshot =
  sn_schema_version :: string
  sn_snapshot_id :: string
  sn_repository_id :: string
  sn_repository_root_hint :: string
  sn_object_format :: git_object_format
  sn_head_commit_sha :: string
  sn_head_tree_sha :: string
  sn_base_commit_sha :: string
  sn_branch_name :: "string option"
  sn_detached_head :: bool
  sn_staged_changes :: "string list"
  sn_unstaged_changes :: "string list"
  sn_untracked_files :: "string list"
  sn_submodule_changes :: "string list"
  sn_changed_files :: "string list"
  sn_changed_files_digest :: string
  sn_is_release_clean :: bool
  sn_captured_at :: string
  sn_inspector_version :: string

definition snapshot_keys :: "string list" where
  "snapshot_keys =
     [''schema_version'', ''snapshot_id'', ''repository_id'', ''repository_root_hint'', ''object_format'',
      ''head_commit_sha'', ''head_tree_sha'', ''base_commit_sha'', ''branch_name'', ''detached_head'',
      ''staged_changes'', ''unstaged_changes'', ''untracked_files'', ''submodule_changes'', ''changed_files'',
      ''changed_files_digest'', ''is_release_clean'', ''captured_at'', ''inspector_version'']"

text \<open>A detached head has no branch, any other has a branch with a name.\<close>

definition branch_check :: "bool \<Rightarrow> pyval \<Rightarrow> exn + string option" where
  "branch_check detached v =
     (if detached
      then (if v = VNone then Inr None
            else Inl (P09BValidationError ''detached_head=True requires branch_name=None''))
      else (case v of
              VStr s \<Rightarrow>
                if s = [] then Inl (P09BValidationError ''detached_head=False requires a non-empty branch_name'')
                else Inr (Some s)
            | _ \<Rightarrow> Inl (P09BValidationError ''detached_head=False requires a non-empty branch_name'')))"

definition snapshot_init ::
  "(string \<Rightarrow> string) \<Rightarrow> digit_table \<Rightarrow> kwargs \<Rightarrow> exn + repository_snapshot" where
  "snapshot_init nfc nd kw =
     seqE (bind_args snapshot_keys kw) (\<lambda>_.
     seqE (require_schema ''schema_version'' ''p0-9b.repository-snapshot.v1'' (arg kw ''schema_version'')) (\<lambda>sv.
     seqE (validate_generated_id ''snapshot_id'' (arg kw ''snapshot_id'')) (\<lambda>sid.
     seqE (validate_sha256_digest ''repository_id'' (arg kw ''repository_id'')) (\<lambda>repo.
     seqE (validate_repository_root_hint ''repository_root_hint'' (arg kw ''repository_root_hint'')) (\<lambda>hint.
     seqE (read_object_format ''object_format'' (arg kw ''object_format'')) (\<lambda>fmt.
     seqE (validate_git_object_sha ''head_commit_sha'' (git_object_format_value fmt)
       (arg kw ''head_commit_sha'')) (\<lambda>head.
     seqE (validate_git_object_sha ''head_tree_sha'' (git_object_format_value fmt)
       (arg kw ''head_tree_sha'')) (\<lambda>tree.
     seqE (validate_git_object_sha ''base_commit_sha'' (git_object_format_value fmt)
       (arg kw ''base_commit_sha'')) (\<lambda>base.
     seqE (require_bool ''detached_head'' (arg kw ''detached_head'')) (\<lambda>detached.
     seqE (branch_check detached (arg kw ''branch_name'')) (\<lambda>branch.
     seqE (validate_sorted_unique_paths nfc ''staged_changes'' (arg kw ''staged_changes'')) (\<lambda>staged.
     seqE (validate_sorted_unique_paths nfc ''unstaged_changes'' (arg kw ''unstaged_changes'')) (\<lambda>unstaged.
     seqE (validate_sorted_unique_paths nfc ''untracked_files'' (arg kw ''untracked_files'')) (\<lambda>untracked.
     seqE (validate_sorted_unique_paths nfc ''submodule_changes'' (arg kw ''submodule_changes'')) (\<lambda>submodule.
     seqE (validate_sorted_unique_paths nfc ''changed_files'' (arg kw ''changed_files'')) (\<lambda>changed.
     seqE (validate_sha256_digest ''changed_files_digest'' (arg kw ''changed_files_digest'')) (\<lambda>digest.
     seqE (changed_files_digest nfc changed) (\<lambda>expected.
     seqE (raise_first [(digest \<noteq> expected,
       P09BValidationError ''changed_files_digest does not match changed_files'')]) (\<lambda>_.
     seqE (require_bool ''is_release_clean'' (arg kw ''is_release_clean'')) (\<lambda>clean.
     seqE (raise_first [(clean \<noteq> (staged = [] \<and> unstaged = [] \<and> untracked = [] \<and> submodule = []),
       P09BValidationError
         ''is_release_clean must equal (no staged/unstaged/untracked/submodule changes)'')]) (\<lambda>_.
     seqE (validate_rfc3339_utc nd ''captured_at'' (arg kw ''captured_at'')) (\<lambda>captured.
     seqE (require_str ''inspector_version'' False (arg kw ''inspector_version'')) (\<lambda>inspector.
       Inr \<lparr>sn_schema_version = sv, sn_snapshot_id = sid, sn_repository_id = repo,
            sn_repository_root_hint = hint, sn_object_format = fmt, sn_head_commit_sha = head,
            sn_head_tree_sha = tree, sn_base_commit_sha = base, sn_branch_name = branch,
            sn_detached_head = detached, sn_staged_changes = staged, sn_unstaged_changes = unstaged,
            sn_untracked_files = untracked, sn_submodule_changes = submodule, sn_changed_files = changed,
            sn_changed_files_digest = digest, sn_is_release_clean = clean, sn_captured_at = captured,
            sn_inspector_version = inspector\<rparr>)))))))))))))))))))))))"

definition snapshot_items :: "repository_snapshot \<Rightarrow> kwargs" where
  "snapshot_items s =
     [(''schema_version'', VStr (sn_schema_version s)), (''snapshot_id'', VStr (sn_snapshot_id s)),
      (''repository_id'', VStr (sn_repository_id s)),
      (''repository_root_hint'', VStr (sn_repository_root_hint s)),
      (''object_format'', VStr (git_object_format_value (sn_object_format s))),
      (''head_commit_sha'', VStr (sn_head_commit_sha s)), (''head_tree_sha'', VStr (sn_head_tree_sha s)),
      (''base_commit_sha'', VStr (sn_base_commit_sha s)), (''branch_name'', opt_str (sn_branch_name s)),
      (''detached_head'', VBool (sn_detached_head s)), (''staged_changes'', str_list (sn_staged_changes s)),
      (''unstaged_changes'', str_list (sn_unstaged_changes s)),
      (''untracked_files'', str_list (sn_untracked_files s)),
      (''submodule_changes'', str_list (sn_submodule_changes s)),
      (''changed_files'', str_list (sn_changed_files s)),
      (''changed_files_digest'', VStr (sn_changed_files_digest s)),
      (''is_release_clean'', VBool (sn_is_release_clean s)), (''captured_at'', VStr (sn_captured_at s)),
      (''inspector_version'', VStr (sn_inspector_version s))]"

definition snapshot_to_json :: "repository_snapshot \<Rightarrow> pyval" where
  "snapshot_to_json s = dict_of (snapshot_items s)"

definition str_or_null :: "string \<Rightarrow> pyval \<Rightarrow> exn + unit" where
  "str_or_null fld v =
     (case v of VNone \<Rightarrow> Inr () | VStr s \<Rightarrow> Inr ()
      | _ \<Rightarrow> Inl (P09BValidationError (fld @ '' must be a string or null'')))"

definition snapshot_from_json ::
  "(string \<Rightarrow> string) \<Rightarrow> digit_table \<Rightarrow> pyval \<Rightarrow> exn + repository_snapshot" where
  "snapshot_from_json nfc nd v =
     seqE (p09b_mapping ''RepositorySnapshot'' v) (\<lambda>d.
     seqE (p09b_exact_keys ''RepositorySnapshot'' snapshot_keys d) (\<lambda>_.
     seqE (str_or_null ''branch_name'' (dict_get d ''branch_name'')) (\<lambda>_.
     seqE (read_object_format ''object_format'' (dict_get d ''object_format'')) (\<lambda>fmt.
     seqE (tuple_from_json_list ''staged_changes'' (dict_get d ''staged_changes'')) (\<lambda>staged.
     seqE (tuple_from_json_list ''unstaged_changes'' (dict_get d ''unstaged_changes'')) (\<lambda>unstaged.
     seqE (tuple_from_json_list ''untracked_files'' (dict_get d ''untracked_files'')) (\<lambda>untracked.
     seqE (tuple_from_json_list ''submodule_changes'' (dict_get d ''submodule_changes'')) (\<lambda>submodule.
     seqE (tuple_from_json_list ''changed_files'' (dict_get d ''changed_files'')) (\<lambda>changed.
       snapshot_init nfc nd (call_args snapshot_keys
         [(''object_format'', VEnum ''GitObjectFormat'' (git_object_format_value fmt)),
          (''staged_changes'', staged), (''unstaged_changes'', unstaged), (''untracked_files'', untracked),
          (''submodule_changes'', submodule), (''changed_files'', changed)] d))))))))))"

section \<open>The coherent-context rule\<close>

definition candidate_snapshot_mismatches :: "candidate_binding \<Rightarrow> repository_snapshot \<Rightarrow> string list" where
  "candidate_snapshot_mismatches c s =
     (if sn_repository_id s \<noteq> cb_repository_id c then [''repository_id''] else [])
     @ (if sn_object_format s \<noteq> cb_object_format c then [''object_format''] else [])
     @ (if sn_base_commit_sha s \<noteq> cb_base_commit_sha c then [''base_commit_sha''] else [])
     @ (if sn_head_commit_sha s \<noteq> cb_candidate_commit_sha c then [''candidate_commit_sha''] else [])
     @ (if sn_head_tree_sha s \<noteq> cb_candidate_tree_sha c then [''candidate_tree_sha''] else [])
     @ (if sn_changed_files_digest s \<noteq> cb_changed_files_digest c then [''changed_files_digest''] else [])"

section \<open>Command requirement\<close>

definition command_requirement_payload :: "string list \<Rightarrow> string \<Rightarrow> int \<Rightarrow> pyval" where
  "command_requirement_payload argv wd timeout = dict_of
     [(''kind'', VStr ''p0-9b.command-requirement-payload.v1''), (''argv'', str_list argv),
      (''working_directory'', VStr wd), (''timeout_seconds'', VInt timeout)]"

definition argv_item :: "string \<Rightarrow> pyval \<Rightarrow> exn + string" where
  "argv_item fld v =
     (case v of
        VStr s \<Rightarrow>
          if s = [] then Inl (P09BValidationError (fld @ ''[] must be a non-empty string''))
          else if list_ex control_char s
          then Inl (P09BValidationError (fld @ ''[] contains NUL/control characters''))
          else Inr s
      | _ \<Rightarrow> Inl (P09BValidationError (fld @ ''[] must be a non-empty string'')))"

definition validate_argv :: "string \<Rightarrow> pyval \<Rightarrow> exn + string list" where
  "validate_argv fld v =
     (case v of
        VTuple vs \<Rightarrow>
          if vs = [] then Inl (P09BValidationError (fld @ '' must be a non-empty tuple''))
          else mapE (argv_item fld) vs
      | _ \<Rightarrow> Inl (P09BValidationError (fld @ '' must be a tuple'')))"

definition timeout_in_range :: "int \<Rightarrow> exn + unit" where
  "timeout_in_range t =
     (if 1 \<le> t \<and> t \<le> 3600 then Inr () else Inl (P09BValidationError ''timeout_seconds must be in 1..3600''))"

record command_requirement =
  cr_schema_version :: string
  cr_requirement_id :: string
  cr_argv :: "string list"
  cr_working_directory :: string
  cr_timeout_seconds :: int
  cr_command_digest :: string

definition command_requirement_keys :: "string list" where
  "command_requirement_keys =
     [''schema_version'', ''requirement_id'', ''argv'', ''working_directory'', ''timeout_seconds'', ''command_digest'']"

definition command_requirement_init :: "(string \<Rightarrow> string) \<Rightarrow> kwargs \<Rightarrow> exn + command_requirement" where
  "command_requirement_init nfc kw =
     seqE (bind_args command_requirement_keys kw) (\<lambda>_.
     seqE (require_schema ''schema_version'' ''p0-9b.command-requirement.v1'' (arg kw ''schema_version'')) (\<lambda>sv.
     seqE (validate_generated_id ''requirement_id'' (arg kw ''requirement_id'')) (\<lambda>rid.
     seqE (validate_argv ''argv'' (arg kw ''argv'')) (\<lambda>argv.
     seqE (validate_working_directory nfc ''working_directory'' (arg kw ''working_directory'')) (\<lambda>wd.
     seqE (require_int ''timeout_seconds'' (arg kw ''timeout_seconds'')) (\<lambda>timeout.
     seqE (timeout_in_range timeout) (\<lambda>_.
     seqE (validate_sha256_digest ''command_digest'' (arg kw ''command_digest'')) (\<lambda>digest.
     seqE (canonical_digest nfc (command_requirement_payload argv wd timeout)) (\<lambda>expected.
     seqE (raise_first [(digest \<noteq> expected,
       P09BValidationError ''command_digest does not match argv/cwd/timeout'')]) (\<lambda>_.
       Inr \<lparr>cr_schema_version = sv, cr_requirement_id = rid, cr_argv = argv, cr_working_directory = wd,
            cr_timeout_seconds = timeout, cr_command_digest = digest\<rparr>))))))))))"

definition command_requirement_items :: "command_requirement \<Rightarrow> kwargs" where
  "command_requirement_items r =
     [(''schema_version'', VStr (cr_schema_version r)), (''requirement_id'', VStr (cr_requirement_id r)),
      (''argv'', str_list (cr_argv r)), (''working_directory'', VStr (cr_working_directory r)),
      (''timeout_seconds'', VInt (cr_timeout_seconds r)), (''command_digest'', VStr (cr_command_digest r))]"

definition command_requirement_to_json :: "command_requirement \<Rightarrow> pyval" where
  "command_requirement_to_json r = dict_of (command_requirement_items r)"

definition command_requirement_from_json :: "(string \<Rightarrow> string) \<Rightarrow> pyval \<Rightarrow> exn + command_requirement" where
  "command_requirement_from_json nfc v =
     seqE (p09b_mapping ''CommandRequirement'' v) (\<lambda>d.
     seqE (p09b_exact_keys ''CommandRequirement'' command_requirement_keys d) (\<lambda>_.
     seqE (tuple_from_json_list ''argv'' (dict_get d ''argv'')) (\<lambda>argv.
       command_requirement_init nfc (call_args command_requirement_keys [(''argv'', argv)] d))))"


section \<open>What the readers accept\<close>

named_theorems reader_simps \<open>the values that a reader accepts\<close>

definition digest_ok :: "string \<Rightarrow> bool" where
  "digest_ok s \<longleftrightarrow> s \<noteq> [] \<and> dollar_match sha256_digest_grammar s"

definition id_ok :: "string \<Rightarrow> bool" where
  "id_ok s \<longleftrightarrow> s \<noteq> [] \<and> dollar_match generated_id_grammar s"

definition sha_ok :: "git_object_format \<Rightarrow> string \<Rightarrow> bool" where
  "sha_ok fmt s \<longleftrightarrow> s \<noteq> [] \<and>
     dollar_match (hex_grammar (case fmt of git_object_format.SHA1 \<Rightarrow> 40 | git_object_format.SHA256 \<Rightarrow> 64)) s"

definition path_ok :: "(string \<Rightarrow> string) \<Rightarrow> string \<Rightarrow> bool" where
  "path_ok nfc s \<longleftrightarrow> s \<noteq> [] \<and> \<not> list_ex control_char s \<and> CHR 0x5C \<notin> set s \<and> \<not> windows_drive s
     \<and> \<not> starts_with ''/'' s \<and> nfc s = s \<and> \<not> list_ex bad_segment (split_on (CHR ''/'') s)"

definition paths_ok :: "(string \<Rightarrow> string) \<Rightarrow> string list \<Rightarrow> bool" where
  "paths_ok nfc ps \<longleftrightarrow> sorted_wrt (<) ps \<and> (\<forall>p \<in> set ps. path_ok nfc p)"

definition line_ok :: "string \<Rightarrow> bool" where
  "line_ok s \<longleftrightarrow> s \<noteq> [] \<and> \<not> list_ex control_char s"

definition stamp_ok :: "digit_table \<Rightarrow> string \<Rightarrow> bool" where
  "stamp_ok nd s \<longleftrightarrow> s \<noteq> [] \<and> stamp_shape nd s \<and> is_ok (parse_rfc3339_utc nd s)"

lemma require_schema_Inr [reader_simps]:
  "require_schema fld e v = Inr s \<longleftrightarrow> v = VStr e \<and> s = e"
  by (auto simp: require_schema_def)

lemma validate_digest_Inr [reader_simps]:
  "validate_sha256_digest fld v = Inr s \<longleftrightarrow> v = VStr s \<and> digest_ok s"
  by (auto simp: validate_sha256_digest_def match_or_fail_def digest_ok_def result_simps)

lemma validate_id_Inr [reader_simps]: "validate_generated_id fld v = Inr s \<longleftrightarrow> v = VStr s \<and> id_ok s"
  by (auto simp: validate_generated_id_def match_or_fail_def id_ok_def result_simps)

lemma validate_sha_Inr [reader_simps]:
  "validate_git_object_sha fld (git_object_format_value fmt) v = Inr s \<longleftrightarrow> v = VStr s \<and> sha_ok fmt s"
  by (cases fmt) (auto simp: validate_git_object_sha_def sha_ok_def result_simps)

lemma validate_repo_path_ok [reader_simps]: "validate_repo_path nfc fld v = Inr s \<longleftrightarrow> v = VStr s \<and> path_ok nfc s"
  by (simp add: validate_repo_path_Inr path_ok_def)

lemma validate_working_directory_Inr [reader_simps]:
  "validate_working_directory nfc fld v = Inr s \<longleftrightarrow> v = VStr s \<and> (s = ''.'' \<or> path_ok nfc s)"
  by (auto simp: validate_working_directory_def result_simps reader_simps path_ok_def)

lemma validate_root_hint_Inr [reader_simps]:
  "validate_repository_root_hint fld v = Inr s \<longleftrightarrow> v = VStr s \<and> line_ok s"
  by (auto simp: validate_repository_root_hint_def line_ok_def result_simps)

lemma validate_stamp_Inr [reader_simps]:
  "validate_rfc3339_utc nd fld v = Inr s \<longleftrightarrow> v = VStr s \<and> stamp_ok nd s"
proof -
  have "(case r of Inl e \<Rightarrow> Inl (f e) | Inr t \<Rightarrow> Inr a) = Inr s \<longleftrightarrow> is_ok r \<and> a = s" 
    for r :: "exn + nat" and f :: "exn \<Rightarrow> exn" and a :: string
    by (cases r) auto
  then show ?thesis by (auto simp: validate_rfc3339_utc_def stamp_ok_def result_simps)
qed

lemma validate_paths_Inr [reader_simps]:
  "validate_sorted_unique_paths nfc fld v = Inr ps \<longleftrightarrow> v = str_tuple ps \<and> paths_ok nfc ps"
proof -
  have "(\<exists>ys. mapE (\<lambda>p. validate_repo_path nfc fld (VStr p)) qs = Inr ys) \<longleftrightarrow> (\<forall>p \<in> set qs. path_ok nfc p)" for qs
    by (induction qs) (auto simp: result_simps reader_simps)
  moreover have "(qs = sort qs) = sorted qs" for qs :: "string list"
    by (metis sorted_sort sorted_sort_id)
  moreover have "path_ok nfc p \<Longrightarrow> p \<noteq> []" for p by (simp add: path_ok_def)
  ultimately show ?thesis
    by (auto simp: validate_sorted_unique_paths_def paths_ok_def str_tuple_def result_simps strict_sorted_iff)
qed

lemma argv_item_Inr: "argv_item fld v = Inr s \<longleftrightarrow> v = VStr s \<and> line_ok s"
  by (cases v) (auto simp: argv_item_def line_ok_def)

lemma validate_argv_Inr [reader_simps]:
  "validate_argv fld v = Inr xs \<longleftrightarrow> v = str_tuple xs \<and> xs \<noteq> [] \<and> (\<forall>x \<in> set xs. line_ok x)"
proof -
  have "mapE (argv_item fld) vs = Inr ys \<longleftrightarrow> vs = map VStr ys \<and> (\<forall>x \<in> set ys. line_ok x)" for vs ys
    by (induction vs arbitrary: ys) (auto simp: result_simps argv_item_Inr)
  then show ?thesis
    by (cases v) (auto simp: validate_argv_def str_tuple_def)
qed

lemma timeout_in_range_ok [reader_simps]: "timeout_in_range t = Inr u \<longleftrightarrow> 1 \<le> t \<and> t \<le> 3600"
  by (auto simp: timeout_in_range_def)

lemma branch_check_Inr [reader_simps]:
  "branch_check detached v = Inr b \<longleftrightarrow> v = opt_str b \<and> detached = (b = None) \<and> b \<noteq> Some []"
  by (cases v) (auto simp: branch_check_def opt_str_def split: option.splits)

lemma str_or_null_ok [reader_simps]: "str_or_null fld v = Inr u \<longleftrightarrow> (\<exists>b. v = opt_str b)"
  by (cases v) (auto simp: str_or_null_def opt_str_def split: option.splits intro: exI [of _ "Some _"] exI [of _ None])

lemma tuple_from_json_list_Inr [simp]: "tuple_from_json_list fld (str_list xs) = Inr (str_tuple xs)"
  by (simp add: tuple_from_json_list_def str_list_def str_tuple_def)

context str_enum
begin

lemma p09b_enum_iff:
  "p09b_enum cls members val fld v = Inr x \<longleftrightarrow> v = VStr (val x) \<or> v = VEnum cls (val x)"
  by (cases v) (auto simp: p09b_enum_def Let_def find_value split: option.splits dest: val_inj [THEN iffD1])

end

lemmas format_reader [simp] = git_object_format_enum.p09b_enum_iff git_object_format_enum.val_inj

lemma str_tuple_inj [simp]: "str_tuple xs = str_tuple ys \<longleftrightarrow> xs = ys"
  by (auto simp: str_tuple_def inj_map_eq_map inj_def)

lemma opt_str_inj [simp]: "opt_str a = opt_str b \<longleftrightarrow> a = b"
  by (auto simp: opt_str_def split: option.splits)

section \<open>Mappings and calls\<close>

lemma arg_Cons [simp]: "arg ((k, v) # kw) j = (if j = k then v else arg kw j)"
  by (simp add: arg_def)

lemma arg_call_args: "k \<in> set names \<Longrightarrow>
    arg (call_args names conv d) k = (case map_of conv k of Some v \<Rightarrow> v | None \<Rightarrow> dict_get d k)"
  by (induction names) (auto simp: arg_def call_args_def)

lemma bind_call_args [simp]: "bind_args names (call_args names conv d) = Inr ()"
proof -
  have "map fst (call_args names conv d) = names" by (simp add: call_args_def comp_def)
  then show ?thesis by (simp add: bind_args_def)
qed

lemma mapping_dict_of [simp]: "p09b_mapping m (dict_of kvs) = Inr (map (\<lambda>(k, v). (VStr k, v)) kvs)"
  by (simp add: p09b_mapping_def dict_of_def)

lemma exact_keys_dict_of:
  "set (map fst kvs) = set names \<Longrightarrow> p09b_exact_keys m names (map (\<lambda>(k, v). (VStr k, v)) kvs) = Inr ()"
proof -
  assume "set (map fst kvs) = set names"
  moreover have ks: "map fst (map (\<lambda>(k, v). (VStr k, v)) kvs) = map VStr (map fst kvs)" by auto
  moreover have "List.map_filter text_of (map VStr xs) = xs" for xs
    by (induction xs) (simp_all add: List.map_filter_def)
  moreover have "filter (\<lambda>k. case text_of k of None \<Rightarrow> True | Some t \<Rightarrow> t \<notin> set names) (map VStr xs) = []"
    if "set xs \<subseteq> set names" for xs using that by (induction xs) auto
  ultimately show ?thesis by (simp add: p09b_exact_keys_def Let_def sortable_def del: map_map)
qed

lemma read_dict_of:
  assumes "map fst its = names"
  shows "seqE (p09b_mapping m (dict_of its)) (\<lambda>d. seqE (p09b_exact_keys m names d) (\<lambda>_. f d))
    = f (map (\<lambda>(k, v). (VStr k, v)) its)"
  using assms by (auto simp: exact_keys_dict_of)

lemma dict_get_Cons [simp]: "dict_get_or d ((VStr k, v) # kvs) j = (if j = k then v else dict_get_or d kvs j)"
  by (simp add: dict_get_or_def)

section \<open>Valid models\<close>

definition candidate_ok :: "candidate_binding \<Rightarrow> bool" where
  "candidate_ok c \<longleftrightarrow> cb_schema_version c = ''p0-9b.candidate-binding.v1'' \<and> digest_ok (cb_repository_id c)
     \<and> sha_ok (cb_object_format c) (cb_base_commit_sha c) \<and> sha_ok (cb_object_format c) (cb_candidate_commit_sha c)
     \<and> sha_ok (cb_object_format c) (cb_candidate_tree_sha c) \<and> digest_ok (cb_contract_digest c)
     \<and> digest_ok (cb_changed_files_digest c)"

definition snapshot_ok :: "(string \<Rightarrow> string) \<Rightarrow> digit_table \<Rightarrow> repository_snapshot \<Rightarrow> bool" where
  "snapshot_ok nfc nd s \<longleftrightarrow> sn_schema_version s = ''p0-9b.repository-snapshot.v1'' \<and> id_ok (sn_snapshot_id s)
     \<and> digest_ok (sn_repository_id s) \<and> line_ok (sn_repository_root_hint s)
     \<and> sha_ok (sn_object_format s) (sn_head_commit_sha s) \<and> sha_ok (sn_object_format s) (sn_head_tree_sha s)
     \<and> sha_ok (sn_object_format s) (sn_base_commit_sha s)
     \<and> sn_detached_head s = (sn_branch_name s = None) \<and> sn_branch_name s \<noteq> Some []
     \<and> paths_ok nfc (sn_staged_changes s) \<and> paths_ok nfc (sn_unstaged_changes s)
     \<and> paths_ok nfc (sn_untracked_files s) \<and> paths_ok nfc (sn_submodule_changes s)
     \<and> paths_ok nfc (sn_changed_files s) \<and> digest_ok (sn_changed_files_digest s)
     \<and> changed_files_digest nfc (sn_changed_files s) = Inr (sn_changed_files_digest s)
     \<and> sn_is_release_clean s = (sn_staged_changes s = [] \<and> sn_unstaged_changes s = []
          \<and> sn_untracked_files s = [] \<and> sn_submodule_changes s = [])
     \<and> stamp_ok nd (sn_captured_at s) \<and> sn_inspector_version s \<noteq> []"

definition requirement_ok :: "(string \<Rightarrow> string) \<Rightarrow> command_requirement \<Rightarrow> bool" where
  "requirement_ok nfc r \<longleftrightarrow> cr_schema_version r = ''p0-9b.command-requirement.v1'' \<and> id_ok (cr_requirement_id r)
     \<and> cr_argv r \<noteq> [] \<and> (\<forall>x \<in> set (cr_argv r). line_ok x)
     \<and> (cr_working_directory r = ''.'' \<or> path_ok nfc (cr_working_directory r))
     \<and> 1 \<le> cr_timeout_seconds r \<and> cr_timeout_seconds r \<le> 3600 \<and> digest_ok (cr_command_digest r)
     \<and> canonical_digest nfc (command_requirement_payload (cr_argv r) (cr_working_directory r)
          (cr_timeout_seconds r)) = Inr (cr_command_digest r)"

lemma candidate_binding_init_ok: "candidate_binding_init kw = Inr c \<Longrightarrow> candidate_ok c"
  by (auto simp: candidate_binding_init_def candidate_ok_def result_simps reader_simps)

lemma snapshot_init_ok: "snapshot_init nfc nd kw = Inr s \<Longrightarrow> snapshot_ok nfc nd s"
  unfolding snapshot_init_def by (clarsimp simp: result_simps reader_simps snapshot_ok_def) blast

lemma command_requirement_init_ok: "command_requirement_init nfc kw = Inr r \<Longrightarrow> requirement_ok nfc r"
  unfolding command_requirement_init_def by (clarsimp simp: result_simps reader_simps requirement_ok_def)

lemma candidate_binding_items_keys: "map fst (candidate_binding_items c) = candidate_binding_keys"
  by (simp add: candidate_binding_items_def candidate_binding_keys_def)

lemma snapshot_items_keys: "map fst (snapshot_items s) = snapshot_keys"
  by (simp add: snapshot_items_def snapshot_keys_def)

lemma command_requirement_items_keys: "map fst (command_requirement_items r) = command_requirement_keys"
  by (simp add: command_requirement_items_def command_requirement_keys_def)

lemma candidate_round_trip: "candidate_ok c \<Longrightarrow> candidate_binding_from_json (candidate_binding_to_json c) = Inr c"
  unfolding candidate_binding_from_json_def candidate_binding_to_json_def candidate_binding_init_def
    read_dict_of [OF candidate_binding_items_keys]
  by (simp add: seqE_Inr_iff reader_simps arg_call_args candidate_binding_keys_def candidate_binding_items_def
      candidate_ok_def)

lemma snapshot_round_trip: "snapshot_ok nfc nd s \<Longrightarrow> snapshot_from_json nfc nd (snapshot_to_json s) = Inr s"
  unfolding snapshot_from_json_def snapshot_to_json_def snapshot_init_def
    read_dict_of [OF snapshot_items_keys]
  by (simp add: seqE_Inr_iff reader_simps arg_call_args snapshot_keys_def snapshot_items_def snapshot_ok_def) blast

lemma no_mismatches: "candidate_snapshot_mismatches c s = [] \<longleftrightarrow>
    sn_repository_id s = cb_repository_id c \<and> sn_object_format s = cb_object_format c
    \<and> sn_base_commit_sha s = cb_base_commit_sha c \<and> sn_head_commit_sha s = cb_candidate_commit_sha c
    \<and> sn_head_tree_sha s = cb_candidate_tree_sha c \<and> sn_changed_files_digest s = cb_changed_files_digest c"
  by (simp add: candidate_snapshot_mismatches_def)

lemma requirement_round_trip:
  "requirement_ok nfc r \<Longrightarrow> command_requirement_from_json nfc (command_requirement_to_json r) = Inr r"
  unfolding command_requirement_from_json_def command_requirement_to_json_def command_requirement_init_def
    read_dict_of [OF command_requirement_items_keys]
  by (simp add: seqE_Inr_iff reader_simps arg_call_args command_requirement_keys_def
      command_requirement_items_def requirement_ok_def)

end
