(* ===== verification/Provenance.thy ===== *)
theory Provenance
  imports Repository_Models
begin

text \<open>
  \<open>build_harness/provenance.py\<close>: the provenance of one executed command, the evidence collected with
  its two snapshots, the verdict on a piece of evidence with its rejected-context matrix, verified
  evidence and the verification bundle.

  An argument that should be an instance of a model class is a \<open>slot\<close>: Python's \<open>None\<close>, an instance,
  or a value of another type.
\<close>

section \<open>Provenance\<close>

record evidence_provenance =
  pv_schema_version :: string
  pv_evidence_id :: string
  pv_task_id :: string
  pv_run_id :: string
  pv_collector_id :: string
  pv_collector_version :: string
  pv_requirement_id :: string
  pv_argv :: "string list"
  pv_working_directory :: string
  pv_command_digest :: string
  pv_exit_code :: "int option"
  pv_completed :: bool
  pv_started_at :: string
  pv_completed_at :: string
  pv_duration_ms :: int
  pv_repository_id :: string
  pv_object_format :: git_object_format
  pv_base_commit_sha :: string
  pv_commit_sha :: string
  pv_tree_sha :: string
  pv_pre_snapshot_id :: string
  pv_post_snapshot_id :: string
  pv_dirty_state :: dirty_state
  pv_changed_files_digest :: string
  pv_stdout_digest :: string
  pv_stderr_digest :: string
  pv_artifact_digest :: "string option"
  pv_source :: evidence_source

definition provenance_keys :: "string list" where
  "provenance_keys =
     [''schema_version'', ''evidence_id'', ''task_id'', ''run_id'', ''collector_id'', ''collector_version'',
      ''requirement_id'', ''argv'', ''working_directory'', ''command_digest'', ''exit_code'', ''completed'',
      ''started_at'', ''completed_at'', ''duration_ms'', ''repository_id'', ''object_format'',
      ''base_commit_sha'', ''commit_sha'', ''tree_sha'', ''pre_snapshot_id'', ''post_snapshot_id'',
      ''dirty_state'', ''changed_files_digest'', ''stdout_digest'', ''stderr_digest'', ''artifact_digest'',
      ''source'']"

abbreviation read_dirty_state :: "string \<Rightarrow> pyval \<Rightarrow> exn + dirty_state" where
  "read_dirty_state \<equiv> p09b_enum ''DirtyState'' dirty_state_members dirty_state_value"

abbreviation read_source :: "string \<Rightarrow> pyval \<Rightarrow> exn + evidence_source" where
  "read_source \<equiv> p09b_enum ''EvidenceSource'' evidence_source_members evidence_source_value"

text \<open>\<open>None\<close>, or a value that the validator accepts.\<close>

definition optional :: "(pyval \<Rightarrow> exn + 'a) \<Rightarrow> pyval \<Rightarrow> exn + 'a option" where
  "optional check v = (if v = VNone then Inr None else seqE (check v) (\<lambda>x. Inr (Some x)))"

definition opt_int :: "int option \<Rightarrow> pyval" where
  "opt_int i = (case i of None \<Rightarrow> VNone | Some n \<Rightarrow> VInt n)"

text \<open>The checks on the two time stamps and the duration, which the command results share.\<close>

definition validate_times :: "digit_table \<Rightarrow> pyval \<Rightarrow> pyval \<Rightarrow> pyval \<Rightarrow> exn + (string \<times> string \<times> int)" where
  "validate_times nd started completed duration =
     seqE (validate_rfc3339_utc nd ''started_at'' started) (\<lambda>t1.
     seqE (validate_rfc3339_utc nd ''completed_at'' completed) (\<lambda>t2.
     seqE (parse_rfc3339_utc nd t1) (\<lambda>start.
     seqE (parse_rfc3339_utc nd t2) (\<lambda>finish.
     seqE (raise_first [(finish < start, P09BValidationError ''completed_at must be >= started_at'')]) (\<lambda>_.
     seqE (require_int ''duration_ms'' duration) (\<lambda>d.
     seqE (raise_first [(d < 0, P09BValidationError ''duration_ms must be non-negative'')]) (\<lambda>_.
     seqE (validate_duration_ms nd ''duration_ms'' d t1 t2) (\<lambda>_. Inr (t1, t2, d)))))))))"

definition provenance_init ::
  "(string \<Rightarrow> string) \<Rightarrow> digit_table \<Rightarrow> kwargs \<Rightarrow> exn + evidence_provenance" where
  "provenance_init nfc nd kw =
     seqE (bind_args provenance_keys kw) (\<lambda>_.
     seqE (require_schema ''schema_version'' ''p0-9b.provenance.v1'' (arg kw ''schema_version'')) (\<lambda>sv.
     seqE (validate_generated_id ''evidence_id'' (arg kw ''evidence_id'')) (\<lambda>eid.
     seqE (validate_task_id ''task_id'' (arg kw ''task_id'')) (\<lambda>tid.
     seqE (validate_generated_id ''run_id'' (arg kw ''run_id'')) (\<lambda>run.
     seqE (validate_generated_id ''collector_id'' (arg kw ''collector_id'')) (\<lambda>cid.
     seqE (require_str ''collector_version'' False (arg kw ''collector_version'')) (\<lambda>cv.
     seqE (validate_generated_id ''requirement_id'' (arg kw ''requirement_id'')) (\<lambda>rid.
     seqE (validate_argv ''argv'' (arg kw ''argv'')) (\<lambda>argv.
     seqE (validate_working_directory nfc ''working_directory'' (arg kw ''working_directory'')) (\<lambda>wd.
     seqE (validate_sha256_digest ''command_digest'' (arg kw ''command_digest'')) (\<lambda>cmd.
     seqE (optional (require_int ''exit_code'') (arg kw ''exit_code'')) (\<lambda>exit.
     seqE (require_bool ''completed'' (arg kw ''completed'')) (\<lambda>completed.
     seqE (raise_first [(completed \<and> exit = None,
       P09BValidationError ''completed=True requires an integer exit_code'')]) (\<lambda>_.
     seqE (validate_times nd (arg kw ''started_at'') (arg kw ''completed_at'') (arg kw ''duration_ms''))
       (\<lambda>(t1, t2, duration).
     seqE (validate_sha256_digest ''repository_id'' (arg kw ''repository_id'')) (\<lambda>repo.
     seqE (read_object_format ''object_format'' (arg kw ''object_format'')) (\<lambda>fmt.
     seqE (validate_git_object_sha ''base_commit_sha'' (git_object_format_value fmt)
       (arg kw ''base_commit_sha'')) (\<lambda>base.
     seqE (validate_git_object_sha ''commit_sha'' (git_object_format_value fmt) (arg kw ''commit_sha'')) (\<lambda>commit.
     seqE (validate_git_object_sha ''tree_sha'' (git_object_format_value fmt) (arg kw ''tree_sha'')) (\<lambda>tree.
     seqE (validate_generated_id ''pre_snapshot_id'' (arg kw ''pre_snapshot_id'')) (\<lambda>pre.
     seqE (validate_generated_id ''post_snapshot_id'' (arg kw ''post_snapshot_id'')) (\<lambda>post.
     seqE (read_dirty_state ''dirty_state'' (arg kw ''dirty_state'')) (\<lambda>dirty.
     seqE (read_source ''source'' (arg kw ''source'')) (\<lambda>source.
     seqE (validate_sha256_digest ''changed_files_digest'' (arg kw ''changed_files_digest'')) (\<lambda>changed.
     seqE (validate_sha256_digest ''stdout_digest'' (arg kw ''stdout_digest'')) (\<lambda>stdout.
     seqE (validate_sha256_digest ''stderr_digest'' (arg kw ''stderr_digest'')) (\<lambda>stderr.
     seqE (optional (validate_sha256_digest ''artifact_digest'') (arg kw ''artifact_digest'')) (\<lambda>artifact.
       Inr \<lparr>pv_schema_version = sv, pv_evidence_id = eid, pv_task_id = tid, pv_run_id = run,
            pv_collector_id = cid, pv_collector_version = cv, pv_requirement_id = rid, pv_argv = argv,
            pv_working_directory = wd, pv_command_digest = cmd, pv_exit_code = exit,
            pv_completed = completed, pv_started_at = t1, pv_completed_at = t2, pv_duration_ms = duration,
            pv_repository_id = repo, pv_object_format = fmt, pv_base_commit_sha = base,
            pv_commit_sha = commit, pv_tree_sha = tree, pv_pre_snapshot_id = pre,
            pv_post_snapshot_id = post, pv_dirty_state = dirty, pv_changed_files_digest = changed,
            pv_stdout_digest = stdout, pv_stderr_digest = stderr, pv_artifact_digest = artifact,
            pv_source = source\<rparr>))))))))))))))))))))))))))))"

definition provenance_items :: "evidence_provenance \<Rightarrow> kwargs" where
  "provenance_items p =
     [(''schema_version'', VStr (pv_schema_version p)), (''evidence_id'', VStr (pv_evidence_id p)),
      (''task_id'', VStr (pv_task_id p)), (''run_id'', VStr (pv_run_id p)),
      (''collector_id'', VStr (pv_collector_id p)), (''collector_version'', VStr (pv_collector_version p)),
      (''requirement_id'', VStr (pv_requirement_id p)), (''argv'', str_list (pv_argv p)),
      (''working_directory'', VStr (pv_working_directory p)), (''command_digest'', VStr (pv_command_digest p)),
      (''exit_code'', opt_int (pv_exit_code p)), (''completed'', VBool (pv_completed p)),
      (''started_at'', VStr (pv_started_at p)), (''completed_at'', VStr (pv_completed_at p)),
      (''duration_ms'', VInt (pv_duration_ms p)), (''repository_id'', VStr (pv_repository_id p)),
      (''object_format'', VStr (git_object_format_value (pv_object_format p))),
      (''base_commit_sha'', VStr (pv_base_commit_sha p)), (''commit_sha'', VStr (pv_commit_sha p)),
      (''tree_sha'', VStr (pv_tree_sha p)), (''pre_snapshot_id'', VStr (pv_pre_snapshot_id p)),
      (''post_snapshot_id'', VStr (pv_post_snapshot_id p)),
      (''dirty_state'', VStr (dirty_state_value (pv_dirty_state p))),
      (''changed_files_digest'', VStr (pv_changed_files_digest p)),
      (''stdout_digest'', VStr (pv_stdout_digest p)), (''stderr_digest'', VStr (pv_stderr_digest p)),
      (''artifact_digest'', opt_str (pv_artifact_digest p)),
      (''source'', VStr (evidence_source_value (pv_source p)))]"

definition provenance_to_json :: "evidence_provenance \<Rightarrow> pyval" where
  "provenance_to_json p = dict_of (provenance_items p)"

definition int_or_null :: "string \<Rightarrow> pyval \<Rightarrow> exn + unit" where
  "int_or_null fld v =
     (case v of VNone \<Rightarrow> Inr () | VInt i \<Rightarrow> Inr ()
      | _ \<Rightarrow> Inl (P09BValidationError (fld @ '' must be an int or null'')))"

definition provenance_from_json ::
  "(string \<Rightarrow> string) \<Rightarrow> digit_table \<Rightarrow> pyval \<Rightarrow> exn + evidence_provenance" where
  "provenance_from_json nfc nd v =
     seqE (p09b_mapping ''EvidenceProvenance'' v) (\<lambda>d.
     seqE (p09b_exact_keys ''EvidenceProvenance'' provenance_keys d) (\<lambda>_.
     seqE (str_or_null ''artifact_digest'' (dict_get d ''artifact_digest'')) (\<lambda>_.
     seqE (int_or_null ''exit_code'' (dict_get d ''exit_code'')) (\<lambda>_.
     seqE (tuple_from_json_list ''argv'' (dict_get d ''argv'')) (\<lambda>argv.
     seqE (read_object_format ''object_format'' (dict_get d ''object_format'')) (\<lambda>fmt.
     seqE (read_dirty_state ''dirty_state'' (dict_get d ''dirty_state'')) (\<lambda>dirty.
     seqE (read_source ''source'' (dict_get d ''source'')) (\<lambda>source.
       provenance_init nfc nd (call_args provenance_keys
         [(''argv'', argv), (''object_format'', VEnum ''GitObjectFormat'' (git_object_format_value fmt)),
          (''dirty_state'', VEnum ''DirtyState'' (dirty_state_value dirty)),
          (''source'', VEnum ''EvidenceSource'' (evidence_source_value source))] d)))))))))"

section \<open>Collected evidence\<close>

datatype 'a slot = NoneSlot | Instance 'a | Foreign

definition instance_of :: "string \<Rightarrow> 'a slot \<Rightarrow> exn + 'a" where
  "instance_of msg x = (case x of Instance a \<Rightarrow> Inr a | _ \<Rightarrow> Inl (P09BValidationError msg))"

definition instance_or_none :: "string \<Rightarrow> 'a slot \<Rightarrow> exn + 'a option" where
  "instance_or_none msg x =
     (case x of NoneSlot \<Rightarrow> Inr None | Instance a \<Rightarrow> Inr (Some a) | Foreign \<Rightarrow> Inl (P09BValidationError msg))"

record collected_evidence =
  ce_schema_version :: string
  ce_provenance :: evidence_provenance
  ce_pre_snapshot :: repository_snapshot
  ce_post_snapshot :: repository_snapshot

definition collected_keys :: "string list" where
  "collected_keys = [''schema_version'', ''provenance'', ''pre_snapshot'', ''post_snapshot'']"

definition snapshot_context_errors :: "string \<Rightarrow> evidence_provenance \<Rightarrow> repository_snapshot \<Rightarrow> (bool \<times> exn) list" where
  "snapshot_context_errors name p s =
     [(sn_repository_id s \<noteq> pv_repository_id p,
         P09BValidationError (name @ ''.repository_id != provenance.repository_id'')),
      (sn_object_format s \<noteq> pv_object_format p,
         P09BValidationError (name @ ''.object_format != provenance.object_format'')),
      (sn_base_commit_sha s \<noteq> pv_base_commit_sha p,
         P09BValidationError (name @ ''.base_commit_sha != provenance.base_commit_sha''))]"

definition derived_dirty_state :: "repository_snapshot \<Rightarrow> repository_snapshot \<Rightarrow> dirty_state" where
  "derived_dirty_state pre post =
     (if sn_is_release_clean pre \<and> sn_is_release_clean post then dirty_state.CLEAN else dirty_state.DIRTY)"

definition collected_init :: "pyval \<Rightarrow> evidence_provenance slot \<Rightarrow> repository_snapshot slot
    \<Rightarrow> repository_snapshot slot \<Rightarrow> exn + collected_evidence" where
  "collected_init sv prov pre post =
     seqE (require_schema ''schema_version'' ''p0-9b.collected-evidence.v1'' sv) (\<lambda>sv.
     seqE (instance_of ''provenance must be an EvidenceProvenance'' prov) (\<lambda>p.
     seqE (instance_of ''pre_snapshot must be a RepositorySnapshot'' pre) (\<lambda>s1.
     seqE (instance_of ''post_snapshot must be a RepositorySnapshot'' post) (\<lambda>s2.
     seqE (raise_first
       ([(sn_snapshot_id s1 \<noteq> pv_pre_snapshot_id p,
            P09BValidationError ''pre_snapshot.snapshot_id != provenance.pre_snapshot_id''),
         (sn_snapshot_id s2 \<noteq> pv_post_snapshot_id p,
            P09BValidationError ''post_snapshot.snapshot_id != provenance.post_snapshot_id'')]
        @ snapshot_context_errors ''pre_snapshot'' p s1 @ snapshot_context_errors ''post_snapshot'' p s2
        @ [(sn_head_commit_sha s2 \<noteq> pv_commit_sha p,
             P09BValidationError ''post_snapshot.head_commit_sha != provenance.commit_sha''),
           (sn_head_tree_sha s2 \<noteq> pv_tree_sha p,
             P09BValidationError ''post_snapshot.head_tree_sha != provenance.tree_sha''),
           (pv_dirty_state p \<noteq> derived_dirty_state s1 s2,
             P09BValidationError ''provenance.dirty_state contradicts its snapshots'')])) (\<lambda>_.
       Inr \<lparr>ce_schema_version = sv, ce_provenance = p, ce_pre_snapshot = s1, ce_post_snapshot = s2\<rparr>)))))"

definition collected_items :: "collected_evidence \<Rightarrow> kwargs" where
  "collected_items c =
     [(''schema_version'', VStr (ce_schema_version c)), (''provenance'', provenance_to_json (ce_provenance c)),
      (''pre_snapshot'', snapshot_to_json (ce_pre_snapshot c)),
      (''post_snapshot'', snapshot_to_json (ce_post_snapshot c))]"

definition collected_to_json :: "collected_evidence \<Rightarrow> pyval" where
  "collected_to_json c = dict_of (collected_items c)"

definition collected_from_json ::
  "(string \<Rightarrow> string) \<Rightarrow> digit_table \<Rightarrow> pyval \<Rightarrow> exn + collected_evidence" where
  "collected_from_json nfc nd v =
     seqE (p09b_mapping ''CollectedCommandEvidence'' v) (\<lambda>d.
     seqE (p09b_exact_keys ''CollectedCommandEvidence'' collected_keys d) (\<lambda>_.
     seqE (provenance_from_json nfc nd (dict_get d ''provenance'')) (\<lambda>p.
     seqE (snapshot_from_json nfc nd (dict_get d ''pre_snapshot'')) (\<lambda>s1.
     seqE (snapshot_from_json nfc nd (dict_get d ''post_snapshot'')) (\<lambda>s2.
       collected_init (dict_get d ''schema_version'') (Instance p) (Instance s1) (Instance s2))))))"

definition collected_candidate_mismatches :: "candidate_binding \<Rightarrow> collected_evidence \<Rightarrow> string list" where
  "collected_candidate_mismatches c e =
     (let p = ce_provenance e
      in (if pv_repository_id p \<noteq> cb_repository_id c then [''repository_id''] else [])
       @ (if pv_object_format p \<noteq> cb_object_format c then [''object_format''] else [])
       @ (if pv_base_commit_sha p \<noteq> cb_base_commit_sha c then [''base_commit_sha''] else [])
       @ (if pv_commit_sha p \<noteq> cb_candidate_commit_sha c then [''candidate_commit_sha''] else [])
       @ (if pv_tree_sha p \<noteq> cb_candidate_tree_sha c then [''candidate_tree_sha''] else []))"

section \<open>The rejected-context matrix\<close>

definition CONTEXT_MISMATCH_STATUSES :: "verification_status list" where
  "CONTEXT_MISMATCH_STATUSES =
     [verification_status.STALE, verification_status.REPOSITORY_MISMATCH, verification_status.COMMIT_MISMATCH,
      verification_status.TREE_MISMATCH, verification_status.DIRTY_WORKTREE, verification_status.SNAPSHOT_CHANGED]"

definition NON_CONTEXT_REJECTION_STATUSES :: "verification_status list" where
  "NON_CONTEXT_REJECTION_STATUSES =
     [verification_status.COMMAND_MISMATCH, verification_status.EXECUTION_FAILED,
      verification_status.DUPLICATE_IDENTITY, verification_status.INVALID_PROVENANCE,
      verification_status.UNSUPPORTED_SCHEMA, verification_status.UNSUPPORTED_COLLECTOR,
      verification_status.INSPECTION_FAILED]"

definition expected_context_mismatch_status ::
  "candidate_binding \<Rightarrow> repository_snapshot \<Rightarrow> verification_status option" where
  "expected_context_mismatch_status c s =
     (if sn_repository_id s \<noteq> cb_repository_id c then Some verification_status.REPOSITORY_MISMATCH
      else if sn_object_format s \<noteq> cb_object_format c \<or> sn_base_commit_sha s \<noteq> cb_base_commit_sha c
      then Some verification_status.STALE
      else if sn_head_commit_sha s \<noteq> cb_candidate_commit_sha c then Some verification_status.COMMIT_MISMATCH
      else if sn_head_tree_sha s \<noteq> cb_candidate_tree_sha c then Some verification_status.TREE_MISMATCH
      else if sn_changed_files_digest s \<noteq> cb_changed_files_digest c
      then Some verification_status.SNAPSHOT_CHANGED
      else if \<not> sn_is_release_clean s then Some verification_status.DIRTY_WORKTREE
      else None)"

definition validate_rejected_context :: "verification_status \<Rightarrow> candidate_binding option
    \<Rightarrow> repository_snapshot option \<Rightarrow> exn + unit" where
  "validate_rejected_context status candidate snapshot =
     (if snapshot \<noteq> None \<and> candidate = None
      then Inl (P09BValidationError ''rejected result: repository_snapshot requires candidate_binding'')
      else if status \<in> set CONTEXT_MISMATCH_STATUSES
      then (case (candidate, snapshot) of
              (Some c, Some s) \<Rightarrow>
                if Some status \<noteq> expected_context_mismatch_status c s
                then Inl (P09BValidationError ''rejected result: status does not match the actual primary mismatch'')
                else Inr ()
            | _ \<Rightarrow> Inl (P09BValidationError
                ''rejected result: context-mismatch status requires both candidate_binding and repository_snapshot''))
      else if status \<in> set NON_CONTEXT_REJECTION_STATUSES
      then (case (candidate, snapshot) of
              (Some c, Some s) \<Rightarrow>
                if expected_context_mismatch_status c s \<noteq> None
                then Inl (P09BValidationError
                  ''rejected result: a non-context status may not carry a primary context mismatch'')
                else Inr ()
            | _ \<Rightarrow> Inr ())
      else Inl (P09BValidationError ''rejected result: unexpected status''))"

section \<open>The verdict on a piece of evidence\<close>

record verification_result =
  vr_schema_version :: string
  vr_accepted :: bool
  vr_status :: verification_status
  vr_reason_codes :: "string list"
  vr_evidence_id :: string
  vr_run_id :: string
  vr_task_id :: string
  vr_candidate_binding :: "candidate_binding option"
  vr_repository_snapshot :: "repository_snapshot option"
  vr_matched_requirement_id :: "string option"
  vr_claim_digest :: string
  vr_verified_at :: string
  vr_verifier_version :: string
  vr_warnings :: "string list"
  vr_errors :: "string list"

definition result_keys :: "string list" where
  "result_keys =
     [''schema_version'', ''accepted'', ''status'', ''reason_codes'', ''evidence_id'', ''run_id'', ''task_id'',
      ''candidate_binding'', ''repository_snapshot'', ''matched_requirement_id'', ''claim_digest'',
      ''verified_at'', ''verifier_version'', ''warnings'', ''errors'']"

abbreviation read_status :: "string \<Rightarrow> pyval \<Rightarrow> exn + verification_status" where
  "read_status \<equiv> p09b_enum ''VerificationStatus'' verification_status_members verification_status_value"

text \<open>What an accepted and what a rejected result may say about its context.\<close>

definition validate_result_context :: "bool \<Rightarrow> verification_status \<Rightarrow> candidate_binding option
    \<Rightarrow> repository_snapshot option \<Rightarrow> string option \<Rightarrow> exn + unit" where
  "validate_result_context accepted status candidate snapshot matched =
     (if accepted
      then (case (candidate, snapshot, matched) of
              (Some c, Some s, Some m) \<Rightarrow>
                if candidate_snapshot_mismatches c s \<noteq> []
                then Inl (P09BValidationError (''accepted result: repository_snapshot does not bind to candidate_binding (''
                  @ join '', '' (candidate_snapshot_mismatches c s) @ '')''))
                else Inr ()
            | _ \<Rightarrow> Inl (P09BValidationError
                ''accepted result requires candidate_binding, repository_snapshot, and matched_requirement_id''))
      else if matched \<noteq> None
      then Inl (P09BValidationError ''a rejected result cannot claim a matched requirement'')
      else validate_rejected_context status candidate snapshot)"

text \<open>The two nested models are separate arguments; the entries for them in \<open>kw\<close> only name them.\<close>

definition result_init :: "digit_table \<Rightarrow> kwargs \<Rightarrow> candidate_binding slot \<Rightarrow> repository_snapshot slot
    \<Rightarrow> exn + verification_result" where
  "result_init nd kw candidate snapshot =
     seqE (bind_args result_keys kw) (\<lambda>_.
     seqE (require_schema ''schema_version'' ''p0-9b.verification.v1'' (arg kw ''schema_version'')) (\<lambda>sv.
     seqE (require_bool ''accepted'' (arg kw ''accepted'')) (\<lambda>accepted.
     seqE (read_status ''status'' (arg kw ''status'')) (\<lambda>status.
     seqE (raise_first [(accepted \<noteq> (status = verification_status.VERIFIED),
       P09BValidationError ''accepted must be True iff status == VERIFIED'')]) (\<lambda>_.
     seqE (require_sorted_unique_str_tuple ''reason_codes'' (arg kw ''reason_codes'')) (\<lambda>reasons.
     seqE (validate_generated_id ''evidence_id'' (arg kw ''evidence_id'')) (\<lambda>eid.
     seqE (validate_generated_id ''run_id'' (arg kw ''run_id'')) (\<lambda>run.
     seqE (validate_task_id ''task_id'' (arg kw ''task_id'')) (\<lambda>tid.
     seqE (instance_or_none ''candidate_binding must be a CandidateBinding or None'' candidate) (\<lambda>c.
     seqE (instance_or_none ''repository_snapshot must be a RepositorySnapshot or None'' snapshot) (\<lambda>s.
     seqE (optional (validate_generated_id ''matched_requirement_id'') (arg kw ''matched_requirement_id'')) (\<lambda>matched.
     seqE (validate_result_context accepted status c s matched) (\<lambda>_.
     seqE (validate_sha256_digest ''claim_digest'' (arg kw ''claim_digest'')) (\<lambda>claim.
     seqE (validate_rfc3339_utc nd ''verified_at'' (arg kw ''verified_at'')) (\<lambda>verified_at.
     seqE (require_str ''verifier_version'' False (arg kw ''verifier_version'')) (\<lambda>version.
     seqE (require_sorted_unique_str_tuple ''warnings'' (arg kw ''warnings'')) (\<lambda>warnings.
     seqE (require_sorted_unique_str_tuple ''errors'' (arg kw ''errors'')) (\<lambda>errors.
       Inr \<lparr>vr_schema_version = sv, vr_accepted = accepted, vr_status = status, vr_reason_codes = reasons,
            vr_evidence_id = eid, vr_run_id = run, vr_task_id = tid, vr_candidate_binding = c,
            vr_repository_snapshot = s, vr_matched_requirement_id = matched, vr_claim_digest = claim,
            vr_verified_at = verified_at, vr_verifier_version = version, vr_warnings = warnings,
            vr_errors = errors\<rparr>))))))))))))))))))"

definition opt_json :: "('a \<Rightarrow> pyval) \<Rightarrow> 'a option \<Rightarrow> pyval" where
  "opt_json f x = (case x of None \<Rightarrow> VNone | Some a \<Rightarrow> f a)"

definition result_items :: "verification_result \<Rightarrow> kwargs" where
  "result_items r =
     [(''schema_version'', VStr (vr_schema_version r)), (''accepted'', VBool (vr_accepted r)),
      (''status'', VStr (verification_status_value (vr_status r))),
      (''reason_codes'', str_list (vr_reason_codes r)), (''evidence_id'', VStr (vr_evidence_id r)),
      (''run_id'', VStr (vr_run_id r)), (''task_id'', VStr (vr_task_id r)),
      (''candidate_binding'', opt_json candidate_binding_to_json (vr_candidate_binding r)),
      (''repository_snapshot'', opt_json snapshot_to_json (vr_repository_snapshot r)),
      (''matched_requirement_id'', opt_str (vr_matched_requirement_id r)),
      (''claim_digest'', VStr (vr_claim_digest r)), (''verified_at'', VStr (vr_verified_at r)),
      (''verifier_version'', VStr (vr_verifier_version r)), (''warnings'', str_list (vr_warnings r)),
      (''errors'', str_list (vr_errors r))]"

definition result_to_json :: "verification_result \<Rightarrow> pyval" where
  "result_to_json r = dict_of (result_items r)"

definition slot_from_json :: "(pyval \<Rightarrow> exn + 'a) \<Rightarrow> pyval \<Rightarrow> exn + 'a slot" where
  "slot_from_json read v = (if v = VNone then Inr NoneSlot else seqE (read v) (\<lambda>a. Inr (Instance a)))"

definition result_from_json ::
  "(string \<Rightarrow> string) \<Rightarrow> digit_table \<Rightarrow> pyval \<Rightarrow> exn + verification_result" where
  "result_from_json nfc nd v =
     seqE (p09b_mapping ''EvidenceVerificationResult'' v) (\<lambda>d.
     seqE (p09b_exact_keys ''EvidenceVerificationResult'' result_keys d) (\<lambda>_.
     seqE (read_status ''status'' (dict_get d ''status'')) (\<lambda>status.
     seqE (tuple_from_json_list ''reason_codes'' (dict_get d ''reason_codes'')) (\<lambda>reasons.
     seqE (slot_from_json candidate_binding_from_json (dict_get d ''candidate_binding'')) (\<lambda>c.
     seqE (slot_from_json (snapshot_from_json nfc nd) (dict_get d ''repository_snapshot'')) (\<lambda>s.
     seqE (tuple_from_json_list ''warnings'' (dict_get d ''warnings'')) (\<lambda>warnings.
     seqE (tuple_from_json_list ''errors'' (dict_get d ''errors'')) (\<lambda>errors.
       result_init nd (call_args result_keys
         [(''status'', VEnum ''VerificationStatus'' (verification_status_value status)),
          (''reason_codes'', reasons), (''warnings'', warnings), (''errors'', errors)] d) c s))))))))"

section \<open>Verified evidence\<close>

record verified_evidence =
  ve_schema_version :: string
  ve_evidence_id :: string
  ve_run_id :: string
  ve_task_id :: string
  ve_requirement_id :: string
  ve_candidate_binding :: candidate_binding
  ve_verification_digest :: string

definition verified_keys :: "string list" where
  "verified_keys =
     [''schema_version'', ''evidence_id'', ''run_id'', ''task_id'', ''requirement_id'', ''candidate_binding'',
      ''verification_digest'']"

definition verified_payload :: "string \<Rightarrow> string \<Rightarrow> string \<Rightarrow> string \<Rightarrow> candidate_binding \<Rightarrow> pyval" where
  "verified_payload eid run tid rid c = dict_of
     [(''kind'', VStr ''p0-9b.verified-evidence-payload.v1''), (''evidence_id'', VStr eid), (''run_id'', VStr run),
      (''task_id'', VStr tid), (''requirement_id'', VStr rid),
      (''candidate_binding'', candidate_binding_to_json c)]"

definition compute_verification_digest :: "(string \<Rightarrow> string) \<Rightarrow> string \<Rightarrow> string \<Rightarrow> string \<Rightarrow> string
    \<Rightarrow> candidate_binding \<Rightarrow> exn + string" where
  "compute_verification_digest nfc eid run tid rid c = canonical_digest nfc (verified_payload eid run tid rid c)"

definition verified_init ::
  "(string \<Rightarrow> string) \<Rightarrow> kwargs \<Rightarrow> candidate_binding slot \<Rightarrow> exn + verified_evidence" where
  "verified_init nfc kw candidate =
     seqE (bind_args verified_keys kw) (\<lambda>_.
     seqE (require_schema ''schema_version'' ''p0-9b.verified-evidence.v1'' (arg kw ''schema_version'')) (\<lambda>sv.
     seqE (validate_generated_id ''evidence_id'' (arg kw ''evidence_id'')) (\<lambda>eid.
     seqE (validate_generated_id ''run_id'' (arg kw ''run_id'')) (\<lambda>run.
     seqE (validate_task_id ''task_id'' (arg kw ''task_id'')) (\<lambda>tid.
     seqE (validate_generated_id ''requirement_id'' (arg kw ''requirement_id'')) (\<lambda>rid.
     seqE (instance_of ''candidate_binding must be a CandidateBinding'' candidate) (\<lambda>c.
     seqE (validate_sha256_digest ''verification_digest'' (arg kw ''verification_digest'')) (\<lambda>digest.
     seqE (canonical_digest nfc (verified_payload eid run tid rid c)) (\<lambda>expected.
     seqE (raise_first [(digest \<noteq> expected,
       P09BValidationError ''verification_digest does not match the canonical payload'')]) (\<lambda>_.
       Inr \<lparr>ve_schema_version = sv, ve_evidence_id = eid, ve_run_id = run, ve_task_id = tid,
            ve_requirement_id = rid, ve_candidate_binding = c, ve_verification_digest = digest\<rparr>))))))))))"

definition verified_items :: "verified_evidence \<Rightarrow> kwargs" where
  "verified_items v =
     [(''schema_version'', VStr (ve_schema_version v)), (''evidence_id'', VStr (ve_evidence_id v)),
      (''run_id'', VStr (ve_run_id v)), (''task_id'', VStr (ve_task_id v)),
      (''requirement_id'', VStr (ve_requirement_id v)),
      (''candidate_binding'', candidate_binding_to_json (ve_candidate_binding v)),
      (''verification_digest'', VStr (ve_verification_digest v))]"

definition verified_to_json :: "verified_evidence \<Rightarrow> pyval" where
  "verified_to_json v = dict_of (verified_items v)"

definition verified_from_json :: "(string \<Rightarrow> string) \<Rightarrow> pyval \<Rightarrow> exn + verified_evidence" where
  "verified_from_json nfc v =
     seqE (p09b_mapping ''VerifiedCommandEvidence'' v) (\<lambda>d.
     seqE (p09b_exact_keys ''VerifiedCommandEvidence'' verified_keys d) (\<lambda>_.
     seqE (candidate_binding_from_json (dict_get d ''candidate_binding'')) (\<lambda>c.
       verified_init nfc (call_args verified_keys [] d) (Instance c))))"

section \<open>The verification bundle\<close>

record verification_bundle =
  vb_schema_version :: string
  vb_task_id :: string
  vb_candidate_binding :: candidate_binding
  vb_verified :: "verified_evidence list"
  vb_rejected :: "verification_result list"
  vb_verified_at_snapshot :: repository_snapshot
  vb_bundle_digest :: string

definition bundle_keys :: "string list" where
  "bundle_keys =
     [''schema_version'', ''task_id'', ''candidate_binding'', ''verified'', ''rejected'', ''verified_at_snapshot'',
      ''bundle_digest'']"

definition bundle_payload :: "string \<Rightarrow> candidate_binding \<Rightarrow> verified_evidence list
    \<Rightarrow> verification_result list \<Rightarrow> repository_snapshot \<Rightarrow> pyval" where
  "bundle_payload tid c vs rs s = dict_of
     [(''kind'', VStr ''p0-9b.verification-bundle-payload.v1''), (''task_id'', VStr tid),
      (''candidate_binding'', candidate_binding_to_json c), (''verified'', VList (map verified_to_json vs)),
      (''rejected'', VList (map result_to_json rs)), (''verified_at_snapshot'', snapshot_to_json s)]"

definition compute_bundle_digest :: "(string \<Rightarrow> string) \<Rightarrow> string \<Rightarrow> candidate_binding
    \<Rightarrow> verified_evidence list \<Rightarrow> verification_result list \<Rightarrow> repository_snapshot \<Rightarrow> exn + string" where
  "compute_bundle_digest nfc tid c vs rs s = canonical_digest nfc (bundle_payload tid c vs rs s)"

text \<open>An argument that should be a tuple of instances is \<open>None\<close> when it is no exact tuple.\<close>

definition rejected_entry :: "verification_result slot \<Rightarrow> exn + verification_result" where
  "rejected_entry x =
     seqE (instance_of ''rejected may only contain EvidenceVerificationResult'' x) (\<lambda>r.
       if vr_accepted r then Inl (P09BValidationError ''rejected tuple cannot contain an accepted result'') else Inr r)"

text \<open>One coherent context: the entries belong to the task and the candidate of the bundle.\<close>

definition verified_entry_check :: "string \<Rightarrow> candidate_binding \<Rightarrow> verified_evidence \<Rightarrow> exn + unit" where
  "verified_entry_check tid c v = raise_first
     [(ve_task_id v \<noteq> tid, P09BValidationError ''verified evidence task_id != bundle task_id''),
      (ve_candidate_binding v \<noteq> c,
         P09BValidationError ''every verified record must match the bundle candidate binding'')]"

definition rejected_entry_check :: "string \<Rightarrow> candidate_binding \<Rightarrow> verification_result \<Rightarrow> exn + unit" where
  "rejected_entry_check tid c r = raise_first
     [(vr_task_id r \<noteq> tid, P09BValidationError ''rejected result task_id != bundle task_id''),
      (vr_candidate_binding r \<noteq> None \<and> vr_candidate_binding r \<noteq> Some c,
         P09BValidationError ''rejected result expected candidate_binding != bundle candidate_binding'')]"

definition bundle_init :: "(string \<Rightarrow> string) \<Rightarrow> pyval \<Rightarrow> pyval \<Rightarrow> candidate_binding slot
    \<Rightarrow> verified_evidence slot list option \<Rightarrow> verification_result slot list option \<Rightarrow> repository_snapshot slot
    \<Rightarrow> pyval \<Rightarrow> exn + verification_bundle" where
  "bundle_init nfc sv tid candidate verified rejected snapshot digest =
     seqE (require_schema ''schema_version'' ''p0-9b.verification-bundle.v1'' sv) (\<lambda>sv.
     seqE (validate_task_id ''task_id'' tid) (\<lambda>tid.
     seqE (instance_of ''candidate_binding must be a CandidateBinding'' candidate) (\<lambda>c.
     (case (verified, rejected) of
        (Some vslots, Some rslots) \<Rightarrow>
          seqE (mapE (instance_of ''verified may only contain VerifiedCommandEvidence (no raw evidence)'') vslots) (\<lambda>vs.
          seqE (mapE rejected_entry rslots) (\<lambda>rs.
          seqE (instance_of ''verified_at_snapshot must be a RepositorySnapshot'' snapshot) (\<lambda>s.
          seqE (raise_first [(\<not> distinct (map ve_evidence_id vs @ map vr_evidence_id rs),
            P09BValidationError ''evidence IDs must be unique across verified and rejected'')]) (\<lambda>_.
          seqE (mapE (verified_entry_check tid c) vs) (\<lambda>_.
          seqE (mapE (rejected_entry_check tid c) rs) (\<lambda>_.
          seqE (raise_first [(candidate_snapshot_mismatches c s \<noteq> [],
            P09BValidationError (''verified_at_snapshot does not bind to candidate_binding (''
              @ join '', '' (candidate_snapshot_mismatches c s) @ '')''))]) (\<lambda>_.
          seqE (validate_sha256_digest ''bundle_digest'' digest) (\<lambda>digest.
          seqE (canonical_digest nfc (bundle_payload tid c vs rs s)) (\<lambda>expected.
          seqE (raise_first [(digest \<noteq> expected,
            P09BValidationError ''bundle_digest does not match the canonical payload'')]) (\<lambda>_.
            Inr \<lparr>vb_schema_version = sv, vb_task_id = tid, vb_candidate_binding = c, vb_verified = vs,
                 vb_rejected = rs, vb_verified_at_snapshot = s, vb_bundle_digest = digest\<rparr>))))))))))
      | _ \<Rightarrow> Inl (P09BValidationError ''verified and rejected must be tuples'')))))"

definition bundle_items :: "verification_bundle \<Rightarrow> kwargs" where
  "bundle_items b =
     [(''schema_version'', VStr (vb_schema_version b)), (''task_id'', VStr (vb_task_id b)),
      (''candidate_binding'', candidate_binding_to_json (vb_candidate_binding b)),
      (''verified'', VList (map verified_to_json (vb_verified b))),
      (''rejected'', VList (map result_to_json (vb_rejected b))),
      (''verified_at_snapshot'', snapshot_to_json (vb_verified_at_snapshot b)),
      (''bundle_digest'', VStr (vb_bundle_digest b))]"

definition bundle_to_json :: "verification_bundle \<Rightarrow> pyval" where
  "bundle_to_json b = dict_of (bundle_items b)"

definition bundle_from_json ::
  "(string \<Rightarrow> string) \<Rightarrow> digit_table \<Rightarrow> pyval \<Rightarrow> exn + verification_bundle" where
  "bundle_from_json nfc nd v =
     seqE (p09b_mapping ''EvidenceVerificationBundle'' v) (\<lambda>d.
     seqE (p09b_exact_keys ''EvidenceVerificationBundle'' bundle_keys d) (\<lambda>_.
     (case (dict_get d ''verified'', dict_get d ''rejected'') of
        (VList vs, VList rs) \<Rightarrow>
          seqE (candidate_binding_from_json (dict_get d ''candidate_binding'')) (\<lambda>c.
          seqE (mapE (verified_from_json nfc) vs) (\<lambda>verified.
          seqE (mapE (result_from_json nfc nd) rs) (\<lambda>rejected.
          seqE (snapshot_from_json nfc nd (dict_get d ''verified_at_snapshot'')) (\<lambda>s.
            bundle_init nfc (dict_get d ''schema_version'') (dict_get d ''task_id'') (Instance c)
              (Some (map Instance verified)) (Some (map Instance rejected)) (Instance s)
              (dict_get d ''bundle_digest'')))))
      | _ \<Rightarrow> Inl (P09BValidationError ''verified and rejected must be JSON lists''))))"

section \<open>What the readers accept\<close>

definition task_ok :: "string \<Rightarrow> bool" where
  "task_ok s \<longleftrightarrow> s \<noteq> [] \<and> dollar_match task_id_grammar s"

definition times_ok :: "digit_table \<Rightarrow> string \<Rightarrow> string \<Rightarrow> int \<Rightarrow> bool" where
  "times_ok nd t1 t2 d \<longleftrightarrow> stamp_ok nd t1 \<and> stamp_ok nd t2 \<and> 0 \<le> d
     \<and> (\<exists>start finish. parse_rfc3339_utc nd t1 = Inr start \<and> parse_rfc3339_utc nd t2 = Inr finish
          \<and> start \<le> finish)
     \<and> validate_duration_ms nd ''duration_ms'' d t1 t2 = Inr ()"

definition names_ok :: "string list \<Rightarrow> bool" where
  "names_ok xs \<longleftrightarrow> [] \<notin> set xs \<and> sorted_wrt (<) xs \<and> (\<forall>x \<in> set xs. \<not> list_ex control_char x)"

lemma validate_task_Inr [reader_simps]: "validate_task_id fld v = Inr s \<longleftrightarrow> v = VStr s \<and> task_ok s"
  by (auto simp: validate_task_id_def match_or_fail_def task_ok_def result_simps)

lemma validate_times_Inr [reader_simps]:
  "validate_times nd v1 v2 v3 = Inr (t1, t2, d) \<longleftrightarrow>
     v1 = VStr t1 \<and> v2 = VStr t2 \<and> v3 = VInt d \<and> times_ok nd t1 t2 d"
  by (auto simp: validate_times_def times_ok_def result_simps reader_simps not_less)

lemma names_Inr [reader_simps]:
  "require_sorted_unique_str_tuple fld v = Inr xs \<longleftrightarrow> v = str_tuple xs \<and> names_ok xs"
  by (simp add: require_sorted_unique_Inr str_tuple_def names_ok_def)

lemma optional_int [reader_simps]: "optional (require_int fld) v = Inr i \<longleftrightarrow> v = opt_int i"
  by (cases i) (auto simp: optional_def opt_int_def result_simps)

lemma optional_text [reader_simps]:
  "optional (validate_sha256_digest fld) v = Inr s \<longleftrightarrow> v = opt_str s \<and> pred_option digest_ok s"
  "optional (validate_generated_id fld) v = Inr s \<longleftrightarrow> v = opt_str s \<and> pred_option id_ok s"
  by (cases s; auto simp: optional_def opt_str_def result_simps reader_simps)+

lemma int_or_null_ok [reader_simps]: "int_or_null fld v = Inr u \<longleftrightarrow> (\<exists>i. v = opt_int i)"
  by (cases v) (auto simp: int_or_null_def opt_int_def split: option.splits intro: exI [of _ "Some _"] exI [of _ None])

lemma opt_int_inj [simp]: "opt_int a = opt_int b \<longleftrightarrow> a = b"
  by (auto simp: opt_int_def split: option.splits)

lemma instance_of_Inr [reader_simps]: "instance_of msg x = Inr a \<longleftrightarrow> x = Instance a"
  by (cases x) (auto simp: instance_of_def)

lemma instances_Inr [reader_simps]: "mapE (instance_of msg) xs = Inr ys \<longleftrightarrow> xs = map Instance ys"
  by (induction xs arbitrary: ys) (auto simp: result_simps instance_of_Inr)

lemma rejected_entries_Inr [reader_simps]:
  "mapE rejected_entry xs = Inr ys \<longleftrightarrow> xs = map Instance ys \<and> (\<forall>y \<in> set ys. \<not> vr_accepted y)"
  by (induction xs arbitrary: ys) (auto simp: result_simps rejected_entry_def instance_of_Inr)

lemma checks_Inr: "(\<exists>us. mapE f xs = Inr us) \<longleftrightarrow> (\<forall>x \<in> set xs. is_ok (f x))"
  by (induction xs) (auto simp: result_simps is_ok_iff)

lemmas status_readers [simp] =
  dirty_state_enum.p09b_enum_iff dirty_state_enum.val_inj
  evidence_source_enum.p09b_enum_iff evidence_source_enum.val_inj
  verification_status_enum.p09b_enum_iff verification_status_enum.val_inj

lemma instance_or_none_Inr [reader_simps]:
  "instance_or_none msg x = Inr a \<longleftrightarrow> x = (case a of None \<Rightarrow> NoneSlot | Some b \<Rightarrow> Instance b)"
  by (cases x) (auto simp: instance_or_none_def split: option.splits)

section \<open>Valid models\<close>

definition provenance_ok :: "(string \<Rightarrow> string) \<Rightarrow> digit_table \<Rightarrow> evidence_provenance \<Rightarrow> bool" where
  "provenance_ok nfc nd p \<longleftrightarrow> pv_schema_version p = ''p0-9b.provenance.v1'' \<and> id_ok (pv_evidence_id p)
     \<and> task_ok (pv_task_id p) \<and> id_ok (pv_run_id p) \<and> id_ok (pv_collector_id p) \<and> pv_collector_version p \<noteq> []
     \<and> id_ok (pv_requirement_id p) \<and> pv_argv p \<noteq> [] \<and> (\<forall>x \<in> set (pv_argv p). line_ok x)
     \<and> (pv_working_directory p = ''.'' \<or> path_ok nfc (pv_working_directory p)) \<and> digest_ok (pv_command_digest p)
     \<and> (pv_completed p \<longrightarrow> pv_exit_code p \<noteq> None)
     \<and> times_ok nd (pv_started_at p) (pv_completed_at p) (pv_duration_ms p) \<and> digest_ok (pv_repository_id p)
     \<and> sha_ok (pv_object_format p) (pv_base_commit_sha p) \<and> sha_ok (pv_object_format p) (pv_commit_sha p)
     \<and> sha_ok (pv_object_format p) (pv_tree_sha p) \<and> id_ok (pv_pre_snapshot_id p) \<and> id_ok (pv_post_snapshot_id p)
     \<and> digest_ok (pv_changed_files_digest p) \<and> digest_ok (pv_stdout_digest p) \<and> digest_ok (pv_stderr_digest p)
     \<and> pred_option digest_ok (pv_artifact_digest p)"

lemma provenance_init_ok: "provenance_init nfc nd kw = Inr p \<Longrightarrow> provenance_ok nfc nd p"
  unfolding provenance_init_def by (clarsimp simp: result_simps reader_simps provenance_ok_def)

lemma provenance_items_keys: "map fst (provenance_items p) = provenance_keys"
  by (simp add: provenance_items_def provenance_keys_def)

lemma provenance_round_trip: "provenance_ok nfc nd p \<Longrightarrow> provenance_from_json nfc nd (provenance_to_json p) = Inr p"
  unfolding provenance_from_json_def provenance_to_json_def provenance_init_def
    read_dict_of [OF provenance_items_keys]
  by (simp add: seqE_Inr_iff reader_simps arg_call_args provenance_keys_def provenance_items_def provenance_ok_def)

lemma provenance_from_json_ok: "provenance_from_json nfc nd v = Inr p \<Longrightarrow> provenance_ok nfc nd p"
  unfolding provenance_from_json_def by (auto simp: seqE_Inr_iff dest: provenance_init_ok)

lemma snapshot_from_json_ok: "snapshot_from_json nfc nd v = Inr s \<Longrightarrow> snapshot_ok nfc nd s"
  unfolding snapshot_from_json_def by (auto simp: seqE_Inr_iff dest: snapshot_init_ok)

lemma candidate_from_json_ok: "candidate_binding_from_json v = Inr c \<Longrightarrow> candidate_ok c"
  unfolding candidate_binding_from_json_def by (auto simp: seqE_Inr_iff dest: candidate_binding_init_ok)

text \<open>The context that the provenance shares with its two snapshots.\<close>

definition collected_coherent :: "collected_evidence \<Rightarrow> bool" where
  "collected_coherent e \<longleftrightarrow>
     (let p = ce_provenance e; s1 = ce_pre_snapshot e; s2 = ce_post_snapshot e
      in ce_schema_version e = ''p0-9b.collected-evidence.v1'' \<and> sn_snapshot_id s1 = pv_pre_snapshot_id p
       \<and> sn_snapshot_id s2 = pv_post_snapshot_id p
       \<and> sn_repository_id s1 = pv_repository_id p \<and> sn_object_format s1 = pv_object_format p
       \<and> sn_base_commit_sha s1 = pv_base_commit_sha p
       \<and> sn_repository_id s2 = pv_repository_id p \<and> sn_object_format s2 = pv_object_format p
       \<and> sn_base_commit_sha s2 = pv_base_commit_sha p
       \<and> sn_head_commit_sha s2 = pv_commit_sha p \<and> sn_head_tree_sha s2 = pv_tree_sha p
       \<and> pv_dirty_state p = derived_dirty_state s1 s2)"

definition collected_ok :: "(string \<Rightarrow> string) \<Rightarrow> digit_table \<Rightarrow> collected_evidence \<Rightarrow> bool" where
  "collected_ok nfc nd e \<longleftrightarrow> collected_coherent e \<and> provenance_ok nfc nd (ce_provenance e)
     \<and> snapshot_ok nfc nd (ce_pre_snapshot e) \<and> snapshot_ok nfc nd (ce_post_snapshot e)"

lemma collected_init_Inr:
  "collected_init sv p s1 s2 = Inr e \<longleftrightarrow> sv = VStr (ce_schema_version e) \<and> p = Instance (ce_provenance e)
     \<and> s1 = Instance (ce_pre_snapshot e) \<and> s2 = Instance (ce_post_snapshot e) \<and> collected_coherent e"
  unfolding collected_init_def collected_coherent_def snapshot_context_errors_def
  by (cases e) (auto simp: seqE_Inr_iff reader_simps Let_def)

lemma collected_from_json_ok: "collected_from_json nfc nd v = Inr e \<Longrightarrow> collected_ok nfc nd e"
  unfolding collected_from_json_def
  by (auto simp: seqE_Inr_iff collected_init_Inr collected_ok_def dest: provenance_from_json_ok snapshot_from_json_ok)

lemma collected_items_keys: "map fst (collected_items e) = collected_keys"
  by (simp add: collected_items_def collected_keys_def)

lemma collected_round_trip: "collected_ok nfc nd e \<Longrightarrow> collected_from_json nfc nd (collected_to_json e) = Inr e"
  unfolding collected_from_json_def collected_to_json_def read_dict_of [OF collected_items_keys]
  by (simp add: seqE_Inr_iff collected_items_def collected_ok_def collected_init_Inr provenance_round_trip
      snapshot_round_trip)

lemma no_collected_mismatches: "collected_candidate_mismatches c e = [] \<longleftrightarrow>
    pv_repository_id (ce_provenance e) = cb_repository_id c \<and> pv_object_format (ce_provenance e) = cb_object_format c
    \<and> pv_base_commit_sha (ce_provenance e) = cb_base_commit_sha c
    \<and> pv_commit_sha (ce_provenance e) = cb_candidate_commit_sha c \<and> pv_tree_sha (ce_provenance e) = cb_candidate_tree_sha c"
  by (simp add: collected_candidate_mismatches_def Let_def)

subsection \<open>Verdicts\<close>

lemma no_context_mismatch: "expected_context_mismatch_status c s = None \<longleftrightarrow>
    candidate_snapshot_mismatches c s = [] \<and> sn_is_release_clean s"
  by (auto simp: expected_context_mismatch_status_def no_mismatches)

lemma context_status_is_context:
  "expected_context_mismatch_status c s = Some st \<Longrightarrow> st \<in> set CONTEXT_MISMATCH_STATUSES"
  by (auto simp: expected_context_mismatch_status_def CONTEXT_MISMATCH_STATUSES_def split: if_splits)

text \<open>The two families of statuses partition the rejections.\<close>

lemma rejection_statuses:
  "set CONTEXT_MISMATCH_STATUSES \<inter> set NON_CONTEXT_REJECTION_STATUSES = {}"
  "st \<noteq> verification_status.VERIFIED \<longleftrightarrow> st \<in> set CONTEXT_MISMATCH_STATUSES \<union> set NON_CONTEXT_REJECTION_STATUSES"
  by (simp_all add: CONTEXT_MISMATCH_STATUSES_def NON_CONTEXT_REJECTION_STATUSES_def) (cases st; simp)

lemma validate_rejected_context_ok:
  "validate_rejected_context st co so = Inr u \<longleftrightarrow> st \<noteq> verification_status.VERIFIED \<and>
     (case (co, so) of
        (Some c, Some s) \<Rightarrow> expected_context_mismatch_status c s
          = (if st \<in> set CONTEXT_MISMATCH_STATUSES then Some st else None)
      | (None, Some s) \<Rightarrow> False
      | _ \<Rightarrow> st \<in> set NON_CONTEXT_REJECTION_STATUSES)"
  using rejection_statuses(1) rejection_statuses(2) [of st]
  by (auto simp: validate_rejected_context_def split: option.splits)

lemma validate_result_context_ok:
  "validate_result_context acc st co so m = Inr u \<longleftrightarrow>
     (if acc then m \<noteq> None \<and> (\<exists>c s. co = Some c \<and> so = Some s \<and> candidate_snapshot_mismatches c s = [])
      else m = None \<and> validate_rejected_context st co so = Inr u)"
  by (auto simp: validate_result_context_def split: option.splits)

definition result_coherent :: "verification_result \<Rightarrow> bool" where
  "result_coherent r \<longleftrightarrow> vr_accepted r = (vr_status r = verification_status.VERIFIED)
     \<and> is_ok (validate_result_context (vr_accepted r) (vr_status r) (vr_candidate_binding r)
          (vr_repository_snapshot r) (vr_matched_requirement_id r))"

definition result_ok :: "(string \<Rightarrow> string) \<Rightarrow> digit_table \<Rightarrow> verification_result \<Rightarrow> bool" where
  "result_ok nfc nd r \<longleftrightarrow> vr_schema_version r = ''p0-9b.verification.v1'' \<and> result_coherent r
     \<and> names_ok (vr_reason_codes r) \<and> id_ok (vr_evidence_id r) \<and> id_ok (vr_run_id r) \<and> task_ok (vr_task_id r)
     \<and> pred_option id_ok (vr_matched_requirement_id r) \<and> digest_ok (vr_claim_digest r)
     \<and> stamp_ok nd (vr_verified_at r) \<and> vr_verifier_version r \<noteq> [] \<and> names_ok (vr_warnings r)
     \<and> names_ok (vr_errors r) \<and> pred_option candidate_ok (vr_candidate_binding r)
     \<and> pred_option (snapshot_ok nfc nd) (vr_repository_snapshot r)"

definition option_slot :: "'a option \<Rightarrow> 'a slot" where
  "option_slot a = (case a of None \<Rightarrow> NoneSlot | Some b \<Rightarrow> Instance b)"

lemma option_slot_inj [simp]: "option_slot a = option_slot b \<longleftrightarrow> a = b"
  by (auto simp: option_slot_def split: option.splits)

lemma result_init_ok:
  assumes "result_init nd kw (option_slot c) (option_slot s) = Inr r"
    and "pred_option candidate_ok c" and "pred_option (snapshot_ok nfc nd) s"
  shows "result_ok nfc nd r"
  using assms unfolding result_init_def
  by (clarsimp simp: result_simps reader_simps result_ok_def result_coherent_def is_ok_iff simp flip: option_slot_def)

lemma result_init_coherent:
  assumes "result_init nd kw (option_slot c) (option_slot s) = Inr r"
  shows "result_coherent r \<and> vr_candidate_binding r = c \<and> vr_repository_snapshot r = s"
  using assms unfolding result_init_def
  by (clarsimp simp: result_simps reader_simps result_coherent_def is_ok_iff simp flip: option_slot_def)

lemma slot_from_json_ok:
  assumes "slot_from_json rd v = Inr x" and "\<And>v a. rd v = Inr a \<Longrightarrow> P a"
  shows "\<exists>a. x = option_slot a \<and> pred_option P a"
  using assms by (auto simp: slot_from_json_def option_slot_def seqE_Inr_iff split: if_splits
      intro: exI [of _ None] exI [of _ "Some _"])

lemma slot_round_trip:
  assumes "pred_option P a" and "\<And>b. P b \<Longrightarrow> rd (wr b) = Inr b" and "\<And>b. wr b \<noteq> VNone"
  shows "slot_from_json rd (opt_json wr a) = Inr (option_slot a)"
  using assms by (cases a) (auto simp: slot_from_json_def opt_json_def option_slot_def)

lemma candidate_slot_ok:
  "slot_from_json candidate_binding_from_json v = Inr x \<Longrightarrow> \<exists>a. x = option_slot a \<and> pred_option candidate_ok a"
  using slot_from_json_ok candidate_from_json_ok by blast

lemma snapshot_slot_ok: "slot_from_json (snapshot_from_json nfc nd) v = Inr x \<Longrightarrow>
    \<exists>a. x = option_slot a \<and> pred_option (snapshot_ok nfc nd) a"
  using slot_from_json_ok snapshot_from_json_ok by blast

lemma result_from_json_ok: "result_from_json nfc nd v = Inr r \<Longrightarrow> result_ok nfc nd r"
  unfolding result_from_json_def
  by (clarsimp simp: seqE_Inr_iff) (blast dest: candidate_slot_ok snapshot_slot_ok intro: result_init_ok)

lemma json_not_none [simp]: "candidate_binding_to_json c \<noteq> VNone" "snapshot_to_json s \<noteq> VNone"
  by (simp_all add: candidate_binding_to_json_def snapshot_to_json_def dict_of_def)

lemma result_items_keys: "map fst (result_items r) = result_keys"
  by (simp add: result_items_def result_keys_def)

lemma result_round_trip: "result_ok nfc nd r \<Longrightarrow> result_from_json nfc nd (result_to_json r) = Inr r"
proof -
  assume r: "result_ok nfc nd r"
  have c: "slot_from_json candidate_binding_from_json (opt_json candidate_binding_to_json (vr_candidate_binding r))
      = Inr (option_slot (vr_candidate_binding r))"
    by (rule slot_round_trip [of candidate_ok])
       (use r in \<open>auto simp: result_ok_def candidate_round_trip\<close>)
  have s: "slot_from_json (snapshot_from_json nfc nd) (opt_json snapshot_to_json (vr_repository_snapshot r))
      = Inr (option_slot (vr_repository_snapshot r))"
    by (rule slot_round_trip [of "snapshot_ok nfc nd"])
       (use r in \<open>auto simp: result_ok_def snapshot_round_trip\<close>)
  show ?thesis
    using r unfolding result_from_json_def result_to_json_def read_dict_of [OF result_items_keys] result_init_def
    by (simp add: seqE_Inr_iff reader_simps arg_call_args result_keys_def result_items_def result_ok_def
        result_coherent_def is_ok_iff c s flip: option_slot_def) (elim conjE, simp)
qed

text \<open>A valid result is one that the constructor makes.\<close>

lemma result_rebuild: "result_ok nfc nd r \<Longrightarrow>
    \<exists>kw. result_init nd kw (option_slot (vr_candidate_binding r)) (option_slot (vr_repository_snapshot r)) = Inr r"
proof -
  assume r: "result_ok nfc nd r"
  then obtain kw c s where i: "result_init nd kw (option_slot c) (option_slot s) = Inr r"
    using result_round_trip [OF r] unfolding result_from_json_def
    by (clarsimp simp: seqE_Inr_iff) (blast dest: candidate_slot_ok snapshot_slot_ok)
  then show ?thesis using result_init_coherent [OF i] by blast
qed

subsection \<open>Verified evidence and bundles\<close>

definition verified_ok :: "(string \<Rightarrow> string) \<Rightarrow> verified_evidence \<Rightarrow> bool" where
  "verified_ok nfc v \<longleftrightarrow> ve_schema_version v = ''p0-9b.verified-evidence.v1'' \<and> id_ok (ve_evidence_id v)
     \<and> id_ok (ve_run_id v) \<and> task_ok (ve_task_id v) \<and> id_ok (ve_requirement_id v)
     \<and> candidate_ok (ve_candidate_binding v) \<and> digest_ok (ve_verification_digest v)
     \<and> compute_verification_digest nfc (ve_evidence_id v) (ve_run_id v) (ve_task_id v) (ve_requirement_id v)
         (ve_candidate_binding v) = Inr (ve_verification_digest v)"

lemma verified_init_ok:
  "verified_init nfc kw (Instance c) = Inr v \<Longrightarrow> candidate_ok c \<Longrightarrow> verified_ok nfc v"
  unfolding verified_init_def
  by (clarsimp simp: result_simps reader_simps verified_ok_def compute_verification_digest_def)

lemma verified_from_json_ok: "verified_from_json nfc v = Inr e \<Longrightarrow> verified_ok nfc e"
  unfolding verified_from_json_def by (auto simp: seqE_Inr_iff dest: candidate_from_json_ok verified_init_ok)

lemma verified_items_keys: "map fst (verified_items v) = verified_keys"
  by (simp add: verified_items_def verified_keys_def)

lemma verified_round_trip: "verified_ok nfc v \<Longrightarrow> verified_from_json nfc (verified_to_json v) = Inr v"
  unfolding verified_from_json_def verified_to_json_def read_dict_of [OF verified_items_keys] verified_init_def
  by (simp add: seqE_Inr_iff reader_simps arg_call_args verified_keys_def verified_items_def verified_ok_def
      candidate_round_trip compute_verification_digest_def)

text \<open>
  What the constructor checks across the parts of a bundle: a single task, a single candidate, one
  verdict for a piece of evidence, and a snapshot of the candidate.
\<close>

definition bundle_coherent :: "verification_bundle \<Rightarrow> bool" where
  "bundle_coherent b \<longleftrightarrow>
     (\<forall>r \<in> set (vb_rejected b). \<not> vr_accepted r)
     \<and> distinct (map ve_evidence_id (vb_verified b) @ map vr_evidence_id (vb_rejected b))
     \<and> (\<forall>v \<in> set (vb_verified b). ve_task_id v = vb_task_id b \<and> ve_candidate_binding v = vb_candidate_binding b)
     \<and> (\<forall>r \<in> set (vb_rejected b). vr_task_id r = vb_task_id b
          \<and> vr_candidate_binding r \<in> {None, Some (vb_candidate_binding b)})
     \<and> candidate_snapshot_mismatches (vb_candidate_binding b) (vb_verified_at_snapshot b) = []"

definition bundle_head_ok :: "(string \<Rightarrow> string) \<Rightarrow> verification_bundle \<Rightarrow> bool" where
  "bundle_head_ok nfc b \<longleftrightarrow> vb_schema_version b = ''p0-9b.verification-bundle.v1'' \<and> task_ok (vb_task_id b)
     \<and> digest_ok (vb_bundle_digest b)
     \<and> compute_bundle_digest nfc (vb_task_id b) (vb_candidate_binding b) (vb_verified b) (vb_rejected b)
         (vb_verified_at_snapshot b) = Inr (vb_bundle_digest b)"

definition bundle_ok :: "(string \<Rightarrow> string) \<Rightarrow> digit_table \<Rightarrow> verification_bundle \<Rightarrow> bool" where
  "bundle_ok nfc nd b \<longleftrightarrow> bundle_head_ok nfc b \<and> bundle_coherent b \<and> candidate_ok (vb_candidate_binding b)
     \<and> (\<forall>v \<in> set (vb_verified b). verified_ok nfc v) \<and> (\<forall>r \<in> set (vb_rejected b). result_ok nfc nd r)
     \<and> snapshot_ok nfc nd (vb_verified_at_snapshot b)"

lemma verified_entry_check_ok [simp]:
  "is_ok (verified_entry_check tid c v) \<longleftrightarrow> ve_task_id v = tid \<and> ve_candidate_binding v = c"
  by (auto simp: is_ok_iff verified_entry_check_def)

lemma rejected_entry_check_ok [simp]:
  "is_ok (rejected_entry_check tid c r) \<longleftrightarrow> vr_task_id r = tid \<and> vr_candidate_binding r \<in> {None, Some c}"
  by (auto simp: is_ok_iff rejected_entry_check_def)

lemma map_Instance_inj [simp]: "map Instance xs = map Instance ys \<longleftrightarrow> xs = ys"
  by (simp add: inj_map_eq_map inj_def)

lemma verified_entries_checked: "mapE (verified_entry_check tid c) vs = Inr us \<Longrightarrow>
    \<forall>v \<in> set vs. ve_task_id v = tid \<and> ve_candidate_binding v = c"
  using checks_Inr [of "verified_entry_check tid c" vs] by auto

lemma rejected_entries_checked: "mapE (rejected_entry_check tid c) rs = Inr us \<Longrightarrow>
    \<forall>r \<in> set rs. vr_task_id r = tid \<and> vr_candidate_binding r \<in> {None, Some c}"
  using checks_Inr [of "rejected_entry_check tid c" rs] by auto

lemma case_two_options:
  "(case a of None \<Rightarrow> Inl e | Some vs \<Rightarrow> (case b of None \<Rightarrow> Inl e | Some rs \<Rightarrow> f vs rs)) = Inr x \<longleftrightarrow>
     (\<exists>vs rs. a = Some vs \<and> b = Some rs \<and> f vs rs = Inr x)"
  by (auto split: option.splits)

lemma case_two_lists:
  "(case a of VList vs \<Rightarrow> (case b of VList rs \<Rightarrow> f vs rs | _ \<Rightarrow> Inl e) | _ \<Rightarrow> Inl e) = Inr x \<longleftrightarrow>
     (\<exists>vs rs. a = VList vs \<and> b = VList rs \<and> f vs rs = Inr x)"
  by (cases a; cases b) auto

lemma bundle_init_Inr:
  "bundle_init nfc sv tid c vs rs s d = Inr b \<longleftrightarrow>
     sv = VStr (vb_schema_version b) \<and> tid = VStr (vb_task_id b) \<and> c = Instance (vb_candidate_binding b)
     \<and> vs = Some (map Instance (vb_verified b)) \<and> rs = Some (map Instance (vb_rejected b))
     \<and> s = Instance (vb_verified_at_snapshot b) \<and> d = VStr (vb_bundle_digest b)
     \<and> bundle_head_ok nfc b \<and> bundle_coherent b" (is "?l \<longleftrightarrow> ?r")
proof
  assume ?l
  then show ?r
    unfolding bundle_init_def
    by (clarsimp simp: seqE_Inr_iff reader_simps case_two_options bundle_head_ok_def bundle_coherent_def
        compute_bundle_digest_def dest!: verified_entries_checked rejected_entries_checked)
next
  assume r: ?r
  then have "\<exists>us. mapE (verified_entry_check (vb_task_id b) (vb_candidate_binding b)) (vb_verified b) = Inr us"
    "\<exists>us. mapE (rejected_entry_check (vb_task_id b) (vb_candidate_binding b)) (vb_rejected b) = Inr us"
    unfolding checks_Inr by (auto simp: bundle_coherent_def)
  with r show ?l
    unfolding bundle_init_def
    by (auto simp: seqE_Inr_iff reader_simps bundle_head_ok_def bundle_coherent_def compute_bundle_digest_def)
qed

lemma mapE_all_ok: "mapE f xs = Inr ys \<Longrightarrow> (\<And>x y. f x = Inr y \<Longrightarrow> P y) \<Longrightarrow> \<forall>y \<in> set ys. P y"
  by (induction xs arbitrary: ys) (auto simp: seqE_Inr_iff)

lemma mapE_round_trip: "\<forall>x \<in> set xs. rd (wr x) = Inr x \<Longrightarrow> mapE rd (map wr xs) = Inr xs"
  by (induction xs) auto

lemma bundle_from_json_ok:
  assumes "bundle_from_json nfc nd v = Inr b"
  shows "bundle_ok nfc nd b"
proof -
  obtain vs rs w1 w2 where parts: "mapE (verified_from_json nfc) vs = Inr (vb_verified b)"
    "mapE (result_from_json nfc nd) rs = Inr (vb_rejected b)"
    "candidate_binding_from_json w1 = Inr (vb_candidate_binding b)"
    "snapshot_from_json nfc nd w2 = Inr (vb_verified_at_snapshot b)" "bundle_head_ok nfc b" "bundle_coherent b"
    using assms unfolding bundle_from_json_def
    by (auto simp: seqE_Inr_iff bundle_init_Inr case_two_lists)
  have "\<forall>e \<in> set (vb_verified b). verified_ok nfc e"
    by (rule mapE_all_ok [OF parts(1)]) (rule verified_from_json_ok)
  moreover have "\<forall>r \<in> set (vb_rejected b). result_ok nfc nd r"
    by (rule mapE_all_ok [OF parts(2)]) (rule result_from_json_ok)
  ultimately show ?thesis
    using parts(5,6)
      candidate_from_json_ok [OF parts(3)] snapshot_from_json_ok [OF parts(4)]
    by (simp add: bundle_ok_def)
qed

lemma bundle_items_keys: "map fst (bundle_items b) = bundle_keys"
  by (simp add: bundle_items_def bundle_keys_def)

lemma bundle_round_trip: "bundle_ok nfc nd b \<Longrightarrow> bundle_from_json nfc nd (bundle_to_json b) = Inr b"
proof -
  assume b: "bundle_ok nfc nd b"
  have "mapE (verified_from_json nfc) (map verified_to_json (vb_verified b)) = Inr (vb_verified b)"
    "mapE (result_from_json nfc nd) (map result_to_json (vb_rejected b)) = Inr (vb_rejected b)"
    using b by (auto simp: bundle_ok_def verified_round_trip result_round_trip intro!: mapE_round_trip)
  with b show ?thesis
    unfolding bundle_from_json_def bundle_to_json_def read_dict_of [OF bundle_items_keys]
    by (simp add: seqE_Inr_iff bundle_items_def bundle_init_Inr bundle_ok_def candidate_round_trip snapshot_round_trip)
qed

end
