(* ===== verification/Ports.thy ===== *)
theory Ports
  imports Provenance
begin

text \<open>
  \<open>build_harness/ports.py\<close>: the outcomes, requests, results and errors that pass the ports of the
  build harness, the input of the evidence verifier and the record of a run.  The ports themselves
  are interfaces without an implementation in this repository.
\<close>

section \<open>Outcomes\<close>

text \<open>Exactly one of value and error is set; what is set is never \<open>None\<close>.\<close>

record ('a, 'e) outcome =
  oc_value :: "'a option"
  oc_error :: "'e option"

definition outcome_init :: "'a option \<Rightarrow> 'e option \<Rightarrow> exn + ('a, 'e) outcome" where
  "outcome_init v e =
     (if (v = None) = (e = None)
      then Inl (P09BValidationError ''Outcome must have exactly one of value/error set (not both, not neither)'')
      else Inr \<lparr>oc_value = v, oc_error = e\<rparr>)"

definition is_success :: "('a, 'e) outcome \<Rightarrow> bool" where
  "is_success out = (oc_error out = None)"

definition outcome_success :: "'a option \<Rightarrow> exn + ('a, 'e) outcome" where
  "outcome_success v =
     (if v = None then Inl (P09BValidationError ''Outcome.success requires a non-None value'')
      else outcome_init v None)"

definition outcome_failure :: "'e option \<Rightarrow> exn + ('a, 'e) outcome" where
  "outcome_failure e =
     (if e = None then Inl (P09BValidationError ''Outcome.failure requires a non-None error'')
      else outcome_init None e)"

datatype storage_error_code =
    NOT_FOUND | CONFLICT | CORRUPT | IO_ERROR | UNSUPPORTED_SCHEMA

fun storage_error_code_value :: "storage_error_code \<Rightarrow> string" where
  "storage_error_code_value storage_error_code.NOT_FOUND = ''NOT_FOUND''"
| "storage_error_code_value storage_error_code.CONFLICT = ''CONFLICT''"
| "storage_error_code_value storage_error_code.CORRUPT = ''CORRUPT''"
| "storage_error_code_value storage_error_code.IO_ERROR = ''IO_ERROR''"
| "storage_error_code_value storage_error_code.UNSUPPORTED_SCHEMA = ''UNSUPPORTED_SCHEMA''"

definition storage_error_code_members :: "storage_error_code list" where
  "storage_error_code_members =
    [storage_error_code.NOT_FOUND, storage_error_code.CONFLICT, storage_error_code.CORRUPT
     , storage_error_code.IO_ERROR, storage_error_code.UNSUPPORTED_SCHEMA]"

interpretation storage_error_code_enum: str_enum storage_error_code_members storage_error_code_value
  using storage_error_code.nchotomy by unfold_locales (auto simp: storage_error_code_members_def)

record storage_error =
  se_code :: storage_error_code
  se_message :: string

definition storage_error_init :: "pyval \<Rightarrow> pyval \<Rightarrow> exn + storage_error" where
  "storage_error_init code message =
     seqE (p09b_enum ''StorageErrorCode'' storage_error_code_members storage_error_code_value ''code'' code) (\<lambda>c.
     seqE (require_str ''message'' False message) (\<lambda>m. Inr \<lparr>se_code = c, se_message = m\<rparr>))"

section \<open>Repository inspection\<close>

record inspection_request =
  iq_repository_path :: string
  iq_candidate_commit_sha :: string
  iq_base_commit_sha :: string
  iq_object_format :: git_object_format

text \<open>An argument that the call leaves out has its default.\<close>

definition inspection_request_init :: "pyval \<Rightarrow> pyval \<Rightarrow> pyval \<Rightarrow> pyval option \<Rightarrow> exn + inspection_request" where
  "inspection_request_init path commit base fmt =
     seqE (validate_repository_root_hint ''repository_path'' path) (\<lambda>p.
     seqE (read_object_format ''object_format''
       (case fmt of None \<Rightarrow> VEnum ''GitObjectFormat'' ''sha1'' | Some f \<Rightarrow> f)) (\<lambda>f.
     seqE (validate_git_object_sha ''candidate_commit_sha'' (git_object_format_value f) commit) (\<lambda>c.
     seqE (validate_git_object_sha ''base_commit_sha'' (git_object_format_value f) base) (\<lambda>b.
       Inr \<lparr>iq_repository_path = p, iq_candidate_commit_sha = c, iq_base_commit_sha = b,
            iq_object_format = f\<rparr>))))"

text \<open>
  \<open>validate_diagnostic_text\<close> is called with its default limit.  The arguments \<open>command\<close> and
  \<open>stderr_excerpt\<close> of the errors have the defaults \<open>None\<close> and the empty text.
\<close>

definition DIAGNOSTIC_LIMIT :: nat where
  "DIAGNOSTIC_LIMIT = 4096"

record inspection_error =
  ie_code :: inspection_error_code
  ie_message :: string
  ie_command :: "string list option"
  ie_stderr_excerpt :: string

definition inspection_error_init :: "pyval \<Rightarrow> pyval \<Rightarrow> pyval \<Rightarrow> pyval \<Rightarrow> exn + inspection_error" where
  "inspection_error_init code message command excerpt =
     seqE (p09b_enum ''RepositoryInspectionErrorCode'' inspection_error_code_members inspection_error_code_value
       ''code'' code) (\<lambda>c.
     seqE (require_str ''message'' False message) (\<lambda>m.
     seqE (optional (validate_argv ''command'') command) (\<lambda>cmd.
     seqE (validate_diagnostic_text ''stderr_excerpt'' DIAGNOSTIC_LIMIT excerpt) (\<lambda>x.
       Inr \<lparr>ie_code = c, ie_message = m, ie_command = cmd, ie_stderr_excerpt = x\<rparr>))))"

section \<open>Command execution\<close>

definition environment_pair :: "pyval \<Rightarrow> exn + string \<times> string" where
  "environment_pair v =
     (case v of
        VTuple [k, x] \<Rightarrow>
          seqE (require_str ''environment[].key'' False k) (\<lambda>key.
          seqE (require_str ''environment[].value'' True x) (\<lambda>val.
          seqE (reject_control_characters ''environment[].key'' key) (\<lambda>_.
          seqE (reject_control_characters ''environment[].value'' val) (\<lambda>_. Inr (key, val)))))
      | _ \<Rightarrow> Inl (P09BValidationError ''environment[] must be a (key, value) tuple''))"

definition pair_le :: "string \<times> string \<Rightarrow> string \<times> string \<Rightarrow> bool" where
  "pair_le p q = (fst p < fst q \<or> (fst p = fst q \<and> snd p \<le> snd q))"

definition validate_environment :: "pyval \<Rightarrow> exn + (string \<times> string) list" where
  "validate_environment v =
     (case v of
        VTuple vs \<Rightarrow>
          seqE (mapE environment_pair vs) (\<lambda>ps.
          seqE (raise_first
            [(\<not> sorted_wrt pair_le ps, P09BValidationError ''environment must be sorted by key/value''),
             (\<not> distinct (map fst ps), P09BValidationError ''environment keys must be unique'')])
          (\<lambda>_. Inr ps))
      | _ \<Rightarrow> Inl (P09BValidationError ''environment must be a tuple of (key, value) tuples''))"

record execution_spec =
  xs_argv :: "string list"
  xs_repository_root :: string
  xs_working_directory :: string
  xs_timeout_seconds :: int
  xs_max_stdout_bytes :: int
  xs_max_stderr_bytes :: int
  xs_environment :: "(string \<times> string) list"

definition positive_int :: "string \<Rightarrow> pyval \<Rightarrow> exn + int" where
  "positive_int fld v =
     seqE (require_int fld v) (\<lambda>i.
       if i \<le> 0 then Inl (P09BValidationError (fld @ '' must be a positive int'')) else Inr i)"

definition execution_spec_keys :: "string list" where
  "execution_spec_keys =
     [''argv'', ''repository_root'', ''working_directory'', ''timeout_seconds'', ''max_stdout_bytes'',
      ''max_stderr_bytes'', ''environment'']"

definition execution_spec_init :: "(string \<Rightarrow> string) \<Rightarrow> kwargs \<Rightarrow> exn + execution_spec" where
  "execution_spec_init nfc kw0 =
     (let kw = (if ''environment'' \<in> set (map fst kw0) then kw0 else kw0 @ [(''environment'', VTuple [])])
      in seqE (bind_args execution_spec_keys kw) (\<lambda>_.
         seqE (validate_argv ''argv'' (arg kw ''argv'')) (\<lambda>argv.
         seqE (validate_repository_root_hint ''repository_root'' (arg kw ''repository_root'')) (\<lambda>root.
         seqE (validate_working_directory nfc ''working_directory'' (arg kw ''working_directory'')) (\<lambda>wd.
         seqE (require_int ''timeout_seconds'' (arg kw ''timeout_seconds'')) (\<lambda>timeout.
         seqE (timeout_in_range timeout) (\<lambda>_.
         seqE (positive_int ''max_stdout_bytes'' (arg kw ''max_stdout_bytes'')) (\<lambda>max_out.
         seqE (positive_int ''max_stderr_bytes'' (arg kw ''max_stderr_bytes'')) (\<lambda>max_err.
         seqE (validate_environment (arg kw ''environment'')) (\<lambda>environment.
           Inr \<lparr>xs_argv = argv, xs_repository_root = root, xs_working_directory = wd,
                xs_timeout_seconds = timeout, xs_max_stdout_bytes = max_out, xs_max_stderr_bytes = max_err,
                xs_environment = environment\<rparr>))))))))))"

text \<open>Bytes are no JSON value: what the runner captured is given as text or as a value of another type.\<close>

record execution_result =
  xr_argv :: "string list"
  xr_exit_code :: "int option"
  xr_completed :: bool
  xr_timed_out :: bool
  xr_interrupted :: bool
  xr_started_at :: string
  xr_completed_at :: string
  xr_duration_ms :: int
  xr_stdout :: string
  xr_stderr :: string

definition terminal_state_check :: "bool \<Rightarrow> bool \<Rightarrow> bool \<Rightarrow> int option \<Rightarrow> exn + unit" where
  "terminal_state_check completed timed_out interrupted exit =
     (if (completed, timed_out, interrupted) = (True, False, False)
      then (if exit = None then Inl (P09BValidationError ''completed result requires an integer exit_code'') else Inr ())
      else if (completed, timed_out, interrupted) = (False, True, False)
      then (if exit \<noteq> None then Inl (P09BValidationError ''timed_out result requires exit_code=None'') else Inr ())
      else if (completed, timed_out, interrupted) = (False, False, True)
      then (if exit \<noteq> None then Inl (P09BValidationError ''interrupted result requires exit_code=None'') else Inr ())
      else Inl (P09BValidationError
        ''completed/timed_out/interrupted must form exactly one terminal state (completed | timed_out | interrupted)''))"

definition execution_result_keys :: "string list" where
  "execution_result_keys =
     [''argv'', ''exit_code'', ''completed'', ''timed_out'', ''interrupted'', ''started_at'', ''completed_at'', ''duration_ms'']"

definition execution_result_init ::
  "digit_table \<Rightarrow> kwargs \<Rightarrow> string option \<Rightarrow> string option \<Rightarrow> exn + execution_result" where
  "execution_result_init nd kw stdout stderr =
     seqE (bind_args execution_result_keys kw) (\<lambda>_.
     seqE (validate_argv ''argv'' (arg kw ''argv'')) (\<lambda>argv.
     seqE (require_bool ''completed'' (arg kw ''completed'')) (\<lambda>completed.
     seqE (require_bool ''timed_out'' (arg kw ''timed_out'')) (\<lambda>timed_out.
     seqE (require_bool ''interrupted'' (arg kw ''interrupted'')) (\<lambda>interrupted.
     seqE (optional (require_int ''exit_code'') (arg kw ''exit_code'')) (\<lambda>exit.
     seqE (terminal_state_check completed timed_out interrupted exit) (\<lambda>_.
     seqE (validate_times nd (arg kw ''started_at'') (arg kw ''completed_at'') (arg kw ''duration_ms''))
       (\<lambda>(t1, t2, duration).
       (case (stdout, stderr) of
          (Some out, Some err) \<Rightarrow>
            Inr \<lparr>xr_argv = argv, xr_exit_code = exit, xr_completed = completed, xr_timed_out = timed_out,
                 xr_interrupted = interrupted, xr_started_at = t1, xr_completed_at = t2,
                 xr_duration_ms = duration, xr_stdout = out, xr_stderr = err\<rparr>
        | _ \<Rightarrow> Inl (P09BValidationError ''stdout and stderr must be bytes'')))))))))) "

record execution_error =
  xe_code :: execution_error_code
  xe_message :: string
  xe_stderr_excerpt :: string

definition execution_error_init :: "pyval \<Rightarrow> pyval \<Rightarrow> pyval \<Rightarrow> exn + execution_error" where
  "execution_error_init code message excerpt =
     seqE (p09b_enum ''CommandExecutionErrorCode'' execution_error_code_members execution_error_code_value
       ''code'' code) (\<lambda>c.
     seqE (require_str ''message'' False message) (\<lambda>m.
     seqE (validate_diagnostic_text ''stderr_excerpt'' DIAGNOSTIC_LIMIT excerpt) (\<lambda>x.
       Inr \<lparr>xe_code = c, xe_message = m, xe_stderr_excerpt = x\<rparr>)))"

section \<open>The input of the verifier\<close>

text \<open>Scanning a tuple of models with the set of the identifiers seen so far.\<close>

fun scan_requirements :: "string list \<Rightarrow> command_requirement slot list \<Rightarrow> exn + command_requirement list" where
  "scan_requirements seen [] = Inr []"
| "scan_requirements seen (x # xs) =
     seqE (instance_of ''requirements must contain CommandRequirement'' x) (\<lambda>r.
     seqE (raise_first [(cr_requirement_id r \<in> set seen,
       P09BValidationError ''duplicate requirement_id in requirements'')]) (\<lambda>_.
     seqE (scan_requirements (cr_requirement_id r # seen) xs) (\<lambda>rs. Inr (r # rs))))"

fun scan_collected :: "(evidence_provenance \<Rightarrow> (bool \<times> exn) list) \<Rightarrow> candidate_binding \<Rightarrow> string list
    \<Rightarrow> collected_evidence slot list \<Rightarrow> exn + collected_evidence list" where
  "scan_collected context_errors c seen [] = Inr []"
| "scan_collected context_errors c seen (x # xs) =
     seqE (instance_of ''collected_evidence must contain CollectedCommandEvidence'' x) (\<lambda>e.
     seqE (raise_first
       ([(pv_evidence_id (ce_provenance e) \<in> set seen,
            P09BValidationError ''duplicate evidence_id in collected_evidence'')]
        @ context_errors (ce_provenance e)
        @ [(collected_candidate_mismatches c e \<noteq> [],
             P09BValidationError (''collected evidence does not bind to candidate (''
               @ join '', '' (collected_candidate_mismatches c e) @ '')''))])) (\<lambda>_.
     seqE (scan_collected context_errors c (pv_evidence_id (ce_provenance e) # seen) xs) (\<lambda>es. Inr (e # es))))"

definition tuple_of :: "string \<Rightarrow> 'a list option \<Rightarrow> exn + 'a list" where
  "tuple_of fld x =
     (case x of Some xs \<Rightarrow> Inr xs | None \<Rightarrow> Inl (P09BValidationError (fld @ '' must be a tuple'')))"

definition bound_snapshot :: "string \<Rightarrow> candidate_binding \<Rightarrow> repository_snapshot slot \<Rightarrow> exn + repository_snapshot" where
  "bound_snapshot fld c x =
     seqE (instance_of (fld @ '' must be a RepositorySnapshot'') x) (\<lambda>s.
     seqE (raise_first [(candidate_snapshot_mismatches c s \<noteq> [],
       P09BValidationError (fld @ '' does not bind to candidate_binding (''
         @ join '', '' (candidate_snapshot_mismatches c s) @ '')''))]) (\<lambda>_. Inr s))"

record verification_request =
  vq_task_id :: string
  vq_requirements :: "command_requirement list"
  vq_candidate_binding :: candidate_binding
  vq_collected_evidence :: "collected_evidence list"
  vq_current_snapshot :: repository_snapshot
  vq_verifier_version :: string
  vq_verified_at :: string

definition request_context_errors :: "string \<Rightarrow> string list \<Rightarrow> evidence_provenance \<Rightarrow> (bool \<times> exn) list" where
  "request_context_errors tid requirement_ids p =
     [(pv_task_id p \<noteq> tid, P09BValidationError ''collected evidence task_id != request task_id''),
      (pv_requirement_id p \<notin> set requirement_ids,
         P09BValidationError ''collected evidence requirement_id is not among the request requirements'')]"

definition verification_request_init :: "digit_table \<Rightarrow> pyval \<Rightarrow> command_requirement slot list option
    \<Rightarrow> candidate_binding slot \<Rightarrow> collected_evidence slot list option \<Rightarrow> repository_snapshot slot
    \<Rightarrow> pyval \<Rightarrow> pyval \<Rightarrow> exn + verification_request" where
  "verification_request_init nd task requirements candidate collected snapshot version verified_at =
     seqE (validate_task_id ''task_id'' task) (\<lambda>tid.
     seqE (tuple_of ''requirements'' requirements) (\<lambda>rslots.
     seqE (scan_requirements [] rslots) (\<lambda>rs.
     seqE (instance_of ''candidate_binding must be a CandidateBinding'' candidate) (\<lambda>c.
     seqE (tuple_of ''collected_evidence'' collected) (\<lambda>eslots.
     seqE (scan_collected (request_context_errors tid (map cr_requirement_id rs)) c [] eslots) (\<lambda>es.
     seqE (bound_snapshot ''current_snapshot'' c snapshot) (\<lambda>s.
     seqE (require_str ''verifier_version'' False version) (\<lambda>v.
     seqE (reject_control_characters ''verifier_version'' v) (\<lambda>_.
     seqE (validate_rfc3339_utc nd ''verified_at'' verified_at) (\<lambda>t.
       Inr \<lparr>vq_task_id = tid, vq_requirements = rs, vq_candidate_binding = c, vq_collected_evidence = es,
            vq_current_snapshot = s, vq_verifier_version = v, vq_verified_at = t\<rparr>))))))))))"

section \<open>The record of a run\<close>

record run_record =
  rr_schema_version :: string
  rr_task_id :: string
  rr_run_id :: string
  rr_candidate_binding :: candidate_binding
  rr_collected_evidence :: "collected_evidence list"
  rr_final_snapshot :: repository_snapshot
  rr_verification_bundle :: "verification_bundle option"

definition record_context_errors :: "string \<Rightarrow> string \<Rightarrow> evidence_provenance \<Rightarrow> (bool \<times> exn) list" where
  "record_context_errors tid run p =
     [(pv_task_id p \<noteq> tid, P09BValidationError ''collected evidence task_id != record task_id''),
      (pv_run_id p \<noteq> run, P09BValidationError ''collected evidence run_id != record run_id'')]"

definition collected_identities :: "collected_evidence list \<Rightarrow> (string \<times> string \<times> string) list" where
  "collected_identities es =
     map (\<lambda>e. (pv_evidence_id (ce_provenance e), pv_run_id (ce_provenance e), pv_task_id (ce_provenance e))) es"

definition verified_identity :: "verified_evidence \<Rightarrow> string \<times> string \<times> string" where
  "verified_identity v = (ve_evidence_id v, ve_run_id v, ve_task_id v)"

definition rejected_identity :: "verification_result \<Rightarrow> string \<times> string \<times> string" where
  "rejected_identity r = (vr_evidence_id r, vr_run_id r, vr_task_id r)"

definition record_bundle_check :: "string \<Rightarrow> candidate_binding \<Rightarrow> collected_evidence list
    \<Rightarrow> verification_bundle option \<Rightarrow> exn + unit" where
  "record_bundle_check tid c es bundle =
     (case bundle of
        None \<Rightarrow> Inr ()
      | Some b \<Rightarrow> raise_first
          [(vb_task_id b \<noteq> tid, P09BValidationError ''verification_bundle task_id != record task_id''),
           (vb_candidate_binding b \<noteq> c,
              P09BValidationError ''verification_bundle candidate_binding != record candidate_binding''),
           (\<not> set (map verified_identity (vb_verified b)) \<subseteq> set (collected_identities es),
              P09BValidationError
                ''verification_bundle verified evidence is not collected evidence of this run''),
           (\<not> set (map rejected_identity (vb_rejected b)) \<subseteq> set (collected_identities es),
              P09BValidationError
                ''verification_bundle rejected evidence is not collected evidence of this run'')])"

definition run_record_init :: "pyval \<Rightarrow> pyval \<Rightarrow> pyval \<Rightarrow> candidate_binding slot
    \<Rightarrow> collected_evidence slot list option \<Rightarrow> repository_snapshot slot \<Rightarrow> verification_bundle slot
    \<Rightarrow> exn + run_record" where
  "run_record_init sv task run candidate collected snapshot bundle =
     seqE (require_schema ''schema_version'' ''p0-9b.evidence-run-record.v1'' sv) (\<lambda>sv.
     seqE (validate_task_id ''task_id'' task) (\<lambda>tid.
     seqE (validate_generated_id ''run_id'' run) (\<lambda>rid.
     seqE (instance_of ''candidate_binding must be a CandidateBinding'' candidate) (\<lambda>c.
     seqE (tuple_of ''collected_evidence'' collected) (\<lambda>eslots.
     seqE (scan_collected (record_context_errors tid rid) c [] eslots) (\<lambda>es.
     seqE (bound_snapshot ''final_snapshot'' c snapshot) (\<lambda>s.
     seqE (instance_or_none ''verification_bundle must be an EvidenceVerificationBundle or None'' bundle) (\<lambda>b.
     seqE (record_bundle_check tid c es b) (\<lambda>_.
       Inr \<lparr>rr_schema_version = sv, rr_task_id = tid, rr_run_id = rid, rr_candidate_binding = c,
            rr_collected_evidence = es, rr_final_snapshot = s, rr_verification_bundle = b\<rparr>)))))))))"

section \<open>What the constructors accept\<close>

lemma outcome_one_slot: "outcome_init v e = Inr out \<Longrightarrow> (oc_value out = None) = (oc_error out \<noteq> None)"
  by (auto simp: outcome_init_def split: if_splits)

lemma outcome_success_iff: "outcome_init v e = Inr out \<Longrightarrow> is_success out \<longleftrightarrow> oc_value out \<noteq> None"
  by (auto simp: outcome_init_def is_success_def split: if_splits)

lemma scan_requirements_Inr:
  "scan_requirements seen xs = Inr rs \<longleftrightarrow> xs = map Instance rs \<and> distinct (map cr_requirement_id rs)
     \<and> set (map cr_requirement_id rs) \<inter> set seen = {}"
proof (induction xs arbitrary: seen rs)
  case (Cons x xs)
  show ?case by (cases rs) (auto simp: seqE_Inr_iff reader_simps Cons.IH)
qed auto

lemma scan_collected_Inr:
  "scan_collected errs c seen xs = Inr es \<longleftrightarrow> xs = map Instance es
     \<and> distinct (map (pv_evidence_id \<circ> ce_provenance) es)
     \<and> set (map (pv_evidence_id \<circ> ce_provenance) es) \<inter> set seen = {}
     \<and> (\<forall>e \<in> set es. list_all (\<lambda>x. \<not> fst x) (errs (ce_provenance e)) \<and> collected_candidate_mismatches c e = [])"
proof (induction xs arbitrary: seen es)
  case (Cons x xs)
  show ?case by (cases es) (auto simp: seqE_Inr_iff reader_simps Cons.IH)
qed auto

lemma tuple_of_Inr [reader_simps]: "tuple_of fld x = Inr xs \<longleftrightarrow> x = Some xs"
  by (auto simp: tuple_of_def split: option.splits)

lemma bound_snapshot_Inr [reader_simps]:
  "bound_snapshot fld c x = Inr s \<longleftrightarrow> x = Instance s \<and> candidate_snapshot_mismatches c s = []"
  by (auto simp: bound_snapshot_def seqE_Inr_iff reader_simps)

text \<open>The one coherent context of a request and of a run record.\<close>

definition request_ok :: "digit_table \<Rightarrow> verification_request \<Rightarrow> bool" where
  "request_ok nd q \<longleftrightarrow> task_ok (vq_task_id q) \<and> distinct (map cr_requirement_id (vq_requirements q))
     \<and> distinct (map (pv_evidence_id \<circ> ce_provenance) (vq_collected_evidence q))
     \<and> (\<forall>e \<in> set (vq_collected_evidence q). pv_task_id (ce_provenance e) = vq_task_id q
          \<and> pv_requirement_id (ce_provenance e) \<in> cr_requirement_id ` set (vq_requirements q)
          \<and> collected_candidate_mismatches (vq_candidate_binding q) e = [])
     \<and> candidate_snapshot_mismatches (vq_candidate_binding q) (vq_current_snapshot q) = []
     \<and> line_ok (vq_verifier_version q) \<and> stamp_ok nd (vq_verified_at q)"

lemma verification_request_init_ok:
  "verification_request_init nd t rs c es s v t2 = Inr q \<Longrightarrow> request_ok nd q"
  unfolding verification_request_init_def
  by (auto simp: seqE_Inr_iff reader_simps scan_requirements_Inr scan_collected_Inr request_ok_def
      request_context_errors_def line_ok_def)

definition run_record_ok :: "run_record \<Rightarrow> bool" where
  "run_record_ok r \<longleftrightarrow> rr_schema_version r = ''p0-9b.evidence-run-record.v1'' \<and> task_ok (rr_task_id r) \<and> id_ok (rr_run_id r)
     \<and> distinct (map (pv_evidence_id \<circ> ce_provenance) (rr_collected_evidence r))
     \<and> (\<forall>e \<in> set (rr_collected_evidence r). pv_task_id (ce_provenance e) = rr_task_id r
          \<and> pv_run_id (ce_provenance e) = rr_run_id r
          \<and> collected_candidate_mismatches (rr_candidate_binding r) e = [])
     \<and> candidate_snapshot_mismatches (rr_candidate_binding r) (rr_final_snapshot r) = []
     \<and> (\<forall>b. rr_verification_bundle r = Some b \<longrightarrow> vb_task_id b = rr_task_id r
          \<and> vb_candidate_binding b = rr_candidate_binding r
          \<and> verified_identity ` set (vb_verified b) \<subseteq> set (collected_identities (rr_collected_evidence r))
          \<and> rejected_identity ` set (vb_rejected b) \<subseteq> set (collected_identities (rr_collected_evidence r)))"

lemma record_bundle_check_ok [reader_simps]:
  "record_bundle_check tid c es bo = Inr u \<longleftrightarrow> (\<forall>b. bo = Some b \<longrightarrow> vb_task_id b = tid \<and> vb_candidate_binding b = c
     \<and> verified_identity ` set (vb_verified b) \<subseteq> set (collected_identities es)
     \<and> rejected_identity ` set (vb_rejected b) \<subseteq> set (collected_identities es))"
  by (cases bo) (auto simp: record_bundle_check_def)

lemma run_record_init_Inr:
  "run_record_init sv t run c es s b = Inr r \<longleftrightarrow>
     sv = VStr (rr_schema_version r) \<and> t = VStr (rr_task_id r) \<and> run = VStr (rr_run_id r)
     \<and> c = Instance (rr_candidate_binding r) \<and> es = Some (map Instance (rr_collected_evidence r))
     \<and> s = Instance (rr_final_snapshot r) \<and> b = option_slot (rr_verification_bundle r) \<and> run_record_ok r"
  unfolding run_record_init_def
  by (cases r) (auto simp: seqE_Inr_iff reader_simps scan_collected_Inr run_record_ok_def record_context_errors_def
      simp flip: option_slot_def)

text \<open>
  Every verdict of the bundle is about exactly one piece of collected evidence, of the same run and of the
  same task.
\<close>

definition collected_once :: "run_record \<Rightarrow> string \<Rightarrow> string \<Rightarrow> string \<Rightarrow> bool" where
  "collected_once r eid run tid \<longleftrightarrow>
     (\<exists>!e. e \<in> set (rr_collected_evidence r) \<and> pv_evidence_id (ce_provenance e) = eid) \<and>
     (\<exists>e \<in> set (rr_collected_evidence r). pv_evidence_id (ce_provenance e) = eid
        \<and> pv_run_id (ce_provenance e) = run \<and> pv_task_id (ce_provenance e) = tid) \<and>
     run = rr_run_id r \<and> tid = rr_task_id r"

lemma identity_collected_once:
  assumes "run_record_ok r" and "(eid, run, tid) \<in> set (collected_identities (rr_collected_evidence r))"
  shows "collected_once r eid run tid"
  using assms
  by (auto simp: collected_once_def run_record_ok_def collected_identities_def distinct_map comp_def inj_on_def)

lemma verdicts_collected_once:
  assumes "run_record_ok r" and "rr_verification_bundle r = Some b"
  shows "\<forall>v \<in> set (vb_verified b). collected_once r (ve_evidence_id v) (ve_run_id v) (ve_task_id v)"
    and "\<forall>x \<in> set (vb_rejected b). collected_once r (vr_evidence_id x) (vr_run_id x) (vr_task_id x)"
proof -
  have ids: "verified_identity ` set (vb_verified b) \<subseteq> set (collected_identities (rr_collected_evidence r))"
    "rejected_identity ` set (vb_rejected b) \<subseteq> set (collected_identities (rr_collected_evidence r))"
    using assms by (simp_all add: run_record_ok_def)
  show "\<forall>v \<in> set (vb_verified b). collected_once r (ve_evidence_id v) (ve_run_id v) (ve_task_id v)"
    using identity_collected_once [OF assms(1)] ids(1) by (auto simp: verified_identity_def)
  show "\<forall>x \<in> set (vb_rejected b). collected_once r (vr_evidence_id x) (vr_run_id x) (vr_task_id x)"
    using identity_collected_once [OF assms(1)] ids(2) by (auto simp: rejected_identity_def)
qed

section \<open>Command results\<close>

text \<open>The terminal state of a command, and that a result has exactly one.\<close>

datatype terminal_state = Exited int | TimedOut | Interrupted

fun terminal_state_of :: "execution_result \<Rightarrow> terminal_state option" where
  "terminal_state_of r =
     (case (xr_completed r, xr_timed_out r, xr_interrupted r, xr_exit_code r) of
        (True, False, False, Some c) \<Rightarrow> Some (Exited c)
      | (False, True, False, None) \<Rightarrow> Some TimedOut
      | (False, False, True, None) \<Rightarrow> Some Interrupted
      | _ \<Rightarrow> None)"

lemma terminal_state_check_ok [reader_simps]:
  "terminal_state_check c t i x = Inr u \<longleftrightarrow>
     (c \<and> \<not> t \<and> \<not> i \<and> x \<noteq> None) \<or> (\<not> c \<and> t \<and> \<not> i \<and> x = None) \<or> (\<not> c \<and> \<not> t \<and> i \<and> x = None)"
  by (auto simp: terminal_state_check_def)

lemma execution_result_terminal:
  assumes "execution_result_init nd kw out err = Inr r"
  shows "terminal_state_of r \<noteq> None \<and> times_ok nd (xr_started_at r) (xr_completed_at r) (xr_duration_ms r)"
  using assms unfolding execution_result_init_def
  by (auto simp: seqE_Inr_iff reader_simps case_two_options)

end
