(* ===== verification/Evidence_Examples.thy ===== *)
theory Evidence_Examples
  imports Ports "HOL-Library.Code_Target_Nat"
begin

text \<open>
  Concrete evidence for the witnesses: a candidate and its snapshot, two executed commands, of which
  one is verified and one is rejected, the bundle with the two verdicts and the record of the run.
  Time stamps have ASCII digits, and normalisation leaves every text alone.
\<close>

definition ev_digits :: digit_table where
  "ev_digits c =
     (case c of [d] \<Rightarrow> if 48 \<le> code_point d \<and> code_point d < 58 then Some (code_point d - 48) else None
      | _ \<Rightarrow> None)"

definition ev_nfc :: "string \<Rightarrow> string" where
  "ev_nfc s = s"

definition ev_digest :: "exn + string \<Rightarrow> string" where
  "ev_digest r = (case r of Inr d \<Rightarrow> d | Inl e \<Rightarrow> [])"

definition ev_hash :: string where
  "ev_hash = ''sha256:'' @ replicate 64 (CHR ''0'')"

definition ev_sha :: string where
  "ev_sha = replicate 40 (CHR ''a'')"

definition ev_changed :: string where
  "ev_changed = ev_digest (changed_files_digest ev_nfc [''src/a.py''])"

definition ev_candidate :: candidate_binding where
  "ev_candidate =
     \<lparr>cb_schema_version = ''p0-9b.candidate-binding.v1'', cb_repository_id = ev_hash,
      cb_object_format = git_object_format.SHA1, cb_base_commit_sha = ev_sha, cb_candidate_commit_sha = ev_sha,
      cb_candidate_tree_sha = ev_sha, cb_contract_digest = ev_hash, cb_changed_files_digest = ev_changed\<rparr>"

definition ev_snapshot :: "string \<Rightarrow> string list \<Rightarrow> repository_snapshot" where
  "ev_snapshot sid staged =
     \<lparr>sn_schema_version = ''p0-9b.repository-snapshot.v1'', sn_snapshot_id = sid, sn_repository_id = ev_hash,
      sn_repository_root_hint = ''/repo'', sn_object_format = git_object_format.SHA1, sn_head_commit_sha = ev_sha,
      sn_head_tree_sha = ev_sha, sn_base_commit_sha = ev_sha, sn_branch_name = Some ''main'',
      sn_detached_head = False, sn_staged_changes = staged, sn_unstaged_changes = [], sn_untracked_files = [],
      sn_submodule_changes = [], sn_changed_files = [''src/a.py''], sn_changed_files_digest = ev_changed,
      sn_is_release_clean = (staged = []), sn_captured_at = ''2025-01-02T03:04:05.000000Z'',
      sn_inspector_version = ''i-1''\<rparr>"

definition ev_provenance :: "string \<Rightarrow> dirty_state \<Rightarrow> evidence_provenance" where
  "ev_provenance eid dirty =
     \<lparr>pv_schema_version = ''p0-9b.provenance.v1'', pv_evidence_id = eid, pv_task_id = ''T-1'', pv_run_id = ''run-1'',
      pv_collector_id = ''collector-1'', pv_collector_version = ''c-1'', pv_requirement_id = ''req-1'',
      pv_argv = [''pytest''], pv_working_directory = ''.'', pv_command_digest = ev_hash, pv_exit_code = Some 0,
      pv_completed = True, pv_started_at = ''2025-01-02T03:04:05.000000Z'',
      pv_completed_at = ''2025-01-02T03:04:06.500000Z'', pv_duration_ms = 1500, pv_repository_id = ev_hash,
      pv_object_format = git_object_format.SHA1, pv_base_commit_sha = ev_sha, pv_commit_sha = ev_sha,
      pv_tree_sha = ev_sha, pv_pre_snapshot_id = ''snap-1'', pv_post_snapshot_id = ''snap-2'',
      pv_dirty_state = dirty, pv_changed_files_digest = ev_hash, pv_stdout_digest = ev_hash,
      pv_stderr_digest = ev_hash, pv_artifact_digest = None,
      pv_source = evidence_source.LOCAL_CONTROLLED_COLLECTOR\<rparr>"

definition ev_collected :: "collected_evidence list" where
  "ev_collected =
     [\<lparr>ce_schema_version = ''p0-9b.collected-evidence.v1'', ce_provenance = ev_provenance ''ev-1'' dirty_state.CLEAN,
       ce_pre_snapshot = ev_snapshot ''snap-1'' [], ce_post_snapshot = ev_snapshot ''snap-2'' []\<rparr>,
      \<lparr>ce_schema_version = ''p0-9b.collected-evidence.v1'', ce_provenance = ev_provenance ''ev-2'' dirty_state.DIRTY,
       ce_pre_snapshot = ev_snapshot ''snap-1'' [], ce_post_snapshot = ev_snapshot ''snap-2'' [''wip.py'']\<rparr>]"

definition ev_verified :: verified_evidence where
  "ev_verified =
     \<lparr>ve_schema_version = ''p0-9b.verified-evidence.v1'', ve_evidence_id = ''ev-1'', ve_run_id = ''run-1'',
      ve_task_id = ''T-1'', ve_requirement_id = ''req-1'', ve_candidate_binding = ev_candidate,
      ve_verification_digest =
        ev_digest (compute_verification_digest ev_nfc ''ev-1'' ''run-1'' ''T-1'' ''req-1'' ev_candidate)\<rparr>"

definition ev_rejected :: verification_result where
  "ev_rejected =
     \<lparr>vr_schema_version = ''p0-9b.verification.v1'', vr_accepted = False,
      vr_status = verification_status.DIRTY_WORKTREE, vr_reason_codes = [''DIRTY''], vr_evidence_id = ''ev-2'',
      vr_run_id = ''run-1'', vr_task_id = ''T-1'', vr_candidate_binding = Some ev_candidate,
      vr_repository_snapshot = Some (ev_snapshot ''snap-2'' [''wip.py'']), vr_matched_requirement_id = None,
      vr_claim_digest = ev_hash, vr_verified_at = ''2025-01-02T03:05:00.000000Z'', vr_verifier_version = ''v-1'',
      vr_warnings = [], vr_errors = [''worktree is dirty'']\<rparr>"

definition ev_bundle :: verification_bundle where
  "ev_bundle =
     \<lparr>vb_schema_version = ''p0-9b.verification-bundle.v1'', vb_task_id = ''T-1'', vb_candidate_binding = ev_candidate,
      vb_verified = [ev_verified], vb_rejected = [ev_rejected], vb_verified_at_snapshot = ev_snapshot ''snap-3'' [],
      vb_bundle_digest = ev_digest (compute_bundle_digest ev_nfc ''T-1'' ev_candidate [ev_verified] [ev_rejected]
        (ev_snapshot ''snap-3'' []))\<rparr>"

definition ev_record :: run_record where
  "ev_record =
     \<lparr>rr_schema_version = ''p0-9b.evidence-run-record.v1'', rr_task_id = ''T-1'', rr_run_id = ''run-1'',
      rr_candidate_binding = ev_candidate, rr_collected_evidence = ev_collected,
      rr_final_snapshot = ev_snapshot ''snap-3'' [], rr_verification_bundle = Some ev_bundle\<rparr>"

section \<open>They are valid\<close>

lemma ev_keeps_ascii: "keeps_ascii ev_nfc"
  by (simp add: keeps_ascii_def ev_nfc_def)

lemma ev_digest_eq: "json_ready v \<Longrightarrow> canonical_digest ev_nfc v = Inr (ev_digest (canonical_digest ev_nfc v))"
  using canonical_digest_ready [OF ev_keeps_ascii] by (force simp: ev_digest_def)

lemma ev_digest_ok: "json_ready v \<Longrightarrow> digest_ok (ev_digest (canonical_digest ev_nfc v))"
  using canonical_digest_shape [OF ev_digest_eq [of v]]
  by (cases "ev_digest (canonical_digest ev_nfc v)")
     (auto simp: digest_ok_def dollar_match_def sha256_digest_grammar_def)

lemma ev_texts_ok:
  "digest_ok ev_hash" "sha_ok git_object_format.SHA1 ev_sha" "id_ok ''ev-1''" "id_ok ''ev-2''" "id_ok ''run-1''"
  "id_ok ''req-1''" "id_ok ''collector-1''" "id_ok ''snap-1''" "id_ok ''snap-2''" "id_ok ''snap-3''" "task_ok ''T-1''"
  "line_ok ''pytest''" "line_ok ''/repo''" "path_ok ev_nfc ''src/a.py''" "path_ok ev_nfc ''wip.py''"
  by code_simp+

lemma ev_moments:
  "parse_rfc3339_utc ev_digits ''2025-01-02T03:04:05.000000Z'' = Inr 63871383845000000"
  "parse_rfc3339_utc ev_digits ''2025-01-02T03:04:06.500000Z'' = Inr 63871383846500000"
  by code_simp+

lemma ev_stamps_ok:
  "stamp_ok ev_digits ''2025-01-02T03:04:05.000000Z''" "stamp_ok ev_digits ''2025-01-02T03:04:06.500000Z''"
  "stamp_ok ev_digits ''2025-01-02T03:05:00.000000Z''"
  by code_simp+

lemma ev_times_ok:
  "times_ok ev_digits ''2025-01-02T03:04:05.000000Z'' ''2025-01-02T03:04:06.500000Z'' 1500"
  using duration_rounding(2) [where d = 1500 and finish = 63871383846500000 and start = 63871383845000000] ev_stamps_ok
  by (simp add: times_ok_def validate_duration_ms_def ev_moments not_less)

lemma ev_payloads_ready:
  "json_ready (dict_of [(''kind'', VStr ''p0-9b.changed-files.v1''), (''paths'', VList (map VStr [''src/a.py'']))])"
  "json_ready (verified_payload ''ev-1'' ''run-1'' ''T-1'' ''req-1'' ev_candidate)"
  "json_ready (bundle_payload ''T-1'' ev_candidate [ev_verified] [ev_rejected] (ev_snapshot ''snap-3'' []))"
  by (simp_all add: json_ready_dict_of ascii_text_def verified_payload_def bundle_payload_def candidate_binding_to_json_def
      candidate_binding_items_def verified_to_json_def verified_items_def result_to_json_def result_items_def
      snapshot_to_json_def snapshot_items_def opt_str_def str_list_def opt_json_def ev_rejected_def ev_snapshot_def)

lemma ev_changed_ok: "digest_ok ev_changed" "changed_files_digest ev_nfc [''src/a.py''] = Inr ev_changed"
  using ev_digest_ok [OF ev_payloads_ready(1)] ev_digest_eq [OF ev_payloads_ready(1)]
  by (simp_all add: ev_changed_def changed_files_digest_def)

lemma ev_candidate_ok: "candidate_ok ev_candidate"
  by (simp add: candidate_ok_def ev_candidate_def ev_texts_ok ev_changed_ok)

lemma ev_snapshot_ok:
  "id_ok sid \<Longrightarrow> paths_ok ev_nfc staged \<Longrightarrow> snapshot_ok ev_nfc ev_digits (ev_snapshot sid staged)"
  by (simp add: snapshot_ok_def ev_snapshot_def ev_texts_ok ev_changed_ok ev_stamps_ok paths_ok_def)

lemma ev_provenance_ok: "id_ok eid \<Longrightarrow> provenance_ok ev_nfc ev_digits (ev_provenance eid dirty)"
  by (simp add: provenance_ok_def ev_provenance_def ev_texts_ok ev_times_ok)

lemma ev_collected_ok: "\<forall>e \<in> set ev_collected. collected_ok ev_nfc ev_digits e"
  by (simp add: ev_collected_def collected_ok_def collected_coherent_def ev_provenance_ok ev_snapshot_ok ev_texts_ok
      paths_ok_def Let_def) (simp add: ev_provenance_def ev_snapshot_def derived_dirty_state_def)

lemma ev_verified_ok: "verified_ok ev_nfc ev_verified"
  using ev_digest_ok [OF ev_payloads_ready(2)] ev_digest_eq [OF ev_payloads_ready(2)]
  by (simp add: verified_ok_def ev_verified_def ev_texts_ok ev_candidate_ok compute_verification_digest_def)

lemma ev_dirty: "expected_context_mismatch_status ev_candidate (ev_snapshot ''snap-2'' [''wip.py''])
    = Some verification_status.DIRTY_WORKTREE"
  by (simp add: expected_context_mismatch_status_def ev_candidate_def ev_snapshot_def)

lemma ev_rejected_ok: "result_ok ev_nfc ev_digits ev_rejected"
  by (simp add: result_ok_def ev_rejected_def ev_texts_ok ev_candidate_ok ev_snapshot_ok ev_stamps_ok names_ok_def
      paths_ok_def result_coherent_def is_ok_iff validate_result_context_ok validate_rejected_context_ok ev_dirty)
    (simp add: CONTEXT_MISMATCH_STATUSES_def control_char_def)

lemma ev_bundle_ok: "bundle_ok ev_nfc ev_digits ev_bundle"
proof -
  have m: "candidate_snapshot_mismatches ev_candidate (ev_snapshot ''snap-3'' []) = []"
    by (simp add: no_mismatches ev_candidate_def ev_snapshot_def)
  have "bundle_coherent ev_bundle"
    using m by (simp add: bundle_coherent_def ev_bundle_def ev_verified_def ev_rejected_def)
  moreover have "bundle_head_ok ev_nfc ev_bundle"
    using ev_digest_ok [OF ev_payloads_ready(3)] ev_digest_eq [OF ev_payloads_ready(3)]
    by (simp add: bundle_head_ok_def ev_bundle_def ev_texts_ok compute_bundle_digest_def)
  ultimately show ?thesis
    using ev_verified_ok ev_rejected_ok ev_candidate_ok ev_snapshot_ok [of "''snap-3''" "[]"]
    by (simp add: bundle_ok_def) (simp add: ev_bundle_def ev_texts_ok paths_ok_def)
qed

lemma ev_record_ok: "run_record_ok ev_record"
proof -
  have m: "candidate_snapshot_mismatches ev_candidate (ev_snapshot ''snap-3'' []) = []"
    by (simp add: no_mismatches ev_candidate_def ev_snapshot_def)
  have "\<forall>e \<in> set ev_collected. collected_candidate_mismatches ev_candidate e = []"
    by (simp add: no_collected_mismatches ev_collected_def ev_candidate_def ev_provenance_def)
  then show ?thesis
    using m by (simp add: run_record_ok_def ev_record_def ev_texts_ok)
      (simp add: ev_collected_def ev_provenance_def ev_bundle_def ev_verified_def ev_rejected_def verified_identity_def
        rejected_identity_def collected_identities_def)
qed

definition ev_result_args :: kwargs where
  "ev_result_args =
     [(''argv'', str_tuple [''pytest'']), (''exit_code'', VInt 0), (''completed'', VBool True), (''timed_out'', VBool False),
      (''interrupted'', VBool False), (''started_at'', VStr ''2025-01-02T03:04:05.000000Z''),
      (''completed_at'', VStr ''2025-01-02T03:04:06.500000Z''), (''duration_ms'', VInt 1500)]"

definition ev_result :: execution_result where
  "ev_result =
     \<lparr>xr_argv = [''pytest''], xr_exit_code = Some 0, xr_completed = True, xr_timed_out = False, xr_interrupted = False,
      xr_started_at = ''2025-01-02T03:04:05.000000Z'', xr_completed_at = ''2025-01-02T03:04:06.500000Z'',
      xr_duration_ms = 1500, xr_stdout = [], xr_stderr = []\<rparr>"

lemma ev_execution_result: "execution_result_init ev_digits ev_result_args (Some []) (Some []) = Inr ev_result"
proof -
  have "validate_argv ''argv'' (str_tuple [''pytest'']) = Inr [''pytest'']"
    by (simp add: reader_simps ev_texts_ok)
  moreover have "validate_times ev_digits (VStr ''2025-01-02T03:04:05.000000Z'') (VStr ''2025-01-02T03:04:06.500000Z'')
      (VInt 1500) = Inr (''2025-01-02T03:04:05.000000Z'', ''2025-01-02T03:04:06.500000Z'', 1500)"
    by (simp add: reader_simps ev_times_ok)
  ultimately show ?thesis
    by (simp add: execution_result_init_def ev_result_args_def bind_args_def execution_result_keys_def optional_def
        terminal_state_check_def ev_result_def)
qed

end
