(* ===== verification/Remote_Client.thy ===== *)
theory Remote_Client
  imports Memory_Client
begin

text \<open>
  \<open>memory/remote_client.py\<close> over the wire models of \<open>memory/wire/v1.py\<close>: the client of the remote
  memory service.  Parameters are the HTTP transport, which acts on the world \<open>'w\<close> (a call may fail in
  transport, raise anything else, or answer with a status and a body), the factory of request
  identifiers, and what pydantic does before the validators of a model run: reading a JSON payload
  into typed fields (date times as their ISO text).  The declared field constraints and the validators are written out.
\<close>

section \<open>Wire models\<close>

abbreviation ValidationError :: "string \<Rightarrow> exn" where
  "ValidationError m \<equiv> Exn ''ValidationError'' m"

abbreviation RemoteMemoryContractError :: "string \<Rightarrow> exn" where
  "RemoteMemoryContractError m \<equiv> Exn ''RemoteMemoryContractError'' m"

abbreviation RemoteMemoryWriteError :: "string \<Rightarrow> exn" where
  "RemoteMemoryWriteError m \<equiv> Exn ''RemoteMemoryWriteError'' m"

definition WIRE_SCHEMA_VERSION :: string where
  "WIRE_SCHEMA_VERSION = ''memory-contract-v1''"

definition TOKENIZER_ID :: string where
  "TOKENIZER_ID = ''cl100k_base''"

definition wire_types :: "(string \<times> memory_type) list" where
  "wire_types =
     [(''fact'', FACT), (''decision'', DECISION), (''preference'', PREFERENCE), (''rule'', RULE), (''note'', NOTE),
      (''lesson'', LESSON), (''project_context'', PROJECT_CONTEXT)]"

definition ERROR_CODES :: "string list" where
  "ERROR_CODES =
     [''INVALID_REQUEST'', ''MEMORY_NOT_FOUND'', ''IDEMPOTENCY_CONFLICT'', ''REQUEST_TOO_LARGE'', ''VALIDATION_ERROR'',
      ''STORE_UNAVAILABLE'', ''INTERNAL_ERROR'']"

text \<open>\<open>_non_empty\<close>: the stripped text.  A validator's \<open>ValueError\<close> reaches the caller as \<open>ValidationError\<close>.\<close>

definition non_empty :: "string \<Rightarrow> string \<Rightarrow> exn + string" where
  "non_empty fld s =
     (if blank s then Inl (ValidationError (fld @ '' must be non-empty'')) else Inr (strip s))"

definition non_empty_or_none :: "string \<Rightarrow> string option \<Rightarrow> exn + string option" where
  "non_empty_or_none fld v =
     (case v of None \<Rightarrow> Inr None | Some s \<Rightarrow> seqE (non_empty fld s) (\<lambda>t. Inr (Some t)))"

definition in_unit :: "rat \<Rightarrow> bool" where
  "in_unit x = (0 \<le> x \<and> x \<le> 1)"

record context_request =
  cq_request_id :: string
  cq_project_id :: string
  cq_user_id :: string
  cq_session_id :: "string option"
  cq_query :: string
  cq_token_budget :: int
  cq_max_items :: int

definition context_request_init ::
  "string \<Rightarrow> string \<Rightarrow> string \<Rightarrow> string option \<Rightarrow> string \<Rightarrow> int \<Rightarrow> int \<Rightarrow> exn + context_request" where
  "context_request_init rid proj usr ses query budget max_items =
     seqE (non_empty ''request_id'' rid) (\<lambda>rid'.
     seqE (non_empty ''project_id'' proj) (\<lambda>proj'.
     seqE (non_empty ''user_id'' usr) (\<lambda>usr'.
     seqE (non_empty_or_none ''session_id'' ses) (\<lambda>ses'.
     seqE (non_empty ''query'' query) (\<lambda>query'.
     seqE (raise_first
       [(budget < 0 \<or> 8000 < budget, ValidationError ''token_budget''),
        (max_items < 0 \<or> 50 < max_items, ValidationError ''max_items'')]) (\<lambda>_.
       Inr \<lparr>cq_request_id = rid', cq_project_id = proj', cq_user_id = usr', cq_session_id = ses',
            cq_query = query', cq_token_budget = budget, cq_max_items = max_items\<rparr>))))))"

record wire_item =
  wi_memory_id :: string
  wi_type :: string
  wi_content :: string
  wi_tags :: "string list"
  wi_importance :: rat
  wi_confidence :: rat
  wi_source_task_id :: "string option"
  wi_evidence_ref :: "string option"
  wi_score :: rat
  wi_token_cost :: int
  wi_created_at :: string
  wi_updated_at :: string
  wi_metadata :: kwargs

definition wire_item_check :: "wire_item \<Rightarrow> exn + wire_item" where
  "wire_item_check it =
     seqE (raise_first
       [(wi_type it \<notin> set (map fst wire_types), ValidationError ''type''),
        (\<not> in_unit (wi_importance it), ValidationError ''importance''),
        (\<not> in_unit (wi_confidence it), ValidationError ''confidence''),
        (\<not> in_unit (wi_score it), ValidationError ''score''),
        (wi_token_cost it < 0, ValidationError ''token_cost'')]) (\<lambda>_.
     seqE (non_empty ''memory_id'' (wi_memory_id it)) (\<lambda>i.
     seqE (non_empty ''content'' (wi_content it)) (\<lambda>c.
       Inr (it\<lparr>wi_memory_id := i, wi_content := c\<rparr>))))"

record context_response =
  cr_schema :: string
  cr_request_id :: string
  cr_project_id :: string
  cr_user_id :: string
  cr_session_id :: "string option"
  cr_query :: string
  cr_memory_source :: string
  cr_tokenizer_id :: string
  cr_items :: "wire_item list"
  cr_total_items :: int
  cr_tokens_used :: int
  cr_token_budget :: int
  cr_truncated :: bool
  cr_degraded :: bool
  cr_warnings :: "string list"

definition context_response_check :: "context_response \<Rightarrow> exn + context_response" where
  "context_response_check r =
     seqE (mapE wire_item_check (cr_items r)) (\<lambda>its.
     seqE (raise_first
       [(cr_schema r \<noteq> WIRE_SCHEMA_VERSION, ValidationError ''schema_version''),
        (cr_memory_source r \<noteq> ''tomtit-memory'', ValidationError ''memory_source''),
        (cr_tokenizer_id r \<noteq> TOKENIZER_ID, ValidationError ''tokenizer_id''),
        (cr_total_items r < 0, ValidationError ''total_items''),
        (cr_tokens_used r < 0, ValidationError ''tokens_used''),
        (cr_token_budget r < 0 \<or> 8000 < cr_token_budget r, ValidationError ''token_budget''),
        (cr_degraded r, ValidationError ''degraded''),
        (cr_tokens_used r \<noteq> sum_list (map wi_token_cost its),
           ValidationError ''tokens_used must equal item token_cost sum''),
        (cr_total_items r < int (length its), ValidationError ''total_items must be >= len(items)''),
        (cr_token_budget r < cr_tokens_used r, ValidationError ''tokens_used must not exceed token_budget'')])
     (\<lambda>_. Inr (r\<lparr>cr_items := its\<rparr>)))"

record wire_candidate =
  wc_candidate_id :: string
  wc_type :: string
  wc_content :: string
  wc_tags :: "string list"
  wc_importance :: rat
  wc_confidence :: rat
  wc_evidence_ref :: string
  wc_metadata :: kwargs

definition wire_candidate_init :: "wire_candidate \<Rightarrow> exn + wire_candidate" where
  "wire_candidate_init c =
     seqE (raise_first
       [(wc_type c \<notin> set (map fst wire_types), ValidationError ''type''),
        (\<not> in_unit (wc_importance c), ValidationError ''importance''),
        (\<not> in_unit (wc_confidence c), ValidationError ''confidence'')]) (\<lambda>_.
     seqE (non_empty ''candidate_id'' (wc_candidate_id c)) (\<lambda>i.
     seqE (non_empty ''content'' (wc_content c)) (\<lambda>t.
     seqE (non_empty ''evidence_ref'' (wc_evidence_ref c)) (\<lambda>e.
       Inr (c\<lparr>wc_candidate_id := i, wc_content := t, wc_evidence_ref := e\<rparr>)))))"

record wire_write_request =
  ww_request_id :: string
  ww_project_id :: string
  ww_user_id :: string
  ww_session_id :: "string option"
  ww_task_id :: string
  ww_candidates :: "wire_candidate list"

definition write_request_init :: "string \<Rightarrow> string \<Rightarrow> string \<Rightarrow> string option \<Rightarrow> string \<Rightarrow> wire_candidate list
    \<Rightarrow> exn + wire_write_request" where
  "write_request_init rid proj usr ses task cs =
     seqE (non_empty ''request_id'' rid) (\<lambda>rid'.
     seqE (non_empty ''project_id'' proj) (\<lambda>proj'.
     seqE (non_empty ''user_id'' usr) (\<lambda>usr'.
     seqE (non_empty_or_none ''session_id'' ses) (\<lambda>ses'.
     seqE (non_empty ''task_id'' task) (\<lambda>task'.
     seqE (raise_first
       [(length cs < 1 \<or> 50 < length cs, ValidationError ''candidates''),
        (\<not> distinct (map wc_candidate_id cs), ValidationError ''candidate_id values must be unique'')]) (\<lambda>_.
       Inr \<lparr>ww_request_id = rid', ww_project_id = proj', ww_user_id = usr', ww_session_id = ses',
            ww_task_id = task', ww_candidates = cs\<rparr>))))))"

record wire_result =
  wr_candidate_id :: string
  wr_status :: string
  wr_memory_id :: string
  wr_content_hash :: string
  wr_reason :: "string option"

definition hash_pattern :: "string \<Rightarrow> bool" where
  "hash_pattern s =
     (length s = 64 \<and> list_all (\<lambda>c. between (CHR ''0'') (CHR ''9'') c \<or> between (CHR ''a'') (CHR ''f'') c) s)"

definition wire_result_check :: "wire_result \<Rightarrow> exn + wire_result" where
  "wire_result_check r =
     seqE (raise_first
       [(wr_status r \<notin> {''written'', ''skipped_duplicate''}, ValidationError ''status''),
        (\<not> hash_pattern (wr_content_hash r), ValidationError ''content_hash''),
        (wr_status r = ''written'' \<and> wr_reason r \<noteq> None, ValidationError ''written results must have reason=null''),
        (wr_status r = ''skipped_duplicate'' \<and> wr_reason r \<noteq> Some ''duplicate_content'',
           ValidationError ''skipped_duplicate results must use duplicate_content'')]) (\<lambda>_. Inr r)"

record wire_write_response =
  wp_schema :: string
  wp_request_id :: string
  wp_project_id :: string
  wp_user_id :: string
  wp_session_id :: "string option"
  wp_results :: "wire_result list"
  wp_written_count :: int
  wp_skipped_count :: int

definition with_status :: "string \<Rightarrow> wire_result list \<Rightarrow> wire_result list" where
  "with_status st rs = filter (\<lambda>r. wr_status r = st) rs"

definition write_response_check :: "wire_write_response \<Rightarrow> exn + wire_write_response" where
  "write_response_check p =
     seqE (mapE wire_result_check (wp_results p)) (\<lambda>rs.
     seqE (raise_first
       [(wp_schema p \<noteq> WIRE_SCHEMA_VERSION, ValidationError ''schema_version''),
        (wp_written_count p < 0, ValidationError ''written_count''),
        (wp_skipped_count p < 0, ValidationError ''skipped_count''),
        (wp_written_count p \<noteq> int (length (with_status ''written'' rs)),
           ValidationError ''written_count must equal written result count''),
        (wp_skipped_count p \<noteq> int (length (with_status ''skipped_duplicate'' rs)),
           ValidationError ''skipped_count must equal skipped result count'')]) (\<lambda>_. Inr p))"

section \<open>What the client is given\<close>

datatype http_outcome = TransportFailed | PostRaised exn | Answered int "pyval option"

record 'w remote_env =
  http_post :: "string \<Rightarrow> pyval \<Rightarrow> 'w \<Rightarrow> http_outcome \<times> 'w"
  request_id_factory :: "'w \<Rightarrow> string \<times> 'w"
  read_context :: "pyval \<Rightarrow> context_response option"
  read_write_response :: "pyval \<Rightarrow> wire_write_response option"
  read_error_code :: "pyval \<Rightarrow> string option"
  float_repr :: "rat \<Rightarrow> pyfloat"

record remote_config =
  rc_base_url :: string
  rc_project_id :: string
  rc_default_user_id :: string
  rc_timeout_seconds :: rat

definition remote_required :: "string \<Rightarrow> string option \<Rightarrow> exn + string" where
  "remote_required fld v =
     (case v of
        None \<Rightarrow> Inl (RemoteMemoryConfigurationError (fld @ '' is required''))
      | Some s \<Rightarrow> if blank s then Inl (RemoteMemoryConfigurationError (fld @ '' is required''))
                  else Inr (strip s))"

definition drop_slashes :: "string \<Rightarrow> string" where
  "drop_slashes s = rev (dropWhile (\<lambda>c. c = CHR ''/'') (rev s))"

definition normalize_base_url :: "string option \<Rightarrow> exn + string" where
  "normalize_base_url v =
     seqE (remote_required ''base_url'' v) (\<lambda>s.
       let n = drop_slashes s
       in if starts_with ''http://'' n \<or> starts_with ''https://'' n then Inr n
          else Inl (RemoteMemoryConfigurationError ''base_url must start with http:// or https://''))"

definition remote_init :: "string option \<Rightarrow> string option \<Rightarrow> string option \<Rightarrow> rat \<Rightarrow> exn + remote_config" where
  "remote_init url proj usr timeout =
     seqE (normalize_base_url url) (\<lambda>u.
     seqE (remote_required ''project_id'' proj) (\<lambda>p.
     seqE (remote_required ''default_user_id'' usr) (\<lambda>d.
       if timeout \<le> 0 then Inl (RemoteMemoryConfigurationError ''timeout_seconds must be positive'')
       else Inr \<lparr>rc_base_url = u, rc_project_id = p, rc_default_user_id = d, rc_timeout_seconds = timeout\<rparr>)))"

definition resolve_user :: "remote_config \<Rightarrow> string option \<Rightarrow> exn + string" where
  "resolve_user cfg u =
     remote_required ''user_id'' (case u of Some (c # cs) \<Rightarrow> Some (c # cs) | _ \<Rightarrow> Some (rc_default_user_id cfg))"

definition new_request_id :: "'w remote_env \<Rightarrow> 'w \<Rightarrow> (exn + string) \<times> 'w" where
  "new_request_id env w = (let (s, w') = request_id_factory env w in (remote_required ''request_id'' (Some s), w'))"

definition safe_error_message :: "'w remote_env \<Rightarrow> int \<Rightarrow> pyval option \<Rightarrow> string" where
  "safe_error_message env code body =
     (case (case body of None \<Rightarrow> None | Some v \<Rightarrow> read_error_code env v) of
        Some c \<Rightarrow> if c \<in> set ERROR_CODES then ''remote memory error '' @ c
                  else ''remote memory contract error: HTTP '' @ show_int code
      | None \<Rightarrow> ''remote memory contract error: HTTP '' @ show_int code)"

section \<open>Retrieval\<close>

definition degraded_pack :: "int \<Rightarrow> context_pack" where
  "degraded_pack budget =
     \<lparr>items = [], total_items = 0, tokens_used = 0, token_budget = budget, truncated = False, degraded = True,
      memory_source = ''remote''\<rparr>"

definition context_request_json :: "context_request \<Rightarrow> pyval" where
  "context_request_json q = dict_of
     [(''schema_version'', VStr WIRE_SCHEMA_VERSION), (''request_id'', VStr (cq_request_id q)),
      (''project_id'', VStr (cq_project_id q)), (''user_id'', VStr (cq_user_id q)),
      (''session_id'', opt_str (cq_session_id q)), (''query'', VStr (cq_query q)), (''type_filter'', VNone),
      (''token_budget'', VInt (cq_token_budget q)), (''max_items'', VInt (cq_max_items q))]"

definition wire_memory_type :: "string \<Rightarrow> memory_type" where
  "wire_memory_type t = (case map_of wire_types t of Some ty \<Rightarrow> ty | None \<Rightarrow> NOTE)"

definition to_context_item :: "'w remote_env \<Rightarrow> context_response \<Rightarrow> wire_item \<Rightarrow> context_item" where
  "to_context_item env r it =
     \<lparr>ci_content = wi_content it, ci_type = wire_memory_type (wi_type it), ci_score = wi_score it,
      ci_tokens = nat (wi_token_cost it), ci_source = ''remote_memory'', ci_provenance = ''remote'',
      ci_confidence = ''normal'', ci_freshness = ''fresh'',
      ci_metadata = dict_update (wi_metadata it)
        [(''memory_id'', VStr (wi_memory_id it)), (''tags'', VList (map VStr (wi_tags it))),
         (''importance'', VFloat (float_repr env (wi_importance it))),
         (''confidence'', VFloat (float_repr env (wi_confidence it))),
         (''source_task_id'', opt_str (wi_source_task_id it)), (''evidence_ref'', opt_str (wi_evidence_ref it)),
         (''created_at'', VStr (wi_created_at it)), (''updated_at'', VStr (wi_updated_at it)),
         (''tokenizer_id'', VStr (cr_tokenizer_id r)), (''warnings'', VList (map VStr (cr_warnings r)))],
      ci_source_type = MEMORY, ci_trust = UNTRUSTED_EVIDENCE, ci_source_ref = Some (wi_memory_id it)\<rparr>"

definition to_context_pack :: "'w remote_env \<Rightarrow> context_response \<Rightarrow> context_pack" where
  "to_context_pack env r =
     \<lparr>items = map (to_context_item env r) (cr_items r), total_items = nat (cr_total_items r),
      tokens_used = nat (cr_tokens_used r), token_budget = cr_token_budget r, truncated = cr_truncated r,
      degraded = cr_degraded r, memory_source = ''remote''\<rparr>"

definition parse_context_response :: "'w remote_env \<Rightarrow> pyval option \<Rightarrow> exn + context_response" where
  "parse_context_response env body =
     (case (case body of None \<Rightarrow> None | Some v \<Rightarrow> read_context env v) of
        None \<Rightarrow> Inl (RemoteMemoryContractError ''invalid context response'')
      | Some raw \<Rightarrow>
          (case context_response_check raw of
             Inl e \<Rightarrow> Inl (RemoteMemoryContractError ''invalid context response'')
           | Inr r \<Rightarrow> Inr r))"

definition context_answer :: "'w remote_env \<Rightarrow> int \<Rightarrow> http_outcome \<Rightarrow> exn + context_pack" where
  "context_answer env budget out =
     (case out of
        TransportFailed \<Rightarrow> Inr (degraded_pack budget)
      | PostRaised e \<Rightarrow> Inl e
      | Answered code body \<Rightarrow>
          if code = 503 \<or> 500 \<le> code then Inr (degraded_pack budget)
          else if 400 \<le> code then Inl (RemoteMemoryContractError (safe_error_message env code body))
          else seqE (parse_context_response env body) (\<lambda>r. Inr (to_context_pack env r)))"

definition remote_retrieve ::
  "'w remote_env \<Rightarrow> remote_config \<Rightarrow> retrieve_request \<Rightarrow> 'w \<Rightarrow> (exn + context_pack) \<times> 'w" where
  "remote_retrieve env cfg rq w =
     (case resolve_user cfg (rq_user rq) of
        Inl e \<Rightarrow> (Inl e, w)
      | Inr usr \<Rightarrow>
          (let (rid, w1) = new_request_id env w
           in case seqE rid (\<lambda>i. context_request_init i (rc_project_id cfg) usr (rq_session rq) (rq_goal rq)
                    (rq_budget rq) (rq_max_items rq)) of
                Inl e \<Rightarrow> (Inl e, w1)
              | Inr q \<Rightarrow>
                  (let (out, w2) = http_post env (rc_base_url cfg @ ''/v1/context/retrieve'') (context_request_json q) w1
                   in (context_answer env (rq_budget rq) out, w2))))"

section \<open>Writing\<close>

definition pad4 :: "nat \<Rightarrow> string" where
  "pad4 n = (let s = show_nat n in replicate (4 - length s) (CHR ''0'') @ s)"

definition wire_candidate_id :: "nat \<Rightarrow> memory_candidate \<Rightarrow> string" where
  "wire_candidate_id index c =
     (case map_of (mc_metadata c) ''candidate_id'' of
        Some v \<Rightarrow> (case text_of v of Some s \<Rightarrow> if blank s then ''cand-'' @ pad4 index else s
                   | None \<Rightarrow> ''cand-'' @ pad4 index)
      | None \<Rightarrow> ''cand-'' @ pad4 index)"

definition to_write_candidate :: "nat \<Rightarrow> memory_candidate \<Rightarrow> exn + wire_candidate" where
  "to_write_candidate index c =
     (if mc_type c \<in> {TASK_SUMMARY, SOURCE}
      then Inl (RemoteMemoryContractError (''unsupported remote memory type: '' @ memory_type_value (mc_type c)))
      else seqE (remote_required ''evidence_ref'' (evidence_ref c)) (\<lambda>e.
        wire_candidate_init
          \<lparr>wc_candidate_id = wire_candidate_id index c, wc_type = memory_type_value (mc_type c),
           wc_content = mc_content c, wc_tags = mc_tags c, wc_importance = mc_importance c,
           wc_confidence = mc_confidence c, wc_evidence_ref = e, wc_metadata = mc_metadata c\<rparr>))"

fun to_write_candidates :: "nat \<Rightarrow> memory_candidate list \<Rightarrow> exn + wire_candidate list" where
  "to_write_candidates index [] = Inr []"
| "to_write_candidates index (c # cs) =
     seqE (to_write_candidate index c) (\<lambda>x.
     seqE (to_write_candidates (Suc index) cs) (\<lambda>xs. Inr (x # xs)))"

definition wire_candidate_json :: "'w remote_env \<Rightarrow> wire_candidate \<Rightarrow> pyval" where
  "wire_candidate_json env c = dict_of
     [(''candidate_id'', VStr (wc_candidate_id c)), (''type'', VStr (wc_type c)), (''content'', VStr (wc_content c)),
      (''tags'', VList (map VStr (wc_tags c))), (''importance'', VFloat (float_repr env (wc_importance c))),
      (''confidence'', VFloat (float_repr env (wc_confidence c))), (''evidence_ref'', VStr (wc_evidence_ref c)),
      (''metadata'', dict_of (wc_metadata c))]"

definition write_request_json :: "'w remote_env \<Rightarrow> wire_write_request \<Rightarrow> pyval" where
  "write_request_json env q = dict_of
     [(''schema_version'', VStr WIRE_SCHEMA_VERSION), (''request_id'', VStr (ww_request_id q)),
      (''project_id'', VStr (ww_project_id q)), (''user_id'', VStr (ww_user_id q)),
      (''session_id'', opt_str (ww_session_id q)), (''task_id'', VStr (ww_task_id q)),
      (''candidates'', VList (map (wire_candidate_json env) (ww_candidates q)))]"

definition result_error :: "wire_result \<Rightarrow> bool \<times> exn" where
  "result_error r =
     (if wr_status r = ''written''
      then (blank (wr_memory_id r), RemoteMemoryContractError ''written result is missing a memory id'')
      else if wr_status r = ''skipped_duplicate''
      then (wr_reason r \<noteq> Some ''duplicate_content'',
            RemoteMemoryContractError ''skipped_duplicate result has an invalid reason'')
      else (False, RemoteMemoryContractError ''''))"

definition verify_write_correlation :: "wire_write_response \<Rightarrow> wire_write_request \<Rightarrow> exn + unit" where
  "verify_write_correlation p q =
     (let expected = map wc_candidate_id (ww_candidates q); got = map wr_candidate_id (wp_results p)
      in raise_first
        ([(wp_request_id p \<noteq> ww_request_id q, RemoteMemoryContractError ''write response request_id mismatch''),
          (wp_project_id p \<noteq> ww_project_id q, RemoteMemoryContractError ''write response project_id mismatch''),
          (wp_user_id p \<noteq> ww_user_id q, RemoteMemoryContractError ''write response user_id mismatch''),
          (wp_session_id p \<noteq> ww_session_id q, RemoteMemoryContractError ''write response session_id mismatch''),
          (length got \<noteq> length expected, RemoteMemoryContractError ''write response result count mismatch''),
          (\<not> distinct got, RemoteMemoryContractError ''write response has duplicate candidate ids''),
          (set got \<noteq> set expected, RemoteMemoryContractError ''write response candidate ids do not match the request'')]
         @ map result_error (wp_results p)))"

definition to_write_response :: "wire_write_response \<Rightarrow> write_response" where
  "to_write_response p =
     \<lparr>written_ids = map wr_memory_id (with_status ''written'' (wp_results p)),
      skipped = map wr_candidate_id (with_status ''skipped_duplicate'' (wp_results p))\<rparr>"

definition parse_write_response :: "'w remote_env \<Rightarrow> pyval option \<Rightarrow> exn + wire_write_response" where
  "parse_write_response env body =
     (case (case body of None \<Rightarrow> None | Some v \<Rightarrow> read_write_response env v) of
        None \<Rightarrow> Inl (RemoteMemoryContractError ''invalid write response'')
      | Some raw \<Rightarrow>
          (case write_response_check raw of
             Inl e \<Rightarrow> Inl (RemoteMemoryContractError ''invalid write response'')
           | Inr p \<Rightarrow> Inr p))"

definition write_answer :: "'w remote_env \<Rightarrow> wire_write_request \<Rightarrow> http_outcome \<Rightarrow> exn + write_response" where
  "write_answer env q out =
     (case out of
        TransportFailed \<Rightarrow> Inl (RemoteMemoryWriteError ''remote memory write unavailable'')
      | PostRaised e \<Rightarrow> Inl e
      | Answered code body \<Rightarrow>
          if code = 503 \<or> 500 \<le> code then Inl (RemoteMemoryWriteError ''remote memory write unavailable'')
          else if 400 \<le> code then Inl (RemoteMemoryWriteError (safe_error_message env code body))
          else seqE (parse_write_response env body) (\<lambda>p.
               seqE (verify_write_correlation p q) (\<lambda>_. Inr (to_write_response p))))"

definition resolve_request_id :: "'w remote_env \<Rightarrow> string option \<Rightarrow> 'w \<Rightarrow> (exn + string) \<times> 'w" where
  "resolve_request_id env rid w =
     (case rid of None \<Rightarrow> new_request_id env w | Some s \<Rightarrow> (remote_required ''request_id'' (Some s), w))"

definition remote_write ::
  "'w remote_env \<Rightarrow> remote_config \<Rightarrow> write_request \<Rightarrow> 'w \<Rightarrow> (exn + write_response) \<times> 'w" where
  "remote_write env cfg wq w =
     (if wq_candidates wq = [] then (Inr \<lparr>written_ids = [], skipped = []\<rparr>, w)
      else case seqE (resolve_user cfg (wq_user wq)) (\<lambda>u.
                seqE (remote_required ''task_id'' (wq_task wq)) (\<lambda>t. Inr (u, t))) of
        Inl e \<Rightarrow> (Inl e, w)
      | Inr (usr, task) \<Rightarrow>
          (let (rid, w1) = resolve_request_id env (wq_request_id wq) w
           in case seqE rid (\<lambda>i. seqE (to_write_candidates 1 (wq_candidates wq)) (\<lambda>cs.
                    write_request_init i (rc_project_id cfg) usr (wq_session wq) task cs)) of
                Inl e \<Rightarrow> (Inl e, w1)
              | Inr q \<Rightarrow>
                  (let (out, w2) = http_post env (rc_base_url cfg @ ''/v1/memories/write'') (write_request_json env q) w1
                   in (write_answer env q out, w2))))"

definition remote_client :: "'w remote_env \<Rightarrow> remote_config \<Rightarrow> 'w memory_client" where
  "remote_client env cfg =
     \<lparr>supports_required_write = True, retrieve_context_pack = remote_retrieve env cfg,
      write_memory_candidates = remote_write env cfg\<rparr>"

section \<open>The client keeps the contract of a context pack\<close>

lemma wire_item_check_cost: "wire_item_check it = Inr it' \<Longrightarrow> 0 \<le> wi_token_cost it'"
  by (auto simp: wire_item_check_def result_simps not_less)

lemma checked_items_cost: "mapE wire_item_check xs = Inr its \<Longrightarrow> \<forall>it \<in> set its. 0 \<le> wi_token_cost it"
  by (induction xs arbitrary: its) (auto simp: seqE_Inr_iff dest: wire_item_check_cost)

lemma sum_nat_of_costs:
  "\<forall>it \<in> set its. 0 \<le> wi_token_cost it \<Longrightarrow>
     sum_list (map (nat \<circ> wi_token_cost) its) = nat (sum_list (map wi_token_cost its))"
proof (induction its)
  case (Cons it its)
  have "0 \<le> sum_list (map wi_token_cost its)" using Cons.prems by (intro sum_list_nonneg) auto
  with Cons show ?case by (simp add: nat_add_distrib)
qed simp

lemma degraded_pack_ok: "pack_ok (degraded_pack b)"
  by (simp add: degraded_pack_def pack_ok_def)

lemma parsed_context_ok: "parse_context_response env body = Inr r \<Longrightarrow> pack_ok (to_context_pack env r)"
proof -
  assume "parse_context_response env body = Inr r"
  then obtain raw where "context_response_check raw = Inr r"
    by (auto simp: parse_context_response_def split: option.splits sum.splits)
  then obtain its where r: "mapE wire_item_check (cr_items raw) = Inr its" "r = raw\<lparr>cr_items := its\<rparr>"
    "cr_tokens_used raw = sum_list (map wi_token_cost its)" "int (length its) \<le> cr_total_items raw"
    "cr_tokens_used raw \<le> cr_token_budget raw" "0 \<le> cr_tokens_used raw"
    by (auto simp: context_response_check_def result_simps not_less)
  have "sum_list (map (ci_tokens \<circ> to_context_item env r) its) = nat (sum_list (map wi_token_cost its))"
    using sum_nat_of_costs [OF checked_items_cost [OF r(1)]] by (simp add: to_context_item_def comp_def)
  then show ?thesis
    using r by (auto simp: pack_ok_def to_context_pack_def to_context_item_def comp_def)
qed

lemma remote_retrieve_ok: "remote_retrieve env cfg rq w = (Inr p, w') \<Longrightarrow> pack_ok p"
  by (auto simp: remote_retrieve_def context_answer_def Let_def case_prod_beta degraded_pack_ok seqE_Inr_iff parsed_context_ok
      split: sum.splits http_outcome.splits if_splits)

interpretation remote: client_contract "remote_client env cfg" for env :: "'w remote_env" and cfg
  by unfold_locales (simp add: remote_client_def remote_retrieve_ok)

section \<open>Correlated writes\<close>

text \<open>
  A write is reported only when the service gave one result for every candidate that was sent, under the
  identity of the request: what is not written was skipped as a duplicate.
\<close>

definition correlated :: "wire_write_request \<Rightarrow> wire_write_response \<Rightarrow> write_response \<Rightarrow> bool" where
  "correlated q p resp \<longleftrightarrow>
     wp_request_id p = ww_request_id q \<and> wp_project_id p = ww_project_id q \<and> wp_user_id p = ww_user_id q
     \<and> wp_session_id p = ww_session_id q
     \<and> distinct (map wr_candidate_id (wp_results p))
     \<and> set (map wr_candidate_id (wp_results p)) = set (map wc_candidate_id (ww_candidates q))
     \<and> (\<forall>r \<in> set (wp_results p). wr_status r \<in> {''written'', ''skipped_duplicate''}
          \<and> (wr_status r = ''written'' \<longrightarrow> \<not> blank (wr_memory_id r)))
     \<and> resp = to_write_response p"

lemma checked_results: "mapE wire_result_check rs = Inr rs' \<Longrightarrow>
    rs' = rs \<and> (\<forall>r \<in> set rs. wr_status r \<in> {''written'', ''skipped_duplicate''})"
  by (induction rs arbitrary: rs') (auto simp: seqE_Inr_iff wire_result_check_def)

lemma write_answer_correlated:
  assumes "write_answer env q out = Inr resp"
  shows "\<exists>code body p. out = Answered code body \<and> code < 400 \<and> parse_write_response env body = Inr p
    \<and> correlated q p resp \<and> length (written_ids resp) + length (skipped resp) = length (ww_candidates q)"
proof -
  obtain code body p where p: "out = Answered code body \<and> code < 400" "parse_write_response env body = Inr p"
    "verify_write_correlation p q = Inr ()" "resp = to_write_response p"
    using assms by (auto simp: write_answer_def seqE_Inr_iff not_le split: http_outcome.splits if_splits)
  obtain rs where "mapE wire_result_check (wp_results p) = Inr rs"
    using p(2) by (auto simp: parse_write_response_def write_response_check_def seqE_Inr_iff
        split: option.splits sum.splits)
  from checked_results [OF this] have st: "\<forall>r \<in> set (wp_results p). wr_status r \<in> {''written'', ''skipped_duplicate''}"
    by blast
  have "\<forall>r \<in> set (wp_results p). \<not> fst (result_error r)"
    using p(3) by (auto simp: verify_write_correlation_def Let_def list_all_iff)
  then have "\<forall>r \<in> set (wp_results p). wr_status r = ''written'' \<longrightarrow> \<not> blank (wr_memory_id r)"
    by (auto simp: result_error_def)
  then have "correlated q p resp"
    using p(3,4) st by (simp add: correlated_def verify_write_correlation_def Let_def)
  moreover have "length (with_status ''written'' rs) + length (with_status ''skipped_duplicate'' rs) = length rs"
    if "\<forall>r \<in> set rs. wr_status r \<in> {''written'', ''skipped_duplicate''}" for rs
    using that by (induction rs) (auto simp: with_status_def)
  then have "length (written_ids resp) + length (skipped resp) = length (wp_results p)"
    using st by (simp add: p(4) to_write_response_def)
  moreover have "length (wp_results p) = length (ww_candidates q)"
    using p(3) by (simp add: verify_write_correlation_def Let_def)
  ultimately show ?thesis using p by metis
qed

lemma to_write_candidates_length: "to_write_candidates k cs = Inr xs \<Longrightarrow> length xs = length cs"
  by (induction k cs arbitrary: xs rule: to_write_candidates.induct) (auto simp: seqE_Inr_iff)

lemma write_request_init_fields:
  "write_request_init rid proj usr ses task cs = Inr q \<Longrightarrow>
     ww_candidates q = cs \<and> ww_project_id q = strip proj \<and> distinct (map wc_candidate_id cs) \<and> length cs \<le> 50"
  by (auto simp: write_request_init_def seqE_Inr_iff non_empty_def split: if_splits)

lemma remote_write_posts:
  assumes "remote_write env cfg wq w = (Inr resp, w')" and "wq_candidates wq \<noteq> []"
  obtains i usr task cs q w1 out where "to_write_candidates 1 (wq_candidates wq) = Inr cs"
    "write_request_init i (rc_project_id cfg) usr (wq_session wq) task cs = Inr q"
    "http_post env (rc_base_url cfg @ ''/v1/memories/write'') (write_request_json env q) w1 = (out, w')"
    "write_answer env q out = Inr resp"
  using assms
  by (auto simp: remote_write_def Let_def case_prod_beta seqE_Inr_iff split: sum.splits) (metis prod.collapse)

section \<open>A service for one request\<close>

definition rm_result :: wire_result where
  "rm_result = \<lparr>wr_candidate_id = ''cand-0001'', wr_status = ''written'', wr_memory_id = ''m1'',
     wr_content_hash = replicate 64 (CHR ''a''), wr_reason = None\<rparr>"

definition rm_response :: wire_write_response where
  "rm_response = \<lparr>wp_schema = WIRE_SCHEMA_VERSION, wp_request_id = ''r1'', wp_project_id = ''proj'', wp_user_id = ''user'',
     wp_session_id = None, wp_results = [rm_result], wp_written_count = 1, wp_skipped_count = 0\<rparr>"

definition rm_env :: "nat remote_env" where
  "rm_env = \<lparr>http_post = (\<lambda>url body n. (Answered 200 (Some body), Suc n)), request_id_factory = (\<lambda>n. (''r1'', n)),
     read_context = (\<lambda>_. None), read_write_response = (\<lambda>_. Some rm_response), read_error_code = (\<lambda>_. None),
     float_repr = (\<lambda>_. PyFinite ''0.5'')\<rparr>"

definition rm_config :: remote_config where
  "rm_config = \<lparr>rc_base_url = ''http://memory'', rc_project_id = ''proj'', rc_default_user_id = ''user'',
     rc_timeout_seconds = 5\<rparr>"

definition rm_write :: write_request where
  "rm_write = \<lparr>wq_candidates = [\<lparr>mc_type = DECISION, mc_content = ''use postgres'', mc_tags = [], mc_importance = 1,
       mc_confidence = 1, evidence_ref = Some ''ev-1'', mc_metadata = []\<rparr>],
     wq_user = None, wq_session = None, wq_task = Some ''task'', wq_request_id = None\<rparr>"

lemma rm_write_runs:
  "remote_write rm_env rm_config rm_write 0 = (Inr \<lparr>written_ids = [''m1''], skipped = []\<rparr>, 1)"
  by code_simp

end
