(* ===== verification/Py_Regex.thy ===== *)
theory Py_Regex
  imports Arg_Resolver Json_Reader "HOL-Library.Code_Target_Nat"
begin

text \<open>
  Python's \<open>re\<close> for the constructs that the repository's patterns use.  A character is given by its UTF-8
  bytes.  A pattern is written as in the source, with two changes that keep it in ASCII: \<open>~\<close> stands
  for the backslash, and a character beyond ASCII is its \<open>~xHH\<close> or \<open>~uHHHH\<close> escape.  \<open>re_compile\<close>
  parses such a text; \<open>re_run\<close> is the backtracking matcher, in the order of preference of the \<open>sre\<close>
  engine, with its rule for repetitions of the empty string.  The Unicode tables are parameters: simple
  lower case, word characters and decimal digits for patterns, \<open>isdigit\<close>, \<open>isalpha\<close>, \<open>isupper\<close> of a character,
  and \<open>lower()\<close> of a text.
\<close>

section \<open>Characters\<close>

type_synonym ch = string

record charset =
  cs_lower :: "ch \<Rightarrow> ch"
  cs_word :: "ch \<Rightarrow> bool"
  cs_digit :: "ch \<Rightarrow> bool"
  cs_isdigit :: "ch \<Rightarrow> bool"
  cs_isalpha :: "ch \<Rightarrow> bool"
  cs_isupper :: "ch \<Rightarrow> bool"
  cs_str_lower :: "string \<Rightarrow> string"

definition ch_space :: "ch \<Rightarrow> bool" where
  "ch_space c = (case c of [x] \<Rightarrow> ascii_space x | _ \<Rightarrow> c \<in> set wide_spaces)"

text \<open>Letters that \<open>IGNORECASE\<close> identifies beyond their lower case: dotless i and long s.\<close>

definition case_fixes :: "ch \<Rightarrow> ch list" where
  "case_fixes c =
     (if c = ''i'' then [[CHR 0xC4, CHR 0xB1]] else if c = ''s'' then [[CHR 0xC5, CHR 0xBF]]
      else if c = [CHR 0xC4, CHR 0xB1] then [''i''] else if c = [CHR 0xC5, CHR 0xBF] then [''s''] else [])"

definition same_letter :: "charset \<Rightarrow> bool \<Rightarrow> ch \<Rightarrow> ch \<Rightarrow> bool" where
  "same_letter u ic a c =
     (if ic then cs_lower u c = cs_lower u a \<or> cs_lower u c \<in> set (case_fixes (cs_lower u a)) else c = a)"

datatype item = ILit ch | IRange char char | ISpace bool | IDigit | IWord

fun item_has :: "charset \<Rightarrow> bool \<Rightarrow> ch \<Rightarrow> item \<Rightarrow> bool" where
  "item_has u ic c (ILit a) = same_letter u ic a c"
| "item_has u ic c (IRange a b) =
     (if ic then list_ex (\<lambda>n. same_letter u ic [char_of n] c) [code_point a..<Suc (code_point b)]
      else case c of [x] \<Rightarrow> between a b x | _ \<Rightarrow> False)"
| "item_has u ic c (ISpace pos) = (ch_space c = pos)"
| "item_has u ic c IDigit = cs_digit u c"
| "item_has u ic c IWord = cs_word u c"

section \<open>Patterns\<close>

datatype re =
    REmpty
  | RLit bool ch
  | RIn bool bool "item list"
  | RAny bool
  | RBegin
  | REnd
  | RBound
  | RSeq re re
  | RAlt re re
  | RRep bool nat "nat option" re
  | RGroup nat re
  | RBack bool nat
  | RAhead bool re
  | RBehind bool nat re

text \<open>
  A position of the matcher: the characters before it (last one first), those after it, and the groups
  captured so far.
\<close>

record rpos =
  rp_prev :: "ch list"
  rp_rest :: "ch list"
  rp_caps :: "(nat \<times> ch list) list"

type_synonym cont = "rpos \<Rightarrow> rpos option"

definition one :: "(ch \<Rightarrow> bool) \<Rightarrow> cont \<Rightarrow> cont" where
  "one p k s =
     (case rp_rest s of
        [] \<Rightarrow> None
      | c # cs \<Rightarrow> if p c then k (s\<lparr>rp_prev := c # rp_prev s, rp_rest := cs\<rparr>) else None)"

definition at_boundary :: "charset \<Rightarrow> rpos \<Rightarrow> bool" where
  "at_boundary u s =
     ((case rp_prev s of [] \<Rightarrow> False | c # _ \<Rightarrow> cs_word u c) \<noteq>
      (case rp_rest s of [] \<Rightarrow> False | c # _ \<Rightarrow> cs_word u c))"

fun lits :: "charset \<Rightarrow> bool \<Rightarrow> ch list \<Rightarrow> cont \<Rightarrow> cont" where
  "lits u ic [] k s = k s"
| "lits u ic (a # as) k s = one (\<lambda>c. if ic then cs_lower u c = cs_lower u a else c = a) (lits u ic as k) s"

text \<open>
  Repetition of \<open>body\<close>: the required iterations first, then as many more as the mode asks for.  An
  iteration that consumed nothing is the last one.
\<close>

function repeat_re :: "(cont \<Rightarrow> cont) \<Rightarrow> bool \<Rightarrow> nat \<Rightarrow> nat option \<Rightarrow> cont \<Rightarrow> cont" where
  "repeat_re body greedy (Suc n) hi k s =
     body (\<lambda>t. repeat_re body greedy n (map_option (\<lambda>m. m - 1) hi) k t) s"
| "repeat_re body greedy 0 hi k s =
     (let more = body (\<lambda>t. if length (rp_rest t) < length (rp_rest s)
                then repeat_re body greedy 0 (map_option (\<lambda>m. m - 1) hi) k t else k t)
      in if hi = Some 0 then k s
         else if greedy then (case more s of Some x \<Rightarrow> Some x | None \<Rightarrow> k s)
         else (case k s of Some x \<Rightarrow> Some x | None \<Rightarrow> more s))"
  by pat_completeness auto
termination
  by (relation "measures [\<lambda>(body, greedy, n, hi, k, s). n, \<lambda>(body, greedy, n, hi, k, s). length (rp_rest s)]") auto

fun re_run :: "charset \<Rightarrow> re \<Rightarrow> cont \<Rightarrow> cont" where
  "re_run u REmpty k s = k s"
| "re_run u (RLit ic a) k s = one (same_letter u ic a) k s"
| "re_run u (RIn ic neg xs) k s = one (\<lambda>c. list_ex (item_has u ic c) xs \<noteq> neg) k s"
| "re_run u (RAny dotall) k s = one (\<lambda>c. dotall \<or> c \<noteq> [CHR 0x0A]) k s"
| "re_run u RBegin k s = (if rp_prev s = [] then k s else None)"
| "re_run u REnd k s = (if rp_rest s = [] \<or> rp_rest s = [[CHR 0x0A]] then k s else None)"
| "re_run u RBound k s = (if at_boundary u s then k s else None)"
| "re_run u (RSeq a b) k s = re_run u a (re_run u b k) s"
| "re_run u (RAlt a b) k s = (case re_run u a k s of Some x \<Rightarrow> Some x | None \<Rightarrow> re_run u b k s)"
| "re_run u (RRep greedy lo hi r) k s = repeat_re (re_run u r) greedy lo hi k s"
| "re_run u (RGroup n r) k s =
     re_run u r (\<lambda>t. k (t\<lparr>rp_caps := (n, take (length (rp_rest s) - length (rp_rest t)) (rp_rest s)) # rp_caps t\<rparr>)) s"
| "re_run u (RBack ic n) k s =
     (case map_of (rp_caps s) n of None \<Rightarrow> None | Some w \<Rightarrow> lits u ic w k s)"
| "re_run u (RAhead pos r) k s =
     (case re_run u r Some s of
        None \<Rightarrow> if pos then None else k s
      | Some t \<Rightarrow> if pos then k (s\<lparr>rp_caps := rp_caps t\<rparr>) else None)"
| "re_run u (RBehind pos w r) k s =
     (case (if length (rp_prev s) < w then None
            else re_run u r Some (s\<lparr>rp_prev := drop w (rp_prev s), rp_rest := rev (take w (rp_prev s)) @ rp_rest s\<rparr>)) of
        None \<Rightarrow> if pos then None else k s
      | Some t \<Rightarrow> if pos then k (s\<lparr>rp_caps := rp_caps t\<rparr>) else None)"

section \<open>Parsing\<close>

text \<open>
  The groups seen so far: how many, and the names among them.  The flags in force are \<open>IGNORECASE\<close>, which
  \<open>(?-i:...)\<close> switches off, and \<open>DOTALL\<close>.
\<close>

type_synonym groups = "nat \<times> (string \<times> nat) list"

definition hex_char :: "nat \<Rightarrow> string \<Rightarrow> (ch \<times> string) option" where
  "hex_char n s =
     (let ds = take n s
      in if length ds = n \<and> list_all (\<lambda>c. hex_value c \<noteq> None) ds
         then Some (utf8 (foldl (\<lambda>v c. 16 * v + the (hex_value c)) 0 ds), drop n s) else None)"

definition escaped_char :: "char \<Rightarrow> string \<Rightarrow> (ch \<times> string) option" where
  "escaped_char c s =
     (if c = CHR ''x'' then hex_char 2 s else if c = CHR ''u'' then hex_char 4 s
      else if c = CHR ''n'' then Some ([CHR 0x0A], s) else if c = CHR ''t'' then Some ([CHR 0x09], s)
      else Some ([c], s))"

definition class_item :: "string \<Rightarrow> (item \<times> string) option" where
  "class_item s =
     (case s of
        [] \<Rightarrow> None
      | c # r \<Rightarrow>
          if c \<noteq> CHR ''~'' then Some (ILit [c], r)
          else case r of
              [] \<Rightarrow> None
            | e # q \<Rightarrow>
                if e = CHR ''s'' then Some (ISpace True, q) else if e = CHR ''S'' then Some (ISpace False, q)
                else if e = CHR ''d'' then Some (IDigit, q) else if e = CHR ''w'' then Some (IWord, q)
                else map_option (\<lambda>(a, q'). (ILit a, q')) (escaped_char e q))"

text \<open>The items of a class up to its closing bracket.  The first argument bounds their number.\<close>

fun set_items :: "nat \<Rightarrow> string \<Rightarrow> (item list \<times> string) option" where
  "set_items 0 s = None"
| "set_items (Suc n) s =
     (if take 1 s = '']'' then Some ([], drop 1 s)
      else case class_item s of
          None \<Rightarrow> None
        | Some (i, r) \<Rightarrow>
            (case (i, r) of
               (ILit [a], CHR ''-'' # b # q) \<Rightarrow>
                 if b \<noteq> CHR '']'' \<and> b \<noteq> CHR ''~''
                 then map_option (\<lambda>(is, t). (IRange a b # is, t)) (set_items n q)
                 else map_option (\<lambda>(is, t). (i # is, t)) (set_items n r)
             | _ \<Rightarrow> map_option (\<lambda>(is, t). (i # is, t)) (set_items n r)))"

definition bounds_of :: "string \<Rightarrow> (nat \<times> nat option) option" where
  "bounds_of s =
     (case split_on (CHR '','') s of
        [a] \<Rightarrow> Some (nat_of_digits a, Some (nat_of_digits a))
      | [a, b] \<Rightarrow> Some (nat_of_digits a, if b = [] then None else Some (nat_of_digits b))
      | _ \<Rightarrow> None)"

text \<open>The quantifier at the front of a text, if there is one: its bounds and whether it is greedy.\<close>

definition quantifier :: "string \<Rightarrow> ((nat \<times> nat option) \<times> bool \<times> string) option" where
  "quantifier s =
     (let lazy = (\<lambda>b q. if take 1 q = ''?'' then Some (b, False, drop 1 q) else Some (b, True, q))
      in case s of
          [] \<Rightarrow> None
        | c # r \<Rightarrow>
            if c = CHR ''*'' then lazy (0, None) r
            else if c = CHR ''+'' then lazy (1, None) r
            else if c = CHR ''?'' then lazy (0, Some 1) r
            else if c = CHR ''{'' then
              (case bounds_of (takeWhile (\<lambda>x. x \<noteq> CHR ''}'') r) of
                 None \<Rightarrow> None | Some b \<Rightarrow> lazy b (drop 1 (dropWhile (\<lambda>x. x \<noteq> CHR ''}'') r)))
            else None)"

fun re_width :: "re \<Rightarrow> nat" where
  "re_width (RSeq a b) = re_width a + re_width b"
| "re_width (RGroup n r) = re_width r"
| "re_width (RAlt a b) = re_width a"
| "re_width (RLit ic a) = 1"
| "re_width (RIn ic neg xs) = 1"
| "re_width (RAny d) = 1"
| "re_width r = 0"

definition atom_escape :: "bool \<Rightarrow> string \<Rightarrow> (re \<times> string) option" where
  "atom_escape ic s =
     (case s of
        [] \<Rightarrow> None
      | e # q \<Rightarrow>
          if e = CHR ''b'' then Some (RBound, q)
          else if e = CHR ''s'' then Some (RIn ic False [ISpace True], q)
          else if e = CHR ''S'' then Some (RIn ic False [ISpace False], q)
          else if e = CHR ''d'' then Some (RIn ic False [IDigit], q)
          else if e = CHR ''w'' then Some (RIn ic False [IWord], q)
          else if is_digit e then Some (RBack ic (nat_of_digits [e]), q)
          else map_option (\<lambda>(a, q'). (RLit ic a, q')) (escaped_char e q))"

definition after_prefix :: "string \<Rightarrow> string \<Rightarrow> string option" where
  "after_prefix p s = (if starts_with p s then Some (drop (length p) s) else None)"

datatype paren = OPlain | OGroup "string option" | ONoCase | OAhead bool | OBehind bool

text \<open>What an opening parenthesis begins, with the text after it.\<close>

definition opening_of :: "string \<Rightarrow> paren \<times> string" where
  "opening_of s =
     (if starts_with ''?:'' s then (OPlain, drop 2 s)
      else if starts_with ''?='' s then (OAhead True, drop 2 s)
      else if starts_with ''?!'' s then (OAhead False, drop 2 s)
      else if starts_with ''?<='' s then (OBehind True, drop 3 s)
      else if starts_with ''?<!'' s then (OBehind False, drop 3 s)
      else if starts_with ''?-i:'' s then (ONoCase, drop 4 s)
      else if starts_with ''?P<'' s
      then (OGroup (Some (takeWhile (\<lambda>c. c \<noteq> CHR ''>'') (drop 3 s))), drop 1 (dropWhile (\<lambda>c. c \<noteq> CHR ''>'') s))
      else (OGroup None, s))"

definition open_group :: "paren \<Rightarrow> groups \<Rightarrow> groups" where
  "open_group oc g =
     (case oc of
        OGroup nm \<Rightarrow> (Suc (fst g), (case nm of None \<Rightarrow> snd g | Some x \<Rightarrow> (x, Suc (fst g)) # snd g))
      | _ \<Rightarrow> g)"

definition close_group :: "paren \<Rightarrow> groups \<Rightarrow> re \<Rightarrow> re" where
  "close_group oc g r =
     (case oc of OPlain \<Rightarrow> r | ONoCase \<Rightarrow> r | OGroup nm \<Rightarrow> RGroup (Suc (fst g)) r
      | OAhead pos \<Rightarrow> RAhead pos r | OBehind pos \<Rightarrow> RBehind pos (re_width r) r)"

definition quantified :: "re \<Rightarrow> string \<Rightarrow> re \<times> string" where
  "quantified r s =
     (case quantifier s of None \<Rightarrow> (r, s) | Some ((lo, hi), greedy, q) \<Rightarrow> (RRep greedy lo hi r, q))"

type_synonym parser = "groups \<Rightarrow> string \<Rightarrow> (re \<times> groups \<times> string) option"

text \<open>
  A sequence of quantified atoms, alternatives of sequences, an atom.  The bounds of the recursions (the
  length of the text; the depth of the parentheses) are not reached by a text that parses.
\<close>

fun parse_seq :: "nat \<Rightarrow> parser \<Rightarrow> parser" where
  "parse_seq 0 atom g s = None"
| "parse_seq (Suc n) atom g s =
     (if s = [] \<or> take 1 s = ''|'' \<or> take 1 s = '')'' then Some (REmpty, g, s)
      else case atom g s of
          None \<Rightarrow> None
        | Some (a, g1, s1) \<Rightarrow>
            (case parse_seq n atom g1 (snd (quantified a s1)) of
               None \<Rightarrow> None
             | Some (r, g2, s3) \<Rightarrow>
                 Some (if r = REmpty then fst (quantified a s1) else RSeq (fst (quantified a s1)) r, g2, s3)))"

fun parse_alt :: "nat \<Rightarrow> parser \<Rightarrow> parser" where
  "parse_alt 0 atom g s = None"
| "parse_alt (Suc n) atom g s =
     (case parse_seq (Suc (length s)) atom g s of
        None \<Rightarrow> None
      | Some (r, g1, s1) \<Rightarrow>
          if take 1 s1 = ''|''
          then (case parse_alt n atom g1 (drop 1 s1) of
                  None \<Rightarrow> None | Some (q, g2, s2) \<Rightarrow> Some (RAlt r q, g2, s2))
          else Some (r, g1, s1))"

definition parse_atom :: "(bool \<Rightarrow> parser) \<Rightarrow> bool \<Rightarrow> bool \<Rightarrow> parser" where
  "parse_atom inner ic da g s =
     (case s of
        [] \<Rightarrow> None
      | c # q \<Rightarrow>
          if c = CHR ''('' then
            (let (oc, q1) = opening_of q
             in case inner (ic \<and> oc \<noteq> ONoCase) (open_group oc g) q1 of
                  None \<Rightarrow> None
                | Some (r, g2, s2) \<Rightarrow>
                    if take 1 s2 = '')'' then Some (close_group oc g r, g2, drop 1 s2) else None)
          else if c = CHR ''['' then
            (let neg = (take 1 q = ''^'')
             in case set_items (length q) (if neg then drop 1 q else q) of
                  None \<Rightarrow> None | Some (xs, s2) \<Rightarrow> Some (RIn ic neg xs, g, s2))
          else if c = CHR ''.'' then Some (RAny da, g, q)
          else if c = CHR ''^'' then Some (RBegin, g, q)
          else if c = CHR ''$'' then Some (REnd, g, q)
          else if c = CHR ''~'' then map_option (\<lambda>(r, s2). (r, g, s2)) (atom_escape ic q)
          else Some (RLit ic [c], g, q))"

primrec parse_re :: "nat \<Rightarrow> bool \<Rightarrow> bool \<Rightarrow> parser" where
  "parse_re 0 da ic = (\<lambda>g s. None)"
| "parse_re (Suc n) da ic = (\<lambda>g s. parse_alt (Suc (length s)) (parse_atom (parse_re n da) ic da) g s)"

record pattern =
  pt_re :: re
  pt_groups :: nat
  pt_names :: "(string \<times> nat) list"
  pt_valid :: bool

datatype re_flag = IGNORECASE | DOTALL

definition re_compile :: "re_flag list \<Rightarrow> string \<Rightarrow> pattern" where
  "re_compile fl s =
     (case parse_re (Suc (length s)) (DOTALL \<in> set fl) (IGNORECASE \<in> set fl) (0, []) s of
        Some (r, g, []) \<Rightarrow> \<lparr>pt_re = r, pt_groups = fst g, pt_names = snd g, pt_valid = True\<rparr>
      | _ \<Rightarrow> \<lparr>pt_re = RIn False False [], pt_groups = 0, pt_names = [], pt_valid = False\<rparr>)"

text \<open>A text of the program, with the same two conventions.\<close>

function vn :: "string \<Rightarrow> string" where
  "vn [] = []"
| "vn (c # s) =
     (if c = CHR ''~'' then
        (case s of
           [] \<Rightarrow> [c]
         | e # q \<Rightarrow> (case escaped_char e q of Some (a, q') \<Rightarrow> a @ vn (drop (length q - length q') q) | None \<Rightarrow> c # vn s))
      else c # vn s)"
  by pat_completeness auto
termination
  by (relation "measure length") auto

section \<open>Operations\<close>

record re_match =
  mt_before :: string
  mt_text :: string
  mt_after :: string
  mt_caps :: "(nat \<times> string) list"
  mt_names :: "(string \<times> nat) list"

definition group :: "nat \<Rightarrow> re_match \<Rightarrow> string option" where
  "group n m = (if n = 0 then Some (mt_text m) else map_of (mt_caps m) n)"

definition named_group :: "string \<Rightarrow> re_match \<Rightarrow> string option" where
  "named_group x m = (case map_of (mt_names m) x of None \<Rightarrow> None | Some n \<Rightarrow> group n m)"

definition start_pos :: "ch list \<Rightarrow> ch list \<Rightarrow> rpos" where
  "start_pos prev rest = \<lparr>rp_prev = prev, rp_rest = rest, rp_caps = []\<rparr>"

definition match_of :: "pattern \<Rightarrow> rpos \<Rightarrow> rpos \<Rightarrow> re_match" where
  "match_of p s t =
     \<lparr>mt_before = concat (rev (rp_prev s)), mt_text = concat (take (length (rp_rest s) - length (rp_rest t)) (rp_rest s)),
      mt_after = concat (rp_rest t), mt_caps = map (\<lambda>(n, w). (n, concat w)) (rp_caps t), mt_names = pt_names p\<rparr>"

definition match_here :: "charset \<Rightarrow> pattern \<Rightarrow> bool \<Rightarrow> ch list \<Rightarrow> ch list \<Rightarrow> rpos option" where
  "match_here u p advance prev rest =
     re_run u (pt_re p) (\<lambda>t. if advance \<and> length (rp_rest t) = length rest then None else Some t) (start_pos prev rest)"

definition re_match_at_start :: "charset \<Rightarrow> pattern \<Rightarrow> string \<Rightarrow> re_match option" where
  "re_match_at_start u p s =
     map_option (match_of p (start_pos [] (py_chars s))) (match_here u p False [] (py_chars s))"

definition re_fullmatch :: "charset \<Rightarrow> pattern \<Rightarrow> string \<Rightarrow> re_match option" where
  "re_fullmatch u p s =
     map_option (match_of p (start_pos [] (py_chars s)))
       (re_run u (pt_re p) (\<lambda>t. if rp_rest t = [] then Some t else None) (start_pos [] (py_chars s)))"

text \<open>The leftmost match from a position on.  \<open>advance\<close> excludes an empty match at that position.\<close>

fun search_from :: "charset \<Rightarrow> pattern \<Rightarrow> bool \<Rightarrow> ch list \<Rightarrow> ch list \<Rightarrow> (rpos \<times> rpos) option" where
  "search_from u p advance prev [] =
     map_option (\<lambda>t. (start_pos prev [], t)) (match_here u p advance prev [])"
| "search_from u p advance prev (c # cs) =
     (case match_here u p advance prev (c # cs) of
        Some t \<Rightarrow> Some (start_pos prev (c # cs), t)
      | None \<Rightarrow> search_from u p False (c # prev) cs)"

definition re_search :: "charset \<Rightarrow> pattern \<Rightarrow> string \<Rightarrow> re_match option" where
  "re_search u p s = map_option (\<lambda>(a, t). match_of p a t) (search_from u p False [] (py_chars s))"

text \<open>
  The successive matches of \<open>sub\<close>, \<open>split\<close> and \<open>findall\<close>, each with the text between it and the one
  before, and the text that remains.  A match that begins where the last one ended is not empty.
\<close>

fun pieces :: "charset \<Rightarrow> pattern \<Rightarrow> nat \<Rightarrow> bool \<Rightarrow> ch list \<Rightarrow> ch list \<Rightarrow> (string \<times> re_match) list \<times> string" where
  "pieces u p 0 advance prev rest = ([], concat rest)"
| "pieces u p (Suc n) advance prev rest =
     (case search_from u p advance prev rest of
        None \<Rightarrow> ([], concat rest)
      | Some (a, t) \<Rightarrow>
          (let (ms, tail) = pieces u p n (length (rp_rest a) = length (rp_rest t)) (rp_prev t) (rp_rest t)
           in ((concat (take (length rest - length (rp_rest a)) rest), match_of p a t) # ms, tail)))"

definition all_pieces :: "charset \<Rightarrow> pattern \<Rightarrow> string \<Rightarrow> (string \<times> re_match) list \<times> string" where
  "all_pieces u p s = pieces u p (2 * py_len s + 2) False [] (py_chars s)"

definition re_sub :: "charset \<Rightarrow> pattern \<Rightarrow> string \<Rightarrow> string \<Rightarrow> string" where
  "re_sub u p repl s = (let (ms, tail) = all_pieces u p s in concat (map (\<lambda>(b, m). b @ repl) ms) @ tail)"

definition re_split :: "charset \<Rightarrow> pattern \<Rightarrow> string \<Rightarrow> string list" where
  "re_split u p s = (let (ms, tail) = all_pieces u p s in map fst ms @ [tail])"

definition re_split_once :: "charset \<Rightarrow> pattern \<Rightarrow> string \<Rightarrow> string list" where
  "re_split_once u p s =
     (case re_search u p s of None \<Rightarrow> [s] | Some m \<Rightarrow> [mt_before m, mt_after m])"

definition re_findall :: "charset \<Rightarrow> pattern \<Rightarrow> string \<Rightarrow> string list" where
  "re_findall u p s =
     map (\<lambda>(b, m). if pt_groups p = 0 then mt_text m else (case group 1 m of None \<Rightarrow> [] | Some x \<Rightarrow> x)) (fst (all_pieces u p s))"

definition begins :: "charset \<Rightarrow> pattern \<Rightarrow> string \<Rightarrow> bool" where
  "begins u p t = (re_match_at_start u p t \<noteq> None)"

definition found :: "charset \<Rightarrow> pattern \<Rightarrow> string \<Rightarrow> bool" where
  "found u p t = (re_search u p t \<noteq> None)"

section \<open>More operations on texts\<close>

text \<open>\<open>s.rstrip(chars)\<close>, \<open>s.strip(chars)\<close>, \<open>s.endswith(t)\<close>, \<open>s.replace(a, b)\<close>.\<close>

definition rstrip_chars :: "string \<Rightarrow> string \<Rightarrow> string" where
  "rstrip_chars cs s = concat (rev (dropWhile (\<lambda>c. c \<in> set (py_chars cs)) (rev (py_chars s))))"

definition strip_chars :: "string \<Rightarrow> string \<Rightarrow> string" where
  "strip_chars cs s = concat (dropWhile (\<lambda>c. c \<in> set (py_chars cs)) (py_chars (rstrip_chars cs s)))"

definition ends_in :: "string \<Rightarrow> string \<Rightarrow> bool" where
  "ends_in t s = starts_with (rev t) (rev s)"

function (sequential) replace_str :: "string \<Rightarrow> string \<Rightarrow> string \<Rightarrow> string" where
  "replace_str a b [] = []"
| "replace_str a b (c # s) =
     (if a \<noteq> [] \<and> starts_with a (c # s) then b @ replace_str a b (drop (length a - 1) s)
      else c # replace_str a b s)"
  by pat_completeness auto
termination
  by (relation "measure (\<lambda>(a, b, s). length s)") auto

definition all_chars :: "(ch \<Rightarrow> bool) \<Rightarrow> string \<Rightarrow> bool" where
  "all_chars p s = list_all p (py_chars s)"

definition any_char :: "(ch \<Rightarrow> bool) \<Rightarrow> string \<Rightarrow> bool" where
  "any_char p s = list_ex p (py_chars s)"

definition isalpha :: "charset \<Rightarrow> string \<Rightarrow> bool" where
  "isalpha u s = (s \<noteq> [] \<and> all_chars (cs_isalpha u) s)"

text \<open>\<open>re.sub(r"~s+", " ", s)\<close>, which the repository uses everywhere.\<close>

definition RE_SPACES :: pattern where
  "RE_SPACES = re_compile [] ''~s+''"

definition squeeze :: "charset \<Rightarrow> string \<Rightarrow> string" where
  "squeeze u s = re_sub u RE_SPACES '' '' s"

section \<open>What a match is\<close>

text \<open>
  The positions that a pattern leads to from a position, in any order of preference.  The matcher finds
  only such positions, and what it reports is a part of the text.
\<close>

inductive reaches :: "charset \<Rightarrow> re \<Rightarrow> rpos \<Rightarrow> rpos \<Rightarrow> bool" for u where
  r_empty: "reaches u REmpty s s"
| r_lit: "rp_rest s = c # cs \<Longrightarrow> same_letter u ic a c
     \<Longrightarrow> reaches u (RLit ic a) s (s\<lparr>rp_prev := c # rp_prev s, rp_rest := cs\<rparr>)"
| r_cls: "rp_rest s = c # cs \<Longrightarrow> list_ex (item_has u ic c) xs \<noteq> neg
     \<Longrightarrow> reaches u (RIn ic neg xs) s (s\<lparr>rp_prev := c # rp_prev s, rp_rest := cs\<rparr>)"
| r_any: "rp_rest s = c # cs \<Longrightarrow> dotall \<or> c \<noteq> [CHR 0x0A]
     \<Longrightarrow> reaches u (RAny dotall) s (s\<lparr>rp_prev := c # rp_prev s, rp_rest := cs\<rparr>)"
| r_start: "rp_prev s = [] \<Longrightarrow> reaches u RBegin s s"
| r_finish: "rp_rest s = [] \<or> rp_rest s = [[CHR 0x0A]] \<Longrightarrow> reaches u REnd s s"
| r_bound: "at_boundary u s \<Longrightarrow> reaches u RBound s s"
| r_seq: "reaches u a s t \<Longrightarrow> reaches u b t v \<Longrightarrow> reaches u (RSeq a b) s v"
| r_left: "reaches u a s t \<Longrightarrow> reaches u (RAlt a b) s t"
| r_right: "reaches u b s t \<Longrightarrow> reaches u (RAlt a b) s t"
| r_stop: "reaches u (RRep g 0 hi r) s s"
| r_loop: "reaches u r s t \<Longrightarrow> reaches u (RRep g (lo - 1) (map_option (\<lambda>m. m - 1) hi) r) t v \<Longrightarrow> 0 < lo \<or> hi \<noteq> Some 0
     \<Longrightarrow> reaches u (RRep g lo hi r) s v"
| r_cap: "reaches u r s t
     \<Longrightarrow> reaches u (RGroup n r) s
           (t\<lparr>rp_caps := (n, take (length (rp_rest s) - length (rp_rest t)) (rp_rest s)) # rp_caps t\<rparr>)"
| r_back: "map_of (rp_caps s) n = Some w \<Longrightarrow> lits u ic w Some s = Some t \<Longrightarrow> reaches u (RBack ic n) s t"
| r_ahead: "reaches u r s t \<Longrightarrow> reaches u (RAhead True r) s (s\<lparr>rp_caps := rp_caps t\<rparr>)"
| r_not_ahead: "re_run u r Some s = None \<Longrightarrow> reaches u (RAhead False r) s s"
| r_behind: "w \<le> length (rp_prev s)
     \<Longrightarrow> reaches u r (s\<lparr>rp_prev := drop w (rp_prev s), rp_rest := rev (take w (rp_prev s)) @ rp_rest s\<rparr>) t
     \<Longrightarrow> reaches u (RBehind True w r) s (s\<lparr>rp_caps := rp_caps t\<rparr>)"
| r_not_behind: "reaches u (RBehind False w r) s s"

lemma or_else_Some: "(case a of Some y \<Rightarrow> Some y | None \<Rightarrow> b) = Some x \<Longrightarrow> a = Some x \<or> b = Some x"
  by (auto split: option.splits)

lemma one_Some: "one p k s = Some x \<Longrightarrow>
    \<exists>c cs. rp_rest s = c # cs \<and> p c \<and> k (s\<lparr>rp_prev := c # rp_prev s, rp_rest := cs\<rparr>) = Some x"
  by (auto simp: one_def split: list.splits if_splits)

lemma lits_Some: "lits u ic w k s = Some x \<Longrightarrow> \<exists>t. lits u ic w Some s = Some t \<and> k t = Some x"
  by (induction w arbitrary: s) (auto simp: one_def split: list.splits if_splits)

lemma repeat_re_sound:
  assumes body: "\<And>k s x. re_run u r k s = Some x \<Longrightarrow> \<exists>t. reaches u r s t \<and> k t = Some x"
  shows "repeat_re (re_run u r) g lo hi k s = Some x \<Longrightarrow> \<exists>t. reaches u (RRep g lo hi r) s t \<and> k t = Some x"
proof (induction "re_run u r" g lo hi k s rule: repeat_re.induct)
  case (1 g n hi k s)
  then obtain t where t: "reaches u r s t" "repeat_re (re_run u r) g n (map_option (\<lambda>m. m - 1) hi) k t = Some x"
    using body by (fastforce)
  with 1(1) obtain v where "reaches u (RRep g n (map_option (\<lambda>m. m - 1) hi) r) t v" "k v = Some x" by blast
  with t(1) show ?case using reaches.r_loop [of u r s t g "Suc n" hi v] by auto
next
  case (2 g hi k s)
  let ?more = "re_run u r (\<lambda>t. if length (rp_rest t) < length (rp_rest s)
      then repeat_re (re_run u r) g 0 (map_option (\<lambda>m. m - 1) hi) k t else k t) s"
  have "k s = Some x \<or> hi \<noteq> Some 0 \<and> ?more = Some x"
    using 2(2) by (auto simp: Let_def split: if_splits dest!: or_else_Some)
  then show ?case
  proof
    assume "k s = Some x" then show ?thesis using reaches.r_stop by blast
  next
    assume m: "hi \<noteq> Some 0 \<and> ?more = Some x"
    from body [OF conjunct2 [OF m]] obtain t where t: "reaches u r s t"
      "(if length (rp_rest t) < length (rp_rest s)
        then repeat_re (re_run u r) g 0 (map_option (\<lambda>m. m - 1) hi) k t else k t) = Some x" by blast
    have "\<exists>v. reaches u (RRep g 0 (map_option (\<lambda>m. m - 1) hi) r) t v \<and> k v = Some x"
    proof (cases "length (rp_rest t) < length (rp_rest s)")
      case True
      with t(2) 2(1) [OF True] show ?thesis by (simp del: repeat_re.simps)
    next
      case False
      with t(2) reaches.r_stop show ?thesis by (simp del: repeat_re.simps) blast
    qed
    with t(1) m show ?thesis using reaches.r_loop [of u r s t g 0 hi] by auto
  qed
qed

theorem re_run_sound: "re_run u r k s = Some x \<Longrightarrow> \<exists>t. reaches u r s t \<and> k t = Some x"
proof (induction r arbitrary: k s x)
  case (RSeq a b)
  from RSeq.IH(1) [of "re_run u b k" s x] RSeq.prems
  obtain t where t: "reaches u a s t" "re_run u b k t = Some x" by auto
  with RSeq.IH(2) obtain v where "reaches u b t v" "k v = Some x" by blast
  with t(1) show ?case using reaches.r_seq by blast
next
  case (RAlt a b)
  then have "(case re_run u a k s of Some y \<Rightarrow> Some y | None \<Rightarrow> re_run u b k s) = Some x" by simp
  from or_else_Some [OF this] show ?case
  proof
    assume "re_run u a k s = Some x"
    from RAlt.IH(1) [OF this] show ?thesis using reaches.r_left by blast
  next
    assume "re_run u b k s = Some x"
    from RAlt.IH(2) [OF this] show ?thesis using reaches.r_right by blast
  qed
next
  case (RRep g lo hi r)
  then show ?case using repeat_re_sound [of u r g lo hi k s x] by simp
next
  case (RGroup n r)
  from RGroup.IH [OF RGroup.prems [unfolded re_run.simps]] show ?case using reaches.r_cap by blast
next
  case (RBack ic n)
  then obtain w where w: "map_of (rp_caps s) n = Some w" "lits u ic w k s = Some x" by (auto split: option.splits)
  from lits_Some [OF w(2)] w(1) show ?case using reaches.r_back by blast
next
  case (RAhead pos r)
  show ?case
  proof (cases "re_run u r Some s")
    case None
    with RAhead.prems have "\<not> pos" "k s = Some x" by (auto split: if_splits)
    with None show ?thesis using reaches.r_not_ahead by auto
  next
    case (Some t)
    with RAhead.prems have p: "pos" "k (s\<lparr>rp_caps := rp_caps t\<rparr>) = Some x" by (auto split: if_splits)
    from RAhead.IH [OF Some] have "reaches u (RAhead pos r) s (s\<lparr>rp_caps := rp_caps t\<rparr>)"
      using p(1) reaches.r_ahead by auto
    with p(2) show ?thesis by blast
  qed
next
  case (RBehind pos w r)
  let ?s = "s\<lparr>rp_prev := drop w (rp_prev s), rp_rest := rev (take w (rp_prev s)) @ rp_rest s\<rparr>"
  show ?case
  proof (cases pos)
    case True
    then obtain t where t: "w \<le> length (rp_prev s)" "re_run u r Some ?s = Some t" "k (s\<lparr>rp_caps := rp_caps t\<rparr>) = Some x"
      using RBehind.prems by (auto split: option.splits if_splits)
    from RBehind.IH [OF t(2)] have "reaches u r ?s t" by auto
    from reaches.r_behind [OF t(1) this] True have "reaches u (RBehind pos w r) s (s\<lparr>rp_caps := rp_caps t\<rparr>)" by simp
    with t(3) show ?thesis by blast
  next
    case False
    then have "k s = Some x" using RBehind.prems by (auto split: option.splits)
    moreover have "reaches u (RBehind pos w r) s s" using False reaches.r_not_behind by simp
    ultimately show ?thesis by blast
  qed
qed (auto dest!: one_Some intro: reaches.intros split: if_splits)

text \<open>A match neither loses nor invents text.\<close>

definition whole :: "rpos \<Rightarrow> ch list" where
  "whole s = rev (rp_prev s) @ rp_rest s"

lemma lits_whole: "lits u ic w Some s = Some t \<Longrightarrow> whole t = whole s \<and> length (rp_rest t) \<le> length (rp_rest s)"
  by (induction w arbitrary: s) (force simp: whole_def dest!: one_Some)+

lemma reaches_whole: "reaches u r s t \<Longrightarrow> whole t = whole s \<and> length (rp_rest t) \<le> length (rp_rest s)"
  by (induction rule: reaches.induct) (auto simp: whole_def lits_whole [unfolded whole_def])

lemma whole_split: 
  assumes "whole t = whole s" "length (rp_rest t) \<le> length (rp_rest s)"
  shows "rp_rest s = take (length (rp_rest s) - length (rp_rest t)) (rp_rest s) @ rp_rest t"
proof -
  have "drop (length (rp_rest s) - length (rp_rest t)) (rp_rest s) = rp_rest t"
  proof -
    have "drop (length (whole s) - length (rp_rest t)) (whole s) = rp_rest t"
      using assms(1) by (metis append_eq_conv_conj diff_add_inverse2 length_append whole_def)
    then show ?thesis using assms(2) by (simp add: whole_def)
  qed
  then show ?thesis by (metis append_take_drop_id)
qed

text \<open>The characters that a pattern can consume satisfy \<open>P\<close>.\<close>

fun inside :: "charset \<Rightarrow> (ch \<Rightarrow> bool) \<Rightarrow> re \<Rightarrow> bool" where
  "inside u P (RLit ic a) = (\<forall>c. same_letter u ic a c \<longrightarrow> P c)"
| "inside u P (RIn ic neg xs) = (\<forall>c. list_ex (item_has u ic c) xs \<noteq> neg \<longrightarrow> P c)"
| "inside u P (RAny dotall) = (\<forall>c. dotall \<or> c \<noteq> [CHR 0x0A] \<longrightarrow> P c)"
| "inside u P (RSeq a b) = (inside u P a \<and> inside u P b)"
| "inside u P (RAlt a b) = (inside u P a \<and> inside u P b)"
| "inside u P (RRep g lo hi r) = inside u P r"
| "inside u P (RGroup n r) = inside u P r"
| "inside u P (RBack ic n) = False"
| "inside u P r = True"

definition consumed :: "rpos \<Rightarrow> rpos \<Rightarrow> ch list" where
  "consumed s t = take (length (rp_rest s) - length (rp_rest t)) (rp_rest s)"

lemma consumed_step: "rp_rest s = c # cs \<Longrightarrow> consumed s (s\<lparr>rp_prev := c # rp_prev s, rp_rest := cs\<rparr>) = [c]"
  by (simp add: consumed_def)

lemma consumed_caps [simp]: "consumed s (t\<lparr>rp_caps := x\<rparr>) = consumed s t" "consumed s s = []"
  by (simp_all add: consumed_def)

lemma reaches_rest: "reaches u r s t \<Longrightarrow> rp_rest s = consumed s t @ rp_rest t"
  unfolding consumed_def by (metis reaches_whole whole_split)

lemma consumed_trans:
  assumes "reaches u a s t" "reaches u b t v"
  shows "consumed s v = consumed s t @ consumed t v"
proof -
  have "rp_rest s = consumed s t @ consumed t v @ rp_rest v"
    using reaches_rest [OF assms(1)] reaches_rest [OF assms(2)] by simp
  then show ?thesis by (simp add: consumed_def [of s v])
qed

lemma reaches_inside: "reaches u r s t \<Longrightarrow> inside u P r \<Longrightarrow> list_all P (consumed s t)"
proof (induction rule: reaches.induct)
  case (r_seq a s t b v)
  then show ?case by (simp add: consumed_trans [OF r_seq.hyps])
next
  case (r_loop r s t g lo hi v)
  then show ?case by (simp add: consumed_trans [OF r_loop.hyps(1,2)])
qed (auto simp: consumed_step)

lemma concat_py_chars [simp]: "concat (py_chars s) = s"
  by (induction s rule: py_chars.induct) simp_all

lemma match_here_sound: "match_here u p adv prev rest = Some t \<Longrightarrow> reaches u (pt_re p) (start_pos prev rest) t"
  unfolding match_here_def by (auto dest!: re_run_sound split: if_splits)

lemma search_from_sound:
  "search_from u p adv prev rest = Some (a, t) \<Longrightarrow>
     reaches u (pt_re p) a t \<and> whole a = rev prev @ rest \<and> (\<exists>pre. rest = pre @ rp_rest a)"
  by (induction u p adv prev rest rule: search_from.induct)
     (auto dest: match_here_sound simp: whole_def start_pos_def split: option.splits)

lemma match_of_parts:
  assumes "reaches u r a t"
  shows "mt_before (match_of p a t) @ mt_text (match_of p a t) @ mt_after (match_of p a t) = concat (whole a)"
proof -
  have "concat (rp_rest a) = concat (consumed a t) @ concat (rp_rest t)"
    using reaches_rest [OF assms] by (metis concat_append)
  then show ?thesis by (simp add: match_of_def whole_def consumed_def)
qed

lemma re_search_parts:
  assumes "re_search u p s = Some m"
  shows "mt_before m @ mt_text m @ mt_after m = s"
proof -
  from assms obtain a t where t: "search_from u p False [] (py_chars s) = Some (a, t)" "m = match_of p a t"
    by (auto simp: re_search_def)
  from search_from_sound [OF t(1)] have r: "reaches u (pt_re p) a t" "whole a = py_chars s" by auto
  from match_of_parts [OF r(1)] r(2) show ?thesis by (simp add: t(2))
qed

lemma re_match_parts: "re_match_at_start u p s = Some m \<Longrightarrow> mt_text m @ mt_after m = s"
  using match_of_parts [OF match_here_sound, of u p False "[]" "py_chars s"]
  by (auto simp: re_match_at_start_def match_of_def whole_def start_pos_def)

lemma search_text_inside:
  assumes "re_search u p s = Some m" and "inside u P (pt_re p)"
  shows "\<exists>cs. mt_text m = concat cs \<and> list_all P cs \<and> set cs \<subseteq> set (py_chars s)"
proof -
  from assms(1) obtain a t where t: "search_from u p False [] (py_chars s) = Some (a, t)" "m = match_of p a t"
    by (auto simp: re_search_def)
  note r = search_from_sound [OF t(1)]
  have "set (consumed a t) \<subseteq> set (py_chars s)"
    using r set_take_subset [of _ "rp_rest a"] unfolding consumed_def whole_def by fastforce
  with reaches_inside [OF conjunct1 [OF r] assms(2)] show ?thesis
    by (intro exI [of _ "consumed a t"]) (simp add: t(2) match_of_def consumed_def)
qed

text \<open>Removing the matches of a pattern keeps a part of the characters.\<close>

lemma pieces_chars:
  "pieces u p n adv prev rest = (ms, ts) \<Longrightarrow>
     \<exists>cs. concat (map fst ms) @ ts = concat cs \<and> set cs \<subseteq> set rest"
proof (induction u p n adv prev rest arbitrary: ms ts rule: pieces.induct)
  case (2 u p n adv prev rest)
  show ?case
  proof (cases "search_from u p adv prev rest")
    case None
    with 2(2) show ?thesis by auto
  next
    case (Some z)
    obtain a t where at: "z = (a, t)" by force
    obtain ms' ts' where p: "pieces u p n (length (rp_rest a) = length (rp_rest t)) (rp_prev t) (rp_rest t) = (ms', ts')"
      by force
    from 2(1) [OF Some at [symmetric] p] obtain cs where cs: "concat (map fst ms') @ ts' = concat cs" "set cs \<subseteq> set (rp_rest t)" by blast
    note r = search_from_sound [OF Some [unfolded at]]
    have "set (rp_rest t) \<subseteq> set (rp_rest a)" using reaches_rest [OF conjunct1 [OF r]] by (metis set_append Un_upper2)
    moreover have "set (rp_rest a) \<subseteq> set rest" using r by auto
    ultimately show ?thesis
      using 2(2) Some at p cs set_take_subset [of "length rest - length (rp_rest a)" rest]
      by (intro exI [of _ "take (length rest - length (rp_rest a)) rest @ cs"]) auto
  qed
qed auto

lemma re_sub_remove_chars: "\<exists>cs. re_sub u p [] s = concat cs \<and> set cs \<subseteq> set (py_chars s)"
proof -
  obtain ms ts where p: "all_pieces u p s = (ms, ts)" by force
  have "concat (map (\<lambda>(b, m). b @ []) ms) = concat (map fst ms)" by (induction ms) auto
  with p show ?thesis using pieces_chars [of u p _ False "[]" "py_chars s" ms ts]
    by (simp add: re_sub_def all_pieces_def del: pieces.simps)
qed

lemma set_concat_chars: "set cs \<subseteq> set (py_chars s) \<Longrightarrow> set (concat cs) \<subseteq> set s"
  by (metis Union_mono concat_py_chars image_mono set_concat)

lemma re_sub_remove_set: "set (re_sub u p [] s) \<subseteq> set s"
  using re_sub_remove_chars [of u p s] set_concat_chars by metis

lemma set_strip_front: "set (strip_front ws s) \<subseteq> set s"
  by (induction ws s rule: strip_front.induct) (auto split: list.splits dest!: subsetD in_set_dropD)

lemma set_strip: "set (strip s) \<subseteq> set s"
  using set_strip_front [of wide_spaces s] set_strip_front [of "map rev wide_spaces" "rev (lstrip s)"]
  by (auto simp: strip_def rstrip_def lstrip_def)

section \<open>Characters and whitespace\<close>

text \<open>
  A well-formed character: a byte that starts one, then continuation bytes.  A text of such characters
  falls into them again, stripping it removes whole characters, and so does removing its white space.
\<close>

definition proper_char :: "ch \<Rightarrow> bool" where
  "proper_char c = (case c of [] \<Rightarrow> False | x # r \<Rightarrow> \<not> continuation x \<and> list_all continuation r)"

lemma wide_spaces_proper: "list_all proper_char wide_spaces"
  by code_simp

lemma wide_spaces_no_ascii: "list_all (\<lambda>w. \<not> ascii_space (last w) \<and> 2 \<le> length w) wide_spaces"
  by code_simp

lemma ascii_proper: "code_point x < 128 \<Longrightarrow> proper_char [x]"
  by (simp add: proper_char_def continuation_def)

lemma proper_charE:
  assumes "proper_char c"
  obtains x r where "c = x # r" "\<not> continuation x" "list_all continuation r"
  using assms by (auto simp: proper_char_def split: list.splits)

lemma run_then_stop:
  "list_all P r \<Longrightarrow> s = [] \<or> \<not> P (hd s) \<Longrightarrow> takeWhile P (r @ s) = r \<and> dropWhile P (r @ s) = s"
  by (induction r) (cases s; simp)+

lemma py_chars_proper: "list_all proper_char cs \<Longrightarrow> py_chars (concat cs) = cs"
proof (induction cs)
  case (Cons c cs)
  then have "proper_char c" by simp
  then obtain x r where c: "c = x # r" "list_all continuation r" by (rule proper_charE)
  have "concat cs = [] \<or> \<not> continuation (hd (concat cs))"
    using Cons.prems by (cases cs) (auto elim!: proper_charE)
  from run_then_stop [OF c(2) this] Cons show ?case by (simp add: c(1))
qed simp

text \<open>A proper character ends a text of proper characters only as its last one.\<close>

lemma proper_suffix_eq:
  assumes "proper_char w" "proper_char d" "w = v @ d"
  shows "w = d"
proof (cases v)
  case (Cons y ys)
  from assms(2) obtain x r where "d = x # r" "\<not> continuation x" by (rule proper_charE)
  with Cons assms(3) assms(1) show ?thesis by (auto simp: proper_char_def)
qed (use assms in simp)

lemma suffix_proper:
  assumes "proper_char w" "proper_char d"
  shows "suffix w (t @ d) \<longleftrightarrow> w = d"
proof
  assume "suffix w (t @ d)"
  then consider v where "d = v @ w" | v where "w = v @ d" by (auto simp: suffix_append elim: suffixE)
  then show "w = d"
    by cases (metis proper_suffix_eq assms)+
qed (auto simp: suffix_def)

lemma starts_with_rev: "starts_with (rev w) (rev s) \<longleftrightarrow> suffix w s"
  by (simp add: starts_with_prefix suffix_to_prefix)

lemma ch_space_proper: "ch_space d \<longleftrightarrow> (\<exists>x. d = [x] \<and> ascii_space x) \<or> d \<in> set wide_spaces"
proof -
  have "[x] \<notin> set wide_spaces" for x using wide_spaces_no_ascii by (auto simp: list_all_iff)
  then show ?thesis by (auto simp: ch_space_def split: list.splits)
qed

lemma rstrip_last:
  assumes d: "proper_char d"
  shows "rstrip (t @ d) = (if ch_space d then rstrip t else t @ d)"
proof -
  obtain y ys where y: "rev d = y # ys" using d by (cases "rev d") (auto elim: proper_charE)
  then have l: "last d = y" "length d = Suc (length ys)" by (metis last_rev hd_rev list.sel(1), metis length_Cons length_rev)
  have cont: "ys \<noteq> [] \<Longrightarrow> continuation y"
  proof -
    assume "ys \<noteq> []"
    from d obtain x r where x: "d = x # r" "list_all continuation r" by (rule proper_charE)
    with y \<open>ys \<noteq> []\<close> have "r \<noteq> []" by auto
    with x l(1) show "continuation y" by (auto simp: list_all_iff)
  qed
  have asc: "ascii_space y \<Longrightarrow> \<not> continuation y" by (auto simp: ascii_space_def continuation_def)
  have f: "filter (\<lambda>w. starts_with w (rev (t @ d))) (map rev wide_spaces) = map rev (filter (\<lambda>w. w = d) wide_spaces)"
    using wide_spaces_proper d suffix_proper
    by (auto simp: filter_map comp_def starts_with_rev list_all_iff intro!: arg_cong [of _ _ "map rev"] filter_cong
        simp del: rev_append)
  show ?thesis
  proof (cases "ascii_space y")
    case True
    with cont asc y have "d = [y]" by (cases ys) auto
    with True show ?thesis by (simp add: rstrip_def ch_space_def)
  next
    case False
    have sp: "ch_space d \<longleftrightarrow> d \<in> set wide_spaces"
      using False l y by (auto simp: ch_space_proper)
    show ?thesis
    proof (cases "d \<in> set wide_spaces")
      case True
      then obtain ws where "filter (\<lambda>w. w = d) wide_spaces = d # ws"
        by (cases "filter (\<lambda>w. w = d) wide_spaces") (auto simp: filter_empty_conv filter_eq_Cons_iff)
      with f True sp False y l show ?thesis by (simp add: rstrip_def)
    next
      case False': False
      then have "filter (\<lambda>w. w = d) wide_spaces = []" by (auto simp: filter_empty_conv)
      with f False' sp False y show ?thesis by (simp add: rstrip_def)
    qed
  qed
qed

lemma rstrip_concat: "list_all proper_char cs \<Longrightarrow> rstrip (concat cs) = concat (rev (dropWhile ch_space (rev cs)))"
  by (induction cs rule: rev_induct) (simp_all add: rstrip_last rstrip_def [of "[]"])

lemma lstrip_first:
  assumes "list_all proper_char (c # cs)" "lstrip c = c"
  shows "lstrip (concat (c # cs)) = concat (c # cs)"
proof -
  obtain x r where c: "c = x # r" using assms(1) by (auto elim!: proper_charE)
  have "front_clean wide_spaces c" using strip_front_clean [of wide_spaces c] assms(2) by (simp add: lstrip_def)
  then have cl: "\<not> ascii_space x" "\<And>w. w \<in> set wide_spaces \<Longrightarrow> \<not> prefix w c"
    by (simp_all add: front_clean_def c)
  have "\<not> prefix w (c @ concat cs)" if w: "w \<in> set wide_spaces" for w
  proof
    assume "prefix w (c @ concat cs)"
    with cl(2) [OF w] obtain us where us: "w = c @ us" "prefix us (concat cs)" "us \<noteq> []"
      by (auto simp: prefix_append)
    then obtain d ds where d: "cs = d # ds" by (cases cs) auto
    with assms(1) obtain z q where z: "d = z # q" "\<not> continuation z" by (auto elim!: proper_charE)
    with us d have "z \<in> set us" by (cases us) auto
    moreover have "list_all continuation us"
      using wide_spaces_proper w us(1) c by (auto simp: list_all_iff proper_char_def)
    ultimately show False using z(2) by (auto simp: list_all_iff)
  qed
  with cl(1) have "front_clean wide_spaces (concat (c # cs))" by (auto simp: front_clean_def c)
  then show ?thesis by (simp add: lstrip_def strip_front_id)
qed

text \<open>Stripping a text of proper characters whose first one begins no whitespace.\<close>

lemma strip_chars_text:
  assumes "list_all proper_char (c # cs)" "lstrip c = c" "\<not> ch_space c"
  shows "\<exists>n. strip (concat (c # cs)) = concat (c # take n cs)"
proof -
  have "dropWhile ch_space (rev (c # cs)) = dropWhile ch_space (rev cs) @ [c]"
    using assms(3) by (simp add: dropWhile_append)
  then have "strip (concat (c # cs)) = concat (c # rev (dropWhile ch_space (rev cs)))"
    using rstrip_concat [OF assms(1)] lstrip_first [OF assms(1,2)] by (simp add: strip_def)
  moreover have "prefix (rev (dropWhile ch_space (rev cs))) cs"
    by (metis rev_rev_ident suffix_dropWhile suffix_to_prefix)
  ultimately show ?thesis by (metis prefix_def append_eq_conv_conj)
qed

text \<open>Removing the runs of whitespace removes every white-space character.\<close>

lemma spaces_re: "pt_re RE_SPACES = RRep True 1 None (RIn False False [ISpace True])"
  by code_simp

lemma repeat_goes_on: "k s \<noteq> None \<Longrightarrow> repeat_re body True 0 None k s \<noteq> None"
  by (subst repeat_re.simps(2)) (auto simp: Let_def simp del: repeat_re.simps split: option.splits)

lemma spaces_match_none:
  assumes "match_here u RE_SPACES adv prev (c # cs) = None"
  shows "\<not> ch_space c"
proof
  assume sp: "ch_space c"
  let ?k = "\<lambda>t. if adv \<and> length (rp_rest t) = length (c # cs) then None else Some t"
  have "repeat_re (re_run u (RIn False False [ISpace True])) True 0 None ?k
      \<lparr>rp_prev = c # prev, rp_rest = cs, rp_caps = []\<rparr> \<noteq> None"
    by (rule repeat_goes_on) simp
  with assms sp show False
    by (simp add: match_here_def spaces_re One_nat_def repeat_re.simps(1) one_def start_pos_def del: repeat_re.simps(2))
qed

lemma spaces_match_some:
  assumes "reaches u (pt_re RE_SPACES) s t"
  shows "list_all ch_space (consumed s t)" and "length (rp_rest t) < length (rp_rest s)"
proof -
  show "list_all ch_space (consumed s t)"
    by (rule reaches_inside [OF assms]) (simp add: spaces_re)
  from assms [unfolded spaces_re] obtain v where
    v: "reaches u (RIn False False [ISpace True]) s v" "reaches u (RRep True 0 None (RIn False False [ISpace True])) v t"
    by (cases rule: reaches.cases) auto
  from v(1) have "length (rp_rest v) < length (rp_rest s)" by (cases rule: reaches.cases) auto
  with reaches_whole [OF v(2)] show "length (rp_rest t) < length (rp_rest s)" by simp
qed

lemma search_spaces_none: "search_from u RE_SPACES adv prev rest = None \<Longrightarrow> list_all (\<lambda>c. \<not> ch_space c) rest"
  by (induction u RE_SPACES adv prev rest rule: search_from.induct)
     (auto dest: spaces_match_none split: option.splits)

lemma search_spaces_some:
  "search_from u RE_SPACES adv prev rest = Some (a, t) \<Longrightarrow>
     \<exists>pre. rest = pre @ rp_rest a \<and> list_all (\<lambda>c. \<not> ch_space c) pre"
proof (induction u RE_SPACES adv prev rest rule: search_from.induct)
  case (2 u adv prev c cs)
  show ?case
  proof (cases "match_here u RE_SPACES adv prev (c # cs)")
    case None
    with 2 obtain pre where "cs = pre @ rp_rest a" "list_all (\<lambda>c. \<not> ch_space c) pre" by auto
    with spaces_match_none [OF None] show ?thesis by (intro exI [of _ "c # pre"]) simp
  next
    case (Some v)
    with 2(2) show ?thesis by (auto simp: start_pos_def)
  qed
qed (auto simp: start_pos_def)

lemma spaces_pieces:
  "length rest < n \<Longrightarrow> pieces u RE_SPACES n adv prev rest = (ms, ts) \<Longrightarrow>
     concat (map fst ms) @ ts = concat (filter (\<lambda>c. \<not> ch_space c) rest)"
proof (induction u RE_SPACES n adv prev rest arbitrary: ms ts rule: pieces.induct)
  case (2 u n adv prev rest)
  show ?case
  proof (cases "search_from u RE_SPACES adv prev rest")
    case None
    with 2(3) search_spaces_none [OF None] show ?thesis by (auto simp: list_all_iff filter_id_conv)
  next
    case (Some z)
    obtain a t where at: "z = (a, t)" by force
    obtain ms' ts' where p: "pieces u RE_SPACES n (length (rp_rest a) = length (rp_rest t)) (rp_prev t) (rp_rest t) = (ms', ts')"
      by force
    from search_spaces_some [OF Some [unfolded at]] obtain pre
      where pre: "rest = pre @ rp_rest a" "list_all (\<lambda>c. \<not> ch_space c) pre" by blast
    note r = conjunct1 [OF search_from_sound [OF Some [unfolded at]]]
    note m = spaces_match_some [OF r]
    have "length (rp_rest t) < n" using m(2) pre(1) 2(2) by simp
    from 2(1) [OF Some at [symmetric] this p]
    have "concat (map fst ms') @ ts' = concat (filter (\<lambda>c. \<not> ch_space c) (rp_rest t))" .
    moreover have "filter (\<lambda>c. \<not> ch_space c) (rp_rest a) = filter (\<lambda>c. \<not> ch_space c) (rp_rest t)"
      using m(1) by (subst reaches_rest [OF r]) (simp add: list_all_iff)
    moreover have "ms = (concat pre, match_of RE_SPACES a t) # ms'" "ts = ts'"
      using 2(3) Some at p pre(1) by auto
    ultimately show ?thesis using pre by (simp add: filter_id_conv list_all_iff)
  qed
qed simp

lemma py_len_drop: "py_len (dropWhile continuation s) = py_len s"
  by (induction s) (auto simp: py_len_def continuation_def)

lemma py_chars_length: "length (py_chars s) \<le> Suc (py_len s)"
proof (cases s)
  case (Cons c cs)
  have *: "r = [] \<or> \<not> continuation (hd r) \<Longrightarrow> length (py_chars r) = py_len r" for r
  proof (induction r rule: py_chars.induct)
    case (2 x xs)
    have "dropWhile continuation xs = [] \<or> \<not> continuation (hd (dropWhile continuation xs))"
      by (metis hd_dropWhile)
    with 2 show ?case by (simp add: py_len_drop) (simp add: py_len_def continuation_def)
  qed (simp add: py_len_def)
  have "dropWhile continuation cs = [] \<or> \<not> continuation (hd (dropWhile continuation cs))"
    by (metis hd_dropWhile)
  from * [OF this] have "length (py_chars s) = Suc (py_len cs)" by (simp add: Cons py_len_drop)
  then show ?thesis by (simp add: Cons py_len_def)
qed simp

lemma remove_spaces: "re_sub u RE_SPACES [] s = concat (filter (\<lambda>c. \<not> ch_space c) (py_chars s))"
proof -
  obtain ms ts where p: "all_pieces u RE_SPACES s = (ms, ts)" by force
  have "length (py_chars s) < 2 * py_len s + 2" using py_chars_length [of s] by simp
  moreover have "concat (map (\<lambda>(b, m). b @ []) ms) = concat (map fst ms)" by (induction ms) auto
  ultimately show ?thesis using p spaces_pieces [of "py_chars s" _ u False "[]" ms ts]
    by (simp add: re_sub_def all_pieces_def del: pieces.simps)
qed

end
