(* ===== verification/Profile_Patterns.thy ===== *)
theory Profile_Patterns
  imports Py_Regex
begin

text \<open>
  The word lists and patterns of \<open>conversation/profile_memory.py\<close>, generated from the source in its
  order.  A set is a list, \<open>vn\<close> a text with the escapes of \<open>Py_Regex\<close>.
\<close>

section \<open>Labels\<close>

definition RELATION_TAG_MAP :: "(string \<times> string) list" where
  "RELATION_TAG_MAP =
     [(vn ''b~u1ea1n g~xe1i'', ''ban_gai''), (vn ''b~u1ea1n trai'', ''ban_trai''), (vn ''v~u1ee3'', ''vo''), (vn ''ch~u1ed3ng'', ''chong''),
      (vn ''ng~u01b0~u1eddi y~xeau'', ''nguoi_yeu''), (''partner'', ''partner'')]"

definition RELATION_SYNONYM_MAP :: "(string \<times> string list) list" where
  "RELATION_SYNONYM_MAP =
     [(vn ''ng~u01b0~u1eddi y~xeau'', [vn ''b~u1ea1n g~xe1i'', vn ''b~u1ea1n trai'', vn ''ng~u01b0~u1eddi y~xeau'', ''partner'']),
      (''partner'', [vn ''b~u1ea1n g~xe1i'', vn ''b~u1ea1n trai'', vn ''ng~u01b0~u1eddi y~xeau'', ''partner''])]"

definition get_lookup_labels :: "string option \<Rightarrow> string list" where
  "get_lookup_labels q =
     (case q of None \<Rightarrow> []
      | Some l \<Rightarrow> (case map_of RELATION_SYNONYM_MAP l of Some ls \<Rightarrow> ls | None \<Rightarrow> [l]))"

definition remember_wrapper :: "string \<Rightarrow> string" where
  "remember_wrapper inner = ''b~u1ea1n~s+(?:c~xf3~s+)?(?:bi~u1ebft|nh~u1edb)~s+'' @ inner @ ''~s+(?:kh~xf4ng|ko|h~xf4ng|hong)''"

definition RELATION_TYPO_MAP :: "(string \<times> string) list" where
  "RELATION_TYPO_MAP =
     [(vn ''b~u1ea1n ~xe1i'', vn ''b~u1ea1n g~xe1i''), (vn ''b~u1eb7n g~xe1i'', vn ''b~u1ea1n g~xe1i''), (vn ''b~u1ea1n ga~xed'', vn ''b~u1ea1n g~xe1i''), (vn ''b~u1ea1n tra~xed'', vn ''b~u1ea1n trai''),
      (vn ''ng~u1eeboi y~xeau'', vn ''ng~u01b0~u1eddi y~xeau''), (vn ''ng~u01b0~u01a1i y~xeau'', vn ''ng~u01b0~u1eddi y~xeau'')]"

section \<open>Words and patterns\<close>

definition QUESTION_WORDS :: "string list" where
  "QUESTION_WORDS =
     [''ai'', vn ''g~xec'', vn ''~u0111~xe2y'', vn ''~u0111~xf3'', vn ''th~u1ebf'', ''sao'', vn ''v~u1eady'', vn ''nh~u01b0_th~u1ebf_n~xe0o'']"

definition RELATIONS_CANDIDATE_PATTERN :: string where
  "RELATIONS_CANDIDATE_PATTERN = ''(b~u1ea1n~s+g~xe1i|b~u1ea1n~s+trai|v~u1ee3|ch~u1ed3ng)''"

definition RELATIONS_QUERY_PATTERN :: string where
  "RELATIONS_QUERY_PATTERN = ''(b~u1ea1n~s+g~xe1i|b~u1ea1n~s+trai|ng~u01b0~u1eddi~s+y~xeau|v~u1ee3|ch~u1ed3ng|partner)''"

definition ROLE_KEYWORDS :: "string list" where
  "ROLE_KEYWORDS =
     [''engineer'', ''developer'', ''designer'', ''manager'', ''analyst'', ''doctor'', ''teacher'',
      ''researcher'', ''consultant'', ''architect'', ''programmer'', ''scientist'', ''writer'',
      ''director'', ''specialist'', ''expert'', ''trainer'', ''advisor'', ''agent'', ''officer'',
      ''intern'', ''lead'', ''senior'', ''junior'', ''data'', ''backend'', ''frontend'',
      ''fullstack'', ''devops'', ''ai'', ''ml'', ''ux'', ''ui'', ''qa'', ''sre'', ''cto'', ''ceo'',
      ''cfo'', ''vp'', ''enginer'', ''blogger'', ''bloger'', ''founder'', ''startup'', ''it'',
      ''dev'', ''developper'', vn ''k~u1ef9 s~u01b0'', vn ''l~u1eadp tr~xecnh'', vn ''b~xe1c s~u0129'', vn ''gi~xe1o vi~xean'', vn ''chuy~xean gia'',
      vn ''nh~xe0 nghi~xean c~u1ee9u'', vn ''nh~xe0 thi~u1ebft k~u1ebf'', vn ''gi~xe1m ~u0111~u1ed1c'', vn ''k~u1ebf to~xe1n'', vn ''nh~xe0 b~xe1o'', vn ''n~xf4ng d~xe2n'', vn ''sinh vi~xean'']"

definition ROLE_KEYWORD_TOKENS :: "string list" where
  "ROLE_KEYWORD_TOKENS = filter (\<lambda>k. CHR '' '' \<notin> set k) ROLE_KEYWORDS"

definition ROLE_KEYWORD_PHRASES :: "string list" where
  "ROLE_KEYWORD_PHRASES = filter (\<lambda>k. CHR '' '' \<in> set k) ROLE_KEYWORDS"

definition VAGUE_REFS :: "string list" where
  "VAGUE_REFS =
     [vn ''n~xf3'', vn ''~u0111~xf3'', vn ''n~xe0y'', ''kia'', vn ''v~u1eady'', vn ''th~u1ebf'', vn ''c~xe1i n~xe0y'', vn ''c~xe1i ~u0111~xf3'', vn ''c~xe1i kia'', vn ''th~u1ee9 n~xe0y'',
      vn ''th~u1ee9 kia'', vn ''vi~u1ec7c n~xe0y'', vn ''vi~u1ec7c ~u0111~xf3'', vn ''~u0111i~u1ec1u n~xe0y'', vn ''~u0111i~u1ec1u ~u0111~xf3'']"

definition RE_NOTE_CMD_PREFIX :: pattern where
  "RE_NOTE_CMD_PREFIX =
     re_compile [IGNORECASE]
       (''^(?:'' @
        ''note|ghi~s+ch~xfa|l~u01b0u~s+ghi~s+ch~xfa|l~u01b0u~s+note|vi~u1ebft~s+ghi~s+ch~xfa'' @
        ''|calculate|t~xednh|t~xecm|search'' @
        ''|~u0111~u1ecdc|read~s+note'' @
        ''|x~xf3a|xo~xe1|s~u1eeda|c~u1eadp~s+nh~u1eadt|delete|update|remove|thay~s+~u0111~u1ed5i'' @
        ''|remind|nh~u1eafc|schedule'' @
        '')~s+'')"

definition RE_ASCII_TOKEN :: pattern where
  "RE_ASCII_TOKEN =
     re_compile []
       (''[a-z0-9]+'')"

definition VN_ROLE_KEYWORD_SINGLE :: "string list" where
  "VN_ROLE_KEYWORD_SINGLE =
     [vn ''n~xf4ng'']"

definition UNSAFE_VALUE_PHRASES :: "string list" where
  "UNSAFE_VALUE_PHRASES =
     [vn ''thu~u1ed1c phi~u1ec7n'', ''thuoc phien'', vn ''ma t~xfay'', ''ma tuy'', vn ''c~u1ea7n sa'', ''can sa'', vn ''ma ~u0111~xe1'',
      ''ma da'', vn ''ch~u1ea5t c~u1ea5m'', ''chat cam'', vn ''m~u1eadt kh~u1ea9u'', ''mat khau'', ''api key'', vn ''c~u0103n c~u01b0~u1edbc'',
      ''can cuoc'', vn ''s~u1ed1 t~xe0i kho~u1ea3n'', ''so tai khoan'', vn ''s~u1ed1 ~u0111i~u1ec7n tho~u1ea1i'', ''so dien thoai'',
      vn ''~u0111~u1ecba ch~u1ec9 nh~xe0'', ''dia chi nha'']"

definition UNSAFE_VALUE_TOKENS :: "string list" where
  "UNSAFE_VALUE_TOKENS =
     [''cocaine'', ''cocain'', ''coke'', ''heroin'', ''heroine'', ''meth'', ''methamphetamine'',
      ''amphetamine'', ''cannabis'', ''marijuana'', ''weed'', ''opium'', ''ketamine'', ''lsd'',
      ''mdma'', ''ecstasy'', ''password'', ''passwd'', ''token'', ''secret'', ''otp'', ''cmnd'',
      ''cccd'', ''passport'']"

definition UNSAFE_VALUE_EXACT :: "string list" where
  "UNSAFE_VALUE_EXACT =
     [vn ''~u0111~xe1'', ''da'']"

definition RE_UNICODE_TOKEN :: pattern where
  "RE_UNICODE_TOKEN =
     re_compile []
       (''~w+'')"

definition LEGACY_QUERY_WORD_TOKENS :: "string list" where
  "LEGACY_QUERY_WORD_TOKENS =
     [vn ''g~xec'', ''gi'', vn ''n~xe0o'', vn ''~u0111~xe2u'']"

definition LEGACY_RANKING_COMPARATIVE_TOKENS :: "string list" where
  "LEGACY_RANKING_COMPARATIVE_TOKENS =
     [vn ''nh~u1ea5t'', ''nhat'', ''nhata'', vn ''h~u01a1n'', ''hay'']"

definition RE_SELF_TEN_LA :: pattern where
  "RE_SELF_TEN_LA =
     re_compile [IGNORECASE, DOTALL]
       (''^(?:t~xf4i|m~xecnh)~s+t~xean~s+(?:l~xe0~s+)?([^~s.!?,]+)~s*[.!?]*~s*$'')"

definition RE_TEN_TOI_LA :: pattern where
  "RE_TEN_TOI_LA =
     re_compile [IGNORECASE, DOTALL]
       (''^t~xean~s+(?:t~xf4i|m~xecnh)~s+(?:l~xe0~s+)?([^~s.!?,]+)~s*[.!?]*~s*$'')"

definition RE_LUU_TEN_LA :: pattern where
  "RE_LUU_TEN_LA =
     re_compile [IGNORECASE, DOTALL]
       (''^l~u01b0u~s+t~xean~s+(?:t~xf4i|m~xecnh)~s+l~xe0~s+([^~s.!?,]+)~s*[.!?]*~s*$'')"

definition RE_SELF_IS :: pattern where
  "RE_SELF_IS =
     re_compile [DOTALL]
       (''^(?:t~xf4i|m~xecnh)~s+l~xe0~s+([^~s.!?,]+)~s*[.!?]*~s*$'')"

definition RE_RELATION_NAME :: pattern where
  "RE_RELATION_NAME =
     re_compile [IGNORECASE, DOTALL]
       (''^'' @
        RELATIONS_CANDIDATE_PATTERN @
        ''~s+(?:t~xf4i|m~xecnh)~s+t~xean~s+l~xe0~s+([^~s.!?,]+)~s*[.!?]*~s*$'')"

definition RE_NGUOI_YEU_PARTNER_NAME :: pattern where
  "RE_NGUOI_YEU_PARTNER_NAME =
     re_compile [IGNORECASE, DOTALL]
       (''^(?:ng~u01b0~u1eddi~s+y~xeau|partner)~s+(?:c~u1ee7a~s+)?(?:t~xf4i|m~xecnh)~s+(?:t~xean~s+)?l~xe0~s+([^~s.!?,]+)~s*[.!?]*~s*$'')"

definition RE_NAME_UPDATE_CMD :: pattern where
  "RE_NAME_UPDATE_CMD =
     re_compile [IGNORECASE, DOTALL]
       (''^(?:s~u1eeda|~u0111~u1ed5i|thay~s+~u0111~u1ed5i|c~u1eadp~s+nh~u1eadt|~u0111~u1ed5i~s+l~u1ea1i)~s+t~xean~s+'' @
        ''(?:c~u1ee7a~s+)?(?:t~xf4i|m~xecnh)~s+(?:th~xe0nh|l~xe0|sang)~s+(.+)$'')"

definition RE_NAME_NEW_IS :: pattern where
  "RE_NAME_NEW_IS =
     re_compile [IGNORECASE, DOTALL]
       (''^t~xean~s+m~u1edbi~s+(?:c~u1ee7a~s+)?(?:t~xf4i|m~xecnh)~s+(?:l~xe0|:)~s+(.+)$'')"

definition RE_NAME_WANT_CHANGE :: pattern where
  "RE_NAME_WANT_CHANGE =
     re_compile [IGNORECASE, DOTALL]
       (''^(?:t~xf4i|m~xecnh)~s+mu~u1ed1n~s+(?:~u0111~u1ed5i|thay~s+~u0111~u1ed5i|~u0111~u1ed5i~s+l~u1ea1i|~u0111~u1eb7t~s+l~u1ea1i)~s+t~xean~s+'' @
        ''(?:(?:c~u1ee7a~s+)?(?:t~xf4i|m~xecnh)~s+)?(?:th~xe0nh|l~xe0|sang)~s+(.+)$'')"

definition RE_SELF_IS_PHRASE :: pattern where
  "RE_SELF_IS_PHRASE =
     re_compile [IGNORECASE, DOTALL]
       (''^(?:t~xf4i|m~xecnh)~s+l~xe0~s+(.+)$'')"

definition NON_NAME_WORDS :: "string list" where
  "NON_NAME_WORDS =
     [vn ''ng~u01b0~u1eddi'', vn ''m~u1ed9t'', vn ''~u0111ang'', vn ''r~u1ea5t'', ''ai'', vn ''g~xec'', ''gi'', vn ''c~xe1i'', ''con'', ''the'']"

definition RE_OCCUPATION_TOI_LA :: pattern where
  "RE_OCCUPATION_TOI_LA =
     re_compile [IGNORECASE, DOTALL]
       (''^(?:t~xf4i|m~xecnh)~s+l~xe0~s+(.{3,60}?)~s*[.!]*~s*$'')"

definition RE_OCCUPATION_TOI_LAM :: pattern where
  "RE_OCCUPATION_TOI_LAM =
     re_compile [IGNORECASE, DOTALL]
       (''^(?:t~xf4i|m~xecnh)~s+l~xe0m~s+(?:vi~u1ec7c~s+)?(.{3,60}?)~s*[.!]*~s*$'')"

definition RE_OCCUPATION_CONTEXT :: pattern where
  "RE_OCCUPATION_CONTEXT =
     re_compile [IGNORECASE, DOTALL]
       (''^(?:ngh~u1ec1|c~xf4ng~s+vi~u1ec7c|vai~s+tr~xf2)~s+(?:c~u1ee7a~s+)?(?:t~xf4i|m~xecnh)~s+l~xe0~s+(.{3,60}?)~s*[.!]*~s*$'')"

definition RE_PREFERENCE_THICH :: pattern where
  "RE_PREFERENCE_THICH =
     re_compile [IGNORECASE, DOTALL]
       (''^(?:t~xf4i|m~xecnh)~s+th~xedch~s+(.{3,60}?)~s*[.!]*~s*$'')"

definition RE_PREFERENCE_QUAN_TAM :: pattern where
  "RE_PREFERENCE_QUAN_TAM =
     re_compile [IGNORECASE, DOTALL]
       (''^(?:t~xf4i|m~xecnh)~s+quan~s+t~xe2m~s+~u0111~u1ebfn~s+(.{3,60}?)~s*[.!]*~s*$'')"

definition RE_PREFERENCE_SO_THICH :: pattern where
  "RE_PREFERENCE_SO_THICH =
     re_compile [IGNORECASE, DOTALL]
       (''^s~u1edf~s+th~xedch~s+(?:c~u1ee7a~s+)?(?:t~xf4i|m~xecnh)~s+l~xe0~s+(.{3,60}?)~s*[.!]*~s*$'')"

definition RE_LEARNING :: pattern where
  "RE_LEARNING =
     re_compile [IGNORECASE, DOTALL]
       (''^(?:t~xf4i|m~xecnh)~s+(?:~u0111ang~s+t~u1eadp~s+trung~s+h~u1ecdc|~u0111ang~s+h~u1ecdc|mu~u1ed1n~s+h~u1ecdc|h~u1ecdc)~s+(.{2,60}?)~s*[.!]*~s*$'')"

definition RE_GOAL :: pattern where
  "RE_GOAL =
     re_compile [IGNORECASE, DOTALL]
       (''^(?:m~u1ee5c~s+ti~xeau|goal)~s+(?:c~u1ee7a~s+)?(?:t~xf4i|m~xecnh)~s+l~xe0~s+(.{3,80}?)~s*[.!]*~s*$'')"

definition RE_HABIT :: pattern where
  "RE_HABIT =
     re_compile [IGNORECASE, DOTALL]
       (''^(?:t~xf4i|m~xecnh)~s+(?:hay|th~u01b0~u1eddng|th~u01b0~u1eddng~s+xuy~xean)~s+(.{2,60}?)~s*[.!]*~s*$'')"

definition RE_SELF_NAME_Q :: pattern where
  "RE_SELF_NAME_Q =
     re_compile [IGNORECASE]
       (''(?:t~xf4i|m~xecnh)~s+t~xean~s+(?:l~xe0~s+)?g[~xeci]~s*~??'' @
        ''|t~xean~s+(?:t~xf4i|m~xecnh)~s+(?:l~xe0~s+)?g[~xeci]~s*~??'' @
        ''|t~xean~s+c~u1ee7a~s+(?:t~xf4i|m~xecnh)~s+(?:l~xe0~s+)?g[~xeci]~s*~??'' @
        ''|b~u1ea1n~s+nh~u1edb~s+(?:t~xf4i|m~xecnh)~s+t~xean~s+g[~xeci]'')"

definition RE_SELF_IDENTITY_Q :: pattern where
  "RE_SELF_IDENTITY_Q =
     re_compile [IGNORECASE]
       (''^~s*(?:'' @
        ''(?:t~xf4i|m~xecnh)~s+l~xe0~s+ai'' @
        ''|'' @
        remember_wrapper (''(?:t~xf4i|m~xecnh)~s+l~xe0~s+ai'') @
        '')~s*[?~uff1f]?~s*$'')"

definition RE_SELF_NAME_REMEMBER_Q :: pattern where
  "RE_SELF_NAME_REMEMBER_Q =
     re_compile [IGNORECASE]
       (''^~s*(?:'' @
        remember_wrapper (''t~xean~s+(?:c~u1ee7a~s+)?(?:t~xf4i|m~xecnh)'') @
        ''|'' @
        remember_wrapper (''(?:t~xf4i|m~xecnh)~s+t~xean~s+g[~xeci]'') @
        '')~s*[?~uff1f]?~s*$'')"

definition RE_RELATION_NAME_Q :: pattern where
  "RE_RELATION_NAME_Q =
     re_compile [IGNORECASE]
       (''^(?:'' @
        RELATIONS_QUERY_PATTERN @
        ''(?:~s+c~u1ee7a)?~s+(?:t~xf4i|m~xecnh)~s+t~xean~s+(?:l~xe0~s+)?g[~xeci]'' @
        ''|'' @
        remember_wrapper (RELATIONS_QUERY_PATTERN @
        ''(?:~s+c~u1ee7a)?~s+(?:t~xf4i|m~xecnh)~s+t~xean~s+(?:l~xe0~s+)?g[~xeci]'') @
        '')~s*[?~uff1f]?~s*$'')"

definition RE_RELATION_LA_AI_Q :: pattern where
  "RE_RELATION_LA_AI_Q =
     re_compile [IGNORECASE]
       (''^(?:'' @
        RELATIONS_QUERY_PATTERN @
        ''(?:~s+c~u1ee7a)?~s+(?:t~xf4i|m~xecnh)~s+l~xe0~s+ai'' @
        ''|'' @
        remember_wrapper (RELATIONS_QUERY_PATTERN @
        ''(?:~s+c~u1ee7a)?~s+(?:t~xf4i|m~xecnh)~s+l~xe0~s+ai'') @
        '')~s*[?~uff1f]?~s*$'')"

definition RE_RELATION_YESNO_Q :: pattern where
  "RE_RELATION_YESNO_Q =
     re_compile [IGNORECASE]
       (''^(~S+)~s+c~xf3~s+ph~u1ea3i~s+l~xe0~s+'' @
        ''(b~u1ea1n~s+g~xe1i|b~u1ea1n~s+trai|ng~u01b0~u1eddi~s+y~xeau|v~u1ee3|ch~u1ed3ng|partner)~s+'' @
        ''(?:c~u1ee7a~s+)?(?:t~xf4i|m~xecnh)~s+(?:kh~xf4ng|ko|h~xf4ng|hong)~s*[?~uff1f]?~s*$'')"

definition RE_RELATION_UPDATE_CMD :: pattern where
  "RE_RELATION_UPDATE_CMD =
     re_compile [IGNORECASE]
       (''^(?:s~u1eeda|~u0111~u1ed5i|c~u1eadp~s+nh~u1eadt|thay~s+~u0111~u1ed5i)~s+'' @
        ''(b~u1ea1n~s+g~xe1i|b~u1ea1n~s+trai|ng~u01b0~u1eddi~s+y~xeau|v~u1ee3|ch~u1ed3ng|partner)~s+'' @
        ''(?:c~u1ee7a~s+)?(?:t~xf4i|m~xecnh)~s+(?:th~xe0nh|sang|l~xe0)~s+(~S+)~s*[.!]*~s*$'')"

definition RE_RELATION_REMOVAL_CMD :: pattern where
  "RE_RELATION_REMOVAL_CMD =
     re_compile [IGNORECASE]
       (''^(?:c~u1eadp~s+nh~u1eadt|s~u1eeda|~u0111~u1ed5i)~s+(~S+)~s+kh~xf4ng~s+ph~u1ea3i~s+l~xe0~s+'' @
        ''(b~u1ea1n~s+g~xe1i|b~u1ea1n~s+trai|ng~u01b0~u1eddi~s+y~xeau|v~u1ee3|ch~u1ed3ng|partner)~s+'' @
        ''(?:c~u1ee7a~s+)?(?:t~xf4i|m~xecnh)~s*[.!]*~s*$'')"

definition RE_OCC_CORRECTION_LEFT :: pattern where
  "RE_OCC_CORRECTION_LEFT =
     re_compile [IGNORECASE]
       (''^(~S+(?:~s+~S+)?)~s+l~xe0~s+(?:ngh~u1ec1|c~xf4ng~s+vi~u1ec7c|ngh~u1ec1~s+nghi~u1ec7p)~s+(?:c~u1ee7a~s+)?(?:t~xf4i|m~xecnh)'')"

definition RE_OCC_CORRECTION_CHU :: pattern where
  "RE_OCC_CORRECTION_CHU =
     re_compile [IGNORECASE]
       (''(?:l~xe0~s+)?(~S+(?:~s+~S+)?)~s+ch~u1ee9~s+kh~xf4ng~s+ph~u1ea3i~s+(?:l~xe0~s+)?t~xean'')"

definition RE_OCC_CORRECTION_NGHE :: pattern where
  "RE_OCC_CORRECTION_NGHE =
     re_compile [IGNORECASE]
       (''^(~S+(?:~s+~S+)?)~s+l~xe0~s+(?:ngh~u1ec1|c~xf4ng~s+vi~u1ec7c)~s+(?:c~u1ee7a~s+)?(?:t~xf4i|m~xecnh)~s*[.!]*~s*$'')"

definition RE_RELATION_ALIAS_Q :: pattern where
  "RE_RELATION_ALIAS_Q =
     re_compile [IGNORECASE]
       (''^(b~u1ea1n~s+g~xe1i|b~u1ea1n~s+trai|ng~u01b0~u1eddi~s+y~xeau|v~u1ee3|ch~u1ed3ng|partner)~s+(?:c~u1ee7a~s+)?(~S+)~s+(?:l~xe0~s+)?ai~s*[?~uff1f]?~s*$'')"

definition RE_CORRECTION_KHONG :: pattern where
  "RE_CORRECTION_KHONG =
     re_compile [IGNORECASE, DOTALL]
       (''^kh~xf4ng[,]?~s+((?:t~xf4i|m~xecnh)~b.*)$'')"

definition RE_CORRECTION_Y_TOI_LA :: pattern where
  "RE_CORRECTION_Y_TOI_LA =
     re_compile [IGNORECASE, DOTALL]
       (''^~xfd~s+(?:t~xf4i|m~xecnh)~s+l~xe0~s+(.+)$'')"

definition RE_CORRECTION_MOI_NOI :: pattern where
  "RE_CORRECTION_MOI_NOI =
     re_compile [IGNORECASE, DOTALL]
       (''^(?:t~xf4i|m~xecnh)~s+(?:m~u1edbi|v~u1eeba)~s+n~xf3i~s+(?:l~xe0~s+)?(.+?)~s*(?:m~xe0)?~s*[.!?]*~s*$'')"

definition RE_OCC_REMOVAL :: pattern where
  "RE_OCC_REMOVAL =
     re_compile [IGNORECASE, DOTALL]
       (''^(?:t~xf4i|m~xecnh)~s+kh~xf4ng~s+ph~u1ea3i~s+(?:l~xe0~s+)?(.+?)~s*[.!]*~s*$'')"

definition RE_SELF_OCC_YESNO_Q :: pattern where
  "RE_SELF_OCC_YESNO_Q =
     re_compile [IGNORECASE]
       (''^(?:t~xf4i|m~xecnh)~s+c~xf3~s+ph~u1ea3i~s+l~xe0~s+(.+?)~s+(?:kh~xf4ng|ko|h~xf4ng|hong)~s*[?~uff1f]?~s*$'')"

definition RE_CURRENT_GOAL_Q :: pattern where
  "RE_CURRENT_GOAL_Q =
     re_compile [IGNORECASE]
       (''^(?:t~xf4i|m~xecnh|toi|minh)~s+(?:~u0111ang~s+|dang~s+)?(?:mu~u1ed1n|muon|~u0111~u1ecbnh|dinh|s~u1ebd|se)~s+'' @
        ''(?:l~xe0m|lam|build)~s+g[~xeci]~s*[?~uff1f]?~s*$'')"

definition RE_WANTS_MARRY_Q :: pattern where
  "RE_WANTS_MARRY_Q =
     re_compile [IGNORECASE]
       (''^(?:t~xf4i|m~xecnh)~s+(?:~u0111ang~s+)?mu~u1ed1n~s+c~u01b0~u1edbi~s+(?:ai|g~xec|gi)~s*[?~uff1f]?~s*$'')"

definition RE_WANTS_LEARN_Q :: pattern where
  "RE_WANTS_LEARN_Q =
     re_compile [IGNORECASE]
       (''^(?:t~xf4i|m~xecnh)~s+(?:~u0111ang~s+)?mu~u1ed1n~s+h~u1ecdc~s+(?:g~xec|gi|(?-i:ai))~s*[?~uff1f]?~s*$'')"

definition RE_WANTS_BUILD_Q :: pattern where
  "RE_WANTS_BUILD_Q =
     re_compile [IGNORECASE]
       (''^(?:t~xf4i|m~xecnh)~s+(?:~u0111ang~s+)?mu~u1ed1n~s+build~s+(?:g~xec|gi)~s*[?~uff1f]?~s*$'')"

definition RE_SELF_DO_YESNO_Q :: pattern where
  "RE_SELF_DO_YESNO_Q =
     re_compile [IGNORECASE]
       (''^(?:t~xf4i|m~xecnh)~s+c~xf3~s+(c~xf2n~s+)?(?:mu~u1ed1n~s+|~u0111~u1ecbnh~s+|d~u1ef1~s+~u0111~u1ecbnh~s+|s~u1ebd~s+)?(?:l~xe0m|build)~s+'' @
        ''(.+?)(~s+n~u1eefa)?~s+(?:kh~xf4ng|ko|h~xf4ng|hong)~s*[?~uff1f]?~s*$'')"

definition RE_OLD_NAME_CONFIRM_Q :: pattern where
  "RE_OLD_NAME_CONFIRM_Q =
     re_compile [IGNORECASE]
       (''^(.+?)~s+l~xe0~s+t~xean~s+(?:c~u0169|tr~u01b0~u1edbc~s+~u0111~xe2y)~s+c~u1ee7a~s+(?:t~xf4i|m~xecnh)~b'')"

definition RE_PREF_RANKING_Q :: pattern where
  "RE_PREF_RANKING_Q =
     re_compile [IGNORECASE]
       (''^(?:t~xf4i|m~xecnh)~s+th~xedch~s+(?:c~xe1i~s+)?g[~xeci]~s+(?:~S.*)$'')"

definition RE_FOOD_FAVORITE_Q :: pattern where
  "RE_FOOD_FAVORITE_Q =
     re_compile [IGNORECASE]
       (''^(?:t~xf4i|m~xecnh)~s+th~xedch~s+(?:~u0103n|u~u1ed1ng)~s+(?:c~xe1i~s+)?g[~xeci]~s+nh~u1ea5t~s*[?~uff1f]?~s*$'')"

definition RE_COMPARATIVE_Q :: pattern where
  "RE_COMPARATIVE_Q =
     re_compile [IGNORECASE]
       (''^(?:t~xf4i|m~xecnh)~s+th~xedch~s+(.+?)~s+hay~s+(?:th~xedch~s+)?(.+?)~s+h~u01a1n~s*[?~uff1f]?~s*$'')"

definition RE_FOOD_NEG_Q :: pattern where
  "RE_FOOD_NEG_Q =
     re_compile [IGNORECASE]
       (''^(?:t~xf4i|m~xecnh)~s+kh~xf4ng~s+th~xedch~s+~u0103n~s+(?:c~xe1i~s+)?g[~xeci]~s*[?~uff1f]?~s*$'')"

definition RE_FOOD_POS_Q :: pattern where
  "RE_FOOD_POS_Q =
     re_compile [IGNORECASE]
       (''^(?:t~xf4i|m~xecnh)~s+th~xedch~s+~u0103n~s+(?:c~xe1i~s+)?g[~xeci]~s*[?~uff1f]?~s*$'')"

definition RE_NEGATIVE_SKILL_Q :: pattern where
  "RE_NEGATIVE_SKILL_Q =
     re_compile [IGNORECASE]
       (''^(?:t~xf4i|m~xecnh)~s+kh~xf4ng~s+bi~u1ebft~s+(?:l~xe0m~s+)?g[~xeci]~s*[?~uff1f]?~s*$'')"

definition RE_SELF_AI_YESNO_Q :: pattern where
  "RE_SELF_AI_YESNO_Q =
     re_compile [IGNORECASE]
       (''^(?:t~xf4i|m~xecnh)~s+c~xf3~s+(?:c~xf2n~s+)?(?:mu~u1ed1n~s+)?(?:l~xe0m|build)~s+'' @
        ''ai~s+(?:kh~xf4ng|ko|h~xf4ng|hong)~s*[?~uff1f]?~s*$'')"

definition RE_GOAL_CHALLENGE_Q :: pattern where
  "RE_GOAL_CHALLENGE_Q =
     re_compile [IGNORECASE]
       (''^b~u1ea1n~s+kh~xf4ng~s+nh~u1edb~s+(?:l~xe0~s+)?(?:t~xf4i|m~xecnh)~s+(?:s~u1ebd|se|mu~u1ed1n|~u0111~u1ecbnh)~s+'' @
        ''(?:l~xe0m|build)~s+(.+?)~s*(?:~xe0|~u01b0|h~u1ea3|sao)?~s*[?~uff1f]*~s*$'')"

definition RE_GOAL_FOLLOWUP_Q :: pattern where
  "RE_GOAL_FOLLOWUP_Q =
     re_compile [IGNORECASE]
       (''^(?:v~xe0|c~xf2n|ngo~xe0i~s+ra~s+c~xf2n|th~u1ebf~s+c~xf2n)~s+(?:g~xec|c~xe1i~s+g~xec)(?:~s+(?:n~u1eefa|kh~xe1c))?~s*[?~uff1f]*~s*$'')"

definition RE_PROFILE_SUMMARY_Q :: pattern where
  "RE_PROFILE_SUMMARY_Q =
     re_compile [IGNORECASE]
       (''^~s*(?:'' @
        ''b~u1ea1n~s+(?:~u0111~xe3~s+|~u0111ang~s+)?(?:bi~u1ebft|nh~u1edb|l~u01b0u)~s+(?:g~xec~s+)?v~u1ec1~s+(?:t~xf4i|m~xecnh)'' @
        ''|b~u1ea1n~s+(?:~u0111~xe3~s+|~u0111ang~s+)?l~u01b0u~s+(?:th~xf4ng~s+tin~s+)?g~xec~s+v~u1ec1~s+(?:t~xf4i|m~xecnh)'' @
        ''|b~u1ea1n~s+(?:~u0111~xe3~s+|~u0111ang~s+)?nh~u1edb~s+(?:nh~u1eefng~s+)?g~xec~s+v~u1ec1~s+(?:t~xf4i|m~xecnh)'' @
        ''|h~u1ed3~s+s~u01a1~s+(?:c~u1ee7a~s+)?(?:t~xf4i|m~xecnh)~s+c~xf3~s+g~xec'' @
        '')~s*[?~uff1f]?~s*$'')"

definition RE_SKILL_Q :: pattern where
  "RE_SKILL_Q =
     re_compile [IGNORECASE]
       (''^(?:'' @
        ''(?:t~xf4i|m~xecnh)~s+bi~u1ebft~s+(?:l~xe0m~s+)?g~xec'' @
        ''|(?:t~xf4i|m~xecnh)~s+c~xf3~s+(?:nh~u1eefng~s+)?k~u1ef9~s+n~u0103ng~s+g~xec'' @
        ''|b~u1ea1n~s+(?:c~xf3~s+)?(?:bi~u1ebft|nh~u1edb)~s+(?:t~xf4i|m~xecnh)~s+bi~u1ebft~s+(?:l~xe0m~s+)?g[~xeci]'' @
        ''(?:~s+(?:kh~xf4ng|ko|h~xf4ng|hong))?'' @
        ''|'' @
        remember_wrapper (''k~u1ef9~s+n~u0103ng~s+(?:c~u1ee7a~s+)?(?:t~xf4i|m~xecnh)'') @
        ''|'' @
        remember_wrapper (''(?:t~xf4i|m~xecnh)~s+bi~u1ebft~s+(?:l~xe0m~s+)?g~xec'') @
        '')~s*[?~uff1f]?~s*$'')"

definition RE_INVERSE_Q :: pattern where
  "RE_INVERSE_Q =
     re_compile [IGNORECASE]
       (''^([^~s.!?,]+)~s+l~xe0~s+ai~s*[?~uff1f]?~s*$'')"

definition SELF_WORDS :: "string list" where
  "SELF_WORDS =
     [vn ''t~xf4i'', vn ''m~xecnh'', vn ''b~u1ea1n'', ''tao'', ''ta'']"

definition RE_OCCUPATION_Q :: pattern where
  "RE_OCCUPATION_Q =
     re_compile [IGNORECASE]
       (''^(?:'' @
        ''(?:t~xf4i|m~xecnh)~s+l~xe0m~s+g~xec'' @
        ''|(?:t~xf4i|m~xecnh)~s+l~xe0m~s+ngh~u1ec1~s+g~xec'' @
        ''|ngh~u1ec1~s+(?:c~u1ee7a~s+)?(?:t~xf4i|m~xecnh)~s+l~xe0~s+g~xec'' @
        ''|c~xf4ng~s+vi~u1ec7c~s+(?:c~u1ee7a~s+)?(?:t~xf4i|m~xecnh)~s+l~xe0~s+g~xec'' @
        ''|vai~s+tr~xf2~s+(?:c~u1ee7a~s+)?(?:t~xf4i|m~xecnh)~s+l~xe0~s+g~xec'' @
        ''|'' @
        remember_wrapper (''c~xf4ng~s+vi~u1ec7c~s+(?:c~u1ee7a~s+)?(?:t~xf4i|m~xecnh)'') @
        ''|'' @
        remember_wrapper (''(?:t~xf4i|m~xecnh)~s+l~xe0m~s+g~xec'') @
        '')~s*[?~uff1f]?~s*$'')"

definition RE_PREFERENCE_Q :: pattern where
  "RE_PREFERENCE_Q =
     re_compile [IGNORECASE]
       (''^(?:'' @
        ''(?:t~xf4i|m~xecnh)~s+th~xedch~s+g~xec'' @
        ''|s~u1edf~s+th~xedch~s+(?:c~u1ee7a~s+)?(?:t~xf4i|m~xecnh)~s+l~xe0~s+g~xec'' @
        ''|(?:t~xf4i|m~xecnh)~s+quan~s+t~xe2m~s+~u0111~u1ebfn~s+g~xec'' @
        '')~s*[?~uff1f]?~s*$'')"

definition RE_NEGATIVE_PREF_Q :: pattern where
  "RE_NEGATIVE_PREF_Q =
     re_compile [IGNORECASE]
       (''^(?:'' @
        ''(?:t~xf4i|m~xecnh)~s+kh~xf4ng~s+th~xedch~s+(?:c~xe1i~s+|th~u1ee9~s+|nh~u1eefng~s+)?g~xec'' @
        ''|(?:t~xf4i|m~xecnh)~s+gh~xe9t~s+(?:c~xe1i~s+|th~u1ee9~s+|nh~u1eefng~s+)?g~xec'' @
        '')~s*[?~uff1f]?~s*$'')"

definition RE_AFFECTION_Q :: pattern where
  "RE_AFFECTION_Q =
     re_compile [IGNORECASE]
       (''^(?:t~xf4i|m~xecnh)~s+(?:~u0111ang~s+)?'' @
        ''(?:th~xedch|y~xeau|crush|quan~s+t~xe2m(?:~s+(?:~u0111~u1ebfn|t~u1edbi))?)~s+(?-i:ai)~s*[?~uff1f]?~s*$'')"

definition RE_THIRD_PARTY_AFFECTION_Q :: pattern where
  "RE_THIRD_PARTY_AFFECTION_Q =
     re_compile [IGNORECASE]
       (''^(~S+)~s+c~xf3~s+(?:~u0111ang~s+)?(?:th~xedch|y~xeau|qu~xfd|th~u01b0~u01a1ng)~s+(?:t~xf4i|m~xecnh)~s+'' @
        ''(?:kh~xf4ng|ko|h~xf4ng|hong)~s*[?~uff1f]?~s*$'')"

definition RE_DRINK_PREF_Q :: pattern where
  "RE_DRINK_PREF_Q =
     re_compile [IGNORECASE]
       (''^(?:t~xf4i|m~xecnh)~s+th~xedch~s+(?:u~u1ed1ng|~u0103n)~s+g~xec~s*[?~uff1f]?~s*$'')"

definition RE_FRIEND_NAME_Q :: pattern where
  "RE_FRIEND_NAME_Q =
     re_compile [IGNORECASE]
       (''^(?:'' @
        ''b~u1ea1n~s+(?:c~u1ee7a~s+)?(?:t~xf4i|m~xecnh)~s+t~xean~s+(?:l~xe0~s+)?g[~xeci]'' @
        ''|'' @
        remember_wrapper (''b~u1ea1n~s+(?:c~u1ee7a~s+)?(?:t~xf4i|m~xecnh)~s+t~xean~s+(?:l~xe0~s+)?g[~xeci]'') @
        '')~s*[?~uff1f]?~s*$'')"

definition RE_PET_Q :: pattern where
  "RE_PET_Q =
     re_compile [IGNORECASE]
       (''^(?:'' @
        ''(?:nh~xe0~s+)?(?:t~xf4i|m~xecnh)~s+nu~xf4i~s+(?:con~s+)?g~xec'' @
        ''|'' @
        remember_wrapper (''(?:nh~xe0~s+)?(?:t~xf4i|m~xecnh)~s+nu~xf4i~s+(?:con~s+)?g~xec'') @
        '')~s*[?~uff1f]?~s*$'')"

definition RE_PET_YESNO_Q :: pattern where
  "RE_PET_YESNO_Q =
     re_compile [IGNORECASE]
       (''^(?:nh~xe0~s+)?(?:t~xf4i|m~xecnh)~s+c~xf3~s+nu~xf4i~s+(?:con~s+)?(.+?)~s+(?:kh~xf4ng|ko)~s*[?~uff1f]?~s*$'')"

definition RE_AFFECTION_ALIAS_Q :: pattern where
  "RE_AFFECTION_ALIAS_Q =
     re_compile [IGNORECASE]
       (''^ng~u01b0~u1eddi~s+(?:m~xe0~s+)?(?:t~xf4i|m~xecnh)~s+th~xedch~s+(?:t~xean~s+)?l~xe0~s+ai~s*[?~uff1f]?~s*$'')"

definition RE_NAMED_AFFECTION_YESNO_Q :: pattern where
  "RE_NAMED_AFFECTION_YESNO_Q =
     re_compile [IGNORECASE]
       (''^(.+?)~s+c~xf3~s+(?:th~xedch|y~xeau|th~u01b0~u01a1ng|qu~xfd)~s+(.+?)~s+'' @
        ''(?:kh~xf4ng|ko|h~xf4ng|hong|ch~u01b0a)~s*[?~uff1f]?~s*$'')"

definition RE_REVERSE_ENTITY_Q :: pattern where
  "RE_REVERSE_ENTITY_Q =
     re_compile [IGNORECASE]
       (''^ai~s+l~xe0~s+([^~s?~uff1f]+)~s*[?~uff1f]?~s*$'')"

definition RE_INCOMING_AFFECTION_SET_Q :: pattern where
  "RE_INCOMING_AFFECTION_SET_Q =
     re_compile [IGNORECASE]
       (''^ai~s+(?:~u0111ang~s+)?(?:th~xedch|t~xedch)~s+(?:t~xf4i|m~xecnh)~s*[?~uff1f]?~s*$'')"

definition RE_PERSON_AFFECTION_TARGET_Q :: pattern where
  "RE_PERSON_AFFECTION_TARGET_Q =
     re_compile [IGNORECASE]
       (''^(~S+(?:~s+~S+)?)~s+(?:~u0111ang~s+)?(?:th~xedch|t~xedch|y~xeau|th~u01b0~u01a1ng|qu~xfd)~s+ai~s*[?~uff1f]?~s*$'')"

definition RE_BATCH_INCOMING_AFFECTION_Q :: pattern where
  "RE_BATCH_INCOMING_AFFECTION_Q =
     re_compile [IGNORECASE]
       (''^(.+?(?:~s*,~s*|~s+v~xe0~s+).+?)~s+c~xf3~s+(?:th~xedch|t~xedch|y~xeau|th~u01b0~u01a1ng|qu~xfd)~s+'' @
        ''(~S+(?:~s+~S+)?)~s+(?:kh~xf4ng|ko|h~xf4ng|hong|ch~u01b0a)~s*[?~uff1f]?~s*$'')"

definition RE_USER_LIKES_WHAT_Q :: pattern where
  "RE_USER_LIKES_WHAT_Q =
     re_compile [IGNORECASE]
       (''^(?:t~xf4i|m~xecnh)~s+(?:~u0111ang|hi~u1ec7n~s+(?:t~u1ea1i|~u0111ang))~s+th~xedch~s+(?-i:g~xec)~s*[?~uff1f]?~s*$'')"

definition RE_USER_NEG_AFFECTION_WHO_Q :: pattern where
  "RE_USER_NEG_AFFECTION_WHO_Q =
     re_compile [IGNORECASE]
       (''^(?:t~xf4i|m~xecnh)~s+(?:~u0111ang|hi~u1ec7n~s+(?:t~u1ea1i|~u0111ang))~s+kh~xf4ng~s+th~xedch~s+(?-i:ai)~s*[?~uff1f]?~s*$'')"

definition RE_EXTERNAL_NEG_AFFECTION_WHO_Q :: pattern where
  "RE_EXTERNAL_NEG_AFFECTION_WHO_Q =
     re_compile [IGNORECASE]
       (''^ai~s+(?:~u0111ang~s+)?kh~xf4ng~s+th~xedch~s+(?:t~xf4i|m~xecnh)~s*[?~uff1f]?~s*$'')"

definition RE_USER_INTERESTS_WHAT_Q :: pattern where
  "RE_USER_INTERESTS_WHAT_Q =
     re_compile [IGNORECASE]
       (''^(?:t~xf4i|m~xecnh)~s+(?:~u0111ang~s+|hi~u1ec7n~s+(?:t~u1ea1i|~u0111ang)~s+)?'' @
        ''quan~s+t~xe2m~s+(?:~u0111~u1ebfn|t~u1edbi)~s+(?:~u0111i~u1ec1u~s+)?(?-i:g~xec)~s*[?~uff1f]?~s*$'')"

definition RE_WANTS_EAT_Q :: pattern where
  "RE_WANTS_EAT_Q =
     re_compile [IGNORECASE]
       (''^(?:t~xf4i|m~xecnh)~s+(?:~u0111ang~s+)?mu~u1ed1n~s+~u0103n~s+(?:g~xec|gi)~s*[?~uff1f]?~s*$'')"

definition RE_TEMPORAL_TODAY_DO_Q :: pattern where
  "RE_TEMPORAL_TODAY_DO_Q =
     re_compile [IGNORECASE]
       (''^h~xf4m~s+nay~s+(?:t~xf4i|m~xecnh)~s+(?:~u0111ang~s+)?mu~u1ed1n~s+(?:l~xe0m|build)~s+(?:g~xec|gi)~s*[?~uff1f]?~s*$'')"

definition POLLUTED_PREFERENCE_VALUES :: "string list" where
  "POLLUTED_PREFERENCE_VALUES =
     [''ai'', vn ''g~xec'', ''gi'', vn ''u~u1ed1ng g~xec'', ''uong gi'', vn ''~u0103n g~xec'', ''an gi'']"

definition POLLUTED_INTERROGATIVE_ENDINGS :: "string list" where
  "POLLUTED_INTERROGATIVE_ENDINGS =
     [vn '' g~xec'', '' gi'', vn '' ~u0111~xe2u'', vn '' n~xe0o'']"

definition POLLUTED_YESNO_ENDINGS :: "string list" where
  "POLLUTED_YESNO_ENDINGS =
     [vn '' ~u0111~xfang kh~xf4ng'', vn '' ph~u1ea3i kh~xf4ng'', vn '' kh~xf4ng'', vn '' ch~u01b0a'', vn '' ~xe0'', vn '' h~u1ea3'', vn '' nh~u1ec9'']"

definition POLLUTED_AFFECTION_MARKERS :: "string list" where
  "POLLUTED_AFFECTION_MARKERS =
     [vn ''c~xf3 ngh~u0129a l~xe0 t~xf4i th~xedch'', vn ''ngh~u0129a l~xe0 t~xf4i th~xedch'', vn ''t~xf4i th~xedch ~u0111~u01a1n ph~u01b0~u01a1ng'', vn ''~u0111~u01a1n ph~u01b0~u01a1ng'',
      vn ''ch~u01b0a l~xe0 ng~u01b0~u1eddi y~xeau'']"

definition RE_LEARNING_Q :: pattern where
  "RE_LEARNING_Q =
     re_compile [IGNORECASE]
       (''^(?:t~xf4i|m~xecnh)~s+(?:~u0111ang~s+)?h~u1ecdc~s+g~xec~s*[?~uff1f]?~s*$'')"

definition RE_GOAL_Q :: pattern where
  "RE_GOAL_Q =
     re_compile [IGNORECASE]
       (''^(?:m~u1ee5c~s+ti~xeau|goal)~s+(?:c~u1ee7a~s+)?(?:t~xf4i|m~xecnh)~s+l~xe0~s+g~xec~s*[?~uff1f]?~s*$'')"

definition RE_HABIT_Q :: pattern where
  "RE_HABIT_Q =
     re_compile [IGNORECASE]
       (''^(?:'' @
        ''(?:t~xf4i|m~xecnh)~s+hay~s+l~xe0m~s+g~xec'' @
        ''|th~xf3i~s+quen~s+(?:c~u1ee7a~s+)?(?:t~xf4i|m~xecnh)~s+l~xe0~s+g~xec'' @
        '')~s*[?~uff1f]?~s*$'')"

definition RE_RELATION_EXIST_Q :: pattern where
  "RE_RELATION_EXIST_Q =
     re_compile [IGNORECASE]
       (''^(?:t~xf4i|m~xecnh)~s+c~xf3~s+(ng~u01b0~u1eddi~s+y~xeau|b~u1ea1n~s+g~xe1i|b~u1ea1n~s+trai|v~u1ee3|ch~u1ed3ng|partner)~s+ch~u01b0a~s*[?~uff1f]?~s*$'')"

definition PROFILE_CONFIRM :: pattern where
  "PROFILE_CONFIRM =
     re_compile [IGNORECASE]
       (''^(?:c~xf3|ok|okay|~u0111~xfang|~u0111~xfang~s+r~u1ed3i|l~u01b0u~s+~u0111i|~u0111~u1ed3ng~s+~xfd|yes|save~s+it)~s*[.!?]*~s*$'')"

definition PROFILE_CANCEL :: pattern where
  "PROFILE_CANCEL =
     re_compile [IGNORECASE]
       (''^(?:kh~xf4ng|h~u1ee7y|b~u1ecf~s+qua|th~xf4i|cancel|no)~s*[.!?]*~s*$'')"

definition RE_NAME_TEN_ASSERT :: pattern where
  "RE_NAME_TEN_ASSERT =
     re_compile [IGNORECASE]
       (''^(?:(?:b~xe2y~s+gi~u1edd|hi~u1ec7n~s+t~u1ea1i|t~u1eeb~s+nay|gi~u1edd)~s*,?~s+)?'' @
        ''(?:t~xf4i|m~xecnh)~s+t~xean~s+(?:b~xe2y~s+gi~u1edd~s+)?(?:l~xe0~s+)?(.+?)'' @
        ''(?:~s+m~u1edbi~s+~u0111~xfang)?~s*[.!?]*~s*$'')"

definition RE_TEN_TOI_ASSERT :: pattern where
  "RE_TEN_TOI_ASSERT =
     re_compile [IGNORECASE]
       (''^(?:(?:b~xe2y~s+gi~u1edd|hi~u1ec7n~s+t~u1ea1i|t~u1eeb~s+nay|gi~u1edd)~s*,?~s+)?'' @
        ''t~xean~s+(?:t~xf4i|m~xecnh)~s+(?:b~xe2y~s+gi~u1edd~s+)?(?:l~xe0~s+)?(.+?)'' @
        ''(?:~s+m~u1edbi~s+~u0111~xfang)?~s*[.!?]*~s*$'')"

definition RE_RELATION_TYPO :: pattern where
  "RE_RELATION_TYPO =
     re_compile [IGNORECASE]
       (''^(~S+~s+~S+|~S+)~s+(?:c~u1ee7a~s+)?(?:t~xf4i|m~xecnh)~s+(?:t~xean~s+)?l~xe0~s+([^~s.!?,]+)~s*[.!?]*~s*$'')"

definition RE_MEMORY_CLAUSE_START :: pattern where
  "RE_MEMORY_CLAUSE_START =
     re_compile [IGNORECASE]
       (''^(?:'' @
        ''(?:t~xf4i|m~xecnh)~s+(?:c~u0169ng~s+|v~u1eabn~s+)?(?:kh~xf4ng~s+th~xedch|th~xedch|kh~xf4ng~s+bi~u1ebft|bi~u1ebft|l~xe0m|l~xe0|t~xean|s~u1ebd|mu~u1ed1n|~u0111~u1ecbnh|c~xf3)'' @
        ''|(?:b~u1ea1n~s+g~xe1i|b~u1ea1n~s+trai|ng~u01b0~u1eddi~s+y~xeau|v~u1ee3|ch~u1ed3ng|partner)~b'' @
        '')'')"

definition RE_REMINDER_COLON :: pattern where
  "RE_REMINDER_COLON =
     re_compile [IGNORECASE]
       (''(?:(?:t~xf4i|m~xecnh)~s+)?(?:~u0111~xe3~s+)?(?:n~xf3i|b~u1ea3o)~s*:~s*(.+)$'')"

definition RE_REMINDER_LEADING :: pattern where
  "RE_REMINDER_LEADING =
     re_compile [IGNORECASE]
       (''^(?:(?:t~xf4i|m~xecnh)~s+)?(?:~u0111~xe3~s+)?(?:n~xf3i|b~u1ea3o)(?:~s+l~xe0)?(?:~s+r~u1ed3i)?(?:~s+m~xe0)?~s*'')"

definition RE_REMINDER_TRAILING :: pattern where
  "RE_REMINDER_TRAILING =
     re_compile [IGNORECASE]
       (''~s+(?:r~u1ed3i~s+m~xe0|r~u1ed3i|m~xe0)~s*[.!]*~s*$'')"

definition RE_REPAIR_STANDALONE :: pattern where
  "RE_REPAIR_STANDALONE =
     re_compile [IGNORECASE]
       (''^(?:sai~s+r~u1ed3i|sai|kh~xf4ng~s+~u0111~xfang|nh~u1ea7m~s+r~u1ed3i|nh~u1ea7m)~s*[.!]*~s*$'')"

definition RE_REMINDER_MARKER :: pattern where
  "RE_REMINDER_MARKER =
     re_compile [IGNORECASE]
       (''(?:t~xf4i~s+(?:~u0111~xe3~s+)?(?:n~xf3i|b~u1ea3o)(?:~s+r~u1ed3i)?~s+m~xe0|(?:~u0111~xe3~s+)?n~xf3i~s*:|r~u1ed3i~s+m~xe0)'')"

definition RE_GENERIC_REMINDER :: pattern where
  "RE_GENERIC_REMINDER =
     re_compile [IGNORECASE]
       (''^(?:(?:t~xf4i|m~xecnh)~s+(?:~u0111~xe3~s+)?(?:n~xf3i|b~u1ea3o)(?:~s+l~xe0)?(?:~s+r~u1ed3i)?(?:~s+m~xe0)?~s+)?'' @
        ''b~u1ea1n~s+(?:kh~xf4ng|ko)~s+nh~u1edb~s*(?:~xe0|a|sao|h~u1ea3|g~xec|n~u1eefa)?~s*[.!?]*~s*$'')"

definition RE_ANSWER_FEEDBACK :: pattern where
  "RE_ANSWER_FEEDBACK =
     re_compile [IGNORECASE]
       (''(?:b~u1ea1n~s+)?(?:tr~u1ea3~s+l~u1eddi|n~xf3i)~s+sai(?:~s+r~u1ed3i)?'' @
        ''|b~u1ea1n~s+ph~u1ea3i~s+tr~u1ea3~s+l~u1eddi~s+l~xe0'' @
        ''|(?:c~xe2u~s+)?tr~u1ea3~s+l~u1eddi~s+(?:tr~u01b0~u1edbc~s+)?(?:ch~u01b0a|kh~xf4ng)~s+~u0111~xfang'' @
        ''|t~xf4i~s+(?:~u0111~xe3~s+)?cung~s+c~u1ea5p~s+th~xf4ng~s+tin.*r~u1ed3i'')"

definition XOA :: string where
  "XOA = ''x[o~xf3][~xe1a]''"

definition RE_DELETE_ALL_MEMORY :: pattern where
  "RE_DELETE_ALL_MEMORY =
     re_compile [IGNORECASE]
       (''(?:'' @
        XOA @
        ''|qu~xean)~s+'' @
        ''(?:(?:h~u1ebft|to~xe0n~s+b~u1ed9|s~u1ea1ch)~s*(?:k~xfd~s+~u1ee9c|th~xf4ng~s+tin|memory|tr~xed~s+nh~u1edb|m~u1ecdi~s+th~u1ee9)?'' @
        ''|(?:k~xfd~s+~u1ee9c|th~xf4ng~s+tin|memory))'' @
        ''.*?(?:v~u1ec1|c~u1ee7a)~s+(?:t~xf4i|m~xecnh)'' @
        ''|(?:'' @
        XOA @
        ''|qu~xean)~s+(?:h~u1ebft|to~xe0n~s+b~u1ed9|s~u1ea1ch)~s+(?:tr~xed~s+nh~u1edb|k~xfd~s+~u1ee9c|memory|th~xf4ng~s+tin)~b'' @
        ''|~u0111~u1eebng~s+nh~u1edb~s+g~xec~s+(?:v~u1ec1~s+)?(?:t~xf4i|m~xecnh)~s+n~u1eefa'' @
        ''|clear~s+memory|forget~s+me'')"

definition RE_DELETE_CONFIRM :: pattern where
  "RE_DELETE_CONFIRM =
     re_compile [IGNORECASE]
       (''^(?:'' @
        ''x~xe1c~s+nh~u1eadn~s+'' @
        XOA @
        ''(?:~s+k~xfd~s+~u1ee9c)?'' @
        ''|~u0111~u1ed3ng~s+~xfd~s+'' @
        XOA @
        ''(?:~s+(?:~u0111i|k~xfd~s+~u1ee9c))?'' @
        ''|(?:ok|okay|~u0111~u1ed3ng~s+~xfd|~u1eeb|~u1eebm|v~xe2ng)~s+'' @
        XOA @
        ''~s+~u0111i'' @
        ''|'' @
        XOA @
        ''~s+~u0111i'' @
        ''|yes~s+delete|confirm~s+delete'' @
        '')~s*[.!]*~s*$'')"

definition RE_DELETE_CONFIRM_PENDING :: pattern where
  "RE_DELETE_CONFIRM_PENDING =
     re_compile [IGNORECASE]
       (''^(?:'' @
        ''ok|okay|oke|okie'' @
        ''|yes|y|confirm'' @
        ''|~u0111~u1ed3ng~s+~xfd'' @
        ''|x~xe1c~s+nh~u1eadn(?:~s+'' @
        XOA @
        ''(?:~s+k~xfd~s+~u1ee9c)?)?'' @
        ''|'' @
        XOA @
        ''~s+(?:~u0111i|lu~xf4n|ngay)'' @
        '')~s*[.!]*~s*$'')"

definition DIRTY_VALUE_MARKERS :: "string list" where
  "DIRTY_VALUE_MARKERS =
     [vn ''t~xf4i bi~u1ebft'', vn ''t~xf4i kh~xf4ng bi~u1ebft'', vn ''m~xecnh bi~u1ebft'', vn ''m~xecnh kh~xf4ng bi~u1ebft'', vn ''t~xf4i ~u0111~xe3 n~xf3i'', vn ''t~xf4i b~u1ea3o'',
      vn ''~u0111~xe3 n~xf3i:'', vn ''n~u1eefa t~xf4i'', '':'', vn ''nh~u01b0ng kh~xf4ng'', vn ''m~xe0 kh~xf4ng bi~u1ebft'', vn ''c~xf2n kh~xf4ng bi~u1ebft'']"

definition DIRTY_VALUE_TERMINAL :: "string list" where
  "DIRTY_VALUE_TERMINAL =
     [vn '' n~u1eefa'', vn '' r~u1ed3i'', vn '' m~xe0'', vn '' ~u0111~u1ea5y'', vn '' ~u0111~xf3'']"

definition DIRTY_VALUE_QUESTION_TAILS :: "string list" where
  "DIRTY_VALUE_QUESTION_TAILS =
     [vn ''g~xec'', ''gi'', vn ''n~xe0o'', vn ''~u0111~xe2u'', ''dau'', vn ''bao gi~u1edd'', vn ''khi n~xe0o'']"

definition PERSON_DISCOURSE_MODIFIERS :: "string list" where
  "PERSON_DISCOURSE_MODIFIERS =
     [vn ''c~u0169ng'', vn ''v~u1eabn'', vn ''~u0111~u1ec1u'', vn ''c~u1ea3'', vn ''th~xeam'', vn ''n~u1eefa'', vn ''~u0111ang'']"

definition PREFERENCE_QUERY_SHARED_PREFIXES :: "string list" where
  "PREFERENCE_QUERY_SHARED_PREFIXES =
     [vn ''~u0103n '', vn ''u~u1ed1ng '']"

definition TECHNICAL_CONCEPT_TOKENS :: "string list" where
  "TECHNICAL_CONCEPT_TOKENS =
     [''AI'', ''ML'', ''LLM'', ''SLM'', ''NLP'', ''Agent'']"

definition TECHNICAL_CONCEPT_PHRASES :: "string list" where
  "TECHNICAL_CONCEPT_PHRASES =
     [''AI Agent'']"

definition AI_TAXONOMY_TERMS :: "string list" where
  "AI_TAXONOMY_TERMS =
     [''ai'', ''llm'', ''slm'', ''agent ai'', ''ai agent'', ''ai agent coder'',
      ''machine learning'', ''ml'', ''deep learning'', vn ''h~u1ecdc m~xe1y'', vn ''h~u1ecdc s~xe2u'']"

definition GOAL_STOPWORDS :: "string list" where
  "GOAL_STOPWORDS =
     [vn ''l~xe0m'', ''build'', vn ''d~u1ef1'', vn ''~xe1n'', vn ''v~xe0'', vn ''c~u1ea3'', vn ''x~xe2y'', vn ''d~u1ef1ng'', vn ''mu~u1ed1n'', vn ''s~u1ebd'', vn ''~u0111~u1ecbnh'']"

end
