(* ===== verification/Profile_Detect.thy ===== *)
theory Profile_Detect
  imports Profile_Patterns
begin

text \<open>
  Detection in \<open>conversation/profile_memory.py\<close>: which facts about the user a message states, which it
  asks for, and which values may be kept without asking.  The character table \<open>u\<close> is that of
  \<open>Py_Regex\<close>.
\<close>

section \<open>Matching\<close>

text \<open>\<open>if m := P.match(s)\<close> and \<open>P.search(s)\<close>; the text of a group that took part in the match.\<close>

definition grp :: "nat \<Rightarrow> re_match \<Rightarrow> string" where
  "grp n m = (case group n m of Some x \<Rightarrow> x | None \<Rightarrow> [])"

definition on_match :: "charset \<Rightarrow> pattern \<Rightarrow> string \<Rightarrow> (re_match \<Rightarrow> 'a option) \<Rightarrow> 'a option" where
  "on_match u p t f = (case re_match_at_start u p t of None \<Rightarrow> None | Some m \<Rightarrow> f m)"

definition only_if :: "bool \<Rightarrow> 'a \<Rightarrow> 'a option" where
  "only_if c x = (if c then Some x else None)"

text \<open>The first result of a cascade of tests with early returns.\<close>

fun first_of :: "'a option list \<Rightarrow> 'a option" where
  "first_of [] = None"
| "first_of (x # xs) = (case x of Some r \<Rightarrow> Some r | None \<Rightarrow> first_of xs)"

text \<open>The captured value with runs of white space squeezed, and trailing characters \<open>cs\<close> dropped first.\<close>

definition tidy :: "charset \<Rightarrow> string \<Rightarrow> string \<Rightarrow> string" where
  "tidy u cs t = strip (squeeze u (rstrip_chars cs (strip t)))"

definition lower_in :: "charset \<Rightarrow> string \<Rightarrow> string list \<Rightarrow> bool" where
  "lower_in u t ws = (cs_str_lower u t \<in> set ws)"

section \<open>Values\<close>

definition is_safe_for_auto_save :: "charset \<Rightarrow> string \<Rightarrow> bool" where
  "is_safe_for_auto_save u t = (\<not> begins u RE_NOTE_CMD_PREFIX (strip t))"

definition has_role_keyword :: "charset \<Rightarrow> string \<Rightarrow> bool" where
  "has_role_keyword u v =
     (let l = cs_str_lower u v
      in list_ex (\<lambda>p. contains p l) ROLE_KEYWORD_PHRASES
         \<or> list_ex (\<lambda>t. t \<in> set ROLE_KEYWORD_TOKENS) (re_findall u RE_ASCII_TOKEN l)
         \<or> list_ex (\<lambda>w. w \<in> set VN_ROLE_KEYWORD_SINGLE) (split_words l))"

definition is_unsafe_value :: "charset \<Rightarrow> string \<Rightarrow> bool" where
  "is_unsafe_value u value =
     (let v = cs_str_lower u (strip value)
      in v \<noteq> [] \<and>
         (v \<in> set UNSAFE_VALUE_EXACT
          \<or> list_ex (\<lambda>p. contains p v) UNSAFE_VALUE_PHRASES
          \<or> list_ex (\<lambda>t. t \<in> set UNSAFE_VALUE_TOKENS) (re_findall u RE_UNICODE_TOKEN v)))"

definition value_has_query_word :: "charset \<Rightarrow> string \<Rightarrow> bool" where
  "value_has_query_word u value =
     list_ex (\<lambda>t. t \<in> set LEGACY_QUERY_WORD_TOKENS \<or> t \<in> set LEGACY_RANKING_COMPARATIVE_TOKENS)
       (split_words (squeeze u (cs_str_lower u (strip value))))"

definition RE_ACRONYM :: pattern where
  "RE_ACRONYM = re_compile [] (''[A-Z0-9]{2,5}'')"

definition is_valid_auto_value_shape :: "charset \<Rightarrow> string \<Rightarrow> bool" where
  "is_valid_auto_value_shape u value =
     (let v = strip value
      in if v = [] \<or> 80 < py_len v then False
         else if py_len v < 3 then re_fullmatch u RE_ACRONYM v \<noteq> None
         else \<not> lower_in u v VAGUE_REFS)"

definition is_valid_auto_value :: "charset \<Rightarrow> string \<Rightarrow> bool" where
  "is_valid_auto_value u value = (is_valid_auto_value_shape u value \<and> \<not> is_unsafe_value u (strip value))"

definition is_name_like_token :: "charset \<Rightarrow> string \<Rightarrow> bool" where
  "is_name_like_token u value =
     (let v = strip value
      in v \<noteq> [] \<and> CHR '' '' \<notin> set v \<and> \<not> any_char (cs_isdigit u) v \<and> 2 \<le> py_len v \<and> py_len v \<le> 15
         \<and> \<not> lower_in u v QUESTION_WORDS \<and> \<not> has_role_keyword u v \<and> isalpha u (replace_str ''-'' [] v))"

definition normalize_relation_label :: "charset \<Rightarrow> string \<Rightarrow> string" where
  "normalize_relation_label u raw = squeeze u (cs_str_lower u (strip raw))"

definition extract_query_relation_label :: "charset \<Rightarrow> string \<Rightarrow> string" where
  "extract_query_relation_label u t =
     (case re_search u (re_compile [IGNORECASE] RELATIONS_QUERY_PATTERN) t of
        Some m \<Rightarrow> normalize_relation_label u (grp 1 m) | None \<Rightarrow> [])"

definition is_polluted_preference :: "charset \<Rightarrow> string \<Rightarrow> bool" where
  "is_polluted_preference u val =
     (let raw = squeeze u (strip val); v = cs_str_lower u raw
      in v = [] \<or> raw = ''ai'' \<or> v \<in> set (removeAll ''ai'' POLLUTED_PREFERENCE_VALUES)
         \<or> list_ex (\<lambda>e. ends_in e v) POLLUTED_INTERROGATIVE_ENDINGS
         \<or> list_ex (\<lambda>e. ends_in e v) POLLUTED_YESNO_ENDINGS
         \<or> list_ex (\<lambda>m. contains m v) POLLUTED_AFFECTION_MARKERS)"

definition clean_query_value :: "charset \<Rightarrow> string \<Rightarrow> string" where
  "clean_query_value u raw = tidy u (vn ''.!?~uff1f '') raw"

definition is_self_name_phrase :: "charset \<Rightarrow> string \<Rightarrow> bool" where
  "is_self_name_phrase u value =
     (let v = clean_query_value u value; ts = split_words v
      in v \<noteq> [] \<and> 1 \<le> length ts \<and> length ts \<le> 3 \<and> \<not> has_role_keyword u v
         \<and> list_all (\<lambda>t. \<not> lower_in u t QUESTION_WORDS \<and> \<not> lower_in u t NON_NAME_WORDS
              \<and> \<not> any_char (cs_isdigit u) t \<and> py_len t \<le> 15 \<and> isalpha u (replace_str ''-'' [] t)) ts)"

definition looks_like_proper_full_name :: "charset \<Rightarrow> string \<Rightarrow> bool" where
  "looks_like_proper_full_name u phrase =
     (let ts = split_words phrase
      in 2 \<le> length ts \<and> is_self_name_phrase u phrase
         \<and> list_all (\<lambda>t. case py_chars t of [] \<Rightarrow> False | c # _ \<Rightarrow> cs_isupper u c) ts)"

section \<open>Facts that need a confirmation or a free slot\<close>

record fact_candidate =
  fc_subject :: string
  fc_value :: string
  fc_label :: "string option"
  fc_text :: string

definition self_candidate :: "string \<Rightarrow> string \<Rightarrow> fact_candidate" where
  "self_candidate v t = \<lparr>fc_subject = ''self'', fc_value = v, fc_label = None, fc_text = t\<rparr>"

definition relation_candidate :: "string \<Rightarrow> string \<Rightarrow> string \<Rightarrow> fact_candidate" where
  "relation_candidate l v t = \<lparr>fc_subject = ''relation'', fc_value = v, fc_label = Some l, fc_text = t\<rparr>"

definition candidate_value :: "re_match \<Rightarrow> nat \<Rightarrow> string" where
  "candidate_value m n = strip (rstrip_chars ''.!?'' (grp n m))"

definition no_question_word :: "charset \<Rightarrow> string \<Rightarrow> bool" where
  "no_question_word u v = (v \<noteq> [] \<and> \<not> lower_in u v QUESTION_WORDS)"

definition detect_fact_candidate :: "charset \<Rightarrow> string \<Rightarrow> fact_candidate option" where
  "detect_fact_candidate u t =
     (let s = strip t; named = (\<lambda>p. on_match u p s (\<lambda>m.
            let v = candidate_value m 1 in only_if (no_question_word u v) (self_candidate v s)))
      in if ends_in ''?'' (rstrip_chars ''.!? '' s) then None
         else first_of
           [named RE_SELF_TEN_LA, named RE_TEN_TOI_LA, named RE_LUU_TEN_LA,
            on_match u RE_SELF_IS s (\<lambda>m. let v = candidate_value m 1
               in only_if (no_question_word u v \<and> is_name_like_token u v) (self_candidate v s)),
            on_match u RE_RELATION_NAME s (\<lambda>m. let v = candidate_value m 2
               in only_if (no_question_word u v)
                    (relation_candidate (normalize_relation_label u (strip (grp 1 m))) v s)),
            on_match u RE_NGUOI_YEU_PARTNER_NAME s (\<lambda>m.
               let v = candidate_value m 1; l = cs_str_lower u s;
                   label = (if starts_with (vn ''ng~u01b0~u1eddi y~xeau'') l then vn ''ng~u01b0~u1eddi y~xeau''
                            else if starts_with ''partner'' l then ''partner''
                            else cs_str_lower u (hd (split_words s)))
               in only_if (no_question_word u v) (relation_candidate label v s))])"

text \<open>The first pattern that matches decides: its value is a safe name, or there is no update.\<close>

definition name_value :: "charset \<Rightarrow> re_match \<Rightarrow> string option" where
  "name_value u m =
     (let v = clean_query_value u (grp 1 m)
      in only_if (v \<noteq> [] \<and> is_self_name_phrase u v \<and> \<not> is_unsafe_value u v) v)"

fun name_from :: "charset \<Rightarrow> pattern list \<Rightarrow> string \<Rightarrow> string option" where
  "name_from u [] s = None"
| "name_from u (p # ps) s =
     (case re_match_at_start u p s of None \<Rightarrow> name_from u ps s | Some m \<Rightarrow> name_value u m)"

definition detect_self_name_update :: "charset \<Rightarrow> string \<Rightarrow> string option" where
  "detect_self_name_update u t = name_from u [RE_NAME_UPDATE_CMD, RE_NAME_NEW_IS, RE_NAME_WANT_CHANGE] (strip t)"

definition detect_self_name_phrase_update :: "charset \<Rightarrow> string \<Rightarrow> string option" where
  "detect_self_name_phrase_update u t = name_from u [RE_SELF_IS_PHRASE] (strip t)"

definition detect_self_name_ten_assertion :: "charset \<Rightarrow> string \<Rightarrow> string option" where
  "detect_self_name_ten_assertion u t = name_from u [RE_NAME_TEN_ASSERT, RE_TEN_TOI_ASSERT] (strip t)"

section \<open>Facts that are kept without asking\<close>

record auto_candidate =
  ac_relation :: string
  ac_value :: string
  ac_text :: string
  ac_kind :: "string option"

record blocked_attempt =
  ba_relation :: string
  ba_value :: string
  ba_text :: string

definition auto_value :: "re_match \<Rightarrow> string" where
  "auto_value m = rstrip_chars ''.!'' (strip (grp 1 m))"

definition has_question_mark :: "string \<Rightarrow> bool" where
  "has_question_mark s = (CHR ''?'' \<in> set s \<or> contains (vn ''~uff1f'') s)"

definition match_auto_pattern :: "charset \<Rightarrow> string \<Rightarrow> (string \<times> string) option" where
  "match_auto_pattern u s =
     (let keep = (\<lambda>p rel ok. on_match u p s (\<lambda>m. let v = auto_value m
            in only_if (is_valid_auto_value_shape u v \<and> ok v) (rel, v)))
      in if has_question_mark s \<or> \<not> is_safe_for_auto_save u s then None
         else first_of
           [keep RE_GOAL ''goal'' (\<lambda>v. True),
            keep RE_LEARNING ''learning_focus'' (\<lambda>v. True),
            keep RE_PREFERENCE_SO_THICH ''preference'' (\<lambda>v. \<not> value_has_query_word u v),
            keep RE_PREFERENCE_QUAN_TAM ''preference'' (\<lambda>v. \<not> value_has_query_word u v),
            keep RE_PREFERENCE_THICH ''preference'' (\<lambda>v. \<not> value_has_query_word u v),
            keep RE_HABIT ''habit'' (\<lambda>v. True),
            keep RE_OCCUPATION_CONTEXT ''occupation'' (\<lambda>v. True),
            keep RE_OCCUPATION_TOI_LAM ''occupation'' (has_role_keyword u),
            keep RE_OCCUPATION_TOI_LA ''occupation'' (\<lambda>v. has_role_keyword u v
              \<and> (2 \<le> length (split_words v) \<or> lower_in u (hd (split_words v)) ROLE_KEYWORD_TOKENS))])"

definition detect_auto_candidate :: "charset \<Rightarrow> string \<Rightarrow> auto_candidate option" where
  "detect_auto_candidate u t =
     (case match_auto_pattern u (strip t) of
        None \<Rightarrow> None
      | Some (rel, v) \<Rightarrow>
          only_if (\<not> is_unsafe_value u v) \<lparr>ac_relation = rel, ac_value = v, ac_text = strip t, ac_kind = None\<rparr>)"

definition detect_blocked_value :: "charset \<Rightarrow> string \<Rightarrow> blocked_attempt option" where
  "detect_blocked_value u t =
     (case match_auto_pattern u (strip t) of
        None \<Rightarrow> None
      | Some (rel, v) \<Rightarrow> only_if (is_unsafe_value u v) \<lparr>ba_relation = rel, ba_value = v, ba_text = strip t\<rparr>)"

end
