(* ===== verification/Profile_Query.thy ===== *)
theory Profile_Query
  imports Profile_Detect
begin

text \<open>
  Questions about the profile (\<open>detect_profile_query\<close>), commands that change or remove a fact,
  corrections, reminders, and the deletion of the whole profile, as
  \<open>conversation/profile_memory.py\<close> recognises them.
\<close>

section \<open>Questions\<close>

record profile_query =
  pq_kind :: string
  pq_value :: "string option"
  pq_label :: "string option"
  pq_object :: "string option"

definition ask :: "string \<Rightarrow> profile_query" where
  "ask k = \<lparr>pq_kind = k, pq_value = None, pq_label = None, pq_object = None\<rparr>"

definition ask_value :: "string \<Rightarrow> string \<Rightarrow> profile_query" where
  "ask_value k v = (ask k)\<lparr>pq_value := Some v\<rparr>"

definition ask_pair :: "string \<Rightarrow> string \<Rightarrow> string \<Rightarrow> profile_query" where
  "ask_pair k v w = (ask k)\<lparr>pq_value := Some v, pq_object := Some w\<rparr>"

definition ask_label :: "string \<Rightarrow> string \<Rightarrow> profile_query" where
  "ask_label k l = (ask k)\<lparr>pq_label := Some l\<rparr>"

definition RE_PERSON_SPLIT :: pattern where
  "RE_PERSON_SPLIT = re_compile [] (''~s*,~s*|~s+v~xe0~s+'')"

definition split_person_subjects :: "charset \<Rightarrow> string \<Rightarrow> string list" where
  "split_person_subjects u phrase =
     map strip (filter (\<lambda>p. \<not> blank p) (re_split u RE_PERSON_SPLIT (strip phrase)))"

definition unmark :: "string \<Rightarrow> string" where
  "unmark s = rstrip_chars ''?'' (strip s)"

definition is_self_word :: "charset \<Rightarrow> string \<Rightarrow> bool" where
  "is_self_word u w = lower_in u w SELF_WORDS"

text \<open>The rungs of the ladder, in its order.\<close>

definition view_queries :: "charset \<Rightarrow> string \<Rightarrow> profile_query option list" where
  "view_queries u s =
     [only_if (begins u RE_TEMPORAL_TODAY_DO_Q s) (ask ''temporal_today_do_query''),
      only_if (begins u RE_WANTS_EAT_Q s) (ask ''wants_to_eat_query''),
      only_if (begins u RE_USER_NEG_AFFECTION_WHO_Q s) (ask ''user_negative_affection_who''),
      only_if (begins u RE_EXTERNAL_NEG_AFFECTION_WHO_Q s) (ask ''external_negative_affection_who''),
      only_if (begins u RE_USER_INTERESTS_WHAT_Q s) (ask ''user_interests_what''),
      only_if (begins u RE_USER_LIKES_WHAT_Q s) (ask ''user_likes_what''),
      only_if (begins u RE_INCOMING_AFFECTION_SET_Q s) (ask ''incoming_affection_set'')]"

definition person_queries :: "charset \<Rightarrow> string \<Rightarrow> profile_query option list" where
  "person_queries u s =
     [on_match u RE_BATCH_INCOMING_AFFECTION_Q s (\<lambda>m. let who = strip (grp 1 m)
        in only_if (2 \<le> length (split_person_subjects u who))
             (ask_pair ''batch_incoming_affection'' who (unmark (grp 2 m)))),
      on_match u RE_PERSON_AFFECTION_TARGET_Q s (\<lambda>m. let who = unmark (grp 1 m);
          first = (case split_words (cs_str_lower u who) of [] \<Rightarrow> [] | w # _ \<Rightarrow> if split_words who = [] then [] else w)
        in only_if (\<not> is_self_word u who \<and> first \<notin> set SELF_WORDS) (ask_value ''person_affection_target'' who)),
      on_match u RE_THIRD_PARTY_AFFECTION_Q s (\<lambda>m. let who = unmark (grp 1 m)
        in only_if (\<not> is_self_word u who) (ask_value ''third_party_affection'' who)),
      on_match u RE_NAMED_AFFECTION_YESNO_Q s (\<lambda>m. let who = unmark (grp 1 m); obj = unmark (grp 2 m)
        in only_if (\<not> is_self_word u who \<and> \<not> is_self_word u obj) (ask_pair ''named_affection_yesno'' who obj)),
      only_if (begins u RE_FRIEND_NAME_Q s) (ask_label ''friend_name'' (vn ''b~u1ea1n'')),
      only_if (begins u RE_PET_Q s) (ask ''self_pet''),
      on_match u RE_PET_YESNO_Q s (\<lambda>m. let a = clean_query_value u (grp 1 m)
        in only_if (a \<noteq> []) (ask_value ''self_pet_yesno'' a)),
      on_match u RE_RELATION_YESNO_Q s (\<lambda>m. let p = tidy u ''?'' (grp 1 m)
        in only_if (p \<noteq> [])
             ((ask_value ''relation_yesno'' p)\<lparr>pq_label := Some (normalize_relation_label u (grp 2 m))\<rparr>)),
      on_match u RE_OLD_NAME_CONFIRM_Q s (\<lambda>m. let n = strip (squeeze u (strip (grp 1 m)))
        in only_if (n \<noteq> [] \<and> is_self_name_phrase u n) (ask_value ''old_name_confirm'' n))]"

definition identity_queries :: "charset \<Rightarrow> string \<Rightarrow> profile_query option list" where
  "identity_queries u s =
     [only_if (begins u RE_RELATION_NAME_Q s) (ask_label ''relation_name'' (extract_query_relation_label u s)),
      only_if (begins u RE_RELATION_LA_AI_Q s) (ask_label ''relation_name'' (extract_query_relation_label u s)),
      only_if (begins u RE_PROFILE_SUMMARY_Q s) (ask ''profile_summary''),
      only_if (found u RE_SELF_NAME_Q s \<or> begins u RE_SELF_NAME_REMEMBER_Q s) (ask ''self_name''),
      only_if (begins u RE_SELF_IDENTITY_Q s) (ask ''self_identity''),
      only_if (begins u RE_OCCUPATION_Q s) (ask ''self_occupation''),
      on_match u RE_SELF_OCC_YESNO_Q s (\<lambda>m. let v = tidy u (vn ''?~uff1f'') (grp 1 m)
        in only_if (v \<noteq> []) (ask_value ''self_occupation_yesno'' v)),
      only_if (begins u RE_SELF_AI_YESNO_Q s) (ask_value ''self_ai_yesno'' ''AI''),
      on_match u RE_SELF_DO_YESNO_Q s (\<lambda>m. let v = tidy u (vn ''?~uff1f'') (grp 2 m);
          still = (if grp 1 m \<noteq> [] \<or> grp 3 m \<noteq> [] then ''still'' else [])
        in only_if (v \<noteq> []) (ask_pair ''self_do_yesno'' v still)),
      on_match u RE_GOAL_CHALLENGE_Q s (\<lambda>m. let v = tidy u (vn ''?~uff1f~xe0~u01b0h~u1ea3 '') (grp 1 m)
        in only_if (v \<noteq> []) (ask_value ''goal_challenge'' v)),
      only_if (begins u RE_GOAL_FOLLOWUP_Q s) (ask ''goal_followup'')]"

definition preference_queries :: "charset \<Rightarrow> string \<Rightarrow> profile_query option list" where
  "preference_queries u s =
     [on_match u RE_COMPARATIVE_Q s (\<lambda>m. let a = tidy u (vn ''?~uff1f'') (grp 1 m); b = tidy u (vn ''?~uff1f'') (grp 2 m)
        in only_if (a \<noteq> [] \<and> b \<noteq> []) (ask_pair ''self_comparative'' a b)),
      only_if (begins u RE_FOOD_FAVORITE_Q s) (ask ''self_food_favorite''),
      only_if (begins u RE_FOOD_NEG_Q s) (ask ''self_food_dislike''),
      only_if (begins u RE_AFFECTION_Q s \<or> begins u RE_AFFECTION_ALIAS_Q s) (ask ''self_affection''),
      only_if (begins u RE_FOOD_POS_Q s) (ask ''self_food_preference''),
      only_if (begins u RE_DRINK_PREF_Q s) (ask ''self_drink_preference''),
      only_if (begins u RE_PREF_RANKING_Q s) (ask ''self_preference_ranking''),
      only_if (begins u RE_NEGATIVE_PREF_Q s) (ask ''self_dislike''),
      only_if (begins u RE_PREFERENCE_Q s) (ask ''self_preference''),
      only_if (begins u RE_LEARNING_Q s) (ask ''self_learning_focus''),
      only_if (begins u RE_WANTS_MARRY_Q s) (ask ''wants_to_marry_query''),
      only_if (begins u RE_WANTS_LEARN_Q s) (ask ''wants_to_learn_query''),
      only_if (begins u RE_WANTS_BUILD_Q s) (ask ''wants_to_build_query''),
      only_if (begins u RE_CURRENT_GOAL_Q s) (ask ''self_current_goal''),
      only_if (begins u RE_GOAL_Q s) (ask ''self_goal''),
      only_if (begins u RE_HABIT_Q s) (ask ''self_habit''),
      only_if (begins u RE_NEGATIVE_SKILL_Q s) (ask ''self_negative_skill''),
      only_if (begins u RE_SKILL_Q s) (ask ''self_skill'')]"

definition lookup_queries :: "charset \<Rightarrow> string \<Rightarrow> profile_query option list" where
  "lookup_queries u s =
     [on_match u RE_RELATION_EXIST_Q s (\<lambda>m.
        Some (ask_label ''relation_existence'' (normalize_relation_label u (grp 1 m)))),
      on_match u RE_INVERSE_Q s (\<lambda>m.
        only_if (rstrip_chars ''?'' (cs_str_lower u (strip (grp 1 m))) \<notin> set SELF_WORDS)
          (ask_value ''inverse_value'' (unmark (grp 1 m)))),
      on_match u RE_REVERSE_ENTITY_Q s (\<lambda>m.
        only_if (\<not> is_self_word u (unmark (grp 1 m))) (ask_value ''reverse_entity'' (unmark (grp 1 m))))]"

definition detect_profile_query :: "charset \<Rightarrow> string \<Rightarrow> profile_query option" where
  "detect_profile_query u t =
     (let s = strip t
      in first_of (view_queries u s @ person_queries u s @ identity_queries u s @ preference_queries u s
           @ lookup_queries u s))"

section \<open>Commands\<close>

definition detect_relation_update_cmd :: "charset \<Rightarrow> string \<Rightarrow> (string \<times> string) option" where
  "detect_relation_update_cmd u t =
     on_match u RE_RELATION_UPDATE_CMD (strip t) (\<lambda>m. let n = tidy u ''.!?'' (grp 2 m)
       in only_if (n \<noteq> [] \<and> \<not> is_unsafe_value u n) (normalize_relation_label u (grp 1 m), n))"

definition detect_relation_removal_cmd :: "charset \<Rightarrow> string \<Rightarrow> (string \<times> string) option" where
  "detect_relation_removal_cmd u t =
     on_match u RE_RELATION_REMOVAL_CMD (strip t) (\<lambda>m. let p = tidy u ''.!?'' (grp 1 m)
       in only_if (p \<noteq> []) (normalize_relation_label u (grp 2 m), p))"

definition RE_NOT_A_NAME :: pattern where
  "RE_NOT_A_NAME = re_compile [IGNORECASE] (''kh~xf4ng~s+ph~u1ea3i~s+(?:l~xe0~s+)?t~xean'')"

definition occupation_value :: "charset \<Rightarrow> re_match \<Rightarrow> string option" where
  "occupation_value u m =
     (let v = tidy u ''.!?,'' (grp 1 m) in only_if (v \<noteq> [] \<and> is_valid_auto_value u v) v)"

definition detect_occupation_correction :: "charset \<Rightarrow> string \<Rightarrow> string option" where
  "detect_occupation_correction u t =
     (let s = strip t; denies = found u RE_NOT_A_NAME s
      in first_of
           [if denies then on_match u RE_OCC_CORRECTION_LEFT s (occupation_value u) else None,
            if denies then (case re_search u RE_OCC_CORRECTION_CHU s of None \<Rightarrow> None | Some m \<Rightarrow> occupation_value u m) else None,
            on_match u RE_OCC_CORRECTION_NGHE s (occupation_value u)])"

definition detect_relation_alias_query :: "charset \<Rightarrow> string \<Rightarrow> (string \<times> string) option" where
  "detect_relation_alias_query u t =
     on_match u RE_RELATION_ALIAS_Q (strip t) (\<lambda>m. let n = strip (squeeze u (strip (grp 2 m)))
       in only_if (n \<noteq> []) (normalize_relation_label u (grp 1 m), n))"

definition detect_correction_remainder :: "charset \<Rightarrow> string \<Rightarrow> string option" where
  "detect_correction_remainder u t =
     (let rest = (\<lambda>p. on_match u p (strip t) (\<lambda>m. let r = strip (squeeze u (strip (grp 1 m))) in only_if (r \<noteq> []) r))
      in first_of [rest RE_CORRECTION_KHONG, rest RE_CORRECTION_Y_TOI_LA, rest RE_CORRECTION_MOI_NOI])"

definition detect_occupation_removal :: "charset \<Rightarrow> string \<Rightarrow> string option" where
  "detect_occupation_removal u t =
     (if has_question_mark (strip t) then None
      else on_match u RE_OCC_REMOVAL (strip t) (\<lambda>m. let v = tidy u ''.!?,'' (grp 1 m) in only_if (v \<noteq> []) v))"

definition detect_relationship_typo :: "charset \<Rightarrow> string \<Rightarrow> (string \<times> string \<times> string) option" where
  "detect_relationship_typo u t =
     on_match u RE_RELATION_TYPO (strip t) (\<lambda>m.
       let raw = squeeze u (cs_str_lower u (strip (grp 1 m))); n = strip (squeeze u (strip (grp 2 m)))
       in case map_of RELATION_TYPO_MAP raw of None \<Rightarrow> None | Some l \<Rightarrow> only_if (n \<noteq> []) (raw, l, n))"

section \<open>Reminders, repairs, feedback\<close>

definition inner_clause :: "charset \<Rightarrow> string \<Rightarrow> string option" where
  "inner_clause u t =
     (let c = strip (re_sub u RE_REMINDER_TRAILING [] (strip t))
      in only_if (c \<noteq> [] \<and> begins u RE_MEMORY_CLAUSE_START c) c)"

definition detect_reminder_inner_clause :: "charset \<Rightarrow> string \<Rightarrow> string option" where
  "detect_reminder_inner_clause u t =
     (let s = squeeze u (strip t)
      in case re_search u RE_REMINDER_COLON s of
          Some m \<Rightarrow> inner_clause u (grp 1 m)
        | None \<Rightarrow>
            (case re_match_at_start u RE_REMINDER_LEADING s of
               None \<Rightarrow> None | Some m \<Rightarrow> if mt_text m = [] then None else inner_clause u (mt_after m)))"

definition detect_repair_intent :: "charset \<Rightarrow> string \<Rightarrow> bool" where
  "detect_repair_intent u t = (begins u RE_REPAIR_STANDALONE (strip t) \<or> found u RE_REMINDER_MARKER (strip t))"

definition detect_generic_reminder :: "charset \<Rightarrow> string \<Rightarrow> bool" where
  "detect_generic_reminder u t = begins u RE_GENERIC_REMINDER (strip t)"

definition detect_answer_feedback :: "charset \<Rightarrow> string \<Rightarrow> bool" where
  "detect_answer_feedback u t = found u RE_ANSWER_FEEDBACK (strip t)"

definition detect_delete_all_request :: "charset \<Rightarrow> string \<Rightarrow> bool" where
  "detect_delete_all_request u t = found u RE_DELETE_ALL_MEMORY (strip t)"

definition detect_delete_all_confirmation :: "charset \<Rightarrow> string \<Rightarrow> bool" where
  "detect_delete_all_confirmation u t = begins u RE_DELETE_CONFIRM (strip t)"

definition detect_delete_all_confirmation_pending :: "charset \<Rightarrow> string \<Rightarrow> bool" where
  "detect_delete_all_confirmation_pending u t =
     (begins u RE_DELETE_CONFIRM (strip t) \<or> begins u RE_DELETE_CONFIRM_PENDING (strip t))"

section \<open>Stored values\<close>

definition KNOWN_PREFERENCE_TOKEN_CANONICALS :: "(string \<times> string) list" where
  "KNOWN_PREFERENCE_TOKEN_CANONICALS = [(vn ''ch~u1ed1i'', vn ''chu~u1ed1i''), (''lem'', ''kem'')]"

definition canonicalize_preference :: "charset \<Rightarrow> string \<Rightarrow> string" where
  "canonicalize_preference u value =
     (let c = strip (squeeze u (strip value))
      in if c = [] then value
         else join '' '' (map (\<lambda>p. case map_of KNOWN_PREFERENCE_TOKEN_CANONICALS (cs_str_lower u p) of
                 Some q \<Rightarrow> q | None \<Rightarrow> p) (split_words c)))"

definition is_dirty_value :: "charset \<Rightarrow> string \<Rightarrow> bool" where
  "is_dirty_value u value =
     (let v = squeeze u (cs_str_lower u (strip value)); ts = split_words (strip value)
      in list_ex (\<lambda>m. contains m v) DIRTY_VALUE_MARKERS
         \<or> list_ex (\<lambda>p. v = p \<or> ends_in ('' '' @ p) v) DIRTY_VALUE_QUESTION_TAILS
         \<or> (ts \<noteq> [] \<and> last ts = ''ai'')
         \<or> list_ex (\<lambda>t. ends_in t v) DIRTY_VALUE_TERMINAL)"

end
