(* ===== verification/Profile_Store.thy ===== *)
theory Profile_Store
  imports Profile_Query Runtime_Agent
begin

text \<open>
  The profile records of \<open>conversation/profile_memory.py\<close> in the in-memory store of
  \<open>Memory_Store\<close>: the save functions, the removals, the resolution of contradictions and the
  deletion of the whole profile.  Record identifiers, the clock and the date come from the
  environment, one tick for every call that changes the store.
\<close>

section \<open>The store under a clock\<close>

record profile_env =
  pe_host :: host
  pe_chars :: charset
  pe_clock :: "nat \<Rightarrow> int"
  pe_fresh :: "nat \<Rightarrow> string"
  pe_today :: string
  pe_capitalize :: "string \<Rightarrow> string"

record profile_world =
  pw_store :: store
  pw_tick :: nat

definition new_record ::
  "profile_env \<Rightarrow> string \<Rightarrow> memory_type \<Rightarrow> string \<Rightarrow> string list \<Rightarrow> rat \<Rightarrow> rat \<Rightarrow> kwargs \<Rightarrow> nat \<Rightarrow> memory_record" where
  "new_record e sid ty txt ts imp conf md n =
     \<lparr>mr_content = txt, mr_type = ty, mr_id = pe_fresh e n, mr_user_id = None, mr_session_id = Some sid,
      mr_task_id = None, mr_run_id = None, mr_source_event_id = None, mr_tags = ts, importance = imp, mr_confidence = conf, mr_source = USER,
      created_at = pe_clock e n, updated_at = pe_clock e n, deleted_at = None, mr_metadata = md\<rparr>"

text \<open>\<open>MemoryAgent(store, user_id=None, session_id=sid).save_memory\<close>; the callers turn every
  exception into the answer \<open>False\<close>.\<close>

definition agent_save ::
  "profile_env \<Rightarrow> string \<Rightarrow> memory_type \<Rightarrow> string \<Rightarrow> string list \<Rightarrow> rat \<Rightarrow> rat \<Rightarrow> kwargs \<Rightarrow> profile_world
    \<Rightarrow> exn + profile_world" where
  "agent_save e sid ty txt ts imp conf md w =
     (if blank txt then Inl (ValueError ''memory content cannot be empty'')
      else Inr \<lparr>pw_store = snd (store_write (pe_host e) (pe_clock e (pw_tick w))
                             (new_record e sid ty txt ts imp conf md (pw_tick w)) (pw_store w)),
               pw_tick = Suc (pw_tick w)\<rparr>)"

definition saved :: "profile_world \<Rightarrow> exn + profile_world \<Rightarrow> bool \<times> profile_world" where
  "saved w r = (case r of Inl _ \<Rightarrow> (False, w) | Inr w' \<Rightarrow> (True, w'))"

definition drop_record :: "profile_env \<Rightarrow> string \<Rightarrow> memory_record \<Rightarrow> profile_world \<Rightarrow> profile_world" where
  "drop_record e reason r w =
     \<lparr>pw_store = snd (store_delete (pe_host e) (pe_clock e (pw_tick w)) (mr_id r) (Some reason) (pw_store w)),
      pw_tick = Suc (pw_tick w)\<rparr>"

fun drop_records :: "profile_env \<Rightarrow> string \<Rightarrow> memory_record list \<Rightarrow> profile_world \<Rightarrow> profile_world" where
  "drop_records e reason [] w = w"
| "drop_records e reason (r # rs) w = drop_records e reason rs (drop_record e reason r w)"

text \<open>\<open>store.search(MemoryQuery(text="", types=[t], tags=["user_profile"], limit=n))\<close>.\<close>

definition profile_search :: "profile_env \<Rightarrow> memory_type \<Rightarrow> int \<Rightarrow> store \<Rightarrow> memory_record list" where
  "profile_search e ty n st =
     store_search (pe_host e)
       \<lparr>q_text = [], q_user_id = None, q_session_id = None, q_types = [ty], q_tags = [''user_profile''],
        include_deleted = False, q_limit = n\<rparr> st"

definition both_types :: "profile_env \<Rightarrow> int \<Rightarrow> store \<Rightarrow> memory_record list" where
  "both_types e n st = profile_search e FACT n st @ profile_search e PREFERENCE n st"

section \<open>Reading the metadata\<close>

text \<open>The entries compared here are texts: this module writes no other.\<close>

definition md_get :: "string \<Rightarrow> memory_record \<Rightarrow> string option" where
  "md_get k r = (case map_of (mr_metadata r) k of Some (VStr s) \<Rightarrow> Some s | _ \<Rightarrow> None)"

definition md_text :: "string \<Rightarrow> memory_record \<Rightarrow> string" where
  "md_text k r = (case md_get k r of Some s \<Rightarrow> s | None \<Rightarrow> [])"

definition profile_schema :: "memory_record \<Rightarrow> bool" where
  "profile_schema r =
     (md_get ''profile_schema'' r \<in> {Some ''user_profile_fact_v1'', Some ''user_profile_fact_v2''})"

definition confirmed_profile :: "memory_record \<Rightarrow> bool" where
  "confirmed_profile r =
     ((case map_of (mr_metadata r) ''confirmed'' of Some v \<Rightarrow> truthy v | None \<Rightarrow> False) \<and> profile_schema r)"

definition in_slot :: "string \<Rightarrow> string \<Rightarrow> memory_record \<Rightarrow> bool" where
  "in_slot subj rel r = (md_get ''subject'' r = Some subj \<and> md_get ''relation'' r = Some rel)"

definition norm_cmp :: "charset \<Rightarrow> string \<Rightarrow> string" where
  "norm_cmp u v = squeeze u (cs_str_lower u (strip v))"

definition same_norm :: "charset \<Rightarrow> string \<Rightarrow> string \<Rightarrow> bool" where
  "same_norm u a b = (norm_cmp u a = norm_cmp u b)"

text \<open>\<open>o or d\<close> for an optional text, and the text when it is there and not empty.\<close>

definition present :: "string option \<Rightarrow> string option" where
  "present t = (case t of Some (x # xs) \<Rightarrow> Some (x # xs) | _ \<Rightarrow> None)"

definition text_or :: "string option \<Rightarrow> string \<Rightarrow> string" where
  "text_or t d = (case present t of Some x \<Rightarrow> x | None \<Rightarrow> d)"

section \<open>Saving\<close>

definition fact_label :: "fact_candidate \<Rightarrow> string" where
  "fact_label c = text_or (fc_label c) ''relation''"

definition fact_tags :: "fact_candidate \<Rightarrow> string list" where
  "fact_tags c =
     (if fc_subject c = ''self'' then [''user_profile'', ''self'', ''name'']
      else [''user_profile'', ''relation'', ''name'',
        case map_of RELATION_TAG_MAP (fact_label c) of Some t \<Rightarrow> t | None \<Rightarrow> replace_str '' '' ''_'' (fact_label c)])"

definition fact_content :: "fact_candidate \<Rightarrow> string" where
  "fact_content c =
     (if fc_subject c = ''self'' then (vn ''t~xean c~u1ee7a b~u1ea1n l~xe0 '') @ fc_value c
      else fact_label c @ (vn '' c~u1ee7a b~u1ea1n t~xean l~xe0 '') @ fc_value c)"

definition fact_metadata :: "string \<Rightarrow> fact_candidate \<Rightarrow> kwargs" where
  "fact_metadata src c =
     [(''profile_schema'', VStr ''user_profile_fact_v1''), (''subject'', VStr (fc_subject c)),
      (''relation'', VStr ''name''), (''value'', VStr (fc_value c)), (''confirmed'', VBool True),
      (''confirmation_source'', VStr src), (''original_text'', VStr (fc_text c))]
     @ (if src = ''auto_safe'' then [(''write_policy'', VStr ''auto_safe'')] else [])
     @ (if fc_subject c = ''self'' then [] else [(''relation_label'', VStr (fact_label c))])"

definition save_confirmed_profile_fact ::
  "profile_env \<Rightarrow> string \<Rightarrow> string \<Rightarrow> fact_candidate \<Rightarrow> profile_world \<Rightarrow> bool \<times> profile_world" where
  "save_confirmed_profile_fact e sid src c w =
     saved w (agent_save e sid FACT (fact_content c) (fact_tags c) (9 / 10) 1 (fact_metadata src c) w)"

definition v2_metadata :: "string \<Rightarrow> string \<Rightarrow> string \<Rightarrow> string \<Rightarrow> kwargs" where
  "v2_metadata subj rel v t =
     [(''profile_schema'', VStr ''user_profile_fact_v2''), (''subject'', VStr subj), (''relation'', VStr rel),
      (''value'', VStr v), (''confirmed'', VBool True), (''confirmation_source'', VStr ''auto_safe''),
      (''write_policy'', VStr ''auto_safe''), (''source'', VStr ''conversation''),
      (''confidence_label'', VStr ''high''), (''extractor'', VStr ''rule_based_profile_v1''),
      (''original_text'', VStr t)]"

definition save_profile_v2_fact ::
  "profile_env \<Rightarrow> string \<Rightarrow> string \<Rightarrow> string \<Rightarrow> string \<Rightarrow> string \<Rightarrow> string list \<Rightarrow> string \<Rightarrow> kwargs
    \<Rightarrow> profile_world \<Rightarrow> bool \<times> profile_world" where
  "save_profile_v2_fact e sid subj rel v txt ts orig extra w =
     saved w (agent_save e sid FACT txt ts (4 / 5) (19 / 20) (dict_update (v2_metadata subj rel v orig) extra) w)"

text \<open>records of a slot and a value, up to case and white space, are replaced by the opposite fact.\<close>

definition delete_profile_records ::
  "profile_env \<Rightarrow> string \<Rightarrow> string \<Rightarrow> string \<Rightarrow> profile_world \<Rightarrow> profile_world" where
  "delete_profile_records e subj rel v w =
     drop_records e ''affection_polarity_superseded''
       (filter (\<lambda>r. confirmed_profile r \<and> in_slot subj rel r \<and> same_norm (pe_chars e) (md_text ''value'' r) v)
          (profile_search e FACT 200 (pw_store w))) w"

definition save_affection_fact ::
  "profile_env \<Rightarrow> string \<Rightarrow> string \<Rightarrow> string \<Rightarrow> profile_world \<Rightarrow> bool \<times> profile_world" where
  "save_affection_fact e sid v t w =
     save_profile_v2_fact e sid ''self'' ''affection'' v ((vn ''b~u1ea1n c~xf3 t~xecnh c~u1ea3m/th~xedch '') @ v)
       [''user_profile'', ''self'', ''affection''] t [] (delete_profile_records e ''self'' ''negative_affection'' v w)"

definition save_favorite_fact ::
  "profile_env \<Rightarrow> string \<Rightarrow> string \<Rightarrow> string \<Rightarrow> string \<Rightarrow> profile_world \<Rightarrow> bool \<times> profile_world" where
  "save_favorite_fact e sid v domain t w =
     save_profile_v2_fact e sid ''self'' ''favorite'' v ((vn ''b~u1ea1n th~xedch '') @ v @ (vn '' nh~u1ea5t''))
       [''user_profile'', ''self'', ''favorite''] t [(''favorite_domain'', VStr domain)] w"

definition save_comparative_fact ::
  "profile_env \<Rightarrow> string \<Rightarrow> string \<Rightarrow> string \<Rightarrow> string \<Rightarrow> string \<Rightarrow> profile_world \<Rightarrow> bool \<times> profile_world" where
  "save_comparative_fact e sid winner loser domain t w =
     save_profile_v2_fact e sid ''self'' ''comparative'' winner
       ((vn ''b~u1ea1n th~xedch '') @ winner @ (vn '' h~u01a1n '') @ loser) [''user_profile'', ''self'', ''comparative''] t
       [(''compared_to'', VStr loser), (''comparative_domain'', VStr domain)] w"

definition save_external_affection_fact ::
  "profile_env \<Rightarrow> string \<Rightarrow> string \<Rightarrow> string \<Rightarrow> profile_world \<Rightarrow> bool \<times> profile_world" where
  "save_external_affection_fact e sid who t w =
     save_profile_v2_fact e sid ''external'' ''affection_to_user'' who
       (who @ (vn '' th~xedch b~u1ea1n (theo th~xf4ng tin b~u1ea1n cung c~u1ea5p)'')) [''user_profile'', ''external'', ''affection''] t []
       (delete_profile_records e ''external'' ''affection_to_user_negative'' who w)"

definition save_negative_external_affection_fact ::
  "profile_env \<Rightarrow> string \<Rightarrow> string \<Rightarrow> string \<Rightarrow> profile_world \<Rightarrow> bool \<times> profile_world" where
  "save_negative_external_affection_fact e sid who t w =
     save_profile_v2_fact e sid ''external'' ''affection_to_user_negative'' who
       (who @ (vn '' kh~xf4ng th~xedch b~u1ea1n (theo th~xf4ng tin b~u1ea1n cung c~u1ea5p)'')) [''user_profile'', ''external'', ''affection''] t []
       (delete_profile_records e ''external'' ''affection_to_user'' who w)"

definition save_negative_affection_fact ::
  "profile_env \<Rightarrow> string \<Rightarrow> string \<Rightarrow> string \<Rightarrow> profile_world \<Rightarrow> bool \<times> profile_world" where
  "save_negative_affection_fact e sid v t w =
     save_profile_v2_fact e sid ''self'' ''negative_affection'' v ((vn ''b~u1ea1n kh~xf4ng c~xf2n th~xedch/quan t~xe2m '') @ v)
       [''user_profile'', ''self'', ''affection''] t [] (delete_profile_records e ''self'' ''affection'' v w)"

definition save_temporal_today_fact ::
  "profile_env \<Rightarrow> string \<Rightarrow> string \<Rightarrow> string \<Rightarrow> profile_world \<Rightarrow> bool \<times> profile_world" where
  "save_temporal_today_fact e sid v t w =
     save_profile_v2_fact e sid ''self'' ''temporal_today'' v ((vn ''h~xf4m nay b~u1ea1n mu~u1ed1n '') @ v)
       [''user_profile'', ''self'', ''temporal_today''] t [(''date_scope'', VStr (pe_today e))] w"

definition save_intention_goal_fact ::
  "profile_env \<Rightarrow> string \<Rightarrow> string \<Rightarrow> string \<Rightarrow> profile_world \<Rightarrow> bool \<times> profile_world" where
  "save_intention_goal_fact e sid v t w =
     save_profile_v2_fact e sid ''self'' ''goal'' v ((vn ''b~u1ea1n ~u0111~u1ecbnh/mu~u1ed1n '') @ v) [''user_profile'', ''self'', ''goal''] t []
       (delete_profile_records e ''self'' ''negative_goal'' v w)"

definition save_negative_goal_fact ::
  "profile_env \<Rightarrow> string \<Rightarrow> string \<Rightarrow> string \<Rightarrow> profile_world \<Rightarrow> bool \<times> profile_world" where
  "save_negative_goal_fact e sid v t w =
     save_profile_v2_fact e sid ''self'' ''negative_goal'' v ((vn ''b~u1ea1n kh~xf4ng c~xf2n mu~u1ed1n/~u0111~u1ecbnh '') @ v)
       [''user_profile'', ''self'', ''goal''] t []
       (delete_profile_records e ''self'' ''goal_focus'' v (delete_profile_records e ''self'' ''goal'' v w))"

definition save_self_name_update ::
  "profile_env \<Rightarrow> string \<Rightarrow> string \<Rightarrow> string \<Rightarrow> profile_world \<Rightarrow> bool \<times> profile_world" where
  "save_self_name_update e sid v t w = save_confirmed_profile_fact e sid ''auto_safe'' (self_candidate v t) w"

section \<open>Relations, occupations\<close>

definition relation_labels :: "string option \<Rightarrow> string list" where
  "relation_labels l = (case get_lookup_labels l of [] \<Rightarrow> [case l of Some x \<Rightarrow> x | None \<Rightarrow> []] | ls \<Rightarrow> ls)"

definition labelled :: "string list \<Rightarrow> memory_record \<Rightarrow> bool" where
  "labelled ls r =
     (in_slot ''relation'' ''name'' r \<and> (case md_get ''relation_label'' r of Some l \<Rightarrow> l \<in> set ls | None \<Rightarrow> False))"

definition delete_relation_fact :: "profile_env \<Rightarrow> string \<Rightarrow> profile_world \<Rightarrow> string option \<times> profile_world" where
  "delete_relation_fact e l w =
     (case find (\<lambda>r. confirmed_profile r \<and> labelled (relation_labels (Some l)) r)
             (profile_search e FACT 100 (pw_store w)) of
        None \<Rightarrow> (None, w)
      | Some r \<Rightarrow> (Some (md_text ''value'' r), drop_record e ''user_removal'' r w))"

definition save_relation_update ::
  "profile_env \<Rightarrow> string \<Rightarrow> string \<Rightarrow> string \<Rightarrow> string \<Rightarrow> profile_world \<Rightarrow> bool \<times> profile_world" where
  "save_relation_update e sid l n t w =
     save_confirmed_profile_fact e sid ''auto_safe'' (relation_candidate l n t) (snd (delete_relation_fact e l w))"

definition delete_occupation_fact :: "profile_env \<Rightarrow> string \<Rightarrow> profile_world \<Rightarrow> string option \<times> profile_world" where
  "delete_occupation_fact e v w =
     (let rs = filter (\<lambda>r. confirmed_profile r \<and> in_slot ''self'' ''occupation'' r
                        \<and> same_norm (pe_chars e) (md_text ''value'' r) v)
                 (profile_search e FACT 200 (pw_store w));
          vs = map (md_text ''value'') rs
      in (case find (\<lambda>x. x \<noteq> []) vs of
            Some x \<Rightarrow> Some x | None \<Rightarrow> if vs = [] then None else Some [],
          drop_records e ''user_removal'' rs w))"

definition find_existing_profile_value :: "profile_env \<Rightarrow> fact_candidate \<Rightarrow> store \<Rightarrow> string option" where
  "find_existing_profile_value e c st =
     map_option (md_text ''value'')
       (find (\<lambda>r. confirmed_profile r \<and>
           (if fc_subject c = ''self'' then in_slot ''self'' ''name'' r
            else in_slot ''relation'' ''name'' r \<and> md_get ''relation_label'' r = fc_label c))
         (profile_search e FACT 100 st))"

section \<open>The whole profile\<close>

text \<open>A record found twice is looked at once.\<close>

fun first_of_id :: "string list \<Rightarrow> memory_record list \<Rightarrow> memory_record list" where
  "first_of_id seen [] = []"
| "first_of_id seen (r # rs) =
     (if mr_id r \<in> set seen then first_of_id seen rs else r # first_of_id (mr_id r # seen) rs)"

definition delete_profile_memory_for_session ::
  "profile_env \<Rightarrow> string \<Rightarrow> profile_world \<Rightarrow> nat \<times> profile_world" where
  "delete_profile_memory_for_session e sid w =
     (let rs = filter (\<lambda>r. mr_session_id r = Some sid \<and> profile_schema r) (first_of_id [] (both_types e 500 (pw_store w)))
      in (length rs, drop_records e ''debug_session_memory_reset'' rs w))"

definition delete_all_profile_memory :: "profile_env \<Rightarrow> profile_world \<Rightarrow> nat \<times> profile_world" where
  "delete_all_profile_memory e w =
     (let rs = filter profile_schema (first_of_id [] (both_types e 500 (pw_store w)))
      in (length rs, drop_records e ''user_delete_all_memory'' rs w))"

end
