(* ===== verification/Profile_Snapshot.thy ===== *)
theory Profile_Snapshot
  imports Profile_Store
begin

text \<open>
  What a stored value stands for (\<open>conversation/profile_memory.py\<close>): its terms, near misses and
  contradictions, the automatic save that resolves them, and the snapshot that every answer is
  read from.
\<close>

section \<open>Texts\<close>

text \<open>\<open>s.split(sep)\<close> for a separator that is not empty, and the first piece with the rest.\<close>

fun split_first :: "string \<Rightarrow> string \<Rightarrow> (string \<times> string) option" where
  "split_first sep [] = None"
| "split_first sep (c # s) =
     (if starts_with sep (c # s) then Some ([], drop (length sep) (c # s))
      else map_option (\<lambda>(a, b). (c # a, b)) (split_first sep s))"

lemma split_first_shorter:
  "sep \<noteq> [] \<Longrightarrow> split_first sep s = Some (a, b) \<Longrightarrow> length b < length s"
proof (induction s arbitrary: a b)
  case (Cons c s)
  show ?case
  proof (cases "starts_with sep (c # s)")
    case True
    with Cons.prems show ?thesis by (cases sep) auto
  next
    case False
    with Cons show ?thesis by (auto dest: less_SucI)
  qed
qed simp

function split_text :: "string \<Rightarrow> string \<Rightarrow> string list" where
  "split_text sep s =
     (if sep = [] then [s]
      else case split_first sep s of None \<Rightarrow> [s] | Some (a, b) \<Rightarrow> a # split_text sep b)"
  by pat_completeness auto
termination
  by (relation "measure (\<lambda>(sep, s). length s)") (auto dest: split_first_shorter)

definition squeezed :: "charset \<Rightarrow> string \<Rightarrow> string" where
  "squeezed u v = squeeze u (strip v)"

text \<open>Membership up to case and white space, and \<open>_add\<close>.\<close>

definition known :: "charset \<Rightarrow> string \<Rightarrow> string list \<Rightarrow> bool" where
  "known u v vs = list_ex (same_norm u v) vs"

definition add_value :: "charset \<Rightarrow> string \<Rightarrow> string list \<Rightarrow> string list" where
  "add_value u v vs = (if known u v vs then vs else vs @ [v])"

definition dedupe :: "charset \<Rightarrow> string list \<Rightarrow> string list" where
  "dedupe u vs = fold (add_value u) vs []"

definition is_modifier :: "charset \<Rightarrow> string \<Rightarrow> bool" where
  "is_modifier u t = lower_in u t PERSON_DISCOURSE_MODIFIERS"

definition canonical_person_name :: "charset \<Rightarrow> string \<Rightarrow> string" where
  "canonical_person_name u nm =
     (case rev (dropWhile (is_modifier u) (rev (dropWhile (is_modifier u) (split_words (squeezed u nm))))) of
        [] \<Rightarrow> squeezed u nm | ts \<Rightarrow> join '' '' ts)"

text \<open>A list of items, the last one joined by the word for "and".\<close>

definition join_vietnamese_items :: "string list \<Rightarrow> string" where
  "join_vietnamese_items vs =
     (case vs of [] \<Rightarrow> [] | [v] \<Rightarrow> v | _ \<Rightarrow> join '', '' (butlast vs) @ (vn '' v~xe0 '') @ last vs)"

definition RE_SKILL_ITEMS :: pattern where
  "RE_SKILL_ITEMS = re_compile [IGNORECASE] (''~s*,~s*|~s+v~xe0~s+'')"

definition split_skill_query_items :: "charset \<Rightarrow> string \<Rightarrow> string list" where
  "split_skill_query_items u v =
     filter (\<lambda>i. i \<noteq> []) (map (tidy u ''.!?,'') (re_split u RE_SKILL_ITEMS (strip v)))"

definition RE_COMMA :: pattern where
  "RE_COMMA = re_compile [] (''~s*,~s*'')"

definition RE_AND :: pattern where
  "RE_AND = re_compile [IGNORECASE] (''~s+v~xe0~s+'')"

definition RE_BATCH_MARKER :: pattern where
  "RE_BATCH_MARKER = re_compile [IGNORECASE] (''^(?:c~u1ea3|c~u0169ng|c~xf2n|th~xeam)~s+'')"

definition strip_batch_item_marker :: "charset \<Rightarrow> string \<Rightarrow> string" where
  "strip_batch_item_marker u v =
     strip (re_sub u RE_BATCH_MARKER [] (squeeze u (rstrip_chars (vn ''.!?,?~uff1f'') (strip v))))"

definition food_prefixed :: "charset \<Rightarrow> string \<Rightarrow> bool" where
  "food_prefixed u v = list_ex (\<lambda>p. starts_with p (cs_str_lower u v)) PREFERENCE_QUERY_SHARED_PREFIXES"

definition split_preference_query_items :: "charset \<Rightarrow> string \<Rightarrow> string list" where
  "split_preference_query_items u v =
     (let raw = strip (squeezed u v);
          items = filter (\<lambda>i. i \<noteq> [])
            (map (strip_batch_item_marker u) (concat (map (re_split u RE_AND) (re_split u RE_COMMA raw))))
      in if raw = [] then []
         else case items of
             [] \<Rightarrow> []
           | i # _ \<Rightarrow>
               (case find (\<lambda>p. starts_with p (cs_str_lower u i)) PREFERENCE_QUERY_SHARED_PREFIXES of
                  None \<Rightarrow> items
                | Some p \<Rightarrow> map (\<lambda>x. if food_prefixed u x then x else p @ x) items))"

definition goal_has_verb :: "charset \<Rightarrow> string \<Rightarrow> string \<Rightarrow> bool" where
  "goal_has_verb u verb g = starts_with (cs_str_lower u verb @ '' '') (norm_cmp u g)"

definition strip_goal_verb :: "charset \<Rightarrow> string \<Rightarrow> string \<Rightarrow> string" where
  "strip_goal_verb u verb g =
     (let s = strip g; p = verb @ '' ''
      in if starts_with (cs_str_lower u p) (cs_str_lower u s) then strip (concat (drop (py_len p) (py_chars s))) else s)"

section \<open>The terms of a preference\<close>

definition PREFERENCE_PREFIXES :: "string list" where
  "PREFERENCE_PREFIXES = [vn ''u~u1ed1ng '', vn ''~u0103n '']"

text \<open>The value and what follows a food or drink prefix.\<close>

definition preference_query_terms :: "charset \<Rightarrow> string \<Rightarrow> string list" where
  "preference_query_terms u value =
     (let v = norm_cmp u value
      in if v = [] then []
         else v # filter (\<lambda>t. t \<noteq> [])
             (map (\<lambda>p. strip (drop (length p) v)) (filter (\<lambda>p. starts_with p v) PREFERENCE_PREFIXES)))"

text \<open>
  For a stored value also: what follows a leading "both"; of "A rather than B" the winner only; the
  parts of "A and B"; the head of "A without sugar".
\<close>

definition positive_preference_terms :: "charset \<Rightarrow> string \<Rightarrow> string list" where
  "positive_preference_terms u value =
     (let ts = preference_query_terms u value; v = norm_cmp u value;
          all = starts_with (vn ''c~u1ea3 '') v;
          v' = (if all then strip (drop (length (vn ''c~u1ea3 '')) v) else v);
          ts' = (if all then ts @ [v'] else ts);
          nonempty = filter (\<lambda>t. t \<noteq> [])
      in if v = [] then []
         else case split_first (vn '' h~u01a1n '') v' of
             Some (a, _) \<Rightarrow> ts' @ nonempty [strip a]
           | None \<Rightarrow>
               ts' @ (if contains (vn '' v~xe0 '') v' then nonempty (map strip (split_text (vn '' v~xe0 '') v')) else [])
                   @ (if ends_in (vn '' kh~xf4ng ~u0111~u01b0~u1eddng'') v'
                      then nonempty [strip (take (length v' - length (vn '' kh~xf4ng ~u0111~u01b0~u1eddng'')) v')] else []))"

definition share :: "string list \<Rightarrow> string list \<Rightarrow> bool" where
  "share xs ys = list_ex (\<lambda>x. x \<in> set ys) xs"

definition matches_preference_query :: "charset \<Rightarrow> string \<Rightarrow> string \<Rightarrow> bool" where
  "matches_preference_query u stored q = share (positive_preference_terms u stored) (preference_query_terms u q)"

definition value_relates_to_ai :: "charset \<Rightarrow> string \<Rightarrow> bool" where
  "value_relates_to_ai u value =
     (let v = norm_cmp u value
      in v \<noteq> [] \<and> (share [''ai'', ''ml'', ''llm'', ''slm''] (split_words v)
           \<or> list_ex (\<lambda>t. contains '' '' t \<and> contains t v) AI_TAXONOMY_TERMS))"

definition value_answers_explicit_ai_yesno :: "charset \<Rightarrow> string \<Rightarrow> bool" where
  "value_answers_explicit_ai_yesno u value =
     (let v = norm_cmp u value
      in v \<noteq> [] \<and> (share [''ai'', ''llm'', ''slm''] (split_words v)
           \<or> list_ex (\<lambda>t. contains t v) [''agent ai'', ''ai agent'', ''ai agent coder'', ''deep learning'', vn ''h~u1ecdc s~xe2u'']))"

definition goal_challenge_terms :: "charset \<Rightarrow> string \<Rightarrow> string list" where
  "goal_challenge_terms u v = filter (\<lambda>t. t \<notin> set GOAL_STOPWORDS) (split_words (norm_cmp u v))"

section \<open>Near misses\<close>

definition RE_ACRONYM_TOKEN :: pattern where
  "RE_ACRONYM_TOKEN = re_compile [] (''[A-Z0-9]{2,}'')"

definition looks_like_technical_concept :: "charset \<Rightarrow> string \<Rightarrow> bool" where
  "looks_like_technical_concept u v =
     (let s = squeezed u v
      in s \<in> set TECHNICAL_CONCEPT_PHRASES
         \<or> list_ex (\<lambda>t. t \<in> set TECHNICAL_CONCEPT_TOKENS \<or> re_fullmatch u RE_ACRONYM_TOKEN t \<noteq> None) (split_words s))"

text \<open>
  The two-pointer scan over code points for texts whose lengths differ by one: the longer text
  (the second) may skip one character.
\<close>

fun one_skip :: "nat \<Rightarrow> string list \<Rightarrow> string list \<Rightarrow> bool" where
  "one_skip edits (a # as) (b # bs) =
     (if a = b then one_skip edits as bs
      else if 1 < Suc edits then False else one_skip (Suc edits) (a # as) bs)"
| "one_skip edits _ _ = True"

definition edit_distance_at_most_one :: "string \<Rightarrow> string \<Rightarrow> bool" where
  "edit_distance_at_most_one s t =
     (let a = py_chars s; b = py_chars t
      in if a = b then True
         else if 1 < length a - length b \<or> 1 < length b - length a then False
         else if length a = length b then length (filter (\<lambda>(x, y). x \<noteq> y) (zip a b)) \<le> 1
         else if length b < length a then one_skip 0 b a else one_skip 0 a b)"

definition canonicalize_known_preference_query_object :: "charset \<Rightarrow> string \<Rightarrow> string list \<Rightarrow> string option" where
  "canonicalize_known_preference_query_object u raw candidates =
     (let c = canonicalize_preference u (strip (squeezed u raw)); k = norm_cmp u c;
          cleaned = map (\<lambda>x. strip (squeezed u x)) candidates;
          exact = dedupe u (filter (\<lambda>x. norm_cmp u x = k) cleaned);
          near = dedupe u (filter (\<lambda>x. norm_cmp u x \<noteq> [] \<and> norm_cmp u x \<noteq> k \<and> 5 \<le> py_len (norm_cmp u x)
                   \<and> \<not> looks_like_technical_concept u x \<and> edit_distance_at_most_one k (norm_cmp u x)) cleaned)
      in if k = [] \<or> py_len k < 5 \<or> looks_like_technical_concept u c then None
         else case exact of
             [x] \<Rightarrow> Some x
           | _ # _ \<Rightarrow> Some c
           | [] \<Rightarrow> (case near of [x] \<Rightarrow> Some x | _ \<Rightarrow> None))"

section \<open>Contradictions\<close>

definition preference_conflicts :: "charset \<Rightarrow> string \<Rightarrow> string \<Rightarrow> bool" where
  "preference_conflicts u x y =
     (let a = canonicalize_preference u x; b = canonicalize_preference u y
      in same_norm u a b \<or> share (positive_preference_terms u a) (positive_preference_terms u b))"

definition conflicting_preference_records :: "profile_env \<Rightarrow> string \<Rightarrow> store \<Rightarrow> memory_record list" where
  "conflicting_preference_records e v st =
     filter (\<lambda>r. confirmed_profile r
         \<and> (in_slot ''self'' ''preference'' r \<or> in_slot ''self'' ''negative_preference'' r)
         \<and> md_text ''value'' r \<noteq> [] \<and> preference_conflicts (pe_chars e) (md_text ''value'' r) v)
       (both_types e 200 st)"

definition resolve_preference_conflicts :: "profile_env \<Rightarrow> string \<Rightarrow> string \<Rightarrow> profile_world \<Rightarrow> profile_world" where
  "resolve_preference_conflicts e v rel w =
     (let opposite = (if rel = ''preference'' then ''negative_preference'' else ''preference'')
      in drop_records e ''preference_conflict_resolved''
           (filter (\<lambda>r. md_get ''relation'' r = Some opposite) (conflicting_preference_records e v (pw_store w))) w)"

definition delete_canonical_alias_preference_records ::
  "profile_env \<Rightarrow> string \<Rightarrow> string \<Rightarrow> profile_world \<Rightarrow> profile_world" where
  "delete_canonical_alias_preference_records e v rel w =
     (let u = pe_chars e; c = norm_cmp u (canonicalize_preference u v)
      in drop_records e ''preference_alias_canonicalized''
           (filter (\<lambda>r. md_get ''relation'' r = Some rel \<and> norm_cmp u (md_text ''value'' r) \<noteq> c
                \<and> norm_cmp u (canonicalize_preference u (md_text ''value'' r)) = c)
              (conflicting_preference_records e v (pw_store w))) w)"

definition resolve_skill_conflicts :: "profile_env \<Rightarrow> string \<Rightarrow> string \<Rightarrow> profile_world \<Rightarrow> profile_world" where
  "resolve_skill_conflicts e v rel w =
     (let opposite = (if rel = ''skill'' then ''negative_skill'' else ''skill'')
      in drop_records e ''skill_conflict_resolved''
           (filter (\<lambda>r. confirmed_profile r \<and> in_slot ''self'' opposite r
                \<and> same_norm (pe_chars e) (md_text ''value'' r) v)
              (profile_search e FACT 200 (pw_store w))) w)"

section \<open>The automatic save\<close>

definition AUTO_CONTENT :: "string \<Rightarrow> (string \<times> string) list" where
  "AUTO_CONTENT v =
     [(''occupation'', (vn ''b~u1ea1n l~xe0 '') @ v), (''preference'', (vn ''b~u1ea1n th~xedch '') @ v), (''goal'', (vn ''m~u1ee5c ti~xeau c~u1ee7a b~u1ea1n l~xe0 '') @ v),
      (''wants_to_marry'', (vn ''b~u1ea1n mu~u1ed1n c~u01b0~u1edbi '') @ v), (''wants_to_eat'', (vn ''b~u1ea1n mu~u1ed1n ~u0103n '') @ v),
      (''temporal_today'', (vn ''h~xf4m nay b~u1ea1n mu~u1ed1n '') @ v), (''learning_focus'', (vn ''b~u1ea1n ~u0111ang h~u1ecdc '') @ v),
      (''habit'', (vn ''b~u1ea1n hay '') @ v), (''skill'', (vn ''b~u1ea1n bi~u1ebft '') @ v),
      (''household_pet'', (vn ''nh~xe0 b~u1ea1n c~xf3 nu~xf4i '') @ v), (''negative_preference'', (vn ''b~u1ea1n kh~xf4ng th~xedch '') @ v),
      (''negative_skill'', (vn ''b~u1ea1n kh~xf4ng bi~u1ebft '') @ v), (''goal_focus'', (vn ''m~u1ee5c ti~xeau ch~xednh c~u1ee7a b~u1ea1n l~xe0 '') @ v)]"

definition auto_content :: "string \<Rightarrow> string \<Rightarrow> string" where
  "auto_content rel v = (case map_of (AUTO_CONTENT v) rel of Some t \<Rightarrow> t | None \<Rightarrow> rel @ '': '' @ v)"

definition is_preference :: "string \<Rightarrow> bool" where
  "is_preference rel = (rel = ''preference'' \<or> rel = ''negative_preference'')"

definition auto_saved_value :: "charset \<Rightarrow> auto_candidate \<Rightarrow> string" where
  "auto_saved_value u c =
     (if is_preference (ac_relation c) then canonicalize_preference u (ac_value c) else ac_value c)"

definition auto_metadata :: "charset \<Rightarrow> auto_candidate \<Rightarrow> kwargs" where
  "auto_metadata u c =
     v2_metadata ''self'' (ac_relation c) (auto_saved_value u c) (ac_text c)
     @ (case present (ac_kind c) of
          Some k \<Rightarrow> if ac_relation c = ''preference'' then [(''preference_kind'', VStr k)] else []
        | None \<Rightarrow> [])"

definition save_auto_profile_fact ::
  "profile_env \<Rightarrow> string \<Rightarrow> auto_candidate \<Rightarrow> profile_world \<Rightarrow> bool \<times> profile_world" where
  "save_auto_profile_fact e sid c w =
     (let u = pe_chars e; rel = ac_relation c; v = auto_saved_value u c;
          w' = (if is_preference rel then delete_canonical_alias_preference_records e v rel w else w);
          ts = [''user_profile'', ''self'', rel] @ (if rel = ''preference'' then [''interest''] else [])
      in saved w' (agent_save e sid (if rel = ''preference'' then PREFERENCE else FACT) (auto_content rel v) ts
                     (if rel = ''preference'' then 7 / 10 else 4 / 5) (19 / 20) (auto_metadata u c) w'))"

section \<open>The snapshot\<close>

record profile_snapshot =
  sn_name :: "string option"
  occupation :: "string list"
  sn_skills :: "string list"
  learning :: "string list"
  goals :: "string list"
  marry_targets :: "string list"
  eat_desires :: "string list"
  today_intentions :: "string list"
  preferences_personal :: "string list"
  preferences_professional :: "string list"
  habits :: "string list"
  pets :: "string list"
  relations :: "(string \<times> string) list"
  dislikes :: "string list"
  affections :: "string list"
  external_affections :: "string list"
  negative_affections :: "string list"
  negative_external_affections :: "string list"
  previous_names :: "string list"
  negative_skills :: "string list"
  negative_goals :: "string list"
  current_focus :: "string option"
  favorite_food :: "string option"
  favorite_general :: "string option"
  comparatives :: "(string \<times> string) list"

definition empty_snapshot :: profile_snapshot where
  "empty_snapshot =
     \<lparr>sn_name = None, occupation = [], sn_skills = [], learning = [], goals = [], marry_targets = [],
      eat_desires = [], today_intentions = [], preferences_personal = [], preferences_professional = [],
      habits = [], pets = [], relations = [], dislikes = [], affections = [], external_affections = [],
      negative_affections = [], negative_external_affections = [], previous_names = [], negative_skills = [],
      negative_goals = [], current_focus = None, favorite_food = None, favorite_general = None,
      comparatives = []\<rparr>"

definition snapshot_name :: "charset \<Rightarrow> string \<Rightarrow> profile_snapshot \<Rightarrow> profile_snapshot" where
  "snapshot_name u v s =
     (let s' = (case present (sn_name s) of
          Some n \<Rightarrow> if same_norm u n v then s else s\<lparr>previous_names := add_value u n (previous_names s)\<rparr>
        | None \<Rightarrow> s)
      in s'\<lparr>sn_name := Some v\<rparr>)"

definition snapshot_self :: "profile_env \<Rightarrow> memory_record \<Rightarrow> string \<Rightarrow> string \<Rightarrow> profile_snapshot \<Rightarrow> profile_snapshot" where
  "snapshot_self e r rel v s =
     (let u = pe_chars e
      in if rel = ''name'' then snapshot_name u v s
         else if rel = ''negative_preference'' then s\<lparr>dislikes := add_value u v (dislikes s)\<rparr>
         else if rel = ''affection'' then s\<lparr>affections := add_value u (canonical_person_name u v) (affections s)\<rparr>
         else if rel = ''negative_affection'' then
           s\<lparr>negative_affections := add_value u (canonical_person_name u v) (negative_affections s)\<rparr>
         else if rel = ''occupation'' then s\<lparr>occupation := add_value u v (occupation s)\<rparr>
         else if rel = ''skill'' then s\<lparr>sn_skills := add_value u v (sn_skills s)\<rparr>
         else if rel = ''negative_skill'' then s\<lparr>negative_skills := add_value u v (negative_skills s)\<rparr>
         else if rel = ''learning_focus'' then s\<lparr>learning := add_value u v (learning s)\<rparr>
         else if rel = ''goal'' then s\<lparr>goals := add_value u v (goals s)\<rparr>
         else if rel = ''negative_goal'' then s\<lparr>negative_goals := add_value u v (negative_goals s)\<rparr>
         else if rel = ''wants_to_marry'' then s\<lparr>marry_targets := add_value u v (marry_targets s)\<rparr>
         else if rel = ''wants_to_eat'' then s\<lparr>eat_desires := add_value u v (eat_desires s)\<rparr>
         else if rel = ''temporal_today'' then
           (if md_get ''date_scope'' r = Some (pe_today e)
            then s\<lparr>today_intentions := add_value u v (today_intentions s)\<rparr> else s)
         else if rel = ''goal_focus'' then s\<lparr>current_focus := Some v, goals := add_value u v (goals s)\<rparr>
         else if rel = ''favorite'' then
           (if md_get ''favorite_domain'' r = Some ''food'' then s\<lparr>favorite_food := Some v\<rparr>
            else s\<lparr>favorite_general := Some v\<rparr>)
         else if rel = ''comparative'' then
           (let p = (v, md_text ''compared_to'' r)
            in if p \<in> set (comparatives s) then s else s\<lparr>comparatives := comparatives s @ [p]\<rparr>)
         else if rel = ''preference'' then
           (if is_polluted_preference u v then s
            else if md_get ''preference_kind'' r = Some ''professional'' then
              s\<lparr>preferences_professional := add_value u v (preferences_professional s)\<rparr>
            else s\<lparr>preferences_personal := add_value u v (preferences_personal s)\<rparr>)
         else if rel = ''habit'' then s\<lparr>habits := add_value u v (habits s)\<rparr>
         else if rel = ''household_pet'' then s\<lparr>pets := add_value u v (pets s)\<rparr>
         else s)"

definition snapshot_external :: "charset \<Rightarrow> string \<Rightarrow> string \<Rightarrow> profile_snapshot \<Rightarrow> profile_snapshot" where
  "snapshot_external u rel v s =
     (if rel = ''affection_to_user'' then
        s\<lparr>external_affections := add_value u (canonical_person_name u v) (external_affections s)\<rparr>
      else if rel = ''affection_to_user_negative'' then
        s\<lparr>negative_external_affections := add_value u (canonical_person_name u v) (negative_external_affections s)\<rparr>
      else s)"

definition snapshot_relation :: "memory_record \<Rightarrow> string \<Rightarrow> profile_snapshot \<Rightarrow> profile_snapshot" where
  "snapshot_relation r v s =
     (let p = (case md_get ''relation_label'' r of Some l \<Rightarrow> l | None \<Rightarrow> vn ''ng~u01b0~u1eddi li~xean quan'', v)
      in if p \<in> set (relations s) then s else s\<lparr>relations := relations s @ [p]\<rparr>)"

definition snapshot_step :: "profile_env \<Rightarrow> memory_record \<Rightarrow> profile_snapshot \<Rightarrow> profile_snapshot" where
  "snapshot_step e r s =
     (let subj = md_text ''subject'' r; rel = md_text ''relation'' r; v = md_text ''value'' r
      in if v = [] then s
         else if rel \<noteq> ''comparative'' \<and> is_dirty_value (pe_chars e) v then s
         else if subj = ''self'' then snapshot_self e r rel v s
         else if subj = ''external'' then snapshot_external (pe_chars e) rel v s
         else if subj = ''relation'' \<and> rel = ''name'' then snapshot_relation r v s
         else s)"

text \<open>
  After the scan: the current name is not a previous one, a skill has one polarity, a focus that
  is no longer a goal is dropped, and the winner of a comparison is a preference.
\<close>

definition settle_names :: "charset \<Rightarrow> profile_snapshot \<Rightarrow> profile_snapshot" where
  "settle_names u s =
     (case present (sn_name s) of
        Some x \<Rightarrow> s\<lparr>previous_names := filter (\<lambda>n. \<not> same_norm u n x) (previous_names s)\<rparr>
      | None \<Rightarrow> s)"

definition settle_skills :: "charset \<Rightarrow> profile_snapshot \<Rightarrow> profile_snapshot" where
  "settle_skills u s =
     (if negative_skills s = [] then s
      else let ns = filter (\<lambda>x. \<not> known u x (sn_skills s)) (negative_skills s)
           in s\<lparr>negative_skills := ns, sn_skills := filter (\<lambda>x. \<not> known u x ns) (sn_skills s)\<rparr>)"

definition settle_focus :: "charset \<Rightarrow> profile_snapshot \<Rightarrow> profile_snapshot" where
  "settle_focus u s =
     (case present (current_focus s) of
        Some x \<Rightarrow> if known u x (goals s) then s else s\<lparr>current_focus := None\<rparr>
      | None \<Rightarrow> s)"

definition settle_comparatives :: "charset \<Rightarrow> profile_snapshot \<Rightarrow> profile_snapshot" where
  "settle_comparatives u s =
     s\<lparr>preferences_personal := fold (\<lambda>(w, l). add_value u w) (comparatives s) (preferences_personal s)\<rparr>"

definition confirmed_records :: "profile_env \<Rightarrow> store \<Rightarrow> memory_record list" where
  "confirmed_records e st = sort_key created_at (filter confirmed_profile (both_types e 200 st))"

definition collect_profile_snapshot :: "profile_env \<Rightarrow> store \<Rightarrow> profile_snapshot" where
  "collect_profile_snapshot e st =
     (let u = pe_chars e
      in settle_comparatives u (settle_focus u (settle_skills u (settle_names u
           (fold (snapshot_step e) (confirmed_records e st) empty_snapshot)))))"

section \<open>Removals that name a value of the snapshot\<close>

definition delete_snapshot_value ::
  "profile_env \<Rightarrow> (profile_snapshot \<Rightarrow> string list) \<Rightarrow> string \<Rightarrow> string \<Rightarrow> profile_world \<Rightarrow> string option \<times> profile_world" where
  "delete_snapshot_value e field rel v w =
     (case find (\<lambda>x. same_norm (pe_chars e) x v) (field (collect_profile_snapshot e (pw_store w))) of
        None \<Rightarrow> (None, w)
      | Some x \<Rightarrow> (Some x, delete_profile_records e ''self'' rel v w))"

definition delete_temporal_today_fact :: "profile_env \<Rightarrow> string \<Rightarrow> profile_world \<Rightarrow> string option \<times> profile_world" where
  "delete_temporal_today_fact e v w = delete_snapshot_value e today_intentions ''temporal_today'' v w"

definition delete_wants_to_eat_fact :: "profile_env \<Rightarrow> string \<Rightarrow> profile_world \<Rightarrow> string option \<times> profile_world" where
  "delete_wants_to_eat_fact e v w = delete_snapshot_value e eat_desires ''wants_to_eat'' v w"

end
