(* ===== verification/Profile_Replies.thy ===== *)
theory Profile_Replies
  imports Profile_Snapshot
begin

text \<open>
  The replies of \<open>conversation/profile_memory.py\<close> that need no store: confirmations,
  acknowledgements, refusals and clarifications.
\<close>

definition prompt_label :: "fact_candidate \<Rightarrow> string" where
  "prompt_label c = (case fc_label c of Some l \<Rightarrow> l | None \<Rightarrow> ''None'')"

definition ack_label :: "fact_candidate \<Rightarrow> string" where
  "ack_label c = text_or (fc_label c) (vn ''ng~u01b0~u1eddi th~xe2n'')"

definition build_confirmation_prompt :: "fact_candidate \<Rightarrow> string" where
  "build_confirmation_prompt c =
     (if fc_subject c = ''self'' then
       (let intro = (vn ''T~xf4i hi~u1ec3u ~u0111~xe2y l~xe0 th~xf4ng tin v~u1ec1 b~u1ea1n'') in
        (let fact_desc = (vn ''t~xean c~u1ee7a b~u1ea1n l~xe0 '' @ fc_value c) in
         (intro @ vn '': ~x22'' @ fact_desc @ vn ''~x22. B~u1ea1n mu~u1ed1n t~xf4i l~u01b0u kh~xf4ng?'')))
      else
       (let intro = (vn ''T~xf4i hi~u1ec3u ~u0111~xe2y l~xe0 th~xf4ng tin li~xean quan ~u0111~u1ebfn b~u1ea1n'') in
        (let fact_desc = (prompt_label c @ vn '' c~u1ee7a b~u1ea1n t~xean l~xe0 '' @ fc_value c) in
         (intro @ vn '': ~x22'' @ fact_desc @ vn ''~x22. B~u1ea1n mu~u1ed1n t~xf4i l~u01b0u kh~xf4ng?''))))"

definition preference_ack :: "charset \<Rightarrow> string \<Rightarrow> string" where
  "preference_ack u value =
     (let value = (canonicalize_preference u value) in
      (let v = cs_str_lower u value in
       (let base = (vn ''~u0110~xe3 nh~u1edb l~xe0 b~u1ea1n th~xedch '' @ value @ ''.'') in
        (if (contains ''cafe'' v \<or> contains (vn ''c~xe0 ph~xea'') v) then
          (base @ vn '' C~xe0 ph~xea c~xf3 th~u1ec3 gi~xfap b~u1ea1n t~u1ec9nh t~xe1o h~u01a1n khi h~u1ecdc t~u1eadp v~xe0 l~xe0m vi~u1ec7c, nh~u01b0ng n~xean u~u1ed1ng v~u1eeba ph~u1ea3i, nh~u1ea5t l~xe0 bu~u1ed5i chi~u1ec1u/t~u1ed1i.'')
         else if contains (vn ''ph~u01b0~u1ee3t'') v then
          (base @ vn '' Khi n~xf3i v~u1ec1 l~u1ecbch tr~xecnh ho~u1eb7c di chuy~u1ec3n xa, m~xecnh s~u1ebd ~u01b0u ti~xean nh~u1eafc b~u1ea1n chu~u1ea9n b~u1ecb an to~xe0n, th~u1eddi ti~u1ebft v~xe0 th~u1eddi gian ngh~u1ec9.'')
         else if (contains (vn ''th~u1ec3 thao'') v \<or> contains ''the thao'' v) then
          (base @ vn '' ~u0110~xe2y l~xe0 th~xf3i quen t~u1ed1t cho s~u1ee9c kh~u1ecfe n~u1ebfu duy tr~xec ~u0111~u1ec1u v~xe0 tr~xe1nh t~u1eadp qu~xe1 s~u1ee9c.'')
         else
          (base @ vn '' M~xecnh s~u1ebd t~xednh ~u0111~u1ebfn s~u1edf th~xedch n~xe0y khi g~u1ee3i ~xfd nh~u1eefng vi~u1ec7c li~xean quan.'')))))"

definition build_auto_ack_message :: "charset \<Rightarrow> auto_candidate \<Rightarrow> string" where
  "build_auto_ack_message u c =
     (let rel = ac_relation c in
      (let value = ac_value c in
       (if rel = ''preference'' then
         preference_ack u value
        else if rel = ''skill'' then
         (vn ''~u0110~xe3 nh~u1edb l~xe0 b~u1ea1n bi~u1ebft '' @ value @ vn ''. M~xecnh s~u1ebd t~xednh ~u0111~u1ebfn k~u1ef9 n~u0103ng n~xe0y khi g~u1ee3i ~xfd nh~u1eefng vi~u1ec7c li~xean quan.'')
        else if rel = ''occupation'' then
         (vn ''~u0110~xe3 nh~u1edb c~xf4ng vi~u1ec7c/l~u0129nh v~u1ef1c c~u1ee7a b~u1ea1n l~xe0 '' @ value @ vn ''. Th~xf4ng tin n~xe0y gi~xfap m~xecnh ~u01b0u ti~xean ng~u1eef c~u1ea3nh k~u1ef9 thu~u1eadt, AI agent, LLM v~xe0 workflow build s~u1ea3n ph~u1ea9m khi h~u1ed7 tr~u1ee3 b~u1ea1n.'')
        else if rel = ''learning_focus'' then
         (vn ''~u0110~xe3 nh~u1edb b~u1ea1n ~u0111ang h~u1ecdc '' @ value @ vn ''. M~xecnh c~xf3 th~u1ec3 gi~u1ea3i th~xedch theo h~u01b0~u1edbng th~u1ef1c h~xe0nh h~u01a1n khi ph~xf9 h~u1ee3p.'')
        else if rel = ''goal'' then
         (vn ''~u0110~xe3 nh~u1edb m~u1ee5c ti~xeau c~u1ee7a b~u1ea1n l~xe0 '' @ value @ vn ''. M~xecnh s~u1ebd ~u01b0u ti~xean g~u1ee3i ~xfd g~u1ea7n v~u1edbi m~u1ee5c ti~xeau ~u0111~xf3.'')
        else if rel = ''habit'' then
         (vn ''~u0110~xe3 nh~u1edb l~xe0 b~u1ea1n hay '' @ value @ vn ''. Khi n~xf3i v~u1ec1 ph~u01b0~u1ee3t ho~u1eb7c di chuy~u1ec3n xa, m~xecnh s~u1ebd ~u01b0u ti~xean nh~u1eafc ~u0111~u1ebfn an to~xe0n, ~u0111~u1ed3 b~u1ea3o h~u1ed9, th~u1eddi ti~u1ebft v~xe0 l~u1ecbch tr~xecnh ngh~u1ec9 ng~u01a1i.'')
        else if rel = ''household_pet'' then
         (vn ''~u0110~xe3 nh~u1edb nh~xe0 b~u1ea1n c~xf3 nu~xf4i m~u1ed9t con '' @ value @ vn ''. M~xecnh s~u1ebd t~xednh ~u0111~u1ebfn ~u0111i~u1ec1u n~xe0y khi tr~xf2 chuy~u1ec7n v~u1ec1 th~xfa c~u01b0ng ho~u1eb7c l~u1ecbch sinh ho~u1ea1t c~u1ee7a b~u1ea1n.'')
        else
         (vn ''~u0110~xe3 nh~u1edb '' @ rel @ '': '' @ value @ ''.''))))"

definition build_profile_fact_ack :: "fact_candidate \<Rightarrow> string" where
  "build_profile_fact_ack c =
     (if fc_subject c = ''self'' then
       (vn ''~u0110~xe3 nh~u1edb t~xean b~u1ea1n l~xe0 '' @ fc_value c @ ''.'')
      else
       (let label = ack_label c in
        (vn ''~u0110~xe3 nh~u1edb '' @ label @ vn '' c~u1ee7a b~u1ea1n t~xean l~xe0 '' @ fc_value c @ ''.'')))"

definition build_profile_conflict_message :: "fact_candidate \<Rightarrow> string \<Rightarrow> string" where
  "build_profile_conflict_message c existing_value =
     (if fc_subject c = ''self'' then
       (if existing_value = fc_value c then
         (vn ''M~xecnh v~u1eabn ~u0111ang nh~u1edb t~xean b~u1ea1n l~xe0 '' @ existing_value @ ''.'')
        else
         (vn ''M~xecnh ~u0111ang nh~u1edb t~xean b~u1ea1n l~xe0 '' @ existing_value @ vn ''. N~u1ebfu mu~u1ed1n ~u0111~u1ed5i, h~xe3y n~xf3i r~xf5, v~xed d~u1ee5: ~x22s~u1eeda t~xean t~xf4i th~xe0nh '' @ fc_value c @ vn ''~x22.''))
      else
       (let label = ack_label c in
        (if existing_value = fc_value c then
          (vn ''M~xecnh v~u1eabn ~u0111ang nh~u1edb '' @ label @ vn '' c~u1ee7a b~u1ea1n t~xean l~xe0 '' @ existing_value @ ''.'')
         else
          (vn ''M~xecnh ~u0111ang nh~u1edb '' @ label @ vn '' c~u1ee7a b~u1ea1n t~xean l~xe0 '' @ existing_value @ vn ''. N~u1ebfu mu~u1ed1n ~u0111~u1ed5i, h~xe3y n~xf3i r~xf5, v~xed d~u1ee5: ~x22s~u1eeda '' @ label @ vn '' c~u1ee7a t~xf4i th~xe0nh '' @ fc_value c @ vn ''~x22.''))))"

definition build_blocked_value_response :: "blocked_attempt \<Rightarrow> string" where
  "build_blocked_value_response b =
     (vn ''T~xf4i hi~u1ec3u b~u1ea1n ~u0111ang n~xf3i v~u1ec1 '' @ ba_value b @ vn '', nh~u01b0ng ~u0111~xe2y l~xe0 n~u1ed9i dung nh~u1ea1y c~u1ea3m/c~xf3 r~u1ee7i ro nghi~xeam tr~u1ecdng v~u1ec1 s~u1ee9c kh~u1ecfe ho~u1eb7c ph~xe1p l~xfd. T~xf4i s~u1ebd kh~xf4ng l~u01b0u n~xf3 nh~u01b0 m~u1ed9t th~xf4ng tin h~u1ed3 s~u01a1 th~xf4ng th~u01b0~u1eddng. N~u1ebfu b~u1ea1n ~u0111ang n~xf3i v~u1ec1 ch~u1ee7 ~u0111~u1ec1 n~xe0y trong ng~u1eef c~u1ea3nh nghi~xean c~u1ee9u, vi~u1ebft n~u1ed9i dung, ho~u1eb7c c~u1ea7n h~u1ed7 tr~u1ee3 an to~xe0n, h~xe3y n~xf3i r~xf5 h~u01a1n.'')"

definition build_person_affinity_response :: "string \<Rightarrow> string" where
  "build_person_affinity_response value =
     (vn ''M~xecnh hi~u1ec3u b~u1ea1n ~u0111ang n~xf3i v~u1ec1 '' @ value @ vn '' nh~u01b0 m~u1ed9t ng~u01b0~u1eddi, n~xean m~xecnh s~u1ebd kh~xf4ng l~u01b0u ~u0111~xe2y l~xe0 s~u1edf th~xedch th~xf4ng th~u01b0~u1eddng. N~u1ebfu '') @ value @ (vn '' l~xe0 ng~u01b0~u1eddi y~xeau/b~u1ea1n g~xe1i/b~u1ea1n trai c~u1ee7a b~u1ea1n, h~xe3y n~xf3i r~xf5, v~xed d~u1ee5: ~x22ng~u01b0~u1eddi y~xeau c~u1ee7a t~xf4i l~xe0 '' @ value @ vn ''~x22.'')"

definition build_near_miss_response :: "string \<Rightarrow> string" where
  "build_near_miss_response value =
     (vn ''M~xecnh hi~u1ec3u ~u0111~xe2y c~xf3 th~u1ec3 l~xe0 mong mu~u1ed1n ng~u1eafn h~u1ea1n ('' @ value @ vn ''). B~u1ea1n mu~u1ed1n m~xecnh l~u01b0u n~xf3 nh~u01b0 m~u1ed9t s~u1edf th~xedch/k~u1ebf ho~u1ea1ch l~xe2u d~xe0i kh~xf4ng, hay ch~u1ec9 ~u0111ang n~xf3i v~u1ec1 hi~u1ec7n t~u1ea1i?'')"

definition build_followup_response :: "bool \<Rightarrow> string" where
  "build_followup_response has_context =
     (if has_context then
       (vn ''Hi~u1ec7n t~u1ea1i m~xecnh ch~u1ec9 th~u1ea5y c~xe1c th~xf4ng tin ~u0111~xf3 trong h~u1ed3 s~u01a1 c~u1ee7a b~u1ea1n.'')
      else
       (vn ''B~u1ea1n mu~u1ed1n h~u1ecfi ~x22g~xec n~u1eefa~x22 v~u1ec1 h~u1ed3 s~u01a1 c~u1ee7a b~u1ea1n? V~xed d~u1ee5: s~u1edf th~xedch, m~u1ee5c ti~xeau, k~u1ebf ho~u1ea1ch h~xf4m nay, ho~u1eb7c quan h~u1ec7.''))"

definition build_negation_no_affection_response :: "string" where
  "build_negation_no_affection_response =
     (vn ''M~xecnh hi~u1ec3u l~xe0 hi~u1ec7n t~u1ea1i b~u1ea1n kh~xf4ng mu~u1ed1n l~u01b0u th~xf4ng tin v~u1ec1 ng~u01b0~u1eddi b~u1ea1n th~xedch. M~xecnh s~u1ebd kh~xf4ng l~u01b0u g~xec t~u1eeb c~xe2u n~xe0y.'')"

definition build_affection_explanation_response :: "string \<Rightarrow> string" where
  "build_affection_explanation_response value =
     (vn ''M~xecnh hi~u1ec3u b~u1ea1n ~u0111ang gi~u1ea3i th~xedch v~u1ec1 t~xecnh c~u1ea3m v~u1edbi '' @ value @ vn ''. M~xecnh s~u1ebd kh~xf4ng l~u01b0u ~u0111~xe2y l~xe0 s~u1edf th~xedch th~xf4ng th~u01b0~u1eddng. N~u1ebfu b~u1ea1n mu~u1ed1n l~u01b0u r~xf5 quan h~u1ec7, h~xe3y n~xf3i: ~x22ng~u01b0~u1eddi y~xeau c~u1ee7a t~xf4i l~xe0 '' @ value @ vn ''~x22 ho~u1eb7c ~x22b~u1ea1n g~xe1i c~u1ee7a t~xf4i l~xe0 '' @ value @ vn ''~x22.'')"

definition build_affection_relation_response :: "string \<Rightarrow> string" where
  "build_affection_relation_response value =
     (vn ''M~xecnh hi~u1ec3u b~u1ea1n c~xf3 t~xecnh c~u1ea3m v~u1edbi '' @ value @ vn ''. M~xecnh s~u1ebd kh~xf4ng l~u01b0u ~u0111~xe2y l~xe0 s~u1edf th~xedch th~xf4ng th~u01b0~u1eddng. N~u1ebfu b~u1ea1n mu~u1ed1n l~u01b0u r~xf5 quan h~u1ec7, h~xe3y n~xf3i: ~x22ng~u01b0~u1eddi y~xeau c~u1ee7a t~xf4i l~xe0 '' @ value @ vn ''~x22 ho~u1eb7c ~x22b~u1ea1n g~xe1i c~u1ee7a t~xf4i l~xe0 '' @ value @ vn ''~x22.'')"

definition build_one_sided_affection_response :: "string \<Rightarrow> string" where
  "build_one_sided_affection_response value =
     (vn ''M~xecnh hi~u1ec3u b~u1ea1n ~u0111ang n~xf3i v~u1ec1 t~xecnh c~u1ea3m ~u0111~u01a1n ph~u01b0~u01a1ng v~u1edbi '' @ value @ vn ''. M~xecnh s~u1ebd kh~xf4ng l~u01b0u ~u0111~xe2y l~xe0 s~u1edf th~xedch th~xf4ng th~u01b0~u1eddng. N~u1ebfu b~u1ea1n mu~u1ed1n l~u01b0u r~xf5 quan h~u1ec7, h~xe3y n~xf3i: ~x22ng~u01b0~u1eddi y~xeau c~u1ee7a t~xf4i l~xe0 '' @ value @ vn ''~x22 ho~u1eb7c ~x22ng~u01b0~u1eddi t~xf4i th~xedch t~xean l~xe0 '' @ value @ vn ''~x22.'')"

definition build_negative_preference_ack :: "charset \<Rightarrow> string \<Rightarrow> string" where
  "build_negative_preference_ack u value =
     (let value = (canonicalize_preference u value) in
      (vn ''~u0110~xe3 nh~u1edb l~xe0 b~u1ea1n kh~xf4ng th~xedch '' @ value @ vn ''. M~xecnh s~u1ebd t~xednh ~u0111~u1ebfn ~u0111i~u1ec1u n~xe0y khi g~u1ee3i ~xfd nh~u1eefng vi~u1ec7c li~xean quan.''))"

definition build_negative_skill_ack :: "string \<Rightarrow> string" where
  "build_negative_skill_ack value =
     (vn ''~u0110~xe3 nh~u1edb l~xe0 b~u1ea1n kh~xf4ng bi~u1ebft '' @ value @ vn ''. M~xecnh s~u1ebd kh~xf4ng x~u1ebfp ~u0111~xe2y l~xe0 k~u1ef9 n~u0103ng b~u1ea1n c~xf3.'')"

definition build_negative_desire_response :: "string \<Rightarrow> string" where
  "build_negative_desire_response value =
     (vn ''M~xecnh hi~u1ec3u hi~u1ec7n t~u1ea1i b~u1ea1n kh~xf4ng mu~u1ed1n '' @ value @ vn ''. ~u0110~xe2y c~xf3 v~u1ebb l~xe0 tr~u1ea1ng th~xe1i/mong mu~u1ed1n ng~u1eafn h~u1ea1n, n~xean m~xecnh s~u1ebd kh~xf4ng l~u01b0u nh~u01b0 s~u1edf th~xedch l~xe2u d~xe0i.'')"

definition build_affection_memory_ack :: "string \<Rightarrow> string" where
  "build_affection_memory_ack value =
     (vn ''~u0110~xe3 nh~u1edb l~xe0 b~u1ea1n c~xf3 t~xecnh c~u1ea3m/th~xedch '' @ value @ vn ''. M~xecnh s~u1ebd kh~xf4ng x~u1ebfp th~xf4ng tin n~xe0y v~xe0o s~u1edf th~xedch th~xf4ng th~u01b0~u1eddng.'')"

definition build_external_affection_ack :: "string \<Rightarrow> string" where
  "build_external_affection_ack admirer =
     (vn ''~u0110~xe3 nh~u1edb theo th~xf4ng tin b~u1ea1n cung c~u1ea5p: '' @ admirer @ vn '' th~xedch b~u1ea1n. M~xecnh ghi nh~u1eadn ~u0111~xe2y l~xe0 th~xf4ng tin do b~u1ea1n k~u1ec3 l~u1ea1i.'')"

definition build_unrelated_external_affection_response :: "string \<Rightarrow> string \<Rightarrow> string" where
  "build_unrelated_external_affection_response subject obj =
     (vn ''M~xecnh hi~u1ec3u b~u1ea1n ~u0111ang n~xf3i v~u1ec1 vi~u1ec7c '' @ subject @ vn '' th~xedch '' @ obj @ vn '', nh~u01b0ng ~u0111~xe2y kh~xf4ng ph~u1ea3i th~xf4ng tin tr~u1ef1c ti~u1ebfp v~u1ec1 b~u1ea1n n~xean m~xecnh s~u1ebd kh~xf4ng l~u01b0u v~xe0o h~u1ed3 s~u01a1 c~u1ee7a b~u1ea1n.'')"

definition build_name_update_ack :: "charset \<Rightarrow> string \<Rightarrow> string \<Rightarrow> string" where
  "build_name_update_ack u old_name new_name =
     (if norm_cmp u old_name = norm_cmp u new_name then
       (vn ''M~xecnh v~u1eabn ~u0111ang nh~u1edb t~xean b~u1ea1n l~xe0 '' @ new_name @ ''.'')
      else
       (vn ''~u0110~xe3 c~u1eadp nh~u1eadt t~xean b~u1ea1n t~u1eeb '' @ old_name @ vn '' th~xe0nh '' @ new_name @ ''.''))"

definition build_relation_update_ack :: "string \<Rightarrow> string \<Rightarrow> string" where
  "build_relation_update_ack label new_name =
     (vn ''~u0110~xe3 c~u1eadp nh~u1eadt '' @ label @ vn '' c~u1ee7a b~u1ea1n th~xe0nh '' @ new_name @ ''.'')"

definition build_relation_removal_ack :: "string \<Rightarrow> string" where
  "build_relation_removal_ack label =
     (vn ''~u0110~xe3 x~xf3a th~xf4ng tin '' @ label @ vn '' c~u1ee7a b~u1ea1n.'')"

definition build_relation_removal_not_found :: "string" where
  "build_relation_removal_not_found =
     (vn ''T~xf4i ch~u01b0a l~u01b0u th~xf4ng tin v~u1ec1 ~u0111~u1ed1i t~u01b0~u1ee3ng n~xe0y.'')"

definition build_occ_correction_ack :: "string \<Rightarrow> string" where
  "build_occ_correction_ack value =
     (vn ''M~xecnh hi~u1ec3u: ~x27'' @ value @ vn ''~x27 l~xe0 ngh~u1ec1/c~xf4ng vi~u1ec7c c~u1ee7a b~u1ea1n, kh~xf4ng ph~u1ea3i t~xean. M~xecnh ~u0111~xe3 c~u1eadp nh~u1eadt l~u1ea1i.'')"

definition build_occupation_removal_ack :: "string \<Rightarrow> string" where
  "build_occupation_removal_ack value =
     (vn ''~u0110~xe3 x~xf3a th~xf4ng tin ngh~u1ec1 nghi~u1ec7p/c~xf4ng vi~u1ec7c ~x27'' @ value @ vn ''~x27 kh~u1ecfi h~u1ed3 s~u01a1 c~u1ee7a b~u1ea1n.'')"

definition build_relationship_typo_clarification :: "string \<Rightarrow> string \<Rightarrow> string" where
  "build_relationship_typo_clarification corrected_label who =
     (vn ''B~u1ea1n mu~u1ed1n n~xf3i ~x22'' @ corrected_label @ vn '' c~u1ee7a t~xf4i l~xe0 '' @ who @ vn ''~x22 ph~u1ea3i kh~xf4ng?'')"

definition build_repair_clarification :: "string" where
  "build_repair_clarification =
     (vn ''M~xecnh hi~u1ec3u l~xe0 c~xe2u tr~u1ea3 l~u1eddi tr~u01b0~u1edbc c~xf3 l~u1ed7i. B~u1ea1n mu~u1ed1n s~u1eeda ph~u1ea7n n~xe0o: s~u1edf th~xedch, k~u1ef9 n~u0103ng, m~u1ee5c ti~xeau, t~xean, hay quan h~u1ec7?'')"

definition build_delete_all_confirmation_prompt :: "string" where
  "build_delete_all_confirmation_prompt =
     (vn ''B~u1ea1n ch~u1eafc mu~u1ed1n xo~xe1 to~xe0n b~u1ed9 th~xf4ng tin m~xecnh ~u0111ang nh~u1edb v~u1ec1 b~u1ea1n kh~xf4ng? H~xe3y tr~u1ea3 l~u1eddi ~x22x~xe1c nh~u1eadn xo~xe1 k~xfd ~u1ee9c~x22 ~u0111~u1ec3 m~xecnh xo~xe1.'')"

definition build_delete_all_done :: "string" where
  "build_delete_all_done =
     (vn ''~u0110~xe3 xo~xe1 to~xe0n b~u1ed9 th~xf4ng tin m~xecnh nh~u1edb v~u1ec1 b~u1ea1n.'')"

definition build_generic_reminder_repair :: "string option \<Rightarrow> string" where
  "build_generic_reminder_repair corrected =
     (case present corrected of
        Some x \<Rightarrow> (vn ''~u0110~xfang, m~xecnh c~u1ea7n ki~u1ec3m tra l~u1ea1i th~xf4ng tin ~u0111~xe3 nh~u1edb. C~xe2u ~u0111~xfang l~xe0: '' @ x)
      | None \<Rightarrow> (vn ''M~xecnh hi~u1ec3u l~xe0 b~u1ea1n ~u0111ang nh~u1eafc m~xecnh ~u0111~xe3 b~u1ecf s~xf3t th~xf4ng tin. B~u1ea1n mu~u1ed1n m~xecnh ki~u1ec3m tra l~u1ea1i th~xf4ng tin n~xe0o?''))"

definition build_answer_feedback_repair :: "string option \<Rightarrow> string" where
  "build_answer_feedback_repair corrected =
     (case present corrected of
        Some x \<Rightarrow> (vn ''~u0110~xfang, c~xe2u tr~u1ea3 l~u1eddi tr~u01b0~u1edbc ch~u01b0a ch~xednh x~xe1c. C~xe2u ~u0111~xfang l~xe0: '' @ x)
      | None \<Rightarrow> (vn ''M~xecnh hi~u1ec3u l~xe0 c~xe2u tr~u1ea3 l~u1eddi tr~u01b0~u1edbc ch~u01b0a ~u0111~xfang. B~u1ea1n mu~u1ed1n m~xecnh s~u1eeda ph~u1ea7n n~xe0o?''))"

end
