(* ===== verification/Profile_Answer.thy ===== *)
theory Profile_Answer
  imports Profile_Replies
begin

text \<open>
  The answers of \<open>conversation/profile_memory.py\<close>: yes and no questions
  (\<open>answer_yes_no_memory_query\<close>), who someone is, and the ladder of \<open>answer_profile_query\<close>, each read
  from the snapshot or from the confirmed records.
\<close>

section \<open>Likes and skills\<close>

definition all_likes :: "profile_snapshot \<Rightarrow> string list" where
  "all_likes s = preferences_personal s @ preferences_professional s"

definition active_candidates :: "charset \<Rightarrow> profile_snapshot \<Rightarrow> string list" where
  "active_candidates u s = dedupe u (all_likes s @ dislikes s)"

definition query_object :: "charset \<Rightarrow> string \<Rightarrow> profile_snapshot \<Rightarrow> string" where
  "query_object u value s =
     (let v = canonicalize_preference u value
      in text_or (canonicalize_known_preference_query_object u v (active_candidates u s)) v)"

definition some_match :: "charset \<Rightarrow> string \<Rightarrow> string list \<Rightarrow> bool" where
  "some_match u q vs = list_ex (\<lambda>v. matches_preference_query u v q) vs"

datatype item_state = Positive | Negative | Unknown

definition preference_item_state :: "charset \<Rightarrow> string \<Rightarrow> profile_snapshot \<Rightarrow> item_state" where
  "preference_item_state u i s =
     (if known u i (negative_affections s) then Negative
      else if known u i (affections s) then Positive
      else if known u i (dislikes s) \<or> some_match u i (dislikes s) then Negative
      else if known u i (all_likes s) \<or> some_match u i (all_likes s) then Positive
      else if some_match u i (map fst (comparatives s)) then Positive
      else if (case present (favorite_food s) of Some f \<Rightarrow> matches_preference_query u f i | None \<Rightarrow> False) then Positive
      else if (case present (favorite_general s) of Some f \<Rightarrow> matches_preference_query u f i | None \<Rightarrow> False) then Positive
      else Unknown)"

definition batch_preference_text :: "string list \<Rightarrow> string list \<Rightarrow> string list \<Rightarrow> string" where
  "batch_preference_text pos neg unk =
     (let P = join_vietnamese_items pos; N = join_vietnamese_items neg; K = join_vietnamese_items unk;
          parts = (if pos = [] then [] else [(vn ''B~u1ea1n th~xedch '' @ P)])
            @ (if neg = [] then [] else [(if pos = [] then (vn ''B~u1ea1n '') else (vn ''nh~u01b0ng '')) @ (vn ''kh~xf4ng th~xedch '' @ N)])
      in if pos \<noteq> [] \<and> neg = [] \<and> unk = [] then (vn ''C~xf3, b~u1ea1n th~xedch '' @ P @ ''.'')
         else if neg \<noteq> [] \<and> pos = [] \<and> unk = [] then (vn ''Kh~xf4ng, b~u1ea1n kh~xf4ng th~xedch '' @ N @ ''.'')
         else if unk \<noteq> [] then
           (if pos \<noteq> [] \<or> neg \<noteq> [] then join '', '' parts @ (vn ''; c~xf2n '' @ K @ vn '' th~xec m~xecnh ch~u01b0a c~xf3 th~xf4ng tin.'')
            else (vn ''M~xecnh ch~u01b0a c~xf3 th~xf4ng tin v~u1ec1 '' @ K @ ''.''))
         else join '', '' parts @ ''.'')"

definition answer_batch_preference_yesno :: "charset \<Rightarrow> string list \<Rightarrow> profile_snapshot \<Rightarrow> string" where
  "answer_batch_preference_yesno u its s =
     (let is = map (\<lambda>i. query_object u i s) its;
          those = (\<lambda>k. filter (\<lambda>i. preference_item_state u i s = k) is)
      in batch_preference_text (those Positive) (those Negative) (those Unknown))"

definition favours :: "charset \<Rightarrow> string \<Rightarrow> string option \<Rightarrow> bool" where
  "favours u v f = (case present f of Some x \<Rightarrow> same_norm u x v | None \<Rightarrow> False)"

definition answer_preference_yesno :: "charset \<Rightarrow> string \<Rightarrow> profile_snapshot \<Rightarrow> string" where
  "answer_preference_yesno u value s =
     (let its = split_preference_query_items u (strip value); v = query_object u value s
      in if 2 \<le> length its then answer_batch_preference_yesno u its s
         else if strip value = ''ai'' then
           (case affections s of a # _ \<Rightarrow> (vn ''C~xf3, m~xecnh ~u0111ang nh~u1edb l~xe0 b~u1ea1n th~xedch '' @ a @ ''.'')
            | [] \<Rightarrow> (vn ''M~xecnh ch~u01b0a c~xf3 th~xf4ng tin v~u1ec1 ng~u01b0~u1eddi b~u1ea1n th~xedch.''))
         else if known u v (affections s) then (vn ''C~xf3, m~xecnh ~u0111ang nh~u1edb l~xe0 b~u1ea1n th~xedch '' @ v @ ''.'')
         else if known u v (negative_affections s) then (vn ''Kh~xf4ng, hi~u1ec7n t~u1ea1i b~u1ea1n kh~xf4ng c~xf2n th~xedch/quan t~xe2m '' @ v @ ''.'')
         else if known u v (dislikes s) \<or> some_match u v (dislikes s) then (vn ''Kh~xf4ng, b~u1ea1n t~u1eebng n~xf3i l~xe0 kh~xf4ng th~xedch '' @ v @ ''.'')
         else if known u v (all_likes s) \<or> some_match u v (all_likes s) then (vn ''C~xf3, m~xecnh ~u0111ang nh~u1edb b~u1ea1n th~xedch '' @ v @ ''.'')
         else if known u v (map fst (comparatives s)) then (vn ''C~xf3, m~xecnh ~u0111ang nh~u1edb b~u1ea1n th~xedch '' @ v @ ''.'')
         else if favours u v (favorite_food s) then (vn ''C~xf3, m~xecnh ~u0111ang nh~u1edb b~u1ea1n th~xedch '' @ v @ ''.'')
         else if favours u v (favorite_general s) then (vn ''C~xf3, m~xecnh ~u0111ang nh~u1edb b~u1ea1n th~xedch '' @ v @ ''.'')
         else if known u v (sn_skills s) then
           (vn ''M~xecnh ~u0111ang nh~u1edb b~u1ea1n bi~u1ebft '' @ v @ vn '', nh~u01b0ng ch~u01b0a l~u01b0u ~x22'' @ v @ vn ''~x22 nh~u01b0 m~u1ed9t s~u1edf th~xedch.'')
         else if known u v (eat_desires s) then
           (vn ''B~u1ea1n t~u1eebng n~xf3i mu~u1ed1n ~u0103n '' @ v @ vn '', n~xean hi~u1ec7n t~u1ea1i m~xecnh hi~u1ec3u b~u1ea1n c~xf3 h~u1ee9ng th~xfa v~u1edbi '' @ v @ vn ''. M~xecnh ch~u01b0a c~xf3 c~xe2u r~xf5 r~xe0ng r~u1eb1ng ~u0111~xf3 l~xe0 s~u1edf th~xedch l~xe2u d~xe0i.'')
         else (vn ''M~xecnh ch~u01b0a th~u1ea5y th~xf4ng tin r~u1eb1ng b~u1ea1n th~xedch '' @ v @ ''.''))"

definition batch_skill_text :: "string list \<Rightarrow> string list \<Rightarrow> string list \<Rightarrow> string" where
  "batch_skill_text have neg unk =
     join ''; ''
       ((if have = [] then [] else [(vn ''C~xf3, m~xecnh ~u0111ang nh~u1edb b~u1ea1n bi~u1ebft '') @ join '', '' have])
        @ (if neg = [] then [] else [(vn ''m~xecnh ~u0111ang nh~u1edb b~u1ea1n kh~xf4ng bi~u1ebft '') @ join '', '' neg])
        @ (if unk = [] then [] else [(vn ''m~xecnh ch~u01b0a r~xf5 v~u1ec1 '') @ join '', '' unk])) @ ''.''"

definition answer_skill_yesno :: "charset \<Rightarrow> string \<Rightarrow> profile_snapshot \<Rightarrow> string" where
  "answer_skill_yesno u v s =
     (let its = split_skill_query_items u (strip v); knows = (\<lambda>i. known u i (sn_skills s));
          lacks = (\<lambda>i. known u i (negative_skills s))
      in if 2 \<le> length its then
           batch_skill_text (filter knows its) (filter (\<lambda>i. \<not> knows i \<and> lacks i) its)
             (filter (\<lambda>i. \<not> knows i \<and> \<not> lacks i) its)
         else if knows v then (vn ''~u0110~xfang, m~xecnh ~u0111ang nh~u1edb b~u1ea1n bi~u1ebft '' @ v @ ''.'')
         else if lacks v then (vn ''Kh~xf4ng, b~u1ea1n t~u1eebng n~xf3i l~xe0 kh~xf4ng bi~u1ebft '' @ v @ ''.'')
         else if known u v (all_likes s) then (vn ''M~xecnh ~u0111ang nh~u1edb b~u1ea1n th~xedch '' @ v @ vn '', nh~u01b0ng ch~u01b0a l~u01b0u l~xe0 b~u1ea1n bi~u1ebft ~x22'' @ v @ vn ''~x22.'')
         else (vn ''M~xecnh ch~u01b0a th~u1ea5y th~xf4ng tin r~u1eb1ng b~u1ea1n bi~u1ebft '' @ v @ ''.''))"

definition answer_yes_no_memory_query :: "profile_env \<Rightarrow> string \<Rightarrow> string \<Rightarrow> store \<Rightarrow> string" where
  "answer_yes_no_memory_query e category v st =
     (let s = collect_profile_snapshot e st
      in if category = ''preference'' then answer_preference_yesno (pe_chars e) v s
         else if category = ''skill'' then answer_skill_yesno (pe_chars e) v s
         else (vn ''M~xecnh ch~u01b0a th~u1ea5y th~xf4ng tin v~u1ec1 '' @ v @ ''.''))"

section \<open>People\<close>

definition current_name_suffix :: "profile_snapshot \<Rightarrow> string" where
  "current_name_suffix s =
     (case present (sn_name s) of Some n \<Rightarrow> (vn '' Hi~u1ec7n t~u1ea1i m~xecnh ~u0111ang nh~u1edb t~xean b~u1ea1n l~xe0 '' @ n @ ''.'') | None \<Rightarrow> [])"

definition answer_entity_lookup :: "profile_env \<Rightarrow> string \<Rightarrow> store \<Rightarrow> string option" where
  "answer_entity_lookup e who st =
     (let u = pe_chars e; s = collect_profile_snapshot e st; hit = find (\<lambda>v. same_norm u v who)
      in if norm_cmp u who = [] then None
         else first_of
           [map_option (\<lambda>(l, v). (v @ vn '' l~xe0 '' @ l @ vn '' c~u1ee7a b~u1ea1n.'')) (find (\<lambda>(l, v). same_norm u v who) (relations s)),
            map_option (\<lambda>v. (v @ vn '' l~xe0 ng~u01b0~u1eddi b~u1ea1n th~xedch/quan t~xe2m.'')) (hit (affections s)),
            map_option (\<lambda>v. (v @ vn '' l~xe0 ng~u01b0~u1eddi c~xf3 t~xecnh c~u1ea3m v~u1edbi b~u1ea1n (theo th~xf4ng tin b~u1ea1n cung c~u1ea5p).'')) (hit (external_affections s)),
            (case present (sn_name s) of
               Some n \<Rightarrow> only_if (same_norm u n who) ((n @ vn '' l~xe0 t~xean c~u1ee7a b~u1ea1n.'')) | None \<Rightarrow> None),
            map_option (\<lambda>v. (v @ vn '' l~xe0 t~xean c~u0169/t~xean tr~u01b0~u1edbc ~u0111~xe2y c~u1ee7a b~u1ea1n.'' @ current_name_suffix s)) (hit (previous_names s))])"

definition resolves_to_user :: "charset \<Rightarrow> string \<Rightarrow> profile_snapshot \<Rightarrow> bool" where
  "resolves_to_user u t s =
     (is_self_word u (strip t) \<or> favours u t (sn_name s) \<or> known u t (previous_names s))"

definition self_alias_prefix :: "charset \<Rightarrow> string \<Rightarrow> profile_snapshot \<Rightarrow> string" where
  "self_alias_prefix u t s =
     (if is_self_word u (strip t) then []
      else if favours u t (sn_name s) then (t @ vn '' l~xe0 b~u1ea1n.'')
      else if known u t (previous_names s) then (t @ vn '' l~xe0 t~xean c~u0169 c~u1ee7a b~u1ea1n.'') else [])"

definition third_party_text :: "charset \<Rightarrow> string \<Rightarrow> profile_snapshot \<Rightarrow> string" where
  "third_party_text u who s =
     (if known u who (external_affections s) then (vn ''C~xf3, theo th~xf4ng tin b~u1ea1n cung c~u1ea5p th~xec '' @ who @ vn '' th~xedch b~u1ea1n.'')
      else if known u who (negative_external_affections s) then
        (vn ''Kh~xf4ng, theo th~xf4ng tin b~u1ea1n cung c~u1ea5p th~xec '' @ who @ vn '' kh~xf4ng th~xedch b~u1ea1n.'')
      else (vn ''M~xecnh kh~xf4ng bi~u1ebft '' @ who @ vn '' c~xf3 th~xedch b~u1ea1n hay kh~xf4ng n~u1ebfu b~u1ea1n ch~u01b0a cung c~u1ea5p th~xf4ng tin ~u0111~xf3.''))"

definition answer_named_affection_yesno :: "profile_env \<Rightarrow> string \<Rightarrow> string \<Rightarrow> store \<Rightarrow> string" where
  "answer_named_affection_yesno e subj obj st =
     (let u = pe_chars e; s = collect_profile_snapshot e st;
          by_user = resolves_to_user u subj s; to_user = resolves_to_user u obj s
      in if by_user \<and> \<not> to_user then
           (let p = self_alias_prefix u subj s; a = answer_yes_no_memory_query e ''preference'' obj st
            in if p = [] then a else strip (p @ '' '' @ a))
         else if to_user \<and> \<not> by_user then third_party_text u subj s
         else (vn ''M~xecnh ch~u01b0a c~xf3 th~xf4ng tin v~u1ec1 vi~u1ec7c n~xe0y.''))"

section \<open>One answer per kind of question\<close>

definition shown :: "string option \<Rightarrow> string" where
  "shown t = (case t of Some x \<Rightarrow> x | None \<Rightarrow> ''None'')"

definition query_value :: "profile_query \<Rightarrow> string" where
  "query_value q = text_or (pq_value q) []"

definition query_other :: "profile_query \<Rightarrow> string" where
  "query_other q = text_or (pq_object q) []"

text \<open>Nothing stored gets the fallback, otherwise the values between a head and a full stop.\<close>

definition listed :: "string \<Rightarrow> string list \<Rightarrow> string \<Rightarrow> string" where
  "listed head vs fallback = (if vs = [] then fallback else head @ join '', '' vs @ ''.'')"

definition enumerated :: "string \<Rightarrow> string list \<Rightarrow> string \<Rightarrow> string" where
  "enumerated head vs fallback = (if vs = [] then fallback else head @ join_vietnamese_items vs @ ''.'')"

text \<open>The first confirmed record of a slot.\<close>

definition first_value :: "string \<Rightarrow> memory_record list \<Rightarrow> string option" where
  "first_value rel rs = map_option (md_text ''value'') (find (in_slot ''self'' rel) rs)"

definition answer_relation_name :: "profile_env \<Rightarrow> profile_query \<Rightarrow> memory_record list \<Rightarrow> string" where
  "answer_relation_name e q rs =
     (case find (labelled (get_lookup_labels (pq_label q))) rs of
        Some r \<Rightarrow>
          (let l = text_or (present (md_get ''relation_label'' r)) (text_or (pq_label q) [])
           in (pe_capitalize e l @ vn '' c~u1ee7a b~u1ea1n t~xean l~xe0 '' @ md_text ''value'' r @ ''.''))
      | None \<Rightarrow> (vn ''T~xf4i ch~u01b0a c~xf3 th~xf4ng tin v~u1ec1 '' @ text_or (pq_label q) (vn ''ng~u01b0~u1eddi y~xeau/b~u1ea1n g~xe1i'') @ vn '' c~u1ee7a b~u1ea1n.''))"

definition summary_lines :: "profile_env \<Rightarrow> profile_snapshot \<Rightarrow> string list" where
  "summary_lines e s =
     (let all = (\<lambda>before vs after. if vs = [] then [] else [before @ join '', '' vs @ after]);
          one = (\<lambda>before v after. case present v of None \<Rightarrow> [] | Some x \<Rightarrow> [before @ x @ after])
      in one (vn ''- B~u1ea1n t~xean l~xe0 '') (sn_name s) ''.''
         @ all (vn ''- C~xf4ng vi~u1ec7c/l~u0129nh v~u1ef1c c~u1ee7a b~u1ea1n l~xe0 '') (occupation s) ''.''
         @ all (vn ''- B~u1ea1n bi~u1ebft '') (sn_skills s) ''.''
         @ all (vn ''- B~u1ea1n ~u0111ang h~u1ecdc '') (learning s) ''.''
         @ all (vn ''- M~u1ee5c ti~xeau c~u1ee7a b~u1ea1n l~xe0 '') (goals s) ''.''
         @ all (vn ''- B~u1ea1n th~xedch '') (preferences_personal s) ''.''
         @ all (vn ''- B~u1ea1n quan t~xe2m ~u0111~u1ebfn '') (preferences_professional s) (vn '' ~u1edf m~u1ea3ng c~xf4ng vi~u1ec7c/k~u1ef9 thu~u1eadt.'')
         @ all (vn ''- B~u1ea1n hay '') (habits s) ''.''
         @ all (vn ''- Nh~xe0 b~u1ea1n c~xf3 nu~xf4i '') (pets s) ''.''
         @ all (vn ''- B~u1ea1n kh~xf4ng bi~u1ebft '') (negative_skills s) ''.''
         @ one (vn ''- M~xf3n b~u1ea1n th~xedch ~u0103n nh~u1ea5t l~xe0 '') (favorite_food s) ''.''
         @ one (vn ''- ~u0110i~u1ec1u b~u1ea1n th~xedch nh~u1ea5t l~xe0 '') (favorite_general s) ''.''
         @ map (\<lambda>(w, l). (vn ''- B~u1ea1n th~xedch '' @ w @ vn '' h~u01a1n '' @ l @ ''.'')) (comparatives s)
         @ map (\<lambda>v. (vn ''- B~u1ea1n kh~xf4ng th~xedch '' @ v @ ''.'')) (dislikes s)
         @ all (vn ''- B~u1ea1n th~xedch/quan t~xe2m ~u0111~u1ebfn '') (affections s) ''.''
         @ all (vn ''- Theo th~xf4ng tin b~u1ea1n cung c~u1ea5p, '') (external_affections s) (vn '' th~xedch b~u1ea1n.'')
         @ map (\<lambda>(l, n). (''- '' @ pe_capitalize e l @ vn '' c~u1ee7a b~u1ea1n t~xean l~xe0 '' @ n @ ''.'')) (relations s))"

definition answer_summary :: "profile_env \<Rightarrow> profile_snapshot \<Rightarrow> string" where
  "answer_summary e s =
     (case summary_lines e s of
        [] \<Rightarrow> (vn ''T~xf4i ch~u01b0a nh~u1edb th~xf4ng tin h~u1ed3 s~u01a1 n~xe0o ~u0111~xe3 ~u0111~u01b0~u1ee3c x~xe1c nh~u1eadn v~u1ec1 b~u1ea1n.'')
      | ls \<Rightarrow> (vn ''T~xf4i ~u0111ang nh~u1edb nh~u1eefng th~xf4ng tin sau v~u1ec1 b~u1ea1n:~x0a'') @ join (vn ''~x0a'') ls)"

definition answer_occupation_yesno :: "charset \<Rightarrow> profile_query \<Rightarrow> profile_snapshot \<Rightarrow> string" where
  "answer_occupation_yesno u q s =
     (if norm_cmp u (query_value q) \<noteq> [] \<and> known u (query_value q) (occupation s)
      then (vn ''C~xf3, m~xecnh ~u0111ang nh~u1edb b~u1ea1n l~xe0 '' @ shown (pq_value q) @ ''.'')
      else (vn ''Kh~xf4ng, hi~u1ec7n m~xecnh kh~xf4ng c~xf3 th~xf4ng tin b~u1ea1n l~xe0 '' @ shown (pq_value q) @ ''.''))"

definition answer_ranking :: "profile_snapshot \<Rightarrow> string" where
  "answer_ranking s =
     (case present (favorite_general s) of
        Some f \<Rightarrow> (vn ''M~xecnh ~u0111ang nh~u1edb b~u1ea1n th~xedch '' @ f @ vn '' nh~u1ea5t.'')
      | None \<Rightarrow>
          (case present (favorite_food s) of
             Some f \<Rightarrow> (vn ''M~xecnh ~u0111ang nh~u1edb b~u1ea1n th~xedch '' @ f @ vn '' nh~u1ea5t.'')
           | None \<Rightarrow>
               listed (vn ''M~xecnh ch~u01b0a ~u0111~u1ee7 th~xf4ng tin ~u0111~u1ec3 bi~u1ebft b~u1ea1n th~xedch g~xec NH~u1ea4T, nh~u01b0ng m~xecnh ~u0111ang nh~u1edb b~u1ea1n th~xedch: '') (all_likes s)
                 (vn ''M~xecnh ch~u01b0a ~u0111~u1ee7 th~xf4ng tin ~u0111~u1ec3 bi~u1ebft b~u1ea1n th~xedch g~xec nh~u1ea5t.'')))"

definition answer_comparative :: "charset \<Rightarrow> profile_query \<Rightarrow> profile_snapshot \<Rightarrow> string" where
  "answer_comparative u q s =
     (let a = query_object u (query_value q) s; b = query_object u (query_other q) s
      in case find (\<lambda>(w, l). {norm_cmp u a, norm_cmp u b} = {norm_cmp u w, norm_cmp u l}) (comparatives s) of
           Some (w, l) \<Rightarrow> (vn ''B~u1ea1n th~xedch '' @ w @ vn '' h~u01a1n '' @ l @ ''.'')
         | None \<Rightarrow> (vn ''M~xecnh ch~u01b0a ~u0111~u1ee7 th~xf4ng tin ~u0111~u1ec3 so s~xe1nh '' @ a @ vn '' v~xe0 '' @ b @ ''.''))"

definition is_food :: "charset \<Rightarrow> string \<Rightarrow> bool" where
  "is_food u v = list_ex (\<lambda>p. starts_with p (norm_cmp u v)) [vn ''~u0103n '', vn ''u~u1ed1ng '']"

definition food_likes :: "charset \<Rightarrow> profile_snapshot \<Rightarrow> string list" where
  "food_likes u s =
     (let foods = filter (is_food u) (all_likes s)
      in case present (favorite_food s) of
           Some f \<Rightarrow> if f \<in> set foods then foods else f # foods | None \<Rightarrow> foods)"

definition answer_goal_challenge :: "charset \<Rightarrow> profile_query \<Rightarrow> profile_snapshot \<Rightarrow> string" where
  "answer_goal_challenge u q s =
     (let hits = filter (\<lambda>g. share (goal_challenge_terms u (query_value q)) (goal_challenge_terms u g)) (goals s);
          others = filter (\<lambda>g. g \<notin> set hits) (goals s)
      in if hits \<noteq> [] then
           (vn ''C~xf3, m~xecnh ~u0111ang nh~u1edb b~u1ea1n mu~u1ed1n '' @ join '', '' hits @ ''.'')
           @ (if others = [] then [] else (vn '' M~xecnh c~u0169ng ~u0111ang nh~u1edb b~u1ea1n mu~u1ed1n '' @ join '', '' others @ ''.''))
         else if goals s \<noteq> [] then
           (vn ''M~xecnh ch~u01b0a th~u1ea5y m~u1ee5c ti~xeau '' @ shown (pq_value q) @ vn '' trong h~u1ed3 s~u01a1, nh~u01b0ng m~xecnh ~u0111ang nh~u1edb b~u1ea1n mu~u1ed1n '' @ join '', '' (goals s) @ ''.'')
         else (vn ''M~xecnh ch~u01b0a l~u01b0u m~u1ee5c ti~xeau n~xe0o v~u1ec1 '' @ shown (pq_value q) @ ''.''))"

definition dash_lines :: "string list \<Rightarrow> string" where
  "dash_lines vs = join (vn ''~x0a'') (map (\<lambda>v. ''- '' @ v) vs)"

definition answer_preferences :: "profile_snapshot \<Rightarrow> string" where
  "answer_preferences s =
     (if all_likes s = [] then (vn ''M~xecnh ch~u01b0a c~xf3 th~xf4ng tin v~u1ec1 s~u1edf th~xedch c~u1ee7a b~u1ea1n.'')
      else join (vn ''~x0a~x0a'')
        ((if preferences_personal s = [] then [] else [(vn ''T~xf4i ~u0111ang nh~u1edb b~u1ea1n th~xedch:~x0a'') @ dash_lines (preferences_personal s)])
         @ (if preferences_professional s = [] then []
            else [(vn ''B~u1ea1n c~u0169ng quan t~xe2m ~u0111~u1ebfn m~u1ea3ng c~xf4ng vi~u1ec7c/k~u1ef9 thu~u1eadt:~x0a'') @ dash_lines (preferences_professional s)])))"

definition answer_current_goal :: "charset \<Rightarrow> profile_snapshot \<Rightarrow> string" where
  "answer_current_goal u s =
     (if goals s = [] then (vn ''M~xecnh ch~u01b0a c~xf3 th~xf4ng tin v~u1ec1 d~u1ef1 ~u0111~u1ecbnh hi~u1ec7n t~u1ea1i c~u1ee7a b~u1ea1n.'')
      else case present (current_focus s) of
          Some f \<Rightarrow>
            (let others = filter (\<lambda>g. \<not> same_norm u g f) (goals s)
             in (vn ''M~u1ee5c ti~xeau ch~xednh hi~u1ec7n t~u1ea1i c~u1ee7a b~u1ea1n l~xe0 '' @ f @ ''.'')
                @ (if others = [] then [] else (vn '' B~u1ea1n c~u0169ng ~u0111ang mu~u1ed1n l~xe0m '' @ join '', '' others @ ''.'')))
        | None \<Rightarrow> (vn ''M~xecnh ~u0111ang nh~u1edb b~u1ea1n ~u0111ang mu~u1ed1n '' @ join '', '' (goals s) @ ''.''))"

text \<open>The content of a goal after the verbs for "do" and "build", and two values one of which says no more
  than the other.\<close>

definition drop_verb :: "string \<Rightarrow> string \<Rightarrow> string" where
  "drop_verb verb k = (if starts_with verb k then strip (drop (length verb) k) else k)"

definition goal_words :: "charset \<Rightarrow> string \<Rightarrow> string list" where
  "goal_words u g = split_words (drop_verb ''build '' (drop_verb (vn ''l~xe0m '') (norm_cmp u g)))"

definition comparable :: "string list \<Rightarrow> string list \<Rightarrow> bool" where
  "comparable xs ys = (set xs \<subseteq> set ys \<or> set ys \<subseteq> set xs)"

definition answer_do_yesno :: "charset \<Rightarrow> profile_query \<Rightarrow> profile_snapshot \<Rightarrow> string" where
  "answer_do_yesno u q s =
     (let ts = split_words (norm_cmp u (query_value q)); v = shown (pq_value q);
          fallback = (if pq_object q = Some ''still'' then
               (vn ''Kh~xf4ng, hi~u1ec7n t~u1ea1i m~xecnh kh~xf4ng th~u1ea5y b~u1ea1n c~xf2n l~xe0m hay d~u1ef1 ~u0111~u1ecbnh l~xe0m '' @ v @ ''.'')
             else (vn ''M~xecnh ch~u01b0a th~u1ea5y th~xf4ng tin r~u1eb1ng b~u1ea1n mu~u1ed1n l~xe0m '' @ v @ ''.''))
      in if ts = [] then fallback
         else case find (\<lambda>x. comparable ts (split_words (norm_cmp u x))) (occupation s) of
             Some x \<Rightarrow> (vn ''C~xf3, m~xecnh ~u0111ang nh~u1edb b~u1ea1n ~u0111ang l~xe0m '' @ x @ ''.'')
           | None \<Rightarrow>
               (case find (\<lambda>g. comparable ts (goal_words u g)) (goals s) of
                  Some g \<Rightarrow> (vn ''C~xf3, m~xecnh ~u0111ang nh~u1edb b~u1ea1n ~u0111ang mu~u1ed1n '' @ g @ ''.'')
                | None \<Rightarrow>
                    if list_ex (\<lambda>g. comparable ts (goal_words u g)) (negative_goals s)
                    then (vn ''Kh~xf4ng, hi~u1ec7n t~u1ea1i b~u1ea1n kh~xf4ng mu~u1ed1n l~xe0m '' @ v @ ''.'') else fallback))"

definition answer_old_name :: "charset \<Rightarrow> profile_query \<Rightarrow> profile_snapshot \<Rightarrow> string" where
  "answer_old_name u q s =
     (if known u (query_value q) (previous_names s)
      then (vn ''~u0110~xfang, m~xecnh c~xf2n nh~u1edb: '' @ shown (pq_value q) @ vn '' l~xe0 t~xean c~u0169 c~u1ee7a b~u1ea1n.'' @ current_name_suffix s)
      else if favours u (query_value q) (sn_name s)
      then (vn ''M~xecnh ~u0111ang nh~u1edb '' @ shown (pq_value q) @ vn '' l~xe0 t~xean hi~u1ec7n t~u1ea1i c~u1ee7a b~u1ea1n, kh~xf4ng ph~u1ea3i t~xean c~u0169.'')
      else (vn ''M~xecnh ch~u01b0a c~xf3 th~xf4ng tin '' @ shown (pq_value q) @ vn '' t~u1eebng l~xe0 t~xean c~u1ee7a b~u1ea1n.''))"

definition answer_relation_existence :: "profile_query \<Rightarrow> memory_record list \<Rightarrow> string" where
  "answer_relation_existence q rs =
     (case find (labelled (relation_labels (pq_label q))) rs of
        Some r \<Rightarrow> (vn ''B~u1ea1n c~xf3 '' @ md_text ''relation_label'' r @ vn '' t~xean l~xe0 '' @ md_text ''value'' r @ ''.'')
      | None \<Rightarrow> (vn ''T~xf4i ch~u01b0a c~xf3 th~xf4ng tin v~u1ec1 vi~u1ec7c n~xe0y.''))"

definition answer_relation_yesno :: "charset \<Rightarrow> profile_query \<Rightarrow> memory_record list \<Rightarrow> string" where
  "answer_relation_yesno u q rs =
     (case find (labelled (relation_labels (pq_label q))) rs of
        Some r \<Rightarrow>
          (let n = md_text ''value'' r; l = text_or (md_get ''relation_label'' r) (text_or (pq_label q) [])
           in if same_norm u n (query_value q) then (vn ''C~xf3, '' @ l @ vn '' c~u1ee7a b~u1ea1n t~xean l~xe0 '' @ n @ ''.'')
              else (vn ''Kh~xf4ng, '' @ l @ vn '' c~u1ee7a b~u1ea1n l~xe0 '' @ n @ vn '', kh~xf4ng ph~u1ea3i '' @ shown (pq_value q) @ ''.''))
      | None \<Rightarrow> (vn ''T~xf4i ch~u01b0a c~xf3 th~xf4ng tin v~u1ec1 vi~u1ec7c n~xe0y.''))"

definition AFFECTION_LABELS :: "string list" where
  "AFFECTION_LABELS = [vn ''ng~u01b0~u1eddi y~xeau'', vn ''b~u1ea1n g~xe1i'', vn ''b~u1ea1n trai'', ''partner'', vn ''v~u1ee3'', vn ''ch~u1ed3ng'']"

definition answer_affection :: "profile_snapshot \<Rightarrow> string" where
  "answer_affection s =
     (case affections s of
        [a] \<Rightarrow> (vn ''M~xecnh ~u0111ang nh~u1edb '' @ a @ vn '' l~xe0 ng~u01b0~u1eddi b~u1ea1n th~xedch/quan t~xe2m.'')
      | _ # _ \<Rightarrow> (vn ''M~xecnh ~u0111ang nh~u1edb nh~u1eefng ng~u01b0~u1eddi b~u1ea1n th~xedch/quan t~xe2m: '' @ join '', '' (affections s) @ ''.'')
      | [] \<Rightarrow>
          (case find (\<lambda>(l, n). l \<in> set AFFECTION_LABELS) (relations s) of
             Some (l, n) \<Rightarrow> (vn ''M~xecnh ~u0111ang nh~u1edb '' @ n @ vn '' l~xe0 ng~u01b0~u1eddi b~u1ea1n th~xedch/quan t~xe2m.'')
           | None \<Rightarrow> (vn ''M~xecnh ch~u01b0a c~xf3 th~xf4ng tin v~u1ec1 ng~u01b0~u1eddi b~u1ea1n th~xedch.'')))"

definition answer_incoming :: "profile_snapshot \<Rightarrow> string" where
  "answer_incoming s =
     (let pos = external_affections s; neg = negative_external_affections s;
          P = join_vietnamese_items pos; N = join_vietnamese_items neg
      in if pos \<noteq> [] then
           (P @ vn '' ~u0111ang th~xedch b~u1ea1n theo th~xf4ng tin b~u1ea1n cung c~u1ea5p.'')
           @ (if neg = [] then [] else ('' '' @ N @ vn '' th~xec theo th~xf4ng tin b~u1ea1n cung c~u1ea5p l~xe0 kh~xf4ng th~xedch b~u1ea1n.''))
         else if neg \<noteq> [] then
           (vn ''Theo th~xf4ng tin b~u1ea1n cung c~u1ea5p, '' @ N @ vn '' kh~xf4ng th~xedch b~u1ea1n. Ngo~xe0i ra m~xecnh ch~u01b0a c~xf3 th~xf4ng tin v~u1ec1 ai ~u0111ang th~xedch b~u1ea1n.'')
         else (vn ''M~xecnh ch~u01b0a c~xf3 th~xf4ng tin v~u1ec1 ng~u01b0~u1eddi ~u0111ang th~xedch b~u1ea1n.''))"

definition answer_batch_incoming :: "charset \<Rightarrow> profile_query \<Rightarrow> profile_snapshot \<Rightarrow> string" where
  "answer_batch_incoming u q s =
     (let who = split_person_subjects u (query_value q);
          likes = (\<lambda>p. known u p (external_affections s)); hates = (\<lambda>p. known u p (negative_external_affections s));
          pos = filter likes who; neg = filter (\<lambda>p. \<not> likes p \<and> hates p) who;
          unk = filter (\<lambda>p. \<not> likes p \<and> \<not> hates p) who
      in if \<not> resolves_to_user u (query_other q) s then (vn ''M~xecnh ch~u01b0a c~xf3 th~xf4ng tin v~u1ec1 vi~u1ec7c n~xe0y.'')
         else if pos \<noteq> [] \<and> neg = [] \<and> unk = [] then
           (vn ''C~xf3, theo th~xf4ng tin b~u1ea1n cung c~u1ea5p th~xec '' @ join_vietnamese_items pos @ vn '' th~xedch b~u1ea1n.'')
         else join ''; ''
             ((if pos = [] then [] else [(join_vietnamese_items pos @ vn '' th~xedch b~u1ea1n'')])
              @ (if neg = [] then [] else [(join_vietnamese_items neg @ vn '' kh~xf4ng th~xedch b~u1ea1n'')])
              @ (if unk = [] then [] else [(vn ''c~xf2n '' @ join_vietnamese_items unk @ vn '' th~xec m~xecnh ch~u01b0a c~xf3 th~xf4ng tin'')])) @ ''.'')"

definition answer_person_target :: "charset \<Rightarrow> profile_query \<Rightarrow> profile_snapshot \<Rightarrow> string" where
  "answer_person_target u q s =
     (let who = text_or (pq_value q) (vn ''ng~u01b0~u1eddi ~u0111~xf3'')
      in if resolves_to_user u who s then
           enumerated (vn ''B~u1ea1n ~u0111ang th~xedch '') (affections s) (vn ''M~xecnh ch~u01b0a c~xf3 th~xf4ng tin v~u1ec1 ng~u01b0~u1eddi b~u1ea1n th~xedch.'')
         else if known u who (external_affections s) then (vn ''Theo th~xf4ng tin b~u1ea1n cung c~u1ea5p, '' @ who @ vn '' th~xedch b~u1ea1n.'')
         else if known u who (negative_external_affections s) then
           (vn ''Theo th~xf4ng tin b~u1ea1n cung c~u1ea5p, '' @ who @ vn '' kh~xf4ng th~xedch b~u1ea1n.'')
         else (vn ''M~xecnh ch~u01b0a c~xf3 th~xf4ng tin v~u1ec1 ng~u01b0~u1eddi m~xe0 '' @ who @ vn '' th~xedch.''))"

definition answer_likes_what :: "profile_snapshot \<Rightarrow> string" where
  "answer_likes_what s =
     (let P = join_vietnamese_items (affections s); T = join_vietnamese_items (all_likes s)
      in if affections s \<noteq> [] \<and> all_likes s \<noteq> [] then (vn ''B~u1ea1n ~u0111ang th~xedch/quan t~xe2m ~u0111~u1ebfn '' @ P @ vn ''; b~u1ea1n c~u0169ng th~xedch '' @ T @ ''.'')
         else if affections s \<noteq> [] then (vn ''B~u1ea1n ~u0111ang th~xedch/quan t~xe2m ~u0111~u1ebfn '' @ P @ ''.'')
         else if all_likes s \<noteq> [] then (vn ''B~u1ea1n ~u0111ang th~xedch '' @ T @ ''.'')
         else (vn ''M~xecnh ch~u01b0a th~u1ea5y b~u1ea1n ~u0111ang th~xedch g~xec.''))"

definition answer_negative_external :: "profile_snapshot \<Rightarrow> string" where
  "answer_negative_external s =
     (if negative_external_affections s = [] then (vn ''M~xecnh ch~u01b0a th~u1ea5y ai kh~xf4ng th~xedch b~u1ea1n theo th~xf4ng tin b~u1ea1n cung c~u1ea5p.'')
      else (vn ''Theo th~xf4ng tin b~u1ea1n cung c~u1ea5p, '' @ join_vietnamese_items (negative_external_affections s) @ vn '' kh~xf4ng th~xedch b~u1ea1n.''))"

text \<open>The newest record of a friend's name: a stable sort, then the last one.\<close>

definition answer_friend :: "memory_record list \<Rightarrow> string" where
  "answer_friend rs =
     (case rev (sort_key created_at
              (filter (\<lambda>r. in_slot ''relation'' ''name'' r \<and> md_get ''relation_label'' r = Some (vn ''b~u1ea1n'')) rs)) of
        r # _ \<Rightarrow> (vn ''B~u1ea1n c~u1ee7a b~u1ea1n t~xean l~xe0 '' @ md_text ''value'' r @ ''.'')
      | [] \<Rightarrow> (vn ''M~xecnh ch~u01b0a c~xf3 th~xf4ng tin v~u1ec1 t~xean b~u1ea1n c~u1ee7a b~u1ea1n.''))"

definition answer_pet_yesno :: "charset \<Rightarrow> profile_query \<Rightarrow> profile_snapshot \<Rightarrow> string" where
  "answer_pet_yesno u q s =
     (let t = norm_cmp u (query_value q)
      in if t \<noteq> [] \<and> list_ex (\<lambda>p. t = p \<or> t \<in> set (split_words p) \<or> p \<in> set (split_words t)) (map (norm_cmp u) (pets s))
         then (vn ''C~xf3, m~xecnh ~u0111ang nh~u1edb nh~xe0 b~u1ea1n c~xf3 nu~xf4i '' @ shown (pq_value q) @ ''.'')
         else (vn ''M~xecnh ch~u01b0a th~u1ea5y th~xf4ng tin r~u1eb1ng nh~xe0 b~u1ea1n c~xf3 nu~xf4i '' @ shown (pq_value q) @ ''.''))"

definition is_drink :: "charset \<Rightarrow> string \<Rightarrow> bool" where
  "is_drink u v = (starts_with (vn ''u~u1ed1ng '') (cs_str_lower u v) \<or> starts_with (vn ''~u0103n '') (cs_str_lower u v))"

definition answer_first :: "string \<Rightarrow> string \<Rightarrow> string \<Rightarrow> memory_record list \<Rightarrow> string" where
  "answer_first head rel fallback rs =
     (case first_value rel rs of Some v \<Rightarrow> head @ v @ ''.'' | None \<Rightarrow> fallback)"

section \<open>The ladder\<close>

text \<open>The records of \<open>answer_profile_query\<close>, and its branches in the order of the code.\<close>

definition answer_records :: "profile_env \<Rightarrow> profile_query \<Rightarrow> store \<Rightarrow> memory_record list" where
  "answer_records e q st =
     filter confirmed_profile
       (profile_search e FACT 100 st
        @ (if pq_kind q \<in> {''self_preference'', ''profile_summary''} then profile_search e PREFERENCE 100 st else []))"

definition answer_facts :: "profile_env \<Rightarrow> profile_query \<Rightarrow> profile_snapshot \<Rightarrow> memory_record list \<Rightarrow> (string \<times> string) list" where
  "answer_facts e q s rs =
     (let u = pe_chars e; nm = (case present (sn_name s) of
          Some n \<Rightarrow> (vn ''B~u1ea1n t~xean l~xe0 '' @ n @ ''.'') | None \<Rightarrow> (vn ''T~xf4i ch~u01b0a bi~u1ebft t~xean b~u1ea1n.''))
      in [(''self_name'', nm), (''self_identity'', nm),
          (''relation_name'', answer_relation_name e q rs),
          (''profile_summary'', answer_summary e s),
          (''self_occupation'', listed (vn ''M~xecnh ~u0111ang nh~u1edb c~xf4ng vi~u1ec7c/l~u0129nh v~u1ef1c c~u1ee7a b~u1ea1n l~xe0 '') (occupation s)
             (vn ''T~xf4i ch~u01b0a c~xf3 th~xf4ng tin v~u1ec1 ngh~u1ec1 nghi~u1ec7p/vai tr~xf2 c~u1ee7a b~u1ea1n.'')),
          (''self_occupation_yesno'', answer_occupation_yesno u q s),
          (''self_preference_ranking'', answer_ranking s),
          (''self_food_favorite'', case present (favorite_food s) of
             Some f \<Rightarrow> (vn ''M~xecnh ~u0111ang nh~u1edb m~xf3n b~u1ea1n th~xedch ~u0103n nh~u1ea5t l~xe0 '' @ f @ ''.'')
           | None \<Rightarrow> (vn ''M~xecnh ch~u01b0a ~u0111~u1ee7 th~xf4ng tin ~u0111~u1ec3 bi~u1ebft b~u1ea1n th~xedch ~u0103n g~xec nh~u1ea5t.'')),
          (''self_comparative'', answer_comparative u q s),
          (''self_food_preference'', listed (vn ''B~u1ea1n th~xedch '') (food_likes u s)
             (vn ''M~xecnh ch~u01b0a c~xf3 th~xf4ng tin v~u1ec1 m~xf3n ~u0103n b~u1ea1n th~xedch.'')),
          (''self_food_dislike'', listed (vn ''B~u1ea1n kh~xf4ng th~xedch '') (filter (is_food u) (dislikes s))
             (vn ''M~xecnh ch~u01b0a c~xf3 th~xf4ng tin v~u1ec1 m~xf3n ~u0103n b~u1ea1n kh~xf4ng th~xedch.'')),
          (''self_ai_yesno'', listed (vn ''C~xf3, v~xec b~u1ea1n c~xf3 m~u1ee5c ti~xeau/c~xf4ng vi~u1ec7c li~xean quan ~u0111~u1ebfn AI: '')
             (filter (value_answers_explicit_ai_yesno u) (goals s @ occupation s))
             (vn ''Kh~xf4ng, hi~u1ec7n m~xecnh ch~u01b0a th~u1ea5y b~u1ea1n c~xf3 m~u1ee5c ti~xeau hay c~xf4ng vi~u1ec7c li~xean quan ~u0111~u1ebfn AI.'')),
          (''goal_challenge'', answer_goal_challenge u q s),
          (''goal_followup'', listed (vn ''M~xecnh ~u0111ang nh~u1edb b~u1ea1n mu~u1ed1n '') (goals s)
             (vn ''Hi~u1ec7n m~xecnh kh~xf4ng nh~u1edb th~xeam m~u1ee5c ti~xeau n~xe0o kh~xe1c c~u1ee7a b~u1ea1n.'')),
          (''self_preference'', answer_preferences s),
          (''self_skill'', listed (vn ''B~u1ea1n bi~u1ebft '') (sn_skills s) (vn ''T~xf4i ch~u01b0a c~xf3 th~xf4ng tin v~u1ec1 k~u1ef9 n~u0103ng c~u1ee7a b~u1ea1n.'')),
          (''self_negative_skill'', listed (vn ''B~u1ea1n kh~xf4ng bi~u1ebft '') (negative_skills s)
             (vn ''M~xecnh ch~u01b0a c~xf3 th~xf4ng tin v~u1ec1 nh~u1eefng vi~u1ec7c b~u1ea1n kh~xf4ng bi~u1ebft l~xe0m.'')),
          (''self_learning_focus'', answer_first (vn ''B~u1ea1n ~u0111ang h~u1ecdc '') ''learning_focus''
             (vn ''T~xf4i ch~u01b0a c~xf3 th~xf4ng tin v~u1ec1 n~u1ed9i dung b~u1ea1n ~u0111ang h~u1ecdc.'') rs),
          (''self_goal'', answer_first (vn ''M~u1ee5c ti~xeau c~u1ee7a b~u1ea1n l~xe0 '') ''goal''
             (vn ''T~xf4i ch~u01b0a c~xf3 th~xf4ng tin v~u1ec1 m~u1ee5c ti~xeau c~u1ee7a b~u1ea1n.'') rs),
          (''self_current_goal'', answer_current_goal u s),
          (''wants_to_marry_query'', enumerated (vn ''B~u1ea1n t~u1eebng n~xf3i mu~u1ed1n c~u01b0~u1edbi '') (marry_targets s)
             (vn ''M~xecnh ch~u01b0a th~u1ea5y b~u1ea1n n~xf3i r~xf5 mu~u1ed1n c~u01b0~u1edbi ai.'')),
          (''wants_to_learn_query'', enumerated (vn ''B~u1ea1n mu~u1ed1n h~u1ecdc '')
             (map (strip_goal_verb u (vn ''h~u1ecdc'')) (filter (goal_has_verb u (vn ''h~u1ecdc'')) (goals s)))
             (vn ''M~xecnh ch~u01b0a th~u1ea5y b~u1ea1n n~xf3i r~xf5 mu~u1ed1n h~u1ecdc g~xec.'')),
          (''wants_to_build_query'', enumerated (vn ''B~u1ea1n mu~u1ed1n build '')
             (map (strip_goal_verb u ''build'') (filter (goal_has_verb u ''build'') (goals s)))
             (vn ''M~xecnh ch~u01b0a th~u1ea5y b~u1ea1n n~xf3i r~xf5 mu~u1ed1n build g~xec.'')),
          (''self_do_yesno'', answer_do_yesno u q s), (''old_name_confirm'', answer_old_name u q s),
          (''self_habit'', answer_first (vn ''B~u1ea1n hay '') ''habit''
             (vn ''T~xf4i ch~u01b0a c~xf3 th~xf4ng tin v~u1ec1 th~xf3i quen/lifestyle c~u1ee7a b~u1ea1n.'') rs)])"

definition answer_people :: "profile_env \<Rightarrow> profile_query \<Rightarrow> profile_snapshot \<Rightarrow> memory_record list \<Rightarrow> store \<Rightarrow> (string \<times> string) list" where
  "answer_people e q s rs st =
     (let u = pe_chars e
      in [(''relation_existence'', answer_relation_existence q rs),
          (''relation_yesno'', answer_relation_yesno u q rs),
          (''self_affection'', answer_affection s),
          (''third_party_affection'', third_party_text u (text_or (pq_value q) (vn ''ng~u01b0~u1eddi ~u0111~xf3'')) s),
          (''named_affection_yesno'', answer_named_affection_yesno e (query_value q) (query_other q) st),
          (''incoming_affection_set'', answer_incoming s),
          (''batch_incoming_affection'', answer_batch_incoming u q s),
          (''person_affection_target'', answer_person_target u q s),
          (''user_likes_what'', answer_likes_what s),
          (''user_negative_affection_who'', enumerated (vn ''Hi~u1ec7n t~u1ea1i b~u1ea1n kh~xf4ng c~xf2n th~xedch/quan t~xe2m '') (negative_affections s)
             (vn ''M~xecnh ch~u01b0a th~u1ea5y b~u1ea1n ~u0111ang kh~xf4ng th~xedch ai.'')),
          (''external_negative_affection_who'', answer_negative_external s),
          (''user_interests_what'', enumerated (vn ''B~u1ea1n ~u0111ang quan t~xe2m ~u0111~u1ebfn '') (affections s @ all_likes s @ goals s)
             (vn ''M~xecnh ch~u01b0a th~u1ea5y b~u1ea1n ~u0111ang quan t~xe2m ~u0111~u1ebfn ~u0111i~u1ec1u g~xec.'')),
          (''wants_to_eat_query'', enumerated (vn ''B~u1ea1n ~u0111ang mu~u1ed1n ~u0103n '') (eat_desires s)
             (vn ''M~xecnh ch~u01b0a th~u1ea5y m~xf3n n~xe0o b~u1ea1n ~u0111ang mu~u1ed1n ~u0103n.'')),
          (''temporal_today_do_query'', enumerated (vn ''H~xf4m nay b~u1ea1n mu~u1ed1n '') (today_intentions s)
             (vn ''H~xf4m nay m~xecnh ch~u01b0a th~u1ea5y k~u1ebf ho~u1ea1ch/mong mu~u1ed1n n~xe0o c~xf2n active.'')),
          (''friend_name'', answer_friend rs),
          (''self_dislike'', listed (vn ''B~u1ea1n kh~xf4ng th~xedch '') (dislikes s)
             (vn ''M~xecnh ch~u01b0a c~xf3 th~xf4ng tin v~u1ec1 nh~u1eefng th~u1ee9 b~u1ea1n kh~xf4ng th~xedch.'')),
          (''self_pet'', listed (vn ''Nh~xe0 b~u1ea1n c~xf3 nu~xf4i '') (pets s) (vn ''M~xecnh ch~u01b0a c~xf3 th~xf4ng tin v~u1ec1 v~u1eadt nu~xf4i trong nh~xe0 b~u1ea1n.'')),
          (''self_pet_yesno'', answer_pet_yesno u q s),
          (''self_drink_preference'', listed (vn ''B~u1ea1n th~xedch '') (filter (is_drink u) (preferences_personal s))
             (vn ''M~xecnh ch~u01b0a c~xf3 th~xf4ng tin v~u1ec1 ~u0111~u1ed3 u~u1ed1ng/~u0103n b~u1ea1n th~xedch.''))])"

definition answer_profile_query :: "profile_env \<Rightarrow> profile_query \<Rightarrow> store \<Rightarrow> string option" where
  "answer_profile_query e q st =
     (let s = collect_profile_snapshot e st; rs = answer_records e q st
      in if pq_kind q = ''inverse_value'' \<or> pq_kind q = ''reverse_entity'' then answer_entity_lookup e (query_value q) st
         else map_of (answer_facts e q s rs @ answer_people e q s rs st) (pq_kind q))"

end
