(* ===== verification/Intent_Parser.thy ===== *)
theory Intent_Parser
  imports Py_Regex Skills
begin

text \<open>
  \<open>planning/intent_parser.py\<close>: the rule-based parser, a cascade of regular expressions over the
  stripped goal.  The patterns are those of the source, in its order (see \<open>Py_Regex\<close> for how they
  are written).
\<close>

section \<open>Patterns\<close>

definition SAVE_SUFFIX :: pattern where
  "SAVE_SUFFIX =
     re_compile [IGNORECASE]
       (''~s+r~u1ed3i~s+l~u01b0u~s+v~xe0o~s+ghi~s+ch~xfa(?:~s+(~S+))?'')"

definition SUMMARIZE_SUFFIX :: pattern where
  "SUMMARIZE_SUFFIX =
     re_compile [IGNORECASE]
       (''~s+r~u1ed3i~s+t~xf3m~s+t~u1eaft'')"

definition MATH_EXPR :: pattern where
  "MATH_EXPR =
     re_compile []
       (''[~d(][0-9()~s+~-*/. ]*'')"

definition PROJECT_QUERY_CUE :: pattern where
  "PROJECT_QUERY_CUE =
     re_compile [IGNORECASE]
       (''(~u0111~xe3~s+ch~u1ed1t|~u0111~xe3~s+quy~u1ebft~s+~u0111~u1ecbnh|quy~u1ebft~s+~u0111~u1ecbnh~s+n~xe0o|d~xf9ng~s+g~xec|'' @
        ''d~xf9ng~s+c~u01a1~s+ch~u1ebf~s+n~xe0o|context|ng~u1eef~s+c~u1ea3nh)'')"

definition CALC_PREFIX :: pattern where
  "CALC_PREFIX =
     re_compile [IGNORECASE]
       (''^calc(?:ulate)?~s+'')"

definition VIET_MATH_SUFFIX :: pattern where
  "VIET_MATH_SUFFIX =
     re_compile [IGNORECASE]
       (''~s+(?:b~u1eb1ng~s+(?:m~u1ea5y|bao~s+nhi~xeau)|l~xe0~s+bao~s+nhi~xeau)~s*~??~s*$'')"

definition BARE_MATH_ONLY :: pattern where
  "BARE_MATH_ONLY =
     re_compile []
       (''^[0-9(][0-9~s.()+~-*/%=]*$'')"

definition ARITH_ONLY :: pattern where
  "ARITH_ONLY =
     re_compile []
       (''^[0-9(][0-9~s.()+~-*/%=xX~xd7?]*$'')"

definition GREETING_WORDS :: pattern where
  "GREETING_WORDS =
     re_compile [IGNORECASE]
       (''^(?:hi|hello|hey|xin~s+ch~xe0o|ch~xe0o|alo|~xea~s*l~xf4|l~xf4|~xea(?:~s+~xea)?|helo|~xea~s*lo|h~xea~s*lo)'' @
        ''(?:~s+(?:b~u1ea1n|m~u1ecdi~s+ng~u01b0~u1eddi|anh|ch~u1ecb|em|bu~u1ed5i~s+(?:s~xe1ng|tr~u01b0a|chi~u1ec1u|t~u1ed1i)))?'' @
        ''~s*[!?.]*~s*$'')"

definition IDENTITY_CUE :: pattern where
  "IDENTITY_CUE =
     re_compile [IGNORECASE]
       (''(?:^|~b)(?:b~u1ea1n|m~xe0y|tomtit)~s+(?:l~xe0~s+ai|l~xe0~s+g[~xeci]|t~xean~s+(?:l~xe0~s+)?g[~xeci]|t~xean~s+g[~xeci])~b'' @
        ''|t~xean~s+(?:b~u1ea1n|m~xe0y)~s+(?:l~xe0~s+)?g[~xeci]~b'' @
        ''|who~s+are~s+you|what~s+are~s+you'' @
        ''|ai~s+(?:t~u1ea1o|x~xe2y~s+d~u1ef1ng)~s+(?:ra~s+)?(?:b~u1ea1n|m~xe0y|tomtit)~b'' @
        ''|(?:b~u1ea1n|m~xe0y|tomtit)~s+do~s+ai~b'' @
        ''|(?:b~u1ea1n|m~xe0y|tomtit)~s+~u0111~u01b0~u1ee3c~s+(?:t~u1ea1o|x~xe2y~s+d~u1ef1ng)'')"

definition CAPABILITY_CUE :: pattern where
  "CAPABILITY_CUE =
     re_compile [IGNORECASE]
       (''(?:(?:l~xe0m|gi~xfap|h~u1ed7~s+tr~u1ee3)~s+~u0111~u01b0~u1ee3c~s+(?:nh~u1eefng~s+)?g[~xeci]|l~xe0m~s+g~xec~s+~u0111~u01b0~u1ee3c|'' @
        ''c~xf3~s+th~u1ec3~s+(?:l~xe0m|gi~xfap|h~u1ed7~s+tr~u1ee3)~s+(?:~u0111~u01b0~u1ee3c~s+)?(?:nh~u1eefng~s+)?g[~xeci]|'' @
        ''kh~xe1c~s+(?:g~xec~s+)?(?:so~s+v~u1edbi~s+)?chatbot|d~xf9ng~s+b~u1ea1n|gi~u1edbi~s+h~u1ea1n|'' @
        ''what~s+can~s+you~s+do|^help~b|'' @
        ''(?:gi~xfap|h~u1ed7~s+tr~u1ee3)~s+g[~xeci]~s+(?:~u0111~u01b0~u1ee3c~s+)?(?:cho~s+)?t~xf4i~b|'' @
        ''(?:gi~xfap|h~u1ed7~s+tr~u1ee3)~s+t~xf4i~s+~u0111~u01b0~u1ee3c~s+g[~xeci]|'' @
        ''(?:c~xf3~s+)?bi~u1ebft~s+n~xf3i~s+kh~xf4ng|'' @
        ''(?:b~u1ea1n|m~xe0y|tomtit)~s+l~xe0~s+~u0111~u01b0~u1ee3c~s+g[~xeci])'')"

definition MEMORY_READ_CUE :: pattern where
  "MEMORY_READ_CUE =
     re_compile [IGNORECASE]
       (''(?:(?:~u0111ang~s+)?nh~u1edb~s+g~xec|b~u1ea1n~s+bi~u1ebft~s+.+~s+c~u1ee7a~s+t~xf4i|'' @
        ''th~xf4ng~s+tin~s+n~xe0o.*(?:assumption|gi~u1ea3~s+~u0111~u1ecbnh)|'' @
        ''what~s+do~s+you~s+remember|remember~s+about)'')"

definition MEMORY_WRITE_CUE :: pattern where
  "MEMORY_WRITE_CUE =
     re_compile [IGNORECASE]
       (''^(?:h~xe3y~s+)?(?:nh~u1edb|ghi~s+nh~u1edb)~s+(?:r~u1eb1ng|l~xe0|gi~xf9m|gi~xfap|cho)~b'' @
        ''|^remember~s+that~b'' @
        ''|(?:l~u01b0u|ghi)~s+[^~n]*?(?:v~xe0o~s+)?(?:memory|b~u1ed9~s+nh~u1edb)~b'' @
        ''|save~s+this~s+to~s+memory'')"

definition CODE_REVIEW_CUE :: pattern where
  "CODE_REVIEW_CUE =
     re_compile [IGNORECASE]
       (''(?:review~s+.*code|review~s+~u0111o~u1ea1n~s+code|ki~u1ec3m~s+tra~s+code|~u0111o~u1ea1n~s+code|'' @
        ''t~xecm~s+bug|bug~s+trong~s+code|t~xecm~s+l~u1ed7i.*code|fix~s+bug|debug~b|'' @
        ''test~s+cho~s+function|cho~s+function~s+n~xe0y)'')"

definition PLANNING_CUE :: pattern where
  "PLANNING_CUE =
     re_compile [IGNORECASE]
       (''(?:l~xean~s+k~u1ebf~s+ho~u1ea1ch|l~u1eadp~s+k~u1ebf~s+ho~u1ea1ch|k~u1ebf~s+ho~u1ea1ch|roadmap|checklist|'' @
        ''~u01b0u~s+ti~xean|n~xean~s+l~xe0m~s+g~xec|gi~xfap~s+(?:t~xf4i~s+)?focus|qu~xe1~s+t~u1ea3i|'' @
        ''plan~s+for|create~s+a~s+plan|chia~s+.*~s+th~xe0nh)'')"

definition SUMMARIZE_CUE :: pattern where
  "SUMMARIZE_CUE =
     re_compile [IGNORECASE]
       (''(?:t~xf3m~s+t~u1eaft|summari[sz]e)'')"

definition TRANSLATE_CUE :: pattern where
  "TRANSLATE_CUE =
     re_compile [IGNORECASE]
       (''(?:(?:^|~b)d~u1ecbch~b|translate)'')"

definition TECHNICAL_CUE :: pattern where
  "TECHNICAL_CUE =
     re_compile [IGNORECASE]
       (''(?:gi~u1ea3i~s+th~xedch|explain|ph~xe2n~s+t~xedch|analy[sz]e|'' @
        ''thi~u1ebft~s+k~u1ebf~s+architecture|architecture)'')"

definition WRITING_CUE :: pattern where
  "WRITING_CUE =
     re_compile [IGNORECASE]
       (''(?:^|~b)(?:vi~u1ebft|so~u1ea1n|draft|write)~b'')"

definition CLARIFICATION_CUE :: pattern where
  "CLARIFICATION_CUE =
     re_compile [IGNORECASE]
       (''(?:^l~xe0m~s+c~xe1i~s+(?:~u0111~xf3|n~xe0y)|c~xe1i~s+(?:~u0111~xf3|n~xe0y)~s+~u0111i|'' @
        ''c~u1ea7n~s+th~xeam~s+th~xf4ng~s+tin)'')"

definition ABOUT_ME_NOTE_GUARD :: pattern where
  "ABOUT_ME_NOTE_GUARD =
     re_compile [IGNORECASE, DOTALL]
       (''^(?:L~u01b0u|Ghi)~s+(?:v~xe0o~s+)?ghi~s+(?:ch~xfa|ch~u1ee9)~s+v~u1ec1~s+(?:t~xf4i|b~u1ea3n~s+th~xe2n|m~xecnh)~s*:~s*(.+)'')"


definition TINH_WORD :: pattern where
  "TINH_WORD = re_compile [IGNORECASE] (''^T~xednh~b'')"

definition READ_NOTE_WORDS :: pattern where
  "READ_NOTE_WORDS = re_compile [IGNORECASE] (''^~u0110~u1ecdc~s+ghi~s+ch~xfa~b'')"

definition WRITE_WORD :: pattern where
  "WRITE_WORD = re_compile [IGNORECASE] (''^(?:L~u01b0u|Ghi)~s+'')"

definition SEARCH_WORD :: pattern where
  "SEARCH_WORD = re_compile [IGNORECASE] (''^T~xecm~b'')"

definition PROJECT_WORDS :: pattern where
  "PROJECT_WORDS = re_compile [IGNORECASE] (''^D~u1ef1~s+~xe1n~b'')"

definition ARITH_TAIL :: pattern where
  "ARITH_TAIL = re_compile [] (''[=?~s]+$'')"

definition TINH_PREFIX :: pattern where
  "TINH_PREFIX = re_compile [IGNORECASE] (''^T~xednh~s+'')"

definition READ_NOTE_PREFIX :: pattern where
  "READ_NOTE_PREFIX = re_compile [IGNORECASE] (''^~u0110~u1ecdc~s+ghi~s+ch~xfa~s+'')"

definition WRITE_NOTE_FORM :: pattern where
  "WRITE_NOTE_FORM =
     re_compile [IGNORECASE] (''^(?:L~u01b0u|Ghi)~s+(?:v~xe0o~s+)?ghi~s+ch~xfa~s+(~S+)(?:~s+(.+))?'')"

definition SEARCH_PREFIX :: pattern where
  "SEARCH_PREFIX = re_compile [IGNORECASE] (''^T~xecm~s+'')"

section \<open>Slots\<close>

text \<open>A \<open>ParsedIntent\<close> of the rule parser: source \<open>rule\<close>, empty slots.\<close>

definition rule_intent :: "intent_name \<Rightarrow> rat \<Rightarrow> string \<Rightarrow> parsed_intent" where
  "rule_intent i conf t =
     \<lparr>intent = i, confidence = conf, pi_source = ''rule'', raw_text = t, expression = None, note_name = None,
      content = VNone, query = None, missing_slots = [], pi_metadata = []\<rparr>"

definition conv_intent :: "intent_name \<Rightarrow> string \<Rightarrow> parsed_intent" where
  "conv_intent i t = rule_intent i (8 / 10) t"

definition parse_greeting :: "string \<Rightarrow> parsed_intent" where
  "parse_greeting t = rule_intent Greeting (85 / 100) t"

definition parse_unknown :: "string \<Rightarrow> parsed_intent" where
  "parse_unknown t = rule_intent Unknown 0 t"

definition parse_project_context_query :: "string \<Rightarrow> parsed_intent" where
  "parse_project_context_query t = (rule_intent ProjectContextQuery (8 / 10) t)\<lparr>query := Some t\<rparr>"

text \<open>\<open>s or None\<close>.\<close>

definition or_none :: "string \<Rightarrow> string option" where
  "or_none s = (if s = [] then None else Some s)"

text \<open>The names of the slots that are \<open>None\<close> or empty, in the given order.\<close>

definition absent :: "(string \<times> string option) list \<Rightarrow> string list" where
  "absent xs = map fst (filter (\<lambda>(n, v). v = None \<or> v = Some []) xs)"

definition extract_expr :: "charset \<Rightarrow> string \<Rightarrow> string option" where
  "extract_expr u t =
     (case re_search u MATH_EXPR (strip t) of
        None \<Rightarrow> None
      | Some m \<Rightarrow>
          (let raw = strip (mt_text m)
           in if \<not> any_char (cs_isdigit u) raw then None else Some (re_sub u RE_SPACES [] raw)))"

definition normalize_arith :: "charset \<Rightarrow> string \<Rightarrow> string" where
  "normalize_arith u t =
     (let n = re_sub u ARITH_TAIL [] (strip t)
      in replace_str ''X'' ''*'' (replace_str ''x'' ''*'' (replace_str (vn ''~xd7'') ''*'' n)))"

definition none_missing :: "string \<Rightarrow> string option \<Rightarrow> string list" where
  "none_missing n v = (if v = None then [n] else [])"

definition parse_as_calculate :: "charset \<Rightarrow> string \<Rightarrow> string \<Rightarrow> parsed_intent" where
  "parse_as_calculate u original t =
     (let e = extract_expr u t
      in (rule_intent Calculate (9 / 10) original)\<lparr>expression := e, missing_slots := none_missing ''expression'' e\<rparr>)"

definition parse_calculate :: "charset \<Rightarrow> string \<Rightarrow> parsed_intent" where
  "parse_calculate u t =
     (let rest = re_sub u TINH_PREFIX [] t
      in case re_search u SAVE_SUFFIX rest of
          Some m \<Rightarrow>
            (let e = extract_expr u (mt_before m); n = group 1 m
             in (rule_intent CalculateThenSaveNote (9 / 10) t)
                  \<lparr>expression := e, note_name := n,
                   missing_slots := none_missing ''expression'' e @ absent [(''note_name'', n)]\<rparr>)
        | None \<Rightarrow>
            (let e = extract_expr u rest
             in (rule_intent Calculate (9 / 10) t)\<lparr>expression := e, missing_slots := none_missing ''expression'' e\<rparr>))"

definition parse_read_note :: "charset \<Rightarrow> string \<Rightarrow> parsed_intent" where
  "parse_read_note u t =
     (let rest = re_sub u READ_NOTE_PREFIX [] t;
          summarize = re_search u SUMMARIZE_SUFFIX rest;
          n = or_none (strip (case summarize of Some m \<Rightarrow> mt_before m | None \<Rightarrow> rest))
      in (rule_intent (if summarize \<noteq> None then ReadNoteThenSummarize else ReadNote) (9 / 10) t)
           \<lparr>note_name := n, missing_slots := absent [(''note_name'', n)]\<rparr>)"

definition parse_write_note :: "charset \<Rightarrow> string \<Rightarrow> parsed_intent" where
  "parse_write_note u t =
     (case re_match_at_start u ABOUT_ME_NOTE_GUARD t of
        Some m \<Rightarrow>
          (let c = or_none (strip (case group 1 m of Some x \<Rightarrow> x | None \<Rightarrow> []))
           in (rule_intent WriteNote (9 / 10) t)
                \<lparr>content := opt_str c, missing_slots := ''note_name'' # absent [(''content'', c)]\<rparr>)
      | None \<Rightarrow>
          (let m = re_match_at_start u WRITE_NOTE_FORM t;
               n = (case m of Some m' \<Rightarrow> group 1 m' | None \<Rightarrow> None);
               c = (case m of Some m' \<Rightarrow> (case group 2 m' of Some x \<Rightarrow> or_none x | None \<Rightarrow> None) | None \<Rightarrow> None)
           in (rule_intent WriteNote (9 / 10) t)
                \<lparr>note_name := n, content := opt_str c, missing_slots := absent [(''note_name'', n), (''content'', c)]\<rparr>))"

definition parse_web_search :: "charset \<Rightarrow> string \<Rightarrow> parsed_intent" where
  "parse_web_search u t =
     (let rest = re_sub u SEARCH_PREFIX [] t
      in case re_search u SAVE_SUFFIX rest of
          Some m \<Rightarrow>
            (let q = or_none (strip (mt_before m)); n = group 1 m
             in (rule_intent WebSearchThenSaveNote (9 / 10) t)
                  \<lparr>query := q, note_name := n, missing_slots := absent [(''query'', q), (''note_name'', n)]\<rparr>)
        | None \<Rightarrow>
            (let q = or_none (strip rest)
             in (rule_intent WebSearch (9 / 10) t)\<lparr>query := q, missing_slots := absent [(''query'', q)]\<rparr>))"

section \<open>The cascade\<close>

definition rule_parse :: "charset \<Rightarrow> string \<Rightarrow> parsed_intent" where
  "rule_parse u goal_text =
     (let t = strip goal_text in
      if begins u GREETING_WORDS t then parse_greeting t
      else if found u IDENTITY_CUE t then conv_intent IdentityQuery t
      else if found u CAPABILITY_CUE t then conv_intent CapabilityQuery t
      else if found u MEMORY_READ_CUE t then conv_intent MemoryRead t
      else if found u MEMORY_WRITE_CUE t then conv_intent MemoryWriteRequest t
      else if begins u TINH_WORD t then parse_calculate u t
      else if begins u READ_NOTE_WORDS t then parse_read_note u t
      else if begins u WRITE_WORD t then parse_write_note u t
      else if found u CODE_REVIEW_CUE t then conv_intent CodeReviewRequest t
      else if begins u SEARCH_WORD t then parse_web_search u t
      else if begins u PROJECT_WORDS t \<and> found u PROJECT_QUERY_CUE t then parse_project_context_query t
      else if found u PLANNING_CUE t then conv_intent PlanningRequest t
      else if found u SUMMARIZE_CUE t then conv_intent SummarizationRequest t
      else if found u TRANSLATE_CUE t then conv_intent TranslationRequest t
      else if found u TECHNICAL_CUE t then conv_intent TechnicalExplanationRequest t
      else if found u WRITING_CUE t then conv_intent WritingRequest t
      else if found u CLARIFICATION_CUE t then conv_intent ClarificationRequest t
      else if begins u CALC_PREFIX t
      then parse_as_calculate u t (normalize_arith u (re_sub u CALC_PREFIX [] t))
      else if found u VIET_MATH_SUFFIX t
      then parse_as_calculate u t (normalize_arith u (strip (re_sub u VIET_MATH_SUFFIX [] t)))
      else if begins u ARITH_ONLY t then parse_as_calculate u t (normalize_arith u t)
      else parse_unknown t)"

section \<open>What the parser extracts\<close>

text \<open>
  The decimal digits of the table are the ASCII ones and well-formed characters beyond ASCII, and no digit
  is white space.
\<close>

definition digits_ok :: "charset \<Rightarrow> bool" where
  "digits_ok u \<longleftrightarrow>
     (\<forall>c. cs_digit u c \<longrightarrow> (\<exists>x. c = [x] \<and> is_digit x) \<or> proper_char c \<and> list_all (\<lambda>x. 128 \<le> code_point x) c) \<and>
     (\<forall>c. cs_digit u c \<or> cs_isdigit u c \<longrightarrow> lstrip c = c \<and> \<not> ch_space c)"

definition arith_char :: "char \<Rightarrow> bool" where
  "arith_char x = (is_digit x \<or> x \<in> set ''()+-*/.'')"

text \<open>
  The text of a calculation: a decimal digit or an opening parenthesis, then ASCII digits, parentheses,
  the four operators and dots; a digit is among its characters.
\<close>

definition arith_text :: "charset \<Rightarrow> string \<Rightarrow> bool" where
  "arith_text u e =
     (case py_chars e of
        [] \<Rightarrow> False
      | c # cs \<Rightarrow> (cs_digit u c \<or> c = ''('') \<and> list_all (\<lambda>d. case d of [x] \<Rightarrow> arith_char x | _ \<Rightarrow> False) cs
          \<and> list_ex (cs_isdigit u) (c # cs))"

lemma math_expr_re:
  "pt_re MATH_EXPR =
     RSeq (RIn False False [IDigit, ILit ''(''])
       (RRep True 0 None
         (RIn False False [IRange (CHR ''0'') (CHR ''9''), ILit ''('', ILit '')'', ISpace True, ILit ''+'', ILit ''-'',
            ILit ''*'', ILit ''/'', ILit ''.'', ILit '' '']))"
  by code_simp

lemma math_parts:
  assumes "re_search u MATH_EXPR s = Some m"
  shows "\<exists>c cs. mt_text m = concat (c # cs) \<and> (cs_digit u c \<or> c = ''('')
    \<and> list_all (\<lambda>d. ch_space d \<or> (\<exists>x. d = [x] \<and> (is_digit x \<or> x \<in> set ''()+-*/.''))) cs"
proof -
  let ?P = "\<lambda>d. ch_space d \<or> (\<exists>x. d = [x] \<and> (is_digit x \<or> x \<in> set ''()+-*/.''))"
  from assms obtain a t where t: "search_from u MATH_EXPR False [] (py_chars s) = Some (a, t)" "m = match_of MATH_EXPR a t"
    by (auto simp: re_search_def)
  note r = conjunct1 [OF search_from_sound [OF t(1)], unfolded math_expr_re]
  from r obtain v where
    v: "reaches u (RIn False False [IDigit, ILit ''('']) a v" and w: "reaches u (RRep True 0 None
         (RIn False False [IRange (CHR ''0'') (CHR ''9''), ILit ''('', ILit '')'', ISpace True, ILit ''+'', ILit ''-'',
            ILit ''*'', ILit ''/'', ILit ''.'', ILit '' ''])) v t"
    by (cases rule: reaches.cases) auto
  from v obtain c where c: "consumed a v = [c]" "cs_digit u c \<or> c = ''(''"
    by (cases rule: reaches.cases) (auto simp: consumed_step same_letter_def)
  have "list_all ?P (consumed v t)"
    by (rule reaches_inside [OF w])
       (auto simp: same_letter_def is_digit_def ch_space_def ascii_space_def split: list.splits)
  then show ?thesis using c consumed_trans [OF v w]
    by (intro exI [of _ c] exI [of _ "consumed v t"]) (simp add: t(2) match_of_def consumed_def)
qed

lemma arith_char_ascii: "arith_char x \<Longrightarrow> code_point x < 128 \<and> \<not> ascii_space x"
  by (auto simp: arith_char_def is_digit_def between_def ascii_space_def)

lemma extract_expr_arith:
  assumes "digits_ok u" and "extract_expr u t = Some e"
  shows "arith_text u e"
proof -
  from assms(2) obtain m where m: "re_search u MATH_EXPR (strip t) = Some m" "e = re_sub u RE_SPACES [] (strip (mt_text m))"
    "any_char (cs_isdigit u) (strip (mt_text m))"
    by (auto simp: extract_expr_def Let_def split: option.splits if_splits)
  from math_parts [OF m(1)] obtain c cs where c: "mt_text m = concat (c # cs)" "cs_digit u c \<or> c = ''(''"
    and cs: "list_all (\<lambda>d. ch_space d \<or> (\<exists>x. d = [x] \<and> arith_char x)) cs" unfolding arith_char_def by blast
  have "proper_char d" if "ch_space d \<or> (\<exists>x. d = [x] \<and> arith_char x)" for d
    using that wide_spaces_proper arith_char_ascii
    by (auto simp: ch_space_proper list_all_iff ascii_space_def intro!: ascii_proper)
  with cs have p: "list_all proper_char cs" by (auto simp: list_all_iff)
  have "lstrip ''('' = ''(''" "\<not> ch_space ''(''" by code_simp+
  with c(2) assms(1) have pc: "proper_char c" "lstrip c = c" "\<not> ch_space c"
    unfolding digits_ok_def by (metis ascii_proper arith_char_ascii arith_char_def in_set_conv_decomp append_Nil)+
  obtain n where n: "strip (mt_text m) = concat (c # take n cs)"
    using strip_chars_text [of c cs] p pc c(1) by auto
  have "list_all proper_char (c # take n cs)" using p pc(1) by (auto simp: list_all_iff dest: in_set_takeD)
  from py_chars_proper [OF this] n have chars: "py_chars (strip (mt_text m)) = c # take n cs" by simp
  let ?r = "filter (\<lambda>d. \<not> ch_space d) (take n cs)"
  have e: "e = concat (c # ?r)" using m(2) pc(3) chars by (simp add: remove_spaces)
  have "list_all proper_char (c # ?r)" using p pc(1) by (auto simp: list_all_iff dest: in_set_takeD)
  from py_chars_proper [OF this] e have "py_chars e = c # ?r" by simp
  moreover have "list_all (\<lambda>d. case d of [x] \<Rightarrow> arith_char x | _ \<Rightarrow> False) ?r"
    using cs by (fastforce simp: list_all_iff dest: in_set_takeD)
  moreover have "list_ex (cs_isdigit u) (c # ?r)"
    using m(3) chars assms(1) by (auto simp: any_char_def list_ex_iff digits_ok_def)
  ultimately show ?thesis using c(2) by (simp add: arith_text_def)
qed

lemmas parse_parts =
  parse_greeting_def conv_intent_def parse_project_context_query_def parse_unknown_def parse_calculate_def
  parse_read_note_def parse_write_note_def parse_web_search_def parse_as_calculate_def rule_intent_def Let_def

lemma rule_parse_expression: "expression (rule_parse u g) = Some e \<Longrightarrow> \<exists>t. extract_expr u t = Some e"
  unfolding rule_parse_def Let_def by (auto simp: parse_parts split: if_splits option.splits)

lemma absent_missing: "s \<in> set (absent xs) \<Longrightarrow> \<exists>v. (s, v) \<in> set xs \<and> is_missing (opt_str v)"
  by (auto simp: absent_def opt_str_def)

text \<open>What a branch of the parser may leave out.\<close>

definition slots_accounted :: "parsed_intent \<Rightarrow> bool" where
  "slots_accounted p \<longleftrightarrow>
     (\<forall>s \<in> set (missing_slots p). s \<in> set (required_slots (intent p)) \<and> is_missing (slot_value p s))"

lemma accounted_plain: "slots_accounted (rule_intent i conf t)"
  by (simp add: slots_accounted_def rule_intent_def)

lemma accounted_query: "slots_accounted (parse_project_context_query t)"
  by (simp add: slots_accounted_def parse_project_context_query_def rule_intent_def)

lemma slot_value_simps [simp]:
  "slot_value p ''expression'' = opt_str (expression p)" "slot_value p ''note_name'' = opt_str (note_name p)"
  "slot_value p ''content'' = content p" "slot_value p ''query'' = opt_str (query p)"
  by (simp_all add: slot_value_def)

lemma accounted_calculate: "slots_accounted (parse_as_calculate u t v)" "slots_accounted (parse_calculate u t)"
  by (auto simp: slots_accounted_def parse_as_calculate_def parse_calculate_def rule_intent_def Let_def none_missing_def opt_str_def
      dest!: absent_missing split: option.split)

lemma accounted_notes: "slots_accounted (parse_read_note u t)" "slots_accounted (parse_write_note u t)"
  by (auto simp: slots_accounted_def parse_read_note_def parse_write_note_def rule_intent_def Let_def opt_str_def
      dest!: absent_missing split: option.split)

lemma accounted_search: "slots_accounted (parse_web_search u t)"
  by (auto simp: slots_accounted_def parse_web_search_def rule_intent_def Let_def dest!: absent_missing split: option.split)

lemma parse_accounted: "slots_accounted (rule_parse u g)"
  using accounted_plain accounted_query accounted_calculate accounted_notes accounted_search
  unfolding rule_parse_def Let_def conv_intent_def parse_greeting_def parse_unknown_def by (simp split: if_splits)

lemmas parse_missing = parse_accounted [unfolded slots_accounted_def, rule_format]

text \<open>
  The parser's own list of missing slots adds nothing to what the slot validator finds: what is validated
  lacks exactly the required slots that have no value.
\<close>

lemma validated_parse_missing:
  "missing_slots (validate_slots (rule_parse u g)) =
     sort (remdups (filter (\<lambda>s. is_missing (slot_value (rule_parse u g) s)) (required_slots (intent (rule_parse u g)))))"
proof -
  let ?p = "rule_parse u g" and ?f = "filter (\<lambda>s. is_missing (slot_value (rule_parse u g) s)) (required_slots (intent (rule_parse u g)))"
  have "set (missing_slots ?p @ ?f) = set ?f" using parse_missing [of _ u g] by auto
  then have "sort (remdups (missing_slots ?p @ ?f)) = sort (remdups ?f)"
    by (metis sorted_list_of_set_sort_remdups)
  then show ?thesis by (simp add: validate_slots_def with_missing_slots_def)
qed

text \<open>A planned calculation calculates the expression of the intent, which its intent requires.\<close>

definition calculates :: "parsed_intent \<Rightarrow> step \<Rightarrow> bool" where
  "calculates p st \<longleftrightarrow>
     missing_slots p = [] \<and> ''expression'' \<in> set (required_slots (intent p))
     \<and> map_of (args st) ''expression'' = Some (opt_str (expression p))"

lemma intent_plan_calc: "st \<in> set (intent_plan ids p) \<Longrightarrow> action st = Tool CALCULATE \<Longrightarrow> calculates p st"
  by (auto simp: calculates_def intent_plan_def clarification_plan_def calculate_plan_def read_note_plan_def write_note_plan_def
      project_context_query_plan_def greeting_plan_def unknown_plan_def new_step_def split: if_splits)

lemma builtin_factory_calc:
  assumes "sk \<in> set (builtin_skill_specs h)" and "plan_factory sk ids (extract_inputs sk p) = Inr sts"
    and "st \<in> set sts" and "action st = Tool CALCULATE"
    and "missing_slots p = []" and "intent p \<in> applicable_intents sk"
  shows "calculates p st"
  using assms
  by (auto simp: calculates_def builtin_skill_specs_def calculate_and_save_factory_def read_and_summarize_factory_def
      web_search_factory_def need_input_def extract_inputs_def calculate_and_save_steps_def read_and_summarize_steps_def
      web_search_steps_def new_step_def seqE_Inr_iff)

lemma planned_calculation:
  assumes c: "build_skill_catalog h tools = Inr c" and plan: "skill_aware_plan c ids p = Inr sts"
    and st: "st \<in> set sts" "action st = Tool CALCULATE"
  shows "calculates p st"
proof (cases "missing_slots p = []")
  case False
  with plan intent_plan_calc [of st ids p] st show ?thesis by (auto simp: skill_aware_plan_def)
next
  case True
  note cat = c [unfolded build_skill_catalog_def]
  from for_intent_ok [OF catalog_active(1) [OF cat], of "intent p"] obtain r
    where r: "for_intent (active c) (intent p) = Inr r" and spec:
      "case r of None \<Rightarrow> True | Some sk \<Rightarrow> (sk_name sk, sk) \<in> set (sr_data (active c)) \<and> intent p \<in> applicable_intents sk"
    by (auto split: option.splits)
  show ?thesis
  proof (cases r)
    case None
    with r plan True st intent_plan_calc [of st ids p] show ?thesis
      by (auto simp: skill_aware_plan_def capability_unavailable_plan_def new_step_def split: option.splits)
  next
    case (Some sk)
    with spec catalog_active(2) [OF cat] have "sk \<in> set (builtin_skill_specs h)" "intent p \<in> applicable_intents sk" by auto
    moreover have "plan_factory sk ids (extract_inputs sk p) = Inr sts"
      using plan r Some True by (auto simp: skill_aware_plan_def seqE_Inr_iff)
    ultimately show ?thesis using builtin_factory_calc st True by blast
  qed
qed

text \<open>The check of a planned step: a calculation is given the text of a calculation.\<close>

definition calc_arg_ok :: "charset \<Rightarrow> step \<Rightarrow> bool" where
  "calc_arg_ok u st =
     (action st \<noteq> Tool CALCULATE \<or>
      (case map_of (args st) ''expression'' of
         Some (VStr e) \<Rightarrow> \<not> blank e \<and> arith_text u e | _ \<Rightarrow> False))"

lemma parsed_plan_arith:
  assumes "digits_ok u" and "build_skill_catalog h tools = Inr c"
    and "rule_based_make_plan (rule_parse u) c ids s = Inr sts"
  shows "list_all (calc_arg_ok u) sts"
proof -
  let ?p = "rule_parse u (goal s)" and ?v = "validate_slots (rule_parse u (goal s))"
  have v: "intent ?v = intent ?p" "expression ?v = expression ?p"
    by (simp_all add: validate_slots_def with_missing_slots_def)
  have "calc_arg_ok u st" if st: "st \<in> set sts" for st
  proof (cases "action st = Tool CALCULATE")
    case True
    then have c: "calculates ?v st"
      using planned_calculation [OF assms(2) _ st] assms(3) by (simp add: rule_based_make_plan_def)
    then have "\<not> is_missing (opt_str (expression ?p))"
      using v validated_parse_missing [of u "goal s"] by (auto simp: calculates_def filter_empty_conv)
    then obtain e where e: "expression ?p = Some e" "\<not> blank e" by (auto simp: opt_str_def split: option.splits)
    from rule_parse_expression [OF e(1)] extract_expr_arith [OF assms(1)] have "arith_text u e" by blast
    with c v e show ?thesis by (simp add: calc_arg_ok_def calculates_def opt_str_def)
  qed (simp add: calc_arg_ok_def)
  then show ?thesis by (simp add: list_all_iff)
qed

section \<open>A Vietnamese character table\<close>

definition vi_pairs :: "(ch \<times> ch) list" where
  "vi_pairs = [(vn ''~u0110'', vn ''~u0111''), (vn ''~u01af'', vn ''~u01b0''), (vn ''~u01a0'', vn ''~u01a1''), (vn ''~xc2'', vn ''~xe2''), (vn ''~xca'', vn ''~xea''), (vn ''~xd4'', vn ''~xf4''), (vn ''~xcd'', vn ''~xed''), (vn ''~xcc'', vn ''~xec'')]"

definition vi_lower :: "ch \<Rightarrow> ch" where
  "vi_lower c =
     (case c of
        [x] \<Rightarrow> if between (CHR ''A'') (CHR ''Z'') x then [char_of (code_point x + 32)] else [x]
      | _ \<Rightarrow> (case map_of vi_pairs c of Some d \<Rightarrow> d | None \<Rightarrow> c))"

definition vi_charset :: charset where
  "vi_charset =
     \<lparr>cs_lower = vi_lower,
      cs_word = (\<lambda>c. case c of [x] \<Rightarrow> is_digit x \<or> between (CHR ''A'') (CHR ''Z'') x \<or> between (CHR ''a'') (CHR ''z'') x
                    \<or> x = CHR ''_'' | _ \<Rightarrow> c \<notin> set wide_spaces),
      cs_digit = (\<lambda>c. case c of [x] \<Rightarrow> is_digit x | _ \<Rightarrow> False),
      cs_isdigit = (\<lambda>c. case c of [x] \<Rightarrow> is_digit x | _ \<Rightarrow> False),
      cs_isalpha = (\<lambda>c. case c of [x] \<Rightarrow> between (CHR ''A'') (CHR ''Z'') x \<or> between (CHR ''a'') (CHR ''z'') x
                      | _ \<Rightarrow> c \<notin> set wide_spaces),
      cs_isupper = (\<lambda>c. vi_lower c \<noteq> c),
      cs_str_lower = (\<lambda>s. concat (map vi_lower (py_chars s)))\<rparr>"

lemma ascii_digit_no_space: "is_digit x \<Longrightarrow> lstrip [x] = [x] \<and> \<not> ch_space [x]"
  using ascii_proper [of x] arith_char_ascii [of x]
  by (auto simp: arith_char_def lstrip_def ch_space_def wide_spaces_def is_digit_def between_def)

lemma vi_digits_ok: "digits_ok vi_charset"
  by (auto simp: digits_ok_def vi_charset_def ascii_digit_no_space split: list.splits)

lemma ex_extract_expr: "extract_expr vi_charset ''1 + 1'' = Some ''1+1''"
  by code_simp

end
