(* ===== verification/Profile_Properties.thy ===== *)
theory Profile_Properties
  imports Profile_Answer Intent_Parser
begin

text \<open>
  What the profile memory promises: deleting the whole profile deletes the profile and nothing else,
  a snapshot does not contradict itself, the name that was saved last is the one that is answered,
  and what is saved without asking has a safe value.
\<close>

section \<open>Removing records one by one\<close>

text \<open>
  A client that removes a list of records relies on two laws: the invariant is kept, and a record
  is gone afterwards while every other one is as before.
\<close>

locale removal =
  fixes inv :: "'s \<Rightarrow> bool"
    and at_id :: "'s \<Rightarrow> 'i \<Rightarrow> 'r option"
    and rid :: "'r \<Rightarrow> 'i"
    and remove :: "'r \<Rightarrow> 's \<Rightarrow> 's"
  assumes remove_inv: "inv s \<Longrightarrow> inv (remove r s)"
    and remove_at: "inv s \<Longrightarrow> at_id (remove r s) i = (if i = rid r then None else at_id s i)"
begin

fun remove_all :: "'r list \<Rightarrow> 's \<Rightarrow> 's" where
  "remove_all [] s = s"
| "remove_all (r # rs) s = remove_all rs (remove r s)"

lemma remove_all_inv: "inv s \<Longrightarrow> inv (remove_all rs s)"
  by (induction rs arbitrary: s) (simp_all add: remove_inv)

lemma remove_all_at:
  "inv s \<Longrightarrow> at_id (remove_all rs s) i = (if i \<in> rid ` set rs then None else at_id s i)"
  by (induction rs arbitrary: s) (simp_all add: remove_inv remove_at)

end

lemma drop_record_at:
  assumes "store_ok (pe_host e) (pw_store w)"
  shows "live_record (pw_store (drop_record e reason r w)) i =
     (if i = mr_id r then None else live_record (pw_store w) i)"
proof (cases "live_record (pw_store w) (mr_id r)")
  case None
  then show ?thesis by (simp add: drop_record_def store_delete_def)
next
  case (Some x)
  with assms have id: "mr_id x = mr_id r" by (rule live_record_id(1))
  have same: "live_record (drop_index nm j st) = live_record st" for nm j st
    by (rule live_record_cong) simp
  from Some id show ?thesis
    by (simp add: drop_record_def store_delete_def Let_def same mark_deleted_def is_deleted_def split: list.split)
qed

interpretation profile_removal: removal "\<lambda>w. store_ok (pe_host e) (pw_store w)" "\<lambda>w. live_record (pw_store w)" mr_id
    "drop_record e reason"
  for e reason
proof
  show "store_ok (pe_host e) (pw_store (drop_record e reason r w))" if "store_ok (pe_host e) (pw_store w)" for r w
    using that by (simp add: drop_record_def store_ok_delete)
qed (simp add: drop_record_at)

lemma drop_records_all: "drop_records e reason rs w = profile_removal.remove_all e reason rs w"
  by (induction rs arbitrary: w) simp_all

lemma drop_records_at:
  "store_ok (pe_host e) (pw_store w) \<Longrightarrow> live_record (pw_store (drop_records e reason rs w)) i =
     (if i \<in> mr_id ` set rs then None else live_record (pw_store w) i)"
  unfolding drop_records_all by (rule profile_removal.remove_all_at)

lemma drop_records_ok:
  "store_ok (pe_host e) (pw_store w) \<Longrightarrow> store_ok (pe_host e) (pw_store (drop_records e reason rs w))"
  unfolding drop_records_all by (rule profile_removal.remove_all_inv)

section \<open>What a search finds\<close>

definition tagged :: "memory_type \<Rightarrow> memory_record \<Rightarrow> bool" where
  "tagged ty r \<longleftrightarrow> \<not> is_deleted r \<and> mr_type r = ty \<and> ''user_profile'' \<in> set (mr_tags r)"

definition count_tagged :: "memory_type \<Rightarrow> store \<Rightarrow> nat" where
  "count_tagged ty st = length (filter (tagged ty) (map snd (records st)))"

text \<open>\<open>"".lower()\<close> is the empty text.\<close>

definition lowers_empty :: "profile_env \<Rightarrow> bool" where
  "lowers_empty e \<longleftrightarrow> py_lower (pe_host e) [] = []"

lemma profile_search_tagged:
  assumes "lowers_empty e"
  shows "profile_search e ty n st = slice_to n (sort_key rank (filter (tagged ty) (map snd (records st))))"
proof -
  have "matches_query (pe_host e) \<lparr>q_text = [], q_user_id = None, q_session_id = None, q_types = [ty],
      q_tags = [''user_profile''], include_deleted = False, q_limit = n\<rparr> = tagged ty"
    using assms by (auto simp: fun_eq_iff matches_query_def matches_id_def tagged_def lowers_empty_def)
  then show ?thesis by (simp add: profile_search_def store_search_def)
qed

lemma slice_to_subset: "set (slice_to n xs) \<subseteq> set xs"
  unfolding slice_to_def by (rule set_take_subset)

lemma slice_to_all: "length xs \<le> nat n \<Longrightarrow> 0 \<le> n \<Longrightarrow> slice_to n xs = xs"
  by (simp add: slice_to_def)

lemma profile_search_live:
  assumes "store_ok (pe_host e) st" and "r \<in> set (profile_search e ty n st)"
  shows "live_record st (mr_id r) = Some r" and "mr_type r = ty" and "''user_profile'' \<in> set (mr_tags r)"
proof -
  from assms(2) have m: "r \<in> snd ` set (records st)" "\<not> is_deleted r" "mr_type r = ty" "''user_profile'' \<in> set (mr_tags r)"
    using slice_to_subset by (fastforce simp: profile_search_def store_search_def matches_query_def)+
  then obtain i where "(i, r) \<in> set (records st)" by auto
  moreover from this assms(1) have i: "map_of (records st) i = Some r" by (simp add: store_ok_def records_ok_def)
  ultimately have "mr_id r = i" using assms(1) by (simp add: store_ok_def records_ok_def)
  with i m show "live_record st (mr_id r) = Some r" "mr_type r = ty" "''user_profile'' \<in> set (mr_tags r)"
    by (simp_all add: live_record_Some)
qed

lemma both_types_live:
  assumes "store_ok (pe_host e) st" and "r \<in> set (both_types e n st)"
  shows "live_record st (mr_id r) = Some r"
proof -
  from assms(2) consider "r \<in> set (profile_search e FACT n st)" | "r \<in> set (profile_search e PREFERENCE n st)"
    by (auto simp: both_types_def)
  then show ?thesis by cases (rule profile_search_live(1) [OF assms(1)], assumption)+
qed

lemma live_tagged:
  assumes "live_record st i = Some r" and "mr_type r = ty" and "''user_profile'' \<in> set (mr_tags r)"
  shows "r \<in> set (filter (tagged ty) (map snd (records st)))"
  using assms by (force simp: live_record_Some tagged_def dest: map_of_SomeD)

section \<open>Deleting the whole profile\<close>

lemma first_of_id_ids:
  "mr_id ` set (first_of_id seen rs) = mr_id ` set rs - set seen"
  "set (first_of_id seen rs) \<subseteq> set rs" "distinct (map mr_id (first_of_id seen rs))"
proof (induction rs arbitrary: seen)
  case (Cons r rs)
  { case 1 show ?case using Cons(1) [of seen] Cons(1) [of "mr_id r # seen"] by auto }
  { case 2 show ?case using Cons(2) [of seen] Cons(2) [of "mr_id r # seen"] by auto }
  { case 3 show ?case using Cons(1,3) [of seen] Cons(1,3) [of "mr_id r # seen"] by auto }
qed simp_all

definition profile_record :: "memory_record \<Rightarrow> bool" where
  "profile_record r \<longleftrightarrow>
     mr_type r \<in> {FACT, PREFERENCE} \<and> ''user_profile'' \<in> set (mr_tags r) \<and> profile_schema r"

text \<open>The identifiers of the live records with a property, and the store without some identifiers.\<close>

definition live_ids :: "(memory_record \<Rightarrow> bool) \<Rightarrow> store \<Rightarrow> string set" where
  "live_ids P st = {i. \<exists>r. live_record st i = Some r \<and> P r}"

definition forgets :: "store \<Rightarrow> store \<Rightarrow> string set \<Rightarrow> bool" where
  "forgets st st' D \<longleftrightarrow> (\<forall>i. live_record st' i = (if i \<in> D then None else live_record st i))"

text \<open>What the two deletions have in common: the profile records of the two searches with a property.\<close>

definition doomed :: "profile_env \<Rightarrow> (memory_record \<Rightarrow> bool) \<Rightarrow> store \<Rightarrow> memory_record list" where
  "doomed e P st = filter (\<lambda>r. P r \<and> profile_schema r) (first_of_id [] (both_types e 500 st))"

lemma doomed_live:
  assumes "store_ok (pe_host e) st" and "r \<in> set (doomed e P st)"
  shows "live_record st (mr_id r) = Some r \<and> P r \<and> profile_record r"
proof -
  from assms(2) have r: "P r" "profile_schema r" "r \<in> set (both_types e 500 st)"
    using first_of_id_ids(2) by (fastforce simp: doomed_def)+
  then show ?thesis
    using profile_search_live [OF assms(1), of r] by (auto simp: both_types_def profile_record_def)
qed

lemma doomed_ids: "distinct (map mr_id (doomed e P st))"
  unfolding doomed_def using first_of_id_ids(3) by (rule distinct_map_filter)

lemma doomed_subset:
  assumes "store_ok (pe_host e) st"
  shows "mr_id ` set (doomed e P st) \<subseteq> live_ids (\<lambda>r. P r \<and> profile_record r) st"
  using doomed_live [OF assms] by (auto simp: live_ids_def)

lemma doomed_complete:
  assumes ok: "store_ok (pe_host e) st" and low: "lowers_empty e"
    and few: "count_tagged FACT st \<le> 500" "count_tagged PREFERENCE st \<le> 500"
  shows "live_ids (\<lambda>r. P r \<and> profile_record r) st \<subseteq> mr_id ` set (doomed e P st)"
proof
  fix i assume "i \<in> live_ids (\<lambda>r. P r \<and> profile_record r) st"
  then obtain r where r: "live_record st i = Some r" "P r" "profile_record r" by (auto simp: live_ids_def)
  have "set (profile_search e ty 500 st) = set (filter (tagged ty) (map snd (records st)))"
    if "count_tagged ty st \<le> 500" for ty
    using that by (simp add: profile_search_tagged [OF low] slice_to_all count_tagged_def)
  with few r have "r \<in> set (both_types e 500 st)"
    using live_tagged [OF r(1)] by (auto simp: both_types_def profile_record_def)
  then have "mr_id r \<in> mr_id ` set (first_of_id [] (both_types e 500 st))" by (simp add: first_of_id_ids(1))
  then obtain x where x: "x \<in> set (first_of_id [] (both_types e 500 st))" "mr_id x = mr_id r" by auto
  then have "x \<in> set (both_types e 500 st)" using first_of_id_ids(2) by blast
  then have "live_record st (mr_id x) = Some x" by (rule both_types_live [OF ok])
  moreover have "mr_id r = i" by (rule live_record_id(1) [OF ok r(1)])
  ultimately have "x = r" using r(1) unfolding x(2) by (metis option.inject)
  with x(1) r have "r \<in> set (doomed e P st)" by (simp add: doomed_def profile_record_def)
  then have "mr_id r \<in> mr_id ` set (doomed e P st)" by (rule imageI)
  with \<open>mr_id r = i\<close> show "i \<in> mr_id ` set (doomed e P st)" by simp
qed

text \<open>A deletion counts what it forgets.\<close>

lemma doomed_forgets:
  assumes "store_ok (pe_host e) (pw_store w)"
  shows "forgets (pw_store w) (pw_store (drop_records e reason (doomed e P (pw_store w)) w))
           (mr_id ` set (doomed e P (pw_store w)))
         \<and> length (doomed e P (pw_store w)) = card (mr_id ` set (doomed e P (pw_store w)))"
  using distinct_card [OF doomed_ids [of e P "pw_store w"]] drop_records_at [OF assms] by (simp add: forgets_def)

definition deletes_exactly :: "store \<Rightarrow> nat \<Rightarrow> store \<Rightarrow> (memory_record \<Rightarrow> bool) \<Rightarrow> bool" where
  "deletes_exactly st n st' P \<longleftrightarrow>
     (\<exists>D. forgets st st' D \<and> n = card D \<and> D \<subseteq> live_ids P st
        \<and> (count_tagged FACT st \<le> 500 \<and> count_tagged PREFERENCE st \<le> 500 \<longrightarrow> D = live_ids P st))"

lemma doomed_exact:
  assumes "store_ok (pe_host e) (pw_store w)" and "lowers_empty e"
  shows "deletes_exactly (pw_store w) (length (doomed e P (pw_store w)))
     (pw_store (drop_records e reason (doomed e P (pw_store w)) w)) (\<lambda>r. P r \<and> profile_record r)"
  unfolding deletes_exactly_def
  using doomed_forgets [OF assms(1), of reason P] doomed_subset [OF assms(1), of P] doomed_complete [OF assms, of P]
  by (intro exI [of _ "mr_id ` set (doomed e P (pw_store w))"]) auto

lemma delete_all_doomed:
  "delete_all_profile_memory e w =
     (length (doomed e (\<lambda>r. True) (pw_store w)), drop_records e ''user_delete_all_memory'' (doomed e (\<lambda>r. True) (pw_store w)) w)"
  by (simp add: delete_all_profile_memory_def doomed_def Let_def)

lemma delete_session_doomed:
  "delete_profile_memory_for_session e sid w =
     (let rs = doomed e (\<lambda>r. mr_session_id r = Some sid) (pw_store w)
      in (length rs, drop_records e ''debug_session_memory_reset'' rs w))"
  by (simp add: delete_profile_memory_for_session_def doomed_def Let_def)

text \<open>
  C16.  Deleting the whole profile and resetting one session forget profile
  records only, those of the session in the second case, and every other record stays as it was; the
  answer is the number of records forgotten.  As long as there are at most 500 records of each type,
  all of them are forgotten.
\<close>

theorem deletions_are_scoped:
  assumes "store_ok (pe_host e) (pw_store w)" and "lowers_empty e"
  shows "deletes_exactly (pw_store w) (fst (delete_all_profile_memory e w))
           (pw_store (snd (delete_all_profile_memory e w))) profile_record
       \<and> deletes_exactly (pw_store w) (fst (delete_profile_memory_for_session e sid w))
           (pw_store (snd (delete_profile_memory_for_session e sid w)))
           (\<lambda>r. mr_session_id r = Some sid \<and> profile_record r)"
  using doomed_exact [OF assms, of "\<lambda>r. True"] doomed_exact [OF assms, of "\<lambda>r. mr_session_id r = Some sid"]
  by (simp add: delete_all_doomed delete_session_doomed Let_def)

section \<open>A snapshot does not contradict itself\<close>

text \<open>
  No list holds a value twice, up to case and white space; the current name is not an old one; no skill
  is known and unknown; the focus is a goal; and the winner of a comparison is liked.
\<close>

definition distinct_norm :: "charset \<Rightarrow> string list \<Rightarrow> bool" where
  "distinct_norm u vs \<longleftrightarrow> distinct (map (norm_cmp u) vs)"

definition snapshot_lists :: "profile_snapshot \<Rightarrow> string list list" where
  "snapshot_lists s =
     [occupation s, sn_skills s, learning s, goals s, marry_targets s, eat_desires s, today_intentions s,
      preferences_personal s, preferences_professional s, habits s, pets s, dislikes s, affections s,
      external_affections s, negative_affections s, negative_external_affections s, previous_names s,
      negative_skills s, negative_goals s]"

definition no_repetition :: "charset \<Rightarrow> profile_snapshot \<Rightarrow> bool" where
  "no_repetition u s \<longleftrightarrow>
     list_all (distinct_norm u) (snapshot_lists s) \<and> distinct (relations s) \<and> distinct (comparatives s)"

definition skills_settled :: "charset \<Rightarrow> profile_snapshot \<Rightarrow> bool" where
  "skills_settled u s \<longleftrightarrow> list_all (\<lambda>x. \<not> known u x (negative_skills s)) (sn_skills s)"

definition name_settled :: "charset \<Rightarrow> profile_snapshot \<Rightarrow> bool" where
  "name_settled u s \<longleftrightarrow>
     (case present (sn_name s) of Some n \<Rightarrow> \<not> known u n (previous_names s) | None \<Rightarrow> True)"

definition focus_settled :: "charset \<Rightarrow> profile_snapshot \<Rightarrow> bool" where
  "focus_settled u s \<longleftrightarrow> (case present (current_focus s) of Some f \<Rightarrow> known u f (goals s) | None \<Rightarrow> True)"

definition snapshot_consistent :: "charset \<Rightarrow> profile_snapshot \<Rightarrow> bool" where
  "snapshot_consistent u s \<longleftrightarrow>
     no_repetition u s \<and> skills_settled u s \<and> name_settled u s \<and> focus_settled u s
     \<and> list_all (\<lambda>(w, l). known u w (preferences_personal s)) (comparatives s)"

lemma known_iff: "known u v vs \<longleftrightarrow> norm_cmp u v \<in> norm_cmp u ` set vs"
  by (auto simp: known_def same_norm_def list_ex_iff image_iff)

lemma distinct_norm_Nil [simp]: "distinct_norm u []"
  by (simp add: distinct_norm_def)

lemma distinct_norm_add [simp]: "distinct_norm u vs \<Longrightarrow> distinct_norm u (add_value u v vs)"
  by (auto simp: distinct_norm_def add_value_def known_iff)

lemma distinct_norm_filter [simp]: "distinct_norm u vs \<Longrightarrow> distinct_norm u (filter P vs)"
  by (auto simp: distinct_norm_def distinct_map_filter)

lemma known_add [simp]: "known u x (add_value u v vs) \<longleftrightarrow> same_norm u x v \<or> known u x vs"
  by (auto simp: add_value_def known_iff same_norm_def image_iff)

lemmas no_repetition_defs = no_repetition_def snapshot_lists_def

lemma no_repetition_empty: "no_repetition u empty_snapshot"
  by (simp add: no_repetition_defs empty_snapshot_def)

lemma no_repetition_name: "no_repetition u s \<Longrightarrow> no_repetition u (snapshot_name u v s)"
  by (auto simp: snapshot_name_def no_repetition_defs Let_def split: option.split)

lemma no_repetition_if:
  "no_repetition u a \<Longrightarrow> no_repetition u b \<Longrightarrow> no_repetition u (if c then a else b)"
  by simp

lemma no_repetition_pair:
  "no_repetition u s
    \<Longrightarrow> no_repetition u (if p \<in> set (comparatives s) then s else s\<lparr>comparatives := comparatives s @ [p]\<rparr>)"
  "no_repetition u s
    \<Longrightarrow> no_repetition u (if p \<in> set (relations s) then s else s\<lparr>relations := relations s @ [p]\<rparr>)"
  by (simp_all add: no_repetition_defs)

lemma no_repetition_self:
  "no_repetition (pe_chars e) s \<Longrightarrow> no_repetition (pe_chars e) (snapshot_self e r rel v s)"
  unfolding snapshot_self_def Let_def
  by (rule no_repetition_pair no_repetition_if no_repetition_name | assumption
      | (simp add: no_repetition_defs; fail))+

lemma no_repetition_step:
  "no_repetition (pe_chars e) s \<Longrightarrow> no_repetition (pe_chars e) (snapshot_step e r s)"
  unfolding snapshot_step_def snapshot_external_def snapshot_relation_def Let_def
  by (rule no_repetition_pair no_repetition_if no_repetition_self | assumption
      | (simp add: no_repetition_defs; fail))+

lemma no_repetition_fold:
  "no_repetition (pe_chars e) s \<Longrightarrow> no_repetition (pe_chars e) (fold (snapshot_step e) rs s)"
  by (induction rs arbitrary: s) (simp_all add: no_repetition_step)

lemma fold_add_known:
  "known u x (fold (\<lambda>(w, l). add_value u w) ps vs) \<longleftrightarrow> known u x vs \<or> list_ex (\<lambda>(w, l). same_norm u x w) ps"
proof (induction ps arbitrary: vs)
  case (Cons p ps)
  show ?case using Cons [of "add_value u (fst p) vs"] by (simp add: split_beta disj_ac)
qed simp

lemma fold_add_distinct: "distinct_norm u vs \<Longrightarrow> distinct_norm u (fold (\<lambda>(w, l). add_value u w) ps vs)"
  by (induction ps arbitrary: vs) (simp_all add: split_beta)

lemma settled_names: "no_repetition u s \<Longrightarrow> no_repetition u (settle_names u s) \<and> name_settled u (settle_names u s)"
  by (auto simp: settle_names_def name_settled_def no_repetition_defs known_def same_norm_def list_ex_iff
      split: option.split)

lemma settled_skills:
  assumes "no_repetition u s" and "name_settled u s"
  shows "no_repetition u (settle_skills u s) \<and> name_settled u (settle_skills u s) \<and> skills_settled u (settle_skills u s)"
proof -
  have "sn_name (settle_skills u s) = sn_name s" "previous_names (settle_skills u s) = previous_names s"
    by (simp_all add: settle_skills_def Let_def)
  then have "name_settled u (settle_skills u s)" using assms(2) by (simp add: name_settled_def cong: option.case_cong)
  with assms(1) show ?thesis
    by (auto simp: settle_skills_def no_repetition_defs skills_settled_def Let_def list_all_iff known_def)
qed

lemma settled_focus:
  assumes "no_repetition u s" and "name_settled u s" and "skills_settled u s"
  shows "no_repetition u (settle_focus u s) \<and> name_settled u (settle_focus u s)
       \<and> skills_settled u (settle_focus u s) \<and> focus_settled u (settle_focus u s)"
proof (cases "focus_settled u s")
  case True
  then have same: "settle_focus u s = s"
    by (cases "present (current_focus s)") (simp_all add: settle_focus_def focus_settled_def)
  from True assms show ?thesis unfolding same by simp
next
  case False
  then have "settle_focus u s = s\<lparr>current_focus := None\<rparr>"
    by (cases "present (current_focus s)") (simp_all add: settle_focus_def focus_settled_def)
  with assms show ?thesis
    by (simp add: no_repetition_defs name_settled_def skills_settled_def focus_settled_def present_def
        cong: option.case_cong)
qed

lemma settled_comparatives:
  assumes "no_repetition u s" and "name_settled u s" and "skills_settled u s" and "focus_settled u s"
  shows "snapshot_consistent u (settle_comparatives u s)"
proof -
  let ?s = "settle_comparatives u s"
  have "name_settled u ?s" "skills_settled u ?s" "focus_settled u ?s"
    using assms(2-4)
    by (simp_all add: settle_comparatives_def name_settled_def skills_settled_def focus_settled_def cong: option.case_cong)
  moreover have "no_repetition u ?s"
    using assms(1) by (simp add: settle_comparatives_def no_repetition_defs fold_add_distinct)
  moreover have "list_all (\<lambda>(w, l). known u w (preferences_personal ?s)) (comparatives ?s)"
    by (auto simp: settle_comparatives_def fold_add_known list_all_iff list_ex_iff same_norm_def)
  ultimately show ?thesis by (simp add: snapshot_consistent_def)
qed

text \<open>
  C17.  Whatever records a store holds, the snapshot that the answers are
  read from is consistent: no list repeats a value, no skill is both known and unknown, the current
  name is not an old name, the focus is one of the goals, and the winner of every comparison is among
  the preferences.
\<close>

theorem snapshot_never_contradicts:
  "snapshot_consistent (pe_chars e) (collect_profile_snapshot e st)"
  unfolding collect_profile_snapshot_def Let_def
  using settled_names [OF no_repetition_fold [OF no_repetition_empty]] settled_skills settled_focus
  by (intro settled_comparatives) blast+

section \<open>The last name is the one that is answered\<close>

lemma first_of_sort:
  assumes "x \<in> set xs" and "\<And>y. y \<in> set xs \<Longrightarrow> y = x \<or> f x < f y"
  shows "x \<in> set (take (Suc n) (sort_key f xs))"
proof -
  from assms(1) obtain y ys where s: "sort_key f xs = y # ys"
    by (metis list.set_cases set_sort)
  then have "y \<in> set xs" by (metis list.set_intros(1) set_sort)
  moreover have "\<not> f x < f y"
    using sorted_sort_key [of f xs] assms(1) s by (metis list.simps(9) not_less set_ConsD set_sort sorted_simps(2) image_eqI list.set_map order_refl)
  ultimately have "y = x" using assms(2) by blast
  with s show ?thesis by simp
qed

lemma last_of_sort:
  assumes "x \<in> set xs" and "\<And>y. y \<in> set xs \<Longrightarrow> y = x \<or> f y < f x"
  shows "\<exists>ys. sort_key f xs = ys @ [x]"
proof -
  from assms(1) have "sort_key f xs \<noteq> []" by (metis empty_iff list.set(1) set_sort)
  then obtain ys y where s: "sort_key f xs = ys @ [y]" by (metis rev_exhaust)
  then have "y \<in> set xs" by (metis in_set_conv_decomp set_sort)
  moreover have "x \<in> set (ys @ [y])" using assms(1) s by (metis set_sort)
  then have "\<not> f y < f x"
    using sorted_sort_key [of f xs] unfolding s by (auto simp: sorted_append)
  ultimately have "y = x" using assms(2) by blast
  with s show ?thesis by blast
qed

text \<open>Every record was made and touched before \<open>now\<close>, and none is more important than a name.\<close>

definition older_than :: "int \<Rightarrow> store \<Rightarrow> bool" where
  "older_than now st \<longleftrightarrow>
     (\<forall>r \<in> snd ` set (records st). created_at r < now \<and> updated_at r < now \<and> importance r \<le> 9 / 10)"

definition name_record :: "profile_env \<Rightarrow> string \<Rightarrow> string \<Rightarrow> string \<Rightarrow> nat \<Rightarrow> memory_record" where
  "name_record e sid v t n =
     new_record e sid FACT (fact_content (self_candidate v t)) (fact_tags (self_candidate v t)) (9 / 10) 1
       (fact_metadata ''auto_safe'' (self_candidate v t)) n"

lemma name_record_facts:
  "tagged FACT (name_record e sid v t n)" "confirmed_profile (name_record e sid v t n)"
  "md_text ''subject'' (name_record e sid v t n) = ''self''"
  "md_text ''relation'' (name_record e sid v t n) = ''name''"
  "md_text ''value'' (name_record e sid v t n) = v"
  by (simp_all add: name_record_def new_record_def tagged_def is_deleted_def fact_tags_def self_candidate_def
      confirmed_profile_def profile_schema_def md_text_def md_get_def fact_metadata_def)

lemma name_content_visible: "\<not> blank (fact_content (self_candidate v t))"
proof (rule visible_not_blank)
  have "starts_with ''t'' (fact_content (self_candidate v t))"
    by (simp add: fact_content_def self_candidate_def)
  then show "CHR ''t'' \<in> set (fact_content (self_candidate v t))"
    by (cases "fact_content (self_candidate v t)") auto
qed (simp add: visible_def)

lemma set_dict_put_new: "map_of kvs k = None \<Longrightarrow> set (dict_put k v kvs) = insert (k, v) (set kvs)"
  by (induction k v kvs rule: dict_put.induct) (auto split: if_splits)

text \<open>The store after the save: the old records and the new one.\<close>

lemma save_name_store:
  assumes "map_of (records (pw_store w)) (pe_fresh e (pw_tick w)) = None"
  shows "set (map snd (records (pw_store (snd (save_self_name_update e sid v t w))))) =
     insert (name_record e sid v t (pw_tick w)) (set (map snd (records (pw_store w))))"
proof -
  have m: "mark_updated (pe_clock e n) (name_record e sid v t n) = name_record e sid v t n" for n
    by (simp add: mark_updated_def name_record_def new_record_def)
  have "mr_id (name_record e sid v t n) = pe_fresh e n" for n
    by (simp add: name_record_def new_record_def)
  then show ?thesis
    using assms unfolding save_self_name_update_def save_confirmed_profile_fact_def agent_save_def
    by (simp add: name_content_visible saved_def store_write_def Let_def m put_record_def set_dict_put_new
        flip: name_record_def)
qed

lemma name_record_first:
  assumes "older_than (pe_clock e n) st" and "r \<in> set (map snd (records st))"
  shows "rank (name_record e sid v t n) < rank r"
  using assms by (force simp: older_than_def rank_def less_prod_def name_record_def new_record_def)

lemma name_record_last:
  assumes "older_than (pe_clock e n) st" and "r \<in> set (map snd (records st))"
  shows "created_at r < created_at (name_record e sid v t n)"
  using assms by (force simp: older_than_def name_record_def new_record_def)

lemma confirmed_ends_with_name:
  assumes low: "lowers_empty e" and old: "older_than (pe_clock e n) st"
    and st': "set (map snd (records st')) = insert (name_record e sid v t n) (set (map snd (records st)))"
  shows "\<exists>rs. confirmed_records e st' = rs @ [name_record e sid v t n]"
  unfolding confirmed_records_def
proof (rule last_of_sort)
  let ?r = "name_record e sid v t n"
  have "?r \<in> set (take (Suc 199) (sort_key rank (filter (tagged FACT) (map snd (records st')))))"
  proof (rule first_of_sort)
    show "?r \<in> set (filter (tagged FACT) (map snd (records st')))"
      unfolding set_filter st' by (simp add: name_record_facts(1))
    fix y assume "y \<in> set (filter (tagged FACT) (map snd (records st')))"
    then show "y = ?r \<or> rank ?r < rank y"
      unfolding set_filter st' using name_record_first [OF old] by blast
  qed
  then have "?r \<in> set (profile_search e FACT 200 st')"
    by (simp add: profile_search_tagged [OF low] slice_to_def)
  then show "?r \<in> set (filter confirmed_profile (both_types e 200 st'))"
    by (simp add: both_types_def name_record_facts)
next
  fix y assume "y \<in> set (filter confirmed_profile (both_types e 200 st'))"
  then have "y \<in> set (map snd (records st'))"
    using slice_to_subset by (fastforce simp: both_types_def profile_search_tagged [OF low])
  then show "y = name_record e sid v t n \<or> created_at y < created_at (name_record e sid v t n)"
    unfolding st' using name_record_last [OF old] by blast
qed

lemma settled_keeps_name [simp]:
  "sn_name (settle_names u s) = sn_name s" "sn_name (settle_skills u s) = sn_name s"
  "sn_name (settle_focus u s) = sn_name s" "sn_name (settle_comparatives u s) = sn_name s"
  by (auto simp: settle_names_def settle_skills_def settle_focus_def settle_comparatives_def Let_def split: option.split)

lemma name_step:
  assumes "v \<noteq> []" and "\<not> is_dirty_value (pe_chars e) v"
  shows "sn_name (snapshot_step e (name_record e sid v t n) s) = Some v"
  using assms by (simp add: snapshot_step_def name_record_facts snapshot_self_def snapshot_name_def Let_def)

text \<open>A value that the snapshot shows, and the names that a snapshot can hold.\<close>

definition shown_value :: "profile_env \<Rightarrow> string \<Rightarrow> bool" where
  "shown_value e v \<longleftrightarrow> v \<noteq> [] \<and> \<not> is_dirty_value (pe_chars e) v"

definition name_shown :: "profile_env \<Rightarrow> profile_snapshot \<Rightarrow> bool" where
  "name_shown e s \<longleftrightarrow> (\<forall>n. sn_name s = Some n \<longrightarrow> shown_value e n)"

lemma other_parts_keep_name [simp]:
  "sn_name (snapshot_external u rel v s) = sn_name s" "sn_name (snapshot_relation r v s) = sn_name s"
  by (simp_all add: snapshot_external_def snapshot_relation_def Let_def)

lemma snapshot_self_name: "sn_name (snapshot_self e r rel v s) = (if rel = ''name'' then Some v else sn_name s)"
  by (simp add: snapshot_self_def snapshot_name_def Let_def split: option.split)

lemma name_shown_step: "name_shown e s \<Longrightarrow> name_shown e (snapshot_step e r s)"
  by (auto simp: name_shown_def snapshot_step_def shown_value_def snapshot_self_name Let_def split: if_splits)

lemma name_shown_fold: "name_shown e s \<Longrightarrow> name_shown e (fold (snapshot_step e) rs s)"
  by (induction rs arbitrary: s) (simp_all add: name_shown_step)

lemma snapshot_name_shown: "name_shown e (collect_profile_snapshot e st)"
proof -
  have "name_shown e empty_snapshot" by (simp add: name_shown_def empty_snapshot_def)
  from name_shown_fold [OF this] show ?thesis by (simp add: collect_profile_snapshot_def Let_def name_shown_def)
qed

abbreviation name_answer :: "string \<Rightarrow> string" where
  "name_answer v \<equiv> (vn ''B~u1ea1n t~xean l~xe0 '') @ v @ ''.''"

lemma self_name_answer:
  "answer_profile_query e (ask ''self_name'') st =
     Some (case present (sn_name (collect_profile_snapshot e st)) of
             Some n \<Rightarrow> name_answer n | None \<Rightarrow> vn ''T~xf4i ch~u01b0a bi~u1ebft t~xean b~u1ea1n.'')"
  by (simp add: answer_profile_query_def ask_def answer_facts_def Let_def split: option.split)

lemma no_name_answer: "vn ''T~xf4i ch~u01b0a bi~u1ebft t~xean b~u1ea1n.'' \<noteq> name_answer v"
proof -
  have "\<not> starts_with ''B'' (vn ''T~xf4i ch~u01b0a bi~u1ebft t~xean b~u1ea1n.'')" "starts_with ''B'' (vn ''B~u1ea1n t~xean l~xe0 '')" by code_simp+
  then have "\<not> starts_with ''B'' (vn ''T~xf4i ch~u01b0a bi~u1ebft t~xean b~u1ea1n.'')" "starts_with ''B'' (name_answer v)"
    by (auto simp: starts_with_prefix)
  then show ?thesis by metis
qed

lemma present_Some [simp]: "present (Some n) = (if n = [] then None else Some n)"
  by (simp add: present_def split: list.split)

lemma only_shown_names_answered:
  "answer_profile_query e (ask ''self_name'') st = Some (name_answer v) \<Longrightarrow> shown_value e v"
  using snapshot_name_shown [of e st] no_name_answer [of v]
  by (cases "sn_name (collect_profile_snapshot e st)")
     (auto simp: self_name_answer name_shown_def shown_value_def present_def [of None] split: if_splits)

text \<open>
  The histories of the profile: from the empty store, every change is a record that is saved, and no
  function of the module saves one as more important than a name, or a record that is deleted.
\<close>

inductive profile_history :: "profile_env \<Rightarrow> profile_world \<Rightarrow> bool" for e where
  ph_empty: "profile_history e \<lparr>pw_store = empty_store, pw_tick = 0\<rparr>"
| ph_save: "profile_history e w \<Longrightarrow> imp \<le> 9 / 10 \<Longrightarrow> agent_save e sid ty c ts imp conf md w = Inr w'
     \<Longrightarrow> profile_history e w'"
| ph_drop: "profile_history e w \<Longrightarrow> profile_history e (drop_record e reason r w)"

lemma history_saved:
  "profile_history e w \<Longrightarrow> imp \<le> 9 / 10 \<Longrightarrow> profile_history e (snd (saved w (agent_save e sid ty c ts imp conf md w)))"
  by (auto simp: saved_def intro: profile_history.intros split: sum.split)

lemma history_drops: "profile_history e w \<Longrightarrow> profile_history e (drop_records e reason rs w)"
  by (induction rs arbitrary: w) (simp_all add: profile_history.ph_drop)

text \<open>The functions that save and delete stay in a history.\<close>

lemma history_operations:
  assumes "profile_history e w"
  shows "profile_history e (snd (save_self_name_update e sid v t w))"
    and "profile_history e (snd (save_confirmed_profile_fact e sid src fc w))"
    and "profile_history e (snd (save_profile_v2_fact e sid subj rel v c ts orig extra w))"
    and "profile_history e (snd (save_auto_profile_fact e sid ac w))"
    and "profile_history e (delete_profile_records e subj rel v w)"
    and "profile_history e (snd (delete_all_profile_memory e w))"
    and "profile_history e (snd (delete_profile_memory_for_session e sid w))"
  using assms history_drops
  by (auto simp: save_self_name_update_def save_confirmed_profile_fact_def save_profile_v2_fact_def
      save_auto_profile_fact_def delete_profile_records_def delete_all_profile_memory_def
      delete_canonical_alias_preference_records_def delete_profile_memory_for_session_def Let_def intro!: history_saved)

text \<open>In a history every record is older than the next tick and has an identifier of an earlier one.\<close>

definition history_record :: "profile_env \<Rightarrow> nat \<Rightarrow> string \<times> memory_record \<Rightarrow> bool" where
  "history_record e n ir \<longleftrightarrow>
     (\<exists>k < n. fst ir = pe_fresh e k) \<and> mr_id (snd ir) = fst ir \<and> created_at (snd ir) < pe_clock e n
     \<and> updated_at (snd ir) < pe_clock e n \<and> importance (snd ir) \<le> 9 / 10"

lemma dict_put_subset: "set (dict_put k v kvs) \<subseteq> insert (k, v) (set kvs)"
  by (induction k v kvs rule: dict_put.induct) auto

lemma dict_put_all: "\<forall>kv \<in> set kvs. P kv \<Longrightarrow> P (k, v) \<Longrightarrow> \<forall>kv \<in> set (dict_put k v kvs). P kv"
  using dict_put_subset [of k v kvs] by blast

lemma history_record_later: "strict_mono (pe_clock e) \<Longrightarrow> history_record e n ir \<Longrightarrow> history_record e (Suc n) ir"
  using strict_monoD [of "pe_clock e" n "Suc n"]
  by (simp add: history_record_def) (meson less_SucI order_less_trans)

lemma history_records:
  assumes "profile_history e w" and "strict_mono (pe_clock e)"
  shows "\<forall>ir \<in> set (records (pw_store w)). history_record e (pw_tick w) ir"
  using assms(1)
proof induction
  case (ph_save w imp sid ty c ts conf md w')
  let ?r = "mark_updated (pe_clock e (pw_tick w)) (new_record e sid ty c ts imp conf md (pw_tick w))"
  have w': "records (pw_store w') = dict_put (mr_id ?r) ?r (records (pw_store w))" "pw_tick w' = Suc (pw_tick w)"
    using ph_save.hyps by (auto simp: agent_save_def store_write_def put_record_def Let_def split: if_splits)
  have "history_record e (Suc (pw_tick w)) (mr_id ?r, ?r)"
    using ph_save.hyps strict_monoD [OF assms(2), of "pw_tick w" "Suc (pw_tick w)"]
    by (auto simp: history_record_def new_record_def mark_updated_def)
  moreover have "\<forall>ir \<in> set (records (pw_store w)). history_record e (Suc (pw_tick w)) ir"
    using ph_save.IH history_record_later [OF assms(2)] by blast
  ultimately show ?case unfolding w' by (intro dict_put_all)
next
  case (ph_drop w reason r)
  show ?case
  proof (cases "live_record (pw_store w) (mr_id r)")
    case None
    with ph_drop.IH history_record_later [OF assms(2)] show ?thesis by (simp add: drop_record_def store_delete_def)
  next
    case (Some x)
    then have x: "(mr_id r, x) \<in> set (records (pw_store w))" by (auto simp: live_record_Some dest: map_of_SomeD)
    let ?x = "mark_deleted (pe_clock e (pw_tick w))
        (case Some reason of Some (c # cs) \<Rightarrow> x\<lparr>mr_metadata := dict_put ''delete_reason'' (VStr (c # cs)) (mr_metadata x)\<rparr> | _ \<Rightarrow> x)"
    have rec: "records (pw_store (drop_record e reason r w)) = dict_put (mr_id ?x) ?x (records (pw_store w))"
      using Some by (simp add: drop_record_def store_delete_def Let_def put_record_def)
    have step: "pe_clock e (pw_tick w) < pe_clock e (Suc (pw_tick w))" using assms(2) by (simp add: strict_monoD)
    obtain k where k: "k < pw_tick w" "mr_id x = pe_fresh e k" "created_at x < pe_clock e (pw_tick w)" "importance x \<le> 9 / 10"
      using bspec [OF ph_drop.IH x] unfolding history_record_def fst_conv snd_conv by metis
    have fields: "mr_id ?x = mr_id x" "created_at ?x = created_at x" "updated_at ?x = pe_clock e (pw_tick w)"
      "importance ?x = importance x"
      by (cases reason; simp add: mark_deleted_def)+
    have "history_record e (Suc (pw_tick w)) (mr_id ?x, ?x)"
      unfolding history_record_def fst_conv snd_conv fields k(2)
      using k(4) step less_trans [OF k(3) step] less_SucI [OF k(1)] by blast
    moreover have "\<forall>ir \<in> set (records (pw_store w)). history_record e (Suc (pw_tick w)) ir"
      using ph_drop.IH history_record_later [OF assms(2)] by blast
    moreover have tick: "pw_tick (drop_record e reason r w) = Suc (pw_tick w)" by (simp add: drop_record_def)
    ultimately show ?thesis unfolding rec tick by (intro dict_put_all)
  qed
qed (simp add: empty_store_def)

lemma history_older: "profile_history e w \<Longrightarrow> strict_mono (pe_clock e) \<Longrightarrow> older_than (pe_clock e (pw_tick w)) (pw_store w)"
  using history_records by (fastforce simp: older_than_def history_record_def)

lemma history_fresh:
  assumes "profile_history e w" "strict_mono (pe_clock e)" "inj (pe_fresh e)"
  shows "map_of (records (pw_store w)) (pe_fresh e (pw_tick w)) = None"
proof -
  have "pe_fresh e (pw_tick w) \<notin> fst ` set (records (pw_store w))"
    using history_records [OF assms(1,2)] assms(3) by (force simp: history_record_def inj_eq)
  then show ?thesis by (simp add: map_of_eq_None_iff)
qed

text \<open>
  C18.  In every world that the saving and deleting functions of the profile
  lead to, under a clock that moves on between two changes, identifiers that never repeat and a
  \<open>lower()\<close> that keeps the empty text: saving a name succeeds, and the question about the user's name is then
  answered with it exactly when the name is not empty and not a value that the snapshot filters out
  (one that ends in a question word or a particle, or holds a colon or a reminder).  Whatever was stored
  before: nothing is more important than a name, so the record is found within the limits of the search,
  and the newest name wins.
\<close>

theorem name_update_is_remembered:
  assumes "profile_history e w" and "strict_mono (pe_clock e)" and "inj (pe_fresh e)" and "lowers_empty e"
  shows "fst (save_self_name_update e sid v t w) \<and>
    (answer_profile_query e (ask ''self_name'') (pw_store (snd (save_self_name_update e sid v t w))) =
       Some ((vn ''B~u1ea1n t~xean l~xe0 '') @ v @ ''.'')
     \<longleftrightarrow> v \<noteq> [] \<and> \<not> is_dirty_value (pe_chars e) v)"
proof -
  let ?st = "pw_store (snd (save_self_name_update e sid v t w))"
  obtain rs where rs: "confirmed_records e ?st = rs @ [name_record e sid v t (pw_tick w)]"
    using confirmed_ends_with_name [OF assms(4) history_older [OF assms(1,2)] save_name_store [OF history_fresh [OF assms(1-3)]]]
    by blast
  have "sn_name (collect_profile_snapshot e ?st) = Some v" if "v \<noteq> []" "\<not> is_dirty_value (pe_chars e) v"
    by (simp add: collect_profile_snapshot_def Let_def rs name_step [OF that])
  then have "answer_profile_query e (ask ''self_name'') ?st = Some (name_answer v) \<longleftrightarrow> shown_value e v"
    using only_shown_names_answered by (auto simp: shown_value_def self_name_answer)
  moreover have "fst (save_self_name_update e sid v t w)"
    by (simp add: save_self_name_update_def save_confirmed_profile_fact_def agent_save_def name_content_visible saved_def)
  ultimately show ?thesis by (simp add: shown_value_def)
qed

section \<open>What is saved without asking\<close>

lemma auto_content_visible: "\<not> blank (auto_content rel v)"
proof -
  have ex: "list_all (\<lambda>(k, t). list_ex visible t) (AUTO_CONTENT v)"
    by (simp add: AUTO_CONTENT_def visible_def)
  have "list_ex visible (auto_content rel v)"
  proof (cases "map_of (AUTO_CONTENT v) rel")
    case (Some t)
    then have "(rel, t) \<in> set (AUTO_CONTENT v)" by (rule map_of_SomeD)
    with ex Some show ?thesis by (auto simp: auto_content_def list_all_iff)
  qed (simp add: auto_content_def visible_def)
  then show ?thesis by (auto simp: list_ex_iff dest: visible_not_blank)
qed

lemma auto_save_succeeds: "fst (save_auto_profile_fact e sid c w)"
  by (simp add: save_auto_profile_fact_def agent_save_def auto_content_visible saved_def Let_def)

lemma first_of_Some: "first_of xs = Some r \<Longrightarrow> Some r \<in> set xs"
  by (induction xs) (auto split: option.splits)

lemma on_match_Some: "on_match u p s f = Some r \<Longrightarrow> \<exists>m. f m = Some r"
  by (auto simp: on_match_def split: option.splits)

lemma only_if_Some: "only_if c x = Some r \<longleftrightarrow> c \<and> r = x"
  by (auto simp: only_if_def)

lemma match_auto_shape:
  assumes "match_auto_pattern u s = Some (rel, v)"
  shows "is_valid_auto_value_shape u v \<and> \<not> has_question_mark s \<and> is_safe_for_auto_save u s"
proof -
  have c: "\<not> has_question_mark s" "is_safe_for_auto_save u s"
    using assms by (auto simp: match_auto_pattern_def Let_def split: if_splits)
  have "is_valid_auto_value_shape u v"
    using assms c unfolding match_auto_pattern_def Let_def
    by (auto dest!: first_of_Some on_match_Some [OF sym] simp: only_if_Some simp del: first_of.simps)
  with c show ?thesis by blast
qed

definition saves_safely :: "charset \<Rightarrow> string \<Rightarrow> auto_candidate \<Rightarrow> bool" where
  "saves_safely u t c \<longleftrightarrow>
     is_valid_auto_value u (ac_value c) \<and> \<not> has_question_mark (strip t) \<and> is_safe_for_auto_save u (strip t)"

text \<open>
  C19.  Whatever the user writes, what is recognised as a fact to be saved
  without asking has a value of a valid shape that is not on the lists of unsafe topics, and comes from a
  message that holds no question mark (the ASCII or the full-width one) and is not a command about notes;
  and saving it succeeds.  A question that is asked without a question mark is not excluded.
\<close>

theorem auto_saved_values_are_safe:
  "case detect_auto_candidate (pe_chars e) t of
     None \<Rightarrow> True
   | Some c \<Rightarrow> saves_safely (pe_chars e) t c \<and> fst (save_auto_profile_fact e sid c w)"
proof (cases "detect_auto_candidate (pe_chars e) t")
  case (Some c)
  then obtain rel v where "match_auto_pattern (pe_chars e) (strip t) = Some (rel, v)"
    "\<not> is_unsafe_value (pe_chars e) v" "ac_value c = v"
    by (auto simp: detect_auto_candidate_def only_if_Some split: option.splits)
  then have "saves_safely (pe_chars e) t c"
    using match_auto_shape by (fastforce simp: saves_safely_def is_valid_auto_value_def is_unsafe_value_def)
  with Some show ?thesis by (simp add: auto_save_succeeds)
qed simp

section \<open>Examples\<close>

definition px_env :: profile_env where
  "px_env = \<lparr>pe_host = \<lparr>py_str = (\<lambda>_. []), py_attr = (\<lambda>_ _. None), py_lower = id, py_isdigit = (\<lambda>_. False), py_int = (\<lambda>_. None)\<rparr>, pe_chars = vi_charset,
     pe_clock = (\<lambda>n. int n), pe_fresh = (\<lambda>n. ''id'' @ replicate n (CHR ''x'')), pe_today = ''2025-01-01'',
     pe_capitalize = id\<rparr>"

definition px_world :: profile_world where
  "px_world = snd (save_self_name_update px_env ''s'' ''Bac'' ''t'' \<lparr>pw_store = empty_store, pw_tick = 0\<rparr>)"

lemma px_lowers: "lowers_empty px_env"
  by (simp add: lowers_empty_def px_env_def)

lemma px_ok: "store_ok (pe_host px_env) (pw_store px_world)"
  by (auto simp: px_world_def save_self_name_update_def save_confirmed_profile_fact_def agent_save_def saved_def
      name_content_visible px_env_def new_record_def live_record_def empty_store_def
      intro!: store_ok_write store_ok_empty [unfolded empty_store_def])

lemma px_history: "profile_history px_env px_world"
  unfolding px_world_def by (rule history_operations(1) [OF profile_history.ph_empty])

lemma px_clock: "strict_mono (pe_clock px_env)" "inj (pe_fresh px_env)"
proof -
  show "strict_mono (pe_clock px_env)" by (simp add: px_env_def strict_mono_def)
  show "inj (pe_fresh px_env)" by (auto simp: px_env_def inj_def)
qed

lemma px_clean: "\<not> is_dirty_value (pe_chars px_env) ''An''"
  by code_simp

theorem deletions_are_scoped_witness:
  "deletes_exactly (pw_store px_world) (fst (delete_all_profile_memory px_env px_world))
     (pw_store (snd (delete_all_profile_memory px_env px_world))) profile_record"
  using deletions_are_scoped [OF px_ok px_lowers] by blast

theorem name_update_is_remembered_witness:
  "answer_profile_query px_env (ask ''self_name'')
     (pw_store (snd (save_self_name_update px_env ''s'' ''An'' ''t'' px_world))) =
   Some ((vn ''B~u1ea1n t~xean l~xe0 '') @ ''An'' @ ''.'')"
  by (rule iffD2 [OF conjunct2 [OF name_update_is_remembered [OF px_history px_clock px_lowers]]])
     (simp add: px_clean)

end
