(* ===== verification/Spec2Isabelle.thy ===== *)
theory Spec2Isabelle
  imports Examples Merge_Examples Harness_Examples Evidence_Examples Remote_Client Profile_Properties
begin

text \<open>
  TOMTIT-Agent: a verification library of the agent core (\<open>src/agent_core\<close>).

  \<^bold>\<open>The program.\<close>  A task agent keeps an \<open>AgentState\<close>.  \<open>RuntimeAgent.run\<close> asks a memory client
  for a context pack, asks a planner for a plan and validates it, lets the tool executor run
  the steps one by one, and composes a final answer.  The executor resolves the placeholders
  of a step's arguments, checks the argument contract, passes the call through the risk
  policy and the approval gate, calls the tool and records an observation.  Two more entry
  points save a decision that the user confirmed and recall decisions from memory.  Beside
  the agent the repository has a build harness that decides from digested evidence whether a
  change may be merged, and a conversation layer that keeps a profile of the user.

  \<^bold>\<open>The theories\<close>, in dependency order:

  \<^item> \<open>Prelude\<close>: results (\<open>exn + 'a\<close>, \<open>seqE\<close>, \<open>raise_first\<close>, \<open>mapE\<close>), Python strings as UTF-8
    bytes (\<open>strip\<close>, \<open>split_on\<close>, \<open>join\<close>), the named theorems of the development.
  \<^item> \<open>Py_Value\<close>: dynamic Python values and the parts of the interpreter that a model takes as a
    parameter (\<open>host\<close>: \<open>str()\<close>, attribute access, \<open>lower()\<close>, digits beyond ASCII).
  \<^item> \<open>Agent_State\<close>: \<open>state/\<close> (enums, observations, steps, the agent state, session state).
  \<^item> \<open>Tool_Safety\<close>: \<open>tools/base.py\<close>, \<open>tools/registry.py\<close>, \<open>safety/policy.py\<close>,
    \<open>safety/approval.py\<close>, \<open>safety/capability_gate.py\<close>, \<open>tools/runtime.py\<close>.
  \<^item> \<open>Arg_Resolver\<close> and \<open>Tool_Executor\<close>: \<open>tools/arg_resolver.py\<close>, \<open>tools/executor.py\<close>.
  \<^item> \<open>Planning\<close> and \<open>Skills\<close>: \<open>planning/\<close>, \<open>skills/\<close>.
  \<^item> \<open>Py_Regex\<close>: the regular expressions of the program: a reader for the syntax of Python's \<open>re\<close> that
    it uses and a backtracking matcher with groups, look-around and back references.  The Unicode
    tables (\<open>str.lower\<close>, \<open>isalpha\<close>, \<open>\w\<close> and the like) are the parameter \<open>charset\<close>.
  \<^item> \<open>Intent_Parser\<close>: \<open>planning/intent_parser.py\<close> with every pattern of it.
  \<^item> \<open>Memory_Store\<close> and \<open>Memory_Client\<close>: \<open>memory/in_memory_store.py\<close>, the client protocol with
    the local and the null client, \<open>memory/factory.py\<close>.
  \<^item> \<open>Remote_Client\<close>: \<open>memory/remote_client.py\<close> and \<open>memory/wire/v1.py\<close>.
  \<^item> \<open>Profile_Patterns\<close>, \<open>Profile_Detect\<close>, \<open>Profile_Query\<close>: the word lists and patterns of
    \<open>conversation/profile_memory.py\<close>; the facts, questions and commands it recognises in a message.
    \<open>Profile_Store\<close>, \<open>Profile_Snapshot\<close>: its save and delete functions over the in-memory store and the
    snapshot of the profile.  \<open>Profile_Replies\<close>, \<open>Profile_Answer\<close>: its texts and the answer to every kind of
    question.  \<open>Profile_Properties\<close>: what the profile memory promises.
  \<^item> \<open>Confirmation\<close>: \<open>confirmation/\<close> and \<open>safety/evidence.py\<close>.
  \<^item> \<open>Runtime_Agent\<close>: \<open>runtime/runtime_agent.py\<close>, \<open>runtime/lifecycle.py\<close>,
    \<open>output/final_composer.py\<close>.
  \<^item> \<open>Builtin_Tools\<close>: \<open>tools/builtin_tools.py\<close>, \<open>memory/memory_agent.py\<close>, the table of
    specifications and the argument schemas.
  \<^item> \<open>Sha256\<close>, \<open>Canonical\<close> and \<open>Canonical_Time\<close>: \<open>build_harness/canonical.py\<close>, with \<open>hashlib.sha256\<close>,
    \<open>datetime.strptime\<close> for its one format and double rounding written out.
  \<^item> \<open>Merge_Enums\<close>, \<open>Merge_Input\<close>, \<open>Merge_Policy\<close>: \<open>build_harness/merge_eligibility.py\<close>, the closed
    enums, the facts and the policy input with their JSON forms, the policy tables and the
    evaluator.
  \<^item> \<open>Merge_Record\<close> and \<open>Merge_Replay\<close>: \<open>merge_eligibility_record.py\<close>,
    \<open>merge_eligibility_facade.py\<close>, \<open>merge_eligibility_replay.py\<close>; \<open>Merge_Examples\<close> has the
    concrete inputs for their witnesses.
  \<^item> \<open>Json_Reader\<close>: \<open>json.loads\<close> of the standard library, which reads what \<open>Canonical\<close> writes.
  \<^item> \<open>Harness_Contract\<close>: \<open>validation.py\<close>, \<open>contracts.py\<close>, \<open>prompt_generator.py\<close> of the build harness.
  \<^item> \<open>Change_Gate\<close>: \<open>change_gate.py\<close>, with \<open>fnmatch\<close> written out.
  \<^item> \<open>Harness_Report\<close> and \<open>Harness_Process\<close>: \<open>reports.py\<close>; \<open>state.py\<close>, \<open>process_guard.py\<close>,
    \<open>next_action.py\<close>; \<open>Harness_Examples\<close> has the concrete inputs for their witnesses.
  \<^item> \<open>Str_Enum\<close>: the interface \<open>str_enum\<close> of the closed string enums, interpreted on every one of
    them.
  \<^item> \<open>Repository_Models\<close>, \<open>Provenance\<close>, \<open>Ports\<close>: \<open>repository_models.py\<close>, \<open>provenance.py\<close>,
    \<open>ports.py\<close>; \<open>Evidence_Examples\<close> has the concrete inputs for their witnesses.
  \<^item> \<open>Examples\<close>: the concrete inputs of the witnesses.

  \<^bold>\<open>State and effects.\<close>  Every operation takes the state and returns it updated.  A Python
  exception is the left value of a sum; where the code catches it the model does, and where it
  would leave \<open>run\<close> the outcome is \<open>Inl\<close> with the state at that moment.  A tool is a function of
  the record \<open>tool_spec\<close> that may return, return something that is no result, or raise.  A
  memory client is a record of functions on a world that it threads, so that a remote store is
  covered by the same theorems as the local one.  Time, fresh identifiers, web search, the
  arithmetic evaluator and pydantic's schema validation are parameters.  So are two things of
  \<open>json.loads\<close>: \<open>float()\<close>, and how many objects and arrays may enclose one another before the interpreter
  raises a \<open>RecursionError\<close> (\<open>json_env\<close>).

  \<^bold>\<open>Texts and numbers.\<close>  A text is its UTF-8 bytes.  Texts are those that UTF-8 can encode: a lone
  surrogate, on which \<open>encode\<close> would raise \<open>UnicodeEncodeError\<close>, is outside the model, except that the
  JSON reader gives its escape the three-byte form.  Integers are unbounded; \<open>json.loads\<close>, \<open>json.dumps\<close> and
  \<open>int()\<close> refuse more than 4300 digits.  A float is given by its \<open>repr\<close> text.  Outside the JSON reader
  no limit on recursion is modelled: the values that are canonicalised have a fixed nesting or were
  read by it.

  \<^bold>\<open>Loops.\<close>  The execution loop is a recursion over the plan with a step budget; the template
  scanner and the recall loop carry a measure; the JSON reader uses a
  fuel of twice the length of the text, which is shown to be enough.

  \<^bold>\<open>Interfaces.\<close>  \<open>Memory_Store\<close> states the contract of a note store as the locale \<open>note_store\<close>
  and interprets it on the in-memory store; \<open>Memory_Client\<close> states what a client promises about
  a context pack as \<open>client_contract\<close> and interprets it on the local and the null client, \<open>Remote_Client\<close> on the remote one;
  \<open>Profile_Properties\<close> states what removing records one by one does as \<open>removal\<close> and interprets it on the
  deletions of the profile.

  \<^bold>\<open>What is shown.\<close>  Below, in order: how a run ends and what it may not do; when a step
  succeeds; what a valid plan is and that the rule-based planner makes valid plans; when a
  confirmed decision is saved; that recall is bounded; the consistency of the store and the
  bounds of a context pack; what deleting, saving and summarising a profile do; that the merge decision is fail-closed, implements its policy
  and can be recorded and replayed; that a release is
  recommended only for a change that the gate, the reports and a human cleared; that evidence bundles are read back and their verdicts are about
  collected evidence; that canonical data and digests do not depend on the
  order of entries.

  \<^bold>\<open>Not modelled.\<close>  The other conversation modules, the session runtime that dispatches on them, file
  persistence, the goal extractor that nothing calls,
  the web API, the evidence files of the build harness, the command line.  Git, process
  and storage access of the harness are protocols (\<open>ports.py\<close>) without an implementation in the
  repository.
  Log lines of the executor, durations and the creation time of a step are left out of the state; the
  dictionary form of a memory record is not modelled.
\<close>

section \<open>The run of a task\<close>

text \<open>
  C1.  A run over the built-in tools (whatever subset is disabled) returns,
  whatever the memory client and the planner answer, provided the task and the planned steps
  carry identifiers that are not blank and steps name their tool by \<open>ToolName\<close>.  It ends done,
  completed or failed, with a final answer; it recorded at most \<open>max_steps\<close> observations, each
  untrusted evidence; and it is completed only if every executed step succeeded.
\<close>

theorem builtin_run_verdict:
  assumes "build_tool_registry (builtin_tool_specs env) dis = Inr (tools_of rt)"
    and "\<not> is_terminal s" and "\<not> blank (task_id s)"
    and "\<forall>s1 sts. make_plan rt s1 = Inr sts \<longrightarrow>
      (\<forall>st \<in> set sts. \<not> blank (step_id st) \<and> (\<exists>t. action st = Tool t))"
  shows "\<exists>s'. run rt s = Inr s' \<and> done_flag s' \<and> final_answer s' \<noteq> None \<and>
    status s' \<in> {agent_status.COMPLETED, agent_status.FAILED} \<and>
    (\<exists>obs. observations s' = observations s @ obs \<and> length obs \<le> max_steps s \<and>
      (\<forall>ob \<in> set obs. obs_trust ob = UNTRUSTED_EVIDENCE) \<and>
      (status s' = agent_status.COMPLETED \<longrightarrow> (\<forall>ob \<in> set obs. obs_success ob)))"
proof -
  have q: "gates_quiet (tools_of rt) s" by (rule builtin_gates_quiet [OF assms(1)])
  obtain s' where s': "run rt s = Inr s'"
    using run_total [OF assms(3) q] assms(4) by blast
  with run_good_verdict [OF s' assms(2) q] show ?thesis unfolding good_verdict_def by blast
qed

theorem builtin_run_verdict_witness:
  "\<exists>s'. run ex_runtime ex_note_state = Inr s' \<and> done_flag s' \<and> final_answer s' \<noteq> None"
proof -
  have "\<forall>s1 sts. make_plan ex_runtime s1 = Inr sts \<longrightarrow>
      (\<forall>st \<in> set sts. \<not> blank (step_id st) \<and> (\<exists>t. action st = Tool t))"
    by (auto simp: ex_runtime_def ex_plan_def strip_ids)
  then show ?thesis
    using builtin_run_verdict [of ex_env "{}" ex_runtime ex_note_state] ex_registry_built ex_open
    by (auto simp: ex_runtime_def ex_note_state_def ex_state_def strip_ids)
qed

text \<open>
  C2.  In a read-only run over the built-in tools no tool that is
  declared to mutate state is called: replacing the functions of all of them by arbitrary
  others does not change the outcome of the run.
\<close>

theorem read_only_run_never_mutates:
  assumes "build_tool_registry (builtin_tool_specs env) dis = Inr (tools_of rt)"
    and "\<not> is_terminal s" and "read_only s"
  shows "run (rt\<lparr>tools_of := replace_fns mutates_state f (tools_of rt)\<rparr>) s = run rt s"
  using run_refused [OF assms(2) read_only_refuses [OF assms(3)] builtin_gates_quiet [OF assms(1)]] .

theorem read_only_run_never_mutates_witness:
  "run (ex_runtime\<lparr>tools_of := replace_fns mutates_state (\<lambda>t s kw. Raised (ValueError ''called'') s)
       ex_registry\<rparr>) (ex_note_state\<lparr>read_only := True\<rparr>)
   = run ex_runtime (ex_note_state\<lparr>read_only := True\<rparr>)"
  using read_only_run_never_mutates [of ex_env "{}" ex_runtime "ex_note_state\<lparr>read_only := True\<rparr>"]
    ex_registry_built ex_open
  by (simp add: ex_runtime_def is_terminal_def ex_note_state_def ex_state_def)

text \<open>
  C3.  A completed run over the built-in tools whose memory was
  degraded and whose plan touches memory says so: the sentence for that reason is part of the
  final answer; likewise for a failed memory write that the user expected to persist.
\<close>

theorem degraded_memory_is_disclosed:
  assumes "build_tool_registry (builtin_tool_specs env) dis = Inr (tools_of rt)"
    and "run rt s = Inr s'" and "\<not> is_terminal s" and "status s' = agent_status.COMPLETED"
    and "memory_degraded s' \<and> task_touches_memory s' \<and> r = ''memory_degraded''
      \<or> memory_write_failed s' \<and> user_expected_persistence s' \<and> r = ''memory_write_failed''"
  shows "\<exists>a l. final_answer s' = Some a \<and> disclosure_text r = Some l \<and> sublist l a"
  using run_discloses [OF assms(2,3) builtin_gates_quiet [OF assms(1)] assms(4,5)] .


theorem degraded_memory_is_disclosed_witness:
  "\<exists>s' a l. run ex_degraded ex_note_state = Inr s' \<and> final_answer s' = Some a \<and>
     disclosure_text ''memory_degraded'' = Some l \<and> sublist l a"
proof -
  obtain s' where s': "run ex_degraded ex_note_state = Inr s'" "status s' = agent_status.COMPLETED"
    "memory_degraded s'" "task_touches_memory s'"
    using ex_degraded_run by blast
  moreover have "tools_of ex_degraded = ex_registry" by (simp add: ex_degraded_def ex_runtime_def)
  ultimately show ?thesis
    using degraded_memory_is_disclosed [of ex_env "{}" ex_degraded ex_note_state s' "''memory_degraded''"]
      ex_registry_built ex_open by auto
qed

section \<open>Executing a step\<close>

text \<open>
  C4.  A step is reported as successful only if its action is a
  registered tool, the risk policy and the approval gate let the call through, the arguments
  resolve and pass the argument contract of the tool, and the tool itself returned success.
\<close>

theorem successful_step_was_authorised:
  assumes "execute h tools st s = Inr (r, st', s')" and "success r"
  shows "\<exists>t tool kw r0 s0. action st = Tool t \<and> registry_get tools t = Some tool \<and>
     risk tool \<in> {LOW, MEDIUM} \<and> \<not> (mutates_state tool \<and> read_only s) \<and>
     \<not> (requires_approval tool \<and> name tool \<notin> approved_tools s) \<and>
     prepare_args h tool (mark_running st) s = Inr kw \<and> fn tool s kw = Returned r0 s0 \<and> success r0"
  using execute_success [OF assms] unfolding gates_pass_def by blast

theorem successful_step_was_authorised_witness:
  "\<exists>t tool. action (hd ex_plan) = Tool t \<and> registry_get ex_registry t = Some tool
     \<and> risk tool \<in> {LOW, MEDIUM}"
proof -
  have "task_id ex_state = ''task-1''" by (simp add: ex_state_def)
  from ex_execute_finish [OF this, of ex_host] show ?thesis
    using successful_step_was_authorised [of ex_host ex_registry "hd ex_plan" ex_state]
    unfolding ex_plan_def list.sel by blast
qed

section \<open>Planning\<close>

text \<open>
  C5.  A plan is accepted exactly when it has a step, the step identifiers are
  distinct, every step names a registered tool and gives the required arguments and no others
  than the allowed ones, and every dependency is an identifier of the same or an earlier step.
\<close>

theorem valid_plan_meaning:
  "validate_plan sts tools = Inr () \<longleftrightarrow>
     sts \<noteq> [] \<and> distinct (map step_id sts) \<and>
     (\<forall>st \<in> set sts. \<exists>sp. find_tool tools (action st) = Some sp \<and>
        required_args sp \<subseteq> fst ` set (args st) \<and> fst ` set (args st) \<subseteq> allowed_args sp) \<and>
     (\<forall>i < length sts. set (depends_on (sts ! i)) \<subseteq> step_id ` set (take (Suc i) sts))"
  unfolding validate_plan_iff step_ok_def deps_ok_def by simp

theorem valid_plan_meaning_witness:
  "validate_plan ex_plan ex_registry = Inr () \<and>
     (\<exists>sp. find_tool ex_registry (action (hd ex_plan)) = Some sp \<and>
        required_args sp \<subseteq> fst ` set (args (hd ex_plan)))"
proof -
  have "hd ex_plan \<in> set ex_plan" by (simp add: ex_plan_def)
  then show ?thesis
    using valid_plan_meaning [of ex_plan ex_registry] ex_plan_valid by blast
qed

text \<open>
  With every built-in tool enabled the skill catalog can be built,
  and whatever the intent parser answers the rule-based planner returns a plan that the plan
  validator accepts (step identifiers generated without repetition).
\<close>

theorem rule_based_planner_valid:
  assumes "build_tool_registry (builtin_tool_specs env) {} = Inr reg" and "inj ids"
  shows "\<exists>c. build_skill_catalog h reg = Inr c \<and>
    (\<exists>sts. rule_based_make_plan parse c ids s = Inr sts \<and> validate_plan sts reg = Inr ())"
  using full_catalog(1) [OF assms(1)] rule_based_plan_valid [OF assms] by blast

theorem rule_based_planner_valid_witness:
  "\<exists>c. build_skill_catalog ex_host ex_registry = Inr c \<and>
    (\<exists>sts. rule_based_make_plan (\<lambda>g. ex_intent) c ex_ids ex_state = Inr sts \<and>
       validate_plan sts ex_registry = Inr ())"
  by (rule rule_based_planner_valid [OF ex_registry_built ex_ids_inj])

text \<open>
  C6.  Whatever registry the skill catalog was built for, and for
  every goal: when the rule-based planner with its regular-expression parser returns a plan, each calculation in
  it is given a text that starts with a decimal digit or an opening parenthesis, goes on with ASCII
  digits, parentheses, the four operators and dots only, and contains a digit.  When every built-in tool is
  enabled, it does return a plan, one that the plan validator accepts.  The hypothesis on the character
  table is that decimal digits are the ASCII ones and well-formed characters beyond ASCII, none of them
  white space.
\<close>

theorem planned_calculations_are_arithmetic:
  assumes "build_skill_catalog h reg = Inr c" and "digits_ok u"
  shows "(case rule_based_make_plan (rule_parse u) c ids s of
      Inl _ \<Rightarrow> True | Inr sts \<Rightarrow> list_all (calc_arg_ok u) sts) \<and>
    (build_tool_registry (builtin_tool_specs env) {} = Inr reg \<and> inj ids \<longrightarrow>
      (\<exists>sts. rule_based_make_plan (rule_parse u) c ids s = Inr sts \<and> validate_plan sts reg = Inr ()))"
proof (intro conjI impI)
  show "case rule_based_make_plan (rule_parse u) c ids s of
      Inl _ \<Rightarrow> True | Inr sts \<Rightarrow> list_all (calc_arg_ok u) sts"
    using parsed_plan_arith [OF assms(2,1)] by (auto split: sum.split)
  assume full: "build_tool_registry (builtin_tool_specs env) {} = Inr reg \<and> inj ids"
  show "\<exists>sts. rule_based_make_plan (rule_parse u) c ids s = Inr sts \<and> validate_plan sts reg = Inr ()"
    using rule_based_plan_valid [of env reg ids] full assms(1) by blast
qed

theorem planned_calculations_are_arithmetic_witness:
  "\<exists>c sts. build_skill_catalog ex_host ex_registry = Inr c
    \<and> rule_based_make_plan (rule_parse vi_charset) c ex_ids ex_state = Inr sts \<and> list_all (calc_arg_ok vi_charset) sts
    \<and> validate_plan sts ex_registry = Inr ()"
proof -
  obtain c where c: "build_skill_catalog ex_host ex_registry = Inr c" using full_catalog(1) [OF ex_registry_built] by blast
  from planned_calculations_are_arithmetic [OF c vi_digits_ok, of ex_ids ex_state] ex_registry_built ex_ids_inj
  show ?thesis using c by (fastforce split: sum.splits)
qed

text \<open>
  After slot validation an intent has nothing missing exactly when the
  parser reported nothing missing and every slot its intent requires has a value; validating
  again changes nothing.
\<close>

theorem slot_validation_exact:
  "(missing_slots (validate_slots p) = [] \<longleftrightarrow>
      missing_slots p = [] \<and> list_all (\<lambda>sl. \<not> is_missing (slot_value p sl)) (required_slots (intent p)))
   \<and> validate_slots (validate_slots p) = validate_slots p"
  by (simp add: validate_slots_missing validate_slots_idem list_all_iff)

text \<open>
  C7.  When a skill of the catalog serves the intent and all tools
  it requires are registered, the plan of the skill-aware planner is not empty and uses only
  registered tools.
\<close>

theorem skill_plans_use_available_tools:
  assumes "catalog_from_specs sks tools = Inr c" and "skill_aware_plan c ids p = Inr sts"
    and "missing_slots p = []" and "intent p \<in> applicable_intents sk" and "sk \<in> set sks"
    and "required_tools sk \<subseteq> fst ` set tools"
  shows "sts \<noteq> [] \<and> (\<forall>st \<in> set sts. action_text (action st) \<in> tool_name_value ` fst ` set tools)"
  by (rule skill_aware_plan_tools [OF assms])

theorem skill_plans_use_available_tools_witness:
  "\<exists>c sts. skill_aware_plan c ex_ids ex_intent = Inr sts \<and> sts \<noteq> []"
proof -
  obtain c sts where p: "catalog_from_specs (builtin_skill_specs ex_host) ex_registry = Inr c"
    "skill_aware_plan c ex_ids ex_intent = Inr sts"
    using ex_skill_plan by blast
  have "sts \<noteq> []"
    using skill_plans_use_available_tools [OF p, of "builtin_skill_specs ex_host ! 2"] ex_all_registered
    by (simp add: ex_intent_def builtin_skill_specs_def)
  with p(2) show ?thesis by blast
qed

section \<open>Saving a confirmed decision\<close>

text \<open>
  C8.  A confirmed save ends as completed only if the state
  held an operation that satisfies the write policy, the client accepts required writes, it was
  asked to store the one candidate of that operation, and it answered with one stored memory
  identifier or with that very candidate as an existing duplicate.
\<close>

theorem confirmed_save_completes_only_on_write:
  assumes "run_confirmed_save rt s = Inr s'" and "\<not> done_flag s" and "status s = CREATED"
    and "status s' = agent_status.COMPLETED"
  shows "\<exists>op mc c resp w. confirmed_save_operation s = Some op \<and> client_of rt = Some mc \<and>
     supports_required_write mc \<and> operation_ok op s \<and> to_candidate op s = Inr c \<and>
     write_memory_candidates mc (save_request op c s) (memory s) = (Inr resp, w) \<and>
     (written_ids resp = [] \<and> skipped resp = [confirmation_id (decision op)] \<or>
      (\<exists>m. written_ids resp = [m] \<and> skipped resp = [] \<and> \<not> blank m))"
  by (rule run_confirmed_save_completed [OF assms])

theorem confirmed_save_completes_only_on_write_witness:
  "\<exists>op. confirmed_save_operation ex_save_state = Some op \<and> operation_ok op ex_save_state"
proof -
  have "\<not> blank ''m9''" by (simp add: strip_visible visible_def)
  moreover obtain c where "to_candidate ex_operation ex_save_state = Inr c"
    using ex_operation_ok by (simp add: to_candidate_iff)
  ultimately obtain s' where "run_confirmed_save ex_degraded ex_save_state = Inr s'"
    "status s' = agent_status.COMPLETED"
    by (simp add: run_confirmed_save_def ex_save_state_def ex_state_def ex_degraded_def save_write_def
        complete_def state_defs validate_required_write_response_def ex_operation_def ex_decision_def
        strip_ids Let_def)
  then show ?thesis
    using confirmed_save_completes_only_on_write [of ex_degraded ex_save_state s']
    by (auto simp: ex_save_state_def ex_state_def)
qed

text \<open>
  C9.  When the state holds an operation that satisfies the write
  policy and a capable client answers with one stored identifier, the save completes, shows the
  identifier and the provenance, and leaves the memory the client left; running the save again
  changes nothing.
\<close>

theorem accepted_operation_is_saved:
  assumes "\<not> done_flag s" and "status s = CREATED" and "confirmed_save_operation s = Some op"
    and "operation_ok op s" and "client_of rt = Some mc" and "supports_required_write mc"
    and "\<And>c. to_candidate op s = Inr c \<Longrightarrow>
      write_memory_candidates mc (save_request op c s) (memory s) =
        (Inr \<lparr>written_ids = [m], skipped = []\<rparr>, w)"
    and "\<not> blank m"
  shows "\<exists>s'. run_confirmed_save rt s = Inr s' \<and> status s' = agent_status.COMPLETED \<and> memory s' = w \<and>
    final_answer s' = Some (''Decision saved.'' @ [CHR 0x0A] @ ''Memory ID: '' @ m @ [CHR 0x0A] @
      ''Provenance: user-explicit:'' @ op_task_id op @ '':'' @ confirmation_id (decision op)) \<and>
    run_confirmed_save rt s' = Inr s'"
proof -
  obtain c where c: "to_candidate op s = Inr c" using assms(4) by (simp add: to_candidate_iff)
  have v: "validate_required_write_response \<lparr>written_ids = [m], skipped = []\<rparr>
      (confirmation_id (decision op)) = Inr (Written m)"
    using assms(4,8) by (simp add: validate_required_write_response_iff operation_ok_def)
  have src: "opt_text (ev_source_ref (confirmation_evidence (decision op))) =
      ''user-explicit:'' @ op_task_id op @ '':'' @ confirmation_id (decision op)"
    using assms(4) by (simp add: operation_ok_def opt_text_def)
  show ?thesis
    using assms(1-3,5,6) assms(7) [OF c] c v src
    by (simp add: run_confirmed_save_def save_write_def complete_def state_defs Let_def)
qed

theorem accepted_operation_is_saved_witness:
  "\<exists>s'. run_confirmed_save ex_degraded ex_save_state = Inr s' \<and> status s' = agent_status.COMPLETED \<and>
     run_confirmed_save ex_degraded s' = Inr s'"
proof -
  define mc where "mc = the (client_of ex_degraded)"
  have "\<not> blank ''m9''" by (simp add: strip_visible visible_def)
  then show ?thesis
    using accepted_operation_is_saved [of ex_save_state ex_operation ex_degraded mc "''m9''"
      "memory ex_save_state"] ex_operation_ok
    by (auto simp: ex_save_state_def ex_state_def ex_degraded_def mc_def)
qed

text \<open>
  C10.  Without a capable client, without an operation, or with one that
  violates the write policy, a confirmed save does not touch the memory.
\<close>

theorem refused_save_leaves_memory:
  assumes "run_confirmed_save rt s = Inr s'"
    and "client_of rt = None \<or> (\<exists>mc. client_of rt = Some mc \<and> \<not> supports_required_write mc)
      \<or> confirmed_save_operation s = None \<or> (\<exists>op. confirmed_save_operation s = Some op \<and> \<not> operation_ok op s)"
  shows "memory s' = memory s"
  by (rule run_confirmed_save_untouched [OF assms])

theorem refused_save_leaves_memory_witness:
  "\<exists>s'. run_confirmed_save ex_runtime ex_state = Inr s' \<and> memory s' = memory ex_state"
proof -
  have "run_confirmed_save ex_runtime ex_state = Inr (save_failed ''missing_operation'' ex_state)"
    by (simp add: run_confirmed_save_def ex_state_def)
  from this refused_save_leaves_memory [OF this] show ?thesis by (simp add: ex_state_def)
qed

text \<open>
  C11.  The constructors agree with the write policy: an
  operation built from the evidence of a confirmation, its decision and its request identifier,
  placed in a state of the same task, session and a named user, satisfies the write policy.
\<close>

theorem confirmation_yields_acceptable_operation:
  assumes "\<not> blank task" and "\<not> blank conf" and "\<not> blank cont"
    and "make_confirmation_evidence task conf cont = Inr ev"
    and "confirmed_decision_init conf cont ev = Inr dec"
    and "confirmed_memory_request_id conf = Inr req"
    and "confirmed_save_operation_init req task sess dec = Inr op"
    and "confirmed_save_operation s = Some op" and "task_id s = strip task"
    and "session_id s = map_option strip sess" and "user_id s = Some u" and "\<not> blank u"
  shows "\<exists>c. to_candidate op s = Inr c \<and> mc_content c = strip cont \<and> mc_type c = DECISION \<and>
    evidence_ref c = Some (''user-explicit:'' @ strip task @ '':'' @ strip conf)"
proof -
  have ok: "operation_ok op s" by (rule confirmed_operation_accepted [OF assms])
  have "cd_content (decision op) = strip cont \<and> confirmation_id (decision op) = strip conf \<and> op_task_id op = strip task"
    using assms(5-7) by (auto simp: confirmed_decision_init_def confirmed_save_operation_init_def result_simps
        split: if_splits)
  with ok show ?thesis by (simp add: to_candidate_iff operation_ok_def)
qed

theorem confirmation_yields_acceptable_operation_witness:
  "\<exists>c. to_candidate ex_operation ex_save_state = Inr c \<and> mc_content c = strip ''ok''"
  using confirmation_yields_acceptable_operation
    [OF _ _ _ ex_confirmation(1,2,3,4), of ex_save_state "''u''"]
  by (auto simp: strip_ids ex_save_state_def ex_state_def)

section \<open>Recalling a decision\<close>

text \<open>
  C12.  A recall on an open state with a client ends: it makes at least one
  attempt and at most \<open>max_attempts\<close> (one if that is not positive), its state is terminal and
  has an answer, and it is the state that \<open>run_memory_recall\<close> returns.
\<close>

theorem recall_is_bounded:
  assumes "\<not> done_flag s" and "status s = CREATED" and "client_of rt = Some mc"
  shows "\<exists>n s'. recall_loop (host_of rt) mc max_tries 0 s = (n, s') \<and>
    run_memory_recall rt max_tries s = s' \<and> 1 \<le> n \<and> int n \<le> max 1 max_tries \<and>
    is_terminal s' \<and> final_answer s' \<noteq> None"
  using recall_loop_spec [of "host_of rt" mc max_tries 0 s] assms
  by (cases "recall_loop (host_of rt) mc max_tries 0 s") (auto simp: run_memory_recall_def)

theorem recall_is_bounded_witness:
  "\<exists>n s'. recall_loop ex_host null_client 3 0 ex_state = (n, s') \<and> 1 \<le> n \<and> n \<le> 3 \<and> is_terminal s'"
  using recall_is_bounded [of ex_state "ex_runtime\<lparr>client_of := Some null_client\<rparr>" null_client 3]
  by (auto simp: ex_state_def ex_runtime_def)

section \<open>Memory\<close>

text \<open>
  C13.  In a consistent store writing a note under a name that is not blank returns;
  afterwards reading that name (up to surrounding white space) gives the text, reading any other
  name gives what it gave before, and the store is consistent.
\<close>

theorem note_round_trip:
  assumes "store_ok h st" and "fresh_id st i" and "\<not> blank nm"
  shows "\<exists>r st'. write_note h now i nm cont st = Inr (r, st') \<and> store_ok h st' \<and>
    (\<forall>m. read_note st' m = (if strip m = strip nm then Some cont else read_note st m))"
proof -
  obtain r st' where w: "write_note h now i nm cont st = Inr (r, st')"
    using assms(3) write_note_total by metis
  with write_note_spec [OF assms(1) _ _ w] assms(2) show ?thesis
    by (auto simp: note_written_def fresh_id_def)
qed

theorem note_round_trip_witness:
  "\<exists>r st'. write_note ex_host 5 ''m0'' ''n'' ''text'' empty_store = Inr (r, st') \<and>
     read_note st' '' n'' = Some ''text''"
proof -
  have "strip '' n'' = ''n''" by code_simp
  then show ?thesis
    using note_round_trip [OF store_ok_empty, of "''m0''" "''n''" ex_host 5 "''text''"]
    by (auto simp: fresh_id_def empty_store_def strip_ids)
qed

text \<open>
  C14.  Every store that writes, updates, deletions, note writes and
  writes of the local client lead to is consistent: records are filed under their own
  identifier, every indexed name points to the live note of that name; and the names that
  \<open>list_notes\<close> lists are exactly those that can be read.
\<close>

theorem reachable_store_consistent:
  assumes "store_reach h st"
  shows "store_ok h st \<and> (strip n = n \<longrightarrow> (n \<in> set (list_notes st) \<longleftrightarrow> read_note st n \<noteq> None))"
  using store_reach_ok [OF assms] list_notes_read by blast

theorem reachable_store_consistent_witness:
  "store_ok ex_host (memory ex_note_state) \<and> ''n'' \<in> set (list_notes (memory ex_note_state))"
proof -
  have "store_reach ex_host (memory ex_note_state)"
    using store_reach.written [OF store_reach.start, of "new_note ''m0'' 3 ''n'' ''text''" ex_host 3]
    by (simp add: ex_note_state_def fresh_id_def empty_store_def)
  from reachable_store_consistent [OF this, of "''n''"] show ?thesis
    by (simp add: ex_note strip_ids)
qed

text \<open>
  C15.  A context pack of the local client is within what was asked for: its token
  count is the sum over its items and, when there are items, at most the budget; at most
  \<open>max_items\<close> items; every item is untrusted evidence from memory; the pack is marked degraded
  and the store is not changed.
\<close>

theorem local_pack_bounds:
  assumes "retrieve_context_pack (local_client h now ids) rq st = (Inr p, st')"
    and "0 \<le> rq_max_items rq"
  shows "tokens_used p = sum_list (map ci_tokens (items p)) \<and>
    (items p = [] \<or> int (tokens_used p) \<le> rq_budget rq) \<and>
    int (length (items p)) \<le> rq_max_items rq \<and> degraded p \<and> st' = st \<and>
    list_all (\<lambda>it. ci_trust it = UNTRUSTED_EVIDENCE \<and> ci_source_type it = MEMORY \<and>
      int (ci_tokens it) \<le> rq_budget rq) (items p)"
proof -
  have r: "local_retrieve h rq st = (Inr p, st')" using assms(1) by (simp add: local_client_def)
  note ok = local_retrieve_ok [OF r]
  have "int (ci_tokens it) \<le> rq_budget rq" if "it \<in> set (items p)" for it
    using local.item_tokens_bounded [OF assms(1) that] ok(4) by simp
  then show ?thesis using ok ok(5) [OF assms(2)] by (auto simp: pack_ok_def list_all_iff)
qed

theorem local_pack_bounds_witness:
  "\<exists>p. fst (local_retrieve ex_host \<lparr>rq_goal = ''g'', rq_user = None, rq_session = None,
      rq_budget = 10, rq_max_items = 3\<rparr> empty_store) = Inr p \<and> length (items p) \<le> 3"
proof -
  let ?rq = "\<lparr>rq_goal = ''g'', rq_user = None, rq_session = None, rq_budget = 10, rq_max_items = 3\<rparr>"
  obtain p where "local_retrieve ex_host ?rq empty_store = (Inr p, empty_store)"
    by (simp add: local_retrieve_def store_search_def list_all_records_def empty_store_def slice_to_def Let_def)
  then show ?thesis
    using local_pack_bounds [of ex_host 0 "\<lambda>_. ''i''" ?rq empty_store p] by (simp add: local_client_def)
qed

text \<open>
  The tools that a memory backend disables are the ones it may not
  be used with: a registry built with them disabled passes the activation check of that backend,
  and every other built-in tool is in it.
\<close>

theorem backend_allows_its_registry:
  assumes "build_memory_backend cfg = Inr bc"
    and "build_tool_registry builtin (disabled_tools bc) = Inr reg"
  shows "validate_memory_activation (Some (bc_client bc)) reg = Inr () \<and>
    fst ` set reg = set all_tool_names - disabled_tools bc"
  using assms(1) build_tool_registry_keys(1) [OF assms(2)]
  by (auto simp: build_memory_backend_def validate_memory_activation_def result_simps
      split: memory_backend.splits)

theorem backend_allows_its_registry_witness:
  "\<exists>bc reg. build_memory_backend \<lparr>backend = NoBackend, base_url = None, project_id = None,
      default_user_id = None\<rparr> = Inr bc \<and>
    build_tool_registry (builtin_tool_specs ex_env) (disabled_tools bc) = Inr reg \<and>
    validate_memory_activation (Some (bc_client bc)) reg = Inr ()"
proof -
  let ?cfg = "\<lparr>backend = NoBackend, base_url = None, project_id = None, default_user_id = None\<rparr>"
  obtain bc where b: "build_memory_backend ?cfg = Inr bc" by (simp add: build_memory_backend_def)
  moreover obtain reg where "build_tool_registry (builtin_tool_specs ex_env) (disabled_tools bc) = Inr reg"
    by (simp add: build_builtin_registry)
  ultimately show ?thesis using backend_allows_its_registry [OF b] by blast
qed

section \<open>Canonical data\<close>

text \<open>
  C20.  The canonical JSON of an object and its digest do not depend on
  the order of the entries, and a digest is the prefix \<open>sha256:\<close> with 64 lower-case hexadecimal
  digits.
\<close>

theorem canonical_digest_order_free:
  assumes "mset kvs = mset kvs'" and "canonical_digest nfc (VDict kvs) = Inr d"
  shows "canonical_digest nfc (VDict kvs') = Inr d \<and> sha256_digest_grammar d"
proof -
  obtain b where b: "canonical_json_bytes nfc (VDict kvs) = Inr b" "d = sha256_digest_bytes b"
    using assms(2) by (auto simp: canonical_digest_def result_simps)
  then show ?thesis
    using canonical_json_perm [OF assms(1) b(1)] by (simp add: canonical_digest_def sha256_digest_shape)
qed

theorem canonical_digest_order_free_witness:
  "canonical_digest id (VDict [(VStr ''a'', VInt 1), (VStr ''b'', VNone)])
   = canonical_digest id (VDict [(VStr ''b'', VNone), (VStr ''a'', VInt 1)])"
proof -
  obtain d where "canonical_digest id (VDict [(VStr ''a'', VInt 1), (VStr ''b'', VNone)]) = Inr d"
    by (simp add: canonical_digest_def canonical_json_bytes_def show_nat.simps)
  with canonical_digest_order_free [OF _ this, of "[(VStr ''b'', VNone), (VStr ''a'', VInt 1)]"]
  show ?thesis by simp
qed

text \<open>
  Canonicalisation is idempotent, given that Unicode normalisation is:
  what it returns it accepts and returns unchanged.
\<close>

theorem canonicalize_idempotent:
  assumes "\<forall>s. nfc (nfc s) = nfc s" and "canonicalize nfc v = Inr w"
  shows "canonicalize nfc w = Inr w"
  by (rule canonicalize_idem_all(1) [OF assms])

theorem canonicalize_idempotent_witness:
  "canonicalize id (VList [VTuple [VInt 1], VStr ''a'']) = Inr (VList [VList [VInt 1], VStr ''a'']) \<and>
   canonicalize id (VList [VList [VInt 1], VStr ''a'']) = Inr (VList [VList [VInt 1], VStr ''a''])"
  using canonicalize_idempotent [of id "VList [VTuple [VInt 1], VStr ''a'']"] by simp

text \<open>
  A path that the repository-path validator accepts is relative and stays
  inside the repository: it is not absolute, names no drive, has no control character and no
  backslash, and none of its segments is empty, \<open>.\<close> or \<open>..\<close>.
\<close>

theorem repo_path_is_relative:
  assumes "validate_repo_path nfc fld v = Inr p"
  shows "v = VStr p \<and> p \<noteq> [] \<and> hd p \<noteq> CHR ''/'' \<and> \<not> windows_drive p \<and> CHR 0x5C \<notin> set p \<and>
    \<not> list_ex control_char p \<and>
    set (split_on (CHR ''/'') p) \<inter> {[], ''.'', ''..''} = {}"
  using assms by (auto simp: validate_repo_path_Inr list_ex_iff bad_segment_def neq_Nil_conv)

theorem repo_path_is_relative_witness:
  "validate_repo_path id ''path'' (VStr ''src/a.py'') = Inr ''src/a.py'' \<and>
   ''..'' \<notin> set (split_on (CHR ''/'') ''src/a.py'')"
  using repo_path_is_relative [of id "''path''" "VStr ''src/a.py''" "''src/a.py''"]
  by (simp add: validate_repo_path_Inr windows_drive_def control_char_def bad_segment_def)

section \<open>Merge eligibility\<close>

text \<open>
  C21.  Under the production policy a change is eligible to merge exactly when
  every fact speaks for it: the evaluator returns a decision for all valid facts, and the decision is
  \<open>ELIGIBLE_TO_MERGE_UNDER_POLICY\<close> if and only if the contexts are current, the release clean, the
  evidence context known and free of violations, scope, approval and authority in order, the verifier
  attested and independent, and no requirement missing or invalid.  Anything unknown, stale or not
  evaluated blocks or asks for review.
\<close>

theorem merge_is_fail_closed:
  assumes "facts_ok (mi_facts m)"
  shows "\<exists>c. evaluate_decision_core m MERGE_ELIGIBILITY_POLICY_V1 = Inr c \<and>
    (dc_disposition c = disposition.ELIGIBLE_TO_MERGE_UNDER_POLICY \<longleftrightarrow> all_clear (mi_facts m))"
  using v1_decides [OF assms] v1_eligible_iff [OF assms] by blast

theorem merge_is_fail_closed_witness:
  "\<exists>c. evaluate_decision_core (ex_merge_input ex_missing_facts) MERGE_ELIGIBILITY_POLICY_V1 = Inr c \<and>
     dc_disposition c \<noteq> disposition.ELIGIBLE_TO_MERGE_UNDER_POLICY"
  using merge_is_fail_closed [of "ex_merge_input ex_missing_facts"] ex_facts_ok(2) ex_clear(2) by auto

text \<open>
  C22.  The evaluator implements the declarative reading of a policy.  For a
  policy that its constructor accepts and valid facts, none of whose triggered reasons has the
  default disposition \<open>ELIGIBLE\<close>, it returns a decision core whose complete reasons are exactly the
  triggered ones in sorted order, split into blocking and review reasons by their disposition; the
  disposition follows from the split, the primary reason is a triggered one of least rank, and the
  accounting repeats the facts.
\<close>

theorem evaluator_refines_policy:
  assumes "merge_policy_ok p" and "facts_ok (mi_facts m)"
    and "\<forall>x. triggered p (mi_facts m) x \<longrightarrow>
      \<not> has_disposition p disposition.ELIGIBLE_TO_MERGE_UNDER_POLICY x"
  shows "\<exists>c. evaluate_decision_core m p = Inr c \<and> decides p m c"
  by (rule evaluate_decides [OF assms])

theorem evaluator_refines_policy_witness:
  "\<exists>c. evaluate_decision_core (ex_merge_input ex_facts) MERGE_ELIGIBILITY_POLICY_V1 = Inr c \<and>
     decides MERGE_ELIGIBILITY_POLICY_V1 (ex_merge_input ex_facts) c"
  using evaluator_refines_policy [OF v1_ok, of "ex_merge_input ex_facts"] ex_facts_ok(1) v1_never_eligible
  by simp

text \<open>
  Evaluating in another mode changes nothing but the authority of
  the decision: shadow and enforcing evaluation fail alike, or give the same disposition, reasons and
  accounting.
\<close>

theorem mode_changes_authority_only:
  "evaluate_decision_core (m\<lparr>mi_mode := x\<rparr>) p =
     map_sum id (dc_authority_update (\<lambda>_. authority_of x)) (evaluate_decision_core m p)"
  by (rule evaluate_mode)

text \<open>
  C23.  Reading what was written: for every input that its constructors
  accept, the JSON reader refuses the canonical payload as it stands, because of the kind that it names,
  and takes the payload without that one entry back to the same input, facts included.
\<close>

theorem merge_input_round_trip_json:
  assumes "merge_input_init nfc m = Inr m" and "facts_init (mi_facts m) = Inr (mi_facts m)"
  shows "merge_input_from_json nfc (merge_input_payload m) =
      Inl (MergeEligibilityInputError ''MergeEligibilityPolicyInput: unknown field(s)'') \<and>
    merge_input_from_json nfc (without_kind (merge_input_payload m)) = Inr m"
  unfolding payload_without_kind
  using assms by (intro conjI merge_payload_refused merge_input_round_trip) (simp_all add: merge_input_init_iff facts_init_iff)

theorem merge_input_round_trip_json_witness:
  "merge_input_from_json id (without_kind (merge_input_payload (ex_merge_input ex_facts))) =
     Inr (ex_merge_input ex_facts)"
  using merge_input_round_trip_json [of id "ex_merge_input ex_facts"] ex_input_ok ex_facts_ok(1)
  by (simp add: merge_input_init_iff facts_init_iff)

text \<open>
  C24.  Whatever value the JSON reader is given, an input that it
  returns satisfies the whole invariant: identifiers and versions are tokens, bindings are digests
  (the approval possibly the sentinel), the four committed bindings hold, and the facts are coherent
  with sorted, duplicate-free identifier sets whose requirement accounting is a partition.
\<close>

theorem merge_reader_yields_valid_input:
  assumes "merge_input_from_json nfc v = Inr m"
  shows "merge_input_ok nfc m \<and> facts_ok (mi_facts m)"
  by (rule merge_input_from_json_ok [OF assms])

theorem merge_reader_yields_valid_input_witness:
  "merge_input_ok id (ex_merge_input ex_facts) \<and> facts_ok (mi_facts (ex_merge_input ex_facts))"
  by (rule merge_reader_yields_valid_input [OF merge_input_round_trip [OF ex_input_ok]])
     (simp add: ex_facts_ok)

text \<open>
  C25.  The facade is total on valid inputs whose identifiers are tokens,
  for any Unicode normalisation that leaves ASCII alone.  It returns a decision and a record of the
  evaluated core, and the validator finds no error in that record, alone or against the input.
\<close>

theorem facade_produces_valid_records:
  assumes "keeps_ascii nfc" and "merge_input_ok nfc m" and "facts_ok (mi_facts m)"
    and "tokens_ok (mi_facts m)"
  shows "\<exists>c d r. evaluate_merge_eligibility nfc m = Inr (d, r) \<and>
    evaluate_decision_core m MERGE_ELIGIBILITY_POLICY_V1 = Inr c \<and> id_core (er_identity r) = c \<and>
    validate_policy_evaluation_record nfc (TypedRecord r) (TypedInput m) VNone =
      Inr (validation_outcome [])"
proof -
  obtain c d r where x: "evaluate_merge_eligibility nfc m = Inr (d, r)"
    "evaluate_decision_core m MERGE_ELIGIBILITY_POLICY_V1 = Inr c" "evaluated_record nfc m c d r"
    using facade_ok [OF assms] by blast
  then have r: "record_ok nfc r" "bound_identity nfc m c (er_identity r)" "id_core (er_identity r) = c"
    by (simp_all add: evaluated_record_def bound_identity_def)
  have "validate_policy_evaluation_record nfc (TypedRecord r) (TypedInput m) VNone = Inr (validation_outcome [])"
    by (simp add: validate_typed [OF r(1)] input_binding_typed [OF r(2)] universe_errors_def)
  with x r(3) show ?thesis by blast
qed

theorem facade_produces_valid_records_witness:
  "\<exists>d r. evaluate_merge_eligibility id (ex_merge_input ex_facts) = Inr (d, r) \<and>
     validate_policy_evaluation_record id (TypedRecord r) (TypedInput (ex_merge_input ex_facts)) VNone =
       Inr (validation_outcome [])"
  using facade_produces_valid_records [OF keeps_ascii_id ex_input_ok, of ex_facts] ex_facts_ok(1) ex_tokens_ok(1)
  by auto

text \<open>
  C26.  A record of the facade replays: with registries that resolve the policy
  identity of the input to the production policy and its evaluator version to the evaluator, semantic
  replay of the record against the same input ends \<open>SEMANTICALLY_REPLAY_VERIFIED\<close>.
\<close>

theorem facade_record_replays:
  assumes "keeps_ascii nfc" and "merge_input_ok nfc m" and "facts_ok (mi_facts m)"
    and "tokens_ok (mi_facts m)"
    and "resolve_policy policies \<lparr>pid_version = mi_policy_version m,
        pid_digest = policy_digest (mi_bindings m)\<rparr> = Some MERGE_ELIGIBILITY_POLICY_V1"
    and "resolve_evaluator evaluators (mi_evaluator_version m) = Some evaluate_decision_core"
  shows "\<exists>d r res. evaluate_merge_eligibility nfc m = Inr (d, r) \<and>
    verify_semantic_replay nfc m (TypedRecord r) policies evaluators = Inr res \<and>
    rp_classification res = SEMANTICALLY_REPLAY_VERIFIED"
  using v1_evaluator.evaluated_record_replays [OF assms] by (auto simp: evaluate_merge_eligibility_def)

theorem facade_record_replays_witness:
  "\<exists>d r res. evaluate_merge_eligibility id (ex_merge_input ex_facts) = Inr (d, r) \<and>
     verify_semantic_replay id (ex_merge_input ex_facts) (TypedRecord r) ex_policies ex_evaluators = Inr res \<and>
     rp_classification res = SEMANTICALLY_REPLAY_VERIFIED"
  using facade_record_replays [OF keeps_ascii_id ex_input_ok _ _ ex_registries(3,4), of ex_facts]
    ex_facts_ok(1) ex_tokens_ok(1) by simp

text \<open>
  C27.  A verified replay is evidence about the facts.  If a stored record
  names the production policy and the evaluator, and replay against an input with valid facts ends
  verified, then the stored reasons, accounting and disposition are those that the evaluator computes,
  and the record says eligible exactly when the facts are all clear.
\<close>

theorem verified_replay_is_sound:
  assumes "verify_semantic_replay nfc m (TypedRecord r) policies evaluators = Inr res"
    and "rp_classification res = SEMANTICALLY_REPLAY_VERIFIED"
    and "resolve_policy policies \<lparr>pid_version = id_policy_version (er_identity r),
        pid_digest = policy_digest (id_bindings (er_identity r))\<rparr> = Some MERGE_ELIGIBILITY_POLICY_V1"
    and "resolve_evaluator evaluators (id_evaluator_version (er_identity r)) = Some evaluate_decision_core"
    and "facts_ok (mi_facts m)"
  shows "\<exists>c. evaluate_decision_core m MERGE_ELIGIBILITY_POLICY_V1 = Inr c \<and>
      complete_reason_codes (id_core (er_identity r)) = complete_reason_codes c \<and>
      dc_accounting (id_core (er_identity r)) = facts_accounting (mi_facts m) \<and>
      (dc_disposition (id_core (er_identity r)) = disposition.ELIGIBLE_TO_MERGE_UNDER_POLICY
        \<longleftrightarrow> all_clear (mi_facts m))"
proof -
  obtain c where c: "evaluate_decision_core m MERGE_ELIGIBILITY_POLICY_V1 = Inr c"
    "c\<lparr>dc_authority := dc_authority (id_core (er_identity r))\<rparr> = id_core (er_identity r)"
    using v1_evaluator.replay_sound [OF assms(1-4)] by blast
  have "complete_reason_codes (id_core (er_identity r)) = complete_reason_codes c"
    "dc_accounting (id_core (er_identity r)) = dc_accounting c"
    "dc_disposition (id_core (er_identity r)) = dc_disposition c"
    using arg_cong [OF c(2), of complete_reason_codes] arg_cong [OF c(2), of dc_accounting]
      arg_cong [OF c(2), of dc_disposition] by simp_all
  moreover have "dc_accounting c = facts_accounting (mi_facts m)"
    using v1_decides [OF assms(5)] c(1) by (auto simp: decides_def)
  ultimately show ?thesis using v1_eligible_iff [OF assms(5) c(1)] c(1) by simp
qed

theorem verified_replay_is_sound_witness:
  "\<exists>r res. verify_semantic_replay id (ex_merge_input ex_facts) (TypedRecord r) ex_policies ex_evaluators = Inr res \<and>
     rp_classification res = SEMANTICALLY_REPLAY_VERIFIED \<and>
     dc_disposition (id_core (er_identity r)) = disposition.ELIGIBLE_TO_MERGE_UNDER_POLICY"
proof -
  let ?m = "ex_merge_input ex_facts"
  obtain c d r res where x: "evaluate_decision_core ?m MERGE_ELIGIBILITY_POLICY_V1 = Inr c"
    "finalize_decision id ?m c = Inr d" "build_policy_evaluation_record id ?m d = Inr r"
    "verify_semantic_replay id ?m (TypedRecord r) ex_policies ex_evaluators = Inr res"
    "rp_classification res = SEMANTICALLY_REPLAY_VERIFIED"
    using v1_evaluator.evaluated_record_replays [OF keeps_ascii_id ex_input_ok _ _ ex_registries(3,4), of ex_facts]
      ex_facts_ok(1) ex_tokens_ok(1) by auto
  have "identity_echo (er_identity r) = input_echo ?m"
    using finalize_decision_Inr [OF x(2)] build_record_Inr [OF x(3)] by (simp add: bound_identity_def)
  then have "id_policy_version (er_identity r) = mi_policy_version ?m"
    "policy_digest (id_bindings (er_identity r)) = policy_digest (mi_bindings ?m)"
    "id_evaluator_version (er_identity r) = mi_evaluator_version ?m"
    by (simp_all add: identity_echo_def input_echo_def echo_values_def binding_items_def)
  then have "dc_disposition (id_core (er_identity r)) = disposition.ELIGIBLE_TO_MERGE_UNDER_POLICY"
    using verified_replay_is_sound [OF x(4,5)] ex_registries(3,4) [of ex_facts] ex_facts_ok(1) ex_clear(1)
    by auto
  with x(4,5) show ?thesis by blast
qed

text \<open>
  C28.  The facts accept any identifier without control characters, the
  record only tokens.  For valid facts with an identifier that is not a token the facade returns no
  decision: it raises \<open>RecordConstructionError\<close>.
\<close>

theorem facade_refuses_non_tokens:
  assumes "keeps_ascii nfc" and "facts_ok (mi_facts m)" and "\<not> tokens_ok (mi_facts m)"
  shows "\<exists>e. evaluate_merge_eligibility nfc m = Inl e \<and> exn_type e = ''RecordConstructionError''"
  by (rule facade_refuses [OF assms])

theorem facade_refuses_non_tokens_witness:
  "\<exists>e. evaluate_merge_eligibility id (ex_merge_input ex_odd_facts) = Inl e \<and>
     exn_type e = ''RecordConstructionError''"
  using facade_refuses_non_tokens [OF keeps_ascii_id, of "ex_merge_input ex_odd_facts"]
    ex_facts_ok(3) ex_tokens_ok(3) by simp

section \<open>Shipping a change\<close>

text \<open>
  C29.  The harness recommends a release only for a change that earned it.  Take a
  gate decision on a change, a process guard that was given this decision, the reports and the same
  contract, and the recommendation made from all of them: if it is \<open>READY_FOR_MERGE_OR_PUSH\<close>, every
  changed file is a clean path in scope and outside the forbidden patterns, every required command is
  proved by evidence of a completed run with exit code 0 at the expected commit, an implementer and a
  verifier report for this very task passed, and a human approved.
\<close>

theorem release_is_earned:
  assumes "na_action (recommend_next_action (gi_contract g) (pg_implementer_report p) (pg_verifier_report p)
      (Some (evaluate_change_gate h g)) (Some (evaluate_process_guard p))) = ''READY_FOR_MERGE_OR_PUSH''"
    and "pg_contract p = gi_contract g"
    and "pg_changegate_decision p = decision_obj (evaluate_change_gate h g)"
  shows "passes g \<and> workflow_complete p"
proof -
  have p: "workflow_complete p" using recommendation_needs_pass [OF assms(1)] guard_pass_iff [of p] by auto
  then have "validate_change_gate_decision (gi_contract g) (decision_obj (evaluate_change_gate h g)) = []"
    using assms(2,3) by (simp add: workflow_complete_def)
  with p show ?thesis by (simp add: trusted_iff_pass gate_pass_iff)
qed

theorem release_is_earned_witness: "passes hx_gate_input \<and> workflow_complete hx_guard_input"
proof (rule release_is_earned [where h = hx_host])
  show "na_action (recommend_next_action (gi_contract hx_gate_input) (pg_implementer_report hx_guard_input)
      (pg_verifier_report hx_guard_input) (Some (evaluate_change_gate hx_host hx_gate_input))
      (Some (evaluate_process_guard hx_guard_input))) = ''READY_FOR_MERGE_OR_PUSH''"
    using hx_recommendation by (simp add: hx_gate_input_def hx_guard_input_def)
qed (simp_all add: hx_gate_input_def hx_guard_input_def)

text \<open>
  C30.  The process guard passes exactly when the intended action is one it knows,
  both reports are trusted for their slot and passed, the gate decision withstands a second check, a
  human approved, and, for anything but continuing, the task is in a state from which the action is
  legal.
\<close>

theorem guard_passes_exactly:
  "pd_decision (evaluate_process_guard p) = ''PASS'' \<longleftrightarrow>
     (\<exists>a. action_of (pg_intended_action p) = Some a \<and>
        (a = CONTINUE \<or> pg_task_state p \<in> set (VALID_SHIP_STATES a)) \<and>
        passing_report (pg_contract p) ''implementer'' (pg_implementer_report p) \<and>
        passing_report (pg_contract p) ''verifier'' (pg_verifier_report p) \<and>
        validate_change_gate_decision (pg_contract p) (pg_changegate_decision p) = [] \<and>
        pg_human_approved p)"
  unfolding guard_pass_iff workflow_complete_def by blast

text \<open>
  C31.  The change gate passes exactly when there is a changed file, every changed
  path normalises to one that matches no forbidden pattern and is in scope, no dependency file changed
  where the contract wants approval for it, every evidence record is well formed, no two share an
  identifier, and every required command is proved by one of them.
\<close>

theorem gate_passes_exactly: "gd_decision (evaluate_change_gate h g) = ''PASS'' \<longleftrightarrow> passes g"
  by (rule gate_pass_iff)

text \<open>
  C32.  The second check of a gate decision agrees with the gate: on the
  decisions that the gate makes for a contract it finds no error exactly when the decision is
  \<open>PASS\<close>.
\<close>

theorem genuine_decisions_are_trusted:
  "validate_change_gate_decision (gi_contract g) (decision_obj (evaluate_change_gate h g)) = [] \<longleftrightarrow>
     gd_decision (evaluate_change_gate h g) = ''PASS''"
  by (rule trusted_iff_pass)

text \<open>
  C33.  Whatever events a task has seen since its draft, it is done only if
  the last ones were implementation, report, verification requested and passed, gate passed, human
  approval and merge, in this order; it is approved only after the same without the merge; and it is
  never in \<open>READY_FOR_MERGE\<close>.
\<close>

theorem done_only_after_delivery:
  assumes "delivers es s"
  shows "s \<noteq> READY_FOR_MERGE \<and>
    (s = DONE \<longrightarrow> suffix [IMPLEMENTATION_STARTED, IMPLEMENTATION_REPORT_INGESTED, VERIFICATION_REQUESTED,
       VERIFICATION_PASSED, CHANGEGATE_PASSED, HUMAN_APPROVED, MERGED] es) \<and>
    (s = APPROVED \<longrightarrow> suffix [IMPLEMENTATION_STARTED, IMPLEMENTATION_REPORT_INGESTED, VERIFICATION_REQUESTED,
       VERIFICATION_PASSED, CHANGEGATE_PASSED, HUMAN_APPROVED] es)"
  using delivers_invariant [OF assms]
  by (auto simp: approve_events_def verify_events_def build_events_def)

theorem done_only_after_delivery_witness:
  "delivers [CONTRACT_VALIDATED, IMPLEMENTATION_STARTED, IMPLEMENTATION_REPORT_INGESTED, VERIFICATION_REQUESTED,
     VERIFICATION_PASSED, CHANGEGATE_PASSED, HUMAN_APPROVED, MERGED] DONE \<and> DONE \<noteq> READY_FOR_MERGE"
  using done_only_after_delivery [OF hx_delivery] hx_delivery by blast

text \<open>
  C34.  A contract that the loader accepts is well formed (every text stripped and
  not empty, a valid task identifier, a criterion, a known risk level, no paths only with broad scope),
  and its dictionary form is read back as the same contract.
\<close>

theorem contracts_read_back:
  assumes "validate_contract_dict v = Inr c"
  shows "contract_ok c \<and> validate_contract_dict (contract_to_dict c) = Inr c"
  using validate_contract_ok [OF assms] contract_round_trip_ok by blast

theorem contracts_read_back_witness: "validate_contract_dict (contract_to_dict hx_contract) = Inr hx_contract"
  using contracts_read_back [OF contract_round_trip_ok [OF hx_contract_ok]] by blast

text \<open>
  C35.  Reading an agent report never yields a report that is half valid: it
  is either within the closed vocabularies, for a valid task identifier and with an allowed status and
  result for its role, or it is blocked, without identity and with the reason.  Two exceptions can leave the
  reader, and only on texts that call for them: the plain \<open>ValueError\<close> that \<open>json.loads\<close> raises for an integer
  literal of more than 4300 digits, on a text with more digits than that; and the \<open>RecursionError\<close> for data
  nested too deeply, on a text with more opening brackets than the interpreter lets nest.
\<close>

theorem report_reader_fails_closed:
  "case parse_agent_report je txt of
     Inl e \<Rightarrow> exn_type e = ''ValueError'' \<and> 4300 < digit_count txt
       \<or> exn_type e = ''RecursionError'' \<and> je_depth je < bracket_count txt
   | Inr r \<Rightarrow> report_ok r \<or> report_refused r"
  using parse_report_error parse_report_cases by (simp add: report_reader_escape_def split: sum.split)

text \<open>
  C36.  Canonical JSON is an exact form of data.  When two values have
  canonical bytes (their canonicalisation succeeds and no integer has more than 4300 digits), they have the
  same bytes exactly when they are read back alike; and \<open>json.loads\<close> takes the bytes back to the canonical
  value with its keys sorted, provided that the interpreter reads data nested that deeply.  Floats are
  included, under the hypothesis that \<open>repr\<close> writes a finite float as a number with a fraction or an exponent
  from which \<open>float\<close> gives the float back.  Texts are those that UTF-8 can encode.
\<close>

theorem canonical_bytes_read_back:
  assumes "canonical_json_bytes nfc v = Inr b" and "floats_exact je v"
    and "canonical_json_bytes nfc v' = Inr b'" and "floats_exact je v'"
  shows "\<exists>w w'. canonicalize nfc v = Inr w \<and> canonicalize nfc v' = Inr w' \<and>
    (nested_within (je_depth je) v \<longrightarrow> json_loads je b = Inr (json_read w)) \<and>
    (b = b' \<longleftrightarrow> json_read w = json_read w')"
proof -
  obtain w where w: "canonicalize nfc v = Inr w" "b = json_dumps w" "json_plain je w"
    "nested_within (je_depth je) v \<Longrightarrow> json_loads je b = Inr (json_read w)"
    using canonical_bytes_read [OF assms(1,2)] by blast
  obtain w' where w': "canonicalize nfc v' = Inr w'" "b' = json_dumps w'" "json_plain je w'"
    using canonical_bytes_read [OF assms(3,4)] by blast
  have "b = b' \<longleftrightarrow> json_read w = json_read w'"
    unfolding w(2) w'(2) by (rule json_dumps_equal [OF w(3) w'(3)])
  with w(1,4) w'(1) show ?thesis by blast
qed

lemma ex_floats:
  "float_text ''1.5''" "floats_exact \<lparr>je_float = PyFinite, je_depth = 1\<rparr> (VTuple [VInt 1, VFloat (PyFinite ''1.5'')])"
  by code_simp+

theorem canonical_bytes_read_back_witness:
  "\<exists>b. canonical_json_bytes id (VTuple [VInt 1, VFloat (PyFinite ''1.5'')]) = Inr b \<and>
     json_loads \<lparr>je_float = PyFinite, je_depth = 1\<rparr> b = Inr (VList [VInt 1, VFloat (PyFinite ''1.5'')])"
proof -
  have "canonical_json_bytes id (VTuple [VInt 1, VFloat (PyFinite ''1.5'')]) = Inr ''[1,1.5]''" by code_simp
  from canonical_bytes_read_back [OF this ex_floats(2) this ex_floats(2)] this show ?thesis by simp
qed

section \<open>Evidence of a change\<close>

text \<open>
  C37.  A verification bundle that the JSON reader returns is valid through and
  through (the bundle, its candidate and snapshot, every verified record and every rejected result
  satisfy what their constructors check, the digests included), and its JSON form is read back as the
  same bundle.
\<close>

theorem bundle_json_exact:
  assumes "bundle_from_json nfc nd v = Inr b"
  shows "bundle_ok nfc nd b \<and> bundle_from_json nfc nd (bundle_to_json b) = Inr b"
  using bundle_from_json_ok [OF assms] bundle_round_trip by blast

theorem bundle_json_exact_witness:
  "bundle_from_json ev_nfc ev_digits (bundle_to_json ev_bundle) = Inr ev_bundle \<and> bundle_ok ev_nfc ev_digits ev_bundle"
  using bundle_json_exact [OF bundle_round_trip [OF ev_bundle_ok]] by blast

text \<open>
  C38.  In the record of a run every verdict of its bundle, verified or
  rejected, is about exactly one piece of the collected evidence, and names the run and the task of that
  evidence, which are the run and the task of the record; no evidence is verified and rejected;
  and all collected evidence belongs to the task, the run and the candidate commit and tree of the
  record, which are those of the bundle and of the final snapshot.
\<close>

theorem verdicts_are_about_collected_evidence:
  assumes "run_record_init sv t i c es s (Instance b) = Inr r"
    and "bundle_init nfc sv' t' c' vs rs s' d = Inr b"
  shows "(\<forall>v \<in> set (vb_verified b). collected_once r (ve_evidence_id v) (ve_run_id v) (ve_task_id v))
    \<and> (\<forall>x \<in> set (vb_rejected b). collected_once r (vr_evidence_id x) (vr_run_id x) (vr_task_id x))
    \<and> ve_evidence_id ` set (vb_verified b) \<inter> vr_evidence_id ` set (vb_rejected b) = {}
    \<and> (\<forall>e \<in> set (rr_collected_evidence r). pv_task_id (ce_provenance e) = rr_task_id r
        \<and> pv_run_id (ce_provenance e) = rr_run_id r
        \<and> pv_commit_sha (ce_provenance e) = cb_candidate_commit_sha (vb_candidate_binding b)
        \<and> pv_tree_sha (ce_provenance e) = cb_candidate_tree_sha (vb_candidate_binding b))
    \<and> vb_task_id b = rr_task_id r \<and> vb_candidate_binding b = rr_candidate_binding r
    \<and> sn_head_commit_sha (rr_final_snapshot r) = cb_candidate_commit_sha (rr_candidate_binding r)"
proof -
  have r: "run_record_ok r" "rr_verification_bundle r = Some b"
    using assms(1) by (auto simp: run_record_init_Inr option_slot_def split: option.splits)
  note once = verdicts_collected_once [OF r]
  moreover have "ve_evidence_id ` set (vb_verified b) \<inter> vr_evidence_id ` set (vb_rejected b) = {}"
    using assms(2) by (simp add: bundle_init_Inr bundle_coherent_def)
  ultimately show ?thesis
    using r by (simp add: run_record_ok_def no_collected_mismatches no_mismatches)
qed

theorem verdicts_are_about_collected_evidence_witness:
  "collected_once ev_record (ve_evidence_id ev_verified) (ve_run_id ev_verified) (ve_task_id ev_verified)"
proof -
  have b: "vb_verified ev_bundle = [ev_verified]" "rr_verification_bundle ev_record = Some ev_bundle"
    by (simp_all add: ev_bundle_def ev_record_def)
  have "\<exists>sv t i c es s. run_record_init sv t i c es s (Instance ev_bundle) = Inr ev_record"
    using ev_record_ok by (auto simp: run_record_init_Inr option_slot_def b)
  moreover have "\<exists>sv t c vs rs s d. bundle_init ev_nfc sv t c vs rs s d = Inr ev_bundle"
    using ev_bundle_ok by (auto simp: bundle_init_Inr bundle_ok_def)
  ultimately show ?thesis using verdicts_are_about_collected_evidence b(1) by fastforce
qed

text \<open>
  The status of a verdict that names a candidate and a snapshot is
  determined by the two: an accepted one has the status VERIFIED and a snapshot bound to its candidate in all
  six fields; a rejected one has the one primary mismatch of the two as its status, and when there is
  none (which means that they are bound and the worktree is clean) a status that is about neither.
\<close>

theorem rejected_status_is_determined:
  assumes "result_init nd kw (Instance c) (Instance s) = Inr r"
  shows "vr_accepted r = (vr_status r = verification_status.VERIFIED) \<and>
    (if vr_accepted r then candidate_snapshot_mismatches c s = []
     else case expected_context_mismatch_status c s of
            Some st \<Rightarrow> vr_status r = st
          | None \<Rightarrow> vr_status r \<in> set NON_CONTEXT_REJECTION_STATUSES
              \<and> candidate_snapshot_mismatches c s = [] \<and> sn_is_release_clean s)"
  using result_init_coherent [of nd kw "Some c" "Some s" r] assms rejection_statuses
  by (auto simp: option_slot_def result_coherent_def is_ok_iff validate_result_context_ok validate_rejected_context_ok
      dest: no_context_mismatch [THEN iffD1] split: option.splits if_splits)

theorem rejected_status_is_determined_witness:
  "expected_context_mismatch_status ev_candidate (ev_snapshot ''snap-2'' [''wip.py'']) = Some (vr_status ev_rejected)"
proof -
  obtain kw where "result_init ev_digits kw (Instance ev_candidate) (Instance (ev_snapshot ''snap-2'' [''wip.py'']))
      = Inr ev_rejected"
    using result_rebuild [OF ev_rejected_ok] by (auto simp: ev_rejected_def option_slot_def)
  from rejected_status_is_determined [OF this] show ?thesis by (simp add: ev_dirty ev_rejected_def)
qed

text \<open>
  C39.  A command result has exactly one terminal state, with an exit code only when it
  exited.  Its end is not before its start, and the declared duration is that of the time stamps: for
  a command of up to 35 years (\<open>2 ^ 50\<close> microseconds) it is off by at most one millisecond.
\<close>

theorem command_result_times:
  assumes "execution_result_init nd kw out err = Inr r"
  shows "\<exists>state start finish. terminal_state_of r = Some state
    \<and> parse_rfc3339_utc nd (xr_started_at r) = Inr start \<and> parse_rfc3339_utc nd (xr_completed_at r) = Inr finish
    \<and> start \<le> finish \<and> 0 \<le> xr_duration_ms r
    \<and> (finish - start \<le> 2 ^ 50 \<longrightarrow> \<bar>1000 * xr_duration_ms r - int (finish - start)\<bar> \<le> 1000)"
proof -
  have t: "terminal_state_of r \<noteq> None" "times_ok nd (xr_started_at r) (xr_completed_at r) (xr_duration_ms r)"
    using execution_result_terminal [OF assms] by blast+
  then obtain start finish where p: "parse_rfc3339_utc nd (xr_started_at r) = Inr start"
    "parse_rfc3339_utc nd (xr_completed_at r) = Inr finish" "start \<le> finish" "0 \<le> xr_duration_ms r"
    "validate_duration_ms nd ''duration_ms'' (xr_duration_ms r) (xr_started_at r) (xr_completed_at r) = Inr ()"
    unfolding times_ok_def by blast
  have "\<bar>1000 * xr_duration_ms r - int (finish - start)\<bar> \<le> 1000" if "finish - start \<le> 2 ^ 50"
  proof -
    have "\<bar>int finish - int start\<bar> \<le> 2 ^ 50" using p(3) that by (simp add: of_nat_diff)
    then show ?thesis
      using duration_rounding(1) [of finish start "xr_duration_ms r"] p by (simp add: validate_duration_ms_def of_nat_diff split: if_splits)
  qed
  with t(1) p show ?thesis by blast
qed

theorem command_result_times_witness:
  "\<exists>state start. terminal_state_of ev_result = Some state
     \<and> parse_rfc3339_utc ev_digits (xr_started_at ev_result) = Inr start"
  using command_result_times [OF ev_execution_result] by blast

section \<open>The remote memory client\<close>

text \<open>
  C40.  A remote write of a non-empty batch returns only if the service answered
  the posted request, which is for the configured project and has one wire candidate of its own identifier for every candidate,
  with a status below 400 and a response that repeats the identity of the request and has exactly one
  result for each candidate; every candidate is then reported as written under a memory identifier
  that is not blank, or as skipped.
\<close>

theorem remote_write_is_correlated:
  assumes "remote_write env cfg wq w = (Inr resp, w')" and "wq_candidates wq \<noteq> []"
  shows "\<exists>q w1 code body p.
    http_post env (rc_base_url cfg @ ''/v1/memories/write'') (write_request_json env q) w1 = (Answered code body, w')
    \<and> code < 400 \<and> parse_write_response env body = Inr p \<and> correlated q p resp
    \<and> ww_project_id q = strip (rc_project_id cfg)
    \<and> length (ww_candidates q) = length (wq_candidates wq)
    \<and> distinct (map wc_candidate_id (ww_candidates q))
    \<and> length (written_ids resp) + length (skipped resp) = length (wq_candidates wq)
    \<and> (\<forall>i \<in> set (written_ids resp). \<not> blank i)"
proof -
  obtain i usr task cs q w1 out where q: "to_write_candidates 1 (wq_candidates wq) = Inr cs"
    "write_request_init i (rc_project_id cfg) usr (wq_session wq) task cs = Inr q"
    "http_post env (rc_base_url cfg @ ''/v1/memories/write'') (write_request_json env q) w1 = (out, w')"
    "write_answer env q out = Inr resp"
    by (rule remote_write_posts [OF assms])
  obtain code body p where p: "out = Answered code body" "code < 400" "parse_write_response env body = Inr p"
    "correlated q p resp" "length (written_ids resp) + length (skipped resp) = length (ww_candidates q)"
    using write_answer_correlated [OF q(4)] by blast
  have "\<forall>i \<in> set (written_ids resp). \<not> blank i"
    using p(4) by (auto simp: correlated_def to_write_response_def with_status_def)
  with q(3) p write_request_init_fields [OF q(2)] to_write_candidates_length [OF q(1)] show ?thesis
    by (intro exI [of _ q] exI [of _ w1] exI [of _ code] exI [of _ body] exI [of _ p]) simp
qed

theorem remote_write_is_correlated_witness:
  "\<exists>q p. correlated q p \<lparr>written_ids = [''m1''], skipped = []\<rparr> \<and> length (ww_candidates q) = 1"
  using remote_write_is_correlated [OF rm_write_runs] by (auto simp: rm_write_def)


end
